(* ===== verification/Base64.thy ===== *)
theory Base64
  imports Prelude
begin

text \<open>
  The text codec of the propagation headers: \<open>b64encode\<close> and \<open>b64decode\<close> of
  \<open>skywalking/utils/lang.py\<close>.  They compose two pieces of the standard library which are modelled
  here first: UTF-8 decoding (a validity check, since a \<open>str\<close> is represented by its UTF-8 bytes) and
  \<open>base64\<close> over \<open>binascii.a2b_base64\<close> in its lenient mode, which skips characters outside the
  alphabet, stops at a complete padding sequence and rejects incomplete quads.
  The locale \<open>field_codec\<close> is what a header needs from the codec: decoding inverts encoding on valid
  text, and an encoded field never contains the separator; from it the round trip of a whole
  separated header is proved once.
\<close>

section \<open>UTF-8\<close>

abbreviation byte_of :: "char \<Rightarrow> nat" where
  "byte_of c \<equiv> of_char c"

fun valid_utf8 :: "string \<Rightarrow> bool" where
  "valid_utf8 [] = True"
| "valid_utf8 (a # s) =
     (let x = byte_of a in
      if x < 128 then valid_utf8 s
      else case s of
        [] \<Rightarrow> False
      | b # s1 \<Rightarrow>
          if 194 \<le> x \<and> x \<le> 223 then is_cont b \<and> valid_utf8 s1
          else case s1 of
            [] \<Rightarrow> False
          | c # s2 \<Rightarrow>
              if 224 \<le> x \<and> x \<le> 239 then
                is_cont b \<and> (x = 224 \<longrightarrow> 160 \<le> byte_of b) \<and> (x = 237 \<longrightarrow> byte_of b < 160)
                  \<and> is_cont c \<and> valid_utf8 s2
              else case s2 of
                [] \<Rightarrow> False
              | d # s3 \<Rightarrow>
                  240 \<le> x \<and> x \<le> 244
                  \<and> is_cont b \<and> (x = 240 \<longrightarrow> 144 \<le> byte_of b) \<and> (x = 244 \<longrightarrow> byte_of b < 144)
                  \<and> is_cont c \<and> is_cont d \<and> valid_utf8 s3)"

declare valid_utf8.simps(2) [simp del]

definition is_ascii :: "string \<Rightarrow> bool" where
  "is_ascii s = list_all (\<lambda>c. byte_of c < 128) s"

lemma valid_utf8_ascii: "is_ascii s \<Longrightarrow> valid_utf8 s"
  by (induction s) (simp_all add: is_ascii_def valid_utf8.simps)

section \<open>binascii\<close>

definition b64_char :: "nat \<Rightarrow> char" where
  "b64_char n = char_of (if n < 26 then n + 65 else if n < 52 then n + 71
                         else if n < 62 then n - 4 else if n = 62 then 43 else 47)"

definition b64_val :: "char \<Rightarrow> nat option" where
  "b64_val c = (let n = byte_of c in
     if 65 \<le> n \<and> n \<le> 90 then Some (n - 65)
     else if 97 \<le> n \<and> n \<le> 122 then Some (n - 71)
     else if 48 \<le> n \<and> n \<le> 57 then Some (n + 4)
     else if n = 43 then Some 62
     else if n = 47 then Some 63
     else None)"

fun b2a_base64 :: "string \<Rightarrow> string" where
  "b2a_base64 [] = []"
| "b2a_base64 [a] =
     [b64_char (byte_of a div 4), b64_char (byte_of a mod 4 * 16), CHR ''='', CHR ''='']"
| "b2a_base64 [a, b] =
     [b64_char (byte_of a div 4), b64_char (byte_of a mod 4 * 16 + byte_of b div 16),
      b64_char (byte_of b mod 16 * 4), CHR ''='']"
| "b2a_base64 (a # b # c # s) =
     b64_char (byte_of a div 4)
     # b64_char (byte_of a mod 4 * 16 + byte_of b div 16)
     # b64_char (byte_of b mod 16 * 4 + byte_of c div 64)
     # b64_char (byte_of c mod 64)
     # b2a_base64 s"

definition cons_byte :: "nat \<Rightarrow> string res \<Rightarrow> string res" where
  "cons_byte n r = bind_res r (\<lambda>s. Inr (char_of n # s))"

fun a2b_base64 :: "nat \<Rightarrow> nat \<Rightarrow> nat \<Rightarrow> string \<Rightarrow> string res" where
  "a2b_base64 quad_pos leftchar pads [] =
     (if quad_pos = 0 then Inr []
      else if quad_pos = 1 then Inl (ValueError ''number of data characters cannot be 1 more than a multiple of 4'')
      else Inl (ValueError ''Incorrect padding''))"
| "a2b_base64 quad_pos leftchar pads (c # s) =
     (if c = CHR ''='' then
        (if 2 \<le> quad_pos then
           (if 4 \<le> quad_pos + Suc pads then Inr [] else a2b_base64 quad_pos leftchar (Suc pads) s)
         else a2b_base64 quad_pos leftchar pads s)
      else case b64_val c of
        None \<Rightarrow> a2b_base64 quad_pos leftchar pads s
      | Some v \<Rightarrow>
          if quad_pos = 0 then a2b_base64 1 v 0 s
          else if quad_pos = 1 then cons_byte (leftchar * 4 + v div 16) (a2b_base64 2 (v mod 16) 0 s)
          else if quad_pos = 2 then cons_byte (leftchar * 16 + v div 4) (a2b_base64 3 (v mod 4) 0 s)
          else cons_byte (leftchar * 64 + v) (a2b_base64 0 0 0 s))"

section \<open>skywalking.utils.lang\<close>

definition b64encode :: "string \<Rightarrow> string" where
  "b64encode s = b2a_base64 s"

definition b64decode :: "string \<Rightarrow> string res" where
  "b64decode s =
     (if \<not> is_ascii s then Inl (ValueError ''string argument should contain only ASCII characters'')
      else bind_res (a2b_base64 0 0 0 s)
             (\<lambda>t. if valid_utf8 t then Inr t else Inl (ValueError ''utf-8 codec cannot decode'')))"

section \<open>Decoding inverts encoding\<close>

lemma byte_of_less [simp]: "byte_of c < 256"
proof -
  have "byte_of c = of_char c mod (256::nat)" by simp
  then show ?thesis by (metis mod_less_divisor zero_less_numeral)
qed

lemma b64_val_char [simp]: "n < 64 \<Longrightarrow> b64_val (b64_char n) = Some n"
  by (auto simp: b64_val_def b64_char_def Let_def)

lemma b64_char_byte: "n < 64 \<Longrightarrow>
  byte_of (b64_char n) = (if n < 26 then n + 65 else if n < 52 then n + 71
                         else if n < 62 then n - 4 else if n = 62 then 43 else 47)"
  by (simp add: b64_char_def)

lemma b64_char_neq [simp]:
  "n < 64 \<Longrightarrow> b64_char n \<noteq> CHR ''=''"
  "n < 64 \<Longrightarrow> b64_char n \<noteq> CHR ''-''"
  "n < 64 \<Longrightarrow> b64_char n \<noteq> CHR '',''"
  "n < 64 \<Longrightarrow> b64_char n \<noteq> CHR '':''"
  by (auto dest!: arg_cong [where f = byte_of] simp: b64_char_byte split: if_splits)

lemma sextets_less [simp]:
  "x < 256 \<Longrightarrow> x div 4 < (64::nat)"
  "y < 256 \<Longrightarrow> x mod 4 * 16 + y div 16 < (64::nat)"
  "y < 256 \<Longrightarrow> x mod 16 * 4 + y div 64 < (64::nat)"
  "x mod 64 < (64::nat)"
  "x mod 4 * 16 < (64::nat)"
  "x mod 16 * 4 < (64::nat)"
proof -
  have m: "x mod 4 < 4" "x mod 16 < (16::nat)" by simp_all
  show "x < 256 \<Longrightarrow> x div 4 < (64::nat)" by simp
  show "y < 256 \<Longrightarrow> x mod 4 * 16 + y div 16 < (64::nat)" using m by linarith
  show "y < 256 \<Longrightarrow> x mod 16 * 4 + y div 64 < (64::nat)" using m by linarith
  show "x mod 64 < (64::nat)" by simp
  show "x mod 4 * 16 < (64::nat)" using m by linarith
  show "x mod 16 * 4 < (64::nat)" using m by linarith
qed

lemma byte_high_bits [simp]:
  "byte_of c div 16 div 16 = 0" "byte_of c div 16 mod 16 = byte_of c div 16"
  "byte_of c div 64 div 4 = 0" "byte_of c div 64 mod 4 = byte_of c div 64"
proof -
  have "x < 256 \<Longrightarrow> x div 16 div 16 = 0 \<and> x div 16 mod 16 = x div 16
          \<and> x div 64 div 4 = 0 \<and> x div 64 mod 4 = x div 64" for x :: nat
    by simp
  from this [OF byte_of_less]
  show "byte_of c div 16 div 16 = 0" "byte_of c div 16 mod 16 = byte_of c div 16"
    "byte_of c div 64 div 4 = 0" "byte_of c div 64 mod 4 = byte_of c div 64"
    by blast+
qed

lemma char_of_byte [simp]: "char_of (byte_of c) = c"
  by simp

lemma cons_byte_Inr [simp]: "cons_byte n (Inr s) = Inr (char_of n # s)"
  by (simp add: cons_byte_def)

lemma a2b_b2a [simp]: "a2b_base64 0 0 0 (b2a_base64 s) = Inr s"
proof (induction s rule: b2a_base64.induct)
  case (2 a)
  show ?case by simp
next
  case (3 a b)
  show ?case by simp
next
  case (4 a b c s)
  then show ?case by simp
qed simp

lemma b2a_chars:
  "c \<in> set (b2a_base64 s) \<Longrightarrow> c = CHR ''='' \<or> (\<exists>n < 64. c = b64_char n)"
proof (induction s rule: b2a_base64.induct)
  case (4 x y z s)
  then show ?case
    by (auto intro: exI [of _ "byte_of x div 4"] exI [of _ "byte_of x mod 4 * 16 + byte_of y div 16"]
        exI [of _ "byte_of y mod 16 * 4 + byte_of z div 64"] exI [of _ "byte_of z mod 64"])
next
  case (3 x y)
  then show ?case
    by (auto intro: exI [of _ "byte_of x div 4"] exI [of _ "byte_of x mod 4 * 16 + byte_of y div 16"]
        exI [of _ "byte_of y mod 16 * 4"])
next
  case (2 x)
  then show ?case
    by (auto intro: exI [of _ "byte_of x div 4"] exI [of _ "byte_of x mod 4 * 16"])
qed simp

lemma is_ascii_b64encode: "is_ascii (b64encode s)"
  unfolding is_ascii_def list_all_iff b64encode_def
  by (auto dest!: b2a_chars simp: b64_char_byte)

lemma b64_roundtrip: "valid_utf8 s \<Longrightarrow> b64decode (b64encode s) = Inr s"
  using is_ascii_b64encode [of s] by (simp add: b64decode_def b64encode_def)

lemma b64decode_valid: "b64decode s = Inr t \<Longrightarrow> valid_utf8 t"
  by (auto simp: b64decode_def bind_res_Inr_iff split: if_splits)

lemma b64encode_no_sep:
  "CHR ''-'' \<notin> set (b64encode s)" "CHR '','' \<notin> set (b64encode s)" "CHR '':'' \<notin> set (b64encode s)"
  by (auto simp: b64encode_def dest!: b2a_chars) (metis b64_char_neq)+

lemma b64encode_Nil_iff [simp]: "b64encode s = [] \<longleftrightarrow> s = []"
  by (cases s rule: b2a_base64.cases) (simp_all add: b64encode_def)

section \<open>What a separated header needs of its codec\<close>

locale field_codec =
  fixes enc :: "'a \<Rightarrow> string"
    and dec :: "string \<Rightarrow> 'a res"
    and valid :: "'a \<Rightarrow> bool"
    and sep :: char
  assumes dec_enc: "valid x \<Longrightarrow> dec (enc x) = Inr x"
    and enc_no_sep: "sep \<notin> set (enc x)"
begin

lemma split_fields:
  "xs \<noteq> [] \<Longrightarrow> split_on sep (join_with [sep] (map enc xs)) = map enc xs"
  by (rule split_on_join_with) (auto simp: enc_no_sep)

lemma decode_fields:
  assumes "xs \<noteq> []" and "\<forall>x \<in> set xs. valid x"
  shows "map dec (split_on sep (join_with [sep] (map enc xs))) = map Inr xs"
  using assms by (simp add: split_fields dec_enc)

lemma enc_inj: "valid x \<Longrightarrow> valid y \<Longrightarrow> enc x = enc y \<Longrightarrow> x = y"
  using dec_enc by (metis sum.inject(2))

end

interpretation dash_codec: field_codec b64encode b64decode valid_utf8 "CHR ''-''"
  by unfold_locales (simp_all add: b64_roundtrip b64encode_no_sep)

interpretation comma_codec: field_codec b64encode b64decode valid_utf8 "CHR '',''"
  by unfold_locales (simp_all add: b64_roundtrip b64encode_no_sep)

interpretation colon_codec: field_codec b64encode b64decode valid_utf8 "CHR '':''"
  by unfold_locales (simp_all add: b64_roundtrip b64encode_no_sep)

end
