(* ===== verification/Config.thy ===== *)
theory Config
  imports Prelude
begin

text \<open>
  \<open>skywalking/config.py\<close>: the options, their defaults and environment variables (\<open>load_config\<close> runs
  the module body, where a malformed integer raises \<open>ValueError\<close>), \<open>init(**kwargs)\<close> on the module's
  globals, and the finalizers that rewrite the options once at start-up.  \<open>finalize_regex\<close> is
  modelled as the pattern text it hands to \<open>re.compile\<close>.
\<close>

section \<open>Options\<close>

record config =
  agent_collector_backend_services :: string
  agent_protocol :: string
  agent_name :: string
  agent_instance_name :: string
  agent_namespace :: string
  kafka_bootstrap_servers :: string
  kafka_namespace :: string
  kafka_topic_management :: string
  kafka_topic_segment :: string
  kafka_topic_log :: string
  kafka_topic_meter :: string
  kafka_reporter_custom_configurations :: string
  agent_force_tls :: bool
  agent_ssl_trusted_ca_path :: string
  agent_ssl_cert_chain_path :: string
  agent_ssl_key_path :: string
  agent_authentication :: string
  agent_logging_level :: string
  agent_collector_heartbeat_period :: int
  agent_collector_properties_report_period_factor :: int
  agent_instance_properties_json :: string
  agent_experimental_fork_support :: bool
  agent_queue_timeout :: int
  agent_asyncio_enhancement :: bool
  agent_sw_python_bootstrap_propagate :: bool
  agent_sw_python_cli_debug_enabled :: bool
  agent_trace_reporter_max_buffer_size :: int
  agent_trace_ignore_path :: string
  agent_ignore_suffix :: string
  correlation_element_max_number :: int
  correlation_value_max_length :: int
  agent_profile_active :: bool
  agent_collector_get_profile_task_interval :: int
  agent_profile_max_parallel :: int
  agent_profile_duration :: int
  agent_profile_dump_max_stack_depth :: int
  agent_profile_snapshot_transport_buffer_size :: int
  agent_log_reporter_active :: bool
  agent_log_reporter_safe_mode :: bool
  agent_log_reporter_max_buffer_size :: int
  agent_log_reporter_level :: string
  agent_log_reporter_ignore_filter :: bool
  agent_log_reporter_formatted :: bool
  agent_log_reporter_layout :: string
  agent_cause_exception_depth :: int
  agent_meter_reporter_active :: bool
  agent_meter_reporter_max_buffer_size :: int
  agent_meter_reporter_period :: int
  agent_pvm_meter_reporter_active :: bool
  agent_disable_plugins :: "string list"
  plugin_http_http_params_length_threshold :: int
  plugin_http_ignore_method :: string
  plugin_sql_parameters_max_length :: int
  plugin_pymongo_trace_parameters :: bool
  plugin_pymongo_parameters_max_length :: int
  plugin_elasticsearch_trace_dsl :: bool
  plugin_flask_collect_http_params :: bool
  plugin_sanic_collect_http_params :: bool
  plugin_django_collect_http_params :: bool
  plugin_fastapi_collect_http_params :: bool
  plugin_bottle_collect_http_params :: bool
  plugin_celery_parameters_length :: int
  plugin_grpc_ignored_methods :: string
  sample_n_per_3_secs :: int

type_synonym environ = "string \<Rightarrow> string option"

definition getenv :: "environ \<Rightarrow> string \<Rightarrow> string \<Rightarrow> string" where
  "getenv env n d = (case env n of None \<Rightarrow> d | Some v \<Rightarrow> v)"

definition env_true :: "environ \<Rightarrow> string \<Rightarrow> bool" where
  "env_true env n = (lower (getenv env n []) = ''true'')"

definition env_not_false :: "environ \<Rightarrow> string \<Rightarrow> bool" where
  "env_not_false env n = (lower (getenv env n []) \<noteq> ''false'')"

definition env_int :: "environ \<Rightarrow> string \<Rightarrow> string \<Rightarrow> int res" where
  "env_int env n d = py_int (getenv env n d)"

text \<open>
  The module body.  The integers are converted in source order, so the first malformed one decides
  the error; \<open>uuid\<close> is the random default of the instance name.
\<close>

definition load_config :: "environ \<Rightarrow> string \<Rightarrow> config res" where
  "load_config env uuid =
    bind_res (env_int env ''SW_AGENT_COLLECTOR_HEARTBEAT_PERIOD'' ''30'') (\<lambda>heartbeat.
    bind_res (env_int env ''SW_AGENT_COLLECTOR_PROPERTIES_REPORT_PERIOD_FACTOR'' ''10'') (\<lambda>factor.
    bind_res (env_int env ''SW_AGENT_QUEUE_TIMEOUT'' ''1'') (\<lambda>queue_timeout.
    bind_res (env_int env ''SW_AGENT_TRACE_REPORTER_MAX_BUFFER_SIZE'' ''10000'') (\<lambda>trace_buf.
    bind_res (env_int env ''SW_CORRELATION_ELEMENT_MAX_NUMBER'' ''3'') (\<lambda>corr_n.
    bind_res (env_int env ''SW_CORRELATION_VALUE_MAX_LENGTH'' ''128'') (\<lambda>corr_len.
    bind_res (env_int env ''SW_AGENT_COLLECTOR_GET_PROFILE_TASK_INTERVAL'' ''20'') (\<lambda>prof_ival.
    bind_res (env_int env ''SW_AGENT_PROFILE_MAX_PARALLEL'' ''5'') (\<lambda>prof_par.
    bind_res (env_int env ''SW_AGENT_PROFILE_DURATION'' ''10'') (\<lambda>prof_dur.
    bind_res (env_int env ''SW_AGENT_PROFILE_DUMP_MAX_STACK_DEPTH'' ''500'') (\<lambda>prof_depth.
    bind_res (env_int env ''SW_AGENT_PROFILE_SNAPSHOT_TRANSPORT_BUFFER_SIZE'' ''50'') (\<lambda>prof_buf.
    bind_res (env_int env ''SW_AGENT_LOG_REPORTER_MAX_BUFFER_SIZE'' ''10000'') (\<lambda>log_buf.
    bind_res (env_int env ''SW_AGENT_CAUSE_EXCEPTION_DEPTH'' ''10'') (\<lambda>exc_depth.
    bind_res (env_int env ''SW_AGENT_METER_REPORTER_MAX_BUFFER_SIZE'' ''10000'') (\<lambda>meter_buf.
    bind_res (env_int env ''SW_AGENT_METER_REPORTER_PERIOD'' ''20'') (\<lambda>meter_period.
    bind_res (env_int env ''SW_PLUGIN_HTTP_HTTP_PARAMS_LENGTH_THRESHOLD'' ''1024'') (\<lambda>http_thr.
    bind_res (env_int env ''SW_PLUGIN_SQL_PARAMETERS_MAX_LENGTH'' ''0'') (\<lambda>sql_len.
    bind_res (env_int env ''SW_PLUGIN_PYMONGO_PARAMETERS_MAX_LENGTH'' ''512'') (\<lambda>mongo_len.
    bind_res (env_int env ''SW_PLUGIN_CELERY_PARAMETERS_LENGTH'' ''512'') (\<lambda>celery_len.
    bind_res (env_int env ''SW_SAMPLE_N_PER_3_SECS'' ''0'') (\<lambda>sample_n.
    Inr \<lparr>
      agent_collector_backend_services = getenv env ''SW_AGENT_COLLECTOR_BACKEND_SERVICES'' ''oap_host:oap_port'',
      agent_protocol = lower (getenv env ''SW_AGENT_PROTOCOL'' ''grpc''),
      agent_name = getenv env ''SW_AGENT_NAME'' ''Python Service Name'',
      agent_instance_name = getenv env ''SW_AGENT_INSTANCE_NAME'' (filter (\<lambda>c. c \<noteq> CHR ''-'') uuid),
      agent_namespace = getenv env ''SW_AGENT_NAMESPACE'' [],
      kafka_bootstrap_servers = getenv env ''SW_KAFKA_BOOTSTRAP_SERVERS'' ''localhost:9092'',
      kafka_namespace = getenv env ''SW_KAFKA_NAMESPACE'' [],
      kafka_topic_management = getenv env ''SW_KAFKA_TOPIC_MANAGEMENT'' ''skywalking-managements'',
      kafka_topic_segment = getenv env ''SW_KAFKA_TOPIC_SEGMENT'' ''skywalking-segments'',
      kafka_topic_log = getenv env ''SW_KAFKA_TOPIC_LOG'' ''skywalking-logs'',
      kafka_topic_meter = getenv env ''SW_KAFKA_TOPIC_METER'' ''skywalking-meters'',
      kafka_reporter_custom_configurations = getenv env ''SW_KAFKA_REPORTER_CUSTOM_CONFIGURATIONS'' [],
      agent_force_tls = env_true env ''SW_AGENT_FORCE_TLS'',
      agent_ssl_trusted_ca_path = getenv env ''SW_AGENT_SSL_TRUSTED_CA_PATH'' [],
      agent_ssl_cert_chain_path = getenv env ''SW_AGENT_SSL_CERT_CHAIN_PATH'' [],
      agent_ssl_key_path = getenv env ''SW_AGENT_SSL_KEY_PATH'' [],
      agent_authentication = getenv env ''SW_AGENT_AUTHENTICATION'' [],
      agent_logging_level = getenv env ''SW_AGENT_LOGGING_LEVEL'' ''INFO'',
      agent_collector_heartbeat_period = heartbeat,
      agent_collector_properties_report_period_factor = factor,
      agent_instance_properties_json = getenv env ''SW_AGENT_INSTANCE_PROPERTIES_JSON'' [],
      agent_experimental_fork_support = env_true env ''SW_AGENT_EXPERIMENTAL_FORK_SUPPORT'',
      agent_queue_timeout = queue_timeout,
      agent_asyncio_enhancement = env_true env ''SW_AGENT_ASYNCIO_ENHANCEMENT'',
      agent_sw_python_bootstrap_propagate = env_true env ''SW_AGENT_SW_PYTHON_BOOTSTRAP_PROPAGATE'',
      agent_sw_python_cli_debug_enabled = env_true env ''SW_AGENT_SW_PYTHON_CLI_DEBUG_ENABLED'',
      agent_trace_reporter_max_buffer_size = trace_buf,
      agent_trace_ignore_path = getenv env ''SW_AGENT_TRACE_IGNORE_PATH'' [],
      agent_ignore_suffix = getenv env ''SW_AGENT_IGNORE_SUFFIX''
        ''.jpg,.jpeg,.js,.css,.png,.bmp,.gif,.ico,.mp3,.mp4,.html,.svg '',
      correlation_element_max_number = corr_n,
      correlation_value_max_length = corr_len,
      agent_profile_active = env_not_false env ''SW_AGENT_PROFILE_ACTIVE'',
      agent_collector_get_profile_task_interval = prof_ival,
      agent_profile_max_parallel = prof_par,
      agent_profile_duration = prof_dur,
      agent_profile_dump_max_stack_depth = prof_depth,
      agent_profile_snapshot_transport_buffer_size = prof_buf,
      agent_log_reporter_active = env_not_false env ''SW_AGENT_LOG_REPORTER_ACTIVE'',
      agent_log_reporter_safe_mode = env_true env ''SW_AGENT_LOG_REPORTER_SAFE_MODE'',
      agent_log_reporter_max_buffer_size = log_buf,
      agent_log_reporter_level = getenv env ''SW_AGENT_LOG_REPORTER_LEVEL'' ''WARNING'',
      agent_log_reporter_ignore_filter = env_true env ''SW_AGENT_LOG_REPORTER_IGNORE_FILTER'',
      agent_log_reporter_formatted = env_not_false env ''SW_AGENT_LOG_REPORTER_FORMATTED'',
      agent_log_reporter_layout = getenv env ''SW_AGENT_LOG_REPORTER_LAYOUT''
        ''%(asctime)s [%(threadName)s] %(levelname)s %(name)s - %(message)s'',
      agent_cause_exception_depth = exc_depth,
      agent_meter_reporter_active = env_not_false env ''SW_AGENT_METER_REPORTER_ACTIVE'',
      agent_meter_reporter_max_buffer_size = meter_buf,
      agent_meter_reporter_period = meter_period,
      agent_pvm_meter_reporter_active = env_not_false env ''SW_AGENT_PVM_METER_REPORTER_ACTIVE'',
      agent_disable_plugins = split_on (CHR '','') (getenv env ''SW_AGENT_DISABLE_PLUGINS'' []),
      plugin_http_http_params_length_threshold = http_thr,
      plugin_http_ignore_method = upper (getenv env ''SW_PLUGIN_HTTP_IGNORE_METHOD'' []),
      plugin_sql_parameters_max_length = sql_len,
      plugin_pymongo_trace_parameters = env_true env ''SW_PLUGIN_PYMONGO_TRACE_PARAMETERS'',
      plugin_pymongo_parameters_max_length = mongo_len,
      plugin_elasticsearch_trace_dsl = env_true env ''SW_PLUGIN_ELASTICSEARCH_TRACE_DSL'',
      plugin_flask_collect_http_params = env_true env ''SW_PLUGIN_FLASK_COLLECT_HTTP_PARAMS'',
      plugin_sanic_collect_http_params = env_true env ''SW_PLUGIN_SANIC_COLLECT_HTTP_PARAMS'',
      plugin_django_collect_http_params = env_true env ''SW_PLUGIN_DJANGO_COLLECT_HTTP_PARAMS'',
      plugin_fastapi_collect_http_params = env_true env ''SW_PLUGIN_FASTAPI_COLLECT_HTTP_PARAMS'',
      plugin_bottle_collect_http_params = env_true env ''SW_PLUGIN_BOTTLE_COLLECT_HTTP_PARAMS'',
      plugin_celery_parameters_length = celery_len,
      plugin_grpc_ignored_methods = upper (getenv env ''SW_PLUGIN_GRPC_IGNORED_METHODS'' []),
      sample_n_per_3_secs = sample_n
    \<rparr>))))))))))))))))))))"

section \<open>init(**kwargs)\<close>

datatype pyval = PStr string | PInt int | PBool bool | PStrList "string list"

text \<open>
  \<open>init\<close> writes the module's globals one keyword at a time; the first unknown key raises, after the
  keywords before it have taken effect.
\<close>

fun config_init :: "string list \<Rightarrow> (string \<times> pyval) list \<Rightarrow> (string \<Rightarrow> pyval option)
    \<Rightarrow> py_error option \<times> (string \<Rightarrow> pyval option)" where
  "config_init options [] glob = (None, glob)"
| "config_init options ((key, val) # kwargs) glob =
     (if key \<notin> set options then (Some (KeyError (''Invalid configuration option '' @ key)), glob)
      else config_init options kwargs (glob(key \<mapsto> val)))"

section \<open>Finalizers\<close>

datatype config_warning = HttpNoMeterNoProfiler | KafkaNoProfiler

definition finalize_feature :: "config \<Rightarrow> config_warning list \<times> config" where
  "finalize_feature c =
     (if agent_protocol c = ''http'' \<and> (agent_profile_active c \<or> agent_meter_reporter_active c) then
        ([HttpNoMeterNoProfiler], c\<lparr>agent_profile_active := False, agent_meter_reporter_active := False\<rparr>)
      else if agent_protocol c = ''kafka'' \<and> agent_profile_active c then
        ([KafkaNoProfiler], c\<lparr>agent_profile_active := False\<rparr>)
      else ([], c))"

definition finalize_name :: "config \<Rightarrow> config" where
  "finalize_name c =
     (let c1 = (if agent_namespace c \<noteq> []
                then c\<lparr>agent_name := agent_name c @ ''|'' @ agent_namespace c\<rparr> else c)
      in if kafka_namespace c1 \<noteq> [] then
           c1\<lparr>kafka_topic_management := kafka_namespace c1 @ ''-'' @ kafka_topic_management c1,
              kafka_topic_meter := kafka_namespace c1 @ ''-'' @ kafka_topic_meter c1,
              kafka_topic_log := kafka_namespace c1 @ ''-'' @ kafka_topic_log c1,
              kafka_topic_segment := kafka_namespace c1 @ ''-'' @ kafka_topic_segment c1\<rparr>
         else c1)"

text \<open>\<open>str.split(sep)\<close> for a separator of several characters: leftmost, non-overlapping.\<close>

function split_str :: "string \<Rightarrow> string \<Rightarrow> string list" where
  "split_str sep s =
     (if sep = [] then [s]
      else case s of
        [] \<Rightarrow> [[]]
      | c # cs \<Rightarrow>
          if take (length sep) s = sep then [] # split_str sep (drop (length sep) s)
          else (case split_str sep cs of [] \<Rightarrow> [[c]] | p # ps \<Rightarrow> (c # p) # ps))"
  by pat_completeness auto
termination
  by (relation "measure (\<lambda>(sep, s). length s)") auto

definition reesc_sub :: "string \<Rightarrow> string" where
  "reesc_sub s = concat (map (\<lambda>c. if c = CHR 0x5C \<or> c \<in> set ''.*+?^=!:${}()|[]'' then [CHR 0x5C, c] else [c]) s)"

definition suffix_pattern :: "config \<Rightarrow> string" where
  "suffix_pattern c = ''^.+(?:'' @
     join_with ''|'' (map (\<lambda>s. reesc_sub (strip s)) (split_on (CHR '','') (agent_ignore_suffix c))) @ '')$''"

definition method_pattern :: "string \<Rightarrow> string" where
  "method_pattern methods = ''^'' @ join_with ''|'' (map strip (split_on (CHR '','') methods)) @ ''$''"

definition path_pattern :: "config \<Rightarrow> string" where
  "path_pattern c = ''^(?:'' @
     join_with ''|'' (map (\<lambda>p0.
       join_with ''/(?:[^/]*/)*'' (map (\<lambda>p1.
         join_with ''(?:(?:[^/]+/)*[^/]+)?'' (map (\<lambda>p2.
           join_with ''[^/]*'' (map (\<lambda>p3.
             join_with ''[^/]'' (map reesc_sub (split_str ''?'' p3)))
             (split_str ''*'' p2)))
           (split_str ''**'' (strip p1))))
         (split_str ''/**/'' p0)))
       (split_str '','' (agent_trace_ignore_path c))) @ '')$''"

record regexes =
  RE_IGNORE_PATH :: string
  RE_HTTP_IGNORE_METHOD :: string
  RE_GRPC_IGNORED_METHODS :: string

definition finalize_regex :: "config \<Rightarrow> regexes" where
  "finalize_regex c =
     \<lparr>RE_IGNORE_PATH = suffix_pattern c @ ''|'' @ path_pattern c,
      RE_HTTP_IGNORE_METHOD = method_pattern (plugin_http_ignore_method c),
      RE_GRPC_IGNORED_METHODS = method_pattern (plugin_grpc_ignored_methods c)\<rparr>"

definition finalize :: "config \<Rightarrow> config_warning list \<times> regexes \<times> config" where
  "finalize c = (let (ws, c1) = finalize_feature c; r = finalize_regex c1
                 in (ws, r, finalize_name c1))"

section \<open>Laws\<close>

lemma finalize_feature_supported:
  assumes "finalize_feature c = (ws, c')"
  shows "agent_protocol c' = ''http'' \<Longrightarrow> \<not> agent_profile_active c' \<and> \<not> agent_meter_reporter_active c'"
    and "agent_protocol c' = ''kafka'' \<Longrightarrow> \<not> agent_profile_active c'"
    and "agent_protocol c' = agent_protocol c"
  using assms by (auto simp: finalize_feature_def split: if_splits)

lemma finalize_name_fields [simp]:
  "agent_profile_active (finalize_name c) = agent_profile_active c"
  "agent_meter_reporter_active (finalize_name c) = agent_meter_reporter_active c"
  "agent_log_reporter_active (finalize_name c) = agent_log_reporter_active c"
  "agent_protocol (finalize_name c) = agent_protocol c"
  "agent_namespace (finalize_name c) = agent_namespace c"
  "kafka_namespace (finalize_name c) = kafka_namespace c"
  by (simp_all add: finalize_name_def Let_def)

lemma config_init_ok:
  "config_init options kw glob = (None, glob') \<longleftrightarrow>
     fst ` set kw \<subseteq> set options \<and> glob' = glob ++ map_of (rev kw)"
proof (induction kw arbitrary: glob)
  case (Cons kv kw)
  obtain key val where kv: "kv = (key, val)" by fastforce
  have "glob ++ map_of (rev ((key, val) # kw)) = glob(key \<mapsto> val) ++ map_of (rev kw)"
    by (simp add: map_add_assoc)
  moreover have "config_init options (kv # kw) glob =
      (if key \<in> set options then config_init options kw (glob(key \<mapsto> val))
       else (Some (KeyError (''Invalid configuration option '' @ key)), glob))"
    by (simp add: kv)
  moreover have "fst ` set (kv # kw) \<subseteq> set options \<longleftrightarrow> key \<in> set options \<and> fst ` set kw \<subseteq> set options"
    by (simp add: kv)
  ultimately show ?case
    using Cons.IH [of "glob(key \<mapsto> val)"] kv by (auto simp only: split: if_splits)
qed auto

end
