(* ===== verification/Carrier.thy ===== *)
theory Carrier
  imports Base64 Config
begin

text \<open>
  \<open>skywalking/trace/carrier.py\<close>: the \<open>sw8\<close> propagation header and its correlation companion
  \<open>sw8-correlation\<close>.  Reading \<open>val\<close> renders a header, assigning \<open>val\<close> parses one; parsing decodes the
  fields one after the other, so an undecodable field raises after the fields before it have been
  assigned.  The type parameter of the carrier is the correlation mapping: a dictionary in this
  theory, the address of a shared dictionary in the tracing context.  A field that the code may leave
  \<open>None\<close> (a span without operation name or peer) is an option.
\<close>

section \<open>Numeric text\<close>

text \<open>
  \<open>str.isnumeric\<close> and \<open>int\<close> consult the interpreter's Unicode database for characters outside ASCII;
  that table is a parameter of the model.
\<close>

record unicode =
  u_numeric :: "string \<Rightarrow> bool"
  u_int :: "string \<Rightarrow> int res"

function utf8_chunks :: "string \<Rightarrow> string list" where
  "utf8_chunks [] = []"
| "utf8_chunks (c # s) = (c # takeWhile is_cont s) # utf8_chunks (dropWhile is_cont s)"
  by pat_completeness auto
termination
  by (relation "measure length") (auto simp: less_Suc_eq_le length_dropWhile_le)

definition isnumeric :: "unicode \<Rightarrow> string \<Rightarrow> bool" where
  "isnumeric U s = (s \<noteq> [] \<and>
     list_all (\<lambda>ch. case ch of [c] \<Rightarrow> (if byte_of c < 128 then is_digit c else u_numeric U ch)
                             | _ \<Rightarrow> u_numeric U ch) (utf8_chunks s))"

definition int_of_text :: "unicode \<Rightarrow> string \<Rightarrow> int res" where
  "int_of_text U s = (if is_ascii s then py_int s else u_int U s)"

section \<open>Carrier\<close>

record 'd carrier =
  carrier_val :: "string option"   \<comment> \<open>the private \<open>__val\<close>: the raw header last assigned\<close>
  c_trace_id :: string
  c_segment_id :: string
  c_span_id :: string
  c_service :: string
  c_service_instance :: string
  c_endpoint :: "string option"
  c_client_address :: "string option"
  c_correlation :: 'd

definition Carrier_init ::
  "string \<Rightarrow> string \<Rightarrow> string \<Rightarrow> string \<Rightarrow> string \<Rightarrow> string option \<Rightarrow> string option \<Rightarrow> 'd \<Rightarrow> 'd carrier" where
  "Carrier_init tid sgid spid srv inst ep addr corr =
     \<lparr>carrier_val = None, c_trace_id = tid, c_segment_id = sgid, c_span_id = spid, c_service = srv,
      c_service_instance = inst, c_endpoint = ep, c_client_address = addr, c_correlation = corr\<rparr>"

definition Carrier_empty :: "'d \<Rightarrow> 'd carrier" where
  "Carrier_empty d = Carrier_init [] [] [] [] [] (Some []) (Some []) d"

definition Carrier_get_val :: "'d carrier \<Rightarrow> string res" where
  "Carrier_get_val c =
     (case (c_endpoint c, c_client_address c) of
        (Some ep, Some addr) \<Rightarrow>
          Inr (join_with ''-'' [''1'', b64encode (c_trace_id c), b64encode (c_segment_id c), c_span_id c,
                 b64encode (c_service c), b64encode (c_service_instance c), b64encode ep, b64encode addr])
      | _ \<Rightarrow> Inl AttributeError)"

text \<open>
  The parts of a header assigned in source order, each decoded just before its field is written;
  \<open>Some e\<close> is the exception raised, with the fields written so far.
\<close>

fun assign_fields :: "((string \<Rightarrow> string res) \<times> string \<times> (string \<Rightarrow> 'd carrier \<Rightarrow> 'd carrier)) list
    \<Rightarrow> 'd carrier \<Rightarrow> py_error option \<times> 'd carrier" where
  "assign_fields [] c = (None, c)"
| "assign_fields ((dec, part, upd) # fs) c =
     (case dec part of Inl e \<Rightarrow> (Some e, c) | Inr t \<Rightarrow> assign_fields fs (upd t c))"

definition Carrier_set_val :: "string option \<Rightarrow> 'd carrier \<Rightarrow> py_error option \<times> 'd carrier" where
  "Carrier_set_val v c =
     (let c0 = c\<lparr>carrier_val := v\<rparr> in
      case v of
        None \<Rightarrow> (None, c0)
      | Some s \<Rightarrow>
          if s = [] then (None, c0)
          else let parts = split_on (CHR ''-'') s in
               if length parts \<noteq> 8 then (None, c0)
               else assign_fields
                 [(b64decode, parts ! 1, \<lambda>t. c_trace_id_update (\<lambda>_. t)),
                  (b64decode, parts ! 2, \<lambda>t. c_segment_id_update (\<lambda>_. t)),
                  (Inr, parts ! 3, \<lambda>t. c_span_id_update (\<lambda>_. t)),
                  (b64decode, parts ! 4, \<lambda>t. c_service_update (\<lambda>_. t)),
                  (b64decode, parts ! 5, \<lambda>t. c_service_instance_update (\<lambda>_. t)),
                  (b64decode, parts ! 6, \<lambda>t. c_endpoint_update (\<lambda>_. Some t)),
                  (b64decode, parts ! 7, \<lambda>t. c_client_address_update (\<lambda>_. Some t))] c0)"

definition is_valid :: "unicode \<Rightarrow> 'd carrier \<Rightarrow> bool res" where
  "is_valid U c =
     (if c_trace_id c = [] \<or> c_segment_id c = [] \<or> c_service c = [] \<or> c_service_instance c = []
      then Inr False
      else case c_endpoint c of
        None \<Rightarrow> Inl TypeError
      | Some ep \<Rightarrow>
          if ep = [] then Inr False
          else case c_client_address c of
            None \<Rightarrow> Inl TypeError
          | Some addr \<Rightarrow> if addr = [] then Inr False else Inr (isnumeric U (c_span_id c)))"

definition is_suppressed :: "unicode \<Rightarrow> 'd carrier \<Rightarrow> bool res" where
  "is_suppressed U c =
     (case carrier_val c of
        None \<Rightarrow> Inr False
      | Some s \<Rightarrow> if s = [] then Inr False else bind_res (is_valid U c) (\<lambda>b. Inr (\<not> b)))"

section \<open>SW8CorrelationCarrier\<close>

type_synonym correlation = "(string, string) dict"

definition Correlation_get_val :: "correlation \<Rightarrow> string" where
  "Correlation_get_val d =
     (if d = [] then []
      else join_with '','' (map (\<lambda>(k, v). b64encode k @ '':'' @ b64encode v) d))"

fun correlation_loop :: "int \<Rightarrow> string list \<Rightarrow> correlation \<Rightarrow> py_error option \<times> correlation" where
  "correlation_loop mx [] d = (None, d)"
| "correlation_loop mx (per # ps) d =
     (if mx < int (length d) then (None, d)
      else let parts = split_on (CHR '':'') per in
           if length parts \<noteq> 2 then correlation_loop mx ps d
           else case b64decode (parts ! 1) of
                  Inl e \<Rightarrow> (Some e, d)
                | Inr v \<Rightarrow> (case b64decode (parts ! 0) of
                              Inl e \<Rightarrow> (Some e, d)
                            | Inr k \<Rightarrow> correlation_loop mx ps (dict_set k v d)))"

definition Correlation_set_val :: "int \<Rightarrow> string option \<Rightarrow> correlation \<Rightarrow> py_error option \<times> correlation" where
  "Correlation_set_val mx v d =
     (case v of
        None \<Rightarrow> (None, d)
      | Some s \<Rightarrow> if s = [] then (None, d) else correlation_loop mx (split_on (CHR '','') s) d)"

section \<open>Iteration over the two header items\<close>

datatype carrier_item = CorrelationItem | Sw8Item

definition carrier_items :: "carrier_item list" where
  "carrier_items = [CorrelationItem, Sw8Item]"

fun item_key :: "carrier_item \<Rightarrow> string" where
  "item_key CorrelationItem = ''sw8-correlation''"
| "item_key Sw8Item = ''sw8''"

definition Carrier_iter :: nat where
  "Carrier_iter = 0"

definition Carrier_next :: "nat \<Rightarrow> (carrier_item \<times> nat) option" where
  "Carrier_next i = (if length carrier_items \<le> i then None else Some (carrier_items ! i, Suc i))"

text \<open>Reading and writing an item's \<open>val\<close> property on a carrier that owns its dictionary.\<close>

fun get_item :: "carrier_item \<Rightarrow> correlation carrier \<Rightarrow> string res" where
  "get_item CorrelationItem c = Inr (Correlation_get_val (c_correlation c))"
| "get_item Sw8Item c = Carrier_get_val c"

fun set_item :: "int \<Rightarrow> carrier_item \<Rightarrow> string option \<Rightarrow> correlation carrier \<Rightarrow> py_error option \<times> correlation carrier" where
  "set_item mx CorrelationItem v c =
     (case Correlation_set_val mx v (c_correlation c) of (e, d) \<Rightarrow> (e, c\<lparr>c_correlation := d\<rparr>))"
| "set_item mx Sw8Item v c = Carrier_set_val v c"

text \<open>
  The transport loops of the instrumented clients and servers: \<open>for item in carrier:
  headers[item.key] = item.val\<close>, and the assignments in the other direction.
\<close>

fun write_headers :: "carrier_item list \<Rightarrow> correlation carrier \<Rightarrow> (string, string) dict \<Rightarrow> (string, string) dict res" where
  "write_headers [] c h = Inr h"
| "write_headers (i # is) c h =
     bind_res (get_item i c) (\<lambda>v. write_headers is c (dict_set (item_key i) v h))"

fun read_headers :: "int \<Rightarrow> carrier_item list \<Rightarrow> (string, string) dict \<Rightarrow> correlation carrier
    \<Rightarrow> py_error option \<times> correlation carrier" where
  "read_headers mx [] h c = (None, c)"
| "read_headers mx (i # is) h c =
     (case set_item mx i (dict_get h (item_key i)) c of
        (Some e, c') \<Rightarrow> (Some e, c')
      | (None, c') \<Rightarrow> read_headers mx is h c')"

section \<open>Laws\<close>

definition carrier_text_ok :: "'d carrier \<Rightarrow> bool" where
  "carrier_text_ok c =
     (valid_utf8 (c_trace_id c) \<and> valid_utf8 (c_segment_id c) \<and> valid_utf8 (c_service c)
      \<and> valid_utf8 (c_service_instance c) \<and> CHR ''-'' \<notin> set (c_span_id c)
      \<and> (\<exists>ep. c_endpoint c = Some ep \<and> valid_utf8 ep)
      \<and> (\<exists>addr. c_client_address c = Some addr \<and> valid_utf8 addr))"

lemma header_split:
  assumes "CHR ''-'' \<notin> set sp"
  shows "split_on (CHR ''-'')
           (join_with ''-'' [''1'', b64encode a, b64encode b, sp, b64encode d, b64encode e, b64encode f, b64encode g])
         = [''1'', b64encode a, b64encode b, sp, b64encode d, b64encode e, b64encode f, b64encode g]"
  by (rule split_on_join_with) (auto simp: assms dash_codec.enc_no_sep)

lemma Carrier_get_val_total: "carrier_text_ok c \<Longrightarrow> \<exists>v. Carrier_get_val c = Inr v \<and> v \<noteq> []"
  by (auto simp: carrier_text_ok_def Carrier_get_val_def)

lemma Carrier_roundtrip_fields:
  assumes ok: "carrier_text_ok c" and get: "Carrier_get_val c = Inr v"
  shows "Carrier_set_val (Some v) c0 =
    (None, c\<lparr>carrier_val := Some v, c_correlation := c_correlation c0\<rparr>)"
proof -
  from ok obtain ep addr where e: "c_endpoint c = Some ep" "valid_utf8 ep"
    and a: "c_client_address c = Some addr" "valid_utf8 addr" and sp: "CHR ''-'' \<notin> set (c_span_id c)"
    by (auto simp: carrier_text_ok_def)
  let ?ps = "[''1'', b64encode (c_trace_id c), b64encode (c_segment_id c), c_span_id c,
    b64encode (c_service c), b64encode (c_service_instance c), b64encode ep, b64encode addr]"
  have v: "v = join_with ''-'' ?ps"
    using get e a by (simp add: Carrier_get_val_def)
  have parts: "split_on (CHR ''-'') v = ?ps"
    unfolding v using header_split [OF sp] .
  have "v \<noteq> []" unfolding v by simp
  then show ?thesis
    using ok e a parts
    by (simp add: Carrier_set_val_def Let_def carrier_text_ok_def dash_codec.dec_enc)
qed

lemma Carrier_set_val_malformed:
  "length (split_on (CHR ''-'') s) \<noteq> 8 \<Longrightarrow> Carrier_set_val (Some s) c = (None, c\<lparr>carrier_val := Some s\<rparr>)"
  by (simp add: Carrier_set_val_def Let_def)

lemma is_valid_ignores_header [simp]:
  "is_valid U (c\<lparr>carrier_val := v\<rparr>) = is_valid U c"
  "is_valid U (c\<lparr>c_correlation := d\<rparr>) = is_valid U c"
  by (cases "c_endpoint c"; cases "c_client_address c"; simp add: is_valid_def)+

lemma is_cont_not_digit: "is_digit c \<Longrightarrow> byte_of c < 128 \<and> \<not> is_cont c"
  by (auto simp: is_digit_def is_cont_def)

lemma utf8_chunks_ascii: "list_all is_digit s \<Longrightarrow> utf8_chunks s = map (\<lambda>c. [c]) s"
proof (induction s)
  case (Cons c s)
  then have "takeWhile is_cont s = []" "dropWhile is_cont s = s"
    by (cases s; auto dest: is_cont_not_digit)+
  with Cons show ?case by simp
qed simp

lemma isnumeric_digits: "s \<noteq> [] \<Longrightarrow> list_all is_digit s \<Longrightarrow> isnumeric U s"
  by (auto simp: isnumeric_def utf8_chunks_ascii list_all_iff dest: is_cont_not_digit)

lemma isnumeric_str_of_nat [simp]: "isnumeric U (str_of_nat n)"
  by (simp add: isnumeric_digits str_of_nat_digits)

section \<open>Correlation header\<close>

definition corr_text_ok :: "correlation \<Rightarrow> bool" where
  "corr_text_ok d = (\<forall>(k, v) \<in> set d. valid_utf8 k \<and> valid_utf8 v)"

abbreviation corr_pair :: "string \<times> string \<Rightarrow> string" where
  "corr_pair \<equiv> \<lambda>(k, v). b64encode k @ '':'' @ b64encode v"

lemma corr_pair_split:
  "split_on (CHR '':'') (corr_pair (k, v)) = [b64encode k, b64encode v]"
  by (simp add: split_on_append_sep split_on_no_sep colon_codec.enc_no_sep)

lemma corr_pair_no_comma: "CHR '','' \<notin> set (corr_pair p)"
  by (cases p) (simp add: comma_codec.enc_no_sep)

lemma dict_set_fresh: "k \<notin> fst ` set d \<Longrightarrow> dict_set k v d = d @ [(k, v)]"
  by (induction d) auto

lemma correlation_loop_appends:
  assumes "corr_text_ok ps" and "distinct (map fst (d @ ps))" and "0 \<le> mx"
  shows "correlation_loop mx (map corr_pair ps) d
           = (None, d @ take (nat (mx + 1) - length d) ps)"
  using assms
proof (induction ps arbitrary: d)
  case (Cons p ps)
  obtain k v where p: "p = (k, v)" by fastforce
  show ?case
  proof (cases "mx < int (length d)")
    case True
    then have "nat (mx + 1) - length d = 0" by linarith
    with True show ?thesis by simp
  next
    case False
    then have "length d < nat (mx + 1)" by linarith
    then obtain n where m: "nat (mx + 1) = Suc (length d + n)"
      using less_imp_Suc_add by blast
    then have n: "nat (mx + 1) - length d = Suc n" "nat (mx + 1) - Suc (length d) = n" by simp_all
    have fresh: "k \<notin> fst ` set d" using Cons.prems(2) p by auto
    have "correlation_loop mx (map corr_pair ps) (d @ [(k, v)])
            = (None, (d @ [(k, v)]) @ take (nat (mx + 1) - length (d @ [(k, v)])) ps)"
      using Cons.prems p by (intro Cons.IH) (auto simp: corr_text_ok_def)
    then show ?thesis
      using False n Cons.prems(1) p corr_pair_split [of k v] dict_set_fresh [OF fresh]
      by (simp add: corr_text_ok_def colon_codec.dec_enc Let_def)
  qed
qed simp

lemma Correlation_roundtrip_take:
  assumes "corr_text_ok d" and "dict_ok d" and "0 \<le> mx"
  shows "Correlation_set_val mx (Some (Correlation_get_val d)) [] = (None, take (nat (mx + 1)) d)"
proof (cases d)
  case Nil
  then show ?thesis by (simp add: Correlation_set_val_def Correlation_get_val_def)
next
  case (Cons p ps)
  let ?v = "join_with '','' (map corr_pair d)"
  have split: "split_on (CHR '','') ?v = map corr_pair d"
    using Cons corr_pair_no_comma by (intro split_on_join_with) auto
  have nonempty: "?v \<noteq> []"
    using split Cons corr_pair_split [of "fst p" "snd p"] by (auto simp: case_prod_beta)
  have "correlation_loop mx (map corr_pair d) [] = (None, take (nat (mx + 1)) d)"
    using correlation_loop_appends [of d "[]" mx] assms by (simp add: dict_ok_def)
  then show ?thesis
    using split nonempty Cons by (simp add: Correlation_set_val_def Correlation_get_val_def)
qed

lemma correlation_loop_bound:
  "correlation_loop mx ps d = (e, d') \<Longrightarrow> int (length d') \<le> max (int (length d)) (mx + 1)"
proof (induction ps arbitrary: d)
  case (Cons per ps)
  have grow: "int (length (dict_set k v d)) \<le> int (length d) + 1" for k v
    using length_dict_set_le [of k v d] by linarith
  consider "d' = d" | "correlation_loop mx ps d = (e, d')" "int (length d) \<le> mx"
    | k v where "correlation_loop mx ps (dict_set k v d) = (e, d')" "int (length d) \<le> mx"
    using Cons.prems by (auto simp: Let_def not_less split: if_splits sum.splits)
  then show ?case
  proof cases
    case 2
    then show ?thesis using Cons.IH by fastforce
  next
    case (3 k v)
    then show ?thesis using grow [of k v] Cons.IH [of "dict_set k v d"] by auto
  qed auto
qed simp

lemma correlation_loop_ok [inv_intros]:
  "correlation_loop mx ps d = (e, d') \<Longrightarrow> dict_ok d \<Longrightarrow> dict_ok d'"
  by (induction mx ps d arbitrary: d' rule: correlation_loop.induct)
     (auto simp: Let_def dict_ok_set split: if_splits sum.splits)

lemma Correlation_roundtrip:
  assumes "corr_text_ok d" and "dict_ok d" and "0 \<le> mx" and "int (length d) \<le> mx + 1"
  shows "Correlation_set_val mx (Some (Correlation_get_val d)) [] = (None, d)"
proof -
  from assms(3,4) have "length d \<le> nat (mx + 1)" by linarith
  with Correlation_roundtrip_take [OF assms(1-3)] show ?thesis by simp
qed

text \<open>Both header items together, written by the sender and read into a fresh carrier.\<close>

lemma headers_transport:
  assumes "carrier_text_ok c" and "corr_text_ok (c_correlation c)" and "dict_ok (c_correlation c)"
    and "0 \<le> mx" and "int (length (c_correlation c)) \<le> mx + 1"
  shows "\<exists>h v. write_headers carrier_items c [] = Inr h \<and> Carrier_get_val c = Inr v
      \<and> read_headers mx carrier_items h (Carrier_empty []) = (None, c\<lparr>carrier_val := Some v\<rparr>)"
proof -
  obtain v where v: "Carrier_get_val c = Inr v" "v \<noteq> []"
    using Carrier_get_val_total [OF assms(1)] by blast
  let ?cv = "Correlation_get_val (c_correlation c)"
  let ?h = "[(''sw8-correlation'', ?cv), (''sw8'', v)]"
  let ?c1 = "Carrier_empty (c_correlation c)"
  have w: "write_headers carrier_items c [] = Inr ?h"
    using v by (simp add: carrier_items_def)
  have corr: "Correlation_set_val mx (Some ?cv) [] = (None, c_correlation c)"
    using assms by (intro Correlation_roundtrip) auto
  have "read_headers mx carrier_items ?h (Carrier_empty []) = Carrier_set_val (Some v) ?c1"
    using corr by (simp add: carrier_items_def Carrier_empty_def Carrier_init_def split: prod.splits option.splits)
  also have "\<dots> = (None, c\<lparr>carrier_val := Some v\<rparr>)"
    using Carrier_roundtrip_fields [OF assms(1) v(1), of ?c1]
    by (simp add: Carrier_empty_def Carrier_init_def)
  finally show ?thesis using w v by blast
qed

section \<open>Properties\<close>

text \<open>C6. Propagation round trip: a carrier whose text fields are well-formed and whose correlation
  context fits the receiver's limit survives transport. Rendering both header items and parsing
  them into a fresh carrier on the other side succeeds and restores every field and the
  correlation context exactly.\<close>

theorem headers_roundtrip:
  assumes "carrier_text_ok c" and "corr_text_ok (c_correlation c)" and "dict_ok (c_correlation c)"
    and "0 \<le> mx" and "int (length (c_correlation c)) \<le> mx + 1"
  shows "\<exists>h v. write_headers carrier_items c [] = Inr h \<and> Carrier_get_val c = Inr v
      \<and> read_headers mx carrier_items h (Carrier_empty []) = (None, c\<lparr>carrier_val := Some v\<rparr>)"
  using assms by (rule headers_transport)

theorem headers_roundtrip_witness:
  "\<exists>h v. write_headers carrier_items
        (Carrier_init ''t1'' ''s1'' ''7'' ''svc'' ''inst'' (Some ''/api'') (Some ''h:80'') [(''k'', ''v'')]) [] = Inr h
      \<and> Carrier_get_val (Carrier_init ''t1'' ''s1'' ''7'' ''svc'' ''inst'' (Some ''/api'') (Some ''h:80'') [(''k'', ''v'')]) = Inr v
      \<and> read_headers 3 carrier_items h (Carrier_empty [])
          = (None, (Carrier_init ''t1'' ''s1'' ''7'' ''svc'' ''inst'' (Some ''/api'') (Some ''h:80'') [(''k'', ''v'')])\<lparr>carrier_val := Some v\<rparr>)"
proof (rule headers_roundtrip)
  show "carrier_text_ok (Carrier_init ''t1'' ''s1'' ''7'' ''svc'' ''inst'' (Some ''/api'') (Some ''h:80'') [(''k'', ''v'')])"
    by (simp add: carrier_text_ok_def Carrier_init_def valid_utf8_ascii is_ascii_def)
qed (simp_all add: Carrier_init_def corr_text_ok_def valid_utf8_ascii is_ascii_def dict_ok_def)

text \<open>Correlation parsing is bounded: whatever the header contains, and whether or not parsing
  raises, a context parsed from an empty one holds at most one element more than the configured
  maximum, and that bound is reached (the guard tests the size before the insertion with a strict
  comparison).\<close>

theorem correlation_parse_bound:
  "int (length (snd (Correlation_set_val mx v []))) \<le> max 0 (mx + 1)
   \<and> length (snd (Correlation_set_val 3 (Some (Correlation_get_val
        [(''a'', ''1''), (''b'', ''2''), (''c'', ''3''), (''d'', ''4''), (''e'', ''5'')])) [])) = 4"
proof
  show "int (length (snd (Correlation_set_val mx v []))) \<le> max 0 (mx + 1)"
    using correlation_loop_bound [OF surjective_pairing, of mx _ "[]"]
    by (cases v) (auto simp: Correlation_set_val_def split: if_splits)
  have "Correlation_set_val 3 (Some (Correlation_get_val
        [(''a'', ''1''), (''b'', ''2''), (''c'', ''3''), (''d'', ''4''), (''e'', ''5'')])) []
      = (None, take (nat (3 + 1)) [(''a'', ''1''), (''b'', ''2''), (''c'', ''3''), (''d'', ''4''), (''e'', ''5'')])"
    by (rule Correlation_roundtrip_take)
       (simp_all add: corr_text_ok_def dict_ok_def valid_utf8_ascii is_ascii_def)
  then show "length (snd (Correlation_set_val 3 (Some (Correlation_get_val
        [(''a'', ''1''), (''b'', ''2''), (''c'', ''3''), (''d'', ''4''), (''e'', ''5'')])) [])) = 4"
    by simp
qed

text \<open>Suppression: assigning a non-empty header that does not have eight parts to a fresh carrier
  raises nothing, leaves every field empty and marks the carrier as suppressed, so the request is
  not traced; a missing or empty header never suppresses.\<close>

theorem malformed_header_suppresses:
  assumes "s \<noteq> []" and "length (split_on (CHR ''-'') s) \<noteq> 8"
  shows "Carrier_set_val (Some s) (Carrier_empty d) = (None, (Carrier_empty d)\<lparr>carrier_val := Some s\<rparr>)
    \<and> is_suppressed U (snd (Carrier_set_val (Some s) (Carrier_empty d))) = Inr True
    \<and> is_suppressed U (snd (Carrier_set_val None (Carrier_empty d))) = Inr False
    \<and> is_suppressed U (snd (Carrier_set_val (Some []) (Carrier_empty d))) = Inr False"
  using assms
  by (simp add: Carrier_set_val_malformed is_suppressed_def is_valid_def Carrier_empty_def Carrier_init_def)
     (simp add: Carrier_set_val_def Let_def)

theorem malformed_header_suppresses_witness:
  "is_suppressed \<lparr>u_numeric = (\<lambda>_. False), u_int = (\<lambda>_. Inl TypeError)\<rparr>
     (snd (Carrier_set_val (Some ''1-abc'') (Carrier_empty ([] :: correlation)))) = Inr True"
proof -
  have "''1-abc'' \<noteq> []" and "length (split_on (CHR ''-'') ''1-abc'') \<noteq> 8" by simp_all
  then show ?thesis
    by (rule malformed_header_suppresses [THEN conjunct2, THEN conjunct1])
qed

end
