(* ===== verification/Span.thy ===== *)
theory Span
  imports Carrier Complex_Main
begin

text \<open>
  The data of a trace: \<open>skywalking/__init__.py\<close> (components, layers, span kinds, logs),
  \<open>trace/__init__.py\<close> (IDs), \<open>trace/tags.py\<close>, \<open>trace/segment.py\<close>, \<open>trace/snapshot.py\<close> and the span objects
  of \<open>trace/span.py\<close> with the operations that touch one span only.  Spans and contexts refer to each
  other by address; the store is in \<open>Trace\<close>.
\<close>

section \<open>Enumerations\<close>

datatype component =
    Component_Unknown | General | Flask | Requests | PyMysql | Django | Tornado | Redis | MongoDB | PostgreSQL
  | KafkaProducer | KafkaConsumer | RabbitmqProducer | RabbitmqConsumer | PulsarProducer | PulsarConsumer
  | Elasticsearch | HBase | Neo4j | Urllib3 | Sanic | AioHttp | Pyramid | Psycopg | Celery | Falcon
  | MysqlClient | FastAPI | Bottle | AsyncPG | AIORedis | Websockets | HTTPX | Grpc

fun component_value :: "component \<Rightarrow> int" where
  "component_value Component_Unknown = 0"
| "component_value General = 7000"
| "component_value Flask = 7001"
| "component_value Requests = 7002"
| "component_value PyMysql = 7003"
| "component_value Django = 7004"
| "component_value Tornado = 7005"
| "component_value Redis = 7"
| "component_value MongoDB = 9"
| "component_value PostgreSQL = 22"
| "component_value KafkaProducer = 40"
| "component_value KafkaConsumer = 41"
| "component_value RabbitmqProducer = 52"
| "component_value RabbitmqConsumer = 53"
| "component_value PulsarProducer = 73"
| "component_value PulsarConsumer = 74"
| "component_value Elasticsearch = 47"
| "component_value HBase = 94"
| "component_value Neo4j = 112"
| "component_value Urllib3 = 7006"
| "component_value Sanic = 7007"
| "component_value AioHttp = 7008"
| "component_value Pyramid = 7009"
| "component_value Psycopg = 7010"
| "component_value Celery = 7011"
| "component_value Falcon = 7012"
| "component_value MysqlClient = 7013"
| "component_value FastAPI = 7014"
| "component_value Bottle = 7015"
| "component_value AsyncPG = 7016"
| "component_value AIORedis = 7017"
| "component_value Websockets = 7018"
| "component_value HTTPX = 7019"
| "component_value Grpc = 23"

datatype layer = Layer_Unknown | Database | RPCFramework | Http | MQ | Cache

fun layer_value :: "layer \<Rightarrow> int" where
  "layer_value Layer_Unknown = 0"
| "layer_value Database = 1"
| "layer_value RPCFramework = 2"
| "layer_value Http = 3"
| "layer_value MQ = 4"
| "layer_value Cache = 5"

datatype kind = Local | Entry | Exit

fun kind_value :: "kind \<Rightarrow> int" where
  "kind_value Local = 0"
| "kind_value Entry = 1"
| "kind_value Exit = 2"

definition is_local :: "kind \<Rightarrow> bool" where "is_local k = (k = Local)"
definition is_entry :: "kind \<Rightarrow> bool" where "is_entry k = (k = Entry)"
definition is_exit :: "kind \<Rightarrow> bool" where "is_exit k = (k = Exit)"

section \<open>Logs and tags\<close>

record log_item =
  li_key :: string
  li_val :: string

text \<open>
  The default argument \<open>time.time()\<close> of \<open>Log\<close> is evaluated once, when the class is defined, so every log
  without an explicit timestamp carries the import time.
\<close>

record log_entry =
  log_timestamp :: real
  log_items :: "log_item list"

definition Log_init :: "real \<Rightarrow> log_item list option \<Rightarrow> log_entry" where
  "Log_init import_time items =
     \<lparr>log_timestamp = import_time, log_items = (case items of None \<Rightarrow> [] | Some is \<Rightarrow> is)\<rparr>"

record tag =
  tag_key :: string
  tag_overridable :: bool
  tag_val :: string

text \<open>The tag classes: key and \<open>overridable\<close> flag; \<open>DbSqlParameters\<close> is the only one that accumulates.\<close>

datatype tag_class =
    TagHttpMethod | TagHttpURL | TagHttpStatusCode | TagHttpStatusMsg | TagHttpParams | TagDbType
  | TagDbInstance | TagDbStatement | TagDbSqlParameters | TagCacheType | TagCacheOp | TagCacheCmd
  | TagCacheKey | TagMqBroker | TagMqTopic | TagMqQueue | TagCeleryParameters | TagGrpcMethod
  | TagGrpcUrl | TagGrpcStatusCode

fun tag_class_key :: "tag_class \<Rightarrow> string" where
  "tag_class_key TagHttpMethod = ''http.method''"
| "tag_class_key TagHttpURL = ''http.url''"
| "tag_class_key TagHttpStatusCode = ''http.status_code''"
| "tag_class_key TagHttpStatusMsg = ''http.status_msg''"
| "tag_class_key TagHttpParams = ''http.params''"
| "tag_class_key TagDbType = ''db.type''"
| "tag_class_key TagDbInstance = ''db.instance''"
| "tag_class_key TagDbStatement = ''db.statement''"
| "tag_class_key TagDbSqlParameters = ''db.sql.parameters''"
| "tag_class_key TagCacheType = ''cache.type''"
| "tag_class_key TagCacheOp = ''cache.op''"
| "tag_class_key TagCacheCmd = ''cache.cmd''"
| "tag_class_key TagCacheKey = ''cache.key''"
| "tag_class_key TagMqBroker = ''mq.broker''"
| "tag_class_key TagMqTopic = ''mq.topic''"
| "tag_class_key TagMqQueue = ''mq.queue''"
| "tag_class_key TagCeleryParameters = ''celery.parameters''"
| "tag_class_key TagGrpcMethod = ''grpc.method''"
| "tag_class_key TagGrpcUrl = ''grpc.url''"
| "tag_class_key TagGrpcStatusCode = ''grpc.status_code''"

definition Tag_init :: "tag_class \<Rightarrow> string \<Rightarrow> tag" where
  "Tag_init cls v = \<lparr>tag_key = tag_class_key cls, tag_overridable = (cls \<noteq> TagDbSqlParameters), tag_val = v\<rparr>"

datatype tag_slot = OneTag tag | ManyTags "tag list"

type_synonym tags = "(string, tag_slot) dict"

section \<open>IDs\<close>

datatype trace_id = NewID string | GivenID string | NoopID

fun id_value :: "trace_id \<Rightarrow> string" where
  "id_value (NewID s) = s"
| "id_value (GivenID s) = s"
| "id_value NoopID = []"

definition ID_init :: "string \<Rightarrow> string option \<Rightarrow> trace_id" where
  "ID_init uuid raw_id = GivenID (case raw_id of None \<Rightarrow> uuid | Some r \<Rightarrow> if r = [] then uuid else r)"

section \<open>Segment references\<close>

datatype ref_type = CrossProcess | CrossThread

record segment_ref =
  sr_ref_type :: ref_type
  sr_trace_id :: string
  sr_segment_id :: string
  sr_span_id :: int
  sr_service :: string
  sr_service_instance :: string
  sr_endpoint :: "string option"
  sr_client_address :: "string option"

definition SegmentRef_init :: "unicode \<Rightarrow> 'd carrier \<Rightarrow> segment_ref res" where
  "SegmentRef_init U c =
     bind_res (int_of_text U (c_span_id c)) (\<lambda>sid.
     Inr \<lparr>sr_ref_type = CrossProcess, sr_trace_id = c_trace_id c, sr_segment_id = c_segment_id c,
          sr_span_id = sid, sr_service = c_service c, sr_service_instance = c_service_instance c,
          sr_endpoint = c_endpoint c, sr_client_address = c_client_address c\<rparr>)"

definition SegmentRef_eq :: "segment_ref \<Rightarrow> segment_ref \<Rightarrow> bool" where
  "SegmentRef_eq a b =
     (sr_ref_type a = sr_ref_type b \<and> sr_trace_id a = sr_trace_id b \<and> sr_segment_id a = sr_segment_id b
      \<and> sr_span_id a = sr_span_id b \<and> sr_service a = sr_service b
      \<and> sr_service_instance a = sr_service_instance b \<and> sr_endpoint a = sr_endpoint b
      \<and> sr_client_address a = sr_client_address b)"

lemma SegmentRef_eq_iff: "SegmentRef_eq a b \<longleftrightarrow> a = b"
  by (auto simp: SegmentRef_eq_def)

section \<open>Segments\<close>

record segment =
  seg_id :: trace_id
  seg_spans :: "nat list"
  seg_timestamp :: int
  seg_related :: "trace_id list"
  seg_size_limited :: bool

definition Segment_init :: "string \<Rightarrow> string \<Rightarrow> int \<Rightarrow> segment" where
  "Segment_init uuid1 uuid2 now =
     \<lparr>seg_id = GivenID uuid1, seg_spans = [], seg_timestamp = now, seg_related = [NewID uuid2],
      seg_size_limited = False\<rparr>"

definition NoopSegment_init :: segment where
  "NoopSegment_init =
     \<lparr>seg_id = NoopID, seg_spans = [], seg_timestamp = 0, seg_related = [NoopID], seg_size_limited = False\<rparr>"

definition segment_archive :: "nat \<Rightarrow> segment \<Rightarrow> segment" where
  "segment_archive sp s = s\<lparr>seg_spans := seg_spans s @ [sp]\<rparr>"

definition relate :: "trace_id \<Rightarrow> segment \<Rightarrow> segment res" where
  "relate tid s =
     (case seg_related s of
        [] \<Rightarrow> Inl IndexError
      | NewID _ # _ \<Rightarrow> Inr (s\<lparr>seg_related := butlast (seg_related s) @ [tid]\<rparr>)
      | _ \<Rightarrow> Inr (s\<lparr>seg_related := seg_related s @ [tid]\<rparr>))"

section \<open>Snapshots\<close>

record snapshot =
  ss_trace_id :: "trace_id option"
  ss_segment_id :: "string option"
  ss_span_id :: int
  ss_endpoint :: "string option"
  ss_correlation :: correlation

definition snapshot_is_valid :: "snapshot \<Rightarrow> bool" where
  "snapshot_is_valid s = (ss_segment_id s \<noteq> None \<and> ss_span_id s > -1 \<and> ss_trace_id s \<noteq> None)"

definition str_of_opt :: "string option \<Rightarrow> string" where
  "str_of_opt x = (case x of None \<Rightarrow> ''None'' | Some s \<Rightarrow> s)"

definition build_ref :: "config \<Rightarrow> snapshot \<Rightarrow> segment_ref" where
  "build_ref c s =
     \<lparr>sr_ref_type = CrossThread, sr_trace_id = str_of_opt (map_option id_value (ss_trace_id s)),
      sr_segment_id = str_of_opt (ss_segment_id s), sr_span_id = ss_span_id s, sr_service = agent_name c,
      sr_service_instance = agent_instance_name c, sr_endpoint = ss_endpoint s, sr_client_address = Some []\<rparr>"

section \<open>Spans\<close>

datatype span_class = PlainSpan | EntrySpan | ExitSpan | NoopSpan

record span =
  sp_class :: span_class
  sp_depth :: int
  sp_context :: nat
  sp_sid :: int
  sp_pid :: int
  sp_op :: "string option"
  sp_peer :: "string option"
  sp_kind :: kind
  sp_component :: component
  sp_layer :: layer
  sp_inherit :: component
  sp_tags :: tags
  sp_logs :: "log_entry list"
  sp_refs :: "segment_ref list"
  sp_start_time :: int
  sp_end_time :: int
  sp_error_occurred :: bool
  sp_max_depth :: int

fun class_kind :: "span_class \<Rightarrow> kind" where
  "class_kind PlainSpan = Local"
| "class_kind EntrySpan = Entry"
| "class_kind ExitSpan = Exit"
| "class_kind NoopSpan = Local"

definition Span_init ::
  "span_class \<Rightarrow> nat \<Rightarrow> int \<Rightarrow> int \<Rightarrow> string option \<Rightarrow> string option \<Rightarrow> component option \<Rightarrow> span" where
  "Span_init cls ctx sid pid op peer cmp =
     \<lparr>sp_class = cls, sp_depth = 0, sp_context = ctx, sp_sid = sid, sp_pid = pid, sp_op = op, sp_peer = peer,
      sp_kind = class_kind cls,
      sp_component = (case cmp of None \<Rightarrow> Component_Unknown | Some c \<Rightarrow> c),
      sp_layer = Layer_Unknown, sp_inherit = Component_Unknown, sp_tags = [], sp_logs = [], sp_refs = [],
      sp_start_time = 0, sp_end_time = 0, sp_error_occurred = False, sp_max_depth = 0\<rparr>"

definition NoopSpan_init :: "nat \<Rightarrow> span" where
  "NoopSpan_init ctx = Span_init NoopSpan ctx (-1) (-1) (Some []) None None"

text \<open>\<open>raised\<close> replaces the logs by the traceback of the current exception, \<open>log\<close> appends one.\<close>

definition span_raised :: "real \<Rightarrow> string \<Rightarrow> span \<Rightarrow> span" where
  "span_raised import_time traceback s =
     s\<lparr>sp_error_occurred := True,
       sp_logs := [Log_init import_time (Some [\<lparr>li_key = ''Traceback'', li_val = traceback\<rparr>])]\<rparr>"

definition span_log :: "real \<Rightarrow> string \<Rightarrow> span \<Rightarrow> span" where
  "span_log import_time ex s =
     s\<lparr>sp_error_occurred := True,
       sp_logs := sp_logs s @ [Log_init import_time (Some [\<lparr>li_key = ''Traceback'', li_val = ex\<rparr>])]\<rparr>"

text \<open>
  The \<open>defaultdict(list)\<close>: a fresh key starts as an empty list; appending to a slot that holds a single
  tag raises.
\<close>

definition span_tag :: "tag \<Rightarrow> span \<Rightarrow> span res" where
  "span_tag t s =
     (if tag_overridable t then Inr (s\<lparr>sp_tags := dict_set (tag_key t) (OneTag t) (sp_tags s)\<rparr>)
      else case dict_get (sp_tags s) (tag_key t) of
             None \<Rightarrow> Inr (s\<lparr>sp_tags := dict_set (tag_key t) (ManyTags [t]) (sp_tags s)\<rparr>)
           | Some (ManyTags ts) \<Rightarrow> Inr (s\<lparr>sp_tags := dict_set (tag_key t) (ManyTags (ts @ [t])) (sp_tags s)\<rparr>)
           | Some (OneTag _) \<Rightarrow> Inl AttributeError)"

fun slot_tags :: "tag_slot \<Rightarrow> tag list" where
  "slot_tags (OneTag t) = [t]"
| "slot_tags (ManyTags ts) = ts"

definition iter_tags :: "span \<Rightarrow> tag list" where
  "iter_tags s = concat (map (slot_tags \<circ> snd) (sp_tags s))"

subsection \<open>Laws of tags\<close>

text \<open>A key is used either by overridable tags or by accumulating ones; the tag classes never mix.\<close>

definition slot_ok :: "string \<times> tag_slot \<Rightarrow> bool" where
  "slot_ok ks = (case ks of
     (k, OneTag t) \<Rightarrow> tag_overridable t \<and> tag_key t = k
   | (k, ManyTags ts) \<Rightarrow> ts \<noteq> [] \<and> (\<forall>t \<in> set ts. \<not> tag_overridable t \<and> tag_key t = k))"

definition class_tag :: "tag \<Rightarrow> bool" where
  "class_tag t = (\<exists>cls v. t = Tag_init cls v)"

definition tags_ok :: "span \<Rightarrow> bool" where
  "tags_ok s = (dict_ok (sp_tags s) \<and> (\<forall>ks \<in> set (sp_tags s). slot_ok ks \<and> (\<forall>t \<in> set (slot_tags (snd ks)). class_tag t)))"

lemma tag_class_overridable:
  assumes "class_tag t" and "class_tag u" and "tag_key t = tag_key u"
  shows "tag_overridable t = tag_overridable u"
proof -
  obtain c v d w where "t = Tag_init c v" "u = Tag_init d w" using assms by (auto simp: class_tag_def)
  with assms(3) show ?thesis by (cases c; cases d) (simp_all add: Tag_init_def)
qed

lemma set_dict_set: "set (dict_set k v d) \<subseteq> insert (k, v) (set d)"
  by (induction d) auto

lemma span_tag_total:
  assumes "tags_ok s" and "class_tag t"
  shows "\<exists>s'. span_tag t s = Inr s' \<and> tags_ok s'"
proof -
  have step: "tags_ok (s\<lparr>sp_tags := dict_set (tag_key t) sl (sp_tags s)\<rparr>)"
    if "slot_ok (tag_key t, sl)" "\<forall>u \<in> set (slot_tags sl). class_tag u" for sl
    using assms(1) that set_dict_set [of "tag_key t" sl "sp_tags s"]
    by (auto simp: tags_ok_def dict_ok_set)
  show ?thesis
  proof (cases "tag_overridable t")
    case True
    then show ?thesis using step [of "OneTag t"] assms(2) by (simp add: span_tag_def slot_ok_def)
  next
    case False
    show ?thesis
    proof (cases "dict_get (sp_tags s) (tag_key t)")
      case None
      with False show ?thesis using step [of "ManyTags [t]"] assms(2) by (simp add: span_tag_def slot_ok_def)
    next
      case (Some sl)
      then have "(tag_key t, sl) \<in> set (sp_tags s)" by (rule map_of_SomeD)
      with assms(1) have sl: "slot_ok (tag_key t, sl)" "\<forall>u \<in> set (slot_tags sl). class_tag u"
        unfolding tags_ok_def by auto
      show ?thesis
      proof (cases sl)
        case (OneTag u)
        with sl False assms(2) tag_class_overridable [of t u] have False by (simp add: slot_ok_def)
        then show ?thesis ..
      next
        case (ManyTags ts)
        with sl False assms(2) Some show ?thesis
          using step [of "ManyTags (ts @ [t])"] by (auto simp: span_tag_def slot_ok_def)
      qed
    qed
  qed
qed

definition tags_for :: "string \<Rightarrow> span \<Rightarrow> tag list" where
  "tags_for k s = filter (\<lambda>t. tag_key t = k) (iter_tags s)"

lemma tags_for_lookup:
  assumes "tags_ok s"
  shows "tags_for k s = (case dict_get (sp_tags s) k of None \<Rightarrow> [] | Some sl \<Rightarrow> slot_tags sl)"
proof -
  have "dict_ok d \<Longrightarrow> \<forall>ks \<in> set d. slot_ok ks \<Longrightarrow>
      filter (\<lambda>t. tag_key t = k) (concat (map (slot_tags \<circ> snd) d))
      = (case map_of d k of None \<Rightarrow> [] | Some sl \<Rightarrow> slot_tags sl)" for d
  proof (induction d)
    case (Cons ks d)
    obtain k' sl where ks: "ks = (k', sl)" by (cases ks)
    have keys: "\<forall>t \<in> set (slot_tags sl). tag_key t = k'"
      using Cons.prems(2) ks by (cases sl) (auto simp: slot_ok_def)
    then have f: "filter (\<lambda>t. tag_key t = k) (slot_tags sl) = (if k = k' then slot_tags sl else [])"
      by (auto simp: filter_empty_conv)
    have "k = k' \<Longrightarrow> map_of d k = None"
      using Cons.prems(1) ks by (auto simp: dict_ok_def map_of_eq_None_iff)
    with Cons ks f show ?case by (auto simp: dict_ok_def)
  qed simp
  with assms show ?thesis by (auto simp: tags_for_def iter_tags_def tags_ok_def)
qed

section \<open>Properties\<close>

text \<open>Tagging a span with any of the agent's tag classes never fails, and reading the tags back
  gives what the class promises: an overridable tag replaces the earlier value of its key, SQL
  parameters accumulate in order, and the tags of every other key are untouched.\<close>

theorem tag_readback:
  assumes "tags_ok s"
  shows "\<exists>s'. span_tag (Tag_init cls v) s = Inr s' \<and> tags_ok s'
     \<and> tags_for (tag_class_key cls) s' =
         (if cls = TagDbSqlParameters then tags_for (tag_class_key cls) s @ [Tag_init cls v] else [Tag_init cls v])
     \<and> (\<forall>k. k \<noteq> tag_class_key cls \<longrightarrow> tags_for k s' = tags_for k s)"
proof -
  let ?t = "Tag_init cls v"
  have "class_tag ?t" by (auto simp: class_tag_def)
  with span_tag_total [OF assms] obtain s' where s': "span_tag ?t s = Inr s'" "tags_ok s'" by blast
  have key: "tag_key ?t = tag_class_key cls" "tag_overridable ?t = (cls \<noteq> TagDbSqlParameters)"
    by (simp_all add: Tag_init_def)
  show ?thesis
    using s'(1,2) tags_for_lookup [OF s'(2)] tags_for_lookup [OF assms] key
    by (auto simp: span_tag_def update_conv' split: if_splits option.splits tag_slot.splits)
qed

theorem tag_readback_witness:
  "\<exists>s'. span_tag (Tag_init TagHttpURL ''/b'')
       ((NoopSpan_init 0)\<lparr>sp_tags := [(''http.url'', OneTag (Tag_init TagHttpURL ''/a''))]\<rparr>) = Inr s'
     \<and> tags_for ''http.url'' s' = [Tag_init TagHttpURL ''/b'']"
proof -
  let ?s = "(NoopSpan_init 0)\<lparr>sp_tags := [(''http.url'', OneTag (Tag_init TagHttpURL ''/a''))]\<rparr>"
  have "class_tag (Tag_init TagHttpURL ''/a'')" by (auto simp: class_tag_def)
  then have "tags_ok ?s" by (simp add: tags_ok_def dict_ok_def slot_ok_def) (simp add: Tag_init_def)
  from tag_readback [OF this, of TagHttpURL "''/b''"] show ?thesis by auto
qed

end
