(* ===== verification/Utils.thy ===== *)
theory Utils
  imports Prelude Complex_Main
begin

text \<open>
  The helpers of \<open>skywalking/utils\<close>: span-id counters, the atomic reference, integer and array the
  profiler synchronises on, the comparison operators of the plugin version rules, and the
  throttled drop log.  Each method body runs under the object's lock, so a method is one atomic
  state transformer; the interleaving of threads is the order in which the transformers are applied.
  The locale \<open>atomic_cell\<close> states what a client may assume of a compare-and-set cell; it is
  interpreted on \<open>AtomicRef\<close> and on every slot of an \<open>AtomicArray\<close>.
\<close>

section \<open>Counter (utils/counter.py)\<close>

record counter =
  counter_value :: int

definition Counter_init :: counter where
  "Counter_init = \<lparr>counter_value = -1\<rparr>"

definition Counter_next :: "counter \<Rightarrow> int \<times> counter" where
  "Counter_next c = (let v = counter_value c + 1 in (v, c\<lparr>counter_value := v\<rparr>))"

definition Counter_str :: "counter \<Rightarrow> string" where
  "Counter_str c = str_of_int (counter_value c)"

fun Counter_nexts :: "nat \<Rightarrow> counter \<Rightarrow> int list \<times> counter" where
  "Counter_nexts 0 c = ([], c)"
| "Counter_nexts (Suc n) c =
     (let (v, c') = Counter_next c; (vs, c'') = Counter_nexts n c' in (v # vs, c''))"

section \<open>AtomicRef, AtomicInteger (utils/atomic_ref.py, utils/integer.py)\<close>

record 'a atomic_ref =
  ref_var :: 'a

definition AtomicRef_init :: "'a \<Rightarrow> 'a atomic_ref" where
  "AtomicRef_init v = \<lparr>ref_var = v\<rparr>"

definition AtomicRef_get :: "'a atomic_ref \<Rightarrow> 'a" where
  "AtomicRef_get r = ref_var r"

definition AtomicRef_set :: "'a atomic_ref \<Rightarrow> 'a \<Rightarrow> 'a atomic_ref" where
  "AtomicRef_set r v = r\<lparr>ref_var := v\<rparr>"

definition AtomicRef_compare_and_set :: "'a atomic_ref \<Rightarrow> 'a \<Rightarrow> 'a \<Rightarrow> bool \<times> 'a atomic_ref" where
  "AtomicRef_compare_and_set r expect update =
     (if ref_var r = expect then (True, r\<lparr>ref_var := update\<rparr>) else (False, r))"

definition AtomicInteger_add_and_get :: "int atomic_ref \<Rightarrow> int \<Rightarrow> int \<times> int atomic_ref" where
  "AtomicInteger_add_and_get r delta = (let v = ref_var r + delta in (v, r\<lparr>ref_var := v\<rparr>))"

section \<open>AtomicArray (utils/array.py)\<close>

record 'a atomic_array =
  arr_length :: int
  arr_items :: "'a option list"

definition AtomicArray_init :: "int \<Rightarrow> 'a atomic_array" where
  "AtomicArray_init n = \<lparr>arr_length = n, arr_items = replicate (nat n) None\<rparr>"

definition AtomicArray_length :: "'a atomic_array \<Rightarrow> int" where
  "AtomicArray_length a = arr_length a"

definition AtomicArray_getitem :: "'a atomic_array \<Rightarrow> int \<Rightarrow> 'a option res" where
  "AtomicArray_getitem a i =
     (let n = int (length (arr_items a)); j = (if i < 0 then n + i else i)
      in if 0 \<le> j \<and> j < n then Inr (arr_items a ! nat j) else Inl IndexError)"

definition AtomicArray_set :: "'a atomic_array \<Rightarrow> int \<Rightarrow> 'a option \<Rightarrow> 'a atomic_array res" where
  "AtomicArray_set a i v =
     (if i < 0 \<or> i \<ge> AtomicArray_length a then Inl IndexError
      else Inr (a\<lparr>arr_items := (arr_items a)[nat i := v]\<rparr>))"

definition AtomicArray_get :: "'a atomic_array \<Rightarrow> int \<Rightarrow> 'a option res" where
  "AtomicArray_get a i =
     (if i < 0 \<or> i \<ge> AtomicArray_length a then Inl IndexError
      else Inr (arr_items a ! nat i))"

definition AtomicArray_compare_and_set ::
  "'a atomic_array \<Rightarrow> int \<Rightarrow> 'a option \<Rightarrow> 'a option \<Rightarrow> (bool \<times> 'a atomic_array) res" where
  "AtomicArray_compare_and_set a i expect update =
     (if i < 0 \<or> i \<ge> AtomicArray_length a then Inl IndexError
      else if arr_items a ! nat i = expect
           then Inr (True, a\<lparr>arr_items := (arr_items a)[nat i := update]\<rparr>)
           else Inr (False, a))"

definition arr_ok :: "'a atomic_array \<Rightarrow> bool" where
  "arr_ok a = (arr_length a = int (length (arr_items a)))"

section \<open>Comparison operators (utils/comparator.py)\<close>

definition operators :: "string \<Rightarrow> ('v::linorder \<Rightarrow> 'v \<Rightarrow> bool) option" where
  "operators symb = map_of
     [(''<'', \<lambda>cv ev. cv < ev),
      (''<='', \<lambda>cv ev. cv < ev \<or> cv = ev),
      (''=='', \<lambda>cv ev. cv = ev),
      (''>='', \<lambda>cv ev. cv > ev \<or> cv = ev),
      (''>'', \<lambda>cv ev. cv > ev),
      (''!='', \<lambda>cv ev. cv \<noteq> ev)] symb"

section \<open>Throttled drop log (utils/reporter_log.py)\<close>

record drop_log =
  drop_totals :: "string \<Rightarrow> int option"
  drop_logged_totals :: "string \<Rightarrow> int option"
  last_drop_log_at :: "string \<Rightarrow> real option"
  last_reporter_log_at :: "string \<Rightarrow> real option"

definition drop_log_init :: drop_log where
  "drop_log_init = \<lparr>drop_totals = Map.empty, drop_logged_totals = Map.empty,
                    last_drop_log_at = Map.empty, last_reporter_log_at = Map.empty\<rparr>"

datatype log_line =
    DroppedLine string int int   \<comment> \<open>kind, +delta since last log, total this process\<close>
  | ReporterExceptionLine string real

definition DROP_LOG_INTERVAL_SEC :: real where
  "DROP_LOG_INTERVAL_SEC = 30"

definition REPORTER_LOG_INTERVAL_SEC :: real where
  "REPORTER_LOG_INTERVAL_SEC = 30"

definition get_or :: "'a \<Rightarrow> 'a option \<Rightarrow> 'a" where
  "get_or d x = (case x of None \<Rightarrow> d | Some v \<Rightarrow> v)"

definition log_reporter_exception_throttled ::
  "real \<Rightarrow> string \<Rightarrow> real \<Rightarrow> drop_log \<Rightarrow> log_line list \<times> drop_log" where
  "log_reporter_exception_throttled now reporter_name wait st =
     (let last = get_or 0 (last_reporter_log_at st reporter_name)
      in if now - last < REPORTER_LOG_INTERVAL_SEC then ([], st)
         else ([ReporterExceptionLine reporter_name wait],
               st\<lparr>last_reporter_log_at := (last_reporter_log_at st)(reporter_name \<mapsto> now)\<rparr>))"

definition log_dropped_throttled ::
  "real \<Rightarrow> string \<Rightarrow> int \<Rightarrow> bool \<Rightarrow> drop_log \<Rightarrow> log_line list \<times> drop_log" where
  "log_dropped_throttled now kind count force st =
     (if count \<le> 0 then ([], st)
      else
        let total = get_or 0 (drop_totals st kind) + count;
            st1 = st\<lparr>drop_totals := (drop_totals st)(kind \<mapsto> total)\<rparr>;
            last = get_or 0 (last_drop_log_at st1 kind)
        in if \<not> force \<and> now - last < DROP_LOG_INTERVAL_SEC then ([], st1)
           else
             let logged = get_or 0 (drop_logged_totals st1 kind);
                 delta = total - logged
             in ([DroppedLine kind delta total],
                 st1\<lparr>drop_logged_totals := (drop_logged_totals st1)(kind \<mapsto> total),
                     last_drop_log_at := (last_drop_log_at st1)(kind \<mapsto> now)\<rparr>))"

text \<open>A history of drop reports: \<open>(now, kind, count, force)\<close> in the order the calls happened.\<close>

fun drop_history :: "(real \<times> string \<times> int \<times> bool) list \<Rightarrow> drop_log \<Rightarrow> log_line list \<times> drop_log" where
  "drop_history [] st = ([], st)"
| "drop_history ((now, kind, count, force) # es) st =
     (let (ls, st') = log_dropped_throttled now kind count force st;
          (ls', st'') = drop_history es st'
      in (ls @ ls', st''))"

definition delta_of :: "string \<Rightarrow> log_line \<Rightarrow> int" where
  "delta_of kind l = (case l of DroppedLine k d t \<Rightarrow> if k = kind then d else 0 | _ \<Rightarrow> 0)"

definition dropped_count :: "string \<Rightarrow> (real \<times> string \<times> int \<times> bool) \<Rightarrow> int" where
  "dropped_count kind e = (case e of (_, k, c, _) \<Rightarrow> if k = kind \<and> 0 < c then c else 0)"

section \<open>Laws of the counters\<close>

lemma Counter_nexts_result:
  "Counter_nexts n c =
     (map (\<lambda>i. counter_value c + 1 + int i) [0..<n], c\<lparr>counter_value := counter_value c + int n\<rparr>)"
  by (induction n arbitrary: c)
     (auto simp: Counter_next_def Let_def upt_conv_Cons map_Suc_upt [symmetric] simp del: upt_Suc)

lemma Counter_nexts_distinct: "distinct (fst (Counter_nexts n c))"
  by (simp add: Counter_nexts_result distinct_map inj_on_def)

section \<open>The compare-and-set interface\<close>

locale atomic_cell =
  fixes ok :: "'s \<Rightarrow> bool"
    and get :: "'s \<Rightarrow> 'a"
    and cas :: "'s \<Rightarrow> 'a \<Rightarrow> 'a \<Rightarrow> bool \<times> 's"
  assumes cas_wins: "ok s \<Longrightarrow> get s = e \<Longrightarrow> \<exists>s'. cas s e u = (True, s') \<and> get s' = u \<and> ok s'"
    and cas_neq: "ok s \<Longrightarrow> get s \<noteq> e \<Longrightarrow> cas s e u = (False, s)"
begin

fun race :: "'s \<Rightarrow> 'a \<Rightarrow> 'a list \<Rightarrow> bool list \<times> 's" where
  "race s e [] = ([], s)"
| "race s e (u # us) = (let (b, s') = cas s e u; (bs, s'') = race s' e us in (b # bs, s''))"

lemma cas_True: "ok s \<Longrightarrow> cas s e u = (True, s') \<Longrightarrow> get s = e \<and> get s' = u \<and> ok s'"
  using cas_wins [of s e u] cas_neq [of s e u] by (cases "get s = e") auto

lemma race_lost:
  "ok s \<Longrightarrow> get s \<noteq> e \<Longrightarrow> race s e us = (replicate (length us) False, s)"
  by (induction us) (simp_all add: cas_neq)

text \<open>
  Of any number of clients that race from the same expected value, exactly the first one wins and
  the cell ends up holding its update.
\<close>

lemma race_first_wins:
  assumes "ok s" and "get s = e" and "u \<noteq> e"
  shows "\<exists>s'. race s e (u # us) = (True # replicate (length us) False, s') \<and> get s' = u \<and> ok s'"
proof -
  obtain s' where c: "cas s e u = (True, s')" and s': "get s' = u" "ok s'"
    using cas_wins [OF assms(1,2)] by blast
  from s' assms(3) have "race s' e us = (replicate (length us) False, s')"
    by (intro race_lost) auto
  with c s' show ?thesis by simp
qed

end

interpretation ref_cell: atomic_cell "\<lambda>_. True" AtomicRef_get AtomicRef_compare_and_set
  by unfold_locales (auto simp: AtomicRef_get_def AtomicRef_compare_and_set_def)

definition slot_cas :: "nat \<Rightarrow> 'a atomic_array \<Rightarrow> 'a option \<Rightarrow> 'a option \<Rightarrow> bool \<times> 'a atomic_array" where
  "slot_cas i a e u = (case AtomicArray_compare_and_set a (int i) e u of Inl _ \<Rightarrow> (False, a) | Inr r \<Rightarrow> r)"

interpretation slot_cell: atomic_cell
  "\<lambda>a. arr_ok a \<and> i < length (arr_items a)" "\<lambda>a. arr_items a ! i" "slot_cas i" for i
  by unfold_locales
     (auto simp: slot_cas_def AtomicArray_compare_and_set_def AtomicArray_length_def arr_ok_def)

lemma arr_ok_init: "0 \<le> n \<Longrightarrow> arr_ok (AtomicArray_init n)"
  by (simp add: arr_ok_def AtomicArray_init_def)

lemma arr_ok_set [inv_intros]:
  "arr_ok a \<Longrightarrow> AtomicArray_set a i v = Inr a' \<Longrightarrow> arr_ok a'"
  by (auto simp: arr_ok_def AtomicArray_set_def split: if_splits)

lemma arr_ok_cas [inv_intros]:
  "arr_ok a \<Longrightarrow> AtomicArray_compare_and_set a i e u = Inr (b, a') \<Longrightarrow> arr_ok a'"
  by (auto simp: arr_ok_def AtomicArray_compare_and_set_def split: if_splits)

text \<open>On an index within the bounds neither access nor update raises.\<close>

lemma AtomicArray_total:
  assumes "arr_ok a" and "i < length (arr_items a)"
  shows "AtomicArray_get a (int i) = Inr (arr_items a ! i)"
    and "AtomicArray_getitem a (int i) = Inr (arr_items a ! i)"
    and "AtomicArray_set a (int i) v = Inr (a\<lparr>arr_items := (arr_items a)[i := v]\<rparr>)"
  using assms
  by (simp_all add: arr_ok_def AtomicArray_get_def AtomicArray_getitem_def AtomicArray_set_def
      AtomicArray_length_def)

section \<open>Accounting of the drop log\<close>

definition pending_drops :: "string \<Rightarrow> drop_log \<Rightarrow> int" where
  "pending_drops kind st = get_or 0 (drop_totals st kind) - get_or 0 (drop_logged_totals st kind)"

lemma get_or_upd [simp]: "get_or d ((m(k \<mapsto> v)) x) = (if x = k then v else get_or d (m x))"
  by (simp add: get_or_def)

lemma get_or_simps [simp]: "get_or d None = d" "get_or d (Some v) = v"
  by (simp_all add: get_or_def)

lemma log_dropped_throttled_accounting:
  assumes "log_dropped_throttled now k c force st = (ls, st')"
  shows "sum_list (map (delta_of kind) ls) + pending_drops kind st'
           = pending_drops kind st + dropped_count kind (now, k, c, force)"
    and "get_or 0 (drop_totals st' kind)
           = get_or 0 (drop_totals st kind) + dropped_count kind (now, k, c, force)"
  using assms
  by (auto simp: log_dropped_throttled_def Let_def delta_of_def pending_drops_def dropped_count_def
      split: if_splits)

lemma log_dropped_throttled_forced:
  "0 < c \<Longrightarrow> log_dropped_throttled now k c True st = (ls, st') \<Longrightarrow> pending_drops k st' = 0"
  by (auto simp: log_dropped_throttled_def Let_def pending_drops_def)

lemma drop_history_accounting:
  assumes "drop_history es st = (ls, st')"
  shows "sum_list (map (delta_of kind) ls) + pending_drops kind st'
           = pending_drops kind st + sum_list (map (dropped_count kind) es)
       \<and> get_or 0 (drop_totals st' kind)
           = get_or 0 (drop_totals st kind) + sum_list (map (dropped_count kind) es)"
  using assms
proof (induction es arbitrary: st ls)
  case (Cons e es)
  obtain now k c force where e: "e = (now, k, c, force)" by (cases e) auto
  obtain ls1 st1 where 1: "log_dropped_throttled now k c force st = (ls1, st1)" by fastforce
  obtain ls2 where 2: "drop_history es st1 = (ls2, st')" and ls: "ls = ls1 @ ls2"
    using Cons.prems e 1 by (auto split: prod.splits)
  show ?case
    using Cons.IH [OF 2] log_dropped_throttled_accounting [OF 1, of kind] e ls
    by simp
qed simp

lemma drop_history_append:
  "drop_history (es @ fs) st =
     (let (ls, st') = drop_history es st; (ls', st'') = drop_history fs st' in (ls @ ls', st''))"
  by (induction es arbitrary: st) (auto simp: Let_def split: prod.splits)

text \<open>Drop warnings lose nothing and count nothing twice: over any history of drops of any kinds, in
  which the throttle may have silenced any number of lines, the increments printed for a kind once a
  forced (shutdown) line is written add up to exactly the number of items of that kind dropped since
  the process started, and the total printed is that number.\<close>

theorem forced_drop_line_settles:
  assumes "0 < c" and "drop_history (es @ [(now, kind, c, True)]) drop_log_init = (ls, st)"
  shows "sum_list (map (delta_of kind) ls) = sum_list (map (dropped_count kind) (es @ [(now, kind, c, True)]))
     \<and> drop_totals st kind = Some (sum_list (map (dropped_count kind) (es @ [(now, kind, c, True)])))"
proof -
  obtain ls1 st1 where 1: "drop_history es drop_log_init = (ls1, st1)" by fastforce
  obtain ls2 where 2: "log_dropped_throttled now kind c True st1 = (ls2, st)" and "ls = ls1 @ ls2"
    using assms(2) 1 by (auto simp: drop_history_append split: prod.splits)
  have "pending_drops kind st = 0" by (rule log_dropped_throttled_forced [OF assms(1) 2])
  moreover have "\<exists>v. drop_totals st kind = Some v"
    using 2 assms(1) by (auto simp: log_dropped_throttled_def Let_def)
  moreover have "pending_drops kind drop_log_init = 0" "get_or 0 (drop_totals drop_log_init kind) = 0"
    by (simp_all add: pending_drops_def drop_log_init_def)
  ultimately show ?thesis using drop_history_accounting [OF assms(2), of kind] by auto
qed

theorem forced_drop_line_settles_witness:
  "sum_list (map (delta_of ''segments'')
     (fst (drop_history ([(100, ''segments'', 1, False), (101, ''segments'', 1, False), (102, ''logs'', 4, False)]
        @ [(103, ''segments'', 3, True)]) drop_log_init))) = 5"
  using forced_drop_line_settles [OF _ prod.collapse [symmetric], where c = 3 and now = 103 and kind = "''segments''"
      and es = "[(100, ''segments'', 1, False), (101, ''segments'', 1, False), (102, ''logs'', 4, False)]"]
  by (simp add: dropped_count_def del: drop_history.simps)

end
