(* ===== verification/PyQueue.thy ===== *)
theory PyQueue
  imports Prelude
begin

text \<open>
  \<open>queue.Queue\<close> of the standard library as the agent uses it: a FIFO with a capacity (\<open>maxsize \<le> 0\<close>
  means unbounded) and the \<open>unfinished_tasks\<close> count on which \<open>join()\<close> waits.  \<open>asyncio.Queue\<close> has the
  same non-blocking interface.  The locale \<open>bounded_queue\<close> is the contract the reporters rely on:
  insertion at the back or refusal, never more items than the capacity, removal from the front.
\<close>

record 'a pyqueue =
  q_maxsize :: int
  q_items :: "'a list"
  q_unfinished :: nat

definition Queue_init :: "int \<Rightarrow> 'a pyqueue" where
  "Queue_init n = \<lparr>q_maxsize = n, q_items = [], q_unfinished = 0\<rparr>"

definition q_empty :: "'a pyqueue \<Rightarrow> bool" where
  "q_empty q = (q_items q = [])"

definition q_full :: "'a pyqueue \<Rightarrow> bool" where
  "q_full q = (0 < q_maxsize q \<and> q_maxsize q \<le> int (length (q_items q)))"

text \<open>\<open>put(item, block=False)\<close> and \<open>put_nowait\<close>: \<open>None\<close> is the \<open>Full\<close> exception.\<close>

definition q_put_nowait :: "'a pyqueue \<Rightarrow> 'a \<Rightarrow> 'a pyqueue option" where
  "q_put_nowait q x =
     (if q_full q then None
      else Some (q\<lparr>q_items := q_items q @ [x], q_unfinished := Suc (q_unfinished q)\<rparr>))"

text \<open>\<open>get_nowait()\<close>: \<open>None\<close> is the \<open>Empty\<close> exception.\<close>

definition q_get_nowait :: "'a pyqueue \<Rightarrow> ('a \<times> 'a pyqueue) option" where
  "q_get_nowait q = (case q_items q of [] \<Rightarrow> None | x # xs \<Rightarrow> Some (x, q\<lparr>q_items := xs\<rparr>))"

definition q_task_done :: "'a pyqueue \<Rightarrow> 'a pyqueue res" where
  "q_task_done q =
     (if q_unfinished q = 0 then Inl (ValueError ''task_done() called too many times'')
      else Inr (q\<lparr>q_unfinished := q_unfinished q - 1\<rparr>))"

definition q_join_returns :: "'a pyqueue \<Rightarrow> bool" where
  "q_join_returns q = (q_unfinished q = 0)"

text \<open>Items still queued are unfinished; the surplus are items taken but not yet \<open>task_done\<close>.\<close>

definition q_ok :: "'a pyqueue \<Rightarrow> bool" where
  "q_ok q = (length (q_items q) \<le> q_unfinished q
             \<and> (0 < q_maxsize q \<longrightarrow> int (length (q_items q)) \<le> q_maxsize q))"

definition q_in_flight :: "'a pyqueue \<Rightarrow> nat" where
  "q_in_flight q = q_unfinished q - length (q_items q)"

locale bounded_queue =
  fixes items :: "'q \<Rightarrow> 'a list"
    and cap :: "'q \<Rightarrow> int"
    and ok :: "'q \<Rightarrow> bool"
    and put :: "'q \<Rightarrow> 'a \<Rightarrow> 'q option"
    and get :: "'q \<Rightarrow> ('a \<times> 'q) option"
  assumes put_items: "put q x = Some q' \<Longrightarrow> items q' = items q @ [x] \<and> cap q' = cap q"
    and put_refused: "put q x = None \<longleftrightarrow> 0 < cap q \<and> cap q \<le> int (length (items q))"
    and get_items: "get q = Some (x, q') \<Longrightarrow> items q = x # items q' \<and> cap q' = cap q"
    and get_none: "get q = None \<longleftrightarrow> items q = []"
    and ok_put: "ok q \<Longrightarrow> put q x = Some q' \<Longrightarrow> ok q'"
    and ok_get: "ok q \<Longrightarrow> get q = Some (x, q') \<Longrightarrow> ok q'"
    and ok_cap: "ok q \<Longrightarrow> 0 < cap q \<Longrightarrow> int (length (items q)) \<le> cap q"
begin

text \<open>Offering a list of items, each either stored or refused.\<close>

fun offer :: "'q \<Rightarrow> 'a list \<Rightarrow> 'a list \<times> 'q" where
  "offer q [] = ([], q)"
| "offer q (x # xs) =
     (case put q x of
        None \<Rightarrow> (let (ds, q') = offer q xs in (x # ds, q'))
      | Some q1 \<Rightarrow> offer q1 xs)"

lemma offer_ok: "ok q \<Longrightarrow> offer q xs = (ds, q') \<Longrightarrow> ok q' \<and> cap q' = cap q"
proof (induction xs arbitrary: q ds)
  case (Cons x xs)
  show ?case
  proof (cases "put q x")
    case None
    with Cons show ?thesis by (auto split: prod.splits)
  next
    case (Some q1)
    from put_items [OF Some] ok_put [OF Cons.prems(1) Some] Cons.IH [of q1 ds] Cons.prems(2) Some
    show ?thesis by simp
  qed
qed simp

lemma offer_full:
  assumes "0 < cap q" and "cap q \<le> int (length (items q))"
  shows "offer q xs = (xs, q)"
proof -
  have "put q x = None" for x using assms by (simp add: put_refused)
  then show ?thesis by (induction xs) simp_all
qed

text \<open>
  With a positive capacity exactly the first \<open>cap - length\<close> items are stored, in order, and exactly
  the rest is refused: nothing is lost silently and nothing is reordered.
\<close>

lemma offer_result:
  assumes "ok q" and "0 < cap q"
  shows "\<exists>q'. offer q xs = (drop (nat (cap q) - length (items q)) xs, q')
              \<and> items q' = items q @ take (nat (cap q) - length (items q)) xs"
  using assms
proof (induction xs arbitrary: q)
  case (Cons x xs)
  show ?case
  proof (cases "put q x")
    case None
    then have f: "cap q \<le> int (length (items q))" by (simp add: put_refused)
    then have "nat (cap q) - length (items q) = 0" by simp
    then show ?thesis using offer_full [OF Cons.prems(2) f, of "x # xs"] by simp
  next
    case (Some q1)
    from put_items [OF Some] have i: "items q1 = items q @ [x]" and c: "cap q1 = cap q" by auto
    from put_refused [of q x] Some Cons.prems(2)
    have l: "int (length (items q)) < cap q" by auto
    then obtain k where k: "nat (cap q) - length (items q) = Suc k"
      using Suc_diff_Suc [of "length (items q)" "nat (cap q)"] by (metis zless_nat_eq_int_zless)
    then have k1: "nat (cap q1) - length (items q1) = k" using i c by simp
    from Cons.IH [of q1] Cons.prems Some c ok_put
    obtain q' where "offer q1 xs = (drop k xs, q')" "items q' = items q1 @ take k xs"
      unfolding k1 by auto
    then show ?thesis using Some i k by simp
  qed
qed simp

end

interpretation pyq: bounded_queue q_items q_maxsize q_ok q_put_nowait q_get_nowait
  by unfold_locales
     (auto simp: q_put_nowait_def q_get_nowait_def q_full_def q_ok_def
           split: if_splits list.splits)

lemma q_ok_init [simp]: "q_ok (Queue_init n)"
  by (simp add: q_ok_def Queue_init_def)

lemma q_ok_put [inv_intros]: "q_ok q \<Longrightarrow> q_put_nowait q x = Some q' \<Longrightarrow> q_ok q'"
  by (rule pyq.ok_put)

lemma q_task_done_ok:
  assumes "q_ok q" and "q_get_nowait q = Some (x, q1)"
  shows "\<exists>q2. q_task_done q1 = Inr q2 \<and> q_ok q2 \<and> q_items q2 = q_items q1
              \<and> q_in_flight q2 = q_in_flight q \<and> q_maxsize q2 = q_maxsize q"
  using assms
  by (auto simp: q_get_nowait_def q_task_done_def q_ok_def q_in_flight_def split: list.splits)

end
