(* ===== verification/Reporting.thy ===== *)
theory Reporting
  imports Utils PyQueue
begin

text \<open>
  The machinery in front of the agent classes in \<open>skywalking/agent/__init__.py\<close>: draining a queue at
  shutdown, the outcome of asyncio background tasks and their supervisor, closing a replaced
  protocol, and the exponential backoff around every reporter.  What other threads do while this
  code waits is an argument: the effect of the flush thread within its budget, the number of
  \<open>task_done\<close> calls that arrive during the timed join, the tasks reported done at each wake-up.
\<close>

section \<open>Abandoning a queue\<close>

function abandon_sync_queue :: "'a pyqueue \<Rightarrow> int \<Rightarrow> (int \<times> 'a pyqueue) res" where
  "abandon_sync_queue q abandoned =
     (case q_get_nowait q of
        None \<Rightarrow> Inr (abandoned, q)
      | Some (_, q1) \<Rightarrow>
          (case q_task_done q1 of
             Inl e \<Rightarrow> Inl e
           | Inr q2 \<Rightarrow> abandon_sync_queue q2 (abandoned + 1)))"
  by pat_completeness auto
termination
  by (relation "measure (\<lambda>(q, n). length (q_items q))")
    (auto simp: q_get_nowait_def q_task_done_def split: list.splits if_splits)

declare abandon_sync_queue.simps [simp del]

text \<open>\<open>asyncio.Queue\<close> has the same \<open>get_nowait\<close>/\<open>task_done\<close> protocol and the body is the same loop.\<close>

definition abandon_async_queue :: "'a pyqueue \<Rightarrow> (int \<times> 'a pyqueue) res" where
  "abandon_async_queue q = abandon_sync_queue q 0"

text \<open>\<open>late\<close>: the \<open>task_done\<close> calls other threads make before the join budget runs out.\<close>

definition join_sync_queue :: "nat \<Rightarrow> 'a pyqueue \<Rightarrow> bool \<times> 'a pyqueue" where
  "join_sync_queue late q =
     (let q' = q\<lparr>q_unfinished := q_unfinished q - min late (q_in_flight q)\<rparr>
      in (q_join_returns q', q'))"

datatype shutdown_line =
    FlushTimedOut string
  | FlushFailed string
  | JoinTimedOut string nat
  | DropLogLine log_line

datatype flush_outcome = FlushDone | FlushRaised | FlushSlow

definition flush_lines :: "string \<Rightarrow> flush_outcome \<Rightarrow> shutdown_line list" where
  "flush_lines label r = (case r of FlushDone \<Rightarrow> [] | FlushRaised \<Rightarrow> [FlushFailed label] | FlushSlow \<Rightarrow> [FlushTimedOut label])"

definition shutdown_sync_queue ::
  "real \<Rightarrow> nat \<Rightarrow> ('a pyqueue \<Rightarrow> flush_outcome \<times> 'a pyqueue) option \<Rightarrow> bool \<Rightarrow> string \<Rightarrow> 'a pyqueue \<Rightarrow> drop_log
    \<Rightarrow> (shutdown_line list \<times> 'a pyqueue \<times> drop_log) res" where
  "shutdown_sync_queue now late report_fn may_send label q dl =
     (let (ls1, q1) = (case report_fn of
                         Some f \<Rightarrow> if may_send \<and> \<not> q_empty q
                                   then (let (r, q') = f q in (flush_lines label r, q')) else ([], q)
                       | None \<Rightarrow> ([], q))
      in bind_res (abandon_sync_queue q1 0) (\<lambda>(abandoned, q2).
         let (ls2, dl2) = (if abandoned \<noteq> 0 then log_dropped_throttled now label abandoned True dl else ([], dl));
             (joined, q3) = join_sync_queue late q2;
             ls3 = (if joined then [] else [JoinTimedOut label (q_unfinished q3)])
         in Inr (ls1 @ map DropLogLine ls2 @ ls3, q3, dl2)))"

definition shutdown_async_queue ::
  "real \<Rightarrow> nat \<Rightarrow> string \<Rightarrow> 'a pyqueue \<Rightarrow> drop_log \<Rightarrow> (shutdown_line list \<times> 'a pyqueue \<times> drop_log) res" where
  "shutdown_async_queue now late label q dl =
     bind_res (abandon_async_queue q) (\<lambda>(abandoned, q2).
       let (ls2, dl2) = (if abandoned \<noteq> 0 then log_dropped_throttled now label abandoned True dl else ([], dl));
           (joined, q3) = join_sync_queue late q2;
           ls3 = (if joined then [] else [JoinTimedOut label (q_unfinished q3)])
       in Inr (map DropLogLine ls2 @ ls3, q3, dl2))"

subsection \<open>Laws\<close>

lemma abandon_result:
  assumes "q_ok q"
  shows "\<exists>q'. abandon_sync_queue q n = Inr (n + int (length (q_items q)), q')
     \<and> q_items q' = [] \<and> q_in_flight q' = q_in_flight q \<and> q_maxsize q' = q_maxsize q \<and> q_ok q'"
  using assms
proof (induction q n rule: abandon_sync_queue.induct)
  case (1 q n)
  show ?case
  proof (cases "q_get_nowait q")
    case None
    then show ?thesis
      using 1(2) pyq.get_none [of q] by (subst abandon_sync_queue.simps) simp
  next
    case (Some r)
    obtain x q1 where r: "r = (x, q1)" by (cases r)
    from q_task_done_ok [OF 1(2)] Some r obtain q2 where
      d: "q_task_done q1 = Inr q2" "q_ok q2" "q_items q2 = q_items q1"
         "q_in_flight q2 = q_in_flight q" "q_maxsize q2 = q_maxsize q" by blast
    from pyq.get_items [of q x q1] Some r have "q_items q = x # q_items q1" by simp
    with 1(1) [OF Some r [symmetric] d(1) d(2)] Some r d show ?thesis
      by (subst abandon_sync_queue.simps) auto
  qed
qed

text \<open>What a flush may do to a queue: take items from the front, some of them without \<open>task_done\<close>.\<close>

definition flush_ok :: "('a pyqueue \<Rightarrow> flush_outcome \<times> 'a pyqueue) \<Rightarrow> 'a pyqueue \<Rightarrow> bool" where
  "flush_ok f q = (let q' = snd (f q) in q_ok q' \<and> (\<exists>n \<le> length (q_items q). q_items q' = drop n (q_items q)))"

lemma shutdown_sync_queue_result:
  assumes q1: "(case report_fn of Some f \<Rightarrow> if may_send \<and> \<not> q_empty q then snd (f q) else q | None \<Rightarrow> q) = q1"
    and ok: "q_ok q1"
  obtains ls q' dl' where
    "shutdown_sync_queue now late report_fn may_send label q dl = Inr (ls, q', dl')"
    and "q_items q' = []"
    and "q_unfinished q' = q_in_flight q1 - late"
    and "dl' = (if q_items q1 = [] then dl
                else snd (log_dropped_throttled now label (int (length (q_items q1))) True dl))"
    and "(\<exists>n. JoinTimedOut label n \<in> set ls) \<longleftrightarrow> late < q_in_flight q1"
proof -
  from abandon_result [OF ok, of 0] obtain q2 where
    a: "abandon_sync_queue q1 0 = Inr (int (length (q_items q1)), q2)" "q_items q2 = []"
       "q_in_flight q2 = q_in_flight q1" by auto
  have u: "q_unfinished q2 = q_in_flight q1" using a(2,3) by (simp add: q_in_flight_def)
  obtain ls1 where ls1: "(case report_fn of Some f \<Rightarrow> if may_send \<and> \<not> q_empty q
         then (let (r, q') = f q in (flush_lines label r, q')) else ([], q) | None \<Rightarrow> ([], q)) = (ls1, q1)"
      and no1: "JoinTimedOut label n \<notin> set ls1" for n
  proof (cases report_fn)
    case None
    with q1 show ?thesis by (auto intro!: that [of "[]"])
  next
    case (Some f)
    with q1 show ?thesis
      by (cases "f q"; cases "may_send \<and> \<not> q_empty q")
        (auto intro!: that simp: flush_lines_def split: flush_outcome.splits)
  qed
  let ?r = "if q_items q1 = [] then ([], dl)
    else log_dropped_throttled now label (int (length (q_items q1))) True dl"
  let ?q3 = "snd (join_sync_queue late q2)"
  let ?ls = "ls1 @ map DropLogLine (fst ?r)
    @ (if fst (join_sync_queue late q2) then [] else [JoinTimedOut label (q_unfinished ?q3)])"
  have q3: "q_items ?q3 = []" "q_unfinished ?q3 = q_in_flight q1 - late"
    "fst (join_sync_queue late q2) \<longleftrightarrow> q_in_flight q1 \<le> late"
    using u a(2) by (auto simp: join_sync_queue_def q_join_returns_def q_in_flight_def Let_def)
  have *: "shutdown_sync_queue now late report_fn may_send label q dl = Inr (?ls, ?q3, snd ?r)"
    unfolding shutdown_sync_queue_def ls1
    using a(1) by (auto simp: Let_def split: prod.splits)
  show ?thesis
  proof (rule that [OF *])
    show "(\<exists>n. JoinTimedOut label n \<in> set ?ls) \<longleftrightarrow> late < q_in_flight q1"
      using q3(3) no1 by auto
  qed (use q3 in auto)
qed

section \<open>Background tasks\<close>

datatype task_state = TaskRunning | TaskCancelled | TaskFailed py_error | TaskCompleted

record bg_task =
  t_state :: task_state
  sw_outcome_handled :: bool

definition t_done :: "bg_task \<Rightarrow> bool" where
  "t_done t = (t_state t \<noteq> TaskRunning)"

definition retrieve_background_task_outcome :: "bool \<Rightarrow> bool \<Rightarrow> bg_task option \<Rightarrow> py_error option" where
  "retrieve_background_task_outcome report_completion report_cancellation task =
     (case task of
        None \<Rightarrow> None
      | Some t \<Rightarrow>
          (case t_state t of
             TaskRunning \<Rightarrow> None
           | TaskCancelled \<Rightarrow>
               if report_cancellation
               then Some (RuntimeError ''Python agent asyncio background task was cancelled unexpectedly'')
               else None
           | TaskFailed e \<Rightarrow> Some e
           | TaskCompleted \<Rightarrow>
               if report_completion
               then Some (RuntimeError ''Python agent asyncio background task finished unexpectedly'')
               else None))"

text \<open>The second component is the error line logged, the third the task with its mark.\<close>

definition log_background_task_outcome :: "bool \<Rightarrow> bool \<Rightarrow> bg_task \<Rightarrow> bool \<times> py_error list \<times> bg_task" where
  "log_background_task_outcome report_completion report_cancellation t =
     (if sw_outcome_handled t then (False, [], t)
      else case retrieve_background_task_outcome report_completion report_cancellation (Some t) of
             None \<Rightarrow> (False, [], t)
           | Some e \<Rightarrow> (True, [e], t\<lparr>sw_outcome_handled := True\<rparr>))"

text \<open>
  The supervisor.  Tasks are numbered; \<open>finished\<close> is the shutdown event.  One wake-up of
  \<open>asyncio.wait\<close> tells which pending tasks have completed, and how, and whether the shutdown
  event is set by then.  \<open>None\<close>: no further wake-up, the supervisor is still waiting.
\<close>

type_synonym tasks = "nat \<Rightarrow> bg_task"
type_synonym wakeup = "(nat \<times> task_state) list \<times> bool"

definition settle :: "(nat \<times> task_state) list \<Rightarrow> tasks \<Rightarrow> tasks" where
  "settle ds ts = foldl (\<lambda>m (i, s). m(i := (m i)\<lparr>t_state := s\<rparr>)) ts ds"

fun log_done :: "nat list \<Rightarrow> tasks \<Rightarrow> bool \<times> py_error list \<times> tasks" where
  "log_done [] ts = (False, [], ts)"
| "log_done (i # is) ts =
     (case log_background_task_outcome True True (ts i) of
        (True, es, t) \<Rightarrow> (True, es, ts(i := t))
      | (False, es, t) \<Rightarrow> (let (b, es', ts') = log_done is (ts(i := t)) in (b, es @ es', ts')))"

fun await_shutdown_or_background_failure ::
  "wakeup list \<Rightarrow> bool \<Rightarrow> nat list \<Rightarrow> tasks \<Rightarrow> (bool \<times> py_error list \<times> tasks) option" where
  "await_shutdown_or_background_failure ws True pending ts = Some (True, [], ts)"
| "await_shutdown_or_background_failure [] False pending ts = None"
| "await_shutdown_or_background_failure ((ds, fin) # ws) False pending ts =
     (if pending = [] then
        (if fin then Some (True, [], ts) else await_shutdown_or_background_failure ws False pending ts)
      else if fin then Some (True, [], settle ds ts)
      else case log_done (map fst ds) (settle ds ts) of
             (True, es, ts') \<Rightarrow> Some (True, es, ts')
           | (False, es, ts') \<Rightarrow>
               map_option (\<lambda>(b, es', ts''). (b, es @ es', ts''))
                 (await_shutdown_or_background_failure ws False
                    (filter (\<lambda>i. i \<notin> fst ` set ds) pending) ts'))"

text \<open>
  Cleanup: outcomes of the tasks already done are logged, the others are cancelled and awaited
  within the budget, after which task \<open>i\<close> is in state \<open>after i\<close>; the second component is the number
  of tasks still pending when the budget ran out.
\<close>

definition quiet_log :: "nat \<Rightarrow> tasks \<Rightarrow> py_error list \<times> tasks" where
  "quiet_log i ts = (case log_background_task_outcome False False (ts i) of (_, es, t) \<Rightarrow> (es, ts(i := t)))"

fun quiet_logs :: "nat list \<Rightarrow> tasks \<Rightarrow> py_error list \<times> tasks" where
  "quiet_logs [] ts = ([], ts)"
| "quiet_logs (i # is) ts =
     (let (es, ts1) = quiet_log i ts; (es', ts2) = quiet_logs is ts1 in (es @ es', ts2))"

definition cancel_pending_tasks ::
  "(nat \<Rightarrow> task_state) \<Rightarrow> nat option \<Rightarrow> nat option list \<Rightarrow> tasks \<Rightarrow> py_error list \<times> nat \<times> tasks" where
  "cancel_pending_tasks after current tasks ts =
     (let own = filter (\<lambda>i. current \<noteq> Some i) (map the (filter (\<lambda>t. t \<noteq> None) tasks));
          (es1, ts1) = quiet_logs (filter (\<lambda>i. t_done (ts i)) own) ts;
          pending = filter (\<lambda>i. \<not> t_done (ts1 i)) own
      in if pending = [] then (es1, 0, ts1)
         else let ts2 = settle (map (\<lambda>i. (i, after i)) pending) ts1;
                  stuck = length (filter (\<lambda>i. \<not> t_done (ts2 i)) pending);
                  (es2, ts3) = quiet_logs pending ts2
              in (es1 @ es2, stuck, ts3))"

subsection \<open>Laws\<close>

lemma outcome_once:
  "log_background_task_outcome a b t = (True, es, t') \<Longrightarrow>
     sw_outcome_handled t' \<and> t_state t' = t_state t \<and> length es = 1"
  by (auto simp: log_background_task_outcome_def split: if_splits option.splits)

lemma outcome_strict:
  "t_done t \<Longrightarrow> \<not> sw_outcome_handled t \<Longrightarrow>
     \<exists>e t'. log_background_task_outcome True True t = (True, [e], t')"
  by (cases "t_state t")
    (auto simp: t_done_def log_background_task_outcome_def retrieve_background_task_outcome_def)

lemma settle_handled [simp]: "sw_outcome_handled (settle ds ts i) = sw_outcome_handled (ts i)"
  unfolding settle_def by (induction ds arbitrary: ts) (auto split: prod.splits)

lemma settle_other: "i \<notin> fst ` set ds \<Longrightarrow> settle ds ts i = ts i"
  unfolding settle_def by (induction ds arbitrary: ts) (auto split: prod.splits)

lemma settle_state:
  assumes "distinct (map fst ds)" and "(i, s) \<in> set ds"
  shows "t_state (settle ds ts i) = s"
  using assms
proof (induction ds arbitrary: ts)
  case (Cons d ds)
  obtain j s' where d: "d = (j, s')" by (cases d)
  show ?case
  proof (cases "(i, s) \<in> set ds")
    case True
    with Cons d show ?thesis by (simp add: settle_def)
  next
    case False
    with Cons.prems d have e: "i = j" "s = s'" by auto
    then have "i \<notin> fst ` set ds" using Cons.prems d by (auto simp: image_iff)
    from settle_other [OF this, of "ts(j := (ts j)\<lparr>t_state := s'\<rparr>)"] e d show ?thesis
      by (simp add: settle_def)
  qed
qed simp

lemma log_done_first:
  assumes "t_done (ts i)" and "\<not> sw_outcome_handled (ts i)"
  shows "\<exists>e ts'. log_done (i # is) ts = (True, [e], ts')"
  using outcome_strict [OF assms] by (auto split: bool.splits)

section \<open>Closing a replaced protocol\<close>

text \<open>
  \<open>close\<close> and \<open>aclose\<close> are the protocol's methods, \<open>None\<close> where it has no such attribute; each may raise.
  The second component tells whether a failure was logged.
\<close>

definition close_previous_protocol ::
  "('p \<Rightarrow> py_error option \<times> 'p) option \<Rightarrow> 'p option \<Rightarrow> 'p option \<times> bool" where
  "close_previous_protocol close protocol =
     (case (protocol, close) of
        (Some p, Some f) \<Rightarrow> (case f p of (e, p') \<Rightarrow> (Some p', e \<noteq> None))
      | _ \<Rightarrow> (protocol, False))"

definition aclose_previous_protocol ::
  "('p \<Rightarrow> py_error option \<times> 'p) option \<Rightarrow> ('p \<Rightarrow> py_error option \<times> 'p) option \<Rightarrow> 'p option \<Rightarrow> 'p option \<times> nat" where
  "aclose_previous_protocol aclose close protocol =
     (case (protocol, aclose) of
        (None, _) \<Rightarrow> (None, 0)
      | (Some p, Some f) \<Rightarrow>
          (case f p of
             (None, p') \<Rightarrow> (Some p', 0)
           | (Some e, p') \<Rightarrow> (case close_previous_protocol close (Some p') of (r, b) \<Rightarrow> (r, if b then 2 else 1)))
      | (Some p, None) \<Rightarrow> (case close_previous_protocol close (Some p) of (r, b) \<Rightarrow> (r, if b then 1 else 0)))"

section \<open>Backoff\<close>

text \<open>One round of the decorated reporter: \<open>Inr flag\<close> is what it returned, \<open>Inl\<close> what it raised.\<close>

definition backoff_wait :: "real \<Rightarrow> real \<Rightarrow> bool res \<Rightarrow> real" where
  "backoff_wait base wait outcome =
     (case outcome of
        Inr flag \<Rightarrow> if flag then 0 else base
      | Inl _ \<Rightarrow> min 60 (if wait * 2 = 0 then 1 else wait * 2))"

text \<open>
  The loop over the rounds that take place until the shutdown event is seen: each entry tells the
  clock and the outcome; the result lists the waits requested and the throttled log lines.
\<close>

fun report_with_backoff ::
  "string \<Rightarrow> real \<Rightarrow> real \<Rightarrow> (real \<times> bool res) list \<Rightarrow> drop_log \<Rightarrow> real list \<times> log_line list \<times> drop_log" where
  "report_with_backoff name base wait [] dl = ([], [], dl)"
| "report_with_backoff name base wait ((now, outcome) # rounds) dl =
     (let wait' = backoff_wait base wait outcome;
          (ls, dl1) = (case outcome of Inr _ \<Rightarrow> ([], dl)
                       | Inl _ \<Rightarrow> log_reporter_exception_throttled now name wait' dl);
          (ws, ls', dl2) = report_with_backoff name base wait' rounds dl1
      in (wait' # ws, ls @ ls', dl2))"

text \<open>
  The asyncio variant computes the same waits and turns a zero wait into a bare yield to the
  loop; a positive one ends early when the shutdown event is set.
\<close>

datatype async_pause = WaitFinished real | YieldLoop

definition async_pause_of :: "real \<Rightarrow> async_pause" where
  "async_pause_of wait = (if wait \<noteq> 0 then WaitFinished wait else YieldLoop)"

definition report_with_backoff_async ::
  "string \<Rightarrow> real \<Rightarrow> (real \<times> bool res) list \<Rightarrow> drop_log \<Rightarrow> async_pause list \<times> log_line list \<times> drop_log" where
  "report_with_backoff_async name base rounds dl =
     (case report_with_backoff name base base rounds dl of (ws, ls, dl') \<Rightarrow> (map async_pause_of ws, ls, dl'))"

text \<open>The waits alone do not depend on the clock or on the log.\<close>

fun backoff_waits :: "real \<Rightarrow> real \<Rightarrow> bool res list \<Rightarrow> real list" where
  "backoff_waits base wait [] = []"
| "backoff_waits base wait (r # rs) = backoff_wait base wait r # backoff_waits base (backoff_wait base wait r) rs"

lemma fst_report_with_backoff:
  "fst (report_with_backoff name base wait rounds dl) = backoff_waits base wait (map snd rounds)"
  by (induction rounds arbitrary: wait dl) (auto simp: Let_def case_prod_unfold)

lemma length_backoff_waits [simp]: "length (backoff_waits base wait rs) = length rs"
  by (induction base wait rs rule: backoff_waits.induct) auto

lemma backoff_waits_append:
  "backoff_waits base wait (rs @ [Inr flag]) = backoff_waits base wait rs @ [if flag then 0 else base]"
  by (induction base wait rs rule: backoff_waits.induct) (auto simp: backoff_wait_def)

lemma min_double: "0 \<le> (x :: real) \<Longrightarrow> min 60 (min 60 x * 2 ^ n) = min 60 (x * 2 ^ n)"
proof -
  assume "0 \<le> x"
  have "(1::real) \<le> 2 ^ n" by simp
  then have "60 \<le> (60::real) * 2 ^ n" and "60 \<le> x \<Longrightarrow> 60 \<le> x * 2 ^ n"
    using mult_mono [of 60 x 1 "2 ^ n"] by auto
  then show ?thesis by (cases "60 \<le> x") (auto simp: min_def)
qed

lemma backoff_doubles:
  assumes "0 \<le> w" and "\<forall>r \<in> set rs. \<exists>e. r = Inl e" and "k < length rs"
  shows "backoff_waits base w rs ! k = min 60 (if w = 0 then 2 ^ k else w * 2 ^ Suc k)"
  using assms
proof (induction rs arbitrary: w k)
  case (Cons r rs)
  let ?x = "if w = 0 then 1 else w * 2"
  obtain e where r: "r = Inl e" using Cons.prems(2) by auto
  have b: "backoff_wait base w r = min 60 ?x" by (simp add: r backoff_wait_def)
  have x: "0 < ?x" using Cons.prems(1) by auto
  show ?case
  proof (cases k)
    case 0
    then show ?thesis by (simp add: b)
  next
    case (Suc j)
    have "backoff_waits base w (r # rs) ! k = min 60 (min 60 ?x * 2 ^ Suc j)"
      using Cons.IH [of "min 60 ?x" j] Cons.prems x Suc b by simp
    also have "\<dots> = min 60 (?x * 2 ^ Suc j)" using min_double [of ?x "Suc j"] x by simp
    finally show ?thesis using Suc by auto
  qed
qed simp

section \<open>Properties\<close>



text \<open>C33. The backoff of a failing reporter doubles from its base wait and is capped at a minute:
  after the k-th consecutive failure it waits \<open>min 60 (base * 2 ^ k)\<close> seconds (\<open>min 60 (2 ^ (k-1))\<close>
  from a zero wait, so a failing reporter never spins), and a round that succeeds puts the wait
  back to the base, or to zero when more data is queued.\<close>

theorem backoff_schedule:
  assumes "0 \<le> base" and "\<forall>r \<in> set rounds. \<exists>e. snd r = Inl e" and "k < length rounds"
  shows "fst (report_with_backoff name base base (rounds @ [(now, Inr flag)]) dl) ! k =
           min 60 (if base = 0 then 2 ^ k else base * 2 ^ Suc k)
     \<and> fst (report_with_backoff name base base (rounds @ [(now, Inr flag)]) dl) ! length rounds
         = (if flag then 0 else base)"
proof -
  from assms(2) have "\<forall>r \<in> set (map snd rounds). \<exists>e. r = Inl e" by auto
  from backoff_doubles [OF assms(1) this, of k base] assms(3) show ?thesis
    by (simp add: fst_report_with_backoff backoff_waits_append nth_append)
qed

theorem backoff_schedule_witness:
  "fst (report_with_backoff ''segment'' 20 20
      ([(1, Inl IndexError), (2, Inl TypeError)] @ [(3, Inr False)]) drop_log_init) ! 1 = 60"
  using backoff_schedule [of 20 "[(1, Inl IndexError), (2, Inl TypeError)]" 1 "''segment''" 3 False drop_log_init]
  by simp

text \<open>The asyncio supervisor fails fast: while it waits, the first wake-up that reports a task
  whose outcome was not handled before ends the wait, sets the shutdown event and logs exactly that
  task's outcome - an early return or a cancellation counts as a failure like an exception.\<close>

theorem supervisor_fails_fast:
  assumes "pending \<noteq> []" and "distinct (map fst ((i, s) # ds))"
    and "s \<noteq> TaskRunning" and "\<not> sw_outcome_handled (ts i)"
  shows "\<exists>e ts'. await_shutdown_or_background_failure ((((i, s) # ds), False) # ws) False pending ts
           = Some (True, [e], ts')"
proof -
  let ?ts = "settle ((i, s) # ds) ts"
  have "t_done (?ts i)"
    using settle_state [OF assms(2), of i s ts] assms(3) by (simp add: t_done_def)
  moreover have "\<not> sw_outcome_handled (?ts i)" using assms(4) by simp
  ultimately obtain e ts' where "log_done (i # map fst ds) ?ts = (True, [e], ts')"
    using log_done_first by blast
  then show ?thesis using assms(1) by simp
qed

theorem supervisor_fails_fast_witness:
  "\<exists>e ts'. await_shutdown_or_background_failure [([(0, TaskCompleted)], False)] False [0, 1]
       (\<lambda>_. \<lparr>t_state = TaskRunning, sw_outcome_handled = False\<rparr>) = Some (True, [e], ts')"
  using supervisor_fails_fast [of "[0, 1]" 0 TaskCompleted "[]"
      "\<lambda>_. \<lparr>t_state = TaskRunning, sw_outcome_handled = False\<rparr>" "[]"]
  by simp

end
