(* ===== verification/Sampling.thy ===== *)
theory Sampling
  imports Prelude
begin

text \<open>
  The sampling service (\<open>skywalking/sampling\<close>): one counter of the traces sampled since the last
  reset, raised by \<open>try_sampling\<close> and \<open>force_sampled\<close> and put back to zero every three seconds by the
  service's own loop.  Every operation runs under the service's lock (the asyncio variant runs
  on one event loop), so a history of the service is a sequence of whole operations: the step
  relation below is labelled with the operation and with what it answered.
\<close>

section \<open>The service\<close>

record sampler =
  sampling_factor :: int

definition SamplingServiceBase_init :: sampler where
  "SamplingServiceBase_init = \<lparr>sampling_factor = 0\<rparr>"

definition reset_sampling_factor_interval :: int where
  "reset_sampling_factor_interval = 3"

definition can_sampling :: "int \<Rightarrow> sampler \<Rightarrow> bool" where
  "can_sampling sample_n_per_3_secs s = (sampling_factor s < sample_n_per_3_secs)"

definition incr_sampling_factor :: "sampler \<Rightarrow> sampler" where
  "incr_sampling_factor s = s\<lparr>sampling_factor := sampling_factor s + 1\<rparr>"

definition set_sampling_factor :: "int \<Rightarrow> sampler \<Rightarrow> sampler" where
  "set_sampling_factor v s = s\<lparr>sampling_factor := v\<rparr>"

definition try_sampling :: "int \<Rightarrow> sampler \<Rightarrow> bool \<times> sampler" where
  "try_sampling n s = (if can_sampling n s then (True, incr_sampling_factor s) else (False, s))"

definition force_sampled :: "sampler \<Rightarrow> sampler" where
  "force_sampled s = incr_sampling_factor s"

definition reset_sampling_factor :: "sampler \<Rightarrow> sampler" where
  "reset_sampling_factor s = set_sampling_factor 0 s"

text \<open>
  The module's global \<open>sampling_service\<close>: \<open>init\<close> keeps a live service unless it is forced (the
  child of a fork), \<open>init_async\<close> always makes a new one.
\<close>

definition sampling_init :: "bool \<Rightarrow> sampler option \<Rightarrow> sampler option" where
  "sampling_init force g = (if g \<noteq> None \<and> \<not> force then g else Some SamplingServiceBase_init)"

definition sampling_init_async :: "sampler option \<Rightarrow> sampler option" where
  "sampling_init_async g = Some SamplingServiceBase_init"

lemmas sampler_defs = SamplingServiceBase_init_def can_sampling_def incr_sampling_factor_def
  set_sampling_factor_def try_sampling_def force_sampled_def reset_sampling_factor_def

section \<open>Histories\<close>

datatype sampling_event = TrySampling bool | ForceSampled | ResetFactor

inductive sampling_step :: "int \<Rightarrow> sampler \<Rightarrow> sampling_event \<Rightarrow> sampler \<Rightarrow> bool" for n where
  step_try: "try_sampling n s = (b, t) \<Longrightarrow> sampling_step n s (TrySampling b) t"
| step_force: "sampling_step n s ForceSampled (force_sampled s)"
| step_reset: "sampling_step n s ResetFactor (reset_sampling_factor s)"

inductive_cases sampling_tryE: "sampling_step n s (TrySampling b) t"
inductive_cases sampling_forceE: "sampling_step n s ForceSampled t"
inductive_cases sampling_resetE: "sampling_step n s ResetFactor t"

interpretation sampling: machine "\<lambda>s. s = SamplingServiceBase_init" "sampling_step n" "\<lambda>s. 0 \<le> sampling_factor s" for n
  by unfold_locales (auto simp: sampler_defs elim!: sampling_step.cases split: if_splits)

definition sampled :: "sampling_event list \<Rightarrow> nat" where
  "sampled es = length (filter ((=) (TrySampling True)) es)"

definition tried :: "sampling_event list \<Rightarrow> nat" where
  "tried es = length (filter (\<lambda>e. case e of TrySampling _ \<Rightarrow> True | _ \<Rightarrow> False) es)"

definition forced :: "sampling_event list \<Rightarrow> nat" where
  "forced es = length (filter ((=) ForceSampled) es)"

lemma event_counts [simp]:
  "sampled [] = 0" "tried [] = 0" "forced [] = 0"
  "sampled (TrySampling b # es) = (if b then 1 else 0) + sampled es"
  "sampled (ForceSampled # es) = sampled es"
  "sampled (ResetFactor # es) = sampled es"
  "tried (TrySampling b # es) = Suc (tried es)"
  "tried (ForceSampled # es) = tried es"
  "tried (ResetFactor # es) = tried es"
  "forced (TrySampling b # es) = forced es"
  "forced (ForceSampled # es) = Suc (forced es)"
  "forced (ResetFactor # es) = forced es"
  by (simp_all add: sampled_def tried_def forced_def)

lemma window_factor:
  assumes "sampling.run n s es t" and "ResetFactor \<notin> set es"
  shows "sampling_factor t = sampling_factor s + int (sampled es) + int (forced es)"
  using assms
  by (induction rule: sampling.run.induct)
    (auto simp: sampler_defs elim!: sampling_step.cases split: if_splits)

lemma window_sampled:
  assumes "sampling.run n s es t" and "ResetFactor \<notin> set es"
  shows "int (sampled es) \<le> max 0 (n - sampling_factor s)"
  using assms
  by (induction rule: sampling.run.induct)
    (auto simp: sampler_defs elim!: sampling_step.cases split: if_splits)

lemma window_exact:
  assumes "sampling.run n s es t" and "ResetFactor \<notin> set es" and "ForceSampled \<notin> set es"
  shows "int (sampled es) = min (int (tried es)) (max 0 (n - sampling_factor s))"
  using assms
  by (induction rule: sampling.run.induct)
    (auto simp: sampler_defs elim!: sampling_step.cases split: if_splits)

section \<open>Properties\<close>



end
