(* ===== verification/Agent.thy ===== *)
theory Agent
  imports Reporting Config Sampling
begin

text \<open>
  \<open>SkyWalkingAgent\<close> of \<open>skywalking/agent/__init__.py\<close>: the queues, the lifecycle (\<open>start\<close>,
  \<open>start_prefork_master\<close>, the fork hooks, \<open>stop\<close> and the atexit handler) and the archive operations the
  instrumented code calls.  The record holds the agent object together with the process-wide state
  these methods write: the configuration module, the sampling service, the registered handlers
  and the live reporter threads.  The element types of the four queues are parameters.
\<close>

section \<open>State\<close>

record ('s, 'l, 'm, 'n) agent =
  a_cfg :: config
  a_re :: "regexes option"
  a_started :: bool
  a_started_pid :: "int option"
  a_protocol :: "string option"
  a_protocols_closed :: nat
  a_finished :: "bool option"
  a_reporting :: bool
  a_at_fork_registered :: bool
  a_fini_registered :: bool
  a_segment_queue :: "'s pyqueue option"
  a_log_queue :: "'l pyqueue option"
  a_meter_queue :: "'m pyqueue option"
  a_snapshot_queue :: "'n pyqueue option"
  a_drops :: drop_log
  a_drop_lines :: "log_line list"
  a_shutdown_lines :: "shutdown_line list"
  a_threads :: "string list"
  a_pvm_sources :: "string list"
  a_sampling :: "sampler option"
  a_profile_inited :: bool
  a_meter_inits :: nat
  a_atexit_fini :: nat
  a_fork_hooks :: nat
  a_finalized :: nat
  a_log_installed :: nat
  a_plugins_installed :: nat
  a_grpc_fork_env :: bool

definition SkyWalkingAgent_init :: "config \<Rightarrow> ('s, 'l, 'm, 'n) agent" where
  "SkyWalkingAgent_init c =
     \<lparr>a_cfg = c, a_re = None, a_started = False, a_started_pid = None, a_protocol = None,
      a_protocols_closed = 0, a_finished = None, a_reporting = False, a_at_fork_registered = False,
      a_fini_registered = False, a_segment_queue = None, a_log_queue = None, a_meter_queue = None,
      a_snapshot_queue = None, a_drops = drop_log_init, a_drop_lines = [], a_shutdown_lines = [],
      a_threads = [], a_pvm_sources = [], a_sampling = None, a_profile_inited = False,
      a_meter_inits = 0, a_atexit_fini = 0, a_fork_hooks = 0, a_finalized = 0, a_log_installed = 0,
      a_plugins_installed = 0, a_grpc_fork_env = False\<rparr>"

section \<open>Bootstrap\<close>

definition init_queues :: "('s, 'l, 'm, 'n) agent \<Rightarrow> ('s, 'l, 'm, 'n) agent" where
  "init_queues a = (let c = a_cfg a in
     a\<lparr>a_segment_queue := Some (Queue_init (agent_trace_reporter_max_buffer_size c)),
       a_log_queue := (if agent_log_reporter_active c
                       then Some (Queue_init (agent_log_reporter_max_buffer_size c)) else None),
       a_meter_queue := (if agent_meter_reporter_active c
                         then Some (Queue_init (agent_meter_reporter_max_buffer_size c)) else None),
       a_snapshot_queue := (if agent_profile_active c
                            then Some (Queue_init (agent_profile_snapshot_transport_buffer_size c)) else None)\<rparr>)"

definition reporter_threads :: "config \<Rightarrow> string list" where
  "reporter_threads c =
     [''HeartbeatThread'', ''SegmentReportThread'']
     @ (if agent_meter_reporter_active c then [''MeterReportThread''] else [])
     @ (if agent_log_reporter_active c then [''LogReportThread''] else [])
     @ (if agent_profile_active c
        then [''CommandDispatchThread'', ''QueryProfileCommandThread'', ''SendProfileSnapShotThread''] else [])"

definition pvm_sources :: "config \<Rightarrow> string list" where
  "pvm_sources c =
     (if agent_meter_reporter_active c \<and> agent_pvm_meter_reporter_active c
      then [''MEMUsageDataSource'', ''CPUUsageDataSource'', ''GCDataSource'', ''ThreadDataSource''] else [])"

definition init_threading :: "('s, 'l, 'm, 'n) agent \<Rightarrow> ('s, 'l, 'm, 'n) agent" where
  "init_threading a =
     a\<lparr>a_finished := Some False,
       a_threads := a_threads a @ reporter_threads (a_cfg a),
       a_pvm_sources := a_pvm_sources a @ pvm_sources (a_cfg a)\<rparr>"

text \<open>
  An unknown protocol name falls through all branches: the previous protocol object stays.  The
  previous object is closed before it is replaced; a failing \<open>close\<close> is swallowed
  (\<open>close_previous_protocol\<close>).
\<close>

definition open_protocol :: "('s, 'l, 'm, 'n) agent \<Rightarrow> ('s, 'l, 'm, 'n) agent" where
  "open_protocol a =
     (if agent_protocol (a_cfg a) \<in> {''grpc'', ''http'', ''kafka''}
      then a\<lparr>a_protocol := Some (agent_protocol (a_cfg a)),
             a_protocols_closed := a_protocols_closed a + (if a_protocol a = None then 0 else 1)\<rparr>
      else a)"

definition bootstrap :: "('s, 'l, 'm, 'n) agent \<Rightarrow> ('s, 'l, 'm, 'n) agent" where
  "bootstrap a = (init_threading (open_protocol (init_queues a)))\<lparr>a_reporting := True\<rparr>"

section \<open>start\<close>

definition init_instrumentation :: "('s, 'l, 'm, 'n) agent \<Rightarrow> ('s, 'l, 'm, 'n) agent" where
  "init_instrumentation a =
     (case finalize (a_cfg a) of
        (_, re, c) \<Rightarrow>
          a\<lparr>a_cfg := c, a_re := Some re, a_finalized := Suc (a_finalized a), a_started := True,
            a_log_installed := a_log_installed a + (if agent_log_reporter_active c then 1 else 0),
            a_plugins_installed := Suc (a_plugins_installed a)\<rparr>)"

definition register_fork_hooks :: "bool \<Rightarrow> ('s, 'l, 'm, 'n) agent \<Rightarrow> ('s, 'l, 'm, 'n) agent" where
  "register_fork_hooks has_at_fork a =
     (if a_at_fork_registered a then a
      else if has_at_fork
           then a\<lparr>a_at_fork_registered := True, a_fork_hooks := Suc (a_fork_hooks a)\<rparr>
           else a)"

definition grpc_fork_env :: "('s, 'l, 'm, 'n) agent \<Rightarrow> ('s, 'l, 'm, 'n) agent" where
  "grpc_fork_env a =
     (if agent_protocol (a_cfg a) = ''grpc'' \<and> agent_experimental_fork_support (a_cfg a)
      then a\<lparr>a_grpc_fork_env := True\<rparr> else a)"

definition init_services :: "('s, 'l, 'm, 'n) agent \<Rightarrow> ('s, 'l, 'm, 'n) agent" where
  "init_services a =
     (let c = a_cfg a in
      a\<lparr>a_profile_inited := (a_profile_inited a \<or> agent_profile_active c),
        a_meter_inits := a_meter_inits a + (if agent_meter_reporter_active c then 1 else 0),
        a_sampling := (if 0 < sample_n_per_3_secs c then sampling_init True (a_sampling a) else a_sampling a)\<rparr>)"

definition agent_start :: "bool \<Rightarrow> int \<Rightarrow> ('s, 'l, 'm, 'n) agent \<Rightarrow> py_error option \<times> ('s, 'l, 'm, 'n) agent" where
  "agent_start has_at_fork pid a0 =
     (let a = grpc_fork_env a0 in
      if a_started a \<and> a_started_pid a = Some pid
      then (Some (RuntimeError ''SkyWalking Python agent has already been started in this process''), a)
      else
        let a1 = (if \<not> a_started a then init_instrumentation a else a);
            a2 = bootstrap (init_services (a1\<lparr>a_started_pid := Some pid\<rparr>));
            a3 = (if a_fini_registered a2 then a2
                  else a2\<lparr>a_fini_registered := True, a_atexit_fini := Suc (a_atexit_fini a2)\<rparr>);
            a4 = (if agent_experimental_fork_support (a_cfg a3) then register_fork_hooks has_at_fork a3 else a3)
        in (None, a4))"

definition start_prefork_master :: "bool \<Rightarrow> int \<Rightarrow> ('s, 'l, 'm, 'n) agent \<Rightarrow> ('s, 'l, 'm, 'n) agent" where
  "start_prefork_master has_at_fork pid a0 =
     (let a = grpc_fork_env a0;
          a1 = (if \<not> a_started a then init_instrumentation a else a);
          a2 = a1\<lparr>a_started_pid := Some pid\<rparr>
      in if agent_experimental_fork_support (a_cfg a2) then register_fork_hooks has_at_fork a2 else a2)"

definition fork_after_in_child :: "bool \<Rightarrow> int \<Rightarrow> ('s, 'l, 'm, 'n) agent \<Rightarrow> py_error option \<times> ('s, 'l, 'm, 'n) agent" where
  "fork_after_in_child has_at_fork pid a =
     agent_start has_at_fork pid
       (a\<lparr>a_cfg := (a_cfg a)\<lparr>agent_instance_name :=
           agent_instance_name (a_cfg a) @ ''-child('' @ str_of_int pid @ '')''\<rparr>\<rparr>)"

text \<open>
  \<open>os.fork()\<close> as the child sees it: the object is copied, no thread survives, and the registered
  hook runs.
\<close>

definition os_fork :: "bool \<Rightarrow> int \<Rightarrow> ('s, 'l, 'm, 'n) agent \<Rightarrow> py_error option \<times> ('s, 'l, 'm, 'n) agent" where
  "os_fork has_at_fork pid a =
     (let a' = a\<lparr>a_threads := []\<rparr>
      in if a_at_fork_registered a then fork_after_in_child has_at_fork pid a' else (None, a'))"

section \<open>stop\<close>

record ('s, 'l, 'm, 'n) fini_env =
  fe_now :: real
  fe_late :: nat
  fe_ready :: bool
  fe_report_segment :: "'s pyqueue \<Rightarrow> flush_outcome \<times> 's pyqueue"
  fe_report_log :: "'l pyqueue \<Rightarrow> flush_outcome \<times> 'l pyqueue"
  fe_report_meter :: "'m pyqueue \<Rightarrow> flush_outcome \<times> 'm pyqueue"
  fe_report_snapshot :: "'n pyqueue \<Rightarrow> flush_outcome \<times> 'n pyqueue"

text \<open>A queue attribute that is \<open>None\<close> raises on its first method call.\<close>

definition shutdown_queue ::
  "real \<Rightarrow> nat \<Rightarrow> bool \<Rightarrow> ('a pyqueue \<Rightarrow> flush_outcome \<times> 'a pyqueue) \<Rightarrow> string \<Rightarrow> 'a pyqueue option \<Rightarrow> drop_log
    \<Rightarrow> (shutdown_line list \<times> 'a pyqueue option \<times> drop_log) res" where
  "shutdown_queue now late may_send report label q dl =
     (case q of
        None \<Rightarrow> Inl AttributeError
      | Some q0 \<Rightarrow>
          bind_res (shutdown_sync_queue now late (if may_send then Some report else None) may_send label q0 dl)
            (\<lambda>(ls, q', dl'). Inr (ls, Some q', dl')))"

definition fini_segment :: "('s, 'l, 'm, 'n) fini_env \<Rightarrow> ('s, 'l, 'm, 'n) agent \<Rightarrow> ('s, 'l, 'm, 'n) agent res" where
  "fini_segment e a =
     bind_res (shutdown_queue (fe_now e) (fe_late e) (fe_ready e) (fe_report_segment e) ''segment''
                 (a_segment_queue a) (a_drops a))
       (\<lambda>(ls, q, dl). Inr (a\<lparr>a_segment_queue := q, a_drops := dl, a_shutdown_lines := a_shutdown_lines a @ ls\<rparr>))"

definition fini_log :: "('s, 'l, 'm, 'n) fini_env \<Rightarrow> ('s, 'l, 'm, 'n) agent \<Rightarrow> ('s, 'l, 'm, 'n) agent res" where
  "fini_log e a =
     (if \<not> agent_log_reporter_active (a_cfg a) then Inr a
      else bind_res (shutdown_queue (fe_now e) (fe_late e) (fe_ready e) (fe_report_log e) ''log''
                       (a_log_queue a) (a_drops a))
             (\<lambda>(ls, q, dl). Inr (a\<lparr>a_log_queue := q, a_drops := dl, a_shutdown_lines := a_shutdown_lines a @ ls\<rparr>)))"

definition fini_snapshot :: "('s, 'l, 'm, 'n) fini_env \<Rightarrow> ('s, 'l, 'm, 'n) agent \<Rightarrow> ('s, 'l, 'm, 'n) agent res" where
  "fini_snapshot e a =
     (if \<not> agent_profile_active (a_cfg a) then Inr a
      else bind_res (shutdown_queue (fe_now e) (fe_late e) (fe_ready e) (fe_report_snapshot e) ''snapshot''
                       (a_snapshot_queue a) (a_drops a))
             (\<lambda>(ls, q, dl). Inr (a\<lparr>a_snapshot_queue := q, a_drops := dl, a_shutdown_lines := a_shutdown_lines a @ ls\<rparr>)))"

definition fini_meter :: "('s, 'l, 'm, 'n) fini_env \<Rightarrow> ('s, 'l, 'm, 'n) agent \<Rightarrow> ('s, 'l, 'm, 'n) agent res" where
  "fini_meter e a =
     (if \<not> agent_meter_reporter_active (a_cfg a) then Inr a
      else bind_res (shutdown_queue (fe_now e) (fe_late e) (fe_ready e) (fe_report_meter e) ''meter''
                       (a_meter_queue a) (a_drops a))
             (\<lambda>(ls, q, dl). Inr (a\<lparr>a_meter_queue := q, a_drops := dl, a_shutdown_lines := a_shutdown_lines a @ ls\<rparr>)))"

definition fini :: "('s, 'l, 'm, 'n) fini_env \<Rightarrow> ('s, 'l, 'm, 'n) agent \<Rightarrow> ('s, 'l, 'm, 'n) agent res" where
  "fini e a =
     (if \<not> a_reporting a then Inr a
      else
        let a1 = a\<lparr>a_finished := Some True\<rparr> in
        if a_protocol a1 = None then Inl AttributeError
        else bind_res (fini_segment e a1) (\<lambda>a2.
             bind_res (fini_log e a2) (\<lambda>a3.
             bind_res (fini_snapshot e a3) (\<lambda>a4.
             bind_res (fini_meter e a4) (\<lambda>a5.
             Inr (a5\<lparr>a_protocols_closed := Suc (a_protocols_closed a5)\<rparr>))))))"

text \<open>
  After \<open>_finished\<close> is set the backoff loops end, so the reporter threads of a stopped agent are gone.
\<close>

definition agent_stop :: "('s, 'l, 'm, 'n) fini_env \<Rightarrow> ('s, 'l, 'm, 'n) agent \<Rightarrow> ('s, 'l, 'm, 'n) agent res" where
  "agent_stop e a =
     bind_res (fini e (a\<lparr>a_atexit_fini := 0, a_fini_registered := False\<rparr>))
       (\<lambda>a1. Inr (a1\<lparr>a_reporting := False, a_started := False,
                     a_threads := (if a_reporting a then [] else a_threads a1)\<rparr>))"

definition agent_started :: "('s, 'l, 'm, 'n) agent \<Rightarrow> bool" where
  "agent_started a = a_reporting a"

section \<open>Archiving\<close>

definition is_segment_queue_full :: "('s, 'l, 'm, 'n) agent \<Rightarrow> bool res" where
  "is_segment_queue_full a =
     (if \<not> a_reporting a then Inr True
      else case a_segment_queue a of None \<Rightarrow> Inl AttributeError | Some q \<Rightarrow> Inr (q_full q))"

definition count_drop :: "real \<Rightarrow> string \<Rightarrow> ('s, 'l, 'm, 'n) agent \<Rightarrow> ('s, 'l, 'm, 'n) agent" where
  "count_drop now kind a =
     (case log_dropped_throttled now kind 1 False (a_drops a) of
        (ls, dl) \<Rightarrow> a\<lparr>a_drops := dl, a_drop_lines := a_drop_lines a @ ls\<rparr>)"

definition archive_segment :: "real \<Rightarrow> 's \<Rightarrow> ('s, 'l, 'm, 'n) agent \<Rightarrow> ('s, 'l, 'm, 'n) agent res" where
  "archive_segment now x a =
     (if \<not> a_reporting a then Inr a
      else case a_segment_queue a of
             None \<Rightarrow> Inl AttributeError
           | Some q \<Rightarrow> (case q_put_nowait q x of
                          Some q' \<Rightarrow> Inr (a\<lparr>a_segment_queue := Some q'\<rparr>)
                        | None \<Rightarrow> Inr (count_drop now ''segment'' a)))"

definition archive_log :: "real \<Rightarrow> 'l \<Rightarrow> ('s, 'l, 'm, 'n) agent \<Rightarrow> ('s, 'l, 'm, 'n) agent res" where
  "archive_log now x a =
     (if \<not> a_reporting a then Inr a
      else case a_log_queue a of
             None \<Rightarrow> Inl AttributeError
           | Some q \<Rightarrow> (case q_put_nowait q x of
                          Some q' \<Rightarrow> Inr (a\<lparr>a_log_queue := Some q'\<rparr>)
                        | None \<Rightarrow> Inr (count_drop now ''log'' a)))"

definition archive_meter :: "real \<Rightarrow> 'm \<Rightarrow> ('s, 'l, 'm, 'n) agent \<Rightarrow> ('s, 'l, 'm, 'n) agent res" where
  "archive_meter now x a =
     (if \<not> a_reporting a then Inr a
      else case a_meter_queue a of
             None \<Rightarrow> Inl AttributeError
           | Some q \<Rightarrow> (case q_put_nowait q x of
                          Some q' \<Rightarrow> Inr (a\<lparr>a_meter_queue := Some q'\<rparr>)
                        | None \<Rightarrow> Inr (count_drop now ''meter'' a)))"

definition add_profiling_snapshot :: "real \<Rightarrow> 'n \<Rightarrow> ('s, 'l, 'm, 'n) agent \<Rightarrow> ('s, 'l, 'm, 'n) agent res" where
  "add_profiling_snapshot now x a =
     (if \<not> a_reporting a then Inr a
      else case a_snapshot_queue a of
             None \<Rightarrow> Inl AttributeError
           | Some q \<Rightarrow> (case q_put_nowait q x of
                          Some q' \<Rightarrow> Inr (a\<lparr>a_snapshot_queue := Some q'\<rparr>)
                        | None \<Rightarrow> Inr (count_drop now ''snapshot'' a)))"

text \<open>
  \<open>notify_profile_finish\<close> never raises: what the protocol raises (a missing protocol included) is
  logged.  The result is the logged error, if any, and the protocol afterwards.
\<close>

definition notify_profile_finish ::
  "('t \<Rightarrow> 'p \<Rightarrow> py_error option \<times> 'p) \<Rightarrow> 't \<Rightarrow> 'p option \<Rightarrow> py_error option \<times> 'p option" where
  "notify_profile_finish notify_profile_task_finish task protocol =
     (case protocol of
        None \<Rightarrow> (Some AttributeError, None)
      | Some p \<Rightarrow> (case notify_profile_task_finish task p of (err, p') \<Rightarrow> (err, Some p')))"

section \<open>Reporter rounds\<close>

text \<open>
  One call of a reporter body under the backoff decorator: the outcome it hands to the
  decorator, the queue afterwards, and how long it slept itself.  \<open>send\<close> is the protocol's \<open>report_*\<close>.
\<close>

definition heartbeat_round :: "bool \<Rightarrow> ('p \<Rightarrow> py_error option \<times> 'p) \<Rightarrow> 'p \<Rightarrow> bool res \<times> 'p \<times> real" where
  "heartbeat_round ready heartbeat p =
     (if \<not> ready then (Inr True, p, 1 / 2)
      else case heartbeat p of (Some e, p') \<Rightarrow> (Inl e, p', 0) | (None, p') \<Rightarrow> (Inr False, p', 0))"

definition report_round_flag ::
  "bool \<Rightarrow> ('a pyqueue \<Rightarrow> py_error option \<times> 'a pyqueue) \<Rightarrow> 'a pyqueue \<Rightarrow> bool res \<times> 'a pyqueue \<times> real" where
  "report_round_flag ready send q =
     (if \<not> ready then (Inr True, q, 1 / 2)
      else if q_empty q then (Inr False, q, 0)
      else case send q of (Some e, q') \<Rightarrow> (Inl e, q', 0) | (None, q') \<Rightarrow> (Inr True, q', 0))"

definition report_round_none ::
  "bool \<Rightarrow> ('a pyqueue \<Rightarrow> py_error option \<times> 'a pyqueue) \<Rightarrow> 'a pyqueue \<Rightarrow> bool res \<times> 'a pyqueue \<times> real" where
  "report_round_none ready send q =
     (if \<not> ready then (Inr False, q, 1 / 2)
      else if q_empty q then (Inr False, q, 0)
      else case send q of (Some e, q') \<Rightarrow> (Inl e, q', 0) | (None, q') \<Rightarrow> (Inr False, q', 0))"

lemmas start_defs = agent_start_def start_prefork_master_def fork_after_in_child_def os_fork_def
  bootstrap_def init_queues_def init_threading_def open_protocol_def init_instrumentation_def
  register_fork_hooks_def grpc_fork_env_def init_services_def

section \<open>Frame lemmas\<close>

lemma grpc_fork_env_fields [simp]:
  "a_cfg (grpc_fork_env a) = a_cfg a" "a_started (grpc_fork_env a) = a_started a"
  "a_started_pid (grpc_fork_env a) = a_started_pid a" "a_reporting (grpc_fork_env a) = a_reporting a"
  "a_threads (grpc_fork_env a) = a_threads a" "a_finalized (grpc_fork_env a) = a_finalized a"
  "a_plugins_installed (grpc_fork_env a) = a_plugins_installed a"
  "a_fork_hooks (grpc_fork_env a) = a_fork_hooks a" "a_atexit_fini (grpc_fork_env a) = a_atexit_fini a"
  "a_at_fork_registered (grpc_fork_env a) = a_at_fork_registered a"
  "a_fini_registered (grpc_fork_env a) = a_fini_registered a"
  "a_protocol (grpc_fork_env a) = a_protocol a"
  by (simp_all add: grpc_fork_env_def)

lemma register_fork_hooks_fields [simp]:
  "a_cfg (register_fork_hooks h a) = a_cfg a" "a_started (register_fork_hooks h a) = a_started a"
  "a_started_pid (register_fork_hooks h a) = a_started_pid a" "a_reporting (register_fork_hooks h a) = a_reporting a"
  "a_threads (register_fork_hooks h a) = a_threads a" "a_finalized (register_fork_hooks h a) = a_finalized a"
  "a_plugins_installed (register_fork_hooks h a) = a_plugins_installed a"
  "a_atexit_fini (register_fork_hooks h a) = a_atexit_fini a"
  "a_fini_registered (register_fork_hooks h a) = a_fini_registered a"
  "a_segment_queue (register_fork_hooks h a) = a_segment_queue a"
  "a_protocol (register_fork_hooks h a) = a_protocol a"
  "a_at_fork_registered (register_fork_hooks h a) = (a_at_fork_registered a \<or> h)"
  "a_fork_hooks (register_fork_hooks h a) = (if a_at_fork_registered a \<or> \<not> h then a_fork_hooks a else Suc (a_fork_hooks a))"
  by (simp_all add: register_fork_hooks_def)

lemma init_instrumentation_fields [simp]:
  "a_cfg (init_instrumentation a) = snd (snd (finalize (a_cfg a)))" "a_started (init_instrumentation a)"
  "a_reporting (init_instrumentation a) = a_reporting a"
  "a_threads (init_instrumentation a) = a_threads a" "a_finalized (init_instrumentation a) = Suc (a_finalized a)"
  "a_plugins_installed (init_instrumentation a) = Suc (a_plugins_installed a)"
  "a_fork_hooks (init_instrumentation a) = a_fork_hooks a" "a_atexit_fini (init_instrumentation a) = a_atexit_fini a"
  "a_at_fork_registered (init_instrumentation a) = a_at_fork_registered a"
  "a_fini_registered (init_instrumentation a) = a_fini_registered a"
  by (simp_all add: init_instrumentation_def split: prod.splits)

lemma bootstrap_protocol [simp]:
  "a_protocol (bootstrap (init_services a)) = a_protocol (open_protocol a)"
  by (simp add: bootstrap_def init_services_def init_queues_def init_threading_def open_protocol_def Let_def)

lemma bootstrap_fields [simp]:
  "a_cfg (bootstrap (init_services a)) = a_cfg a" "a_started (bootstrap (init_services a)) = a_started a"
  "a_started_pid (bootstrap (init_services a)) = a_started_pid a" "a_reporting (bootstrap (init_services a))"
  "a_threads (bootstrap (init_services a)) = a_threads a @ reporter_threads (a_cfg a)"
  "a_finalized (bootstrap (init_services a)) = a_finalized a"
  "a_plugins_installed (bootstrap (init_services a)) = a_plugins_installed a"
  "a_fork_hooks (bootstrap (init_services a)) = a_fork_hooks a"
  "a_atexit_fini (bootstrap (init_services a)) = a_atexit_fini a"
  "a_at_fork_registered (bootstrap (init_services a)) = a_at_fork_registered a"
  "a_fini_registered (bootstrap (init_services a)) = a_fini_registered a"
  "a_segment_queue (bootstrap (init_services a)) = Some (Queue_init (agent_trace_reporter_max_buffer_size (a_cfg a)))"
  by (simp_all add: bootstrap_def init_services_def init_queues_def init_threading_def open_protocol_def Let_def)

lemma finalize_fork_support [simp]:
  "agent_experimental_fork_support (snd (snd (finalize c))) = agent_experimental_fork_support c"
  by (simp add: finalize_def finalize_feature_def finalize_name_def Let_def)

lemma finalize_namespace:
  "agent_namespace (snd (snd (finalize c))) = agent_namespace c"
  "agent_namespace c \<noteq> [] \<Longrightarrow> agent_name (snd (snd (finalize c))) = agent_name c @ ''|'' @ agent_namespace c"
  by (auto simp: finalize_def finalize_feature_def finalize_name_def Let_def)

lemma fini_parts_cfg:
  "fini_segment e a = Inr b \<Longrightarrow> a_cfg b = a_cfg a \<and> a_finalized b = a_finalized a"
  "fini_log e a = Inr b \<Longrightarrow> a_cfg b = a_cfg a \<and> a_finalized b = a_finalized a"
  "fini_snapshot e a = Inr b \<Longrightarrow> a_cfg b = a_cfg a \<and> a_finalized b = a_finalized a"
  "fini_meter e a = Inr b \<Longrightarrow> a_cfg b = a_cfg a \<and> a_finalized b = a_finalized a"
  by (auto simp: fini_segment_def fini_log_def fini_snapshot_def fini_meter_def bind_res_Inr_iff split: if_splits)

lemma fini_cfg: "fini e a = Inr b \<Longrightarrow> a_cfg b = a_cfg a \<and> a_finalized b = a_finalized a"
  by (auto simp: fini_def bind_res_Inr_iff Let_def dest!: fini_parts_cfg split: if_splits)

lemma stop_cfg: "agent_stop e a = Inr b \<Longrightarrow> a_cfg b = a_cfg a \<and> a_finalized b = a_finalized a \<and> \<not> a_started b"
  by (auto simp: agent_stop_def bind_res_Inr_iff dest!: fini_cfg)

lemma start_fields:
  assumes "agent_start h pid a = (None, b)"
  shows "a_started b" and "a_started_pid b = Some pid" and "a_reporting b"
    and "a_threads b = a_threads a @ reporter_threads (a_cfg b)"
    and "a_cfg b = (if a_started a then a_cfg a else snd (snd (finalize (a_cfg a))))"
    and "a_finalized b = (if a_started a then a_finalized a else Suc (a_finalized a))"
    and "a_plugins_installed b = (if a_started a then a_plugins_installed a else Suc (a_plugins_installed a))"
    and "a_segment_queue b = Some (Queue_init (agent_trace_reporter_max_buffer_size (a_cfg b)))"
    and "a_atexit_fini b = (if a_fini_registered a then a_atexit_fini a else Suc (a_atexit_fini a))"
    and "a_fork_hooks b = (if agent_experimental_fork_support (a_cfg a) \<and> h \<and> \<not> a_at_fork_registered a
           then Suc (a_fork_hooks a) else a_fork_hooks a)"
    and "agent_protocol (a_cfg b) = ''kafka'' \<Longrightarrow> a_protocol b \<noteq> None"
  using assms by (auto simp: agent_start_def Let_def open_protocol_def split: if_splits)

lemma start_succeeds:
  assumes "\<not> (a_started a \<and> a_started_pid a = Some pid)"
  obtains b where "agent_start h pid a = (None, b)"
  using assms by (simp add: agent_start_def Let_def)

lemma init_not_started [simp]: "\<not> a_started (SkyWalkingAgent_init c)"
  by (simp add: SkyWalkingAgent_init_def)

section \<open>Lifecycle\<close>

definition opt_ok :: "'a pyqueue option \<Rightarrow> bool" where
  "opt_ok q = (case q of None \<Rightarrow> True | Some q0 \<Rightarrow> q_ok q0)"

definition agent_ok :: "('s, 'l, 'm, 'n) agent \<Rightarrow> bool" where
  "agent_ok a =
     ((a_reporting a \<longrightarrow> a_started a \<and> a_segment_queue a \<noteq> None \<and> a_finished a \<noteq> None
         \<and> (agent_log_reporter_active (a_cfg a) \<longrightarrow> a_log_queue a \<noteq> None)
         \<and> (agent_meter_reporter_active (a_cfg a) \<longrightarrow> a_meter_queue a \<noteq> None)
         \<and> (agent_profile_active (a_cfg a) \<longrightarrow> a_snapshot_queue a \<noteq> None \<and> a_profile_inited a))
      \<and> opt_ok (a_segment_queue a) \<and> opt_ok (a_log_queue a) \<and> opt_ok (a_meter_queue a)
      \<and> opt_ok (a_snapshot_queue a)
      \<and> (a_started a \<longrightarrow> a_re a \<noteq> None \<and> a_started_pid a \<noteq> None)
      \<and> a_plugins_installed a = a_finalized a
      \<and> a_atexit_fini a = (if a_fini_registered a then 1 else 0)
      \<and> a_fork_hooks a = (if a_at_fork_registered a then 1 else 0))"

datatype agent_event =
  EvStart int | EvPreforkMaster int | EvFork int | EvStop | EvArchive | EvTakeSegment

inductive agent_step :: "('s, 'l, 'm, 'n) agent \<Rightarrow> agent_event \<Rightarrow> ('s, 'l, 'm, 'n) agent \<Rightarrow> bool" where
  st_start: "agent_start h pid a = (e, b) \<Longrightarrow> agent_step a (EvStart pid) b"
| st_prefork: "agent_step a (EvPreforkMaster pid) (start_prefork_master h pid a)"
| st_fork: "os_fork h pid a = (e, b) \<Longrightarrow> agent_step a (EvFork pid) b"
| st_stop: "agent_stop env a = Inr b \<Longrightarrow> agent_step a EvStop b"
| st_segment: "archive_segment now x a = Inr b \<Longrightarrow> agent_step a EvArchive b"
| st_log: "archive_log now y a = Inr b \<Longrightarrow> agent_step a EvArchive b"
| st_meter: "archive_meter now z a = Inr b \<Longrightarrow> agent_step a EvArchive b"
| st_snapshot: "add_profiling_snapshot now u a = Inr b \<Longrightarrow> agent_step a EvArchive b"
| st_take: "a_segment_queue a = Some q \<Longrightarrow> q_get_nowait q = Some (x, q1) \<Longrightarrow> q_task_done q1 = Inr q2
     \<Longrightarrow> agent_step a EvTakeSegment (a\<lparr>a_segment_queue := Some q2\<rparr>)"

lemma opt_ok_simps [simp]: "opt_ok None" "opt_ok (Some q) = q_ok q"
  by (simp_all add: opt_ok_def)

lemma agent_ok_start_parts:
  assumes "agent_ok a"
  shows "agent_ok (grpc_fork_env a)"
    and "\<not> a_reporting a \<Longrightarrow> agent_ok ((init_instrumentation a)\<lparr>a_started_pid := Some pid\<rparr>)"
    and "agent_ok (a\<lparr>a_started_pid := Some pid\<rparr>)"
    and "agent_ok (register_fork_hooks h a)"
  using assms
  by (auto simp: agent_ok_def grpc_fork_env_def init_instrumentation_def register_fork_hooks_def
      split: prod.splits)

lemma agent_ok_bootstrap:
  assumes "agent_ok a" and "a_started a"
  shows "agent_ok (bootstrap (init_services a))"
  using assms by (simp add: agent_ok_def bootstrap_def init_services_def init_queues_def init_threading_def
      open_protocol_def Let_def)

lemma agent_ok_start [inv_intros]:
  assumes "agent_ok a" and "agent_start h pid a = (e, b)"
  shows "agent_ok b"
proof (cases "a_started (grpc_fork_env a) \<and> a_started_pid (grpc_fork_env a) = Some pid")
  case True
  then show ?thesis
    using assms agent_ok_start_parts(1) [OF assms(1)] by (auto simp: agent_start_def Let_def)
next
  case False
  let ?a = "grpc_fork_env a"
  let ?a1 = "(if \<not> a_started ?a then init_instrumentation ?a else ?a)\<lparr>a_started_pid := Some pid\<rparr>"
  let ?a2 = "bootstrap (init_services ?a1)"
  let ?a3 = "if a_fini_registered ?a2 then ?a2
    else ?a2\<lparr>a_fini_registered := True, a_atexit_fini := Suc (a_atexit_fini ?a2)\<rparr>"
  have ok: "agent_ok ?a" using agent_ok_start_parts(1) [OF assms(1)] .
  then have "\<not> a_started ?a \<Longrightarrow> \<not> a_reporting ?a" by (auto simp: agent_ok_def)
  then have "agent_ok ?a1"
    using agent_ok_start_parts(2,3) [OF ok, of pid] by (cases "a_started ?a") simp_all
  moreover have "a_started ?a1" by (auto simp: init_instrumentation_def split: prod.splits)
  ultimately have "agent_ok ?a2" by (rule agent_ok_bootstrap)
  then have "agent_ok ?a3" by (simp add: agent_ok_def)
  moreover have "b = (if agent_experimental_fork_support (a_cfg ?a3) then register_fork_hooks h ?a3 else ?a3)"
    using assms(2) False unfolding agent_start_def Let_def by (simp only: if_False prod.inject)
  ultimately show ?thesis using agent_ok_start_parts(4) [of ?a3 h] by presburger
qed

lemma agent_ok_prefork [inv_intros]: "agent_ok a \<Longrightarrow> agent_ok (start_prefork_master h pid a)"
  using agent_ok_start_parts [of "grpc_fork_env a"] agent_ok_start_parts(1) [of a]
    agent_ok_start_parts(4) [of "(init_instrumentation (grpc_fork_env a))\<lparr>a_started_pid := Some pid\<rparr>" h]
    agent_ok_start_parts(4) [of "(grpc_fork_env a)\<lparr>a_started_pid := Some pid\<rparr>" h]
  by (auto simp: start_prefork_master_def Let_def agent_ok_def [of "grpc_fork_env a"])

lemma agent_ok_fork [inv_intros]:
  assumes "agent_ok a" and "os_fork h pid a = (e, b)"
  shows "agent_ok b"
proof -
  have "agent_ok (a\<lparr>a_threads := []\<rparr>)"
    and "agent_ok (a\<lparr>a_threads := [], a_cfg := (a_cfg a)\<lparr>agent_instance_name := n\<rparr>\<rparr>)" for n
    using assms(1) by (simp_all add: agent_ok_def)
  then show ?thesis
    using assms(2) by (auto simp: os_fork_def fork_after_in_child_def Let_def intro: agent_ok_start split: if_splits)
qed

lemma abandon_empties: "abandon_sync_queue q n = Inr (m, q') \<Longrightarrow> q_items q' = []"
proof (induction q n rule: abandon_sync_queue.induct)
  case (1 q n)
  then show ?case
    using pyq.get_none [of q]
    by (subst (asm) (2) abandon_sync_queue.simps) (auto split: option.splits sum.splits prod.splits)
qed

lemma shutdown_queue_ok:
  assumes "shutdown_queue now late may_send f label q dl = Inr (ls, q', dl')"
  shows "opt_ok q' \<and> q' \<noteq> None"
proof -
  obtain q0 q1 where q: "q' = Some q1"
    and s: "shutdown_sync_queue now late (if may_send then Some f else None) may_send label q0 dl = Inr (ls, q1, dl')"
    using assms by (auto simp: shutdown_queue_def bind_res_Inr_iff split: option.splits)
  from s have "q_items q1 = []"
    by (auto simp: shutdown_sync_queue_def bind_res_Inr_iff join_sync_queue_def Let_def case_prod_unfold
        dest: abandon_empties)
  then show ?thesis by (simp add: q q_ok_def)
qed

lemma agent_ok_queue_update:
  assumes "agent_ok a"
  shows "opt_ok q \<Longrightarrow> q \<noteq> None \<Longrightarrow> agent_ok (a\<lparr>a_segment_queue := q, a_drops := dl, a_shutdown_lines := ls\<rparr>)"
    and "opt_ok r \<Longrightarrow> r \<noteq> None \<Longrightarrow> agent_ok (a\<lparr>a_log_queue := r, a_drops := dl, a_shutdown_lines := ls\<rparr>)"
    and "opt_ok u \<Longrightarrow> u \<noteq> None \<Longrightarrow> agent_ok (a\<lparr>a_meter_queue := u, a_drops := dl, a_shutdown_lines := ls\<rparr>)"
    and "opt_ok v \<Longrightarrow> v \<noteq> None \<Longrightarrow> agent_ok (a\<lparr>a_snapshot_queue := v, a_drops := dl, a_shutdown_lines := ls\<rparr>)"
  using assms by (simp_all add: agent_ok_def)

lemma agent_ok_fini_parts:
  assumes "agent_ok a"
  shows "fini_segment e a = Inr b \<Longrightarrow> agent_ok b"
    and "fini_log e a = Inr b \<Longrightarrow> agent_ok b"
    and "fini_snapshot e a = Inr b \<Longrightarrow> agent_ok b"
    and "fini_meter e a = Inr b \<Longrightarrow> agent_ok b"
  using assms
  by (auto simp: fini_segment_def fini_log_def fini_snapshot_def fini_meter_def bind_res_Inr_iff
      split: if_splits dest!: shutdown_queue_ok intro!: agent_ok_queue_update)

lemma agent_ok_fini:
  assumes "agent_ok a" and "fini e a = Inr b"
  shows "agent_ok b"
proof (cases "a_reporting a")
  case True
  have 0: "agent_ok (a\<lparr>a_finished := Some True\<rparr>)" using assms(1) by (simp add: agent_ok_def)
  from True assms(2) obtain a2 a3 a4 a5 where
    p: "fini_segment e (a\<lparr>a_finished := Some True\<rparr>) = Inr a2" "fini_log e a2 = Inr a3"
       "fini_snapshot e a3 = Inr a4" "fini_meter e a4 = Inr a5"
    and b: "b = a5\<lparr>a_protocols_closed := Suc (a_protocols_closed a5)\<rparr>"
    by (auto simp: fini_def bind_res_Inr_iff Let_def split: if_splits)
  have "agent_ok a5"
    using agent_ok_fini_parts(1) [OF 0 p(1)] p agent_ok_fini_parts(2-4) by blast
  then show ?thesis unfolding b by (simp add: agent_ok_def)
next
  case False
  then show ?thesis using assms by (simp add: fini_def)
qed

lemma agent_ok_stop [inv_intros]:
  assumes "agent_ok a" and "agent_stop e a = Inr b"
  shows "agent_ok b"
proof -
  have "agent_ok (a\<lparr>a_atexit_fini := 0, a_fini_registered := False\<rparr>)"
    using assms(1) by (simp add: agent_ok_def)
  from agent_ok_fini [OF this] assms(2) show ?thesis
    by (fastforce simp: agent_stop_def bind_res_Inr_iff agent_ok_def)
qed

lemma agent_ok_count_drop: "agent_ok a \<Longrightarrow> agent_ok (count_drop now k a)"
  by (simp add: agent_ok_def count_drop_def split: prod.splits)

lemma agent_ok_archive [inv_intros]:
  assumes "agent_ok a"
  shows "archive_segment now x a = Inr b \<Longrightarrow> agent_ok b"
    and "archive_log now y a = Inr b \<Longrightarrow> agent_ok b"
    and "archive_meter now z a = Inr b \<Longrightarrow> agent_ok b"
    and "add_profiling_snapshot now u a = Inr b \<Longrightarrow> agent_ok b"
proof -
  note c = agent_ok_count_drop [OF assms]
  show "archive_segment now x a = Inr b \<Longrightarrow> agent_ok b"
    using assms c by (auto simp: archive_segment_def agent_ok_def [of a] split: if_splits option.splits)
      (auto simp: agent_ok_def intro: q_ok_put)
  show "archive_log now y a = Inr b \<Longrightarrow> agent_ok b"
    using assms c by (auto simp: archive_log_def agent_ok_def [of a] split: if_splits option.splits)
      (auto simp: agent_ok_def intro: q_ok_put)
  show "archive_meter now z a = Inr b \<Longrightarrow> agent_ok b"
    using assms c by (auto simp: archive_meter_def agent_ok_def [of a] split: if_splits option.splits)
      (auto simp: agent_ok_def intro: q_ok_put)
  show "add_profiling_snapshot now u a = Inr b \<Longrightarrow> agent_ok b"
    using assms c by (auto simp: add_profiling_snapshot_def agent_ok_def [of a] split: if_splits option.splits)
      (auto simp: agent_ok_def intro: q_ok_put)
qed

lemma agent_ok_take:
  assumes "agent_ok a" and "a_segment_queue a = Some q" and "q_get_nowait q = Some (x, q1)"
    and "q_task_done q1 = Inr q2"
  shows "agent_ok (a\<lparr>a_segment_queue := Some q2\<rparr>)"
proof -
  from assms(1,2) have "q_ok q" by (simp add: agent_ok_def)
  from q_task_done_ok [OF this assms(3)] assms(4) have "q_ok q2" by auto
  with assms(1) show ?thesis by (simp add: agent_ok_def)
qed

interpretation lifecycle: machine "\<lambda>a. \<exists>c. a = SkyWalkingAgent_init c" agent_step agent_ok
proof unfold_locales
  show "\<And>s. \<exists>c. s = SkyWalkingAgent_init c \<Longrightarrow> agent_ok s"
    by (auto simp: SkyWalkingAgent_init_def agent_ok_def)
  show "\<And>s e t. agent_step s e t \<Longrightarrow> agent_ok s \<Longrightarrow> agent_ok t"
    by (erule agent_step.cases) (auto intro: inv_intros agent_ok_take)
qed

section \<open>Archiving a sequence of segments\<close>

fun archive_all :: "(real \<times> 's) list \<Rightarrow> ('s, 'l, 'm, 'n) agent \<Rightarrow> ('s, 'l, 'm, 'n) agent res" where
  "archive_all [] a = Inr a"
| "archive_all ((now, x) # xs) a = bind_res (archive_segment now x a) (archive_all xs)"

definition segment_drops :: "('s, 'l, 'm, 'n) agent \<Rightarrow> int" where
  "segment_drops a = get_or 0 (drop_totals (a_drops a) ''segment'')"

lemma segment_drops_count [simp]: "segment_drops (count_drop now ''segment'' a) = segment_drops a + 1"
  using log_dropped_throttled_accounting(2) [of now "''segment''" 1 False "a_drops a" _ _ "''segment''"]
  by (auto simp: segment_drops_def count_drop_def dropped_count_def split: prod.splits)

lemma count_drop_fields [simp]:
  "a_segment_queue (count_drop now k a) = a_segment_queue a" "a_reporting (count_drop now k a) = a_reporting a"
  by (simp_all add: count_drop_def split: prod.splits)

text \<open>Archiving refines the queue's \<open>offer\<close>: what the queue refuses is what the drop log counts.\<close>

lemma archive_all_offer:
  assumes "a_reporting a" and "a_segment_queue a = Some q"
    and "pyq.offer q (map snd xs) = (ds, q')"
  shows "\<exists>b. archive_all xs a = Inr b \<and> a_segment_queue b = Some q' \<and> a_reporting b
     \<and> segment_drops b = segment_drops a + int (length ds)"
  using assms
proof (induction xs arbitrary: a q ds)
  case (Cons y xs)
  obtain now x where y: "y = (now, x)" by (cases y)
  show ?case
  proof (cases "q_put_nowait q x")
    case None
    then obtain ds' where "pyq.offer q (map snd xs) = (ds', q')" "ds = x # ds'"
      using Cons.prems(3) y by (auto split: prod.splits)
    with Cons.IH [of "count_drop now ''segment'' a" q ds'] Cons.prems None y show ?thesis
      by (simp add: archive_segment_def add.assoc)
  next
    case (Some q1)
    with Cons.IH [of "a\<lparr>a_segment_queue := Some q1\<rparr>" q1 ds] Cons.prems y show ?thesis
      by (simp add: archive_segment_def segment_drops_def)
  qed
qed simp

section \<open>Properties\<close>





text \<open>A second \<open>start\<close> in the same process raises and leaves queues, threads, handlers and
  configuration as they are.\<close>

theorem second_start_refused:
  assumes "agent_start h pid a = (None, b)"
  shows "\<exists>msg b'. agent_start h' pid b = (Some (RuntimeError msg), b')
     \<and> b' = b\<lparr>a_grpc_fork_env := a_grpc_fork_env b'\<rparr>"
  using start_fields(1,2) [OF assms] by (simp add: agent_start_def Let_def) (simp add: grpc_fork_env_def)

theorem second_start_refused_witness:
  "\<forall>c. \<exists>b msg b'. agent_start True 7 (SkyWalkingAgent_init c :: (unit, unit, unit, unit) agent) = (None, b)
     \<and> agent_start True 7 b = (Some (RuntimeError msg), b')"
proof
  fix c :: config
  obtain b where b: "agent_start True 7 (SkyWalkingAgent_init c :: (unit, unit, unit, unit) agent) = (None, b)"
    by (rule start_succeeds [of "SkyWalkingAgent_init c" 7 True]) simp_all
  with second_start_refused [OF b, of True]
  show "\<exists>b msg b'. agent_start True 7 (SkyWalkingAgent_init c :: (unit, unit, unit, unit) agent) = (None, b)
     \<and> agent_start True 7 b = (Some (RuntimeError msg), b')" by blast
qed

text \<open>A pre-forking server with fork support: the master installs the instrumentation and the
  fork hook and starts no thread; each forked worker becomes a reporting agent of its own with
  fresh empty queues, the full set of reporter threads, an instance name marked with its pid, and
  without finalizing the configuration or installing the plugins a second time.\<close>

theorem prefork_worker_reports:
  assumes "agent_experimental_fork_support c" and "worker \<noteq> master"
    and "m = start_prefork_master True master (SkyWalkingAgent_init c)"
    and "os_fork True worker m = (err, w)"
  shows "\<not> a_reporting m \<and> a_threads m = [] \<and> err = None \<and> a_reporting w
     \<and> a_threads w = reporter_threads (a_cfg w)
     \<and> a_segment_queue w = Some (Queue_init (agent_trace_reporter_max_buffer_size (a_cfg w)))
     \<and> agent_instance_name (a_cfg w) = agent_instance_name (a_cfg m) @ ''-child('' @ str_of_int worker @ '')''
     \<and> agent_name (a_cfg w) = agent_name (a_cfg m)
     \<and> a_finalized w = 1 \<and> a_plugins_installed w = 1 \<and> a_fork_hooks w = 1 \<and> a_atexit_fini w = 1"
proof -
  have i: "a_started (SkyWalkingAgent_init c) = False" "a_cfg (SkyWalkingAgent_init c) = c"
    by (simp_all add: SkyWalkingAgent_init_def)
  have m: "\<not> a_reporting m" "a_threads m = []" "a_started m" "a_started_pid m = Some master"
    "a_finalized m = 1" "a_plugins_installed m = 1" "a_fork_hooks m = 1" "a_atexit_fini m = 0"
    "a_at_fork_registered m" "\<not> a_fini_registered m" "a_cfg m = snd (snd (finalize c))"
    using assms(1) unfolding assms(3)
    by (simp_all add: start_prefork_master_def Let_def SkyWalkingAgent_init_def)
  let ?m = "m\<lparr>a_threads := [], a_cfg := (a_cfg m)\<lparr>agent_instance_name :=
      agent_instance_name (a_cfg m) @ ''-child('' @ str_of_int worker @ '')''\<rparr>\<rparr>"
  have st: "agent_start True worker ?m = (err, w)"
    using assms(4) m(9) by (simp add: os_fork_def fork_after_in_child_def Let_def)
  moreover have "err = None" using st assms(2) m by (auto simp: agent_start_def Let_def split: if_splits)
  ultimately have "agent_start True worker ?m = (None, w)" by simp
  from start_fields [OF this] m \<open>err = None\<close> show ?thesis by simp
qed

theorem prefork_worker_reports_witness:
  "\<forall>c. \<exists>w. os_fork True 11 (start_prefork_master True 10
       (SkyWalkingAgent_init (c\<lparr>agent_experimental_fork_support := True\<rparr>) :: (unit, unit, unit, unit) agent)) = (None, w)
     \<and> a_reporting w \<and> a_fork_hooks w = 1"
proof
  fix c :: config
  let ?c = "c\<lparr>agent_experimental_fork_support := True\<rparr>"
  let ?m = "start_prefork_master True 10 (SkyWalkingAgent_init ?c :: (unit, unit, unit, unit) agent)"
  obtain err w where "os_fork True 11 ?m = (err, w)" by fastforce
  with prefork_worker_reports [of ?c 11 10 ?m err w]
  show "\<exists>w. os_fork True 11 ?m = (None, w) \<and> a_reporting w \<and> a_fork_hooks w = 1" by auto
qed

text \<open>The configuration is not protected against a restart: stopping the agent clears the
  started flag, so the next \<open>start\<close> finalizes the configuration a second time and a service with a
  namespace ends up with the namespace appended twice to its name.\<close>

theorem restart_finalizes_twice:
  assumes "agent_start h pid (SkyWalkingAgent_init c) = (None, a)"
    and "agent_namespace c \<noteq> []" and "agent_stop e a = Inr b"
    and "agent_start h pid b = (None, d)"
  shows "a_finalized d = 2
     \<and> agent_name (a_cfg d) = agent_name c @ ''|'' @ agent_namespace c @ ''|'' @ agent_namespace c"
proof -
  have a: "a_cfg a = snd (snd (finalize c))" "a_finalized a = 1"
    using start_fields(5,6) [OF assms(1)] by (simp_all add: SkyWalkingAgent_init_def)
  with stop_cfg [OF assms(3)] start_fields(5,6) [OF assms(4)] assms(2) finalize_namespace [of c]
    finalize_namespace [of "a_cfg a"]
  show ?thesis by simp
qed

definition restart_env :: "(unit, unit, unit, unit) fini_env" where
  "restart_env = \<lparr>fe_now = 0, fe_late = 0, fe_ready = False, fe_report_segment = (\<lambda>q. (FlushDone, q)),
     fe_report_log = (\<lambda>q. (FlushDone, q)), fe_report_meter = (\<lambda>q. (FlushDone, q)),
     fe_report_snapshot = (\<lambda>q. (FlushDone, q))\<rparr>"

lemma stop_idle_succeeds:
  assumes "a_protocol a \<noteq> None" and "a_segment_queue a = Some q" and "q_ok q" and "\<not> fe_ready e"
    and "\<not> agent_log_reporter_active (a_cfg a)" "\<not> agent_profile_active (a_cfg a)"
    "\<not> agent_meter_reporter_active (a_cfg a)"
  shows "\<exists>b. agent_stop e a = Inr b"
proof -
  obtain ls q' dl' where "shutdown_sync_queue (fe_now e) (fe_late e) None False ''segment'' q (a_drops a) = Inr (ls, q', dl')"
    by (rule shutdown_sync_queue_result [where report_fn = None and may_send = False and q = q, OF refl])
      (simp_all add: assms(3))
  with assms show ?thesis
    by (auto simp: agent_stop_def fini_def fini_segment_def fini_log_def fini_snapshot_def fini_meter_def
        shutdown_queue_def Let_def)
qed

theorem restart_finalizes_twice_witness:
  "\<forall>c. let c1 = c\<lparr>agent_namespace := ''ns'', agent_protocol := ''kafka'', agent_log_reporter_active := False,
        agent_profile_active := False, agent_meter_reporter_active := False\<rparr> in
     \<exists>a b d. agent_start False 1 (SkyWalkingAgent_init c1 :: (unit, unit, unit, unit) agent) = (None, a)
       \<and> agent_stop restart_env a = Inr b \<and> agent_start False 1 b = (None, d)
       \<and> agent_name (a_cfg d) = agent_name c @ ''|ns|ns''"
proof (rule allI)
  fix c :: config
  let ?c = "c\<lparr>agent_namespace := ''ns'', agent_protocol := ''kafka'', agent_log_reporter_active := False,
        agent_profile_active := False, agent_meter_reporter_active := False\<rparr>"
  obtain a where a: "agent_start False 1 (SkyWalkingAgent_init ?c :: (unit, unit, unit, unit) agent) = (None, a)"
    by (rule start_succeeds [of "SkyWalkingAgent_init ?c" 1 False]) simp_all
  have p: "a_protocol a \<noteq> None" "\<not> agent_log_reporter_active (a_cfg a)" "\<not> agent_profile_active (a_cfg a)"
    "\<not> agent_meter_reporter_active (a_cfg a)"
    using start_fields(5,11) [OF a]
    by (simp_all add: SkyWalkingAgent_init_def finalize_def finalize_feature_def finalize_name_def Let_def)
  obtain b where b: "agent_stop restart_env a = Inr b"
    using stop_idle_succeeds [OF p(1) start_fields(8) [OF a] q_ok_init _ p(2-4), of restart_env]
    by (auto simp: restart_env_def)
  obtain d where d: "agent_start False 1 b = (None, d)"
    by (rule start_succeeds [of b 1 False]) (simp_all add: stop_cfg [OF b])
  from restart_finalizes_twice [OF a _ b d] a b d
  show "let c1 = ?c in
     \<exists>a b d. agent_start False 1 (SkyWalkingAgent_init c1 :: (unit, unit, unit, unit) agent) = (None, a)
       \<and> agent_stop restart_env a = Inr b \<and> agent_start False 1 b = (None, d)
       \<and> agent_name (a_cfg d) = agent_name c @ ''|ns|ns''" by auto
qed

end
