(* ===== verification/Profile.thy ===== *)
theory Profile
  imports Utils PyQueue Config
begin

text \<open>
  The thread profiler (\<open>skywalking/profile\<close>) in its threading model: profile tasks and their
  validation, the execution service that runs one task at a time, the execution context with its
  slots and counters, the per-trace \<open>ThreadProfiler\<close> and one round of the \<open>ProfileThread\<close> loop.

  Objects that are shared by reference live in heaps and are named by their addresses: the status
  references (shared between a trace context and its profiler), the execution contexts (shared
  between the service, its timers and the profile threads) and the tasks, which Python compares
  by identity (a task is paired with its address).  A trace context is an address; what the
  profiler reads of it - \<open>profile_status\<close> and \<open>create_time\<close> - comes in as two functions.
\<close>

section \<open>Status references\<close>

datatype profile_status = NONE | PENDING | PROFILING | STOPPED

type_synonym status_heap = "profile_status list"

definition create_status :: "profile_status \<Rightarrow> status_heap \<Rightarrow> nat \<times> status_heap" where
  "create_status s h = (length h, h @ [s])"

definition create_with_none :: "status_heap \<Rightarrow> nat \<times> status_heap" where
  "create_with_none h = create_status NONE h"

definition create_with_pending :: "status_heap \<Rightarrow> nat \<times> status_heap" where
  "create_with_pending h = create_status PENDING h"

definition get_status :: "nat \<Rightarrow> status_heap \<Rightarrow> profile_status" where
  "get_status r h = h ! r"

definition update_status :: "nat \<Rightarrow> profile_status \<Rightarrow> status_heap \<Rightarrow> status_heap" where
  "update_status r s h = h[r := s]"

definition is_being_watched :: "nat \<Rightarrow> status_heap \<Rightarrow> bool" where
  "is_being_watched r h = (get_status r h \<noteq> NONE)"

definition is_profiling :: "nat \<Rightarrow> status_heap \<Rightarrow> bool" where
  "is_profiling r h = (get_status r h = PROFILING)"

section \<open>Tasks\<close>

record profile_task =
  task_id :: string
  first_span_op_name :: string
  duration :: int
  min_duration_threshold :: int
  thread_dump_period :: int
  max_sampling_count :: int
  task_start_time :: int
  task_create_time :: int

type_synonym task_obj = "nat \<times> profile_task"

definition TASK_DURATION_MIN_MINUTE :: int where "TASK_DURATION_MIN_MINUTE = 1"
definition TASK_DURATION_MAX_MINUTE :: int where "TASK_DURATION_MAX_MINUTE = 15"
definition TASK_DUMP_PERIOD_MIN_MILLIS :: int where "TASK_DUMP_PERIOD_MIN_MILLIS = 10"
definition TASK_MAX_SAMPLING_COUNT :: int where "TASK_MAX_SAMPLING_COUNT = 10"

definition MINUTE_TO_MILLIS :: int where "MINUTE_TO_MILLIS = 60000"

definition cal_profile_task_finish_time :: "profile_task \<Rightarrow> int" where
  "cal_profile_task_finish_time t = task_start_time t + duration t * MINUTE_TO_MILLIS"

datatype task_check =
    TaskAccepted
  | EmptyEndpoint
  | DurationTooShort
  | DurationTooLong
  | NegativeThreshold
  | DumpPeriodTooShort
  | NoSampling
  | TooManySamples
  | AlreadyProcessing string

definition check_profile_task :: "task_obj list \<Rightarrow> profile_task \<Rightarrow> task_check" where
  "check_profile_task queued t =
     (if first_span_op_name t = [] then EmptyEndpoint
      else if duration t < TASK_DURATION_MIN_MINUTE then DurationTooShort
      else if duration t > TASK_DURATION_MAX_MINUTE then DurationTooLong
      else if min_duration_threshold t < 0 then NegativeThreshold
      else if thread_dump_period t < TASK_DUMP_PERIOD_MIN_MILLIS then DumpPeriodTooShort
      else if max_sampling_count t \<le> 0 then NoSampling
      else if max_sampling_count t \<ge> TASK_MAX_SAMPLING_COUNT then TooManySamples
      else let finish = cal_profile_task_finish_time t in
           case find (\<lambda>(_, p). task_start_time t \<le> finish \<and> finish \<le> cal_profile_task_finish_time p) queued of
             Some (_, p) \<Rightarrow> AlreadyProcessing (first_span_op_name p)
           | None \<Rightarrow> TaskAccepted)"

section \<open>Execution context\<close>

record profiler =
  pf_trace_context :: nat
  pf_segment_id :: string
  pf_thread :: nat
  pf_start_time :: int
  pf_max_time_mills :: int
  pf_dump_sequence :: int
  pf_status :: nat

record exec_context =
  ec_task :: task_obj
  ec_current_cnt :: "int atomic_ref"
  ec_total_started_cnt :: "int atomic_ref"
  ec_slots :: "profiler atomic_array"
  ec_thread :: bool
  ec_stop_event :: "bool option"

definition ProfileTaskExecutionContext_init :: "config \<Rightarrow> task_obj \<Rightarrow> exec_context" where
  "ProfileTaskExecutionContext_init c t =
     \<lparr>ec_task = t, ec_current_cnt = AtomicRef_init 0, ec_total_started_cnt = AtomicRef_init 0,
      ec_slots = AtomicArray_init (agent_profile_max_parallel c), ec_thread = False, ec_stop_event = None\<rparr>"

definition start_profiling :: "exec_context \<Rightarrow> exec_context" where
  "start_profiling x = x\<lparr>ec_stop_event := Some False, ec_thread := True\<rparr>"

definition stop_profiling :: "exec_context \<Rightarrow> exec_context" where
  "stop_profiling x =
     (if ec_thread x \<and> ec_stop_event x \<noteq> None then x\<lparr>ec_stop_event := Some True\<rparr> else x)"

text \<open>The constructor of \<open>ThreadProfiler\<close>; \<open>cstatus\<close> is the trace context's \<open>profile_status\<close>.\<close>

definition ThreadProfiler_init ::
  "config \<Rightarrow> nat option \<Rightarrow> nat \<Rightarrow> string \<Rightarrow> nat \<Rightarrow> status_heap \<Rightarrow> profiler \<times> status_heap" where
  "ThreadProfiler_init c cstatus ctx segment_id thread h =
     (let (r, h') = (case cstatus of
                       None \<Rightarrow> create_with_pending h
                     | Some r \<Rightarrow> (r, update_status r PENDING h))
      in (\<lparr>pf_trace_context = ctx, pf_segment_id = segment_id, pf_thread = thread, pf_start_time = -1,
           pf_max_time_mills = agent_profile_duration c * 60 * 1000, pf_dump_sequence = 0, pf_status = r\<rparr>, h'))"

text \<open>\<open>for idx in range(slot_length)\<close>: the first slot won by compare-and-set.\<close>

function occupy_slot :: "int \<Rightarrow> 'p \<Rightarrow> 'p atomic_array \<Rightarrow> (bool \<times> 'p atomic_array) res" where
  "occupy_slot idx p a =
     (if idx \<ge> AtomicArray_length a then Inr (False, a)
      else bind_res (AtomicArray_compare_and_set a idx None (Some p)) (\<lambda>(won, a').
           if won then Inr (True, a') else occupy_slot (idx + 1) p a))"
  by pat_completeness auto
termination
  by (relation "measure (\<lambda>(idx, p, a). nat (AtomicArray_length a - idx))") auto

declare occupy_slot.simps [simp del]

text \<open>
  \<open>attempt_profiling\<close> from the point where \<open>using_slot_cnt\<close> has been read: another thread may have
  moved the counter since, in which case the compare-and-set refuses.
\<close>

definition attempt_profiling_from ::
  "config \<Rightarrow> int \<Rightarrow> nat option \<Rightarrow> nat \<Rightarrow> string \<Rightarrow> nat \<Rightarrow> string \<Rightarrow> exec_context \<Rightarrow> status_heap
    \<Rightarrow> (nat \<times> exec_context \<times> status_heap) res" where
  "attempt_profiling_from c using_slot_cnt cstatus ctx segment_id thread op x h =
     (let none = (\<lambda>x' h'. case create_with_none h' of (r, h'') \<Rightarrow> (r, x', h'')) in
      if using_slot_cnt \<ge> agent_profile_max_parallel c then Inr (none x h)
      else if first_span_op_name (snd (ec_task x)) \<noteq> op then Inr (none x h)
      else if AtomicRef_get (ec_total_started_cnt x) > max_sampling_count (snd (ec_task x)) then Inr (none x h)
      else case AtomicRef_compare_and_set (ec_current_cnt x) using_slot_cnt (using_slot_cnt + 1) of
        (False, _) \<Rightarrow> Inr (none x h)
      | (True, cnt) \<Rightarrow>
          (let x1 = x\<lparr>ec_current_cnt := cnt\<rparr>;
               (p, h1) = ThreadProfiler_init c cstatus ctx segment_id thread h
           in bind_res (occupy_slot 0 p (ec_slots x1)) (\<lambda>(won, slots).
              if won then Inr (pf_status p, x1\<lparr>ec_slots := slots\<rparr>, h1)
              else Inr (none x1 h1))))"

definition attempt_profiling ::
  "config \<Rightarrow> nat option \<Rightarrow> nat \<Rightarrow> string \<Rightarrow> nat \<Rightarrow> string \<Rightarrow> exec_context \<Rightarrow> status_heap
    \<Rightarrow> (nat \<times> exec_context \<times> status_heap) res" where
  "attempt_profiling c cstatus ctx segment_id thread op x h =
     attempt_profiling_from c (AtomicRef_get (ec_current_cnt x)) cstatus ctx segment_id thread op x h"

definition profiling_recheck ::
  "config \<Rightarrow> nat option \<Rightarrow> nat \<Rightarrow> string \<Rightarrow> nat \<Rightarrow> string \<Rightarrow> exec_context \<Rightarrow> status_heap
    \<Rightarrow> (exec_context \<times> status_heap) res" where
  "profiling_recheck c cstatus ctx segment_id thread op x h =
     (case cstatus of
        None \<Rightarrow> Inl AttributeError
      | Some r \<Rightarrow>
          if is_being_watched r h then Inr (x, h)
          else bind_res (attempt_profiling c cstatus ctx segment_id thread op x h) (\<lambda>(r', x', h').
               Inr (x', update_status r (get_status r' h') h')))"

text \<open>\<open>enumerate(slots)\<close> stops at the first profiler of the trace context.\<close>

fun find_profiler :: "nat \<Rightarrow> nat \<Rightarrow> 'b profiler_scheme option list \<Rightarrow> nat option" where
  "find_profiler ctx i [] = None"
| "find_profiler ctx i (None # ps) = find_profiler ctx (Suc i) ps"
| "find_profiler ctx i (Some p # ps) =
     (if pf_trace_context p = ctx then Some i else find_profiler ctx (Suc i) ps)"

definition stop_tracing_profile ::
  "(nat \<Rightarrow> nat option) \<Rightarrow> nat \<Rightarrow> exec_context \<Rightarrow> status_heap \<Rightarrow> (exec_context \<times> status_heap) res" where
  "stop_tracing_profile status_of ctx x h =
     (case find_profiler ctx 0 (arr_items (ec_slots x)) of
        None \<Rightarrow> Inr (x, h)
      | Some i \<Rightarrow>
          bind_res (AtomicArray_set (ec_slots x) (int i) None) (\<lambda>slots.
          case status_of ctx of
            None \<Rightarrow> Inl AttributeError
          | Some r \<Rightarrow> Inr (x\<lparr>ec_slots := slots, ec_current_cnt := snd (AtomicInteger_add_and_get (ec_current_cnt x) (-1))\<rparr>,
                           update_status r STOPPED h)))"

definition is_start_profileable :: "exec_context \<Rightarrow> bool \<times> exec_context" where
  "is_start_profileable x =
     (case AtomicInteger_add_and_get (ec_total_started_cnt x) 1 of
        (v, cnt) \<Rightarrow> (v \<le> max_sampling_count (snd (ec_task x)), x\<lparr>ec_total_started_cnt := cnt\<rparr>))"

section \<open>ThreadProfiler\<close>

record thread_snapshot =
  ts_task_id :: string
  ts_segment_id :: string
  ts_sequence :: int
  ts_time :: int
  ts_stack :: "string list"

definition start_profiling_if_need ::
  "int \<Rightarrow> int \<Rightarrow> (nat \<Rightarrow> nat option) \<Rightarrow> (nat \<Rightarrow> int) \<Rightarrow> exec_context \<Rightarrow> profiler \<Rightarrow> status_heap
    \<Rightarrow> (profiler \<times> status_heap) res" where
  "start_profiling_if_need now now' status_of create_time_of x p h =
     (if now - create_time_of (pf_trace_context p) > min_duration_threshold (snd (ec_task x))
      then case status_of (pf_trace_context p) of
             None \<Rightarrow> Inl AttributeError
           | Some r \<Rightarrow> Inr (p\<lparr>pf_start_time := now'\<rparr>, update_status r PROFILING h)
      else Inr (p, h))"

text \<open>
  \<open>stacks\<close> is \<open>sys._current_frames()\<close> rendered as code signatures; a thread that ended has no entry in
  \<open>alive\<close>.
\<close>

definition build_snapshot ::
  "config \<Rightarrow> int \<Rightarrow> (nat \<Rightarrow> bool) \<Rightarrow> (nat \<Rightarrow> string list option) \<Rightarrow> exec_context \<Rightarrow> profiler
    \<Rightarrow> thread_snapshot option \<times> exec_context \<times> profiler" where
  "build_snapshot c now alive stacks x p =
     (if \<not> alive (pf_thread p) then (None, x, p)
      else case stacks (pf_thread p) of
        None \<Rightarrow> (None, x, p)
      | Some frames \<Rightarrow>
          (let stack_list = take (nat (agent_profile_dump_max_stack_depth c + 1)) frames;
               (ok, x1) = (if pf_dump_sequence p = 0 then is_start_profileable x else (True, x))
           in if \<not> ok then (None, x1, p)
              else (Some \<lparr>ts_task_id = task_id (snd (ec_task x)), ts_segment_id = pf_segment_id p,
                          ts_sequence = pf_dump_sequence p, ts_time = now, ts_stack = stack_list\<rparr>,
                    x1, p\<lparr>pf_dump_sequence := pf_dump_sequence p + 1\<rparr>)))"

text \<open>One pass of the \<open>ProfileThread\<close> loop over the slots, from slot \<open>i\<close> on.\<close>

definition profile_slot ::
  "config \<Rightarrow> int \<Rightarrow> (nat \<Rightarrow> bool) \<Rightarrow> (nat \<Rightarrow> string list option) \<Rightarrow> (nat \<Rightarrow> nat option) \<Rightarrow> (nat \<Rightarrow> int) \<Rightarrow> nat
    \<Rightarrow> exec_context \<Rightarrow> status_heap \<Rightarrow> (thread_snapshot list \<times> exec_context \<times> status_heap) res" where
  "profile_slot c now alive stacks status_of create_time_of i x h =
     bind_res (AtomicArray_getitem (ec_slots x) (int i)) (\<lambda>slot.
     case slot of
       None \<Rightarrow> Inr ([], x, h)
     | Some p \<Rightarrow>
         (case get_status (pf_status p) h of
            PENDING \<Rightarrow>
              bind_res (start_profiling_if_need now now status_of create_time_of x p h) (\<lambda>(p', h').
              Inr ([], x\<lparr>ec_slots := (ec_slots x)\<lparr>arr_items := (arr_items (ec_slots x))[i := Some p']\<rparr>\<rparr>, h'))
          | PROFILING \<Rightarrow>
              (case build_snapshot c now alive stacks x p of
                 (Some s, x', p') \<Rightarrow>
                   Inr ([s], x'\<lparr>ec_slots := (ec_slots x')\<lparr>arr_items := (arr_items (ec_slots x'))[i := Some p']\<rparr>\<rparr>, h)
               | (None, x', p') \<Rightarrow>
                   bind_res (stop_tracing_profile status_of (pf_trace_context p) x' h) (\<lambda>(x'', h'). Inr ([], x'', h')))
          | _ \<Rightarrow> Inr ([], x, h)))"

fun profile_slots ::
  "config \<Rightarrow> int \<Rightarrow> (nat \<Rightarrow> bool) \<Rightarrow> (nat \<Rightarrow> string list option) \<Rightarrow> (nat \<Rightarrow> nat option) \<Rightarrow> (nat \<Rightarrow> int) \<Rightarrow> nat list
    \<Rightarrow> exec_context \<Rightarrow> status_heap \<Rightarrow> (thread_snapshot list \<times> exec_context \<times> status_heap) res" where
  "profile_slots c now alive stacks so ct [] x h = Inr ([], x, h)"
| "profile_slots c now alive stacks so ct (i # is) x h =
     bind_res (profile_slot c now alive stacks so ct i x h) (\<lambda>(ss, x', h').
     bind_res (profile_slots c now alive stacks so ct is x' h') (\<lambda>(ss', x'', h'').
     Inr (ss @ ss', x'', h'')))"

definition profiling_round ::
  "config \<Rightarrow> int \<Rightarrow> (nat \<Rightarrow> bool) \<Rightarrow> (nat \<Rightarrow> string list option) \<Rightarrow> (nat \<Rightarrow> nat option) \<Rightarrow> (nat \<Rightarrow> int)
    \<Rightarrow> exec_context \<Rightarrow> status_heap \<Rightarrow> (thread_snapshot list \<times> exec_context \<times> status_heap) res" where
  "profiling_round c now alive stacks so ct x h =
     profile_slots c now alive stacks so ct [0..<length (arr_items (ec_slots x))] x h"

definition profiling_sleep :: "exec_context \<Rightarrow> int \<Rightarrow> int \<Rightarrow> int" where
  "profiling_sleep x loop_start now =
     (let period = thread_dump_period (snd (ec_task x)); need_sleep = loop_start + period - now
      in if need_sleep > 0 then need_sleep else period)"

section \<open>Execution service\<close>

datatype timer_action = ProcessTask task_obj | StopTask nat

record profile_service =
  sv_task_list :: "task_obj list"
  sv_last_command_create_time :: int
  sv_contexts :: "exec_context list"
  sv_current :: "nat option atomic_ref"
  sv_refs :: status_heap
  sv_timers :: "(int \<times> timer_action) list"
  sv_notified :: "task_obj list"

definition ProfileTaskExecutionService_init :: profile_service where
  "ProfileTaskExecutionService_init =
     \<lparr>sv_task_list = [], sv_last_command_create_time = -1, sv_contexts = [],
      sv_current = AtomicRef_init None, sv_refs = [], sv_timers = [], sv_notified = []\<rparr>"

definition profile_init :: "profile_service option \<Rightarrow> profile_service option" where
  "profile_init g = (if g \<noteq> None then g else Some ProfileTaskExecutionService_init)"

definition schedule :: "int \<Rightarrow> timer_action \<Rightarrow> profile_service \<Rightarrow> profile_service" where
  "schedule milliseconds act s =
     s\<lparr>sv_timers := sv_timers s @ [(if milliseconds < 0 then 0 else milliseconds, act)]\<rparr>"

definition remove_from_profile_task_list :: "task_obj \<Rightarrow> profile_service \<Rightarrow> bool \<times> profile_service" where
  "remove_from_profile_task_list t s =
     (t \<in> set (sv_task_list s), s\<lparr>sv_task_list := filter (\<lambda>u. u \<noteq> t) (sv_task_list s)\<rparr>)"

definition add_profile_task :: "int \<Rightarrow> task_obj \<Rightarrow> profile_service \<Rightarrow> task_check \<times> profile_service" where
  "add_profile_task now t s =
     (let s1 = (if task_create_time (snd t) > sv_last_command_create_time s
                then s\<lparr>sv_last_command_create_time := task_create_time (snd t)\<rparr> else s);
          r = check_profile_task (sv_task_list s1) (snd t)
      in if r \<noteq> TaskAccepted then (r, s1)
         else (r, schedule (task_start_time (snd t) - now) (ProcessTask t)
                    (s1\<lparr>sv_task_list := sv_task_list s1 @ [t]\<rparr>)))"

definition sv_add_profiling ::
  "config \<Rightarrow> nat option \<Rightarrow> nat \<Rightarrow> string \<Rightarrow> nat \<Rightarrow> string \<Rightarrow> profile_service \<Rightarrow> (nat \<times> profile_service) res" where
  "sv_add_profiling c cstatus ctx segment_id thread op s =
     (case AtomicRef_get (sv_current s) of
        None \<Rightarrow> (case create_with_none (sv_refs s) of (r, h) \<Rightarrow> Inr (r, s\<lparr>sv_refs := h\<rparr>))
      | Some i \<Rightarrow>
          bind_res (attempt_profiling c cstatus ctx segment_id thread op (sv_contexts s ! i) (sv_refs s))
            (\<lambda>(r, x, h). Inr (r, s\<lparr>sv_contexts := (sv_contexts s)[i := x], sv_refs := h\<rparr>)))"

definition sv_profiling_recheck ::
  "config \<Rightarrow> nat option \<Rightarrow> nat \<Rightarrow> string \<Rightarrow> nat \<Rightarrow> string \<Rightarrow> profile_service \<Rightarrow> profile_service res" where
  "sv_profiling_recheck c cstatus ctx segment_id thread op s =
     (case AtomicRef_get (sv_current s) of
        None \<Rightarrow> Inr s
      | Some i \<Rightarrow>
          bind_res (profiling_recheck c cstatus ctx segment_id thread op (sv_contexts s ! i) (sv_refs s))
            (\<lambda>(x, h). Inr (s\<lparr>sv_contexts := (sv_contexts s)[i := x], sv_refs := h\<rparr>)))"

definition stop_current_profile_task :: "nat option \<Rightarrow> profile_service \<Rightarrow> profile_service" where
  "stop_current_profile_task need_stop s =
     (case need_stop of
        None \<Rightarrow> s
      | Some i \<Rightarrow>
          (case AtomicRef_compare_and_set (sv_current s) (Some i) None of
             (False, _) \<Rightarrow> s
           | (True, cur) \<Rightarrow>
               (let t = ec_task (sv_contexts s ! i);
                    s1 = s\<lparr>sv_current := cur, sv_contexts := (sv_contexts s)[i := stop_profiling (sv_contexts s ! i)]\<rparr>;
                    s2 = snd (remove_from_profile_task_list t s1)
                in s2\<lparr>sv_notified := sv_notified s2 @ [t]\<rparr>)))"

definition process_profile_task :: "config \<Rightarrow> task_obj \<Rightarrow> profile_service \<Rightarrow> profile_service" where
  "process_profile_task c t s =
     (let s1 = stop_current_profile_task (AtomicRef_get (sv_current s)) s;
          i = length (sv_contexts s1);
          s2 = s1\<lparr>sv_current := AtomicRef_set (sv_current s1) (Some i),
                  sv_contexts := sv_contexts s1 @ [start_profiling (ProfileTaskExecutionContext_init c t)]\<rparr>
      in schedule (duration (snd t) * MINUTE_TO_MILLIS) (StopTask i) s2)"

lemmas status_defs = create_status_def create_with_none_def create_with_pending_def get_status_def
  update_status_def is_being_watched_def

section \<open>Slots\<close>

definition occupied :: "'p option list \<Rightarrow> nat" where
  "occupied ps = length (filter (\<lambda>s. s \<noteq> None) ps)"

lemma occupied_simps [simp]:
  "occupied [] = 0" "occupied (None # ps) = occupied ps" "occupied (Some p # ps) = Suc (occupied ps)"
  by (simp_all add: occupied_def)

lemma occupied_le: "occupied ps \<le> length ps"
  by (simp add: occupied_def)

lemma occupied_set: "i < length ps \<Longrightarrow> ps ! i = None \<Longrightarrow> occupied (ps[i := Some p]) = Suc (occupied ps)"
proof (induction ps arbitrary: i)
  case (Cons a ps)
  then show ?case by (cases i; cases a) simp_all
qed simp

lemma occupied_clear: "i < length ps \<Longrightarrow> ps ! i \<noteq> None \<Longrightarrow> Suc (occupied (ps[i := None])) = occupied ps"
proof (induction ps arbitrary: i)
  case (Cons a ps)
  then show ?case by (cases i; cases a) auto
qed simp

lemma occupied_replace: "i < length ps \<Longrightarrow> ps ! i \<noteq> None \<Longrightarrow> occupied (ps[i := Some p]) = occupied ps"
proof (induction ps arbitrary: i)
  case (Cons a ps)
  then show ?case by (cases i; cases a) auto
qed simp

lemmas occupied_update = occupied_set occupied_replace

lemma find_profiler_sound:
  "find_profiler ctx k ps = Some i \<Longrightarrow> k \<le> i \<and> i - k < length ps \<and> (\<exists>p. ps ! (i - k) = Some p \<and> pf_trace_context p = ctx)"
  by (induction ctx k ps rule: find_profiler.induct)
    (auto split: if_splits simp: Suc_diff_le nth_Cons' less_Suc_eq_le dest: Suc_leD)

lemma occupy_slot_free:
  assumes "arr_ok a" and "0 \<le> idx" and "\<exists>i < length (arr_items a). nat idx \<le> i \<and> arr_items a ! i = None"
  shows "\<exists>i < length (arr_items a). arr_items a ! i = None
     \<and> occupy_slot idx p a = Inr (True, a\<lparr>arr_items := (arr_items a)[i := Some p]\<rparr>)"
  using assms
proof (induction idx p a rule: occupy_slot.induct)
  case (1 idx p a)
  have len: "AtomicArray_length a = int (length (arr_items a))"
    using 1(2) by (simp add: arr_ok_def AtomicArray_length_def)
  with 1(4) have lt: "nat idx < length (arr_items a)" by auto
  with 1(3) have lt': "idx < int (length (arr_items a))" by simp
  have cas: "AtomicArray_compare_and_set a idx None (Some p) =
      (if arr_items a ! nat idx = None then Inr (True, a\<lparr>arr_items := (arr_items a)[nat idx := Some p]\<rparr>)
       else Inr (False, a))"
    using 1(3) lt' len by (simp add: AtomicArray_compare_and_set_def)
  show ?case
  proof (cases "arr_items a ! nat idx = None")
    case True
    then show ?thesis using lt lt' len cas by (subst occupy_slot.simps) auto
  next
    case False
    from 1(4) obtain i where i: "i < length (arr_items a)" "nat idx \<le> i" "arr_items a ! i = None" by auto
    with False have "nat idx < i" by (cases "i = nat idx") auto
    with 1(3) have "nat (idx + 1) \<le> i" by simp
    with i have ex: "\<exists>i < length (arr_items a). nat (idx + 1) \<le> i \<and> arr_items a ! i = None" by blast
    have "occupy_slot idx p a = occupy_slot (idx + 1) p a"
      using False cas lt' len by (subst occupy_slot.simps) auto
    moreover have "\<not> AtomicArray_length a \<le> idx" "0 \<le> idx + 1" using lt' len 1(3) by simp_all
    ultimately show ?thesis using 1(1) [of False] 1(2) ex by simp
  qed
qed

lemma free_slot:
  assumes "occupied ps < length ps"
  shows "\<exists>i < length ps. ps ! i = None"
proof (rule ccontr)
  assume "\<not> (\<exists>i < length ps. ps ! i = None)"
  then have "None \<notin> set ps" by (auto simp: in_set_conv_nth)
  then have "\<forall>s \<in> set ps. s \<noteq> None" by metis
  then have "filter (\<lambda>s. s \<noteq> None) ps = ps" by (rule filter_True)
  with assms show False by (simp only: occupied_def)
qed

section \<open>The execution context invariant\<close>

text \<open>\<open>out\<close> collects the snapshots handed to the agent for this task.\<close>

definition ec_ok :: "config \<Rightarrow> exec_context \<Rightarrow> thread_snapshot list \<Rightarrow> bool" where
  "ec_ok c x out =
     (arr_length (ec_slots x) = agent_profile_max_parallel c
      \<and> length (arr_items (ec_slots x)) = nat (agent_profile_max_parallel c)
      \<and> AtomicRef_get (ec_current_cnt x) = int (occupied (arr_items (ec_slots x)))
      \<and> int (length (filter (\<lambda>s. ts_sequence s = 0) out)) \<le> AtomicRef_get (ec_total_started_cnt x)
      \<and> int (length (filter (\<lambda>s. ts_sequence s = 0) out)) \<le> max 0 (max_sampling_count (snd (ec_task x))))"

definition ec_frame :: "exec_context \<Rightarrow> exec_context \<Rightarrow> bool" where
  "ec_frame x y = (ec_task y = ec_task x \<and> ec_thread y = ec_thread x \<and> ec_stop_event y = ec_stop_event x)"

lemma ec_ok_init: "ec_ok c (start_profiling (ProfileTaskExecutionContext_init c t)) []"
  by (simp add: ec_ok_def start_profiling_def ProfileTaskExecutionContext_init_def AtomicArray_init_def
      AtomicRef_get_def AtomicRef_init_def occupied_def)

lemma attempt_result:
  assumes ok: "ec_ok c x out" and "first_span_op_name (snd (ec_task x)) = op"
    and "AtomicRef_get (ec_current_cnt x) < agent_profile_max_parallel c"
    and "AtomicRef_get (ec_total_started_cnt x) \<le> max_sampling_count (snd (ec_task x))"
  obtains i p h1 where "i < length (arr_items (ec_slots x))" and "arr_items (ec_slots x) ! i = None"
    and "ThreadProfiler_init c cs ctx sg th h = (p, h1)"
    and "attempt_profiling c cs ctx sg th op x h = Inr (pf_status p,
        x\<lparr>ec_current_cnt := \<lparr>ref_var = AtomicRef_get (ec_current_cnt x) + 1\<rparr>,
          ec_slots := (ec_slots x)\<lparr>arr_items := (arr_items (ec_slots x))[i := Some p]\<rparr>\<rparr>, h1)"
proof -
  obtain p h1 where p: "ThreadProfiler_init c cs ctx sg th h = (p, h1)" by fastforce
  have "arr_ok (ec_slots x)" using ok assms(3) by (auto simp: ec_ok_def arr_ok_def)
  moreover have "occupied (arr_items (ec_slots x)) < length (arr_items (ec_slots x))"
    using ok assms(3) by (auto simp: ec_ok_def)
  ultimately obtain i where "i < length (arr_items (ec_slots x))" "arr_items (ec_slots x) ! i = None"
    "occupy_slot 0 p (ec_slots x) = Inr (True, (ec_slots x)\<lparr>arr_items := (arr_items (ec_slots x))[i := Some p]\<rparr>)"
    using occupy_slot_free [of "ec_slots x" 0 p] free_slot by fastforce
  with p assms(2-4) show ?thesis
    by (intro that [of i p h1])
      (auto simp: attempt_profiling_def attempt_profiling_from_def AtomicRef_compare_and_set_def AtomicRef_get_def
        Let_def)
qed

lemma attempt_refused:
  assumes "first_span_op_name (snd (ec_task x)) \<noteq> op
      \<or> agent_profile_max_parallel c \<le> AtomicRef_get (ec_current_cnt x)
      \<or> max_sampling_count (snd (ec_task x)) < AtomicRef_get (ec_total_started_cnt x)"
  shows "attempt_profiling c cs ctx sg th op x h = Inr (length h, x, h @ [NONE])"
  using assms by (auto simp: attempt_profiling_def attempt_profiling_from_def status_defs Let_def)

lemma attempt_ok:
  assumes ok: "ec_ok c x out"
  shows "\<exists>r x' h'. attempt_profiling c cs ctx sg th op x h = Inr (r, x', h') \<and> ec_ok c x' out \<and> ec_frame x x'"
proof (cases "first_span_op_name (snd (ec_task x)) = op
    \<and> AtomicRef_get (ec_current_cnt x) < agent_profile_max_parallel c
    \<and> AtomicRef_get (ec_total_started_cnt x) \<le> max_sampling_count (snd (ec_task x))")
  case True
  then obtain i p h1 where i: "i < length (arr_items (ec_slots x))" "arr_items (ec_slots x) ! i = None"
    and r: "attempt_profiling c cs ctx sg th op x h = Inr (pf_status p,
        x\<lparr>ec_current_cnt := \<lparr>ref_var = AtomicRef_get (ec_current_cnt x) + 1\<rparr>,
          ec_slots := (ec_slots x)\<lparr>arr_items := (arr_items (ec_slots x))[i := Some p]\<rparr>\<rparr>, h1)"
    using attempt_result [OF ok] by metis
  show ?thesis unfolding r
    using ok i by (simp add: ec_ok_def ec_frame_def occupied_update AtomicRef_get_def)
next
  case False
  then have "first_span_op_name (snd (ec_task x)) \<noteq> op
      \<or> agent_profile_max_parallel c \<le> AtomicRef_get (ec_current_cnt x)
      \<or> max_sampling_count (snd (ec_task x)) < AtomicRef_get (ec_total_started_cnt x)" by auto
  from attempt_refused [OF this] ok show ?thesis by (simp add: ec_frame_def)
qed

lemma recheck_ok:
  assumes "ec_ok c x out" and "profiling_recheck c cs ctx sg th op x h = Inr (x', h')"
  shows "ec_ok c x' out \<and> ec_frame x x'"
  using assms attempt_ok [OF assms(1), of cs ctx sg th op h]
  by (auto simp: profiling_recheck_def ec_frame_def split: option.splits if_splits)

lemma stop_tracing_ok:
  assumes "ec_ok c x out" and "stop_tracing_profile so ctx x h = Inr (x', h')"
  shows "ec_ok c x' out \<and> ec_frame x x'"
proof (cases "find_profiler ctx 0 (arr_items (ec_slots x))")
  case None
  with assms show ?thesis by (simp add: stop_tracing_profile_def ec_frame_def)
next
  case (Some i)
  from find_profiler_sound [OF this] have i: "i < length (arr_items (ec_slots x))" "arr_items (ec_slots x) ! i \<noteq> None"
    by auto
  from occupied_clear [OF this]
  have "int (occupied ((arr_items (ec_slots x))[i := None])) = int (occupied (arr_items (ec_slots x))) - 1" by simp
  with Some assms show ?thesis
    by (auto simp: stop_tracing_profile_def bind_res_Inr_iff AtomicArray_set_def AtomicInteger_add_and_get_def
        ec_ok_def ec_frame_def AtomicRef_get_def Let_def split: option.splits if_splits)
qed

lemma build_snapshot_ok:
  assumes "ec_ok c x out" and "build_snapshot c now al st x p = (r, x', p')"
  shows "ec_ok c x' (out @ (case r of None \<Rightarrow> [] | Some s \<Rightarrow> [s])) \<and> ec_frame x x' \<and> ec_slots x' = ec_slots x"
  using assms
  by (auto simp: build_snapshot_def is_start_profileable_def AtomicInteger_add_and_get_def ec_ok_def ec_frame_def
      AtomicRef_get_def Let_def split: if_splits option.splits)

lemma profile_slot_ok:
  assumes ok: "ec_ok c x out" and "profile_slot c now al st so ct i x h = Inr (ss, x', h')"
  shows "ec_ok c x' (out @ ss) \<and> ec_frame x x'"
proof -
  from assms(2) obtain slot where g: "AtomicArray_getitem (ec_slots x) (int i) = Inr slot"
    by (auto simp: profile_slot_def bind_res_Inr_iff)
  then have slot: "i < length (arr_items (ec_slots x))" "slot = arr_items (ec_slots x) ! i"
    by (auto simp: AtomicArray_getitem_def Let_def split: if_splits)
  show ?thesis
  proof (cases slot)
    case None
    with assms g show ?thesis by (simp add: profile_slot_def ec_frame_def)
  next
    case (Some p)
    with slot(2) have si: "arr_items (ec_slots x) ! i \<noteq> None" by (metis option.discI)
    have keep: "ec_ok c (y\<lparr>ec_slots := (ec_slots y)\<lparr>arr_items := (arr_items (ec_slots y))[i := Some q]\<rparr>\<rparr>) o'"
      if "ec_ok c y o'" "ec_slots y = ec_slots x" for y q o'
      using that slot(1) si by (simp add: ec_ok_def occupied_update)
    show ?thesis
    proof (cases "get_status (pf_status p) h")
      case PROFILING
      obtain r x1 p1 where b: "build_snapshot c now al st x p = (r, x1, p1)" by (metis prod_cases3)
      note bo = build_snapshot_ok [OF ok b]
      show ?thesis
      proof (cases r)
        case None
        with assms(2) g Some PROFILING b
        have "stop_tracing_profile so (pf_trace_context p) x1 h = Inr (x', h')" "ss = []"
          by (auto simp: profile_slot_def bind_res_Inr_iff)
        with stop_tracing_ok [of c x1 out] bo None show ?thesis by (simp add: ec_frame_def)
      next
        case (Some s)
        with assms(2) g \<open>slot = Some p\<close> PROFILING b bo keep [of x1 "out @ [s]" p1] show ?thesis
          by (auto simp: profile_slot_def ec_frame_def)
      qed
    next
      case PENDING
      with assms(2) g Some keep [of x out] ok show ?thesis
        by (auto simp: profile_slot_def bind_res_Inr_iff ec_frame_def)
    qed (use assms g Some in \<open>auto simp: profile_slot_def ec_frame_def\<close>)
  qed
qed

datatype exec_event = EvAttempt | EvRecheck | EvStopTracing | EvSlot

text \<open>What trace threads and the profile thread may do to one execution context, in any order.\<close>

inductive exec_step :: "config \<Rightarrow> exec_context \<times> status_heap \<times> thread_snapshot list \<Rightarrow> exec_event
    \<Rightarrow> exec_context \<times> status_heap \<times> thread_snapshot list \<Rightarrow> bool" for c where
  ex_attempt: "attempt_profiling c cs ctx sg th op x h = Inr (r, x', h') \<Longrightarrow> exec_step c (x, h, out) EvAttempt (x', h', out)"
| ex_recheck: "profiling_recheck c cs ctx sg th op x h = Inr (x', h') \<Longrightarrow> exec_step c (x, h, out) EvRecheck (x', h', out)"
| ex_stop: "stop_tracing_profile so ctx x h = Inr (x', h') \<Longrightarrow> exec_step c (x, h, out) EvStopTracing (x', h', out)"
| ex_slot: "profile_slot c now al st so ct i x h = Inr (ss, x', h') \<Longrightarrow> exec_step c (x, h, out) EvSlot (x', h', out @ ss)"

lemma exec_step_ok:
  assumes "exec_step c (x, h, out) e (x', h', out')" and "ec_ok c x out"
  shows "ec_ok c x' out' \<and> ec_frame x x'"
  using assms
proof (cases rule: exec_step.cases)
  case (ex_attempt cs ctx sg th op r)
  with attempt_ok [OF assms(2), of cs ctx sg th op h] show ?thesis by auto
next
  case (ex_recheck cs ctx sg th op)
  with recheck_ok [OF assms(2), of cs ctx sg th op h] show ?thesis by simp
next
  case (ex_stop so ctx)
  with stop_tracing_ok [OF assms(2), of so ctx h] show ?thesis by simp
next
  case (ex_slot now al st so ct i ss)
  with profile_slot_ok [OF assms(2), of now al st so ct i h] show ?thesis by simp
qed

interpretation profiling: machine
  "\<lambda>(x, h, out). (\<exists>t. x = start_profiling (ProfileTaskExecutionContext_init c t)) \<and> out = []"
  "exec_step c" "\<lambda>(x, h, out). ec_ok c x out" for c
proof unfold_locales
  show "\<And>s. (case s of (x, h, out) \<Rightarrow> (\<exists>t. x = start_profiling (ProfileTaskExecutionContext_init c t)) \<and> out = [])
      \<Longrightarrow> (case s of (x, h, out) \<Rightarrow> ec_ok c x out)"
    by (auto simp: ec_ok_init)
  show "\<And>s e t. exec_step c s e t \<Longrightarrow> (case s of (x, h, out) \<Rightarrow> ec_ok c x out)
      \<Longrightarrow> (case t of (x, h, out) \<Rightarrow> ec_ok c x out)"
    using exec_step_ok by fast
qed

section \<open>The service invariant\<close>

definition finish_of :: "task_obj \<Rightarrow> int" where
  "finish_of t = cal_profile_task_finish_time (snd t)"

definition task_valid :: "profile_task \<Rightarrow> bool" where
  "task_valid t = (first_span_op_name t \<noteq> [] \<and> 1 \<le> duration t \<and> duration t \<le> 15
     \<and> 0 \<le> min_duration_threshold t \<and> 10 \<le> thread_dump_period t
     \<and> 1 \<le> max_sampling_count t \<and> max_sampling_count t \<le> 9)"

lemma check_accepts_iff:
  "check_profile_task queued t = TaskAccepted \<longleftrightarrow>
     task_valid t \<and> (\<forall>p \<in> set queued. finish_of p < cal_profile_task_finish_time t)"
proof -
  let ?hit = "\<lambda>(_ :: nat, p). task_start_time t \<le> cal_profile_task_finish_time t
    \<and> cal_profile_task_finish_time t \<le> cal_profile_task_finish_time p"
  have "1 \<le> duration t \<Longrightarrow> task_start_time t \<le> cal_profile_task_finish_time t"
    by (simp add: cal_profile_task_finish_time_def MINUTE_TO_MILLIS_def)
  then have "1 \<le> duration t \<Longrightarrow> find ?hit queued = None \<longleftrightarrow> (\<forall>p \<in> set queued. finish_of p < cal_profile_task_finish_time t)"
    by (auto simp: find_None_iff finish_of_def not_le)
  then show ?thesis
    by (auto simp: check_profile_task_def task_valid_def Let_def TASK_DURATION_MIN_MINUTE_def
        TASK_DURATION_MAX_MINUTE_def TASK_DUMP_PERIOD_MIN_MILLIS_def TASK_MAX_SAMPLING_COUNT_def
        split: option.splits)
qed

definition ctx_stopped :: "exec_context \<Rightarrow> bool" where
  "ctx_stopped x = (ec_stop_event x = Some True)"

definition service_ok :: "profile_service \<Rightarrow> bool" where
  "service_ok s =
     (sorted_wrt (<) (map finish_of (sv_task_list s))
      \<and> (\<forall>t \<in> set (sv_task_list s). task_valid (snd t))
      \<and> (\<forall>i < length (sv_contexts s). ec_thread (sv_contexts s ! i)
           \<and> ec_stop_event (sv_contexts s ! i) = Some (ref_var (sv_current s) \<noteq> Some i))
      \<and> (\<forall>i. ref_var (sv_current s) = Some i \<longrightarrow> i < length (sv_contexts s))
      \<and> length (sv_notified s) = length (filter ctx_stopped (sv_contexts s)))"

lemma sorted_wrt_filter_map: "sorted_wrt (<) (map f xs) \<Longrightarrow> sorted_wrt (<) (map f (filter P xs))" for f :: "'a \<Rightarrow> int"
  by (induction xs) auto

lemma filter_update_count:
  "i < length xs \<Longrightarrow> \<not> P (xs ! i) \<Longrightarrow> P y \<Longrightarrow> length (filter P (xs[i := y])) = Suc (length (filter P xs))"
proof (induction xs arbitrary: i)
  case (Cons a xs)
  then show ?case by (cases i) auto
qed simp

lemma filter_update_same:
  "i < length xs \<Longrightarrow> P (xs ! i) = P y \<Longrightarrow> length (filter P (xs[i := y])) = length (filter P xs)"
proof (induction xs arbitrary: i)
  case (Cons a xs)
  then show ?case by (cases i) auto
qed simp

lemma service_ok_add:
  assumes "service_ok s" and "add_profile_task now t s = (r, s')"
  shows "service_ok s'"
proof -
  let ?s1 = "if task_create_time (snd t) > sv_last_command_create_time s
      then s\<lparr>sv_last_command_create_time := task_create_time (snd t)\<rparr> else s"
  have ok: "service_ok ?s1" and l: "sv_task_list ?s1 = sv_task_list s" using assms(1) by (auto simp: service_ok_def)
  show ?thesis
  proof (cases "check_profile_task (sv_task_list ?s1) (snd t) = TaskAccepted")
    case True
    with assms(2) have s': "s' = schedule (task_start_time (snd t) - now) (ProcessTask t)
        (?s1\<lparr>sv_task_list := sv_task_list ?s1 @ [t]\<rparr>)"
      by (simp add: add_profile_task_def Let_def split: if_splits)
    from True have v: "task_valid (snd t)" "\<forall>p \<in> set (sv_task_list ?s1). finish_of p < finish_of t"
      unfolding check_accepts_iff by (auto simp: finish_of_def)
    show ?thesis unfolding s'
      using ok v by (simp add: service_ok_def schedule_def sorted_wrt_append)
  next
    case False
    with assms(2) ok show ?thesis by (simp add: add_profile_task_def Let_def split: if_splits)
  qed
qed

lemma stop_current_result:
  assumes "service_ok s" and "ref_var (sv_current s) = Some i"
  shows "stop_current_profile_task (Some i) s =
     s\<lparr>sv_current := (sv_current s)\<lparr>ref_var := None\<rparr>,
       sv_contexts := (sv_contexts s)[i := (sv_contexts s ! i)\<lparr>ec_stop_event := Some True\<rparr>],
       sv_task_list := filter (\<lambda>u. u \<noteq> ec_task (sv_contexts s ! i)) (sv_task_list s),
       sv_notified := sv_notified s @ [ec_task (sv_contexts s ! i)]\<rparr>"
proof -
  have "i < length (sv_contexts s)" "ec_thread (sv_contexts s ! i)" "ec_stop_event (sv_contexts s ! i) = Some False"
    using assms by (auto simp: service_ok_def)
  then show ?thesis
    using assms(2) by (simp add: stop_current_profile_task_def AtomicRef_compare_and_set_def stop_profiling_def
        remove_from_profile_task_list_def Let_def)
qed

lemma stop_current_stale:
  "ref_var (sv_current s) \<noteq> n \<or> n = None \<Longrightarrow> stop_current_profile_task n s = s"
  by (auto simp: stop_current_profile_task_def AtomicRef_compare_and_set_def split: option.splits)

lemma service_ok_stop:
  assumes "service_ok s"
  shows "service_ok (stop_current_profile_task n s)"
proof (cases "ref_var (sv_current s) \<noteq> n \<or> n = None")
  case True
  then show ?thesis using stop_current_stale assms by simp
next
  case False
  then obtain i where i: "ref_var (sv_current s) = Some i" "n = Some i" by auto
  then have lt: "i < length (sv_contexts s)" "\<not> ctx_stopped (sv_contexts s ! i)"
    using assms by (auto simp: service_ok_def ctx_stopped_def)
  have cnt: "length (filter ctx_stopped ((sv_contexts s)[i := (sv_contexts s ! i)\<lparr>ec_stop_event := Some True\<rparr>]))
      = Suc (length (filter ctx_stopped (sv_contexts s)))"
    using lt by (intro filter_update_count) (simp_all add: ctx_stopped_def)
  show ?thesis unfolding i(2) stop_current_result [OF assms i(1)]
    using assms cnt i(1) lt(1) sorted_wrt_filter_map
    by (auto simp: service_ok_def nth_list_update)
qed

lemma stop_clears_current:
  "service_ok s \<Longrightarrow> ref_var (sv_current (stop_current_profile_task (AtomicRef_get (sv_current s)) s)) = None"
  using stop_current_result stop_current_stale [of s None] by (cases "ref_var (sv_current s)") (auto simp: AtomicRef_get_def)

lemma service_ok_process:
  assumes "service_ok s"
  shows "service_ok (process_profile_task c t s)"
proof -
  define s1 where "s1 = stop_current_profile_task (AtomicRef_get (sv_current s)) s"
  have ok: "service_ok s1" and none: "ref_var (sv_current s1) = None"
    using service_ok_stop [OF assms] stop_clears_current [OF assms] by (simp_all add: s1_def)
  have all: "\<forall>i < length (sv_contexts s1). ec_thread (sv_contexts s1 ! i) \<and> ec_stop_event (sv_contexts s1 ! i) = Some True"
    using ok none by (simp add: service_ok_def)
  have "process_profile_task c t s = schedule (duration (snd t) * MINUTE_TO_MILLIS) (StopTask (length (sv_contexts s1)))
    (s1\<lparr>sv_current := AtomicRef_set (sv_current s1) (Some (length (sv_contexts s1))),
        sv_contexts := sv_contexts s1 @ [start_profiling (ProfileTaskExecutionContext_init c t)]\<rparr>)"
    by (simp add: process_profile_task_def s1_def Let_def)
  then show ?thesis
    using ok all
    by (simp add: service_ok_def schedule_def start_profiling_def ProfileTaskExecutionContext_init_def AtomicRef_set_def
        ctx_stopped_def nth_append less_Suc_eq)
qed

lemma service_ok_context:
  assumes "service_ok s" and "i < length (sv_contexts s)" and "ec_frame (sv_contexts s ! i) x"
  shows "service_ok (s\<lparr>sv_contexts := (sv_contexts s)[i := x], sv_refs := h\<rparr>)"
proof -
  have "length (filter ctx_stopped ((sv_contexts s)[i := x])) = length (filter ctx_stopped (sv_contexts s))"
    using assms(2,3) by (intro filter_update_same) (simp_all add: ctx_stopped_def ec_frame_def)
  with assms show ?thesis by (auto simp: service_ok_def ec_frame_def nth_list_update)
qed

datatype service_event = EvAddTask | EvProcessTask | EvStopTask | EvContext nat

inductive service_step :: "config \<Rightarrow> profile_service \<Rightarrow> service_event \<Rightarrow> profile_service \<Rightarrow> bool" for c where
  sv_add: "add_profile_task now t s = (r, s') \<Longrightarrow> service_step c s EvAddTask s'"
| sv_process: "service_step c s EvProcessTask (process_profile_task c t s)"
| sv_stop: "service_step c s EvStopTask (stop_current_profile_task n s)"
| sv_ctx: "i < length (sv_contexts s) \<Longrightarrow> ec_frame (sv_contexts s ! i) x
     \<Longrightarrow> service_step c s (EvContext i) (s\<lparr>sv_contexts := (sv_contexts s)[i := x], sv_refs := h\<rparr>)"

interpretation profile_service: machine "\<lambda>s. s = ProfileTaskExecutionService_init" "service_step c" service_ok for c
proof unfold_locales
  show "\<And>s. s = ProfileTaskExecutionService_init \<Longrightarrow> service_ok s"
    by (simp add: ProfileTaskExecutionService_init_def service_ok_def AtomicRef_init_def)
  show "\<And>s e t. service_step c s e t \<Longrightarrow> service_ok s \<Longrightarrow> service_ok t"
    by (erule service_step.cases) (auto intro: service_ok_add service_ok_process service_ok_stop service_ok_context)
qed

section \<open>Properties\<close>

text \<open>C23. However trace threads, rechecks and the profile thread interleave on a running profile task,
  the counter of profiled traces equals the number of occupied slots and never exceeds
  \<open>agent_profile_max_parallel\<close>, and at most \<open>max_sampling_count\<close> traces ever deliver a first
  snapshot for the task.\<close>

theorem profiling_bounds:
  assumes "profiling.reach c (x, h, out)"
  shows "AtomicRef_get (ec_current_cnt x) = int (occupied (arr_items (ec_slots x)))
     \<and> int (occupied (arr_items (ec_slots x))) \<le> max 0 (agent_profile_max_parallel c)
     \<and> int (length (filter (\<lambda>s. ts_sequence s = 0) out)) \<le> max 0 (max_sampling_count (snd (ec_task x)))"
  using profiling.reach_inv [OF assms] occupied_le [of "arr_items (ec_slots x)"]
  by (auto simp: ec_ok_def)

definition sample_task :: task_obj where
  "sample_task = (0, \<lparr>task_id = ''t1'', first_span_op_name = ''/a'', duration = 5, min_duration_threshold = 0,
     thread_dump_period = 10, max_sampling_count = 2, task_start_time = 0, task_create_time = 3\<rparr>)"

theorem profiling_bounds_witness:
  "\<forall>c. AtomicRef_get (ec_current_cnt (start_profiling (ProfileTaskExecutionContext_init c sample_task))) =
     int (occupied (arr_items (ec_slots (start_profiling (ProfileTaskExecutionContext_init c sample_task)))))"
proof
  fix c
  have "profiling.reach c (start_profiling (ProfileTaskExecutionContext_init c sample_task), [], [])"
    by (rule profiling.start) (auto simp del: split_paired_Ex)
  from profiling_bounds [OF this]
  show "AtomicRef_get (ec_current_cnt (start_profiling (ProfileTaskExecutionContext_init c sample_task))) =
     int (occupied (arr_items (ec_slots (start_profiling (ProfileTaskExecutionContext_init c sample_task)))))" by simp
qed

text \<open>A trace whose endpoint matches the task is always granted a slot while fewer than the
  permitted number are in use and the sampling budget is not spent: the profiler then sits in a
  slot that was free, and the trace's status is PENDING.\<close>

theorem attempt_grants_slot:
  assumes "profiling.reach c (x, h, out)"
    and "first_span_op_name (snd (ec_task x)) = op"
    and "AtomicRef_get (ec_current_cnt x) < agent_profile_max_parallel c"
    and "AtomicRef_get (ec_total_started_cnt x) \<le> max_sampling_count (snd (ec_task x))"
    and "\<forall>r. cs = Some r \<longrightarrow> r < length h"
  shows "\<exists>r x' h' i p. attempt_profiling c cs ctx sg th op x h = Inr (r, x', h') \<and> get_status r h' = PENDING
     \<and> arr_items (ec_slots x) ! i = None \<and> arr_items (ec_slots x') = (arr_items (ec_slots x))[i := Some p]
     \<and> pf_trace_context p = ctx \<and> pf_status p = r"
proof -
  have "ec_ok c x out" using profiling.reach_inv [OF assms(1)] by simp
  then obtain i p h1 where i: "i < length (arr_items (ec_slots x))" "arr_items (ec_slots x) ! i = None"
    and p: "ThreadProfiler_init c cs ctx sg th h = (p, h1)"
    and r: "attempt_profiling c cs ctx sg th op x h = Inr (pf_status p,
        x\<lparr>ec_current_cnt := \<lparr>ref_var = AtomicRef_get (ec_current_cnt x) + 1\<rparr>,
          ec_slots := (ec_slots x)\<lparr>arr_items := (arr_items (ec_slots x))[i := Some p]\<rparr>\<rparr>, h1)"
    using assms(2-4) by (rule attempt_result)
  have "get_status (pf_status p) h1 = PENDING" "pf_trace_context p = ctx"
    using p assms(5) by (auto simp: ThreadProfiler_init_def status_defs Let_def split: option.splits)
  with i r show ?thesis by auto
qed

theorem attempt_grants_slot_witness:
  "\<forall>c. \<exists>r x' h'. attempt_profiling (c\<lparr>agent_profile_max_parallel := 2\<rparr>) None 4 ''s1'' 9 ''/a''
       (start_profiling (ProfileTaskExecutionContext_init (c\<lparr>agent_profile_max_parallel := 2\<rparr>) sample_task)) []
     = Inr (r, x', h') \<and> get_status r h' = PENDING"
proof
  fix c :: config
  let ?c = "c\<lparr>agent_profile_max_parallel := 2\<rparr>"
  let ?x = "start_profiling (ProfileTaskExecutionContext_init ?c sample_task)"
  have "profiling.reach ?c (?x, [], [])" by (rule profiling.start) (auto simp del: split_paired_Ex)
  from attempt_grants_slot [OF this, of "''/a''" None 4 "''s1''" 9]
  show "\<exists>r x' h'. attempt_profiling ?c None 4 ''s1'' 9 ''/a'' ?x [] = Inr (r, x', h') \<and> get_status r h' = PENDING"
    by (auto simp: start_profiling_def ProfileTaskExecutionContext_init_def sample_task_def AtomicRef_init_def
        AtomicRef_get_def)
qed

text \<open>A trace thread that decided on an outdated slot count is turned away without a trace: once
  one attempt that read the count \<open>n\<close> has taken a slot, every other attempt that read the same
  \<open>n\<close> leaves counter and slots as they are and gets a NONE status.\<close>

theorem stale_attempt_refused:
  assumes "ref_var (ec_current_cnt x) = n"
    and "attempt_profiling_from c n cs ctx sg th op x h = Inr (r, x', h')"
    and "ec_slots x' \<noteq> ec_slots x"
  shows "attempt_profiling_from c n cs2 ctx2 sg2 th2 op2 x' h' = Inr (length h', x', h' @ [NONE])"
proof -
  have "AtomicRef_get (ec_current_cnt x') \<noteq> n"
    using assms by (auto simp: attempt_profiling_from_def AtomicRef_compare_and_set_def AtomicRef_get_def status_defs
        bind_res_Inr_iff Let_def split: if_splits prod.splits)
  from ref_cell.cas_neq [OF TrueI this, of "n + 1"] show ?thesis
    by (simp add: attempt_profiling_from_def status_defs Let_def)
qed

theorem stale_attempt_refused_witness:
  "\<forall>c. \<exists>r x' h'. attempt_profiling_from (c\<lparr>agent_profile_max_parallel := 2\<rparr>) 0 None 4 ''s1'' 9 ''/a''
       (start_profiling (ProfileTaskExecutionContext_init (c\<lparr>agent_profile_max_parallel := 2\<rparr>) sample_task)) []
     = Inr (r, x', h')
     \<and> attempt_profiling_from (c\<lparr>agent_profile_max_parallel := 2\<rparr>) 0 None 5 ''s2'' 8 ''/a'' x' h'
       = Inr (length h', x', h' @ [NONE])"
proof
  fix c :: config
  let ?c = "c\<lparr>agent_profile_max_parallel := 2\<rparr>"
  let ?x = "start_profiling (ProfileTaskExecutionContext_init ?c sample_task)"
  have ok: "ec_ok ?c ?x []" by (rule ec_ok_init)
  have z: "ref_var (ec_current_cnt ?x) = 0" "first_span_op_name (snd (ec_task ?x)) = ''/a''"
    "AtomicRef_get (ec_current_cnt ?x) < agent_profile_max_parallel ?c"
    "AtomicRef_get (ec_total_started_cnt ?x) \<le> max_sampling_count (snd (ec_task ?x))"
    "arr_items (ec_slots ?x) ! i = None \<Longrightarrow> i < length (arr_items (ec_slots ?x)) \<Longrightarrow> i < 2" for i
    by (simp_all add: start_profiling_def ProfileTaskExecutionContext_init_def sample_task_def AtomicRef_init_def
        AtomicRef_get_def AtomicArray_init_def)
  obtain i p h1 where i: "i < length (arr_items (ec_slots ?x))" "arr_items (ec_slots ?x) ! i = None"
    and a: "attempt_profiling ?c None 4 ''s1'' 9 ''/a'' ?x [] = Inr (pf_status p,
        ?x\<lparr>ec_current_cnt := \<lparr>ref_var = AtomicRef_get (ec_current_cnt ?x) + 1\<rparr>,
          ec_slots := (ec_slots ?x)\<lparr>arr_items := (arr_items (ec_slots ?x))[i := Some p]\<rparr>\<rparr>, h1)"
    by (rule attempt_result [OF ok z(2-4)])
  from a have a0: "attempt_profiling_from ?c 0 None 4 ''s1'' 9 ''/a'' ?x [] = Inr (pf_status p,
        ?x\<lparr>ec_current_cnt := \<lparr>ref_var = AtomicRef_get (ec_current_cnt ?x) + 1\<rparr>,
          ec_slots := (ec_slots ?x)\<lparr>arr_items := (arr_items (ec_slots ?x))[i := Some p]\<rparr>\<rparr>, h1)"
    using z(1) by (simp add: attempt_profiling_def AtomicRef_get_def)
  have "occupied ((arr_items (ec_slots ?x))[i := Some p]) \<noteq> occupied (arr_items (ec_slots ?x))"
    using occupied_set [OF i] by simp
  then have "(ec_slots ?x)\<lparr>arr_items := (arr_items (ec_slots ?x))[i := Some p]\<rparr> \<noteq> ec_slots ?x"
    by (metis atomic_array.select_convs(2) atomic_array.surjective atomic_array.update_convs(2))
  with stale_attempt_refused [OF z(1) a0, of None 5 "''s2''" 8 "''/a''"] a0
  show "\<exists>r x' h'. attempt_profiling_from ?c 0 None 4 ''s1'' 9 ''/a'' ?x [] = Inr (r, x', h')
     \<and> attempt_profiling_from ?c 0 None 5 ''s2'' 8 ''/a'' x' h' = Inr (length h', x', h' @ [NONE])" by auto
qed



text \<open>At most one profile task runs at a time and each one that ended was reported finished
  exactly once: in every reachable service the stop event of an execution context is set exactly
  when it is not the current one, the number of finish notifications equals the number of stopped
  contexts, and a stop request for a context that is no longer current changes nothing.\<close>

theorem one_task_at_a_time:
  assumes "profile_service.reach c s" and "i < length (sv_contexts s)"
  shows "(ctx_stopped (sv_contexts s ! i) \<longleftrightarrow> AtomicRef_get (sv_current s) \<noteq> Some i)
     \<and> length (sv_notified s) = length (filter ctx_stopped (sv_contexts s))
     \<and> (ctx_stopped (sv_contexts s ! i) \<longrightarrow> stop_current_profile_task (Some i) s = s)
     \<and> (\<not> ctx_stopped (sv_contexts s ! i) \<longrightarrow>
          sv_notified (stop_current_profile_task (Some i) s) = sv_notified s @ [ec_task (sv_contexts s ! i)])"
proof -
  have ok: "service_ok s" using profile_service.reach_inv [OF assms(1)] .
  then have iff: "ctx_stopped (sv_contexts s ! i) \<longleftrightarrow> ref_var (sv_current s) \<noteq> Some i"
    using assms(2) by (simp add: service_ok_def ctx_stopped_def)
  with ok stop_current_result [OF ok, of i] stop_current_stale [of s "Some i"] show ?thesis
    by (auto simp: AtomicRef_get_def service_ok_def)
qed

theorem one_task_at_a_time_witness:
  "\<forall>c. sv_notified (stop_current_profile_task (Some 0)
        (process_profile_task c sample_task ProfileTaskExecutionService_init)) = [sample_task]"
proof
  fix c
  let ?s = "process_profile_task c sample_task ProfileTaskExecutionService_init"
  have "profile_service.reach c ProfileTaskExecutionService_init" by (rule profile_service.start) simp
  then have r: "profile_service.reach c ?s" by (rule profile_service.next_state) (rule sv_process)
  have s: "length (sv_contexts ?s) = 1" "sv_notified ?s = []" "\<not> ctx_stopped (sv_contexts ?s ! 0)"
    "ec_task (sv_contexts ?s ! 0) = sample_task"
    by (simp_all add: process_profile_task_def ProfileTaskExecutionService_init_def schedule_def AtomicRef_init_def
        AtomicRef_get_def stop_current_profile_task_def start_profiling_def ctx_stopped_def
        ProfileTaskExecutionContext_init_def Let_def)
  from one_task_at_a_time [OF r, of 0] s show "sv_notified (stop_current_profile_task (Some 0) ?s) = [sample_task]" by simp
qed

end
