(* ===== verification/Trace.thy ===== *)
theory Trace
  imports Span Agent Profile
begin

text \<open>
  The tracing context of \<open>skywalking/trace/context.py\<close> and the span operations of
  \<open>skywalking/trace/span.py\<close> that reach it, on an explicit store.  Spans, contexts and correlation
  dictionaries are heap objects: a context owns its segment (so a context address also names the
  segment handed to the agent), and several contexts may share one correlation dictionary, because
  \<open>extract\<close> and a continued parent install the dictionary of the carrier by reference.

  The context variable \<open>spans\<close> holds one stack per thread or asyncio task.  \<open>_spans_dup\<close> copies the list
  before it is changed, so a list is never shared and a stack is a plain value; an unset variable
  reads as the empty list.
\<close>

section \<open>Store\<close>

record span_context =
  cx_noop :: bool
  cx_segment :: segment
  cx_sid :: counter
  cx_correlation :: nat
  cx_nspans :: int
  cx_profile_status :: "nat option"
  cx_create_time :: int
  cx_primary_endpoint :: "nat option"

record ('l, 'm, 'n) world =
  w_spans :: "span list"
  w_ctxs :: "span_context list"
  w_corrs :: "correlation list"
  w_stacks :: "nat \<Rightarrow> nat list"
  w_uuids :: nat
  w_agent :: "(nat, 'l, 'm, 'n) agent"
  w_profile :: "profile_service option"

text \<open>
  What an operation runs with: the current thread or task, the clocks, the supply of UUIDs, the
  compiled \<open>RE_IGNORE_PATH.match\<close>, the Unicode tables and the time at which the modules were imported.
\<close>

record trace_env =
  te_tid :: nat
  te_now :: int
  te_clock :: real
  te_uuid :: "nat \<Rightarrow> string"
  te_ignored :: "string \<Rightarrow> bool"
  te_unicode :: unicode
  te_import_time :: real

abbreviation w_cfg :: "('l, 'm, 'n) world \<Rightarrow> config" where
  "w_cfg w \<equiv> a_cfg (w_agent w)"

abbreviation sp_of :: "('l, 'm, 'n) world \<Rightarrow> nat \<Rightarrow> span" where
  "sp_of w i \<equiv> w_spans w ! i"

abbreviation cx_of :: "('l, 'm, 'n) world \<Rightarrow> nat \<Rightarrow> span_context" where
  "cx_of w i \<equiv> w_ctxs w ! i"

definition upd_span :: "nat \<Rightarrow> (span \<Rightarrow> span) \<Rightarrow> ('l, 'm, 'n) world \<Rightarrow> ('l, 'm, 'n) world" where
  "upd_span i f w = w\<lparr>w_spans := (w_spans w)[i := f (w_spans w ! i)]\<rparr>"

definition upd_ctx :: "nat \<Rightarrow> (span_context \<Rightarrow> span_context) \<Rightarrow> ('l, 'm, 'n) world \<Rightarrow> ('l, 'm, 'n) world" where
  "upd_ctx i f w = w\<lparr>w_ctxs := (w_ctxs w)[i := f (w_ctxs w ! i)]\<rparr>"

definition upd_corr :: "nat \<Rightarrow> (correlation \<Rightarrow> correlation) \<Rightarrow> ('l, 'm, 'n) world \<Rightarrow> ('l, 'm, 'n) world" where
  "upd_corr i f w = w\<lparr>w_corrs := (w_corrs w)[i := f (w_corrs w ! i)]\<rparr>"

definition set_stack :: "nat \<Rightarrow> nat list \<Rightarrow> ('l, 'm, 'n) world \<Rightarrow> ('l, 'm, 'n) world" where
  "set_stack t ss w = w\<lparr>w_stacks := (w_stacks w)(t := ss)\<rparr>"

definition new_span_obj :: "span \<Rightarrow> (nat, ('l, 'm, 'n) world) op" where
  "new_span_obj s w = (Inr (length (w_spans w)), w\<lparr>w_spans := w_spans w @ [s]\<rparr>)"

definition fresh_uuid :: "trace_env \<Rightarrow> (string, ('l, 'm, 'n) world) op" where
  "fresh_uuid e w = (Inr (te_uuid e (w_uuids w)), w\<lparr>w_uuids := Suc (w_uuids w)\<rparr>)"

definition on_agent :: "((nat, 'l, 'm, 'n) agent \<Rightarrow> (nat, 'l, 'm, 'n) agent res) \<Rightarrow> (unit, ('l, 'm, 'n) world) op" where
  "on_agent f w = (case f (w_agent w) of Inl e \<Rightarrow> (Inl e, w) | Inr a \<Rightarrow> (Inr (), w\<lparr>w_agent := a\<rparr>))"

section \<open>Contexts\<close>

definition SpanContext_new :: "trace_env \<Rightarrow> (nat, ('l, 'm, 'n) world) op" where
  "SpanContext_new e =
     seq (fresh_uuid e) (\<lambda>u1. seq (fresh_uuid e) (\<lambda>u2.
     (\<lambda>w. (Inr (length (w_ctxs w)),
           w\<lparr>w_corrs := w_corrs w @ [[]],
             w_ctxs := w_ctxs w @ [\<lparr>cx_noop = False, cx_segment = Segment_init u1 u2 (te_now e),
                                   cx_sid = Counter_init, cx_correlation = length (w_corrs w), cx_nspans = 0,
                                   cx_profile_status = None, cx_create_time = te_now e,
                                   cx_primary_endpoint = None\<rparr>]\<rparr>))))"

definition NoopContext_new :: "(nat, ('l, 'm, 'n) world) op" where
  "NoopContext_new w =
     (Inr (length (w_ctxs w)),
      w\<lparr>w_corrs := w_corrs w @ [[]],
        w_ctxs := w_ctxs w @ [\<lparr>cx_noop = True, cx_segment = NoopSegment_init, cx_sid = Counter_init,
                              cx_correlation = length (w_corrs w), cx_nspans = 0, cx_profile_status = None,
                              cx_create_time = 0, cx_primary_endpoint = None\<rparr>]\<rparr>)"

definition NoopSpan_new :: "nat \<Rightarrow> (nat, ('l, 'm, 'n) world) op" where
  "NoopSpan_new ctx = new_span_obj (NoopSpan_init ctx)"

text \<open>\<open>peek\<close>: the top of the current stack.\<close>

definition peek :: "trace_env \<Rightarrow> bool \<Rightarrow> (nat option, ('l, 'm, 'n) world) op" where
  "peek e raise_if_none w =
     (let ss = w_stacks w (te_tid e) in
      if ss = [] then (if raise_if_none then (Inl IllegalStateError, w) else (Inr None, w))
      else (Inr (Some (last ss)), w))"

definition active_span :: "trace_env \<Rightarrow> (nat option, ('l, 'm, 'n) world) op" where
  "active_span e = peek e False"

definition next_sid :: "nat \<Rightarrow> (int, ('l, 'm, 'n) world) op" where
  "next_sid ctx w =
     (case Counter_next (cx_sid (cx_of w ctx)) of
        (v, c) \<Rightarrow> (Inr v, upd_ctx ctx (\<lambda>x. x\<lparr>cx_sid := c\<rparr>) w))"

definition relate_ctx :: "nat \<Rightarrow> trace_id \<Rightarrow> (unit, ('l, 'm, 'n) world) op" where
  "relate_ctx ctx tid w =
     (case relate tid (cx_segment (cx_of w ctx)) of
        Inl e \<Rightarrow> (Inl e, w)
      | Inr s \<Rightarrow> (Inr (), upd_ctx ctx (\<lambda>x. x\<lparr>cx_segment := s\<rparr>) w))"

text \<open>\<open>ID(raw)\<close> draws a UUID only when the raw id is empty.\<close>

definition make_id :: "trace_env \<Rightarrow> string \<Rightarrow> (trace_id, ('l, 'm, 'n) world) op" where
  "make_id e raw = (if raw = [] then seq (fresh_uuid e) (\<lambda>u. ret (ID_init u None)) else ret (ID_init [] (Some raw)))"

section \<open>extract and inject\<close>

definition Span_extract :: "trace_env \<Rightarrow> nat \<Rightarrow> nat carrier option \<Rightarrow> (unit, ('l, 'm, 'n) world) op" where
  "Span_extract e sp carrier =
     (case carrier of
        None \<Rightarrow> ret ()
      | Some c \<Rightarrow>
          seq (make_id e (c_trace_id c)) (\<lambda>tid.
          seq (gets (\<lambda>w. sp_context (sp_of w sp))) (\<lambda>ctx.
          seq (relate_ctx ctx tid) (\<lambda>_.
          seq (modify (upd_ctx ctx (\<lambda>x. x\<lparr>cx_correlation := c_correlation c\<rparr>))) (\<lambda>_.
          seq (lift_res (is_valid (te_unicode e) c)) (\<lambda>valid.
          if \<not> valid then ret ()
          else seq (lift_res (SegmentRef_init (te_unicode e) c)) (\<lambda>ref.
               modify (upd_span sp (\<lambda>s. if \<exists>r \<in> set (sp_refs s). SegmentRef_eq r ref then s
                                        else s\<lparr>sp_refs := sp_refs s @ [ref]\<rparr>)))))))))"

definition span_extract :: "trace_env \<Rightarrow> nat \<Rightarrow> nat carrier option \<Rightarrow> (unit, ('l, 'm, 'n) world) op" where
  "span_extract e sp carrier w =
     (if sp_class (sp_of w sp) = NoopSpan then (Inr (), w) else Span_extract e sp carrier w)"

definition first_related :: "nat \<Rightarrow> (string, ('l, 'm, 'n) world) op" where
  "first_related ctx w =
     (case seg_related (cx_segment (cx_of w ctx)) of [] \<Rightarrow> (Inl IndexError, w) | i # _ \<Rightarrow> (Inr (id_value i), w))"

text \<open>The carrier of a span: used by \<open>ExitSpan.inject\<close> and for a parent that has finished.\<close>

definition carrier_of :: "nat \<Rightarrow> (nat carrier, ('l, 'm, 'n) world) op" where
  "carrier_of sp =
     seq (gets (\<lambda>w. sp_of w sp)) (\<lambda>s.
     seq (first_related (sp_context s)) (\<lambda>tid.
     gets (\<lambda>w. Carrier_init tid (id_value (seg_id (cx_segment (cx_of w (sp_context s)))))
                 (str_of_int (sp_sid s)) (agent_name (w_cfg w)) (agent_instance_name (w_cfg w))
                 (sp_op s) (sp_peer s) (cx_correlation (cx_of w (sp_context s))))))"

definition span_inject :: "nat \<Rightarrow> (nat carrier, ('l, 'm, 'n) world) op" where
  "span_inject sp w =
     (case sp_class (sp_of w sp) of
        ExitSpan \<Rightarrow> carrier_of sp w
      | NoopSpan \<Rightarrow> (Inr (Carrier_empty (length (w_corrs w))), w\<lparr>w_corrs := w_corrs w @ [[]]\<rparr>)
      | _ \<Rightarrow> (Inl IllegalStateError, w))"

section \<open>Creating spans\<close>

definition ignore_check :: "trace_env \<Rightarrow> string \<Rightarrow> nat carrier option \<Rightarrow> (nat option, ('l, 'm, 'n) world) op" where
  "ignore_check e op carrier =
     seq (\<lambda>w. if te_ignored e op then (Inr True, w)
              else case is_segment_queue_full (w_agent w) of
                     Inl err \<Rightarrow> (Inl err, w)
                   | Inr True \<Rightarrow> (Inr True, w)
                   | Inr False \<Rightarrow>
                       (case carrier of None \<Rightarrow> (Inr False, w) | Some c \<Rightarrow> (is_suppressed (te_unicode e) c, w)))
       (\<lambda>ignore. if ignore
                 then seq NoopContext_new (\<lambda>ctx. seq (NoopSpan_new ctx) (\<lambda>sp. ret (Some sp)))
                 else ret None)"

definition new_span ::
  "trace_env \<Rightarrow> nat \<Rightarrow> nat option \<Rightarrow> span_class \<Rightarrow> string \<Rightarrow> string option \<Rightarrow> component option
    \<Rightarrow> (nat, ('l, 'm, 'n) world) op" where
  "new_span e self parent cls op peer cmp =
     seq (gets (\<lambda>w. case parent of None \<Rightarrow> False | Some p \<Rightarrow> sp_depth (sp_of w p) = 0)) (\<lambda>finished.
     seq (if finished then SpanContext_new e else ret self) (\<lambda>ctx.
     seq (next_sid ctx) (\<lambda>sid.
     seq (gets (\<lambda>w. case parent of Some p \<Rightarrow> if finished then -1 else sp_sid (sp_of w p) | None \<Rightarrow> -1)) (\<lambda>pid.
     seq (new_span_obj (Span_init cls ctx sid pid (Some op) peer cmp)) (\<lambda>sp.
     seq (if finished
          then seq (carrier_of (the parent)) (\<lambda>c. Span_extract e sp (Some c))
          else ret ()) (\<lambda>_.
     ret sp))))))"

definition new_local_span :: "trace_env \<Rightarrow> nat \<Rightarrow> string \<Rightarrow> (nat, ('l, 'm, 'n) world) op" where
  "new_local_span e self op w =
     (if cx_noop (cx_of w self) then NoopSpan_new self w
      else seq (ignore_check e op None) (\<lambda>ign.
           case ign of
             Some sp \<Rightarrow> ret sp
           | None \<Rightarrow> seq (peek e False) (\<lambda>parent. new_span e self parent PlainSpan op None None)) w)"

definition add_profiling :: "trace_env \<Rightarrow> nat \<Rightarrow> string \<Rightarrow> (unit, ('l, 'm, 'n) world) op" where
  "add_profiling e self op w =
     (if \<not> (agent_profile_active (w_cfg w) \<and> cx_profile_status (cx_of w self) = None) then (Inr (), w)
      else case w_profile w of
             None \<Rightarrow> (Inl AttributeError, w)
           | Some sv \<Rightarrow>
               (case sv_add_profiling (w_cfg w) (cx_profile_status (cx_of w self)) self
                       (id_value (seg_id (cx_segment (cx_of w self)))) (te_tid e) op sv of
                  Inl err \<Rightarrow> (Inl err, w)
                | Inr (r, sv') \<Rightarrow>
                    (Inr (), upd_ctx self (\<lambda>x. x\<lparr>cx_profile_status := Some r\<rparr>) (w\<lparr>w_profile := Some sv'\<rparr>))))"

definition ctx_profiling_recheck :: "trace_env \<Rightarrow> nat \<Rightarrow> nat \<Rightarrow> string \<Rightarrow> (unit, ('l, 'm, 'n) world) op" where
  "ctx_profiling_recheck e self sp op w =
     (if \<not> agent_profile_active (w_cfg w) \<or> sp_sid (sp_of w sp) \<noteq> 0 then (Inr (), w)
      else case w_profile w of
             None \<Rightarrow> (Inl AttributeError, w)
           | Some sv \<Rightarrow>
               (case sv_profiling_recheck (w_cfg w) (cx_profile_status (cx_of w self)) self
                       (id_value (seg_id (cx_segment (cx_of w self)))) (te_tid e) op sv of
                  Inl err \<Rightarrow> (Inl err, w)
                | Inr sv' \<Rightarrow> (Inr (), w\<lparr>w_profile := Some sv'\<rparr>)))"

definition new_entry_span ::
  "trace_env \<Rightarrow> nat \<Rightarrow> string \<Rightarrow> nat carrier option \<Rightarrow> component option \<Rightarrow> (nat, ('l, 'm, 'n) world) op" where
  "new_entry_span e self op carrier inherit w =
     (if cx_noop (cx_of w self) then NoopSpan_new self w
      else seq (ignore_check e op carrier) (\<lambda>ign.
           case ign of
             Some sp \<Rightarrow> ret sp
           | None \<Rightarrow>
               seq (peek e False) (\<lambda>parent.
               seq (add_profiling e self op) (\<lambda>_.
               seq (gets (\<lambda>w. case parent of
                                None \<Rightarrow> False
                              | Some p \<Rightarrow> is_entry (sp_kind (sp_of w p)) \<and> inherit = Some (sp_component (sp_of w p)))) (\<lambda>reuse.
               if reuse
               then seq (ctx_profiling_recheck e self (the parent) op) (\<lambda>_.
                    seq (modify (upd_span (the parent) (\<lambda>s. s\<lparr>sp_op := Some op\<rparr>))) (\<lambda>_.
                    ret (the parent)))
               else seq (new_span e self parent EntrySpan op None None) (\<lambda>sp.
                    case carrier of
                      None \<Rightarrow> ret sp
                    | Some c \<Rightarrow>
                        seq (lift_res (is_valid (te_unicode e) c)) (\<lambda>valid.
                        if valid then seq (span_extract e sp (Some c)) (\<lambda>_. ret sp) else ret sp)))))) w)"

definition new_exit_span ::
  "trace_env \<Rightarrow> nat \<Rightarrow> string \<Rightarrow> string \<Rightarrow> component option \<Rightarrow> component option \<Rightarrow> (nat, ('l, 'm, 'n) world) op" where
  "new_exit_span e self op peer cmp inherit w =
     (if cx_noop (cx_of w self) then NoopSpan_new self w
      else seq (ignore_check e op None) (\<lambda>ign.
           case ign of
             Some sp \<Rightarrow> ret sp
           | None \<Rightarrow>
               seq (peek e False) (\<lambda>parent.
               seq (gets (\<lambda>w. case parent of
                                None \<Rightarrow> False
                              | Some p \<Rightarrow> is_exit (sp_kind (sp_of w p)) \<and> cmp = Some (sp_inherit (sp_of w p)))) (\<lambda>reuse.
               seq (if reuse
                    then seq (modify (upd_span (the parent)
                                (\<lambda>s. s\<lparr>sp_op := Some op, sp_peer := Some peer, sp_component := the cmp\<rparr>))) (\<lambda>_.
                         ret (the parent))
                    else new_span e self parent ExitSpan op (Some peer) cmp) (\<lambda>sp.
               seq (case inherit of None \<Rightarrow> ret () | Some i \<Rightarrow> modify (upd_span sp (\<lambda>s. s\<lparr>sp_inherit := i\<rparr>))) (\<lambda>_.
               ret sp))))) w)"

section \<open>Starting and stopping spans\<close>

text \<open>\<open>PrimaryEndpoint\<close>: the first entry span, or else the first span, of the context.\<close>

definition set_primary_endpoint :: "nat \<Rightarrow> nat \<Rightarrow> ('l, 'm, 'n) world \<Rightarrow> nat" where
  "set_primary_endpoint cur sp w =
     (if sp_kind (sp_of w cur) \<noteq> Entry \<and> sp_kind (sp_of w sp) = Entry then sp else cur)"

definition primary_endpoint_name :: "nat \<Rightarrow> ('l, 'm, 'n) world \<Rightarrow> string option res" where
  "primary_endpoint_name ctx w =
     (case cx_primary_endpoint (cx_of w ctx) of None \<Rightarrow> Inl AttributeError | Some p \<Rightarrow> Inr (sp_op (sp_of w p)))"

definition context_start :: "trace_env \<Rightarrow> nat \<Rightarrow> nat \<Rightarrow> ('l, 'm, 'n) world \<Rightarrow> ('l, 'm, 'n) world" where
  "context_start e self sp w =
     (let w1 = upd_ctx self (\<lambda>x. x\<lparr>cx_nspans := cx_nspans x + 1\<rparr>) w;
          ss = w_stacks w1 (te_tid e)
      in if sp \<in> set ss then w1
         else upd_ctx self (\<lambda>x. x\<lparr>cx_primary_endpoint :=
                Some (case cx_primary_endpoint x of None \<Rightarrow> sp | Some p \<Rightarrow> set_primary_endpoint p sp w1)\<rparr>)
                (set_stack (te_tid e) (ss @ [sp]) w1))"

definition Span_start :: "trace_env \<Rightarrow> nat \<Rightarrow> ('l, 'm, 'n) world \<Rightarrow> ('l, 'm, 'n) world" where
  "Span_start e sp w =
     (let w1 = upd_span sp (\<lambda>s. s\<lparr>sp_depth := sp_depth s + 1\<rparr>) w in
      if sp_depth (sp_of w1 sp) \<noteq> 1 then w1
      else context_start e (sp_context (sp_of w1 sp)) sp (upd_span sp (\<lambda>s. s\<lparr>sp_start_time := te_now e\<rparr>) w1))"

definition EntrySpan_start :: "trace_env \<Rightarrow> nat \<Rightarrow> ('l, 'm, 'n) world \<Rightarrow> ('l, 'm, 'n) world" where
  "EntrySpan_start e sp w =
     upd_span sp (\<lambda>s. s\<lparr>sp_max_depth := sp_depth s, sp_component := Component_Unknown, sp_layer := Layer_Unknown,
                        sp_logs := [], sp_tags := []\<rparr>) (Span_start e sp w)"

definition span_start :: "trace_env \<Rightarrow> nat \<Rightarrow> ('l, 'm, 'n) world \<Rightarrow> ('l, 'm, 'n) world" where
  "span_start e sp w =
     (if sp_class (sp_of w sp) = EntrySpan then EntrySpan_start e sp w else Span_start e sp w)"

definition span_finish :: "trace_env \<Rightarrow> nat \<Rightarrow> nat \<Rightarrow> ('l, 'm, 'n) world \<Rightarrow> ('l, 'm, 'n) world" where
  "span_finish e sp ctx w =
     upd_ctx ctx (\<lambda>x. x\<lparr>cx_segment := segment_archive sp (cx_segment x)\<rparr>)
       (upd_span sp (\<lambda>s. s\<lparr>sp_end_time := te_now e\<rparr>) w)"

definition SpanContext_stop :: "trace_env \<Rightarrow> nat \<Rightarrow> nat \<Rightarrow> (bool, ('l, 'm, 'n) world) op" where
  "SpanContext_stop e self sp =
     seq (modify (\<lambda>w. span_finish e sp self w)) (\<lambda>_.
     seq (modify (\<lambda>w. set_stack (te_tid e) (remove1 sp (w_stacks w (te_tid e))) w)) (\<lambda>_.
     seq (modify (upd_ctx self (\<lambda>x. x\<lparr>cx_nspans := cx_nspans x - 1\<rparr>))) (\<lambda>_.
     seq (gets (\<lambda>w. cx_nspans (cx_of w self) = 0)) (\<lambda>done.
     if \<not> done then ret False
     else seq (\<lambda>w. (is_segment_queue_full (w_agent w), w)) (\<lambda>full.
          seq (modify (upd_ctx self (\<lambda>x. x\<lparr>cx_segment := (cx_segment x)\<lparr>seg_size_limited := full\<rparr>\<rparr>))) (\<lambda>_.
          seq (on_agent (archive_segment (te_clock e) self)) (\<lambda>_.
          ret True)))))))"

definition NoopContext_stop :: "trace_env \<Rightarrow> nat \<Rightarrow> nat \<Rightarrow> (bool, ('l, 'm, 'n) world) op" where
  "NoopContext_stop e self sp =
     seq (modify (\<lambda>w. set_stack (te_tid e) (remove1 sp (w_stacks w (te_tid e))) w)) (\<lambda>_.
     seq (modify (upd_ctx self (\<lambda>x. x\<lparr>cx_nspans := cx_nspans x - 1\<rparr>))) (\<lambda>_.
     gets (\<lambda>w. cx_nspans (cx_of w self) = 0)))"

definition span_stop :: "trace_env \<Rightarrow> nat \<Rightarrow> (bool, ('l, 'm, 'n) world) op" where
  "span_stop e sp w =
     (let w1 = upd_span sp (\<lambda>s. s\<lparr>sp_depth := sp_depth s - 1\<rparr>) w;
          ctx = sp_context (sp_of w1 sp)
      in if sp_depth (sp_of w1 sp) \<noteq> 0 then (Inr False, w1)
         else if cx_noop (cx_of w1 ctx) then NoopContext_stop e ctx sp w1
         else SpanContext_stop e ctx sp w1)"

text \<open>
  \<open>with span:\<close> - the exit sees no exception, an \<open>Exception\<close> with its formatted traceback, or some other
  \<open>BaseException\<close>.  The result tells whether the exception is swallowed.
\<close>

datatype with_exit = NormalExit | ExceptionExit string | BaseExceptionExit

definition span_exit :: "trace_env \<Rightarrow> with_exit \<Rightarrow> nat \<Rightarrow> (bool, ('l, 'm, 'n) world) op" where
  "span_exit e how sp =
     seq (modify (case how of ExceptionExit tb \<Rightarrow> upd_span sp (span_raised (te_import_time e) tb) | _ \<Rightarrow> (\<lambda>w. w))) (\<lambda>_.
     seq (span_stop e sp) (\<lambda>_.
     ret (how = NormalExit)))"

section \<open>Correlation and cross-thread propagation\<close>

definition get_correlation :: "nat \<Rightarrow> string \<Rightarrow> ('l, 'm, 'n) world \<Rightarrow> string option" where
  "get_correlation self key w = dict_get (w_corrs w ! cx_correlation (cx_of w self)) key"

definition put_correlation ::
  "nat \<Rightarrow> string option \<Rightarrow> string option \<Rightarrow> ('l, 'm, 'n) world \<Rightarrow> ('l, 'm, 'n) world" where
  "put_correlation self key val w =
     (let a = cx_correlation (cx_of w self) in
      case key of
        None \<Rightarrow> w
      | Some k \<Rightarrow>
          (case val of
             None \<Rightarrow> upd_corr a (dict_del k) w
           | Some v \<Rightarrow>
               if int (py_len v) > correlation_value_max_length (w_cfg w) then w
               else if int (length (w_corrs w ! a)) > correlation_element_max_number (w_cfg w) then w
               else upd_corr a (dict_set k v) w))"

definition capture :: "trace_env \<Rightarrow> nat \<Rightarrow> (snapshot option, ('l, 'm, 'n) world) op" where
  "capture e self w =
     (let x = cx_of w self; corr = w_corrs w ! cx_correlation x in
      if cx_noop x
      then (Inr (Some \<lparr>ss_trace_id = None, ss_segment_id = None, ss_span_id = -1, ss_endpoint = None,
                      ss_correlation = corr\<rparr>), w)
      else let ss = w_stacks w (te_tid e) in
           if ss = [] then (Inr None, w)
           else case seg_related (cx_segment x) of
                  [] \<Rightarrow> (Inl IndexError, w)
                | tid # _ \<Rightarrow>
                    (Inr (Some \<lparr>ss_trace_id = Some tid, ss_segment_id = Some (id_value (seg_id (cx_segment x))),
                                ss_span_id = sp_sid (sp_of w (last ss)), ss_endpoint = sp_op (sp_of w (hd ss)),
                                ss_correlation = corr\<rparr>), w))"

text \<open>\<open>is_from_current\<close> dereferences \<open>capture()\<close>, which is \<open>None\<close> when no span is active.\<close>

definition is_from_current :: "trace_env \<Rightarrow> snapshot \<Rightarrow> nat \<Rightarrow> (bool, ('l, 'm, 'n) world) op" where
  "is_from_current e s ctx =
     (case ss_segment_id s of
        None \<Rightarrow> ret False
      | Some sid \<Rightarrow>
          seq (capture e ctx) (\<lambda>cur.
          case cur of None \<Rightarrow> raise_err AttributeError | Some c \<Rightarrow> ret (Some sid = ss_segment_id c)))"

definition continued :: "trace_env \<Rightarrow> nat \<Rightarrow> snapshot option \<Rightarrow> (unit, ('l, 'm, 'n) world) op" where
  "continued e self snap w =
     (if cx_noop (cx_of w self)
      then (case snap of
              None \<Rightarrow> (Inl AttributeError, w)
            | Some s \<Rightarrow> (Inr (), upd_corr (cx_correlation (cx_of w self)) (\<lambda>d. dict_update d (ss_correlation s)) w))
      else case snap of
             None \<Rightarrow> (Inr (), w)
           | Some s \<Rightarrow>
               seq (is_from_current e s self) (\<lambda>cur.
               if cur \<or> \<not> snapshot_is_valid s then ret ()
               else seq (gets (\<lambda>w. build_ref (w_cfg w) s)) (\<lambda>ref.
                    seq (active_span e) (\<lambda>act.
                    case act of
                      None \<Rightarrow> raise_err AttributeError
                    | Some sp \<Rightarrow>
                        seq (modify (upd_span sp (\<lambda>x. x\<lparr>sp_refs := sp_refs x @ [ref]\<rparr>))) (\<lambda>_.
                        seq (make_id e (sr_trace_id ref)) (\<lambda>tid.
                        seq (relate_ctx self tid) (\<lambda>_.
                        modify (\<lambda>w. upd_corr (cx_correlation (cx_of w self))
                                      (\<lambda>d. dict_update d (ss_correlation s)) w))))))) w)"

section \<open>get_context\<close>

definition get_context :: "trace_env \<Rightarrow> (nat, ('l, 'm, 'n) world) op" where
  "get_context e w =
     (let ss = w_stacks w (te_tid e) in
      if ss \<noteq> [] then (Inr (sp_context (sp_of w (last ss))), w)
      else case a_sampling (w_agent w) of
             None \<Rightarrow> SpanContext_new e w
           | Some s \<Rightarrow>
               (case try_sampling (sample_n_per_3_secs (w_cfg w)) s of
                  (ok, s') \<Rightarrow>
                    (let w' = w\<lparr>w_agent := (w_agent w)\<lparr>a_sampling := Some s'\<rparr>\<rparr>
                     in if ok then SpanContext_new e w' else NoopContext_new w')))"

text \<open>A task created by asyncio starts with a copy of its creator's context variables, a thread with none.\<close>

definition spawn_task :: "nat \<Rightarrow> nat \<Rightarrow> ('l, 'm, 'n) world \<Rightarrow> ('l, 'm, 'n) world" where
  "spawn_task parent child w = set_stack child (w_stacks w parent) w"

definition spawn_thread :: "nat \<Rightarrow> ('l, 'm, 'n) world \<Rightarrow> ('l, 'm, 'n) world" where
  "spawn_thread child w = set_stack child [] w"

section \<open>Decorators (decorators.py)\<close>

fun tag_all :: "nat \<Rightarrow> tag list \<Rightarrow> (unit, ('l, 'm, 'n) world) op" where
  "tag_all sp [] w = (Inr (), w)"
| "tag_all sp (t # ts) w =
     (case span_tag t (sp_of w sp) of
        Inl e \<Rightarrow> (Inl e, w)
      | Inr s \<Rightarrow> tag_all sp ts (upd_span sp (\<lambda>_. s) w))"

text \<open>
  \<open>@trace\<close>: \<open>body\<close> is the decorated function, which may change the world and ends in one of the ways a
  \<open>with\<close> block ends.
\<close>

definition trace_call ::
  "trace_env \<Rightarrow> trace_env \<Rightarrow> string \<Rightarrow> layer \<Rightarrow> component \<Rightarrow> tag list
    \<Rightarrow> (('l, 'm, 'n) world \<Rightarrow> with_exit \<times> ('l, 'm, 'n) world) \<Rightarrow> (with_exit, ('l, 'm, 'n) world) op" where
  "trace_call e e' op lay cmp ts body =
     seq (get_context e) (\<lambda>ctx.
     seq (new_local_span e ctx op) (\<lambda>sp.
     seq (modify (upd_span sp (\<lambda>s. s\<lparr>sp_layer := lay, sp_component := cmp\<rparr>))) (\<lambda>_.
     seq (tag_all sp ts) (\<lambda>_.
     seq (modify (span_start e sp)) (\<lambda>_.
     seq (\<lambda>w. case body w of (how, w') \<Rightarrow> (Inr how, w')) (\<lambda>how.
     seq (span_exit e' how sp) (\<lambda>_. ret how)))))))"

text \<open>
  \<open>@runnable\<close>: the call continues the snapshot captured when the function was wrapped; an exception
  inside the \<open>with\<close> block (from \<open>continued\<close>, tagging or the body) goes through the span's exit.
\<close>

definition runnable_call ::
  "trace_env \<Rightarrow> trace_env \<Rightarrow> snapshot option \<Rightarrow> string \<Rightarrow> layer \<Rightarrow> component \<Rightarrow> tag list
    \<Rightarrow> (('l, 'm, 'n) world \<Rightarrow> with_exit \<times> ('l, 'm, 'n) world) \<Rightarrow> (with_exit, ('l, 'm, 'n) world) op" where
  "runnable_call e e' snap op lay cmp ts body =
     seq (get_context e) (\<lambda>ctx.
     seq (new_local_span e ctx op) (\<lambda>sp.
     seq (modify (span_start e sp)) (\<lambda>_.
     seq (\<lambda>w. case seq (case snap of None \<Rightarrow> ret () | Some s \<Rightarrow> continued e ctx (Some s)) (\<lambda>_.
                   seq (modify (upd_span sp (\<lambda>s. s\<lparr>sp_layer := lay, sp_component := cmp\<rparr>))) (\<lambda>_.
                   tag_all sp ts)) w of
                (Inl err, w') \<Rightarrow> (Inr (Inl err), w')
              | (Inr _, w') \<Rightarrow> (case body w' of (how, w'') \<Rightarrow> (Inr (Inr how), w''))) (\<lambda>r.
     case r of
       Inl err \<Rightarrow> seq (span_exit e' (ExceptionExit []) sp) (\<lambda>_. raise_err err)
     | Inr how \<Rightarrow> seq (span_exit e' how sp) (\<lambda>_. ret how)))))"

text \<open>\<open>continue_tracing()\<close> on the parent thread, and the snapshot taken when \<open>@runnable\<close> is applied.\<close>

definition continue_tracing :: "trace_env \<Rightarrow> (snapshot option, ('l, 'm, 'n) world) op" where
  "continue_tracing e = seq (get_context e) (\<lambda>ctx. capture e ctx)"

end
