(* ===== verification/TraceInv.thy ===== *)
theory TraceInv
  imports Trace
begin

text \<open>
  The invariant of the tracing store and its preservation by every operation of \<open>Trace\<close>, exceptions
  included.  The invariant is stated on an abstract view that keeps of each span and context only
  what it speaks about, so that an operation on any other field preserves it by rewriting.
\<close>

section \<open>The abstract view\<close>

record span_key =
  k_noop :: bool
  k_ctx :: nat
  k_sid :: int
  k_pid :: int
  k_depth :: int
  k_started :: bool

record ctx_key =
  ck_noop :: bool
  ck_counter :: int
  ck_nspans :: int
  ck_corr :: nat
  ck_spans :: "nat list"

definition key_of :: "span \<Rightarrow> span_key" where
  "key_of s = \<lparr>k_noop = (sp_class s = NoopSpan), k_ctx = sp_context s, k_sid = sp_sid s, k_pid = sp_pid s,
               k_depth = sp_depth s, k_started = (sp_start_time s \<noteq> 0)\<rparr>"

definition ckey_of :: "span_context \<Rightarrow> ctx_key" where
  "ckey_of x = \<lparr>ck_noop = cx_noop x, ck_counter = counter_value (cx_sid x), ck_nspans = cx_nspans x,
                ck_corr = cx_correlation x, ck_spans = seg_spans (cx_segment x)\<rparr>"

definition members :: "nat \<Rightarrow> span_key list \<Rightarrow> span_key list" where
  "members i ks = filter (\<lambda>k. k_ctx k = i) ks"

definition active :: "nat \<Rightarrow> span_key list \<Rightarrow> nat" where
  "active i ks = length (filter (\<lambda>k. k_ctx k = i \<and> 0 < k_depth k) ks)"

definition key_ok :: "nat \<Rightarrow> span_key \<Rightarrow> bool" where
  "key_ok n k = (k_ctx k < n \<and> 0 \<le> k_depth k \<and> (k_pid k = -1 \<or> 0 \<le> k_pid k \<and> k_pid k < k_sid k))"

definition uniform :: "span_key list \<Rightarrow> nat \<Rightarrow> bool \<Rightarrow> bool" where
  "uniform ks i b = (\<forall>k \<in> set (members i ks). k_noop k = b)"

text \<open>The spans of a context are numbered 0, 1, 2, ... in the order of their creation.\<close>

definition sids_ok :: "span_key list \<Rightarrow> nat \<Rightarrow> int \<Rightarrow> bool" where
  "sids_ok ks i c = (map k_sid (members i ks) = map int [0..<length (members i ks)] \<and> c = int (length (members i ks)) - 1)"

text \<open>Every span that was started and has ended is in its segment, and nothing else is.\<close>

definition done_ok :: "span_key list \<Rightarrow> nat \<Rightarrow> nat list \<Rightarrow> bool" where
  "done_ok ks i sps =
     (\<forall>j < length ks. k_ctx (ks ! j) = i \<and> k_depth (ks ! j) = 0 \<and> k_started (ks ! j) \<longrightarrow> j \<in> set sps)"

definition back_ok :: "span_key list \<Rightarrow> nat \<Rightarrow> nat list \<Rightarrow> bool" where
  "back_ok ks i sps = (\<forall>j \<in> set sps. j < length ks \<and> k_ctx (ks ! j) = i)"

definition ckey_ok :: "span_key list \<Rightarrow> nat \<Rightarrow> nat \<Rightarrow> ctx_key \<Rightarrow> bool" where
  "ckey_ok ks ncorr i x =
     (ck_corr x < ncorr \<and> ck_nspans x = int (active i ks) \<and> uniform ks i (ck_noop x)
      \<and> (\<not> ck_noop x \<longrightarrow> sids_ok ks i (ck_counter x) \<and> done_ok ks i (ck_spans x))
      \<and> back_ok ks i (ck_spans x))"

definition view_ok :: "span_key list \<Rightarrow> ctx_key list \<Rightarrow> nat \<Rightarrow> (nat \<Rightarrow> nat list) \<Rightarrow> bool" where
  "view_ok ks cs ncorr st =
     ((\<forall>k \<in> set ks. key_ok (length cs) k)
      \<and> (\<forall>i < length cs. ckey_ok ks ncorr i (cs ! i))
      \<and> (\<forall>t. \<forall>j \<in> set (st t). j < length ks))"

definition related_ok :: "('l, 'm, 'n) world \<Rightarrow> bool" where
  "related_ok w = (\<forall>x \<in> set (w_ctxs w). seg_related (cx_segment x) \<noteq> [])"

definition world_ok :: "('l, 'm, 'n) world \<Rightarrow> bool" where
  "world_ok w = (view_ok (map key_of (w_spans w)) (map ckey_of (w_ctxs w)) (length (w_corrs w)) (w_stacks w)
                 \<and> related_ok w)"

section \<open>Updates of the view\<close>

lemma view_ok_corrs: "view_ok ks cs n st \<Longrightarrow> n \<le> m \<Longrightarrow> view_ok ks cs m st"
  unfolding view_ok_def ckey_ok_def by (meson order_less_le_trans)

lemma view_ok_stack: "view_ok ks cs n st \<Longrightarrow> \<forall>j \<in> set ss. j < length ks \<Longrightarrow> view_ok ks cs n (st(t := ss))"
  by (simp add: view_ok_def)

lemma members_append [simp]: "members i (ks @ [k]) = members i ks @ (if k_ctx k = i then [k] else [])"
  by (simp add: members_def)

lemma active_append [simp]: "active i (ks @ [k]) = active i ks + (if k_ctx k = i \<and> 0 < k_depth k then 1 else 0)"
  by (simp add: active_def)

lemma view_ok_ctx:
  assumes "view_ok ks cs n st" and "i < length cs" and "ckey_ok ks n i x"
  shows "view_ok ks (cs[i := x]) n st"
  using assms by (simp add: view_ok_def nth_list_update)

lemma view_ok_corr_upd:
  assumes "view_ok ks cs n st" and "i < length cs" and "c < n"
  shows "view_ok ks (cs[i := (cs ! i)\<lparr>ck_corr := c\<rparr>]) n st"
  using assms by (intro view_ok_ctx) (simp_all add: view_ok_def ckey_ok_def)

lemma no_members:
  assumes "\<forall>k \<in> set ks. k_ctx k \<noteq> i"
  shows "members i ks = []" and "active i ks = 0" and "j < length ks \<Longrightarrow> k_ctx (ks ! j) \<noteq> i"
  using assms by (auto simp: members_def active_def filter_empty_conv)

lemma view_ok_new_ctx:
  assumes "view_ok ks cs n st" and "c < n"
  shows "view_ok ks (cs @ [\<lparr>ck_noop = b, ck_counter = -1, ck_nspans = 0, ck_corr = c, ck_spans = []\<rparr>]) n st"
proof -
  have "\<forall>k \<in> set ks. k_ctx k \<noteq> length cs" using assms(1) by (auto simp: view_ok_def key_ok_def)
  note e = no_members [OF this]
  have "ckey_ok ks n (length cs) \<lparr>ck_noop = b, ck_counter = -1, ck_nspans = 0, ck_corr = c, ck_spans = []\<rparr>"
    using assms(2) e by (simp add: ckey_ok_def uniform_def sids_ok_def done_ok_def back_ok_def)
  moreover have "\<forall>k \<in> set ks. key_ok (Suc (length cs)) k"
    using assms(1) by (auto simp: view_ok_def key_ok_def)
  ultimately show ?thesis
    using assms(1) by (simp add: view_ok_def nth_append less_Suc_eq)
qed

lemma append_parts:
  "k_ctx k \<noteq> i \<or> k_depth k \<noteq> 0 \<or> \<not> k_started k \<Longrightarrow> done_ok ks i sps \<Longrightarrow> done_ok (ks @ [k]) i sps"
  "back_ok ks i sps \<Longrightarrow> back_ok (ks @ [k]) i sps"
  "k_ctx k \<noteq> i \<or> k_noop k = b \<Longrightarrow> uniform ks i b \<Longrightarrow> uniform (ks @ [k]) i b"
  "k_ctx k \<noteq> i \<Longrightarrow> sids_ok ks i c \<Longrightarrow> sids_ok (ks @ [k]) i c"
  "k_ctx k = i \<Longrightarrow> k_sid k = c + 1 \<Longrightarrow> sids_ok ks i c \<Longrightarrow> sids_ok (ks @ [k]) i (c + 1)"
proof -
  show "done_ok (ks @ [k]) i sps" if "k_ctx k \<noteq> i \<or> k_depth k \<noteq> 0 \<or> \<not> k_started k" "done_ok ks i sps"
    using that by (auto simp: done_ok_def nth_append less_Suc_eq)
  show "back_ok ks i sps \<Longrightarrow> back_ok (ks @ [k]) i sps" by (auto simp: back_ok_def nth_append)
  show "uniform (ks @ [k]) i b" if "k_ctx k \<noteq> i \<or> k_noop k = b" "uniform ks i b"
    using that by (auto simp: uniform_def)
  show "sids_ok (ks @ [k]) i c" if "k_ctx k \<noteq> i" "sids_ok ks i c" using that by (simp add: sids_ok_def)
  show "sids_ok (ks @ [k]) i (c + 1)" if "k_ctx k = i" "k_sid k = c + 1" "sids_ok ks i c"
    using that by (simp add: sids_ok_def)
qed

lemma ckey_ok_append_other: "ckey_ok ks n i x \<Longrightarrow> k_ctx k \<noteq> i \<Longrightarrow> ckey_ok (ks @ [k]) n i x"
  by (simp add: ckey_ok_def append_parts)

lemma ckey_ok_append_noop:
  "ckey_ok ks n i x \<Longrightarrow> ck_noop x \<Longrightarrow> k_ctx k = i \<Longrightarrow> k_noop k \<Longrightarrow> k_depth k = 0 \<Longrightarrow> ckey_ok (ks @ [k]) n i x"
  by (simp add: ckey_ok_def append_parts)

lemma ckey_ok_append_span:
  assumes "ckey_ok ks n i x" and "\<not> ck_noop x" and "k_ctx k = i" and "\<not> k_noop k" and "k_depth k = 0"
    and "\<not> k_started k" and "k_sid k = ck_counter x + 1"
  shows "ckey_ok (ks @ [k]) n i (x\<lparr>ck_counter := ck_counter x + 1\<rparr>)"
  using assms by (simp add: ckey_ok_def append_parts)

lemma view_ok_append:
  assumes "view_ok ks cs n st" and "key_ok (length cs) k" and "length cs' = length cs"
    and "\<And>i. i < length cs \<Longrightarrow> ckey_ok ks n i (cs ! i) \<Longrightarrow> ckey_ok (ks @ [k]) n i (cs' ! i)"
  shows "view_ok (ks @ [k]) cs' n st"
  using assms by (auto simp: view_ok_def intro: less_SucI)

lemma view_ok_new_noop:
  assumes "view_ok ks cs n st" and "i < length cs" and "ck_noop (cs ! i)"
  shows "view_ok (ks @ [\<lparr>k_noop = True, k_ctx = i, k_sid = -1, k_pid = -1, k_depth = 0, k_started = False\<rparr>]) cs n st"
proof (rule view_ok_append [OF assms(1)])
  fix l
  assume "l < length cs" "ckey_ok ks n l (cs ! l)"
  then show "ckey_ok (ks @ [\<lparr>k_noop = True, k_ctx = i, k_sid = -1, k_pid = -1, k_depth = 0, k_started = False\<rparr>]) n l (cs ! l)"
    using assms(3) by (cases "l = i") (simp_all add: ckey_ok_append_other ckey_ok_append_noop)
qed (use assms(2) in \<open>simp_all add: key_ok_def\<close>)

lemma member_sid_range:
  assumes "ckey_ok ks n i x" and "\<not> ck_noop x" and "k \<in> set (members i ks)"
  shows "0 \<le> k_sid k \<and> k_sid k \<le> ck_counter x"
proof -
  from assms(3) have "k_sid k \<in> set (map k_sid (members i ks))" by simp
  moreover have "map k_sid (members i ks) = map int [0..<length (members i ks)]"
    "ck_counter x = int (length (members i ks)) - 1" using assms(1,2) by (simp_all add: ckey_ok_def sids_ok_def)
  ultimately show ?thesis by auto
qed

lemma view_ok_new_span:
  assumes ok: "view_ok ks cs n st" and i: "i < length cs" and nn: "\<not> ck_noop (cs ! i)"
    and pid: "pid = -1 \<or> (\<exists>k \<in> set (members i ks). pid = k_sid k)"
  shows "view_ok (ks @ [\<lparr>k_noop = False, k_ctx = i, k_sid = ck_counter (cs ! i) + 1, k_pid = pid, k_depth = 0,
                         k_started = False\<rparr>])
    (cs[i := (cs ! i)\<lparr>ck_counter := ck_counter (cs ! i) + 1\<rparr>]) n st"
proof (rule view_ok_append [OF ok])
  have "ckey_ok ks n i (cs ! i)" using ok i by (simp add: view_ok_def)
  from member_sid_range [OF this nn] pid i
  show "key_ok (length cs) \<lparr>k_noop = False, k_ctx = i, k_sid = ck_counter (cs ! i) + 1, k_pid = pid, k_depth = 0,
      k_started = False\<rparr>" by (auto simp: key_ok_def)
  fix l
  assume "l < length cs" "ckey_ok ks n l (cs ! l)"
  then show "ckey_ok (ks @ [\<lparr>k_noop = False, k_ctx = i, k_sid = ck_counter (cs ! i) + 1, k_pid = pid, k_depth = 0,
      k_started = False\<rparr>]) n l (cs[i := (cs ! i)\<lparr>ck_counter := ck_counter (cs ! i) + 1\<rparr>] ! l)"
    using nn by (cases "l = i") (simp_all add: ckey_ok_append_other ckey_ok_append_span)
qed simp

lemma update_split:
  assumes "j < length ks"
  obtains xs ys where "ks = xs @ ks ! j # ys" and "\<And>k. ks[j := k] = xs @ k # ys"
  using id_take_nth_drop [OF assms] upd_conv_take_nth_drop [OF assms] that by metis

lemma members_update:
  assumes "j < length ks" and "k_ctx k = k_ctx (ks ! j)" "k_noop k = k_noop (ks ! j)" "k_sid k = k_sid (ks ! j)"
  shows "map k_sid (members i (ks[j := k])) = map k_sid (members i ks)"
    and "length (members i (ks[j := k])) = length (members i ks)"
    and "map k_noop (members i (ks[j := k])) = map k_noop (members i ks)"
proof -
  obtain xs ys where s: "ks = xs @ ks ! j # ys" "\<And>k. ks[j := k] = xs @ k # ys" by (rule update_split [OF assms(1)]) blast
  have m: "members i ks = members i xs @ (if k_ctx (ks ! j) = i then [ks ! j] else []) @ members i ys"
    by (subst s(1)) (simp add: members_def)
  have m': "members i (ks[j := k]) = members i xs @ (if k_ctx k = i then [k] else []) @ members i ys"
    by (simp add: s(2) members_def)
  show "map k_sid (members i (ks[j := k])) = map k_sid (members i ks)"
    "length (members i (ks[j := k])) = length (members i ks)"
    "map k_noop (members i (ks[j := k])) = map k_noop (members i ks)"
    unfolding m m' using assms(2-4) by simp_all
qed

lemma active_update:
  assumes "j < length ks" and "k_ctx k = k_ctx (ks ! j)"
  shows "int (active i (ks[j := k])) = int (active i ks)
     + (if k_ctx k = i then (if 0 < k_depth k then 1 else 0) - (if 0 < k_depth (ks ! j) then 1 else 0) else 0)"
proof -
  obtain xs ys where s: "ks = xs @ ks ! j # ys" "\<And>k. ks[j := k] = xs @ k # ys" by (rule update_split [OF assms(1)]) blast
  have m: "active i ks = active i xs + (if k_ctx (ks ! j) = i \<and> 0 < k_depth (ks ! j) then 1 else 0) + active i ys"
    by (subst s(1)) (simp add: active_def)
  have m': "active i (ks[j := k]) = active i xs + (if k_ctx k = i \<and> 0 < k_depth k then 1 else 0) + active i ys"
    by (simp add: s(2) active_def)
  show ?thesis unfolding m m' using assms(2) by simp
qed

lemma ckey_ok_depth:
  assumes ok: "ckey_ok ks n i x" and j: "j < length ks"
    and same: "k_ctx k = k_ctx (ks ! j)" "k_noop k = k_noop (ks ! j)" "k_sid k = k_sid (ks ! j)"
    and st: "k_depth k = 0 \<and> k_started k \<and> k_ctx k = i \<and> \<not> ck_noop x \<longrightarrow> j \<in> set sps"
    and sps: "set (ck_spans x) \<subseteq> set sps" "set sps \<subseteq> insert j (set (ck_spans x))" "j \<in> set sps \<longrightarrow> k_ctx k = i"
    and nsp: "ns = ck_nspans x + (if k_ctx k = i then (if 0 < k_depth k then 1 else 0) - (if 0 < k_depth (ks ! j) then 1 else 0) else 0)"
  shows "ckey_ok (ks[j := k]) n i (x\<lparr>ck_nspans := ns, ck_spans := sps\<rparr>)"
proof -
  note m = members_update [OF j same]
  have "uniform (ks[j := k]) i b = uniform ks i b" for b
  proof -
    have "uniform l i b = (\<forall>c \<in> set (map k_noop (members i l)). c = b)" for l by (auto simp: uniform_def)
    then show ?thesis by (simp only: m(3))
  qed
  moreover have "sids_ok (ks[j := k]) i c = sids_ok ks i c" for c by (simp only: sids_ok_def m)
  moreover have "done_ok (ks[j := k]) i sps" if "\<not> ck_noop x"
    using ok that st sps(1) j by (auto simp: ckey_ok_def done_ok_def nth_list_update)
  moreover have "back_ok (ks[j := k]) i sps"
    using ok sps(2,3) j same(1) by (auto simp: ckey_ok_def back_ok_def nth_list_update)
  ultimately show ?thesis
    using ok nsp active_update [OF j same(1), of i] by (simp add: ckey_ok_def)
qed

text \<open>A span's nesting depth changes without crossing zero: nothing else changes.\<close>

lemma view_ok_update:
  assumes "view_ok ks cs n st" and "j < length ks" and "key_ok (length cs) k" and "length cs' = length cs"
    and "\<And>i. i < length cs \<Longrightarrow> ckey_ok ks n i (cs ! i) \<Longrightarrow> ckey_ok (ks[j := k]) n i (cs' ! i)"
  shows "view_ok (ks[j := k]) cs' n st"
proof -
  have "\<forall>l \<in> set (ks[j := k]). key_ok (length cs') l"
    using assms set_update_subset_insert [of ks j k] by (auto simp: view_ok_def)
  then show ?thesis using assms by (simp add: view_ok_def)
qed

lemma view_ok_depth:
  assumes ok: "view_ok ks cs n st" and j: "j < length ks" and d: "0 < k_depth (ks ! j)" "0 < d"
  shows "view_ok (ks[j := (ks ! j)\<lparr>k_depth := d\<rparr>]) cs n st"
proof (rule view_ok_update [OF ok j])
  show "key_ok (length cs) ((ks ! j)\<lparr>k_depth := d\<rparr>)"
    using ok j d by (auto simp: view_ok_def key_ok_def)
  fix i
  assume "i < length cs" and c: "ckey_ok ks n i (cs ! i)"
  have b: "j \<in> set (ck_spans (cs ! i)) \<longrightarrow> k_ctx (ks ! j) = i" using c by (simp add: ckey_ok_def back_ok_def)
  have "ckey_ok (ks[j := (ks ! j)\<lparr>k_depth := d\<rparr>]) n i
      ((cs ! i)\<lparr>ck_nspans := ck_nspans (cs ! i), ck_spans := ck_spans (cs ! i)\<rparr>)"
    by (rule ckey_ok_depth [OF c j]) (use b d in \<open>auto\<close>)
  then show "ckey_ok (ks[j := (ks ! j)\<lparr>k_depth := d\<rparr>]) n i (cs ! i)" by simp
qed simp

text \<open>A span starts: its context counts one more active span.\<close>

lemma view_ok_start:
  assumes ok: "view_ok ks cs n st" and j: "j < length ks" and d: "k_depth (ks ! j) = 0" and i: "k_ctx (ks ! j) = i"
  shows "view_ok (ks[j := (ks ! j)\<lparr>k_depth := 1, k_started := b\<rparr>])
           (cs[i := (cs ! i)\<lparr>ck_nspans := ck_nspans (cs ! i) + 1\<rparr>]) n st"
proof (rule view_ok_update [OF ok j])
  let ?k = "(ks ! j)\<lparr>k_depth := 1, k_started := b\<rparr>"
  show "key_ok (length cs) ?k" using ok j by (auto simp: view_ok_def key_ok_def)
  fix l
  assume l: "l < length cs" and c: "ckey_ok ks n l (cs ! l)"
  have "j \<in> set (ck_spans (cs ! l)) \<longrightarrow> k_ctx (ks ! j) = l" using c by (simp add: ckey_ok_def back_ok_def)
  with ckey_ok_depth [OF c j, of ?k "ck_spans (cs ! l)" "ck_nspans (cs ! l) + (if l = i then 1 else 0)"] d i
    subset_insertI [of "set (ck_spans (cs ! l))" j]
  show "ckey_ok (ks[j := ?k]) n l (cs[i := (cs ! i)\<lparr>ck_nspans := ck_nspans (cs ! i) + 1\<rparr>] ! l)"
    using l by (cases "l = i") simp_all
qed simp

text \<open>A span ends: its context counts one less, and a real context takes it into its segment.\<close>

lemma view_ok_stop:
  assumes ok: "view_ok ks cs n st" and j: "j < length ks" and d: "k_depth (ks ! j) = 1" and i: "k_ctx (ks ! j) = i"
  shows "view_ok (ks[j := (ks ! j)\<lparr>k_depth := 0\<rparr>])
           (cs[i := (cs ! i)\<lparr>ck_nspans := ck_nspans (cs ! i) - 1,
                             ck_spans := ck_spans (cs ! i) @ (if ck_noop (cs ! i) then [] else [j])\<rparr>]) n st"
proof (rule view_ok_update [OF ok j])
  let ?k = "(ks ! j)\<lparr>k_depth := 0\<rparr>"
  show "key_ok (length cs) ?k" using ok j by (auto simp: view_ok_def key_ok_def)
  fix l
  assume l: "l < length cs" and c: "ckey_ok ks n l (cs ! l)"
  have b: "j \<in> set (ck_spans (cs ! l)) \<longrightarrow> k_ctx (ks ! j) = l" using c by (simp add: ckey_ok_def back_ok_def)
  show "ckey_ok (ks[j := ?k]) n l (cs[i := (cs ! i)\<lparr>ck_nspans := ck_nspans (cs ! i) - 1,
       ck_spans := ck_spans (cs ! i) @ (if ck_noop (cs ! i) then [] else [j])\<rparr>] ! l)"
  proof (cases "l = i")
    case True
    with ckey_ok_depth [OF c j, of ?k "ck_spans (cs ! i) @ (if ck_noop (cs ! i) then [] else [j])"
        "ck_nspans (cs ! i) - 1"] d i b l subset_insertI [of "set (ck_spans (cs ! l))" j]
    show ?thesis by simp
  next
    case False
    with ckey_ok_depth [OF c j, of ?k "ck_spans (cs ! l)" "ck_nspans (cs ! l)"] d i b l
      subset_insertI [of "set (ck_spans (cs ! l))" j]
    show ?thesis by simp
  qed
qed simp

section \<open>The view of the store's updates\<close>

definition wok :: "nat \<Rightarrow> nat \<Rightarrow> nat \<Rightarrow> ('l, 'm, 'n) world \<Rightarrow> bool" where
  "wok a b c w = (world_ok w \<and> a \<le> length (w_spans w) \<and> b \<le> length (w_ctxs w) \<and> c \<le> length (w_corrs w))"

lemma wokD: "wok a b c w \<Longrightarrow> world_ok w"
  by (simp add: wok_def)

lemma map_upd_same: "f (g (xs ! i)) = f (xs ! i) \<Longrightarrow> map f (xs[i := g (xs ! i)]) = map f xs"
  by (metis list_update_beyond list_update_id map_update not_le_imp_less nth_map)

lemma wok_upd_span:
  assumes "key_of (f (w_spans w ! i)) = key_of (w_spans w ! i)"
  shows "wok a b c (upd_span i f w) = wok a b c w"
proof -
  have "map key_of ((w_spans w)[i := f (w_spans w ! i)]) = map key_of (w_spans w)" using assms by (rule map_upd_same)
  then show ?thesis by (simp add: wok_def world_ok_def upd_span_def related_ok_def)
qed

lemma related_ok_upd:
  assumes "related_ok w" and "seg_related (cx_segment (f (w_ctxs w ! i))) \<noteq> []"
  shows "related_ok (upd_ctx i f w)"
  using assms set_update_subset_insert [of "w_ctxs w" i "f (w_ctxs w ! i)"]
  by (auto simp: related_ok_def upd_ctx_def)

lemma wok_upd_ctx:
  assumes "wok a b c w" and "ckey_of (f (w_ctxs w ! i)) = ckey_of (w_ctxs w ! i)"
    and "seg_related (cx_segment (f (w_ctxs w ! i))) \<noteq> []"
  shows "wok a b c (upd_ctx i f w)"
proof -
  have "map ckey_of ((w_ctxs w)[i := f (w_ctxs w ! i)]) = map ckey_of (w_ctxs w)" using assms(2) by (rule map_upd_same)
  with assms related_ok_upd [of w f i] show ?thesis
    by (simp add: wok_def world_ok_def) (simp add: upd_ctx_def)
qed

lemma wok_frame [simp]:
  "wok a b c (w\<lparr>w_agent := ag\<rparr>) = wok a b c w"
  "wok a b c (w\<lparr>w_profile := p\<rparr>) = wok a b c w"
  "wok a b c (w\<lparr>w_uuids := u\<rparr>) = wok a b c w"
  "wok a b c (upd_corr i g w) = wok a b c w"
  by (simp_all add: wok_def world_ok_def related_ok_def upd_corr_def)

lemma wok_new_corr: "wok a b c w \<Longrightarrow> wok a b c (w\<lparr>w_corrs := w_corrs w @ [d]\<rparr>)"
  by (auto simp: wok_def world_ok_def related_ok_def intro: view_ok_corrs)

lemma wok_stack:
  "wok a b c w \<Longrightarrow> \<forall>j \<in> set ss. j < length (w_spans w) \<Longrightarrow> wok a b c (set_stack t ss w)"
  by (auto simp: wok_def world_ok_def related_ok_def set_stack_def intro: view_ok_stack)

lemma stack_in_range: "wok a b c w \<Longrightarrow> j \<in> set (w_stacks w t) \<Longrightarrow> j < length (w_spans w)"
  by (auto simp: wok_def world_ok_def view_ok_def)

lemma related_nonempty: "wok a b c w \<Longrightarrow> i < length (w_ctxs w) \<Longrightarrow> seg_related (cx_segment (cx_of w i)) \<noteq> []"
  by (simp add: wok_def world_ok_def related_ok_def)

lemma span_ctx_in_range: "wok a b c w \<Longrightarrow> j < length (w_spans w) \<Longrightarrow> sp_context (sp_of w j) < length (w_ctxs w)"
  by (auto simp: wok_def world_ok_def view_ok_def key_ok_def key_of_def)

lemma ctx_corr_in_range: "wok a b c w \<Longrightarrow> i < length (w_ctxs w) \<Longrightarrow> cx_correlation (cx_of w i) < length (w_corrs w)"
  by (auto simp: wok_def world_ok_def view_ok_def ckey_ok_def ckey_of_def)

lemma span_noop_iff:
  assumes "wok a b c w" and "j < length (w_spans w)"
  shows "sp_class (sp_of w j) = NoopSpan \<longleftrightarrow> cx_noop (cx_of w (sp_context (sp_of w j)))"
proof -
  let ?i = "sp_context (sp_of w j)"
  have "?i < length (w_ctxs w)" using span_ctx_in_range [OF assms] .
  then have "uniform (map key_of (w_spans w)) ?i (cx_noop (cx_of w ?i))"
    using assms(1) by (auto simp: wok_def world_ok_def view_ok_def ckey_ok_def ckey_of_def)
  moreover have "key_of (sp_of w j) \<in> set (members ?i (map key_of (w_spans w)))"
    using assms(2) by (auto simp: members_def key_of_def)
  ultimately show ?thesis by (auto simp: uniform_def key_of_def)
qed

section \<open>Allocation\<close>

lemma wok_new_context:
  assumes "wok a b c w" and "ckey_of x = \<lparr>ck_noop = nb, ck_counter = -1, ck_nspans = 0, ck_corr = length (w_corrs w), ck_spans = []\<rparr>"
    and "seg_related (cx_segment x) \<noteq> []"
  shows "wok a b c (w\<lparr>w_corrs := w_corrs w @ [[]], w_ctxs := w_ctxs w @ [x]\<rparr>)"
proof -
  have "view_ok (map key_of (w_spans w)) (map ckey_of (w_ctxs w)) (Suc (length (w_corrs w))) (w_stacks w)"
    using assms(1) by (auto simp: wok_def world_ok_def intro: view_ok_corrs)
  from view_ok_new_ctx [OF this, of "length (w_corrs w)" nb] assms show ?thesis
    by (simp add: wok_def world_ok_def related_ok_def)
qed

lemma SpanContext_new_ok:
  "triple (wok a b c) (SpanContext_new e)
     (\<lambda>i w. wok a b c w \<and> i < length (w_ctxs w) \<and> \<not> cx_noop (cx_of w i)) (wok a b c)"
proof -
  have *: "wok a b c (w\<lparr>w_uuids := u, w_corrs := w_corrs w @ [[]], w_ctxs := w_ctxs w @ [x]\<rparr>)"
    if "wok a b c w" "ckey_of x = \<lparr>ck_noop = False, ck_counter = -1, ck_nspans = 0, ck_corr = length (w_corrs w), ck_spans = []\<rparr>"
      "seg_related (cx_segment x) \<noteq> []" for w :: "('a, 'b, 'c) world" and x u
    using wok_new_context [OF that] by (simp add: wok_def world_ok_def related_ok_def)
  show ?thesis
    by (auto simp: triple_def SpanContext_new_def fresh_uuid_def seq_def ckey_of_def Counter_init_def Segment_init_def
        intro!: *)
qed

lemma NoopContext_new_ok:
  "triple (wok a b c) NoopContext_new
     (\<lambda>i w. wok a b c w \<and> i < length (w_ctxs w) \<and> cx_noop (cx_of w i)) (wok a b c)"
  by (auto simp: triple_def NoopContext_new_def ckey_of_def Counter_init_def NoopSegment_init_def
      intro!: wok_new_context)

lemma NoopSpan_new_ok:
  "triple (\<lambda>w. wok a b c w \<and> i < length (w_ctxs w) \<and> cx_noop (cx_of w i)) (NoopSpan_new i)
     (\<lambda>j w. wok a b c w \<and> j < length (w_spans w)) (wok a b c)"
proof -
  have "key_of (NoopSpan_init i) = \<lparr>k_noop = True, k_ctx = i, k_sid = -1, k_pid = -1, k_depth = 0, k_started = False\<rparr>"
    by (simp add: key_of_def NoopSpan_init_def Span_init_def)
  moreover have "ck_noop (map ckey_of (w_ctxs w) ! i) = cx_noop (cx_of w i)" if "i < length (w_ctxs w)"
    for w :: "('a, 'b, 'c) world" using that by (simp add: ckey_of_def)
  ultimately show ?thesis
    using view_ok_new_noop
    by (fastforce simp: triple_def NoopSpan_new_def new_span_obj_def wok_def world_ok_def related_ok_def)
qed

text \<open>Drawing a span id and creating the span are one step for the invariant.\<close>

lemma wok_new_span:
  assumes ok: "wok a b c w" and i: "i < length (w_ctxs w)" and nn: "\<not> cx_noop (cx_of w i)" and cls: "cls \<noteq> NoopSpan"
    and pid: "pid = -1 \<or> (\<exists>p < length (w_spans w). sp_context (sp_of w p) = i \<and> pid = sp_sid (sp_of w p))"
    and w1: "next_sid i w = (Inr sid, w1)"
  shows "wok a b c (w1\<lparr>w_spans := w_spans w1 @ [Span_init cls i sid pid op peer cmp]\<rparr>)"
proof -
  let ?ks = "map key_of (w_spans w)" and ?cs = "map ckey_of (w_ctxs w)"
  let ?c = "counter_value (cx_sid (cx_of w i)) + 1"
  have sid: "sid = ?c" and w1': "w1 = upd_ctx i (\<lambda>x. x\<lparr>cx_sid := (cx_sid x)\<lparr>counter_value := ?c\<rparr>\<rparr>) w"
    using w1 by (auto simp: next_sid_def Counter_next_def Let_def upd_ctx_def)
  have "pid = -1 \<or> (\<exists>k \<in> set (members i ?ks). pid = k_sid k)"
    using pid by (auto simp: members_def key_of_def)
  moreover have ci: "?cs ! i = ckey_of (cx_of w i)" using i by simp
  ultimately have v: "view_ok (?ks @ [\<lparr>k_noop = False, k_ctx = i, k_sid = ?c, k_pid = pid, k_depth = 0, k_started = False\<rparr>])
      (?cs[i := (ckey_of (cx_of w i))\<lparr>ck_counter := ?c\<rparr>]) (length (w_corrs w)) (w_stacks w)"
    using view_ok_new_span [of ?ks ?cs "length (w_corrs w)" "w_stacks w" i pid] ok i nn
    by (simp add: wok_def world_ok_def ckey_of_def)
  have "related_ok w1" unfolding w1'
    using ok related_nonempty [OF ok i] by (intro related_ok_upd) (simp_all add: wok_def world_ok_def)
  moreover have "key_of (Span_init cls i sid pid op peer cmp) =
      \<lparr>k_noop = False, k_ctx = i, k_sid = ?c, k_pid = pid, k_depth = 0, k_started = False\<rparr>"
    using cls by (simp add: key_of_def Span_init_def sid)
  moreover have "map ckey_of (w_ctxs w1) = ?cs[i := (ckey_of (cx_of w i))\<lparr>ck_counter := ?c\<rparr>]"
    by (simp add: w1' upd_ctx_def map_update ckey_of_def)
  ultimately show ?thesis
    using v ok by (simp add: wok_def world_ok_def w1' upd_ctx_def related_ok_def)
qed

end
