(* ===== verification/TraceOps.thy ===== *)
theory TraceOps
  imports TraceInv
begin

text \<open>
  Every operation of the tracing context keeps the invariant of \<open>TraceInv\<close>, also when it raises, and
  returns addresses that exist.  One triple per operation, composed along the structure of the code.
\<close>

section \<open>Context fields\<close>

lemma make_id_ok: "triple (wok a b c) (make_id e raw) (\<lambda>_. wok a b c) (wok a b c)"
  by (auto simp: make_id_def triple_def fresh_uuid_def seq_def)

lemma relate_some:
  assumes "seg_related s \<noteq> []"
  shows "\<exists>rs. relate tid s = Inr (s\<lparr>seg_related := rs\<rparr>) \<and> rs \<noteq> []"
  using assms by (auto simp: relate_def split: list.splits trace_id.splits)

lemma relate_ctx_ok:
  assumes "i < b"
  shows "triple (wok a b c) (relate_ctx i tid) (\<lambda>_. wok a b c) (wok a b c)"
proof -
  have "wok a b c (snd (relate_ctx i tid w)) \<and> fst (relate_ctx i tid w) = Inr ()" if ok: "wok a b c w" for w :: "('a, 'b, 'c) world"
  proof -
    have "i < length (w_ctxs w)" using assms ok by (simp add: wok_def)
    from relate_some [OF related_nonempty [OF ok this]] obtain rs where
      r: "relate tid (cx_segment (cx_of w i)) = Inr ((cx_segment (cx_of w i))\<lparr>seg_related := rs\<rparr>)" "rs \<noteq> []" by blast
    then show ?thesis
      using ok by (auto simp: relate_ctx_def ckey_of_def intro!: wok_upd_ctx)
  qed
  then show ?thesis by (fastforce simp: triple_def split: prod.splits sum.splits)
qed

lemma wok_set_correlation:
  assumes ok: "wok a b c w" and "i < length (w_ctxs w)" and "d < length (w_corrs w)"
  shows "wok a b c (upd_ctx i (\<lambda>x. x\<lparr>cx_correlation := d\<rparr>) w)"
proof -
  have "view_ok (map key_of (w_spans w)) ((map ckey_of (w_ctxs w))[i := (map ckey_of (w_ctxs w) ! i)\<lparr>ck_corr := d\<rparr>])
      (length (w_corrs w)) (w_stacks w)"
    using assms by (intro view_ok_corr_upd) (simp_all add: wok_def world_ok_def)
  moreover have "related_ok (upd_ctx i (\<lambda>x. x\<lparr>cx_correlation := d\<rparr>) w)"
    using ok related_nonempty [OF ok assms(2)] by (intro related_ok_upd) (simp_all add: wok_def world_ok_def)
  moreover have "map ckey_of ((w_ctxs w)[i := (cx_of w i)\<lparr>cx_correlation := d\<rparr>]) =
      (map ckey_of (w_ctxs w))[i := (map ckey_of (w_ctxs w) ! i)\<lparr>ck_corr := d\<rparr>]"
    using assms(2) by (simp add: map_update ckey_of_def)
  ultimately show ?thesis
    using ok by (simp add: wok_def world_ok_def) (simp add: upd_ctx_def)
qed

lemma key_of_fields [simp]:
  "key_of (s\<lparr>sp_refs := r\<rparr>) = key_of s" "key_of (s\<lparr>sp_op := x\<rparr>) = key_of s"
  "key_of (s\<lparr>sp_peer := x\<rparr>) = key_of s" "key_of (s\<lparr>sp_component := cm\<rparr>) = key_of s"
  "key_of (s\<lparr>sp_inherit := cm\<rparr>) = key_of s" "key_of (s\<lparr>sp_layer := l\<rparr>) = key_of s"
  "key_of (s\<lparr>sp_tags := ts\<rparr>) = key_of s" "key_of (s\<lparr>sp_logs := ls\<rparr>) = key_of s"
  "key_of (s\<lparr>sp_end_time := t\<rparr>) = key_of s" "key_of (s\<lparr>sp_error_occurred := er\<rparr>) = key_of s"
  "key_of (s\<lparr>sp_max_depth := t\<rparr>) = key_of s"
  by (simp_all add: key_of_def)

lemma length_upd_span [simp]: "length (w_spans (upd_span i f w)) = length (w_spans w)"
  by (simp add: upd_span_def)

lemma wok_mono: "wok a' b' c' w \<Longrightarrow> a \<le> a' \<Longrightarrow> b \<le> b' \<Longrightarrow> c \<le> c' \<Longrightarrow> wok a b c w"
  by (simp add: wok_def)

lemma wok_ctx_bound:
  assumes "wok a b c w" and "j < a"
  shows "wok a (max b (Suc (sp_context (sp_of w j)))) c w"
proof -
  have "j < length (w_spans w)" using assms by (simp add: wok_def)
  from span_ctx_in_range [OF assms(1) this] assms show ?thesis by (simp add: wok_def)
qed

lemma next_sid_spans: "next_sid i w = (Inr sid, w1) \<Longrightarrow> w_spans w1 = w_spans w"
  by (auto simp: next_sid_def upd_ctx_def split: prod.splits)

lemma Span_extract_ok:
  assumes "j < a" and "\<forall>cr. carrier = Some cr \<longrightarrow> c_correlation cr < c"
  shows "triple (wok a b c) (Span_extract e j carrier) (\<lambda>_. wok a b c) (wok a b c)"
proof (cases carrier)
  case None
  then show ?thesis by (simp add: Span_extract_def triple_def)
next
  case (Some cr)
  have d: "c_correlation cr < c" using assms(2) Some by simp
  have 1: "triple (wok a b c) (gets (\<lambda>w. sp_context (sp_of w j))) (\<lambda>i. wok a (max b (Suc i)) c) (wok a b c)"
    using assms(1) by (intro triple_gets wok_ctx_bound)
  have 2: "triple (wok a (max b (Suc i)) c) (relate_ctx i tid) (\<lambda>_. wok a (max b (Suc i)) c) (wok a b c)" for i tid
    by (rule triple_weaken [OF relate_ctx_ok [of i "max b (Suc i)"]]) (auto intro: wok_mono)
  have 3: "triple (wok a (max b (Suc i)) c) (modify (upd_ctx i (\<lambda>x. x\<lparr>cx_correlation := c_correlation cr\<rparr>)))
      (\<lambda>_. wok a b c) (wok a b c)" for i
    using d by (intro triple_modify wok_mono [where b' = "max b (Suc i)", OF wok_set_correlation]) (auto simp: wok_def)
  show ?thesis
    unfolding Span_extract_def Some option.case
    by (intro triple_seq [OF make_id_ok] triple_seq [OF 1] triple_seq [OF 2] triple_seq [OF 3])
      (auto intro!: triple_seq [where R = "\<lambda>_. wok a b c"] triple_lift triple_ret triple_modify simp: wok_upd_span)
qed

lemma span_extract_ok:
  assumes "j < a" and "\<forall>cr. carrier = Some cr \<longrightarrow> c_correlation cr < c"
  shows "triple (wok a b c) (span_extract e j carrier) (\<lambda>_. wok a b c) (wok a b c)"
proof -
  have "triple (wok a b c) (\<lambda>w. if sp_class (sp_of w j) = NoopSpan then (Inr (), w) else Span_extract e j carrier w)
      (\<lambda>_. wok a b c) (wok a b c)"
    by (rule triple_case [where ?P1.0 = "wok a b c", OF _ _ _ Span_extract_ok [OF assms]]) (auto simp: triple_def)
  then show ?thesis by (simp add: span_extract_def [abs_def])
qed

text \<open>Building a carrier changes nothing and never fails on an existing span; it shares the dictionary.\<close>

lemma carrier_of_result:
  assumes "wok a b c w" and "j < length (w_spans w)"
  shows "\<exists>cr. carrier_of j w = (Inr cr, w) \<and> c_correlation cr = cx_correlation (cx_of w (sp_context (sp_of w j)))
     \<and> c_correlation cr < length (w_corrs w)"
proof -
  have i: "sp_context (sp_of w j) < length (w_ctxs w)" using span_ctx_in_range [OF assms] .
  obtain x xs where "seg_related (cx_segment (cx_of w (sp_context (sp_of w j)))) = x # xs"
    using related_nonempty [OF assms(1) i] by (cases "seg_related (cx_segment (cx_of w (sp_context (sp_of w j))))") auto
  then show ?thesis
    using ctx_corr_in_range [OF assms(1) i] by (simp add: carrier_of_def first_related_def seq_def Carrier_init_def)
qed

section \<open>Creating spans\<close>

lemma triple_new_span_obj:
  "(\<And>w. P w \<Longrightarrow> Q (length (w_spans w)) (w\<lparr>w_spans := w_spans w @ [s]\<rparr>)) \<Longrightarrow> triple P (new_span_obj s) Q E"
  by (simp add: triple_def new_span_obj_def)

definition parent_ok :: "nat \<Rightarrow> nat option \<Rightarrow> ('l, 'm, 'n) world \<Rightarrow> bool" where
  "parent_ok self parent w =
     (self < length (w_ctxs w) \<and> \<not> cx_noop (cx_of w self)
      \<and> (\<forall>p. parent = Some p \<longrightarrow> p < length (w_spans w) \<and> sp_context (sp_of w p) = self))"

lemma new_span_ok:
  assumes cls: "cls \<noteq> NoopSpan"
  shows "triple (\<lambda>w. wok a b c w \<and> parent_ok self parent w) (new_span e self parent cls op peer cmp :: (nat, ('l, 'm, 'n) world) op)
     (\<lambda>j w. wok a b c w \<and> j < length (w_spans w)) (wok a b c)"
proof -
  let ?I = "\<lambda>fin w. wok a b c w \<and> (fin \<longleftrightarrow> (\<exists>p. parent = Some p \<and> sp_depth (sp_of w p) = 0)) \<and> parent_ok self parent w"
  let ?J = "\<lambda>fin i w. wok a b c w \<and> i < length (w_ctxs w) \<and> \<not> cx_noop (cx_of w i)
      \<and> (\<forall>p. parent = Some p \<longrightarrow> p < length (w_spans w)) \<and> (\<not> fin \<longrightarrow> parent_ok self parent w \<and> i = self) \<and> (fin \<longrightarrow> parent \<noteq> None)"
  let ?K = "\<lambda>fin i sid w1. \<exists>w. ?J fin i w \<and> next_sid i w = (Inr sid, w1)"
  let ?pid = "\<lambda>fin w. case parent of Some p \<Rightarrow> if fin then -1 else sp_sid (sp_of w p) | None \<Rightarrow> -1"
  have 1: "triple (\<lambda>w. wok a b c w \<and> parent_ok self parent w)
      (gets (\<lambda>w. case parent of None \<Rightarrow> False | Some p \<Rightarrow> sp_depth (sp_of w p) = 0)) ?I (wok a b c)"
    by (rule triple_gets) (auto split: option.splits)
  have 2: "triple (?I fin) (if fin then SpanContext_new e else ret self) (?J fin) (wok a b c)" for fin
  proof (cases fin)
    case True
    have "triple (\<lambda>w. ?I True w \<and> (\<forall>p. parent = Some p \<longrightarrow> p < length (w_spans w))) (SpanContext_new e) (?J True) (wok a b c)"
      using SpanContext_new_ok [of a b c e]
      by (fastforce simp: triple_def SpanContext_new_def fresh_uuid_def seq_def)
    with True show ?thesis by (auto elim!: triple_weaken simp: parent_ok_def)
  next
    case False
    then show ?thesis by (auto simp: parent_ok_def intro!: triple_ret)
  qed
  have 3: "triple (?J fin i) (next_sid i) (?K fin i) (wok a b c)" for fin i
    by (auto simp: triple_def next_sid_def split: prod.splits)
  have 4: "triple (?K fin i sid) (gets (?pid fin) :: (int, ('l, 'm, 'n) world) op) (\<lambda>pid w1. \<exists>w. ?J fin i w \<and> next_sid i w = (Inr sid, w1) \<and> pid = ?pid fin w)
      (wok a b c)" for fin i sid
  proof (rule triple_gets)
    fix w1 :: "('l, 'm, 'n) world"
    assume "?K fin i sid w1"
    then obtain w where w: "?J fin i w" "next_sid i w = (Inr sid, w1)" by blast
    have "?pid fin w1 = ?pid fin w" by (cases parent) (simp_all add: next_sid_spans [OF w(2)])
    with w show "\<exists>w. ?J fin i w \<and> next_sid i w = (Inr sid, w1) \<and> ?pid fin w1 = ?pid fin w" by blast
  qed
  have 5: "triple (\<lambda>w1. \<exists>w. ?J fin i w \<and> next_sid i w = (Inr sid, w1) \<and> pid = ?pid fin w)
      (new_span_obj (Span_init cls i sid pid (Some op) peer cmp) :: (nat, ('l, 'm, 'n) world) op)
      (\<lambda>j w. wok (max a (Suc j)) b c w \<and> j < length (w_spans w)
         \<and> (fin \<longrightarrow> parent \<noteq> None \<and> the parent < length (w_spans w))) (wok a b c)" for fin i sid pid
  proof (rule triple_new_span_obj)
    fix w1 :: "('l, 'm, 'n) world"
    assume "\<exists>w. ?J fin i w \<and> next_sid i w = (Inr sid, w1) \<and> pid = ?pid fin w"
    then obtain w where J: "?J fin i w" and n: "next_sid i w = (Inr sid, w1)" and pid: "pid = ?pid fin w" by blast
    have "pid = -1 \<or> (\<exists>p < length (w_spans w). sp_context (sp_of w p) = i \<and> pid = sp_sid (sp_of w p))"
      using J pid by (cases parent; cases fin) (auto simp: parent_ok_def)
    with J n cls have "wok a b c (w1\<lparr>w_spans := w_spans w1 @ [Span_init cls i sid pid (Some op) peer cmp]\<rparr>)"
      by (intro wok_new_span [of a b c w]) auto
    then show "wok (max a (Suc (length (w_spans w1)))) b c (w1\<lparr>w_spans := w_spans w1 @ [Span_init cls i sid pid (Some op) peer cmp]\<rparr>)
        \<and> length (w_spans w1) < length (w_spans (w1\<lparr>w_spans := w_spans w1 @ [Span_init cls i sid pid (Some op) peer cmp]\<rparr>))
        \<and> (fin \<longrightarrow> parent \<noteq> None
           \<and> the parent < length (w_spans (w1\<lparr>w_spans := w_spans w1 @ [Span_init cls i sid pid (Some op) peer cmp]\<rparr>)))"
      using J next_sid_spans [OF n] by (auto simp: wok_def)
  qed
  have 6: "triple (\<lambda>w. wok (max a (Suc j)) b c w \<and> j < length (w_spans w)
         \<and> (fin \<longrightarrow> parent \<noteq> None \<and> the parent < length (w_spans w)))
      (if fin then seq (carrier_of (the parent)) (\<lambda>cr. Span_extract e j (Some cr)) else ret ())
      (\<lambda>_. wok (max a (Suc j)) b c) (wok a b c)" for fin j
  proof (cases fin)
    case True
    have "triple (\<lambda>w. wok (max a (Suc j)) b c w \<and> the parent < length (w_spans w)) (carrier_of (the parent))
        (\<lambda>cr. wok (max a (Suc j)) b (max c (Suc (c_correlation cr)))) (wok a b c)"
      using carrier_of_result by (fastforce simp: triple_def wok_def)
    moreover have "triple (wok (max a (Suc j)) b (max c (Suc (c_correlation cr)))) (Span_extract e j (Some cr))
        (\<lambda>_. wok (max a (Suc j)) b c) (wok a b c)" for cr
      by (rule triple_weaken [OF Span_extract_ok [of j "max a (Suc j)" _ "max c (Suc (c_correlation cr))"]])
        (auto simp: wok_def)
    ultimately have "triple (\<lambda>w. wok (max a (Suc j)) b c w \<and> the parent < length (w_spans w))
        (seq (carrier_of (the parent)) (\<lambda>cr. Span_extract e j (Some cr))) (\<lambda>_. wok (max a (Suc j)) b c) (wok a b c)"
      by (rule triple_seq)
    with True show ?thesis by (auto elim!: triple_weaken)
  next
    case False
    then show ?thesis by (auto intro!: triple_ret)
  qed
  show ?thesis
    unfolding new_span_def
    by (intro triple_seq [OF 1] triple_seq [OF 2] triple_seq [OF 3] triple_seq [OF 4] triple_seq [OF 5] triple_seq [OF 6])
      (auto intro!: triple_ret simp: wok_def)
qed

text \<open>The caller's context is the one of the innermost active span, as \<open>get_context\<close> returns it.\<close>

definition top_ok :: "trace_env \<Rightarrow> nat \<Rightarrow> ('l, 'm, 'n) world \<Rightarrow> bool" where
  "top_ok e self w =
     (self < length (w_ctxs w)
      \<and> (w_stacks w (te_tid e) \<noteq> [] \<longrightarrow> sp_context (sp_of w (last (w_stacks w (te_tid e)))) = self))"

lemma ignore_check_ok:
  "triple (\<lambda>w. wok a b c w \<and> R w) (ignore_check e op carrier)
     (\<lambda>r w. wok a b c w \<and> (case r of None \<Rightarrow> R w | Some j \<Rightarrow> j < length (w_spans w))) (wok a b c)"
proof -
  let ?decide = "\<lambda>w. if te_ignored e op then (Inr True, w)
              else case is_segment_queue_full (w_agent w) of
                     Inl err \<Rightarrow> (Inl err, w)
                   | Inr True \<Rightarrow> (Inr True, w)
                   | Inr False \<Rightarrow>
                       (case carrier of None \<Rightarrow> (Inr False, w) | Some c \<Rightarrow> (is_suppressed (te_unicode e) c, w))"
  have 1: "triple (\<lambda>w. wok a b c w \<and> R w) ?decide (\<lambda>_ w. wok a b c w \<and> R w) (wok a b c)"
    by (auto simp: triple_def split: sum.splits bool.splits option.splits)
  have 2: "triple (wok a b c) (seq NoopContext_new (\<lambda>ctx. seq (NoopSpan_new ctx) (\<lambda>sp. ret (Some sp))))
      (\<lambda>r w. wok a b c w \<and> (case r of None \<Rightarrow> R w | Some j \<Rightarrow> j < length (w_spans w))) (wok a b c)"
    by (intro triple_seq [OF NoopContext_new_ok] triple_seq [OF NoopSpan_new_ok] triple_ret) simp
  show ?thesis unfolding ignore_check_def
    by (rule triple_seq [OF 1]) (auto intro!: triple_ret triple_weaken [OF 2])
qed

lemma unless_ignored:
  assumes "triple (\<lambda>w. wok a b c w \<and> R w) g (\<lambda>j w. wok a b c w \<and> j < length (w_spans w)) (wok a b c)"
  shows "triple (\<lambda>w. wok a b c w \<and> R w)
     (seq (ignore_check e op carrier) (\<lambda>ign. case ign of Some sp \<Rightarrow> ret sp | None \<Rightarrow> g))
     (\<lambda>j w. wok a b c w \<and> j < length (w_spans w)) (wok a b c)"
proof (rule triple_seq [OF ignore_check_ok])
  fix ign
  show "triple (\<lambda>w. wok a b c w \<and> (case ign of None \<Rightarrow> R w | Some j \<Rightarrow> j < length (w_spans w)))
      (case ign of Some sp \<Rightarrow> ret sp | None \<Rightarrow> g) (\<lambda>j w. wok a b c w \<and> j < length (w_spans w)) (wok a b c)"
    using assms by (cases ign) (simp_all add: triple_ret)
qed

lemma peek_ok:
  "triple (\<lambda>w. wok a b c w \<and> top_ok e self w \<and> \<not> cx_noop (cx_of w self)) (peek e False)
     (\<lambda>parent w. wok a b c w \<and> parent_ok self parent w) (wok a b c)"
  by (auto simp: triple_def peek_def top_ok_def parent_ok_def Let_def intro: stack_in_range [OF _ last_in_set])

lemma add_profiling_ok:
  "triple (\<lambda>w. wok a b c w \<and> parent_ok self parent w) (add_profiling e self op)
     (\<lambda>_ w. wok a b c w \<and> parent_ok self parent w) (wok a b c)"
proof -
  have "wok a b c (upd_ctx self (\<lambda>x. x\<lparr>cx_profile_status := s\<rparr>) w) \<and> parent_ok self parent (upd_ctx self (\<lambda>x. x\<lparr>cx_profile_status := s\<rparr>) w)"
    if "wok a b c w" "parent_ok self parent w" for w :: "('a, 'b, 'c) world" and s
    using that related_nonempty [OF that(1), of self]
    by (auto simp: parent_ok_def ckey_of_def intro!: wok_upd_ctx) (auto simp: upd_ctx_def)
  moreover have "parent_ok self parent (w\<lparr>w_profile := p\<rparr>) = parent_ok self parent w" for w :: "('a, 'b, 'c) world" and p
    by (simp add: parent_ok_def)
  ultimately show ?thesis
    by (auto simp: triple_def add_profiling_def split: option.splits sum.splits prod.splits)
qed

lemma recheck_keeps:
  "triple (\<lambda>w. wok a b c w \<and> parent_ok self parent w) (ctx_profiling_recheck e self sp op)
     (\<lambda>_ w. wok a b c w \<and> parent_ok self parent w) (wok a b c)"
  by (auto simp: triple_def ctx_profiling_recheck_def parent_ok_def split: option.splits sum.splits)

lemma new_local_span_ok:
  "triple (\<lambda>w. wok a b c w \<and> top_ok e self w) (new_local_span e self op)
     (\<lambda>j w. wok a b c w \<and> j < length (w_spans w)) (wok a b c)"
proof -
  have "triple (\<lambda>w. wok a b c w \<and> top_ok e self w \<and> \<not> cx_noop (cx_of w self))
      (seq (ignore_check e op None) (\<lambda>ign.
         case ign of Some sp \<Rightarrow> ret sp
         | None \<Rightarrow> seq (peek e False) (\<lambda>parent. new_span e self parent PlainSpan op None None)))
      (\<lambda>j w. wok a b c w \<and> j < length (w_spans w)) (wok a b c)"
    by (intro unless_ignored triple_seq [OF peek_ok] new_span_ok) simp
  then show ?thesis unfolding new_local_span_def [abs_def]
    by (rule triple_case [OF _ _ NoopSpan_new_ok, rotated -1]) (auto simp: top_ok_def)
qed

lemma new_entry_span_ok:
  assumes "\<forall>cr. carrier = Some cr \<longrightarrow> c_correlation cr < c"
  shows "triple (\<lambda>w. wok a b c w \<and> top_ok e self w) (new_entry_span e self op carrier inherit)
     (\<lambda>j w. wok a b c w \<and> j < length (w_spans w)) (wok a b c)"
proof -
  let ?reuse = "\<lambda>parent w. case parent of None \<Rightarrow> False
      | Some p \<Rightarrow> is_entry (sp_kind (sp_of w p)) \<and> inherit = Some (sp_component (sp_of w p))"
  have reuse: "triple (\<lambda>w. (wok a b c w \<and> parent_ok self parent w) \<and> parent \<noteq> None)
      (seq (ctx_profiling_recheck e self (the parent) op) (\<lambda>_.
       seq (modify (upd_span (the parent) (\<lambda>s. s\<lparr>sp_op := Some op\<rparr>))) (\<lambda>_. ret (the parent))))
      (\<lambda>j w. wok a b c w \<and> j < length (w_spans w)) (wok a b c)" for parent
  proof (cases parent)
    case (Some p)
    show ?thesis unfolding Some option.sel
      by (intro triple_seq [OF triple_weaken [OF recheck_keeps [of a b c self "Some p"]]]
          triple_seq [where R = "\<lambda>_ w. wok a b c w \<and> p < length (w_spans w)"] triple_modify triple_ret)
        (auto simp: wok_upd_span parent_ok_def)
  qed (auto simp: triple_def)
  have fresh: "triple (\<lambda>w. wok a b c w \<and> parent_ok self parent w)
      (seq (new_span e self parent EntrySpan op None None) (\<lambda>sp.
         case carrier of None \<Rightarrow> ret sp
         | Some cr \<Rightarrow> seq (lift_res (is_valid (te_unicode e) cr)) (\<lambda>valid.
             if valid then seq (span_extract e sp (Some cr)) (\<lambda>_. ret sp) else ret sp)))
      (\<lambda>j w. wok a b c w \<and> j < length (w_spans w)) (wok a b c)" for parent
  proof (rule triple_seq [OF new_span_ok])
    fix sp
    have x: "triple (\<lambda>w. wok a b c w \<and> sp < length (w_spans w)) (span_extract e sp carrier)
        (\<lambda>_ w. wok a b c w \<and> sp < length (w_spans w)) (wok a b c)"
      by (rule triple_weaken [OF span_extract_ok [where a = "max a (Suc sp)", OF _ assms]]) (auto simp: wok_def)
    show "triple (\<lambda>w. wok a b c w \<and> sp < length (w_spans w))
      (case carrier of None \<Rightarrow> ret sp
         | Some cr \<Rightarrow> seq (lift_res (is_valid (te_unicode e) cr)) (\<lambda>valid.
             if valid then seq (span_extract e sp (Some cr)) (\<lambda>_. ret sp) else ret sp))
      (\<lambda>j w. wok a b c w \<and> j < length (w_spans w)) (wok a b c)"
    proof (cases carrier)
      case None
      then show ?thesis by (simp add: triple_ret)
    next
      case (Some cr)
      show ?thesis unfolding Some option.case
        by (rule triple_seq [where R = "\<lambda>_ w. wok a b c w \<and> sp < length (w_spans w)"])
          (auto intro!: triple_lift triple_ret triple_seq [OF x [unfolded Some]])
    qed
  qed simp
  have body: "triple (\<lambda>w. wok a b c w \<and> parent_ok self parent w)
      (seq (add_profiling e self op) (\<lambda>_. seq (gets (?reuse parent)) (\<lambda>r.
        if r then seq (ctx_profiling_recheck e self (the parent) op) (\<lambda>_.
                  seq (modify (upd_span (the parent) (\<lambda>s. s\<lparr>sp_op := Some op\<rparr>))) (\<lambda>_. ret (the parent)))
        else seq (new_span e self parent EntrySpan op None None) (\<lambda>sp.
               case carrier of None \<Rightarrow> ret sp
               | Some cr \<Rightarrow> seq (lift_res (is_valid (te_unicode e) cr)) (\<lambda>valid.
                   if valid then seq (span_extract e sp (Some cr)) (\<lambda>_. ret sp) else ret sp)))))
      (\<lambda>j w. wok a b c w \<and> j < length (w_spans w)) (wok a b c)" for parent
    by (rule triple_seq [OF add_profiling_ok],
        rule triple_seq [where R = "\<lambda>r w. (wok a b c w \<and> parent_ok self parent w) \<and> (r \<longrightarrow> parent \<noteq> None)"])
      (auto intro!: triple_gets triple_weaken [OF reuse] triple_weaken [OF fresh] split: option.splits)
  have "triple (\<lambda>w. wok a b c w \<and> top_ok e self w \<and> \<not> cx_noop (cx_of w self))
      (seq (ignore_check e op carrier) (\<lambda>ign. case ign of Some sp \<Rightarrow> ret sp
         | None \<Rightarrow> seq (peek e False) (\<lambda>parent.
             seq (add_profiling e self op) (\<lambda>_. seq (gets (?reuse parent)) (\<lambda>r.
             if r then seq (ctx_profiling_recheck e self (the parent) op) (\<lambda>_.
                       seq (modify (upd_span (the parent) (\<lambda>s. s\<lparr>sp_op := Some op\<rparr>))) (\<lambda>_. ret (the parent)))
             else seq (new_span e self parent EntrySpan op None None) (\<lambda>sp.
                    case carrier of None \<Rightarrow> ret sp
                    | Some cr \<Rightarrow> seq (lift_res (is_valid (te_unicode e) cr)) (\<lambda>valid.
                        if valid then seq (span_extract e sp (Some cr)) (\<lambda>_. ret sp) else ret sp)))))))
      (\<lambda>j w. wok a b c w \<and> j < length (w_spans w)) (wok a b c)"
    by (intro unless_ignored triple_seq [OF peek_ok] body)
  then show ?thesis unfolding new_entry_span_def [abs_def]
    by (rule triple_case [OF _ _ NoopSpan_new_ok, rotated -1]) (auto simp: top_ok_def)
qed

lemma new_exit_span_ok:
  "triple (\<lambda>w. wok a b c w \<and> top_ok e self w) (new_exit_span e self op peer cmp inherit)
     (\<lambda>j w. wok a b c w \<and> j < length (w_spans w)) (wok a b c)"
proof -
  let ?reuse = "\<lambda>parent w. case parent of None \<Rightarrow> False
      | Some p \<Rightarrow> is_exit (sp_kind (sp_of w p)) \<and> cmp = Some (sp_inherit (sp_of w p))"
  let ?pick = "\<lambda>parent r. if r then seq (modify (upd_span (the parent)
                  (\<lambda>s. s\<lparr>sp_op := Some op, sp_peer := Some peer, sp_component := the cmp\<rparr>))) (\<lambda>_. ret (the parent))
                else new_span e self parent ExitSpan op (Some peer) cmp"
  have pick: "triple (\<lambda>w. (wok a b c w \<and> parent_ok self parent w) \<and> (r \<longrightarrow> parent \<noteq> None)) (?pick parent r)
      (\<lambda>j w. wok a b c w \<and> j < length (w_spans w)) (wok a b c)" for parent r
  proof (cases r)
    case True
    then show ?thesis
      by (cases parent) (auto simp: triple_def wok_upd_span parent_ok_def)
  next
    case False
    then show ?thesis by (auto intro!: triple_weaken [OF new_span_ok])
  qed
  have fin: "triple (\<lambda>w. wok a b c w \<and> j < length (w_spans w))
      (seq (case inherit of None \<Rightarrow> ret () | Some i \<Rightarrow> modify (upd_span j (\<lambda>s. s\<lparr>sp_inherit := i\<rparr>))) (\<lambda>_. ret j))
      (\<lambda>j w. wok a b c w \<and> j < length (w_spans w)) (wok a b c)" for j
    by (cases inherit) (auto simp: triple_def wok_upd_span)
  have body: "triple (\<lambda>w. wok a b c w \<and> parent_ok self parent w)
      (seq (gets (?reuse parent)) (\<lambda>r. seq (?pick parent r) (\<lambda>j.
        seq (case inherit of None \<Rightarrow> ret () | Some i \<Rightarrow> modify (upd_span j (\<lambda>s. s\<lparr>sp_inherit := i\<rparr>))) (\<lambda>_. ret j))))
      (\<lambda>j w. wok a b c w \<and> j < length (w_spans w)) (wok a b c)" for parent
    by (rule triple_seq [where R = "\<lambda>r w. (wok a b c w \<and> parent_ok self parent w) \<and> (r \<longrightarrow> parent \<noteq> None)"],
        rule triple_gets, force split: option.splits, rule triple_seq [OF pick], rule fin)
  have "triple (\<lambda>w. wok a b c w \<and> top_ok e self w \<and> \<not> cx_noop (cx_of w self))
      (seq (ignore_check e op None) (\<lambda>ign. case ign of Some sp \<Rightarrow> ret sp
         | None \<Rightarrow> seq (peek e False) (\<lambda>parent. seq (gets (?reuse parent)) (\<lambda>r. seq (?pick parent r) (\<lambda>j.
             seq (case inherit of None \<Rightarrow> ret () | Some i \<Rightarrow> modify (upd_span j (\<lambda>s. s\<lparr>sp_inherit := i\<rparr>))) (\<lambda>_. ret j))))))
      (\<lambda>j w. wok a b c w \<and> j < length (w_spans w)) (wok a b c)"
    by (intro unless_ignored triple_seq [OF peek_ok] body)
  then show ?thesis unfolding new_exit_span_def [abs_def]
    by (rule triple_case [OF _ _ NoopSpan_new_ok, rotated -1]) (auto simp: top_ok_def)
qed

lemma get_context_ok:
  "triple (wok a b c) (get_context e :: (nat, ('l, 'm, 'n) world) op) (\<lambda>i w. wok a b c w \<and> top_ok e i w) (wok a b c)"
proof -
  have new: "triple (\<lambda>w. wok a b c w \<and> w_stacks w (te_tid e) = []) (SpanContext_new e :: (nat, ('l, 'm, 'n) world) op)
      (\<lambda>i w. wok a b c w \<and> top_ok e i w) (wok a b c)"
    using SpanContext_new_ok [of a b c e]
    by (fastforce simp: triple_def top_ok_def SpanContext_new_def fresh_uuid_def seq_def)
  have noop: "triple (\<lambda>w. wok a b c w \<and> w_stacks w (te_tid e) = []) (NoopContext_new :: (nat, ('l, 'm, 'n) world) op)
      (\<lambda>i w. wok a b c w \<and> top_ok e i w) (wok a b c)"
    using NoopContext_new_ok [of a b c] by (fastforce simp: triple_def top_ok_def NoopContext_new_def)
  have "case get_context e w of (Inr i, w') \<Rightarrow> wok a b c w' \<and> top_ok e i w' | (Inl err, w') \<Rightarrow> wok a b c w'"
    if ok: "wok a b c w" for w :: "('l, 'm, 'n) world"
  proof (cases "w_stacks w (te_tid e) = []")
    case True
    show ?thesis
    proof (cases "a_sampling (w_agent w)")
      case None
      with ok True new show ?thesis by (simp add: get_context_def triple_def)
    next
      case (Some s)
      obtain keep s' where t: "try_sampling (sample_n_per_3_secs (w_cfg w)) s = (keep, s')" by fastforce
      let ?w = "w\<lparr>w_agent := (w_agent w)\<lparr>a_sampling := Some s'\<rparr>\<rparr>"
      have "wok a b c ?w \<and> w_stacks ?w (te_tid e) = []" using ok True by simp
      moreover have "get_context e w = (if keep then SpanContext_new e ?w else NoopContext_new ?w)"
        using True Some t by (simp add: get_context_def Let_def)
      ultimately show ?thesis using new noop unfolding triple_def by presburger
    qed
  next
    case False
    then show ?thesis
      using ok span_ctx_in_range [OF ok stack_in_range [OF ok last_in_set]]
      by (simp add: get_context_def top_ok_def Let_def)
  qed
  then show ?thesis by (simp add: triple_def)
qed

section \<open>Starting and stopping\<close>

lemma map_key_upd: "map key_of (w_spans (upd_span j f w)) = (map key_of (w_spans w))[j := key_of (f (sp_of w j))]"
  by (simp add: upd_span_def map_update)

lemma map_ckey_upd: "map ckey_of (w_ctxs (upd_ctx i f w)) = (map ckey_of (w_ctxs w))[i := ckey_of (f (cx_of w i))]"
  by (simp add: upd_ctx_def map_update)

lemma upd_other [simp]:
  "w_ctxs (upd_span j f w) = w_ctxs w" "w_corrs (upd_span j f w) = w_corrs w" "w_stacks (upd_span j f w) = w_stacks w"
  "w_agent (upd_span j f w) = w_agent w" "w_profile (upd_span j f w) = w_profile w"
  "w_spans (upd_ctx i g w) = w_spans w" "w_corrs (upd_ctx i g w) = w_corrs w" "w_stacks (upd_ctx i g w) = w_stacks w"
  "w_agent (upd_ctx i g w) = w_agent w" "w_profile (upd_ctx i g w) = w_profile w"
  "length (w_ctxs (upd_ctx i g w)) = length (w_ctxs w)"
  "w_spans (set_stack t ss w) = w_spans w" "w_ctxs (set_stack t ss w) = w_ctxs w" "w_corrs (set_stack t ss w) = w_corrs w"
  "w_agent (set_stack t ss w) = w_agent w"
  by (simp_all add: upd_span_def upd_ctx_def set_stack_def)

lemma sp_of_upd [simp]: "j < length (w_spans w) \<Longrightarrow> sp_of (upd_span j f w) k = (if k = j then f (sp_of w j) else sp_of w k)"
  by (simp add: upd_span_def nth_list_update)

lemma cx_of_upd [simp]: "i < length (w_ctxs w) \<Longrightarrow> cx_of (upd_ctx i f w) k = (if k = i then f (cx_of w i) else cx_of w k)"
  by (simp add: upd_ctx_def nth_list_update)

text \<open>Starting an inactive span: one more active span in its context.\<close>

lemma wok_start_parts:
  assumes ok: "wok a b c w" and j: "j < length (w_spans w)" and d: "sp_depth (sp_of w j) = 0"
    and i: "sp_context (sp_of w j) = i"
    and f: "f (sp_of w j) = (sp_of w j)\<lparr>sp_depth := 1, sp_start_time := t\<rparr>"
  shows "wok a b c (upd_ctx i (\<lambda>x. x\<lparr>cx_nspans := cx_nspans x + 1\<rparr>) (upd_span j f w))"
proof -
  let ?ks = "map key_of (w_spans w)" and ?cs = "map ckey_of (w_ctxs w)"
  have il: "i < length (w_ctxs w)" using span_ctx_in_range [OF ok j] i by simp
  have "view_ok (?ks[j := (?ks ! j)\<lparr>k_depth := 1, k_started := (t \<noteq> 0)\<rparr>])
      (?cs[i := (?cs ! i)\<lparr>ck_nspans := ck_nspans (?cs ! i) + 1\<rparr>]) (length (w_corrs w)) (w_stacks w)"
    using ok j d i by (intro view_ok_start) (simp_all add: wok_def world_ok_def key_of_def)
  moreover have "key_of (f (sp_of w j)) = (?ks ! j)\<lparr>k_depth := 1, k_started := (t \<noteq> 0)\<rparr>"
    using j by (simp add: f key_of_def)
  moreover have "ckey_of ((cx_of w i)\<lparr>cx_nspans := cx_nspans (cx_of w i) + 1\<rparr>) = (?cs ! i)\<lparr>ck_nspans := ck_nspans (?cs ! i) + 1\<rparr>"
    using il by (simp add: ckey_of_def)
  moreover have "related_ok (upd_ctx i (\<lambda>x. x\<lparr>cx_nspans := cx_nspans x + 1\<rparr>) (upd_span j f w))"
    using ok related_nonempty [OF ok il] by (intro related_ok_upd) (simp_all add: wok_def world_ok_def related_ok_def)
  ultimately show ?thesis
    using ok by (simp add: wok_def world_ok_def map_key_upd map_ckey_upd)
qed

lemma upd_span_twice: "upd_span j f (upd_span j g w) = upd_span j (\<lambda>s. f (g s)) w"
  by (cases "j < length (w_spans w)") (simp_all add: upd_span_def list_update_beyond)

lemma wok_context_start_tail:
  assumes ok: "wok a b c w" and j: "j < length (w_spans w)" and i: "i < length (w_ctxs w)"
  shows "wok a b c (upd_ctx i (\<lambda>x. x\<lparr>cx_primary_endpoint := g x\<rparr>) (set_stack t (w_stacks w t @ [j]) w))"
proof -
  have "wok a b c (set_stack t (w_stacks w t @ [j]) w)"
    using ok j stack_in_range [OF ok] by (intro wok_stack) auto
  then show ?thesis
    using related_nonempty [OF ok i] by (intro wok_upd_ctx) (simp_all add: ckey_of_def)
qed

lemma Span_start_ok:
  assumes ok: "wok a b c w" and j: "j < length (w_spans w)"
  shows "wok a b c (Span_start e j w)"
proof (cases "sp_depth (sp_of w j) = 0")
  case True
  let ?i = "sp_context (sp_of w j)"
  let ?f = "\<lambda>s. s\<lparr>sp_depth := sp_depth s + 1, sp_start_time := te_now e\<rparr>"
  let ?w = "upd_ctx ?i (\<lambda>x. x\<lparr>cx_nspans := cx_nspans x + 1\<rparr>) (upd_span j ?f w)"
  have w: "wok a b c ?w" using True by (intro wok_start_parts [OF ok j True refl]) simp
  have "Span_start e j w = (if j \<in> set (w_stacks w (te_tid e)) then ?w
      else upd_ctx ?i (\<lambda>x. x\<lparr>cx_primary_endpoint := Some (case cx_primary_endpoint x of None \<Rightarrow> j
                               | Some p \<Rightarrow> set_primary_endpoint p j ?w)\<rparr>)
             (set_stack (te_tid e) (w_stacks ?w (te_tid e) @ [j]) ?w))"
    using True j by (simp add: Span_start_def context_start_def upd_span_twice Let_def)
  moreover have "wok a b c (upd_ctx ?i (\<lambda>x. x\<lparr>cx_primary_endpoint := Some (case cx_primary_endpoint x of None \<Rightarrow> j
                               | Some p \<Rightarrow> set_primary_endpoint p j ?w)\<rparr>)
             (set_stack (te_tid e) (w_stacks ?w (te_tid e) @ [j]) ?w))"
    using span_ctx_in_range [OF ok j] j by (intro wok_context_start_tail [OF w]) simp_all
  ultimately show ?thesis using w by simp
next
  case False
  let ?ks = "map key_of (w_spans w)"
  have pos: "0 < sp_depth (sp_of w j)"
    using ok j False by (auto simp: wok_def world_ok_def view_ok_def key_ok_def key_of_def all_set_conv_all_nth)
  have "view_ok (?ks[j := (?ks ! j)\<lparr>k_depth := sp_depth (sp_of w j) + 1\<rparr>]) (map ckey_of (w_ctxs w)) (length (w_corrs w)) (w_stacks w)"
    using ok j pos by (intro view_ok_depth) (simp_all add: wok_def world_ok_def key_of_def)
  moreover have "key_of ((sp_of w j)\<lparr>sp_depth := sp_depth (sp_of w j) + 1\<rparr>) = (?ks ! j)\<lparr>k_depth := sp_depth (sp_of w j) + 1\<rparr>"
    using j by (simp add: key_of_def)
  ultimately have "wok a b c (upd_span j (\<lambda>s. s\<lparr>sp_depth := sp_depth s + 1\<rparr>) w)"
    using ok by (simp add: wok_def world_ok_def map_key_upd related_ok_def)
  then show ?thesis using j False by (simp add: Span_start_def Let_def)
qed

lemma length_Span_start: "length (w_spans (Span_start e j w)) = length (w_spans w)"
  by (simp add: Span_start_def context_start_def Let_def)

lemma span_start_ok [inv_intros]:
  assumes "wok a b c w" and "j < length (w_spans w)"
  shows "wok a b c (span_start e j w)"
  using Span_start_ok [OF assms] by (simp add: span_start_def EntrySpan_start_def wok_upd_span)

text \<open>Stopping the last nesting level of a span.\<close>

lemma wok_stop_parts:
  assumes ok: "wok a b c w" and j: "j < length (w_spans w)" and d: "sp_depth (sp_of w j) = 1"
    and i: "sp_context (sp_of w j) = i" and f: "key_of (f (sp_of w j)) = key_of ((sp_of w j)\<lparr>sp_depth := 0\<rparr>)"
    and g: "g (cx_of w i) = (cx_of w i)\<lparr>cx_segment := (if cx_noop (cx_of w i) then cx_segment (cx_of w i) else segment_archive j (cx_segment (cx_of w i))),
        cx_nspans := cx_nspans (cx_of w i) - 1\<rparr>"
  shows "wok a b c (upd_ctx i g (upd_span j f w))"
proof -
  let ?ks = "map key_of (w_spans w)" and ?cs = "map ckey_of (w_ctxs w)"
  have il: "i < length (w_ctxs w)" using span_ctx_in_range [OF ok j] i by simp
  have "view_ok (?ks[j := (?ks ! j)\<lparr>k_depth := 0\<rparr>])
      (?cs[i := (?cs ! i)\<lparr>ck_nspans := ck_nspans (?cs ! i) - 1,
         ck_spans := ck_spans (?cs ! i) @ (if ck_noop (?cs ! i) then [] else [j])\<rparr>]) (length (w_corrs w)) (w_stacks w)"
    using ok j d i by (intro view_ok_stop) (simp_all add: wok_def world_ok_def key_of_def)
  moreover have "key_of (f (sp_of w j)) = (?ks ! j)\<lparr>k_depth := 0\<rparr>" using j by (simp add: f) (simp add: key_of_def)
  moreover have "ckey_of (g (cx_of w i)) = (?cs ! i)\<lparr>ck_nspans := ck_nspans (?cs ! i) - 1,
         ck_spans := ck_spans (?cs ! i) @ (if ck_noop (?cs ! i) then [] else [j])\<rparr>"
    using il by (simp add: g ckey_of_def segment_archive_def)
  moreover have "related_ok (upd_ctx i g (upd_span j f w))"
    using ok related_nonempty [OF ok il]
    by (intro related_ok_upd) (simp_all add: g wok_def world_ok_def related_ok_def segment_archive_def)
  ultimately show ?thesis
    using ok by (simp add: wok_def world_ok_def map_key_upd map_ckey_upd)
qed

lemma upd_ctx_twice: "upd_ctx i f (upd_ctx i g w) = upd_ctx i (\<lambda>x. f (g x)) w"
  by (cases "i < length (w_ctxs w)") (simp_all add: upd_ctx_def list_update_beyond)

lemma upd_ctx_set_stack: "upd_ctx i f (set_stack t ss w) = set_stack t ss (upd_ctx i f w)"
  by (simp add: upd_ctx_def set_stack_def)

text \<open>The store after a span's last level has ended, before the segment is handed over.\<close>

definition ended :: "trace_env \<Rightarrow> nat \<Rightarrow> ('l, 'm, 'n) world \<Rightarrow> ('l, 'm, 'n) world" where
  "ended e j w =
     set_stack (te_tid e) (remove1 j (w_stacks w (te_tid e)))
       (upd_ctx (sp_context (sp_of w j))
          (\<lambda>x. x\<lparr>cx_segment := (if cx_noop x then cx_segment x else segment_archive j (cx_segment x)),
        cx_nspans := cx_nspans x - 1\<rparr>)
          (upd_span j (\<lambda>s. if sp_class s = NoopSpan then s\<lparr>sp_depth := 0\<rparr> else s\<lparr>sp_depth := 0, sp_end_time := te_now e\<rparr>) w))"

lemma ended_ok:
  assumes ok: "wok a b c w" and j: "j < length (w_spans w)" and d: "sp_depth (sp_of w j) = 1"
  shows "wok a b c (ended e j w)"
proof -
  have "wok a b c (upd_ctx (sp_context (sp_of w j))
          (\<lambda>x. x\<lparr>cx_segment := (if cx_noop x then cx_segment x else segment_archive j (cx_segment x)),
        cx_nspans := cx_nspans x - 1\<rparr>)
          (upd_span j (\<lambda>s. if sp_class s = NoopSpan then s\<lparr>sp_depth := 0\<rparr> else s\<lparr>sp_depth := 0, sp_end_time := te_now e\<rparr>) w))"
    by (rule wok_stop_parts [OF ok j d refl]) (simp_all add: key_of_def)
  moreover have "\<forall>k \<in> set (remove1 j (w_stacks w (te_tid e))). k < length (w_spans w)"
    using stack_in_range [OF ok] by (auto dest: notin_set_remove1 [rotated])
  ultimately show ?thesis unfolding ended_def by (intro wok_stack) simp_all
qed

lemma span_stop_nested:
  assumes "j < length (w_spans w)" and "sp_depth (sp_of w j) \<noteq> 1"
  shows "span_stop e j w = (Inr False, upd_span j (\<lambda>s. s\<lparr>sp_depth := sp_depth s - 1\<rparr>) w)"
  using assms by (simp add: span_stop_def Let_def)

lemma span_stop_noop:
  assumes ok: "wok a b c w" and j: "j < length (w_spans w)" and d: "sp_depth (sp_of w j) = 1"
    and n: "cx_noop (cx_of w (sp_context (sp_of w j)))"
  shows "span_stop e j w = (Inr (cx_nspans (cx_of w (sp_context (sp_of w j))) = 1), ended e j w)"
proof -
  have c: "sp_class (sp_of w j) = NoopSpan" using span_noop_iff [OF ok j] n by simp
  have i: "sp_context (sp_of w j) < length (w_ctxs w)" using span_ctx_in_range [OF ok j] .
  have f: "upd_span j (\<lambda>s. if sp_class s = NoopSpan then s\<lparr>sp_depth := 0\<rparr> else s\<lparr>sp_depth := 0, sp_end_time := te_now e\<rparr>) w
      = upd_span j (\<lambda>s. s\<lparr>sp_depth := sp_depth s - 1\<rparr>) w" using c d by (simp add: upd_span_def)
  have g: "upd_ctx k (\<lambda>x. x\<lparr>cx_segment := (if cx_noop x then cx_segment x else segment_archive j (cx_segment x)),
        cx_nspans := cx_nspans x - 1\<rparr>) v
      = upd_ctx k (\<lambda>x. x\<lparr>cx_nspans := cx_nspans x - 1\<rparr>) v" if "cx_noop (cx_of v k)" for k and v :: "('a, 'b, 'c) world"
    using that by (simp add: upd_ctx_def)
  show ?thesis
    using j d n i by (simp add: span_stop_def NoopContext_stop_def ended_def f g upd_ctx_set_stack Let_def)
qed

lemma span_stop_real:
  assumes ok: "wok a b c w" and j: "j < length (w_spans w)" and d: "sp_depth (sp_of w j) = 1"
    and n: "\<not> cx_noop (cx_of w (sp_context (sp_of w j)))"
  shows "span_stop e j w =
    (if cx_nspans (cx_of w (sp_context (sp_of w j))) \<noteq> 1 then (Inr False, ended e j w)
     else seq (\<lambda>w. (is_segment_queue_full (w_agent w), w)) (\<lambda>full.
          seq (modify (upd_ctx (sp_context (sp_of w j)) (\<lambda>x. x\<lparr>cx_segment := (cx_segment x)\<lparr>seg_size_limited := full\<rparr>\<rparr>))) (\<lambda>_.
          seq (on_agent (archive_segment (te_clock e) (sp_context (sp_of w j)))) (\<lambda>_. ret True))) (ended e j w))"
proof -
  have c: "sp_class (sp_of w j) \<noteq> NoopSpan" using span_noop_iff [OF ok j] n by simp
  have i: "sp_context (sp_of w j) < length (w_ctxs w)" using span_ctx_in_range [OF ok j] .
  let ?i = "sp_context (sp_of w j)"
  let ?w1 = "upd_span j (\<lambda>s. s\<lparr>sp_depth := sp_depth s - 1\<rparr>) w"
  have "upd_span j (\<lambda>s. if sp_class s = NoopSpan then s\<lparr>sp_depth := 0\<rparr> else s\<lparr>sp_depth := 0, sp_end_time := te_now e\<rparr>) w
      = upd_span j (\<lambda>s. s\<lparr>sp_end_time := te_now e\<rparr>) ?w1" using c d j by (simp add: upd_span_def)
  moreover have "upd_ctx ?i (\<lambda>x. x\<lparr>cx_segment := (if cx_noop x then cx_segment x else segment_archive j (cx_segment x)),
        cx_nspans := cx_nspans x - 1\<rparr>) v
      = upd_ctx ?i (\<lambda>x. x\<lparr>cx_nspans := cx_nspans x - 1\<rparr>) (upd_ctx ?i (\<lambda>x. x\<lparr>cx_segment := segment_archive j (cx_segment x)\<rparr>) v)"
    if "w_ctxs v = w_ctxs w" for v :: "('a, 'b, 'c) world"
    using that n i by (simp add: upd_ctx_def)
  ultimately have e: "ended e j w = upd_ctx ?i (\<lambda>x. x\<lparr>cx_nspans := cx_nspans x - 1\<rparr>)
      (set_stack (te_tid e) (remove1 j (w_stacks w (te_tid e))) (span_finish e j ?i ?w1))"
    by (simp add: ended_def span_finish_def upd_ctx_set_stack)
  show ?thesis
    using j d n i unfolding e
    by (simp add: span_stop_def SpanContext_stop_def Let_def span_finish_def)
qed

lemma span_stop_ok [inv_intros]:
  assumes ok: "wok a b c w" and j: "j < length (w_spans w)" and d: "0 < sp_depth (sp_of w j)"
  shows "wok a b c (snd (span_stop e j w))"
proof (cases "sp_depth (sp_of w j) = 1")
  case True
  let ?i = "sp_context (sp_of w j)"
  have en: "wok a b c (ended e j w)" using ended_ok [OF ok j True] .
  have i: "?i < length (w_ctxs (ended e j w))" using span_ctx_in_range [OF ok j] by (simp add: ended_def)
  have sz: "wok a b c (upd_ctx ?i (\<lambda>x. x\<lparr>cx_segment := (cx_segment x)\<lparr>seg_size_limited := full\<rparr>\<rparr>) (ended e j w))" for full
    using related_nonempty [OF en i] by (intro wok_upd_ctx [OF en]) (simp_all add: ckey_of_def)
  show ?thesis
  proof (cases "cx_noop (cx_of w ?i)")
    case True
    then show ?thesis using span_stop_noop [OF ok j \<open>sp_depth (sp_of w j) = 1\<close>] en by simp
  next
    case False
    then show ?thesis
      using en sz by (simp add: span_stop_real [OF ok j \<open>sp_depth (sp_of w j) = 1\<close>] seq_def on_agent_def split: sum.split prod.split)
  qed
next
  case False
  let ?ks = "map key_of (w_spans w)"
  have "view_ok (?ks[j := (?ks ! j)\<lparr>k_depth := sp_depth (sp_of w j) - 1\<rparr>]) (map ckey_of (w_ctxs w)) (length (w_corrs w)) (w_stacks w)"
    using ok j d False by (intro view_ok_depth) (simp_all add: wok_def world_ok_def key_of_def)
  moreover have "key_of ((sp_of w j)\<lparr>sp_depth := sp_depth (sp_of w j) - 1\<rparr>) = (?ks ! j)\<lparr>k_depth := sp_depth (sp_of w j) - 1\<rparr>"
    using j by (simp add: key_of_def)
  ultimately have "wok a b c (upd_span j (\<lambda>s. s\<lparr>sp_depth := sp_depth s - 1\<rparr>) w)"
    using ok by (simp add: wok_def world_ok_def map_key_upd related_ok_def)
  then show ?thesis using span_stop_nested [OF j False] by simp
qed

section \<open>Propagation\<close>

lemma put_correlation_ok [inv_intros]: "wok a b c w \<Longrightarrow> wok a b c (put_correlation i k v w)"
  by (simp add: put_correlation_def Let_def split: option.split)

lemma capture_state: "snd (capture e i w) = w"
  by (simp add: capture_def Let_def split: list.split)

lemma is_from_current_ok: "triple (wok a b c) (is_from_current e s i) (\<lambda>_. wok a b c) (wok a b c)"
proof -
  have "snd (is_from_current e s i w) = w" for w :: "('a, 'b, 'c) world"
    using capture_state [of e i w] by (auto simp: is_from_current_def seq_def split: option.splits sum.splits prod.splits)
  then show ?thesis by (auto simp: triple_def split: sum.splits prod.splits) (metis snd_conv)+
qed

lemma continued_ok:
  assumes i: "i < b"
  shows "triple (wok a b c) (continued e i snap :: (unit, ('l, 'm, 'n) world) op) (\<lambda>_. wok a b c) (wok a b c)"
proof -
  have tail: "triple (\<lambda>w. wok a b c w) (seq (active_span e) (\<lambda>act.
          case act of None \<Rightarrow> raise_err AttributeError
          | Some sp \<Rightarrow>
              seq (modify (upd_span sp (\<lambda>x. x\<lparr>sp_refs := sp_refs x @ [ref]\<rparr>))) (\<lambda>_.
              seq (make_id e (sr_trace_id ref)) (\<lambda>tid.
              seq (relate_ctx i tid) (\<lambda>_.
              modify (\<lambda>w. upd_corr (cx_correlation (cx_of w i)) (\<lambda>d. dict_update d cs) w))))))
      (\<lambda>_. wok a b c) (wok a b c)" for ref cs
  proof (rule triple_seq [where R = "\<lambda>_. wok a b c"])
    show "triple (wok a b c) (active_span e) (\<lambda>_. wok a b c) (wok a b c)"
      by (simp add: triple_def active_span_def peek_def Let_def)
    fix act
    show "triple (wok a b c) (case act of None \<Rightarrow> raise_err AttributeError
          | Some sp \<Rightarrow>
              seq (modify (upd_span sp (\<lambda>x. x\<lparr>sp_refs := sp_refs x @ [ref]\<rparr>))) (\<lambda>_.
              seq (make_id e (sr_trace_id ref)) (\<lambda>tid.
              seq (relate_ctx i tid) (\<lambda>_.
              modify (\<lambda>w. upd_corr (cx_correlation (cx_of w i)) (\<lambda>d. dict_update d cs) w)))))
      (\<lambda>_. wok a b c) (wok a b c)"
      by (cases act)
        (auto intro!: triple_raise triple_seq [where R = "\<lambda>_. wok a b c"] triple_modify make_id_ok relate_ctx_ok [OF i]
          simp: wok_upd_span)
  qed
  have real: "triple (wok a b c) (seq (is_from_current e s i :: (bool, ('l, 'm, 'n) world) op) (\<lambda>cur.
         if cur \<or> \<not> snapshot_is_valid s then ret ()
         else seq (gets (\<lambda>w. build_ref (w_cfg w) s)) (\<lambda>ref. seq (active_span e) (\<lambda>act.
          case act of None \<Rightarrow> raise_err AttributeError
          | Some sp \<Rightarrow>
              seq (modify (upd_span sp (\<lambda>x. x\<lparr>sp_refs := sp_refs x @ [ref]\<rparr>))) (\<lambda>_.
              seq (make_id e (sr_trace_id ref)) (\<lambda>tid.
              seq (relate_ctx i tid) (\<lambda>_.
              modify (\<lambda>w. upd_corr (cx_correlation (cx_of w i)) (\<lambda>d. dict_update d (ss_correlation s)) w))))))))
      (\<lambda>_. wok a b c) (wok a b c)" for s
    by (rule triple_seq [OF is_from_current_ok])
      (auto intro!: triple_ret triple_seq [OF triple_gets [where Q = "\<lambda>_. wok a b c"]] tail)
  show ?thesis
    unfolding continued_def
    using real by (cases snap) (auto simp: triple_def)
qed

lemma span_inject_ok: "triple (wok a b c) (span_inject j) (\<lambda>_. wok a b c) (wok a b c)"
proof -
  have "snd (carrier_of j w) = w" for w :: "('a, 'b, 'c) world"
    by (simp add: carrier_of_def first_related_def seq_def split: list.split)
  then show ?thesis
    by (fastforce simp: triple_def span_inject_def wok_new_corr split: span_class.splits sum.splits prod.splits dest: arg_cong [where f = snd])
qed

end
