(* ===== verification/TraceProps.thy ===== *)
theory TraceProps
  imports TraceOps
begin

text \<open>
  The tracing context as a state machine - every operation the instrumentation performs, in any
  order, by any thread or task - and the properties of the traces it produces.
\<close>

section \<open>The machine\<close>

datatype trace_event =
    EvNewSpan | EvStartSpan nat | EvStopSpan nat | EvPropagate | EvCorrelation | EvSpanData | EvSpawn | EvAgent

definition empty_world :: "(nat, 'l, 'm, 'n) agent \<Rightarrow> profile_service option \<Rightarrow> ('l, 'm, 'n) world" where
  "empty_world a p = \<lparr>w_spans = [], w_ctxs = [], w_corrs = [], w_stacks = (\<lambda>_. []), w_uuids = 0, w_agent = a, w_profile = p\<rparr>"

text \<open>
  Spans are created on the context that \<open>get_context\<close> returns, as all the instrumentation does; a span
  is stopped only while it is active.  Everything else is unrestricted, exceptions included.
\<close>

inductive trace_step :: "('l, 'm, 'n) world \<Rightarrow> trace_event \<Rightarrow> ('l, 'm, 'n) world \<Rightarrow> bool" where
  tr_local: "get_context e w = (Inr i, w1) \<Longrightarrow> new_local_span e i op w1 = (r, w2) \<Longrightarrow> trace_step w EvNewSpan w2"
| tr_entry: "get_context e w = (Inr i, w1) \<Longrightarrow> (\<forall>cr. carrier = Some cr \<longrightarrow> c_correlation cr < length (w_corrs w))
    \<Longrightarrow> new_entry_span e i op carrier inherit w1 = (r, w2) \<Longrightarrow> trace_step w EvNewSpan w2"
| tr_exit: "get_context e w = (Inr i, w1) \<Longrightarrow> new_exit_span e i op peer cmp inherit w1 = (r, w2) \<Longrightarrow> trace_step w EvNewSpan w2"
| tr_start: "j < length (w_spans w) \<Longrightarrow> trace_step w (EvStartSpan j) (span_start e j w)"
| tr_stop: "j < length (w_spans w) \<Longrightarrow> 0 < sp_depth (sp_of w j) \<Longrightarrow> trace_step w (EvStopSpan j) (snd (span_stop e j w))"
| tr_extract: "j < length (w_spans w) \<Longrightarrow> (\<forall>cr. carrier = Some cr \<longrightarrow> c_correlation cr < length (w_corrs w))
    \<Longrightarrow> trace_step w EvPropagate (snd (span_extract e j carrier w))"
| tr_inject: "j < length (w_spans w) \<Longrightarrow> trace_step w EvPropagate (snd (span_inject j w))"
| tr_continued: "i < length (w_ctxs w) \<Longrightarrow> trace_step w EvPropagate (snd (continued e i snap w))"
| tr_put: "trace_step w EvCorrelation (put_correlation i key val w)"
| tr_carrier: "trace_step w EvCorrelation (w\<lparr>w_corrs := w_corrs w @ [d]\<rparr>)"
| tr_parse: "trace_step w EvCorrelation (upd_corr d f w)"
| tr_data: "(\<And>s. key_of (f s) = key_of s) \<Longrightarrow> trace_step w EvSpanData (upd_span j f w)"
| tr_task: "trace_step w EvSpawn (spawn_task t t' w)"
| tr_thread: "trace_step w EvSpawn (spawn_thread t w)"
| tr_agent: "trace_step w EvAgent (w\<lparr>w_agent := a\<rparr>)"
| tr_profile: "trace_step w EvAgent (w\<lparr>w_profile := p\<rparr>)"

lemma triple_snd: "triple P f (\<lambda>_. E) E \<Longrightarrow> P w \<Longrightarrow> E (snd (f w))"
  by (cases "f w"; cases "fst (f w)") (fastforce simp: triple_def)+

lemma triple_then:
  assumes "triple P f Q E" and "\<And>x. triple (Q x) (g x) R E" and "P w" and "f w = (Inr x, w1)" and "g x w1 = (r, w2)"
    and "\<And>y w. R y w \<Longrightarrow> E w"
  shows "E w2"
  using triple_apply [OF assms(1,3,4)] assms(2) [of x] assms(5,6) unfolding triple_def
  by (cases r) fastforce+

lemma trace_step_ok:
  assumes "trace_step w ev w'" and "wok 0 0 0 w"
  shows "wok 0 0 0 w'"
  using assms
proof (cases rule: trace_step.cases)
  case (tr_local e i w1 op r)
  then show ?thesis
    using triple_then [OF get_context_ok new_local_span_ok assms(2)] by (auto simp: wok_def)
next
  case (tr_entry e i w1 carrier op inherit r)
  have ok: "wok 0 0 (length (w_corrs w)) w" using assms(2) by (simp add: wok_def)
  have "wok 0 0 (length (w_corrs w)) w'"
    using triple_then [OF get_context_ok new_entry_span_ok [OF tr_entry(3)] ok tr_entry(2,4)] by auto
  then show ?thesis by (auto intro: wok_mono)
next
  case (tr_exit e i w1 op peer cmp inherit r)
  then show ?thesis
    using triple_then [OF get_context_ok new_exit_span_ok assms(2)] by (auto simp: wok_def)
next
  case (tr_start j e)
  then show ?thesis using span_start_ok [OF assms(2)] by simp
next
  case (tr_stop j e)
  then show ?thesis using span_stop_ok [OF assms(2)] by simp
next
  case (tr_extract j carrier e)
  have "wok (Suc j) 0 (length (w_corrs w)) w" using assms(2) tr_extract by (simp add: wok_def)
  from triple_snd [OF span_extract_ok [OF _ tr_extract(4)] this] tr_extract show ?thesis by (auto intro: wok_mono)
next
  case (tr_inject j)
  then show ?thesis using triple_snd [OF span_inject_ok assms(2)] by simp
next
  case (tr_continued i e snap)
  have "wok 0 (Suc i) 0 w" using assms(2) tr_continued by (simp add: wok_def)
  from triple_snd [OF continued_ok this] tr_continued show ?thesis by (auto intro: wok_mono)
next
  case (tr_data f j)
  then show ?thesis using assms(2) by (simp add: wok_upd_span)
next
  case (tr_task t t')
  then show ?thesis using wok_stack [OF assms(2)] stack_in_range [OF assms(2)] by (simp add: spawn_task_def)
next
  case (tr_thread t)
  then show ?thesis using wok_stack [OF assms(2)] by (simp add: spawn_thread_def)
qed (use assms(2) in \<open>simp_all add: put_correlation_ok wok_new_corr\<close>)

interpretation tracing: machine "\<lambda>w. \<exists>a p. w = empty_world a p" trace_step "wok 0 0 0"
proof unfold_locales
  show "\<And>s. \<exists>a p. s = empty_world a p \<Longrightarrow> wok 0 0 0 s"
    by (auto simp: empty_world_def wok_def world_ok_def view_ok_def related_ok_def)
  show "\<And>s e t. trace_step s e t \<Longrightarrow> wok 0 0 0 s \<Longrightarrow> wok 0 0 0 t"
    by (rule trace_step_ok)
qed

section \<open>Consequences of the invariant\<close>

definition spans_of :: "nat \<Rightarrow> ('l, 'm, 'n) world \<Rightarrow> span list" where
  "spans_of i w = filter (\<lambda>s. sp_context s = i) (w_spans w)"

lemma members_spans: "members i (map key_of (w_spans w)) = map key_of (spans_of i w)"
  by (simp add: members_def spans_of_def filter_map comp_def key_of_def)

lemma active_spans: "active i (map key_of (w_spans w)) = length (filter (\<lambda>s. 0 < sp_depth s) (spans_of i w))"
  by (simp add: active_def spans_of_def filter_map comp_def key_of_def conj_commute)

lemma ctx_facts:
  assumes ok: "wok a b c w" and i: "i < length (w_ctxs w)"
  shows "cx_nspans (cx_of w i) = int (length (filter (\<lambda>s. 0 < sp_depth s) (spans_of i w)))"
    and "\<not> cx_noop (cx_of w i) \<Longrightarrow> map sp_sid (spans_of i w) = map int [0..<length (spans_of i w)]"
    and "\<not> cx_noop (cx_of w i) \<Longrightarrow> j < length (w_spans w) \<Longrightarrow> sp_context (sp_of w j) = i \<Longrightarrow> sp_depth (sp_of w j) = 0
           \<Longrightarrow> sp_start_time (sp_of w j) \<noteq> 0 \<Longrightarrow> j \<in> set (seg_spans (cx_segment (cx_of w i)))"
    and "j \<in> set (seg_spans (cx_segment (cx_of w i))) \<Longrightarrow> j < length (w_spans w) \<and> sp_context (sp_of w j) = i"
proof -
  let ?ks = "map key_of (w_spans w)"
  have c: "ckey_ok ?ks (length (w_corrs w)) i (ckey_of (cx_of w i))"
    using ok i by (auto simp: wok_def world_ok_def view_ok_def)
  show "cx_nspans (cx_of w i) = int (length (filter (\<lambda>s. 0 < sp_depth s) (spans_of i w)))"
    using c by (simp add: ckey_ok_def active_spans) (simp add: ckey_of_def)
  show "map sp_sid (spans_of i w) = map int [0..<length (spans_of i w)]" if "\<not> cx_noop (cx_of w i)"
  proof -
    have "map k_sid (members i ?ks) = map int [0..<length (members i ?ks)]"
      using c that by (simp add: ckey_ok_def sids_ok_def ckey_of_def)
    then show ?thesis by (simp add: members_spans comp_def key_of_def)
  qed
  show "j \<in> set (seg_spans (cx_segment (cx_of w i)))"
    if "\<not> cx_noop (cx_of w i)" "j < length (w_spans w)" "sp_context (sp_of w j) = i" "sp_depth (sp_of w j) = 0"
      "sp_start_time (sp_of w j) \<noteq> 0"
    using c that by (simp add: ckey_ok_def done_ok_def ckey_of_def key_of_def)
  show "j < length (w_spans w) \<and> sp_context (sp_of w j) = i" if "j \<in> set (seg_spans (cx_segment (cx_of w i)))"
    using c that by (auto simp: ckey_ok_def back_ok_def ckey_of_def key_of_def)
qed

lemma span_parent:
  assumes ok: "wok a b c w" and j: "j < length (w_spans w)" and n: "\<not> cx_noop (cx_of w (sp_context (sp_of w j)))"
    and p: "sp_pid (sp_of w j) \<noteq> -1"
  shows "\<exists>s \<in> set (spans_of (sp_context (sp_of w j)) w). sp_sid s = sp_pid (sp_of w j) \<and> sp_sid s < sp_sid (sp_of w j)"
proof -
  let ?i = "sp_context (sp_of w j)" let ?l = "spans_of ?i w"
  have sids: "map sp_sid ?l = map int [0..<length ?l]"
    using ctx_facts(2) [OF ok span_ctx_in_range [OF ok j] n] .
  have pid: "0 \<le> sp_pid (sp_of w j)" "sp_pid (sp_of w j) < sp_sid (sp_of w j)"
    using ok j p by (auto simp: wok_def world_ok_def view_ok_def key_ok_def key_of_def all_set_conv_all_nth)
  have "sp_of w j \<in> set ?l" using j by (simp add: spans_of_def)
  then have "sp_sid (sp_of w j) \<in> set (map sp_sid ?l)" by simp
  with pid have "sp_pid (sp_of w j) \<in> set (map sp_sid ?l)" unfolding sids
    by (auto simp: image_iff) (metis atLeast0LessThan lessThan_iff nat_less_iff int_nat_eq order_less_trans)
  with pid show ?thesis by auto
qed

lemma agent_queue_total:
  assumes "agent_ok a"
  shows "\<exists>full. is_segment_queue_full a = Inr full" and "\<exists>b. archive_segment now x a = Inr b"
proof -
  have "a_reporting a \<Longrightarrow> \<exists>q. a_segment_queue a = Some q" using assms by (auto simp: agent_ok_def)
  then show "\<exists>full. is_segment_queue_full a = Inr full" and "\<exists>b. archive_segment now x a = Inr b"
    by (cases "a_reporting a"; auto simp: is_segment_queue_full_def archive_segment_def split: option.split)+
qed

section \<open>A small world\<close>

text \<open>A reporting agent without profiling, logs or meters, and one local span started on one thread.\<close>

definition demo_agent :: "config \<Rightarrow> (nat, 'l, 'm, 'n) agent" where
  "demo_agent c = (SkyWalkingAgent_init (c\<lparr>agent_log_reporter_active := False, agent_meter_reporter_active := False,
        agent_profile_active := False, agent_name := ''svc'', agent_instance_name := ''inst''\<rparr>))
     \<lparr>a_reporting := True, a_started := True, a_re := Some \<lparr>RE_IGNORE_PATH = [], RE_HTTP_IGNORE_METHOD = [], RE_GRPC_IGNORED_METHODS = []\<rparr>,
      a_started_pid := Some 1, a_finished := Some False, a_segment_queue := Some (Queue_init 10)\<rparr>"

definition demo_env :: trace_env where
  "demo_env = \<lparr>te_tid = 0, te_now = 5, te_clock = 5, te_uuid = (\<lambda>n. replicate (Suc n) (CHR ''u'')), te_ignored = (\<lambda>_. False),
     te_unicode = \<lparr>u_numeric = (\<lambda>_. False), u_int = (\<lambda>_. Inl TypeError)\<rparr>, te_import_time = 0\<rparr>"

definition demo_world :: "config \<Rightarrow> (unit, unit, unit) world" where
  "demo_world c = span_start demo_env 0 (snd (new_local_span demo_env 0 ''op''
     (snd (get_context demo_env (empty_world (demo_agent c) None)))))"

lemma demo_agent_ok: "agent_ok (demo_agent c)"
  by (simp add: demo_agent_def agent_ok_def SkyWalkingAgent_init_def)

lemma demo_agent_fields:
  "is_segment_queue_full (demo_agent c) = Inr False" "a_sampling (demo_agent c) = None"
  by (simp_all add: demo_agent_def is_segment_queue_full_def SkyWalkingAgent_init_def q_full_def Queue_init_def)

lemma demo_context:
  "get_context demo_env (empty_world (demo_agent c) None) =
    (Inr 0, \<lparr>w_spans = [], w_ctxs = [\<lparr>cx_noop = False, cx_segment = Segment_init ''u'' ''uu'' 5, cx_sid = Counter_init,
       cx_correlation = 0, cx_nspans = 0, cx_profile_status = None, cx_create_time = 5, cx_primary_endpoint = None\<rparr>],
     w_corrs = [[]], w_stacks = (\<lambda>_. []), w_uuids = 2, w_agent = demo_agent c, w_profile = None\<rparr>)"
  by (simp add: get_context_def empty_world_def demo_agent_fields SpanContext_new_def fresh_uuid_def seq_def demo_env_def)

lemma demo_span:
  "new_local_span demo_env 0 ''op'' (snd (get_context demo_env (empty_world (demo_agent c) None))) =
    (Inr 0, \<lparr>w_spans = [Span_init PlainSpan 0 0 (-1) (Some ''op'') None None],
     w_ctxs = [\<lparr>cx_noop = False, cx_segment = Segment_init ''u'' ''uu'' 5, cx_sid = \<lparr>counter_value = 0\<rparr>,
       cx_correlation = 0, cx_nspans = 0, cx_profile_status = None, cx_create_time = 5, cx_primary_endpoint = None\<rparr>],
     w_corrs = [[]], w_stacks = (\<lambda>_. []), w_uuids = 2, w_agent = demo_agent c, w_profile = None\<rparr>)"
  unfolding demo_context
  by (simp add: new_local_span_def ignore_check_def demo_agent_fields peek_def new_span_def next_sid_def new_span_obj_def
      seq_def demo_env_def Counter_next_def Counter_init_def upd_ctx_def)

lemma demo_world_eq:
  "demo_world c = \<lparr>w_spans = [(Span_init PlainSpan 0 0 (-1) (Some ''op'') None None)\<lparr>sp_depth := 1, sp_start_time := 5\<rparr>],
     w_ctxs = [\<lparr>cx_noop = False, cx_segment = Segment_init ''u'' ''uu'' 5, cx_sid = \<lparr>counter_value = 0\<rparr>,
       cx_correlation = 0, cx_nspans = 1, cx_profile_status = None, cx_create_time = 5, cx_primary_endpoint = Some 0\<rparr>],
     w_corrs = [[]], w_stacks = (\<lambda>_. [])(0 := [0]), w_uuids = 2, w_agent = demo_agent c, w_profile = None\<rparr>"
  unfolding demo_world_def demo_span
  by (simp add: span_start_def Span_start_def context_start_def Span_init_def upd_span_def upd_ctx_def set_stack_def
      demo_env_def Let_def)

lemma demo_reach: "tracing.reach (demo_world c)"
proof -
  have r: "tracing.reach (empty_world (demo_agent c) None :: (unit, unit, unit) world)"
    by (rule tracing.start) blast
  have g: "get_context demo_env (empty_world (demo_agent c) None :: (unit, unit, unit) world) =
      (Inr 0, snd (get_context demo_env (empty_world (demo_agent c) None)))" by (simp add: demo_context)
  from r have "tracing.reach (snd (new_local_span demo_env 0 ''op''
     (snd (get_context demo_env (empty_world (demo_agent c) None)))) :: (unit, unit, unit) world)"
    by (rule tracing.next_state) (rule tr_local [OF g prod.collapse [symmetric]])
  then show ?thesis unfolding demo_world_def
    by (rule tracing.next_state) (rule tr_start, simp add: demo_span)
qed

text \<open>Stopping the last nesting level of a span of a real context.\<close>

lemma stop_last_level:
  assumes "tracing.reach w" and "agent_ok (w_agent w)" and "j < length (w_spans w)"
    and "sp_depth (sp_of w j) = 1" and "i = sp_context (sp_of w j)" and "\<not> cx_noop (cx_of w i)"
  shows "\<exists>b w'. span_stop e j w = (Inr b, w')
     \<and> seg_spans (cx_segment (cx_of w' i)) = seg_spans (cx_segment (cx_of w i)) @ [j]
     \<and> w_stacks w' (te_tid e) = remove1 j (w_stacks w (te_tid e))
     \<and> (b \<longleftrightarrow> length (filter (\<lambda>s. 0 < sp_depth s) (spans_of i w)) = 1)
     \<and> (\<not> b \<longrightarrow> w_agent w' = w_agent w)
     \<and> (b \<longrightarrow> archive_segment (te_clock e) i (w_agent w) = Inr (w_agent w')
          \<and> (\<forall>k < length (w_spans w'). sp_context (sp_of w' k) = i \<and> sp_start_time (sp_of w' k) \<noteq> 0
               \<longrightarrow> k \<in> set (seg_spans (cx_segment (cx_of w' i)))))
     \<and> length (w_ctxs w') = length (w_ctxs w) \<and> \<not> cx_noop (cx_of w' i)"
proof -
  have ok: "wok 0 0 0 w" using tracing.reach_inv [OF assms(1)] .
  have i: "i < length (w_ctxs w)" using span_ctx_in_range [OF ok assms(3)] assms(5) by simp
  have n: "\<not> cx_noop (cx_of w (sp_context (sp_of w j)))" using assms(5,6) by simp
  let ?e = "ended e j w"
  have e: "wok 0 0 0 ?e" "w_agent ?e = w_agent w" "length (w_ctxs ?e) = length (w_ctxs w)"
    "seg_spans (cx_segment (cx_of ?e i)) = seg_spans (cx_segment (cx_of w i)) @ [j]"
    "w_stacks ?e (te_tid e) = remove1 j (w_stacks w (te_tid e))" "\<not> cx_noop (cx_of ?e i)"
    "cx_nspans (cx_of ?e i) = cx_nspans (cx_of w i) - 1"
    using ended_ok [OF ok assms(3,4)] i assms(5,6) by (simp_all add: ended_def segment_archive_def) (simp_all add: set_stack_def)
  have cnt: "cx_nspans (cx_of w i) = int (length (filter (\<lambda>s. 0 < sp_depth s) (spans_of i w)))"
    by (rule ctx_facts(1) [OF ok i])
  show ?thesis
  proof (cases "cx_nspans (cx_of w i) = 1")
    case False
    then have "span_stop e j w = (Inr False, ?e)" using span_stop_real [OF ok assms(3,4) n] assms(5) by simp
    with e cnt False show ?thesis by auto
  next
    case True
    obtain full where full: "is_segment_queue_full (w_agent w) = Inr full"
      using agent_queue_total [OF assms(2)] by blast
    obtain ag where ag: "archive_segment (te_clock e) i (w_agent w) = Inr ag"
      using agent_queue_total [OF assms(2)] by blast
    let ?s = "upd_ctx i (\<lambda>x. x\<lparr>cx_segment := (cx_segment x)\<lparr>seg_size_limited := full\<rparr>\<rparr>) ?e"
    have st: "span_stop e j w = (Inr True, ?s\<lparr>w_agent := ag\<rparr>)"
      using span_stop_real [OF ok assms(3,4) n] assms(5) True full ag e(2) by (simp add: seq_def on_agent_def)
    have "cx_nspans (cx_of ?e i) = 0" using e(7) True by simp
    moreover have "cx_nspans (cx_of ?e i) = int (length (filter (\<lambda>s. 0 < sp_depth s) (spans_of i ?e)))"
      using ctx_facts(1) [OF e(1)] i e(3) by simp
    ultimately have "filter (\<lambda>s. 0 < sp_depth s) (spans_of i ?e) = []" by simp
    then have inactive: "sp_depth (sp_of ?e k) \<le> 0" if "k < length (w_spans ?e)" "sp_context (sp_of ?e k) = i" for k
      using that by (auto simp: filter_empty_conv spans_of_def not_less)
    have "0 \<le> sp_depth (sp_of ?e k)" if "k < length (w_spans ?e)" for k
      using e(1) that by (auto simp: wok_def world_ok_def view_ok_def key_ok_def key_of_def all_set_conv_all_nth)
    with inactive have "\<forall>k < length (w_spans ?e). sp_context (sp_of ?e k) = i \<and> sp_start_time (sp_of ?e k) \<noteq> 0
        \<longrightarrow> k \<in> set (seg_spans (cx_segment (cx_of ?e i)))"
      using ctx_facts(3) [OF e(1), of i] i e(3,6) by (metis order_antisym)
    with st ag e i cnt True show ?thesis by auto
  qed
qed

section \<open>Properties\<close>

text \<open>C2. Segments are well-formed trees: whatever the instrumentation does, in any interleaving of
  threads and tasks and whatever exceptions occur, the spans of a context carry the ids 0, 1, 2, ...
  in creation order, every parent id other than -1 names an earlier span of the same context, the
  context's counter is the number of its active spans, and its segment contains only its own spans
  and every span that was started and has ended.\<close>

theorem segment_well_formed:
  assumes "tracing.reach w" and "i < length (w_ctxs w)" and "\<not> cx_noop (cx_of w i)"
  shows "map sp_sid (spans_of i w) = map int [0..<length (spans_of i w)]
     \<and> (\<forall>s \<in> set (spans_of i w). sp_pid s = -1 \<or>
          (\<exists>t \<in> set (spans_of i w). sp_sid t = sp_pid s \<and> sp_sid t < sp_sid s))
     \<and> cx_nspans (cx_of w i) = int (length (filter (\<lambda>s. 0 < sp_depth s) (spans_of i w)))
     \<and> (\<forall>j \<in> set (seg_spans (cx_segment (cx_of w i))). j < length (w_spans w) \<and> sp_context (sp_of w j) = i)
     \<and> (\<forall>j < length (w_spans w). sp_context (sp_of w j) = i \<and> sp_depth (sp_of w j) = 0 \<and> sp_start_time (sp_of w j) \<noteq> 0
          \<longrightarrow> j \<in> set (seg_spans (cx_segment (cx_of w i))))"
proof -
  have ok: "wok 0 0 0 w" using tracing.reach_inv [OF assms(1)] .
  have "sp_pid s = -1 \<or> (\<exists>t \<in> set (spans_of i w). sp_sid t = sp_pid s \<and> sp_sid t < sp_sid s)"
    if "s \<in> set (spans_of i w)" for s
    using that span_parent [OF ok] assms(3) by (auto simp: spans_of_def in_set_conv_nth)
  with ctx_facts [OF ok assms(2)] assms(3) show ?thesis by blast
qed

theorem segment_well_formed_witness:
  "\<forall>c. map sp_sid (spans_of 0 (demo_world c)) = [0] \<and> cx_nspans (cx_of (demo_world c) 0) = 1"
  using segment_well_formed [OF demo_reach, of 0] by (simp add: demo_world_eq spans_of_def Span_init_def)

text \<open>C3. A segment is handed over exactly when its last active span ends: stopping the last nesting
  level of a span of a real context never raises on a consistent agent; it puts the span in the
  segment and takes it off the stack, reports True exactly when no other span of the context is
  active, and then - and only then - archives the segment, which by then contains every span of
  the context that was ever started.\<close>

theorem last_span_archives_segment:
  assumes "tracing.reach w" and "agent_ok (w_agent w)" and "j < length (w_spans w)"
    and "sp_depth (sp_of w j) = 1" and "i = sp_context (sp_of w j)" and "\<not> cx_noop (cx_of w i)"
  shows "\<exists>b w'. span_stop e j w = (Inr b, w')
     \<and> seg_spans (cx_segment (cx_of w' i)) = seg_spans (cx_segment (cx_of w i)) @ [j]
     \<and> w_stacks w' (te_tid e) = remove1 j (w_stacks w (te_tid e))
     \<and> (b \<longleftrightarrow> length (filter (\<lambda>s. 0 < sp_depth s) (spans_of i w)) = 1)
     \<and> (\<not> b \<longrightarrow> w_agent w' = w_agent w)
     \<and> (b \<longrightarrow> archive_segment (te_clock e) i (w_agent w) = Inr (w_agent w')
          \<and> (\<forall>k < length (w_spans w'). sp_context (sp_of w' k) = i \<and> sp_start_time (sp_of w' k) \<noteq> 0
               \<longrightarrow> k \<in> set (seg_spans (cx_segment (cx_of w' i)))))"
  using stop_last_level [OF assms] by blast

theorem last_span_archives_segment_witness:
  "\<forall>c. \<exists>w'. span_stop demo_env 0 (demo_world c) = (Inr True, w') \<and> seg_spans (cx_segment (cx_of w' 0)) = [0]
     \<and> archive_segment 5 0 (demo_agent c) = Inr (w_agent w')"
proof
  fix c
  have "agent_ok (w_agent (demo_world c))" by (simp add: demo_world_eq demo_agent_ok)
  from last_span_archives_segment [OF demo_reach this, of 0 0 demo_env]
  show "\<exists>w'. span_stop demo_env 0 (demo_world c) = (Inr True, w') \<and> seg_spans (cx_segment (cx_of w' 0)) = [0]
     \<and> archive_segment 5 0 (demo_agent c) = Inr (w_agent w')"
    by (auto simp: demo_world_eq Span_init_def spans_of_def Segment_init_def demo_env_def)
qed

end
