(* ===== verification/Propagation.thy ===== *)
theory Propagation
  imports TraceProps
begin

text \<open>
  Propagation of a trace across processes and threads: what the receiving side records is what the
  sending side had, through the text of the headers or through a snapshot.
\<close>

section \<open>Span ids as text\<close>

lemma digit_byte: "is_digit c \<Longrightarrow> byte_of c < 128"
  by (simp add: is_digit_def)

lemma int_of_text_str_of_nat: "int_of_text U (str_of_nat n) = Inr (int n)"
proof -
  have "is_ascii (str_of_nat n)"
    using str_of_nat_digits [of n] by (auto simp: is_ascii_def list_all_iff dest: digit_byte)
  then show ?thesis by (simp add: int_of_text_def)
qed

lemma dash_not_in_digits: "CHR ''-'' \<notin> set (str_of_nat n)"
  using str_of_nat_digits [of n] is_digit_not_special by (auto simp: list_all_iff)

section \<open>The receiving side\<close>

text \<open>A carrier holds its dictionary by address in the store and by value on the wire.\<close>

definition recarry :: "'b \<Rightarrow> 'a carrier \<Rightarrow> 'b carrier" where
  "recarry d c = \<lparr>carrier_val = carrier_val c, c_trace_id = c_trace_id c, c_segment_id = c_segment_id c, c_span_id = c_span_id c,
     c_service = c_service c, c_service_instance = c_service_instance c, c_endpoint = c_endpoint c,
     c_client_address = c_client_address c, c_correlation = d\<rparr>"

lemma recarry_simps [simp]:
  "is_valid U (recarry d c) = is_valid U c" "c_correlation (recarry d c) = d" "c_trace_id (recarry d c) = c_trace_id c"
  "SegmentRef_init U (recarry d c) = SegmentRef_init U c" "carrier_text_ok (recarry d c) = carrier_text_ok c"
  "carrier_val (recarry d c) = carrier_val c" "recarry d' (recarry d c) = recarry d' c"
  by (simp_all add: recarry_def is_valid_def SegmentRef_init_def carrier_text_ok_def split: option.split)

text \<open>Nothing keeps the agent from tracing the operation, and no profiling is configured.\<close>

definition admits :: "trace_env \<Rightarrow> string \<Rightarrow> ('l, 'm, 'n) world \<Rightarrow> bool" where
  "admits e op w = (\<not> te_ignored e op \<and> is_segment_queue_full (w_agent w) = Inr False \<and> \<not> agent_profile_active (w_cfg w))"

lemma get_context_fresh:
  assumes "get_context e w = (Inr i, w1)" and "w_stacks w (te_tid e) = []" and "\<not> cx_noop (cx_of w1 i)"
  shows "i = length (w_ctxs w)" and "length (w_ctxs w1) = Suc i" and "w_spans w1 = w_spans w" and "w_stacks w1 = w_stacks w"
    and "w_corrs w1 = w_corrs w @ [[]]" and "admits e op w1 = admits e op w"
    and "cx_correlation (cx_of w1 i) = length (w_corrs w)"
    and "\<exists>u. seg_related (cx_segment (cx_of w1 i)) = [NewID u]"
  using assms
  by (auto simp: get_context_def SpanContext_new_def NoopContext_new_def fresh_uuid_def seq_def Let_def Segment_init_def
      admits_def is_segment_queue_full_def split: option.splits prod.splits if_splits)

lemma extract_fresh:
  assumes "c_trace_id c \<noteq> []" and "i < length (w_ctxs w)" and "seg_related (cx_segment (cx_of w i)) = [NewID u]"
    and "sp < length (w_spans w)" and "sp_context (sp_of w sp) = i" and "sp_refs (sp_of w sp) = []" and "sp_class (sp_of w sp) \<noteq> NoopSpan"
    and "is_valid (te_unicode e) c = Inr True" and "SegmentRef_init (te_unicode e) c = Inr ref"
  shows "\<exists>w'. span_extract e sp (Some c) w = (Inr (), w') \<and> sp_refs (sp_of w' sp) = [ref] \<and> sp_context (sp_of w' sp) = i
     \<and> sp_class (sp_of w' sp) = sp_class (sp_of w sp) \<and> w_corrs w' = w_corrs w \<and> w_stacks w' = w_stacks w
     \<and> cx_correlation (cx_of w' i) = c_correlation c \<and> seg_related (cx_segment (cx_of w' i)) = [GivenID (c_trace_id c)]"
  using assms
  by (simp add: span_extract_def Span_extract_def make_id_def ID_init_def seq_def relate_ctx_def relate_def upd_ctx_def upd_span_def)

lemma entry_span_fresh:
  assumes "i < length (w_ctxs w)" and "\<not> cx_noop (cx_of w i)" and "w_stacks w (te_tid e) = []" and "admits e op w"
    and "seg_related (cx_segment (cx_of w i)) = [NewID u]" and "c_trace_id c \<noteq> []"
    and "is_valid (te_unicode e) c = Inr True" and "SegmentRef_init (te_unicode e) c = Inr ref"
  shows "\<exists>w'. new_entry_span e i op (Some c) inherit w = (Inr (length (w_spans w)), w')
     \<and> sp_refs (sp_of w' (length (w_spans w))) = [ref] \<and> sp_context (sp_of w' (length (w_spans w))) = i
     \<and> sp_class (sp_of w' (length (w_spans w))) = EntrySpan \<and> w_corrs w' = w_corrs w
     \<and> cx_correlation (cx_of w' i) = c_correlation c \<and> seg_related (cx_segment (cx_of w' i)) = [GivenID (c_trace_id c)]"
proof -
  let ?j = "length (w_spans w)"
  obtain v cn where n: "Counter_next (cx_sid (cx_of w i)) = (v, cn)" by fastforce
  let ?w1 = "upd_ctx i (\<lambda>x. x\<lparr>cx_sid := cn\<rparr>) w"
  let ?w2 = "?w1\<lparr>w_spans := w_spans w @ [Span_init EntrySpan i v (-1) (Some op) None None]\<rparr>"
  have ns: "new_span e i None EntrySpan op None None w = (Inr ?j, ?w2)"
    using n by (simp add: new_span_def seq_def next_sid_def new_span_obj_def upd_ctx_def)
  have ig: "ignore_check e op (Some c) w = (Inr None, w)"
    using assms(4,7) by (simp add: ignore_check_def admits_def is_suppressed_def seq_def split: option.split)
  have pf: "add_profiling e i op w = (Inr (), w)" using assms(4) by (simp add: add_profiling_def admits_def)
  have pk: "peek e False w = (Inr None, w)" using assms(3) by (simp add: peek_def)
  have "new_entry_span e i op (Some c) inherit w = seq (span_extract e ?j (Some c)) (\<lambda>_. ret ?j) ?w2"
    using assms(2,7) ns ig pf pk by (simp add: new_entry_span_def seq_def)
  moreover have "\<exists>w'. span_extract e ?j (Some c) ?w2 = (Inr (), w') \<and> sp_refs (sp_of w' ?j) = [ref] \<and> sp_context (sp_of w' ?j) = i
     \<and> sp_class (sp_of w' ?j) = sp_class (sp_of ?w2 ?j) \<and> w_corrs w' = w_corrs ?w2 \<and> w_stacks w' = w_stacks ?w2
     \<and> cx_correlation (cx_of w' i) = c_correlation c \<and> seg_related (cx_segment (cx_of w' i)) = [GivenID (c_trace_id c)]"
    using assms by (intro extract_fresh [where u = u]) (simp_all add: upd_ctx_def Span_init_def)
  ultimately show ?thesis by (auto simp: seq_def upd_ctx_def Span_init_def)
qed

section \<open>The sending side\<close>

lemma sid_nonneg:
  assumes "wok a b c w" and "j < length (w_spans w)" and "\<not> cx_noop (cx_of w (sp_context (sp_of w j)))"
  shows "0 \<le> sp_sid (sp_of w j)"
proof -
  let ?i = "sp_context (sp_of w j)"
  have "sp_sid (sp_of w j) \<in> set (map sp_sid (spans_of ?i w))" using assms(2) by (simp add: spans_of_def)
  then show ?thesis unfolding ctx_facts(2) [OF assms(1) span_ctx_in_range [OF assms(1,2)] assms(3)] by auto
qed

lemma inject_result:
  assumes "wok a b c w" and "j < length (w_spans w)" and "sp_class (sp_of w j) = ExitSpan"
  shows "\<exists>tid rest. seg_related (cx_segment (cx_of w (sp_context (sp_of w j)))) = tid # rest
     \<and> span_inject j w = (Inr (Carrier_init (id_value tid) (id_value (seg_id (cx_segment (cx_of w (sp_context (sp_of w j))))))
            (str_of_int (sp_sid (sp_of w j))) (agent_name (w_cfg w)) (agent_instance_name (w_cfg w)) (sp_op (sp_of w j))
            (sp_peer (sp_of w j)) (cx_correlation (cx_of w (sp_context (sp_of w j))))), w)"
proof -
  let ?i = "sp_context (sp_of w j)"
  have i: "?i < length (w_ctxs w)" using span_ctx_in_range [OF assms(1,2)] .
  from related_nonempty [OF assms(1) i] obtain tid rest where "seg_related (cx_segment (cx_of w ?i)) = tid # rest"
    by (cases "seg_related (cx_segment (cx_of w ?i))") auto
  with assms(3) show ?thesis
    by (simp add: span_inject_def carrier_of_def seq_def first_related_def)
qed

lemma wire_transport:
  assumes "carrier_val c = None" and "carrier_text_ok c" and "corr_text_ok d" and "dict_ok d" and "0 \<le> mx"
    and "int (length d) \<le> mx + 1"
  shows "\<exists>h v. write_headers carrier_items (recarry d c) [] = Inr h
      \<and> read_headers mx carrier_items h (Carrier_empty []) = (None, (recarry d c)\<lparr>carrier_val := Some v\<rparr>)"
  using headers_transport [of "recarry d c" mx] assms by auto

lemma carrier_val_irrelevant [simp]:
  "is_valid U (c\<lparr>carrier_val := v\<rparr>) = is_valid U c" "SegmentRef_init U (c\<lparr>carrier_val := v\<rparr>) = SegmentRef_init U c"
  by (simp_all add: is_valid_def SegmentRef_init_def split: option.split)

section \<open>Properties\<close>

text \<open>C5. A trace crosses processes intact: when an exit span of any reachable client state is injected,
  its carrier written to the two headers and read back by a server, and the carrier is valid and
  within the correlation limits, then the entry span the server opens for a new request refers to
  exactly the client's segment, span, service, instance, endpoint and peer; the server's segment
  takes the client's trace id in place of its own; and its context continues with the client's
  correlation data.\<close>

theorem cross_process_propagation:
  assumes "tracing.reach w" and "j < length (w_spans w)" and "sp_class (sp_of w j) = ExitSpan"
    and "x = cx_of w (sp_context (sp_of w j))" and "\<not> cx_noop x"
    and "span_inject j w = (Inr c, w')" and "d = w_corrs w ! cx_correlation x"
    and "carrier_text_ok c" and "is_valid (te_unicode e) c = Inr True"
    and "corr_text_ok d" and "dict_ok d" and "0 \<le> mx" and "int (length d) \<le> mx + 1"
    and "w_stacks s (te_tid e) = []" and "admits e op s"
    and "get_context e (s\<lparr>w_corrs := w_corrs s @ [d]\<rparr>) = (Inr i, s1)" and "\<not> cx_noop (cx_of s1 i)"
  shows "\<exists>h r s2 tid rest. write_headers carrier_items (recarry d c) [] = Inr h
     \<and> read_headers mx carrier_items h (Carrier_empty []) = (None, r) \<and> c_correlation r = d
     \<and> new_entry_span e i op (Some (recarry (length (w_corrs s)) r)) inherit s1 = (Inr (length (w_spans s)), s2)
     \<and> seg_related (cx_segment x) = tid # rest
     \<and> sp_refs (sp_of s2 (length (w_spans s))) =
         [\<lparr>sr_ref_type = CrossProcess, sr_trace_id = id_value tid, sr_segment_id = id_value (seg_id (cx_segment x)),
           sr_span_id = sp_sid (sp_of w j), sr_service = agent_name (w_cfg w),
           sr_service_instance = agent_instance_name (w_cfg w), sr_endpoint = sp_op (sp_of w j),
           sr_client_address = sp_peer (sp_of w j)\<rparr>]
     \<and> seg_related (cx_segment (cx_of s2 i)) = [GivenID (id_value tid)]
     \<and> (\<forall>key. get_correlation i key s2 = dict_get d key)"
proof -
  have ok: "wok 0 0 0 w" using tracing.reach_inv [OF assms(1)] .
  have n: "\<not> cx_noop (cx_of w (sp_context (sp_of w j)))" using assms(4,5) by simp
  from inject_result [OF ok assms(2,3)] assms(4,6) obtain tid rest where
    rel: "seg_related (cx_segment x) = tid # rest"
    and c: "c = Carrier_init (id_value tid) (id_value (seg_id (cx_segment x))) (str_of_int (sp_sid (sp_of w j)))
       (agent_name (w_cfg w)) (agent_instance_name (w_cfg w)) (sp_op (sp_of w j)) (sp_peer (sp_of w j)) (cx_correlation x)"
    by auto
  have sid: "str_of_int (sp_sid (sp_of w j)) = str_of_nat (nat (sp_sid (sp_of w j)))" "0 \<le> sp_sid (sp_of w j)"
    using sid_nonneg [OF ok assms(2) n] by (simp_all add: str_of_int_def)
  have "carrier_val c = None" by (simp add: c Carrier_init_def)
  from wire_transport [OF this assms(8,10-13)] obtain h v where
    h: "write_headers carrier_items (recarry d c) [] = Inr h"
       "read_headers mx carrier_items h (Carrier_empty []) = (None, (recarry d c)\<lparr>carrier_val := Some v\<rparr>)" by blast
  let ?r = "(recarry d c)\<lparr>carrier_val := Some v\<rparr>"
  let ?ref = "\<lparr>sr_ref_type = CrossProcess, sr_trace_id = id_value tid, sr_segment_id = id_value (seg_id (cx_segment x)),
           sr_span_id = sp_sid (sp_of w j), sr_service = agent_name (w_cfg w),
           sr_service_instance = agent_instance_name (w_cfg w), sr_endpoint = sp_op (sp_of w j),
           sr_client_address = sp_peer (sp_of w j)\<rparr>"
  have ref: "SegmentRef_init (te_unicode e) c = Inr ?ref"
    using sid by (simp add: c SegmentRef_init_def Carrier_init_def int_of_text_str_of_nat)
  have nonempty: "c_trace_id c = id_value tid" "id_value tid \<noteq> []"
    using assms(9) by (auto simp: c Carrier_init_def is_valid_def)
  have "admits e op (s\<lparr>w_corrs := w_corrs s @ [d]\<rparr>)" using assms(15) by (simp add: admits_def)
  then have f: "i < length (w_ctxs s1)" "w_spans s1 = w_spans s" "w_stacks s1 (te_tid e) = []" "admits e op s1"
      "w_corrs s1 = w_corrs s @ [d] @ [[]]" "\<exists>u. seg_related (cx_segment (cx_of s1 i)) = [NewID u]"
    using get_context_fresh [OF assms(16) _ assms(17)] assms(14) by simp_all
  from f(6) obtain u where u: "seg_related (cx_segment (cx_of s1 i)) = [NewID u]" by blast
  obtain s2 where s2: "new_entry_span e i op (Some (recarry (length (w_corrs s)) ?r)) inherit s1 = (Inr (length (w_spans s)), s2)"
      "sp_refs (sp_of s2 (length (w_spans s))) = [?ref]" "w_corrs s2 = w_corrs s1"
      "cx_correlation (cx_of s2 i) = length (w_corrs s)" "seg_related (cx_segment (cx_of s2 i)) = [GivenID (id_value tid)]"
    using entry_span_fresh [OF f(1) assms(17) f(3,4) u, of "recarry (length (w_corrs s)) ?r" ?ref inherit]
      nonempty assms(9) ref f(2) by auto
  have "\<forall>key. get_correlation i key s2 = dict_get d key"
    using s2 f(5) by (simp add: get_correlation_def nth_append)
  with h s2 rel show ?thesis by auto
qed

text \<open>A client with one exit span, as \<open>new_exit_span\<close> creates it.\<close>

definition demo_client :: "config \<Rightarrow> (unit, unit, unit) world" where
  "demo_client c = snd (new_exit_span demo_env 0 ''/api'' ''h:80'' None None
     (snd (get_context demo_env (empty_world (demo_agent c) None))))"

lemma demo_client_eq:
  "demo_client c = \<lparr>w_spans = [Span_init ExitSpan 0 0 (-1) (Some ''/api'') (Some ''h:80'') None],
     w_ctxs = [\<lparr>cx_noop = False, cx_segment = Segment_init ''u'' ''uu'' 5, cx_sid = \<lparr>counter_value = 0\<rparr>,
       cx_correlation = 0, cx_nspans = 0, cx_profile_status = None, cx_create_time = 5, cx_primary_endpoint = None\<rparr>],
     w_corrs = [[]], w_stacks = (\<lambda>_. []), w_uuids = 2, w_agent = demo_agent c, w_profile = None\<rparr>"
  unfolding demo_client_def demo_context
  by (simp add: new_exit_span_def ignore_check_def demo_agent_fields peek_def new_span_def next_sid_def new_span_obj_def
      seq_def demo_env_def Counter_next_def Counter_init_def upd_ctx_def)

lemma demo_client_reach: "tracing.reach (demo_client c)"
proof -
  have r: "tracing.reach (empty_world (demo_agent c) None :: (unit, unit, unit) world)"
    by (rule tracing.start) blast
  have g: "get_context demo_env (empty_world (demo_agent c) None :: (unit, unit, unit) world) =
      (Inr 0, snd (get_context demo_env (empty_world (demo_agent c) None)))" by (simp add: demo_context)
  from r show ?thesis unfolding demo_client_def
    by (rule tracing.next_state) (rule tr_exit [OF g prod.collapse [symmetric]])
qed

lemma demo_inject:
  "span_inject 0 (demo_client c) =
     (Inr (Carrier_init ''uu'' ''u'' (str_of_int 0) ''svc'' ''inst'' (Some ''/api'') (Some ''h:80'') 0), demo_client c)"
  by (simp add: demo_client_eq span_inject_def carrier_of_def first_related_def seq_def Span_init_def Segment_init_def demo_agent_def
      SkyWalkingAgent_init_def)

theorem cross_process_propagation_witness:
  "\<forall>c. \<exists>h r s1 s2. write_headers carrier_items
        (Carrier_init ''uu'' ''u'' (str_of_int 0) ''svc'' ''inst'' (Some ''/api'') (Some ''h:80'') []) [] = Inr h
     \<and> read_headers 3 carrier_items h (Carrier_empty []) = (None, r)
     \<and> new_entry_span demo_env 0 ''/api'' (Some (recarry 0 r)) None (s1 :: (unit, unit, unit) world) = (Inr 0, s2)
     \<and> map sr_segment_id (sp_refs (sp_of s2 0)) = [''u''] \<and> map sr_span_id (sp_refs (sp_of s2 0)) = [0]
     \<and> (\<exists>tid. seg_related (cx_segment (cx_of s2 0)) = [GivenID tid])"
proof
  fix c
  let ?c = "Carrier_init ''uu'' ''u'' (str_of_int 0) ''svc'' ''inst'' (Some ''/api'') (Some ''h:80'') (0 :: nat)"
  let ?s = "empty_world (demo_agent c) None :: (unit, unit, unit) world"
  let ?s1 = "snd (get_context demo_env (?s\<lparr>w_corrs := w_corrs ?s @ [[]]\<rparr>))"
  have t: "carrier_text_ok ?c"
    using dash_not_in_digits [of 0] by (simp add: carrier_text_ok_def Carrier_init_def str_of_int_def valid_utf8_ascii is_ascii_def)
  have v: "is_valid (te_unicode demo_env) ?c = Inr True"
    by (simp add: is_valid_def Carrier_init_def str_of_int_def isnumeric_str_of_nat)
  have a: "admits demo_env ''/api'' ?s"
    by (simp add: admits_def empty_world_def demo_agent_fields) (simp add: demo_env_def demo_agent_def SkyWalkingAgent_init_def)
  have g: "get_context demo_env (?s\<lparr>w_corrs := w_corrs ?s @ [[]]\<rparr>) = (Inr 0, ?s1)" "\<not> cx_noop (cx_of ?s1 0)"
    by (simp_all add: get_context_def empty_world_def demo_agent_fields SpanContext_new_def fresh_uuid_def seq_def demo_env_def)
  have k: "0 < length (w_spans (demo_client c))" "sp_class (sp_of (demo_client c) 0) = ExitSpan"
      "cx_of (demo_client c) 0 = cx_of (demo_client c) (sp_context (sp_of (demo_client c) 0))"
      "\<not> cx_noop (cx_of (demo_client c) 0)" "[] = w_corrs (demo_client c) ! cx_correlation (cx_of (demo_client c) 0)"
      "w_stacks ?s (te_tid demo_env) = []"
    by (simp_all add: demo_client_eq Span_init_def empty_world_def)
  have d: "corr_text_ok []" "dict_ok ([] :: correlation)" by (simp_all add: corr_text_ok_def dict_ok_def)
  have m: "0 \<le> (3 :: int)" "int (length ([] :: correlation)) \<le> 3 + 1" by simp_all
  obtain h r s2 tid where X: "write_headers carrier_items (recarry [] ?c) [] = Inr h"
      "read_headers 3 carrier_items h (Carrier_empty []) = (None, r)"
      "new_entry_span demo_env 0 ''/api'' (Some (recarry (length (w_corrs ?s)) r)) None ?s1 = (Inr (length (w_spans ?s)), s2)"
      "sp_refs (sp_of s2 (length (w_spans ?s))) = [\<lparr>sr_ref_type = CrossProcess, sr_trace_id = id_value tid,
           sr_segment_id = id_value (seg_id (cx_segment (cx_of (demo_client c) 0))),
           sr_span_id = sp_sid (sp_of (demo_client c) 0), sr_service = agent_name (w_cfg (demo_client c)),
           sr_service_instance = agent_instance_name (w_cfg (demo_client c)), sr_endpoint = sp_op (sp_of (demo_client c) 0),
           sr_client_address = sp_peer (sp_of (demo_client c) 0)\<rparr>]"
      "seg_related (cx_segment (cx_of s2 0)) = [GivenID (id_value tid)]"
    using cross_process_propagation [OF demo_client_reach k(1-4) demo_inject k(5) t v d m k(6) a g, of None] by (elim exE conjE) (rule that, assumption+)
  have q: "recarry [] ?c = Carrier_init ''uu'' ''u'' (str_of_int 0) ''svc'' ''inst'' (Some ''/api'') (Some ''h:80'') []"
    by (simp add: recarry_def Carrier_init_def)
  have l: "length (w_corrs ?s) = 0" "length (w_spans ?s) = 0" "sp_sid (sp_of (demo_client c) 0) = 0"
      "id_value (seg_id (cx_segment (cx_of (demo_client c) 0))) = ''u''"
    by (simp_all add: empty_world_def demo_client_eq Span_init_def Segment_init_def)
  show "\<exists>h r s1 s2. write_headers carrier_items
        (Carrier_init ''uu'' ''u'' (str_of_int 0) ''svc'' ''inst'' (Some ''/api'') (Some ''h:80'') []) [] = Inr h
     \<and> read_headers 3 carrier_items h (Carrier_empty []) = (None, r)
     \<and> new_entry_span demo_env 0 ''/api'' (Some (recarry 0 r)) None (s1 :: (unit, unit, unit) world) = (Inr 0, s2)
     \<and> map sr_segment_id (sp_refs (sp_of s2 0)) = [''u''] \<and> map sr_span_id (sp_refs (sp_of s2 0)) = [0]
     \<and> (\<exists>tid. seg_related (cx_segment (cx_of s2 0)) = [GivenID tid])"
    using X unfolding q l by (intro exI [of _ h] exI [of _ r] exI [of _ ?s1] exI [of _ s2]) simp
qed

text \<open>C12. A trace crosses threads intact: a snapshot captured while a span is active on one thread of any
  reachable state and continued inside an active span of another segment on another thread or task
  gives that span a reference to exactly the captured segment and span, moves its segment to the
  captured trace id and merges the captured correlation data into its context; continuing the
  snapshot in its own segment changes nothing.\<close>

theorem cross_thread_propagation:
  assumes "tracing.reach w" and "i < length (w_ctxs w)" and "\<not> cx_noop (cx_of w i)"
    and "w_stacks w (te_tid e) = ps @ [p]" and "sp_context (sp_of w p) = i" and "p < length (w_spans w)"
    and "capture e i w = (Inr (Some snap), w')" and "id_value (hd (seg_related (cx_segment (cx_of w i)))) = tid" and "tid \<noteq> []"
    and "k < length (w_ctxs u)" and "\<not> cx_noop (cx_of u k)" and "w_stacks u (te_tid e') = qs @ [q]" and "q < length (w_spans u)"
    and "seg_related (cx_segment (cx_of u k)) = NewID v # rs"
  shows "\<exists>u'. continued e' k (Some snap) u = (Inr (), u')
     \<and> (if id_value (seg_id (cx_segment (cx_of u k))) = id_value (seg_id (cx_segment (cx_of w i))) then u' = u
        else sp_refs (sp_of u' q) = sp_refs (sp_of u q) @
              [\<lparr>sr_ref_type = CrossThread, sr_trace_id = tid, sr_segment_id = id_value (seg_id (cx_segment (cx_of w i))),
                sr_span_id = sp_sid (sp_of w p), sr_service = agent_name (w_cfg u),
                sr_service_instance = agent_instance_name (w_cfg u), sr_endpoint = sp_op (sp_of w (hd (ps @ [p]))),
                sr_client_address = Some []\<rparr>]
           \<and> seg_related (cx_segment (cx_of u' k)) = butlast (NewID v # rs) @ [GivenID tid]
           \<and> w_corrs u' = (w_corrs u)[cx_correlation (cx_of u k) :=
                dict_update (w_corrs u ! cx_correlation (cx_of u k)) (w_corrs w ! cx_correlation (cx_of w i))])"
proof -
  have ok: "wok 0 0 0 w" using tracing.reach_inv [OF assms(1)] .
  obtain t rest where t: "seg_related (cx_segment (cx_of w i)) = t # rest" "id_value t = tid"
    using related_nonempty [OF ok assms(2)] assms(8) by (cases "seg_related (cx_segment (cx_of w i))") auto
  have snap: "snap = \<lparr>ss_trace_id = Some t, ss_segment_id = Some (id_value (seg_id (cx_segment (cx_of w i)))),
      ss_span_id = sp_sid (sp_of w p), ss_endpoint = sp_op (sp_of w (hd (ps @ [p]))),
      ss_correlation = w_corrs w ! cx_correlation (cx_of w i)\<rparr>"
    using assms(3,4,7) t by (auto simp: capture_def Let_def)
  have "0 \<le> sp_sid (sp_of w p)" using sid_nonneg [OF ok assms(6)] assms(3,5) by simp
  then have valid: "snapshot_is_valid snap" by (simp add: snap snapshot_is_valid_def)
  have fc: "is_from_current e' snap k u =
      (Inr (id_value (seg_id (cx_segment (cx_of u k))) = id_value (seg_id (cx_segment (cx_of w i)))), u)"
    using assms(10-14) by (auto simp: snap is_from_current_def capture_def seq_def Let_def)
  have act: "active_span e' u = (Inr (Some q), u)" using assms(12) by (simp add: active_span_def peek_def Let_def)
  show ?thesis
  proof (cases "id_value (seg_id (cx_segment (cx_of u k))) = id_value (seg_id (cx_segment (cx_of w i)))")
    case True
    then show ?thesis using assms(11) fc by (simp add: continued_def seq_def)
  next
    case False
    then show ?thesis
      using assms(9,10,11,13,14) fc act valid t(2)
      by (simp add: continued_def seq_def snap build_ref_def make_id_def ID_init_def relate_ctx_def relate_def
          upd_ctx_def upd_span_def upd_corr_def str_of_opt_def)
  qed
qed

text \<open>A second thread that opens a segment of its own beside the span of \<open>demo_world\<close>.\<close>

definition demo_env1 :: trace_env where
  "demo_env1 = demo_env\<lparr>te_tid := 1\<rparr>"

definition demo_child :: "config \<Rightarrow> (unit, unit, unit) world" where
  "demo_child c = span_start demo_env1 1 (snd (new_local_span demo_env1 1 ''t'' (snd (get_context demo_env1 (demo_world c)))))"

lemma demo_child_facts:
  "w_stacks (demo_child c) 1 = [1]" "length (w_ctxs (demo_child c)) = 2" "length (w_spans (demo_child c)) = 2"
  "sp_refs (sp_of (demo_child c) 1) = []"
  "cx_segment (cx_of (demo_child c) 1) = Segment_init (replicate 3 (CHR ''u'')) (replicate 4 (CHR ''u'')) 5"
  "\<not> cx_noop (cx_of (demo_child c) 1)"
  by (simp_all add: demo_child_def demo_world_eq get_context_def demo_agent_fields SpanContext_new_def fresh_uuid_def seq_def
      demo_env1_def demo_env_def new_local_span_def ignore_check_def peek_def new_span_def next_sid_def new_span_obj_def
      Counter_next_def Counter_init_def upd_ctx_def span_start_def Span_start_def context_start_def upd_span_def set_stack_def
      Span_init_def Let_def numeral_eq_Suc)

theorem cross_thread_propagation_witness:
  "\<forall>c. \<exists>snap u'. fst (capture demo_env 0 (demo_world c)) = Inr (Some snap)
     \<and> continued demo_env1 1 (Some snap) (demo_child c) = (Inr (), u')
     \<and> map sr_segment_id (sp_refs (sp_of u' 1)) = [''u''] \<and> map sr_span_id (sp_refs (sp_of u' 1)) = [0]
     \<and> seg_related (cx_segment (cx_of u' 1)) = [GivenID ''uu'']"
proof
  fix c
  obtain snap where cap: "capture demo_env 0 (demo_world c) = (Inr (Some snap), demo_world c)"
    by (auto simp: capture_def demo_world_eq Segment_init_def demo_env_def)
  have k: "0 < length (w_ctxs (demo_world c))" "\<not> cx_noop (cx_of (demo_world c) 0)"
      "w_stacks (demo_world c) (te_tid demo_env) = [] @ [0]" "sp_context (sp_of (demo_world c) 0) = 0" "0 < length (w_spans (demo_world c))"
    by (simp_all add: demo_world_eq Span_init_def demo_env_def)
  have t: "id_value (hd (seg_related (cx_segment (cx_of (demo_world c) 0)))) = ''uu''" "''uu'' \<noteq> []"
    by (simp_all add: demo_world_eq Segment_init_def)
  have u: "1 < length (w_ctxs (demo_child c))" "w_stacks (demo_child c) (te_tid demo_env1) = [] @ [1]" "1 < length (w_spans (demo_child c))"
      "seg_related (cx_segment (cx_of (demo_child c) 1)) = NewID (replicate 4 (CHR ''u'')) # []"
    by (simp_all add: demo_child_facts [unfolded One_nat_def] demo_env1_def Segment_init_def)
  have n: "id_value (seg_id (cx_segment (cx_of (demo_child c) 1))) \<noteq> id_value (seg_id (cx_segment (cx_of (demo_world c) 0)))"
      "id_value (seg_id (cx_segment (cx_of (demo_world c) 0))) = ''u''" "sp_sid (sp_of (demo_world c) 0) = 0"
    by (simp_all add: demo_child_facts [unfolded One_nat_def] demo_world_eq Segment_init_def Span_init_def numeral_eq_Suc)
  from cross_thread_propagation [OF demo_reach k cap t u(1) demo_child_facts(6) u(2-4)] obtain u' where
      "continued demo_env1 1 (Some snap) (demo_child c) = (Inr (), u')"
      "map sr_segment_id (sp_refs (sp_of u' 1)) = [''u'']" "map sr_span_id (sp_refs (sp_of u' 1)) = [0]"
      "seg_related (cx_segment (cx_of u' 1)) = [GivenID ''uu'']"
    using n demo_child_facts(4) [of c] by auto
  with cap show "\<exists>snap u'. fst (capture demo_env 0 (demo_world c)) = Inr (Some snap)
     \<and> continued demo_env1 1 (Some snap) (demo_child c) = (Inr (), u')
     \<and> map sr_segment_id (sp_refs (sp_of u' 1)) = [''u''] \<and> map sr_span_id (sp_refs (sp_of u' 1)) = [0]
     \<and> seg_related (cx_segment (cx_of u' 1)) = [GivenID ''uu'']" by auto
qed

end
