(* ===== verification/TraceEdge.thy ===== *)
theory TraceEdge
  imports Propagation
begin

text \<open>
  The boundary behaviour of the tracing context: operations that are ignored, the limits on
  correlation data and spans whose parent has already finished.
\<close>

section \<open>Ignored operations\<close>

lemma ignore_check_ignores:
  assumes "te_ignored e op \<or> is_segment_queue_full (w_agent w) = Inr True"
  shows "ignore_check e op carrier w = (Inr (Some (length (w_spans w))),
     (snd (NoopContext_new w))\<lparr>w_spans := w_spans w @ [NoopSpan_init (length (w_ctxs w))]\<rparr>)"
  using assms by (auto simp: ignore_check_def seq_def NoopContext_new_def NoopSpan_new_def new_span_obj_def)

lemma upd_ctx_frame [simp]:
  "w_agent (upd_ctx i f w) = w_agent w" "w_spans (upd_ctx i f w) = w_spans w"
  by (simp_all add: upd_ctx_def)

lemma upd_span_frame [simp]:
  "w_agent (upd_span i f w) = w_agent w" "w_ctxs (upd_span i f w) = w_ctxs w"
  by (simp_all add: upd_span_def)

lemma set_stack_frame [simp]:
  "w_agent (set_stack t ss w) = w_agent w" "w_ctxs (set_stack t ss w) = w_ctxs w" "w_spans (set_stack t ss w) = w_spans w"
  by (simp_all add: set_stack_def)

lemma upd_ctx_noop:
  "(\<And>x. cx_noop (f x) = cx_noop x) \<Longrightarrow> map cx_noop (w_ctxs (upd_ctx i f w)) = map cx_noop (w_ctxs w)"
  by (cases "i < length (w_ctxs w)") (simp_all add: upd_ctx_def map_update list_update_same_conv list_update_beyond)

lemma upd_span_context:
  "(\<And>x. sp_context (f x) = sp_context x) \<Longrightarrow> map sp_context (w_spans (upd_span i f w)) = map sp_context (w_spans w)"
  by (cases "i < length (w_spans w)") (simp_all add: upd_span_def map_update list_update_same_conv list_update_beyond)

lemma span_start_frame:
  "w_agent (span_start e j w) = w_agent w"
  "map cx_noop (w_ctxs (span_start e j w)) = map cx_noop (w_ctxs w)"
  "map sp_context (w_spans (span_start e j w)) = map sp_context (w_spans w)"
  by (simp_all add: span_start_def EntrySpan_start_def Span_start_def context_start_def Let_def upd_ctx_noop upd_span_context)

lemma span_stop_noop_agent:
  assumes "cx_noop (cx_of w (sp_context (sp_of w j)))" and "j < length (w_spans w)"
  shows "w_agent (snd (span_stop e j w)) = w_agent w"
  using assms by (simp add: span_stop_def NoopContext_stop_def seq_def Let_def)

lemma noop_lifecycle_agent:
  assumes "j < length (w_spans w)" and "cx_noop (cx_of w (sp_context (sp_of w j)))" and "sp_context (sp_of w j) < length (w_ctxs w)"
  shows "w_agent (snd (span_stop e' j (span_start e j w))) = w_agent w"
proof -
  let ?w = "span_start e j w"
  have len: "length (w_spans ?w) = length (w_spans w)" "length (w_ctxs ?w) = length (w_ctxs w)"
    using span_start_frame(2,3) [of e j w] by (metis length_map)+
  have "sp_context (sp_of ?w j) = sp_context (sp_of w j)"
    using span_start_frame(3) [of e j w] assms(1) len by (metis nth_map)
  moreover have "cx_noop (cx_of ?w k) = cx_noop (cx_of w k)" if "k < length (w_ctxs w)" for k
    using span_start_frame(2) [of e j w] that len by (metis nth_map)
  ultimately show ?thesis
    using assms len by (simp add: span_stop_noop_agent span_start_frame(1))
qed

section \<open>Correlation limits\<close>

definition corr_bounded :: "config \<Rightarrow> correlation \<Rightarrow> bool" where
  "corr_bounded c d = (int (length d) \<le> max 0 (correlation_element_max_number c + 1)
     \<and> (\<forall>v \<in> snd ` set d. int (py_len v) \<le> correlation_value_max_length c))"

definition put_all :: "nat \<Rightarrow> (string option \<times> string option) list \<Rightarrow> ('l, 'm, 'n) world \<Rightarrow> ('l, 'm, 'n) world" where
  "put_all i kvs w = fold (\<lambda>(k, v). put_correlation i k v) kvs w"

lemma dict_set_values: "snd ` set (dict_set k v d) \<subseteq> insert v (snd ` set d)"
  by (induction d) (auto split: if_splits)

lemma dict_del_values: "snd ` set (dict_del k d) \<subseteq> snd ` set d"
  by (induction d) auto

lemma put_correlation_frame [simp]:
  "w_agent (put_correlation i k v w) = w_agent w" "w_ctxs (put_correlation i k v w) = w_ctxs w"
  "length (w_corrs (put_correlation i k v w)) = length (w_corrs w)"
  by (simp_all add: put_correlation_def upd_corr_def Let_def split: option.split)

lemma put_correlation_bounded:
  assumes "corr_bounded (w_cfg w) (w_corrs w ! a)" and "a < length (w_corrs w)"
  shows "corr_bounded (w_cfg w) (w_corrs (put_correlation i k v w) ! a)"
proof (cases "a = cx_correlation (cx_of w i)")
  case True
  let ?d = "w_corrs w ! a"
  have del: "corr_bounded (w_cfg w) (dict_del x ?d)" for x
    using assms(1) length_dict_del_le [of x ?d] dict_del_values [of x ?d] by (fastforce simp: corr_bounded_def)
  have set: "corr_bounded (w_cfg w) (dict_set x y ?d)"
    if "int (py_len y) \<le> correlation_value_max_length (w_cfg w)"
      "int (length ?d) \<le> correlation_element_max_number (w_cfg w)" for x y
    using assms(1) that length_dict_set_le [of x y ?d] dict_set_values [of x y ?d] by (fastforce simp: corr_bounded_def)
  show ?thesis
    using True assms del set by (auto simp: put_correlation_def upd_corr_def Let_def split: option.split)
next
  case False
  then show ?thesis using assms by (auto simp: put_correlation_def upd_corr_def Let_def split: option.split)
qed

lemma put_all_bounded:
  assumes "corr_bounded (w_cfg w) (w_corrs w ! a)" and "a < length (w_corrs w)"
  shows "corr_bounded (w_cfg w) (w_corrs (put_all i kvs w) ! a)"
  using assms
proof (induction kvs arbitrary: w)
  case (Cons kv kvs)
  obtain k v where "kv = (k, v)" by fastforce
  with Cons show ?case
    using Cons.IH [of "put_correlation i k v w"] put_correlation_bounded [OF Cons.prems] by (simp add: put_all_def)
qed (simp add: put_all_def)

section \<open>Properties\<close>

text \<open>C36. An ignored operation leaves no trace: when the operation matches the ignore pattern, the segment
  buffer is full or the process does not report, each of the three span constructors returns a noop
  span on a fresh noop context and changes neither the stacks nor the agent, and starting and
  stopping that span - on any thread, at any time - hands nothing to the agent either.\<close>

theorem ignored_operation_leaves_no_trace:
  assumes "te_ignored e op \<or> is_segment_queue_full (w_agent w) = Inr True" and "\<not> cx_noop (cx_of w i)"
  shows "\<exists>w'. new_local_span e i op w = (Inr (length (w_spans w)), w')
     \<and> new_entry_span e i op carrier inherit w = (Inr (length (w_spans w)), w')
     \<and> new_exit_span e i op peer cmp inherit w = (Inr (length (w_spans w)), w')
     \<and> sp_class (sp_of w' (length (w_spans w))) = NoopSpan
     \<and> sp_context (sp_of w' (length (w_spans w))) = length (w_ctxs w) \<and> cx_noop (cx_of w' (length (w_ctxs w)))
     \<and> w_stacks w' = w_stacks w \<and> w_agent w' = w_agent w
     \<and> w_agent (snd (span_stop e2 (length (w_spans w)) (span_start e1 (length (w_spans w)) w'))) = w_agent w"
proof -
  let ?j = "length (w_spans w)"
  let ?w' = "(snd (NoopContext_new w))\<lparr>w_spans := w_spans w @ [NoopSpan_init (length (w_ctxs w))]\<rparr>"
  note ig = ignore_check_ignores [OF assms(1)]
  have "new_local_span e i op w = (Inr ?j, ?w')" "new_entry_span e i op carrier inherit w = (Inr ?j, ?w')"
      "new_exit_span e i op peer cmp inherit w = (Inr ?j, ?w')"
    using assms(2) by (simp_all add: new_local_span_def new_entry_span_def new_exit_span_def seq_def ig)
  moreover have noop: "sp_class (sp_of ?w' ?j) = NoopSpan" "sp_context (sp_of ?w' ?j) = length (w_ctxs w)"
      "cx_noop (cx_of ?w' (length (w_ctxs w)))" "length (w_ctxs w) < length (w_ctxs ?w')" "?j < length (w_spans ?w')"
      "w_stacks ?w' = w_stacks w" "w_agent ?w' = w_agent w"
    by (simp_all add: NoopContext_new_def NoopSpan_init_def Span_init_def)
  moreover have "w_agent (snd (span_stop e2 ?j (span_start e1 ?j ?w'))) = w_agent ?w'"
    using noop by (intro noop_lifecycle_agent) simp_all
  ultimately show ?thesis by auto
qed

theorem ignored_operation_leaves_no_trace_witness:
  "\<forall>c. \<exists>w'. new_local_span (demo_env\<lparr>te_ignored := (\<lambda>op. op = ''/health'')\<rparr>) 0 ''/health'' (demo_world c) = (Inr 1, w')
     \<and> sp_class (sp_of w' 1) = NoopSpan \<and> w_agent w' = demo_agent c"
proof
  fix c
  have "length (w_spans (demo_world c)) = 1" "w_agent (demo_world c) = demo_agent c" "\<not> cx_noop (cx_of (demo_world c) 0)"
    by (simp_all add: demo_world_eq)
  with ignored_operation_leaves_no_trace [of "demo_env\<lparr>te_ignored := (\<lambda>op. op = ''/health'')\<rparr>" "''/health''" "demo_world c" 0
      None None "''h''" None demo_env demo_env]
  show "\<exists>w'. new_local_span (demo_env\<lparr>te_ignored := (\<lambda>op. op = ''/health'')\<rparr>) 0 ''/health'' (demo_world c) = (Inr 1, w')
     \<and> sp_class (sp_of w' 1) = NoopSpan \<and> w_agent w' = demo_agent c" by auto
qed

text \<open>Correlation data is bounded: whatever keys and values the application puts or deletes, a
  dictionary that starts within the limits keeps at most one element more than the configured
  number (the guard compares before the insertion) and no value longer than the configured length.\<close>

theorem put_correlation_bounds:
  assumes "a < length (w_corrs w)" and "corr_bounded (w_cfg w) (w_corrs w ! a)"
  shows "int (length (w_corrs (put_all i kvs w) ! a)) \<le> max 0 (correlation_element_max_number (w_cfg w) + 1)
     \<and> (\<forall>v \<in> snd ` set (w_corrs (put_all i kvs w) ! a). int (py_len v) \<le> correlation_value_max_length (w_cfg w))"
  using put_all_bounded [OF assms(2,1)] by (simp add: corr_bounded_def)

theorem put_correlation_bounds_witness:
  "\<forall>c. int (length (w_corrs (put_all 0 [(Some ''a'', Some ''1''), (Some ''b'', Some ''2''), (Some ''a'', None)] (demo_world c)) ! 0))
     \<le> max 0 (correlation_element_max_number (w_cfg (demo_world c)) + 1)"
proof
  fix c
  have "0 < length (w_corrs (demo_world c))" "corr_bounded (w_cfg (demo_world c)) (w_corrs (demo_world c) ! 0)"
    by (simp_all add: demo_world_eq corr_bounded_def)
  from put_correlation_bounds [OF this]
  show "int (length (w_corrs (put_all 0 [(Some ''a'', Some ''1''), (Some ''b'', Some ''2''), (Some ''a'', None)] (demo_world c)) ! 0))
     \<le> max 0 (correlation_element_max_number (w_cfg (demo_world c)) + 1)" by blast
qed

text \<open>A span whose innermost enclosing span has already finished cannot be opened when that span has no
  peer: the code builds a carrier with the peer as client address and asks for its length, so the
  call raises \<open>TypeError\<close> into the application.  Local and entry spans never have a peer, and an asyncio
  task inherits the stack of its creator, so this is the case of a task that outlives the span it
  was created in.\<close>

theorem finished_parent_without_peer_raises:
  assumes "tracing.reach w" and "w_stacks w (te_tid e) = ps @ [p]" and "p < length (w_spans w)" and "sp_context (sp_of w p) = i"
    and "i < length (w_ctxs w)" and "\<not> cx_noop (cx_of w i)" and "sp_depth (sp_of w p) = 0" and "sp_peer (sp_of w p) = None"
    and "admits e op w" and "sp_op (sp_of w p) = Some ep" and "ep \<noteq> []"
    and "agent_name (w_cfg w) \<noteq> []" and "agent_instance_name (w_cfg w) \<noteq> []"
    and "id_value (seg_id (cx_segment (cx_of w i))) \<noteq> []" and "id_value (hd (seg_related (cx_segment (cx_of w i)))) \<noteq> []"
  shows "fst (new_local_span e i op w) = Inl TypeError"
proof -
  have ok: "wok 0 0 0 w" using tracing.reach_inv [OF assms(1)] .
  obtain t rest where t: "seg_related (cx_segment (cx_of w i)) = t # rest"
    using related_nonempty [OF ok assms(5)] by (cases "seg_related (cx_segment (cx_of w i))") auto
  have ig: "ignore_check e op None w = (Inr None, w)"
    using assms(9) by (simp add: ignore_check_def admits_def seq_def)
  have pk: "peek e False w = (Inr (Some p), w)" using assms(2) by (simp add: peek_def Let_def)
  have "new_local_span e i op w = new_span e i (Some p) PlainSpan op None None w"
    using assms(6) by (simp add: new_local_span_def seq_def ig pk)
  also have "fst \<dots> = Inl TypeError"
    using assms(3-8,10-15) t
    by (simp add: new_span_def seq_def SpanContext_new_def fresh_uuid_def next_sid_def new_span_obj_def upd_ctx_def
        carrier_of_def first_related_def Carrier_init_def Span_extract_def make_id_def relate_ctx_def relate_def
        Segment_init_def is_valid_def nth_append Span_init_def split: prod.split)
  finally show ?thesis .
qed

text \<open>A task created inside the span of \<open>demo_world\<close>, which then ends.\<close>

definition demo_late :: "config \<Rightarrow> (unit, unit, unit) world" where
  "demo_late c = snd (span_stop demo_env 0 (spawn_task 0 2 (demo_world c)))"

lemma demo_late_reach: "tracing.reach (demo_late c)"
proof -
  have "tracing.reach (spawn_task 0 2 (demo_world c))"
    using demo_reach by (rule tracing.next_state) (rule tr_task)
  then show ?thesis unfolding demo_late_def
    by (rule tracing.next_state) (rule tr_stop; simp add: spawn_task_def set_stack_def demo_world_eq)
qed

lemma demo_agent_cfg:
  "\<not> agent_profile_active (a_cfg (demo_agent c))" "agent_name (a_cfg (demo_agent c)) = ''svc''"
  "agent_instance_name (a_cfg (demo_agent c)) = ''inst''"
  by (simp_all add: demo_agent_def SkyWalkingAgent_init_def)

lemma demo_late_facts:
  "w_stacks (demo_late c) 2 = [0]" "length (w_spans (demo_late c)) = 1" "length (w_ctxs (demo_late c)) = 1"
  "sp_of (demo_late c) 0 = (Span_init PlainSpan 0 0 (-1) (Some ''op'') None None)\<lparr>sp_start_time := 5, sp_end_time := 5\<rparr>"
  "\<not> cx_noop (cx_of (demo_late c) 0)" "id_value (seg_id (cx_segment (cx_of (demo_late c) 0))) = ''u''"
  "id_value (hd (seg_related (cx_segment (cx_of (demo_late c) 0)))) = ''uu''"
  "admits demo_env ''later'' (demo_late c)" "agent_name (w_cfg (demo_late c)) = ''svc''"
  "agent_instance_name (w_cfg (demo_late c)) = ''inst''"
proof -
  let ?a = "demo_agent c :: (nat, unit, unit, unit) agent"
  have "is_segment_queue_full ?a = Inr False" by (simp add: demo_agent_fields)
  moreover obtain b where b: "archive_segment 5 0 ?a = Inr b" "a_cfg b = a_cfg ?a"
      "is_segment_queue_full b = Inr False"
    by (simp add: archive_segment_def demo_agent_def SkyWalkingAgent_init_def q_put_nowait_def Queue_init_def q_full_def
        is_segment_queue_full_def)
  ultimately show "w_stacks (demo_late c) 2 = [0]" "length (w_spans (demo_late c)) = 1" "length (w_ctxs (demo_late c)) = 1"
  "sp_of (demo_late c) 0 = (Span_init PlainSpan 0 0 (-1) (Some ''op'') None None)\<lparr>sp_start_time := 5, sp_end_time := 5\<rparr>"
  "\<not> cx_noop (cx_of (demo_late c) 0)" "id_value (seg_id (cx_segment (cx_of (demo_late c) 0))) = ''u''"
  "id_value (hd (seg_related (cx_segment (cx_of (demo_late c) 0)))) = ''uu''"
  "admits demo_env ''later'' (demo_late c)" "agent_name (w_cfg (demo_late c)) = ''svc''"
  "agent_instance_name (w_cfg (demo_late c)) = ''inst''"
    by (simp_all add: demo_late_def demo_world_eq spawn_task_def set_stack_def span_stop_def SpanContext_stop_def span_finish_def
        seq_def upd_span_def upd_ctx_def segment_archive_def on_agent_def Segment_init_def Span_init_def demo_env_def Let_def
        admits_def demo_agent_cfg)
qed

theorem finished_parent_without_peer_raises_witness:
  "\<forall>c. fst (new_local_span (demo_env\<lparr>te_tid := 2\<rparr>) 0 ''later'' (demo_late c)) = Inl TypeError"
proof
  fix c
  have "admits (demo_env\<lparr>te_tid := 2\<rparr>) ''later'' (demo_late c)"
    using demo_late_facts(8) [of c] by (simp add: admits_def)
  then show "fst (new_local_span (demo_env\<lparr>te_tid := 2\<rparr>) 0 ''later'' (demo_late c)) = Inl TypeError"
    by (intro finished_parent_without_peer_raises [OF demo_late_reach, where ps = "[]" and p = 0 and ep = "''op''"])
      (simp_all add: demo_late_facts Span_init_def)
qed

end
