(* ===== verification/Command.thy ===== *)
theory Command
  imports Profile
begin

text \<open>
  Commands from the backend (\<open>skywalking/command\<close>): decoding, the queue, the cache of executed serial
  numbers and the dispatch loop that turns profile task commands into profile tasks.  The protobuf
  message is its command name and its list of key/value arguments.
\<close>

section \<open>Commands\<close>

record command_message =
  cm_command :: string
  cm_args :: "(string \<times> string) list"

text \<open>\<open>ProfileTaskCommand\<close>: a field is \<open>None\<close> until its argument is seen.\<close>

record profile_task_command =
  ptc_command :: string
  ptc_serial_number :: "string option"
  ptc_task_id :: "string option"
  ptc_endpoint_name :: "string option"
  ptc_duration :: "string option"
  ptc_min_duration_threshold :: "string option"
  ptc_dump_period :: "string option"
  ptc_max_sampling_count :: "string option"
  ptc_start_time :: "string option"
  ptc_create_time :: "string option"

definition ProfileTaskCommand_NAME :: string where
  "ProfileTaskCommand_NAME = ''ProfileTaskQuery''"

definition set_arg :: "string \<times> string \<Rightarrow> profile_task_command \<Rightarrow> profile_task_command" where
  "set_arg kv c =
     (case kv of (key, v) \<Rightarrow>
        if key = ''SerialNumber'' then c\<lparr>ptc_serial_number := Some v\<rparr>
        else if key = ''EndpointName'' then c\<lparr>ptc_endpoint_name := Some v\<rparr>
        else if key = ''TaskId'' then c\<lparr>ptc_task_id := Some v\<rparr>
        else if key = ''Duration'' then c\<lparr>ptc_duration := Some v\<rparr>
        else if key = ''MinDurationThreshold'' then c\<lparr>ptc_min_duration_threshold := Some v\<rparr>
        else if key = ''DumpPeriod'' then c\<lparr>ptc_dump_period := Some v\<rparr>
        else if key = ''MaxSamplingCount'' then c\<lparr>ptc_max_sampling_count := Some v\<rparr>
        else if key = ''StartTime'' then c\<lparr>ptc_start_time := Some v\<rparr>
        else if key = ''CreateTime'' then c\<lparr>ptc_create_time := Some v\<rparr>
        else c)"

definition ProfileTaskCommand_deserialize :: "command_message \<Rightarrow> profile_task_command" where
  "ProfileTaskCommand_deserialize m =
     foldl (\<lambda>c kv. set_arg kv c)
       \<lparr>ptc_command = ProfileTaskCommand_NAME, ptc_serial_number = None, ptc_task_id = None, ptc_endpoint_name = None,
        ptc_duration = None, ptc_min_duration_threshold = None, ptc_dump_period = None, ptc_max_sampling_count = None,
        ptc_start_time = None, ptc_create_time = None\<rparr> (cm_args m)"

text \<open>\<open>CommandDeserializer\<close>: \<open>None\<close> is the \<open>UnsupportedCommandException\<close>.\<close>

definition deserialize :: "command_message \<Rightarrow> profile_task_command option" where
  "deserialize m = (if cm_command m = ProfileTaskCommand_NAME then Some (ProfileTaskCommand_deserialize m) else None)"

section \<open>Execution\<close>

text \<open>\<open>str(x)\<close> and \<open>int(x)\<close> of an argument that may be missing.\<close>

definition str_arg :: "string option \<Rightarrow> string" where
  "str_arg x = (case x of None \<Rightarrow> ''None'' | Some s \<Rightarrow> s)"

definition int_arg :: "string option \<Rightarrow> int res" where
  "int_arg x = (case x of None \<Rightarrow> Inl TypeError | Some s \<Rightarrow> py_int s)"

definition ProfileTask_init :: "profile_task_command \<Rightarrow> profile_task res" where
  "ProfileTask_init c =
     bind_res (int_arg (ptc_duration c)) (\<lambda>duration.
     bind_res (int_arg (ptc_min_duration_threshold c)) (\<lambda>threshold.
     bind_res (int_arg (ptc_dump_period c)) (\<lambda>period.
     bind_res (int_arg (ptc_max_sampling_count c)) (\<lambda>count.
     bind_res (int_arg (ptc_start_time c)) (\<lambda>start.
     bind_res (int_arg (ptc_create_time c)) (\<lambda>create.
     Inr \<lparr>task_id = str_arg (ptc_task_id c), first_span_op_name = str_arg (ptc_endpoint_name c), duration = duration,
          min_duration_threshold = threshold, thread_dump_period = period, max_sampling_count = count,
          task_start_time = start, task_create_time = create\<rparr>))))))"

text \<open>\<open>ProfileTaskCommandExecutor.execute\<close>; \<open>oid\<close> is the identity of the new task object.\<close>

definition profile_task_execute :: "int \<Rightarrow> nat \<Rightarrow> profile_task_command \<Rightarrow> profile_service option \<Rightarrow> profile_service option res" where
  "profile_task_execute now oid c g =
     bind_res (ProfileTask_init c) (\<lambda>t.
     case g of
       None \<Rightarrow> Inl AttributeError
     | Some s \<Rightarrow> Inr (Some (snd (add_profile_task now (oid, t) s))))"

text \<open>\<open>CommandExecutorService.execute\<close>: any other command goes to the noop executor.\<close>

definition executor_execute :: "int \<Rightarrow> nat \<Rightarrow> profile_task_command \<Rightarrow> profile_service option \<Rightarrow> profile_service option res" where
  "executor_execute now oid c g =
     (if ptc_command c = ProfileTaskCommand_NAME then profile_task_execute now oid c g else Inr g)"

section \<open>CommandService\<close>

text \<open>
  The queue is unbounded; the asyncio variant has none before \<open>dispatch\<close> has started.  \<open>cs_executed\<close>
  records the serial numbers of the executed commands and \<open>cs_dispatching\<close> whether the loop still runs.
\<close>

record command_service =
  cs_commands :: "profile_task_command list option"
  cs_cache :: "string option list"
  cs_executed :: "string option list"
  cs_dispatching :: bool

definition CommandService_init :: command_service where
  "CommandService_init = \<lparr>cs_commands = Some [], cs_cache = [], cs_executed = [], cs_dispatching = True\<rparr>"

definition CommandServiceAsync_init :: command_service where
  "CommandServiceAsync_init = \<lparr>cs_commands = None, cs_cache = [], cs_executed = [], cs_dispatching = False\<rparr>"

definition async_dispatch_start :: "command_service \<Rightarrow> command_service" where
  "async_dispatch_start s = s\<lparr>cs_commands := Some [], cs_dispatching := True\<rparr>"

definition cache_add :: "string option \<Rightarrow> string option list \<Rightarrow> string option list" where
  "cache_add number q = (let q' = q @ [number] in drop (length q' - 64) q')"

definition cache_contains :: "string option \<Rightarrow> string option list \<Rightarrow> bool" where
  "cache_contains number q = (number \<in> set q)"

fun receive_command :: "command_message list \<Rightarrow> command_service \<Rightarrow> py_error option \<times> command_service" where
  "receive_command [] s = (None, s)"
| "receive_command (m # ms) s =
     (case deserialize m of
        None \<Rightarrow> receive_command ms s
      | Some c \<Rightarrow>
          if cache_contains (ptc_serial_number c) (cs_cache s) then receive_command ms s
          else case cs_commands s of
                 None \<Rightarrow> (Some AttributeError, s)
               | Some q \<Rightarrow> receive_command ms (s\<lparr>cs_commands := Some (q @ [c])\<rparr>))"

text \<open>
  One turn of \<open>dispatch\<close> on a non-empty queue.  Nothing catches an exception of the executor, so it ends
  the loop; the command has left the queue and is not recorded as executed.
\<close>

definition dispatch_one :: "int \<Rightarrow> nat \<Rightarrow> command_service \<times> profile_service option \<Rightarrow> command_service \<times> profile_service option" where
  "dispatch_one now oid sg =
     (case sg of (s, g) \<Rightarrow>
        if \<not> cs_dispatching s then (s, g)
        else case cs_commands s of
          Some (c # q) \<Rightarrow>
            (let s1 = s\<lparr>cs_commands := Some q\<rparr> in
             if cache_contains (ptc_serial_number c) (cs_cache s1) then (s1, g)
             else case executor_execute now oid c g of
                    Inl _ \<Rightarrow> (s1\<lparr>cs_dispatching := False\<rparr>, g)
                  | Inr g' \<Rightarrow> (s1\<lparr>cs_cache := cache_add (ptc_serial_number c) (cs_cache s1),
                                   cs_executed := cs_executed s1 @ [ptc_serial_number c]\<rparr>, g'))
        | _ \<Rightarrow> (s, g))"

section \<open>The service as a state machine\<close>

datatype command_event = Receive "command_message list" | Dispatch int nat | StartAsync

definition command_apply :: "command_event \<Rightarrow> command_service \<times> profile_service option \<Rightarrow> command_service \<times> profile_service option" where
  "command_apply e sg =
     (case e of
        Receive ms \<Rightarrow> (snd (receive_command ms (fst sg)), snd sg)
      | Dispatch now oid \<Rightarrow> dispatch_one now oid sg
      | StartAsync \<Rightarrow> (if cs_dispatching (fst sg) \<or> cs_commands (fst sg) \<noteq> None then sg else (async_dispatch_start (fst sg), snd sg)))"

inductive command_step :: "command_service \<times> profile_service option \<Rightarrow> command_event \<Rightarrow> command_service \<times> profile_service option \<Rightarrow> bool" where
  cm_apply: "command_step sg e (command_apply e sg)"

text \<open>Equal serial numbers are executed more than 64 commands apart, and the cache is the recent history.\<close>

definition spaced_out :: "nat \<Rightarrow> 'a list \<Rightarrow> bool" where
  "spaced_out n xs = (\<forall>i j. i < j \<and> j < length xs \<and> xs ! i = xs ! j \<longrightarrow> n < j - i)"

definition commands_ok :: "command_service \<times> profile_service option \<Rightarrow> bool" where
  "commands_ok sg = (cs_cache (fst sg) = drop (length (cs_executed (fst sg)) - 64) (cs_executed (fst sg))
     \<and> spaced_out 64 (cs_executed (fst sg)))"

lemma spaced_out_snoc:
  assumes "spaced_out n xs" and "x \<notin> set (drop (length xs - n) xs)"
  shows "spaced_out n (xs @ [x])"
  unfolding spaced_out_def
proof (intro allI impI)
  fix i j assume ij: "i < j \<and> j < length (xs @ [x]) \<and> (xs @ [x]) ! i = (xs @ [x]) ! j"
  show "n < j - i"
  proof (cases "j < length xs")
    case True
    with ij assms(1) show ?thesis by (auto simp: spaced_out_def nth_append)
  next
    case False
    with ij have j: "j = length xs" "xs ! i = x" "i < length xs" by (auto simp: nth_append split: if_splits)
    show ?thesis
    proof (rule ccontr)
      assume "\<not> n < j - i"
      then have "length xs - n \<le> i" using j(1) by simp
      then have "xs ! i \<in> set (drop (length xs - n) xs)"
        using j(3) nth_drop [of "length xs - n" xs "i - (length xs - n)"]
          nth_mem [of "i - (length xs - n)" "drop (length xs - n) xs"] by simp
      with assms(2) j(2) show False by simp
    qed
  qed
qed

lemma cache_add_history:
  "cache_add x (drop (length xs - 64) xs) = drop (length (xs @ [x]) - 64) (xs @ [x])"
proof (cases "length xs \<le> 63")
  case True
  then show ?thesis by (simp add: cache_add_def Let_def)
next
  case False
  then have "length xs - 63 = Suc (length xs - 64)" "length xs - (length xs - 64) = 64" by simp_all
  then show ?thesis by (simp add: cache_add_def Let_def)
qed

lemma receive_frame:
  "cs_cache (snd (receive_command ms s)) = cs_cache s" "cs_executed (snd (receive_command ms s)) = cs_executed s"
  "cs_dispatching (snd (receive_command ms s)) = cs_dispatching s"
  by (induction ms s rule: receive_command.induct) (auto split: option.split)

lemma command_apply_ok:
  assumes "commands_ok sg"
  shows "commands_ok (command_apply e sg)"
proof (cases e)
  case (Receive ms)
  then show ?thesis using assms by (simp add: command_apply_def commands_ok_def receive_frame)
next
  case (Dispatch now oid)
  obtain s g where sg: "sg = (s, g)" by fastforce
  show ?thesis
    using assms cache_add_history [of _ "cs_executed s"] spaced_out_snoc [of 64 "cs_executed s"]
    by (auto simp: Dispatch sg command_apply_def dispatch_one_def commands_ok_def Let_def cache_contains_def
        split: option.splits list.splits sum.splits)
next
  case StartAsync
  then show ?thesis using assms by (simp add: command_apply_def commands_ok_def async_dispatch_start_def)
qed

interpretation commands: machine "\<lambda>sg. fst sg = CommandService_init \<or> fst sg = CommandServiceAsync_init" command_step commands_ok
proof unfold_locales
  show "\<And>sg. fst sg = CommandService_init \<or> fst sg = CommandServiceAsync_init \<Longrightarrow> commands_ok sg"
    by (auto simp: commands_ok_def CommandService_init_def CommandServiceAsync_init_def spaced_out_def)
  show "\<And>s e t. command_step s e t \<Longrightarrow> commands_ok s \<Longrightarrow> commands_ok t"
    by (auto elim!: command_step.cases intro: command_apply_ok)
qed

section \<open>Encoding of tasks\<close>

definition task_message :: "string \<Rightarrow> profile_task \<Rightarrow> command_message" where
  "task_message serial t =
     \<lparr>cm_command = ''ProfileTaskQuery'',
      cm_args = [(''SerialNumber'', serial), (''TaskId'', task_id t), (''EndpointName'', first_span_op_name t),
        (''Duration'', str_of_int (duration t)), (''MinDurationThreshold'', str_of_int (min_duration_threshold t)),
        (''DumpPeriod'', str_of_int (thread_dump_period t)), (''MaxSamplingCount'', str_of_int (max_sampling_count t)),
        (''StartTime'', str_of_int (task_start_time t)), (''CreateTime'', str_of_int (task_create_time t))]\<rparr>"

lemma py_int_str_of_int: "py_int (str_of_int n) = Inr n"
proof (cases "n < 0")
  case True
  let ?d = "str_of_nat (nat (- n))"
  have "strip (CHR ''-'' # ?d) = CHR ''-'' # ?d"
  proof (rule strip_no_ws)
    have "\<not> is_ws (CHR ''-'')" by (simp add: is_ws_def)
    then show "\<forall>c \<in> set (CHR ''-'' # ?d). \<not> is_ws c"
      using str_of_nat_digits [of "nat (- n)"] is_digit_not_special by (auto simp: list_all_iff)
  qed
  then show ?thesis
    using True digit_groups_digits [OF str_of_nat_not_Nil str_of_nat_digits, of "nat (- n)"]
    by (simp add: str_of_int_def py_int_def)
qed (simp add: str_of_int_def)

section \<open>Properties\<close>

text \<open>C25. Commands are executed at most once within the window of the serial number cache: in every
  reachable state of the sync or asyncio command service, any 65 consecutive executions have
  different serial numbers, however often the backend repeats a command.\<close>

theorem command_executed_once:
  assumes "commands.reach (s, g)"
  shows "distinct (take 65 (drop k (cs_executed s)))"
proof -
  have "64 < j - i" if "i < j" "j < length (cs_executed s)" "cs_executed s ! i = cs_executed s ! j" for i j
    using commands.reach_inv [OF assms] that by (auto simp: commands_ok_def spaced_out_def)
  from this [of "k + _" "k + _"] show ?thesis
    by (fastforce simp: distinct_conv_nth linorder_neq_iff)
qed

lemma demo_commands_reach:
  "commands.reach (dispatch_one 5 0 (snd (receive_command [task_message ''sn'' t] CommandService_init), Some ProfileTaskExecutionService_init))"
proof -
  have "commands.reach (CommandService_init, Some ProfileTaskExecutionService_init)" by (rule commands.start) simp
  then have "commands.reach (command_apply (Receive [task_message ''sn'' t]) (CommandService_init, Some ProfileTaskExecutionService_init))"
    by (rule commands.next_state) (rule cm_apply)
  then have "commands.reach (command_apply (Dispatch 5 0)
      (command_apply (Receive [task_message ''sn'' t]) (CommandService_init, Some ProfileTaskExecutionService_init)))"
    by (rule commands.next_state) (rule cm_apply)
  then show ?thesis by (simp add: command_apply_def)
qed

theorem command_executed_once_witness:
  "\<forall>t. distinct (take 65 (drop 0 (cs_executed (fst (dispatch_one 5 0
     (snd (receive_command [task_message ''sn'' t] CommandService_init), Some ProfileTaskExecutionService_init))))))"
proof
  fix t
  obtain s g where sg: "dispatch_one 5 0 (snd (receive_command [task_message ''sn'' t] CommandService_init),
      Some ProfileTaskExecutionService_init) = (s, g)" by fastforce
  have "commands.reach (s, g)" using demo_commands_reach [of t] unfolding sg .
  from command_executed_once [OF this, of 0] show "distinct (take 65 (drop 0 (cs_executed (fst (dispatch_one 5 0
     (snd (receive_command [task_message ''sn'' t] CommandService_init), Some ProfileTaskExecutionService_init))))))"
    unfolding sg fst_conv .
qed

text \<open>A profile task survives the command encoding: a message that carries the fields of a task as
  text - in any sign and size of its numbers - is decoded and executed as exactly that task, handed to
  the profile service, and its serial number is remembered.\<close>

theorem profile_task_command_roundtrip:
  assumes "cs_dispatching s" and "cs_commands s = Some []" and "\<not> cache_contains (Some serial) (cs_cache s)"
  shows "deserialize (task_message serial t) \<noteq> None
     \<and> ProfileTask_init (ProfileTaskCommand_deserialize (task_message serial t)) = Inr t
     \<and> (\<exists>s'. dispatch_one now oid (snd (receive_command [task_message serial t] s), Some p) =
           (s', Some (snd (add_profile_task now (oid, t) p)))
         \<and> cs_executed s' = cs_executed s @ [Some serial] \<and> cache_contains (Some serial) (cs_cache s'))"
proof -
  let ?c = "ProfileTaskCommand_deserialize (task_message serial t)"
  have c: "ptc_command ?c = ProfileTaskCommand_NAME" "ptc_serial_number ?c = Some serial"
    by (simp_all add: ProfileTaskCommand_deserialize_def task_message_def set_arg_def)
  have d: "deserialize (task_message serial t) = Some ?c"
    by (simp add: deserialize_def task_message_def ProfileTaskCommand_NAME_def)
  have t: "ProfileTask_init ?c = Inr t"
    by (simp add: ProfileTask_init_def ProfileTaskCommand_deserialize_def task_message_def set_arg_def int_arg_def str_arg_def
        py_int_str_of_int)
  then have x: "executor_execute now oid ?c (Some p) = Inr (Some (snd (add_profile_task now (oid, t) p)))"
    using c by (simp add: executor_execute_def profile_task_execute_def)
  have "Some serial \<in> set (cache_add (Some serial) (cs_cache s))"
    by (simp add: cache_add_def Let_def)
  with assms c d t x show ?thesis
    by (simp add: dispatch_one_def Let_def cache_contains_def)
qed

theorem profile_task_command_roundtrip_witness:
  "\<forall>t. \<exists>s'. dispatch_one 5 0 (snd (receive_command [task_message ''sn'' t] CommandService_init), Some ProfileTaskExecutionService_init) =
       (s', Some (snd (add_profile_task 5 (0, t) ProfileTaskExecutionService_init)))
     \<and> cs_executed s' = [Some ''sn'']"
proof
  fix t
  have "cs_dispatching CommandService_init" "cs_commands CommandService_init = Some []"
      "\<not> cache_contains (Some ''sn'') (cs_cache CommandService_init)" "cs_executed CommandService_init = []"
    by (simp_all add: CommandService_init_def cache_contains_def)
  with profile_task_command_roundtrip [of CommandService_init "''sn''" t 5 0 ProfileTaskExecutionService_init]
  show "\<exists>s'. dispatch_one 5 0 (snd (receive_command [task_message ''sn'' t] CommandService_init), Some ProfileTaskExecutionService_init) =
       (s', Some (snd (add_profile_task 5 (0, t) ProfileTaskExecutionService_init)))
     \<and> cs_executed s' = [Some ''sn'']" by auto
qed

text \<open>A malformed command stops all further commands: executing a profile task command without a
  duration raises, nothing catches it, the dispatch loop ends, and whatever is received afterwards is
  queued but never executed.\<close>

theorem malformed_command_ends_dispatch:
  assumes "cs_dispatching s" and "cs_commands s = Some (c # q)" and "ptc_command c = ProfileTaskCommand_NAME"
    and "ptc_duration c = None" and "\<not> cache_contains (ptc_serial_number c) (cs_cache s)"
    and "(s', g') = foldl (\<lambda>sg e. command_apply e sg) (dispatch_one now oid (s, g)) es"
  shows "\<not> cs_dispatching s' \<and> cs_executed s' = cs_executed s \<and> g' = g"
proof -
  let ?I = "\<lambda>sg. \<not> cs_dispatching (fst sg) \<and> cs_executed (fst sg) = cs_executed s \<and> snd sg = g \<and> cs_commands (fst sg) \<noteq> None"
  have "executor_execute now oid c g = Inl TypeError"
    using assms(3,4) by (simp add: executor_execute_def profile_task_execute_def ProfileTask_init_def int_arg_def)
  then have start: "?I (dispatch_one now oid (s, g))"
    using assms(1,2,5) by (simp add: dispatch_one_def Let_def)
  have queue: "cs_commands s1 \<noteq> None \<Longrightarrow> cs_commands (snd (receive_command ms s1)) \<noteq> None" for ms s1
    by (induction ms s1 rule: receive_command.induct) (auto split: option.split)
  have "?I (command_apply e sg)" if "?I sg" for e sg
    using that queue [of "fst sg"]
    by (cases e) (auto simp: command_apply_def receive_frame dispatch_one_def split: prod.split)
  then have "?I (foldl (\<lambda>sg e. command_apply e sg) (dispatch_one now oid (s, g)) es)"
    by (rule foldl_invariant [of ?I, OF start])
  then have "?I (s', g')" unfolding assms(6) [symmetric] .
  then show ?thesis by simp
qed

theorem malformed_command_ends_dispatch_witness:
  "\<forall>m g. cs_executed (fst (foldl (\<lambda>sg e. command_apply e sg)
       (dispatch_one 5 0 (snd (receive_command [\<lparr>cm_command = ''ProfileTaskQuery'', cm_args = [(''SerialNumber'', ''bad'')]\<rparr>]
          CommandService_init), g)) [Receive [m], Dispatch 6 1])) = []"
proof (intro allI)
  fix m and g :: "profile_service option"
  let ?m = "\<lparr>cm_command = ''ProfileTaskQuery'', cm_args = [(''SerialNumber'', ''bad'')]\<rparr>"
  let ?s = "snd (receive_command [?m] CommandService_init)"
  have "cs_dispatching ?s" "cs_commands ?s = Some [ProfileTaskCommand_deserialize ?m]" "cs_executed ?s = []" "cs_cache ?s = []"
    by (simp_all add: deserialize_def ProfileTaskCommand_NAME_def CommandService_init_def cache_contains_def)
  moreover have "ptc_command (ProfileTaskCommand_deserialize ?m) = ProfileTaskCommand_NAME" "ptc_duration (ProfileTaskCommand_deserialize ?m) = None"
    by (simp_all add: ProfileTaskCommand_deserialize_def set_arg_def)
  moreover have "\<not> cache_contains (ptc_serial_number (ProfileTaskCommand_deserialize ?m)) (cs_cache ?s)"
    using \<open>cs_cache ?s = []\<close> by (simp add: cache_contains_def)
  ultimately show "cs_executed (fst (foldl (\<lambda>sg e. command_apply e sg) (dispatch_one 5 0 (?s, g)) [Receive [m], Dispatch 6 1])) = []"
    using malformed_command_ends_dispatch [of ?s "ProfileTaskCommand_deserialize ?m" "[]" _ _ 5 0 g "[Receive [m], Dispatch 6 1]"]
    by (metis prod.collapse)
qed

end
