(* ===== verification/Meter.thy ===== *)
theory Meter
  imports Agent "HOL-Library.List_Lexorder" "HOL-Library.Char_ord"
begin

text \<open>
  The meter system of \<open>skywalking/meter\<close>: counters, gauges and histograms, their builders, the meter
  service with its registry, and the report round that hands one data item per registered meter to
  the agent.  Meters are heap objects because the application keeps the object that \<open>build\<close> returns
  and the registry refers to the same one.  Numbers are reals.
\<close>

section \<open>Tags and ids (meter.py)\<close>

datatype meter_type = GAUGE | COUNTER | HISTOGRAM

datatype meter_tag = MeterTag (mt_key: string) (mt_value: string)

text \<open>\<open>MeterTag.__lt__\<close>: the order in which \<open>build\<close> sorts the tags.\<close>

instantiation meter_tag :: linorder
begin

definition less_eq_meter_tag :: "meter_tag \<Rightarrow> meter_tag \<Rightarrow> bool" where
  "less_eq_meter_tag a b = (if mt_key a \<noteq> mt_key b then mt_key a < mt_key b else mt_value a \<le> mt_value b)"

definition less_meter_tag :: "meter_tag \<Rightarrow> meter_tag \<Rightarrow> bool" where
  "less_meter_tag a b = (if mt_key a \<noteq> mt_key b then mt_key a < mt_key b else mt_value a < mt_value b)"

instance
  by standard (auto simp: less_eq_meter_tag_def less_meter_tag_def meter_tag.expand split: if_splits)

end

record meter_id =
  mi_name :: string
  mi_type :: meter_type
  mi_tags :: "meter_tag list"
  mi_labels :: "(string \<times> string) list option"

definition MeterId_init :: "string \<Rightarrow> meter_type \<Rightarrow> (string \<times> string) list option \<Rightarrow> meter_id" where
  "MeterId_init name ty tags =
     \<lparr>mi_name = name, mi_type = ty, mi_tags = map (\<lambda>(k, v). MeterTag k v) (case tags of None \<Rightarrow> [] | Some ts \<Rightarrow> ts),
      mi_labels = None\<rparr>"

text \<open>\<open>transform_tags\<close> computes the labels once and keeps them.\<close>

definition transform_tags :: "meter_id \<Rightarrow> (string \<times> string) list \<times> meter_id" where
  "transform_tags i =
     (case mi_labels i of
        Some ls \<Rightarrow> (ls, i)
      | None \<Rightarrow> (let ls = map (\<lambda>t. (mt_key t, mt_value t)) (mi_tags i) in (ls, i\<lparr>mi_labels := Some ls\<rparr>)))"

definition get_tag :: "string \<Rightarrow> meter_id \<Rightarrow> string option" where
  "get_tag key i = map_option mt_value (find (\<lambda>t. mt_key t = key) (mi_tags i))"

section \<open>Counter, Gauge, Histogram\<close>

datatype counter_mode = INCREMENT | RATE

record meter_counter =
  mc_count :: real
  mc_previous :: real
  mc_mode :: counter_mode

definition Counter_new :: "counter_mode \<Rightarrow> meter_counter" where
  "Counter_new mode = \<lparr>mc_count = 0, mc_previous = 0, mc_mode = mode\<rparr>"

definition counter_increment :: "real \<Rightarrow> meter_counter \<Rightarrow> meter_counter" where
  "counter_increment val c = c\<lparr>mc_count := mc_count c + val\<rparr>"

definition counter_transform :: "meter_counter \<Rightarrow> real \<times> meter_counter" where
  "counter_transform c =
     (if mc_mode c = RATE then (mc_count c - mc_previous c, c\<lparr>mc_previous := mc_count c\<rparr>) else (mc_count c, c))"

text \<open>A gauge reads an iterator: the value of the \<open>n\<close>-th call, \<open>None\<close> once it is exhausted.\<close>

record gauge =
  g_generator :: "nat \<Rightarrow> real option"
  g_calls :: nat

definition gauge_get :: "gauge \<Rightarrow> real \<times> gauge" where
  "gauge_get g = ((case g_generator g (g_calls g) of Some d \<Rightarrow> (if d \<noteq> 0 then d else 0) | None \<Rightarrow> 0), g\<lparr>g_calls := Suc (g_calls g)\<rparr>)"

record bucket =
  bk_bucket :: real
  bk_count :: int

record histogram =
  h_min_value :: real
  h_buckets :: "bucket list"

definition init_bucks :: "real list \<Rightarrow> bucket list" where
  "init_bucks steps = map (\<lambda>s. \<lparr>bk_bucket = s, bk_count = 0\<rparr>) steps"

definition Histogram_init :: "real list \<Rightarrow> real \<Rightarrow> histogram res" where
  "Histogram_init steps min_value =
     (if steps = [] then Inl (OtherError ''steps must not be empty'')
      else let ss = sort (remdups steps) in
           if hd ss < min_value then Inl (OtherError ''steps are invalid'')
           else Inr \<lparr>h_min_value = min_value,
                     h_buckets = init_bucks (if hd ss \<noteq> min_value then min_value # ss else ss)\<rparr>)"

text \<open>The binary search of \<open>find_bucket\<close>; the result is the index of the bucket.\<close>

function bisect :: "real list \<Rightarrow> real \<Rightarrow> nat \<Rightarrow> nat \<Rightarrow> nat" where
  "bisect bs val left right =
     (if left < right then
        (let mid = (left + right) div 2 in
         if bs ! mid < val then bisect bs val (mid + 1) right else bisect bs val left mid)
      else left)"
  by pat_completeness auto
termination
  by (relation "measure (\<lambda>(bs, val, left, right). right - left)") auto

declare bisect.simps [simp del]

definition find_bucket :: "real \<Rightarrow> histogram \<Rightarrow> nat option" where
  "find_bucket val h =
     (let left = int (bisect (map bk_bucket (h_buckets h)) val 0 (length (h_buckets h))) - 1 in
      if left < int (length (h_buckets h)) \<and> left \<ge> 0 then Some (nat left) else None)"

definition bucket_increment :: "int \<Rightarrow> bucket \<Rightarrow> bucket" where
  "bucket_increment n b = b\<lparr>bk_count := bk_count b + n\<rparr>"

definition add_value :: "real \<Rightarrow> histogram \<Rightarrow> histogram" where
  "add_value val h =
     (case find_bucket val h of
        None \<Rightarrow> h
      | Some i \<Rightarrow> h\<lparr>h_buckets := (h_buckets h)[i := bucket_increment 1 (h_buckets h ! i)]\<rparr>)"

section \<open>Meters, builders and the service\<close>

datatype meter_body = CounterMeter meter_counter | GaugeMeter gauge | HistogramMeter histogram

record meter =
  m_id :: meter_id
  m_body :: meter_body

datatype meter_value = SingleValue real | HistogramValue "(real \<times> int) list"

record meter_data =
  md_name :: string
  md_labels :: "(string \<times> string) list"
  md_value :: meter_value
  md_service :: string
  md_service_instance :: string
  md_timestamp :: int

text \<open>\<open>transform\<close> of the three kinds: the value, and the meter after it.\<close>

definition meter_transform :: "meter \<Rightarrow> (string \<times> (string \<times> string) list \<times> meter_value) \<times> meter" where
  "meter_transform m =
     (case transform_tags (m_id m) of
        (labels, i) \<Rightarrow>
          (case m_body m of
             CounterMeter c \<Rightarrow> (case counter_transform c of
               (v, c') \<Rightarrow> ((mi_name i, labels, SingleValue v), \<lparr>m_id = i, m_body = CounterMeter c'\<rparr>))
           | GaugeMeter g \<Rightarrow> (case gauge_get g of
               (v, g') \<Rightarrow> ((mi_name i, labels, SingleValue v), \<lparr>m_id = i, m_body = GaugeMeter g'\<rparr>))
           | HistogramMeter h \<Rightarrow>
               ((mi_name i, labels, HistogramValue (map (\<lambda>b. (bk_bucket b, bk_count b)) (h_buckets h))),
                \<lparr>m_id = i, m_body = HistogramMeter h\<rparr>)))"

record meter_service =
  ms_meters :: "meter list"
  ms_map :: "(string, nat) dict"

definition MeterService_init :: "meter list \<Rightarrow> meter_service" where
  "MeterService_init heap = \<lparr>ms_meters = heap, ms_map = []\<rparr>"

definition register_meter :: "nat \<Rightarrow> meter_service \<Rightarrow> meter_service" where
  "register_meter i s = s\<lparr>ms_map := dict_set (mi_name (m_id (ms_meters s ! i))) i (ms_map s)\<rparr>"

definition get_meter :: "string \<Rightarrow> meter_service \<Rightarrow> nat option" where
  "get_meter name s = dict_get (ms_map s) name"

text \<open>A builder holds the address of the meter its constructor created.\<close>

definition builder_new :: "meter \<Rightarrow> meter_service \<Rightarrow> nat \<times> meter_service" where
  "builder_new m s = (length (ms_meters s), s\<lparr>ms_meters := ms_meters s @ [m]\<rparr>)"

definition upd_meter :: "nat \<Rightarrow> (meter \<Rightarrow> meter) \<Rightarrow> meter_service \<Rightarrow> meter_service" where
  "upd_meter i f s = s\<lparr>ms_meters := (ms_meters s)[i := f (ms_meters s ! i)]\<rparr>"

definition builder_tag :: "nat \<Rightarrow> string \<Rightarrow> string \<Rightarrow> meter_service \<Rightarrow> meter_service" where
  "builder_tag i name val =
     upd_meter i (\<lambda>m. m\<lparr>m_id := (m_id m)\<lparr>mi_tags := mi_tags (m_id m) @ [MeterTag name val]\<rparr>\<rparr>)"

definition builder_build :: "nat \<Rightarrow> meter_service \<Rightarrow> meter_service" where
  "builder_build i s =
     register_meter i (upd_meter i (\<lambda>m. m\<lparr>m_id := (m_id m)\<lparr>mi_tags := sort (mi_tags (m_id m))\<rparr>\<rparr>) s)"

text \<open>One report round: every registered meter in registration order.\<close>

fun send_all :: "config \<Rightarrow> int \<Rightarrow> nat list \<Rightarrow> meter list \<Rightarrow> meter_data list \<times> meter list" where
  "send_all c now [] ms = ([], ms)"
| "send_all c now (i # is) ms =
     (case meter_transform (ms ! i) of
        ((name, labels, v), m') \<Rightarrow>
          (case send_all c now is (ms[i := m']) of
             (ds, ms') \<Rightarrow>
               (\<lparr>md_name = name, md_labels = labels, md_value = v, md_service = agent_name c,
                 md_service_instance = agent_instance_name c, md_timestamp = now\<rparr> # ds, ms')))"

text \<open>The executor keeps the exceptions of \<open>archive\<close> in futures nobody reads, so a failed hand-over is dropped.\<close>

fun archive_meters :: "real \<Rightarrow> meter_data list \<Rightarrow> ('s, 'l, meter_data, 'n) agent \<Rightarrow> ('s, 'l, meter_data, 'n) agent" where
  "archive_meters now [] a = a"
| "archive_meters now (d # ds) a =
     archive_meters now ds (case archive_meter now d a of Inr a' \<Rightarrow> a' | Inl _ \<Rightarrow> a)"

definition meter_send ::
  "real \<Rightarrow> int \<Rightarrow> meter_service \<times> ('s, 'l, meter_data, 'n) agent \<Rightarrow> meter_service \<times> ('s, 'l, meter_data, 'n) agent" where
  "meter_send clock now sa =
     (case sa of (s, a) \<Rightarrow>
        (case send_all (a_cfg a) now (map snd (ms_map s)) (ms_meters s) of
           (ds, ms') \<Rightarrow> (s\<lparr>ms_meters := ms'\<rparr>, archive_meters clock ds a)))"

text \<open>\<open>meter.init\<close>: a new registry unless one exists and no re-initialisation is forced.\<close>

definition meter_init :: "bool \<Rightarrow> meter list \<Rightarrow> meter_service option \<Rightarrow> meter_service option" where
  "meter_init force heap g = (if g \<noteq> None \<and> \<not> force then g else Some (MeterService_init heap))"

text \<open>The timers: the elapsed time is added when the measured call has returned.\<close>

definition timer_exit :: "real \<Rightarrow> real \<Rightarrow> meter \<Rightarrow> meter" where
  "timer_exit start stop m =
     (case m_body m of
        CounterMeter c \<Rightarrow> m\<lparr>m_body := CounterMeter (counter_increment (stop - start) c)\<rparr>
      | HistogramMeter h \<Rightarrow> m\<lparr>m_body := HistogramMeter (add_value (stop - start) h)\<rparr>
      | _ \<Rightarrow> m)"

section \<open>The binary search\<close>

lemma bisect_inv:
  assumes "left \<le> right" and "right \<le> length bs" and "sorted bs" and "\<forall>i < left. bs ! i < val"
    and "\<forall>i. right \<le> i \<and> i < length bs \<longrightarrow> val \<le> bs ! i"
  shows "bisect bs val left right \<le> length bs
     \<and> (\<forall>i < bisect bs val left right. bs ! i < val)
     \<and> (\<forall>i. bisect bs val left right \<le> i \<and> i < length bs \<longrightarrow> val \<le> bs ! i)"
  using assms
proof (induction bs val left right rule: bisect.induct)
  case (1 bs val left right)
  let ?mid = "(left + right) div 2"
  show ?case
  proof (cases "left < right")
    case True
    then have mid: "left \<le> ?mid" "?mid < right" by simp_all
    show ?thesis
    proof (cases "bs ! ?mid < val")
      case less: True
      have lo: "\<forall>i < ?mid + 1. bs ! i < val"
      proof (intro allI impI)
        fix i assume "i < ?mid + 1"
        then have "bs ! i \<le> bs ! ?mid" using sorted_nth_mono [OF "1.prems"(3), of i ?mid] mid "1.prems"(2) by simp
        with less show "bs ! i < val" by simp
      qed
      have eq: "bisect bs val left right = bisect bs val (?mid + 1) right"
        using True less by (subst bisect.simps) (simp add: Let_def)
      have le: "?mid + 1 \<le> right" using mid(2) by simp
      show ?thesis unfolding eq by (rule "1.IH"(1) [OF True refl less le "1.prems"(2,3) lo "1.prems"(5)])
    next
      case geq: False
      have hi: "\<forall>i. ?mid \<le> i \<and> i < length bs \<longrightarrow> val \<le> bs ! i"
      proof (intro allI impI)
        fix i assume "?mid \<le> i \<and> i < length bs"
        then have "bs ! ?mid \<le> bs ! i" using sorted_nth_mono [OF "1.prems"(3), of ?mid i] by simp
        with geq show "val \<le> bs ! i" by simp
      qed
      have eq: "bisect bs val left right = bisect bs val left ?mid"
        using True geq by (subst bisect.simps) (simp add: Let_def)
      have le: "?mid \<le> length bs" using mid(2) "1.prems"(2) by linarith
      show ?thesis unfolding eq by (rule "1.IH"(2) [OF True refl geq mid(1) le "1.prems"(3,4) hi])
    qed
  next
    case False
    then have "bisect bs val left right = left" by (subst bisect.simps) simp
    with False "1.prems" show ?thesis by simp
  qed
qed

lemma filter_threshold:
  assumes "k \<le> length bs" and "\<forall>i < k. bs ! i < (val :: real)" and "\<forall>i. k \<le> i \<and> i < length bs \<longrightarrow> val \<le> bs ! i"
  shows "length (filter (\<lambda>b. b < val) bs) = k"
proof -
  have "filter (\<lambda>b. b < val) (take k bs) = take k bs"
    using assms(1,2) by (intro filter_True) (auto simp: in_set_conv_nth)
  moreover have "filter (\<lambda>b. b < val) (drop k bs) = []"
    using assms(3) by (intro filter_False) (auto simp: in_set_conv_nth not_less)
  ultimately have "filter (\<lambda>b. b < val) (take k bs @ drop k bs) = take k bs" by (simp only: filter_append append_Nil2)
  then show ?thesis using assms(1) by simp
qed

definition bounds_of :: "histogram \<Rightarrow> real list" where
  "bounds_of h = map bk_bucket (h_buckets h)"

text \<open>What the search finds: the last bucket whose lower bound is strictly below the value.\<close>

lemma find_bucket_result:
  assumes "sorted (bounds_of h)"
  shows "find_bucket val h =
     (let n = length (filter (\<lambda>b. b < val) (bounds_of h)) in if n = 0 then None else Some (n - 1))"
proof -
  let ?k = "bisect (bounds_of h) val 0 (length (bounds_of h))"
  have "length (filter (\<lambda>b. b < val) (bounds_of h)) = ?k" "?k \<le> length (bounds_of h)"
    using bisect_inv [of 0 "length (bounds_of h)" "bounds_of h" val] assms by (auto intro!: filter_threshold)
  then show ?thesis by (auto simp: find_bucket_def bounds_of_def Let_def)
qed

definition in_bucket :: "real list \<Rightarrow> nat \<Rightarrow> real \<Rightarrow> bool" where
  "in_bucket bs i v = (bs ! i < v \<and> (Suc i < length bs \<longrightarrow> v \<le> bs ! Suc i))"

lemma in_bucket_iff:
  assumes "sorted_wrt (<) bs" and "i < length bs"
  shows "in_bucket bs i v \<longleftrightarrow> length (filter (\<lambda>b. b < v) bs) = Suc i"
proof
  assume v: "in_bucket bs i v"
  have "bs ! j < v" if "j < Suc i" for j
    using v that sorted_wrt_nth_less [OF assms(1), of j i] assms(2) by (cases "j = i") (auto simp: in_bucket_def)
  moreover have "v \<le> bs ! j" if "Suc i \<le> j" "j < length bs" for j
    using v that sorted_wrt_nth_less [OF assms(1), of "Suc i" j] by (cases "j = Suc i") (auto simp: in_bucket_def)
  ultimately show "length (filter (\<lambda>b. b < v) bs) = Suc i"
    using assms(2) by (intro filter_threshold) auto
next
  assume n: "length (filter (\<lambda>b. b < v) bs) = Suc i"
  have "sorted bs" using assms(1) strict_sorted_imp_sorted by blast
  then have k: "bisect bs v 0 (length bs) = Suc i" "\<forall>j < Suc i. bs ! j < v" "\<forall>j. Suc i \<le> j \<and> j < length bs \<longrightarrow> v \<le> bs ! j"
    using bisect_inv [of 0 "length bs" bs v] filter_threshold [of "bisect bs v 0 (length bs)" bs v] n by auto
  then show "in_bucket bs i v" by (simp add: in_bucket_def)
qed

lemma add_value_effect:
  assumes "sorted_wrt (<) (bounds_of h)"
  shows "bounds_of (add_value v h) = bounds_of h" and "h_min_value (add_value v h) = h_min_value h"
    and "i < length (h_buckets h) \<Longrightarrow>
       bk_count (h_buckets (add_value v h) ! i) = bk_count (h_buckets h ! i) + (if in_bucket (bounds_of h) i v then 1 else 0)"
proof -
  have s: "sorted (bounds_of h)" using assms strict_sorted_imp_sorted by blast
  show "bounds_of (add_value v h) = bounds_of h" "h_min_value (add_value v h) = h_min_value h"
    by (auto simp: add_value_def bounds_of_def bucket_increment_def map_update list_update_same_conv split: option.split)
      (metis bucket.select_convs(1) length_map list_update_beyond list_update_id map_update not_less nth_map)
  show "bk_count (h_buckets (add_value v h) ! i) = bk_count (h_buckets h ! i) + (if in_bucket (bounds_of h) i v then 1 else 0)"
    if i: "i < length (h_buckets h)"
  proof -
    define n where "n = length (filter (\<lambda>b. b < v) (bounds_of h))"
    have f: "find_bucket v h = (if n = 0 then None else Some (n - 1))"
      using find_bucket_result [OF s, of v] by (simp add: n_def Let_def)
    have n: "in_bucket (bounds_of h) i v \<longleftrightarrow> n = Suc i"
      using in_bucket_iff [OF assms, of i v] i by (simp add: n_def bounds_of_def)
    show ?thesis unfolding n add_value_def f
      using i by (cases n) (simp_all add: bucket_increment_def nth_list_update)
  qed
qed

lemma Histogram_init_bounds:
  assumes "Histogram_init steps mn = Inr h"
  shows "sorted_wrt (<) (bounds_of h)" and "bounds_of h \<noteq> []" and "hd (bounds_of h) = mn" and "h_min_value h = mn"
    and "\<forall>b \<in> set (h_buckets h). bk_count b = 0" and "set (bounds_of h) = insert mn (set steps)"
proof -
  let ?ss = "sort (remdups steps)"
  have "set ?ss = set steps" by simp
  then have ne: "?ss \<noteq> []" "\<not> hd ?ss < mn" and h: "h = \<lparr>h_min_value = mn, h_buckets = init_bucks (if hd ?ss \<noteq> mn then mn # ?ss else ?ss)\<rparr>"
    using assms by (auto simp: Histogram_init_def Let_def split: if_splits simp del: set_sort set_remdups)
  have strict: "sorted_wrt (<) ?ss" by (simp add: strict_sorted_iff)
  have b: "bounds_of h = (if hd ?ss \<noteq> mn then mn # ?ss else ?ss)"
    by (simp add: h bounds_of_def init_bucks_def comp_def)
  have "mn < x" if "hd ?ss \<noteq> mn" "x \<in> set ?ss" for x
  proof -
    obtain y ys where y: "?ss = y # ys" using ne(1) by (cases ?ss) auto
    have "y \<le> x" using strict that(2) y by (auto intro: less_imp_le)
    with ne(2) that(1) y show ?thesis by simp
  qed
  with b strict show "sorted_wrt (<) (bounds_of h)" by simp
  show "bounds_of h \<noteq> []" "hd (bounds_of h) = mn" "h_min_value h = mn" using b ne(1) h by auto
  show "\<forall>b \<in> set (h_buckets h). bk_count b = 0" by (auto simp: h init_bucks_def)
  have "hd ?ss \<in> set ?ss" using ne(1) by (rule hd_in_set)
  then show "set (bounds_of h) = insert mn (set steps)" using b by auto
qed

lemma fold_add_value:
  assumes "sorted_wrt (<) (bounds_of h)"
  shows "bounds_of (fold add_value vs h) = bounds_of h"
    and "i < length (bounds_of h) \<Longrightarrow> bk_count (h_buckets (fold add_value vs h) ! i) =
       bk_count (h_buckets h ! i) + int (length (filter (in_bucket (bounds_of h) i) vs))"
  using assms
proof (induction vs arbitrary: h)
  case (Cons v vs)
  { case 1
    then show ?case using Cons.IH(1) [of "add_value v h"] add_value_effect(1) [OF 1, of v] by simp }
  { case 2
    have "i < length (h_buckets h)" using 2(1) by (simp add: bounds_of_def)
    with 2 show ?case using Cons.IH(2) [of "add_value v h"] add_value_effect(1) [OF 2(2), of v]
      add_value_effect(3) [OF 2(2), where i = i and v = v] by simp }
qed simp_all

section \<open>Reporting rounds\<close>

definition registry_ok :: "meter_service \<Rightarrow> bool" where
  "registry_ok s = (dict_ok (ms_map s) \<and> (\<forall>(k, i) \<in> set (ms_map s). i < length (ms_meters s) \<and> mi_name (m_id (ms_meters s ! i)) = k))"

lemma transform_name: "meter_transform m = ((name, labels, v), m') \<Longrightarrow> name = mi_name (m_id m) \<and> mi_name (m_id m') = mi_name (m_id m)"
  by (auto simp: meter_transform_def transform_tags_def Let_def split: prod.splits meter_body.splits option.splits)

lemma send_all_names:
  assumes "send_all c now is ms = (ds, ms')" and "\<forall>i \<in> set is. i < length ms"
  shows "map md_name ds = map (\<lambda>i. mi_name (m_id (ms ! i))) is \<and> length ms' = length ms
     \<and> map (\<lambda>m. mi_name (m_id m)) ms' = map (\<lambda>m. mi_name (m_id m)) ms
     \<and> (\<forall>d \<in> set ds. md_service d = agent_name c \<and> md_service_instance d = agent_instance_name c \<and> md_timestamp d = now)"
  using assms
proof (induction "is" arbitrary: ms ds)
  case (Cons i "is")
  obtain name labels v m' where t: "meter_transform (ms ! i) = ((name, labels, v), m')" by (metis prod.exhaust)
  obtain ds' where s: "send_all c now is (ms[i := m']) = (ds', ms')"
      "ds = \<lparr>md_name = name, md_labels = labels, md_value = v, md_service = agent_name c,
                 md_service_instance = agent_instance_name c, md_timestamp = now\<rparr> # ds'"
    using Cons.prems(1) t by (auto split: prod.splits)
  have names: "map (\<lambda>m. mi_name (m_id m)) (ms[i := m']) = map (\<lambda>m. mi_name (m_id m)) ms"
    using transform_name [OF t] Cons.prems(2) by (simp add: map_update list_update_same_conv)
  then have "mi_name (m_id (ms[i := m'] ! j)) = mi_name (m_id (ms ! j))" if "j < length ms" for j
    using that by (metis length_list_update nth_map)
  with Cons.IH [OF s(1)] Cons.prems(2) names s(2) transform_name [OF t] show ?case by simp
qed simp

lemma registry_send:
  assumes "registry_ok s" and "send_all c now (map snd (ms_map s)) (ms_meters s) = (ds, ms')"
  shows "map md_name ds = map fst (ms_map s)" and "registry_ok (s\<lparr>ms_meters := ms'\<rparr>)"
    and "\<forall>d \<in> set ds. md_service d = agent_name c \<and> md_service_instance d = agent_instance_name c \<and> md_timestamp d = now"
proof -
  have in_range: "\<forall>i \<in> set (map snd (ms_map s)). i < length (ms_meters s)" using assms(1) by (auto simp: registry_ok_def)
  note r = send_all_names [OF assms(2) in_range]
  have "map (\<lambda>i. mi_name (m_id (ms_meters s ! i))) (map snd (ms_map s)) = map fst (ms_map s)"
    using assms(1) by (auto simp: registry_ok_def)
  with r show "map md_name ds = map fst (ms_map s)" by simp
  have "mi_name (m_id (ms' ! i)) = mi_name (m_id (ms_meters s ! i))" if "i < length (ms_meters s)" for i
    using r that by (metis nth_map)
  with assms(1) r show "registry_ok (s\<lparr>ms_meters := ms'\<rparr>)" by (auto simp: registry_ok_def)
  show "\<forall>d \<in> set ds. md_service d = agent_name c \<and> md_service_instance d = agent_instance_name c \<and> md_timestamp d = now"
    using r by blast
qed

text \<open>The application and the report thread: builders, updates of meters that keep their id, rounds.\<close>

datatype meter_event = EvBuilder | EvTag | EvBuild | EvUpdate | EvRound

inductive meter_step :: "meter_service \<Rightarrow> meter_event \<Rightarrow> meter_service \<Rightarrow> bool" where
  ms_builder: "builder_new m s = (i, t) \<Longrightarrow> meter_step s EvBuilder t"
| ms_tag: "meter_step s EvTag (builder_tag i name v s)"
| ms_build: "i < length (ms_meters s) \<Longrightarrow> meter_step s EvBuild (builder_build i s)"
| ms_update: "meter_step s EvUpdate (upd_meter i (\<lambda>m. m\<lparr>m_body := b\<rparr>) s)"
| ms_round: "send_all c now (map snd (ms_map s)) (ms_meters s) = (ds, ms') \<Longrightarrow> meter_step s EvRound (s\<lparr>ms_meters := ms'\<rparr>)"

lemma registry_upd:
  assumes "registry_ok s" and "\<And>m. mi_name (m_id (f m)) = mi_name (m_id m)"
  shows "registry_ok (upd_meter i f s)"
proof -
  have "mi_name (m_id ((ms_meters s)[i := f (ms_meters s ! i)] ! j)) = mi_name (m_id (ms_meters s ! j))"
    if "j < length (ms_meters s)" for j
    using that assms(2) by (cases "j = i") auto
  with assms(1) show ?thesis by (auto simp: registry_ok_def upd_meter_def)
qed

lemma dict_set_subset: "set (dict_set k v d) \<subseteq> insert (k, v) (set d)"
  by (induction d) auto

lemma registry_register:
  assumes "registry_ok s" and "i < length (ms_meters s)"
  shows "registry_ok (register_meter i s)"
proof -
  have "set (dict_set k i (ms_map s)) \<subseteq> insert (k, i) (set (ms_map s))" for k
    by (rule dict_set_subset)
  then show ?thesis using assms by (fastforce simp: registry_ok_def register_meter_def dict_ok_set)
qed

lemma registry_step: "meter_step s ev t \<Longrightarrow> registry_ok s \<Longrightarrow> registry_ok t"
proof (induction rule: meter_step.induct)
  case (ms_builder m s i t)
  then show ?case by (auto simp: builder_new_def registry_ok_def nth_append less_Suc_eq)
next
  case (ms_build i s)
  then show ?case unfolding builder_build_def
    by (intro registry_register registry_upd) (simp_all add: upd_meter_def)
qed (simp_all add: builder_tag_def registry_upd registry_send)

interpretation metering: machine "\<lambda>s. \<exists>heap. s = MeterService_init heap" meter_step registry_ok
proof unfold_locales
  show "\<And>s. \<exists>heap. s = MeterService_init heap \<Longrightarrow> registry_ok s" by (auto simp: MeterService_init_def registry_ok_def)
  show "\<And>s e t. meter_step s e t \<Longrightarrow> registry_ok s \<Longrightarrow> registry_ok t" by (rule registry_step)
qed

section \<open>Rates\<close>

datatype counter_event = Increment real | Report

fun counter_run :: "counter_event list \<Rightarrow> meter_counter \<Rightarrow> real list \<times> meter_counter" where
  "counter_run [] c = ([], c)"
| "counter_run (Increment v # es) c = counter_run es (counter_increment v c)"
| "counter_run (Report # es) c = (case counter_transform c of (v, c') \<Rightarrow>
     (case counter_run es c' of (vs, c'') \<Rightarrow> (v # vs, c'')))"

fun increments :: "counter_event list \<Rightarrow> real" where
  "increments [] = 0"
| "increments (Increment v # es) = v + increments es"
| "increments (Report # es) = increments es"

lemma counter_run_rate:
  assumes "mc_mode c = RATE"
  shows "sum_list (fst (counter_run es c)) = mc_previous (snd (counter_run es c)) - mc_previous c"
    and "mc_count (snd (counter_run es c)) = mc_count c + increments es"
  using assms
  by (induction es c rule: counter_run.induct)
    (auto simp: counter_increment_def counter_transform_def split: prod.splits)

section \<open>Properties\<close>



text \<open>A rate counter reports every increment exactly once: whatever the interleaving of increments and
  report rounds, the reported values add up to all increments up to the last report, so reported
  plus still unreported amounts to the total.\<close>

theorem rate_counter_accounts:
  assumes "counter_run es (Counter_new RATE) = (vs, c)"
  shows "sum_list vs + (mc_count c - mc_previous c) = increments es \<and> mc_count c = increments es
     \<and> (\<forall>v c'. counter_transform c = (v, c') \<longrightarrow> sum_list (vs @ [v]) = increments es)"
proof -
  have m: "mc_mode (snd (counter_run es c)) = mc_mode c" for es c
    by (induction es c rule: counter_run.induct) (auto simp: counter_increment_def counter_transform_def split: prod.splits)
  show ?thesis
    using counter_run_rate [of "Counter_new RATE" es] m [of es "Counter_new RATE"] assms
    by (auto simp: Counter_new_def counter_transform_def)
qed

theorem rate_counter_accounts_witness:
  "fst (counter_run [Increment 2, Report, Increment 3, Increment 1, Report] (Counter_new RATE)) = [2, 4]
   \<and> sum_list [2, 4 :: real] + 0 = increments [Increment 2, Report, Increment 3, Increment 1, Report]"
  using rate_counter_accounts [OF prod.collapse [symmetric], of "[Increment 2, Report, Increment 3, Increment 1, Report]"]
  by (simp add: Counter_new_def counter_increment_def counter_transform_def)

text \<open>A report round covers the registry: in every reachable state of the meter service the registry
  maps each name to the meter last built under it, and a round produces exactly one data item per
  registered name, in registration order, stamped with the service, the instance and the time.\<close>

theorem report_round_complete:
  assumes "metering.reach s" and "send_all c now (map snd (ms_map s)) (ms_meters s) = (ds, ms')"
  shows "map md_name ds = map fst (ms_map s) \<and> distinct (map md_name ds)
     \<and> (\<forall>name i. get_meter name s = Some i \<longrightarrow> mi_name (m_id (ms_meters s ! i)) = name)
     \<and> (\<forall>d \<in> set ds. md_service d = agent_name c \<and> md_service_instance d = agent_instance_name c \<and> md_timestamp d = now)"
proof -
  have ok: "registry_ok s" by (rule metering.reach_inv [OF assms(1)])
  then have "distinct (map fst (ms_map s))" by (simp add: registry_ok_def dict_ok_def)
  moreover have "mi_name (m_id (ms_meters s ! i)) = name" if "get_meter name s = Some i" for name i
    using ok map_of_SomeD [OF that [unfolded get_meter_def]] by (auto simp: registry_ok_def)
  ultimately show ?thesis using registry_send [OF ok assms(2)] by auto
qed

definition demo_meters :: meter_service where
  "demo_meters = builder_build 0 (snd (builder_new
     \<lparr>m_id = MeterId_init ''c1'' COUNTER None, m_body = CounterMeter (Counter_new INCREMENT)\<rparr> (MeterService_init [])))"

lemma demo_meters_reach: "metering.reach demo_meters"
proof -
  have "metering.reach (MeterService_init [])" by (rule metering.start) blast
  then have "metering.reach (snd (builder_new
     \<lparr>m_id = MeterId_init ''c1'' COUNTER None, m_body = CounterMeter (Counter_new INCREMENT)\<rparr> (MeterService_init [])))"
    by (rule metering.next_state) (rule ms_builder, rule prod.collapse [symmetric])
  then show ?thesis unfolding demo_meters_def
    by (rule metering.next_state) (rule ms_build, simp add: builder_new_def)
qed

theorem report_round_complete_witness:
  "\<forall>c. map md_name (fst (send_all c 7 (map snd (ms_map demo_meters)) (ms_meters demo_meters))) = [''c1'']"
  using report_round_complete [OF demo_meters_reach prod.collapse [symmetric]]
  by (simp add: demo_meters_def builder_build_def builder_new_def register_meter_def upd_meter_def MeterService_init_def
      MeterId_init_def del: send_all.simps)

end
