(* ===== verification/Pvm.thy ===== *)
theory Pvm
  imports Meter
begin

text \<open>
  The meter sources of \<open>skywalking/meter/pvm\<close>.  A source is a class whose methods named \<open>...generator\<close>
  become gauges; the values come from \<open>psutil\<close>, \<open>gc\<close> and the clock, which are arguments here.
\<close>

section \<open>DataSource\<close>

text \<open>\<open>dir(self)\<close> lists the names; \<open>name[:-10]\<close> drops \<open>_generator\<close> (or less, of a shorter name).\<close>

definition gauge_name :: "string \<Rightarrow> string" where
  "gauge_name name = ''instance_pvm_'' @ take (length name - 10) name"

definition register_sources :: "string list \<Rightarrow> string list" where
  "register_sources names = map gauge_name (filter (\<lambda>n. ends_with n ''generator'') names)"

definition generators :: "string list" where
  "generators = [''gc_g0_generator'', ''gc_g1_generator'', ''gc_g2_generator'', ''gc_time_generator'',
     ''process_cpu_utilization_generator'', ''process_mem_utilization_generator'', ''thread_active_count_generator'',
     ''total_cpu_utilization_generator'', ''total_mem_utilization_generator'']"

section \<open>Garbage collection\<close>

record gc_source =
  gc_time :: real
  gc_start :: "real option"

datatype gc_phase = GcStart | GcStop | GcOther

definition gc_init :: gc_source where
  "gc_init = \<lparr>gc_time = 0, gc_start = None\<rparr>"

text \<open>A collection that was running when the callback was registered stops without a start time: the
  attribute is missing.\<close>

fun gc_callback :: "real \<Rightarrow> gc_phase \<Rightarrow> gc_source \<Rightarrow> gc_source res" where
  "gc_callback now GcStart g = Inr (g\<lparr>gc_start := Some now\<rparr>)"
| "gc_callback now GcStop g =
     (case gc_start g of None \<Rightarrow> Inl AttributeError | Some t \<Rightarrow> Inr (g\<lparr>gc_time := (now - t) * 1000\<rparr>))"
| "gc_callback now GcOther g = Inr g"

section \<open>Threads\<close>

text \<open>A process as \<open>psutil\<close> shows it: its number of threads and its children.\<close>

datatype process = Process nat "process list"

fun num_threads :: "process \<Rightarrow> nat" where
  "num_threads (Process n cs) = n"

fun children :: "process \<Rightarrow> process list" where
  "children (Process n cs) = cs"

text \<open>The loop of \<open>thread_active_count_generator\<close>: a queue of processes whose children are appended.\<close>

function count_threads :: "nat \<Rightarrow> process list \<Rightarrow> nat" where
  "count_threads count [] = count"
| "count_threads count (p # ps) = count_threads (count + num_threads p) (ps @ children p)"
  by pat_completeness auto

lemma children_smaller: "(\<Sum>c\<leftarrow>children p. size c) < size p"
proof (cases p)
  case (Process n cs)
  have "(\<Sum>c\<leftarrow>cs. size c) \<le> size_list size cs" by (induction cs) auto
  with Process show ?thesis by simp
qed

termination count_threads
  by (relation "measure (\<lambda>(_, ps). \<Sum>p\<leftarrow>ps. size p)") (use children_smaller in \<open>auto simp: add.commute\<close>)

definition thread_active_count :: "process \<Rightarrow> nat" where
  "thread_active_count p = count_threads 0 [p]"

text \<open>The reference: the threads of a process and of all its descendants.\<close>

fun all_threads :: "process \<Rightarrow> nat" where
  "all_threads (Process n cs) = n + sum_list (map all_threads cs)"

lemma count_threads_eq: "count_threads count ps = count + (\<Sum>p\<leftarrow>ps. all_threads p)"
proof (induction count ps rule: count_threads.induct)
  case (2 count p ps)
  then show ?case by (cases p) simp
qed simp

text \<open>The reported number of threads is the number of threads of the process and of all its
  descendants, each counted once, however deep the process tree; the walk over it terminates.\<close>

theorem thread_count_complete: "thread_active_count p = all_threads p"
  by (simp add: thread_active_count_def count_threads_eq)

text \<open>The names under which the sources of the agent are reported.\<close>

lemma pvm_gauge_names:
  "register_sources generators = [''instance_pvm_gc_g0'', ''instance_pvm_gc_g1'', ''instance_pvm_gc_g2'', ''instance_pvm_gc_time'',
     ''instance_pvm_process_cpu_utilization'', ''instance_pvm_process_mem_utilization'', ''instance_pvm_thread_active_count'',
     ''instance_pvm_total_cpu_utilization'', ''instance_pvm_total_mem_utilization'']"
  by code_simp

end
