(* ===== verification/Tls.thy ===== *)
theory Tls
  imports TlsPem Config
begin

text \<open>
  Collector TLS of \<open>skywalking/utils/tls.py\<close>: which PEM material is used, how it degrades, and the
  temporary files the HTTP reporters need.  The module's global variables are the record
  \<open>tls_state\<close>, together with the temporary files on disk.  The file system, OpenSSL (module \<open>ssl\<close>) and
  grpcio answer through the record \<open>tls_env\<close>; every answer depends on the tick of the call, so files
  may appear, change and vanish between any two calls of the code.  A method is an operation on the
  state that returns or raises (\<open>op\<close> of the prelude); \<open>except\<close> and \<open>finally\<close> are the combinators below.
  The lemmas show which material is handed out, that nothing raises into the host process when the
  environment raises only the documented exceptions, what each degradation keeps, and - through the
  machine of processes that call, fork and exit - that a cached file always holds exactly the cached
  material.
\<close>

section \<open>Exceptions of the operating system\<close>

definition catch :: "(py_error \<Rightarrow> bool) \<Rightarrow> ('a, 'w) op \<Rightarrow> (py_error \<Rightarrow> ('a, 'w) op) \<Rightarrow> ('a, 'w) op" where
  "catch sel f h w = (case f w of (Inl e, w') \<Rightarrow> if sel e then h e w' else (Inl e, w') | r \<Rightarrow> r)"

definition on_error :: "('a, 'w) op \<Rightarrow> (unit, 'w) op \<Rightarrow> ('a, 'w) op" where
  "on_error f g w = (case f w of (Inl e, w') \<Rightarrow> seq g (\<lambda>_. raise_err e) w' | r \<Rightarrow> r)"

definition finally_do :: "('a, 'w) op \<Rightarrow> (unit, 'w) op \<Rightarrow> ('a, 'w) op" where
  "finally_do f g w = (case f w of (r, w') \<Rightarrow> seq g (\<lambda>_. lift_res r) w')"

fun is_OSError :: "py_error \<Rightarrow> bool" where
  "is_OSError (OSError _) = True"
| "is_OSError _ = False"

fun is_ValueError :: "py_error \<Rightarrow> bool" where
  "is_ValueError (ValueError _) = True"
| "is_ValueError _ = False"

fun is_RuntimeError :: "py_error \<Rightarrow> bool" where
  "is_RuntimeError (RuntimeError _) = True"
| "is_RuntimeError NotImplementedError = True"
| "is_RuntimeError _ = False"

definition read_error :: "py_error \<Rightarrow> bool" where
  "read_error e = (is_OSError e \<or> is_ValueError e)"

definition path_error :: "py_error \<Rightarrow> bool" where
  "path_error e = (is_OSError e \<or> is_ValueError e \<or> is_RuntimeError e)"

fun err_text :: "py_error \<Rightarrow> string" where
  "err_text (ValueError s) = s"
| "err_text (KeyError s) = s"
| "err_text (RuntimeError s) = s"
| "err_text (RpcError s) = s"
| "err_text (OSError s) = s"
| "err_text (OtherError s) = s"
| "err_text _ = []"

section \<open>Environment and state\<close>

type_synonym disk = "string \<Rightarrow> string option"

record tls_env =
  fs_resolve :: "nat \<Rightarrow> string \<Rightarrow> (string \<times> bool) res"
  fs_absolute :: "nat \<Rightarrow> string \<Rightarrow> string res"
  fs_getsize :: "nat \<Rightarrow> string \<Rightarrow> int res"
  fs_read :: "nat \<Rightarrow> string \<Rightarrow> string res"
  fs_mkstemp :: "nat \<Rightarrow> string \<Rightarrow> disk \<Rightarrow> string res"
  fs_write :: "nat \<Rightarrow> nat \<Rightarrow> int res"
  fs_unlink :: "nat \<Rightarrow> string \<Rightarrow> bool"
  ssl_cafile :: "nat \<Rightarrow> string \<Rightarrow> unit res"
  ssl_cadata :: "nat \<Rightarrow> string \<Rightarrow> unit res"
  ssl_default :: "nat \<Rightarrow> unit res"
  ssl_chain :: "nat \<Rightarrow> string \<Rightarrow> string \<Rightarrow> unit res"
  grpc_creds :: "nat \<Rightarrow> string option \<Rightarrow> string option \<Rightarrow> string option \<Rightarrow> unit res"

record tls_state =
  ts_tick :: nat
  ts_warned :: "string list"
  ts_log :: "string list"
  ts_disk :: disk
  ts_temp_files :: "string list"
  ts_mtls_key :: "(string \<times> string) option"
  ts_mtls :: "(string \<times> string) option"
  ts_ca_key :: "string option"
  ts_ca :: "string option"
  ts_atexit :: bool

definition tls_init :: tls_state where
  "tls_init = \<lparr>ts_tick = 0, ts_warned = [], ts_log = [], ts_disk = Map.empty, ts_temp_files = [],
     ts_mtls_key = None, ts_mtls = None, ts_ca_key = None, ts_ca = None, ts_atexit = False\<rparr>"

text \<open>One call into the environment: it answers at the current tick, and time passes.\<close>

definition ask :: "(nat \<Rightarrow> 'a res) \<Rightarrow> ('a, tls_state) op" where
  "ask f s = (f (ts_tick s), s\<lparr>ts_tick := Suc (ts_tick s)\<rparr>)"

definition warning :: "string \<Rightarrow> (unit, tls_state) op" where
  "warning m = modify (\<lambda>s. s\<lparr>ts_log := ts_log s @ [m]\<rparr>)"

definition warn_once :: "string \<Rightarrow> string \<Rightarrow> (unit, tls_state) op" where
  "warn_once key message s =
     (if key \<in> set (ts_warned s) then (Inr (), s)
      else warning message (s\<lparr>ts_warned := ts_warned s @ [key]\<rparr>))"

section \<open>Paths\<close>

definition configured_path :: "string \<Rightarrow> string" where
  "configured_path v = strip v"

definition ssl_file_path :: "tls_env \<Rightarrow> string \<Rightarrow> (string option, tls_state) op" where
  "ssl_file_path F v =
     (let path = configured_path v in
      if path = [] then ret None
      else catch path_error
             (seq (ask (\<lambda>t. fs_resolve F t path)) (\<lambda>(resolved, is_file).
              ret (if is_file then Some resolved else None)))
             (\<lambda>_. ret None))"

definition collector_uses_tls :: "tls_env \<Rightarrow> config \<Rightarrow> (bool, tls_state) op" where
  "collector_uses_tls F c =
     (let force = agent_force_tls c;
          ca_cfg = configured_path (agent_ssl_trusted_ca_path c)
      in seq (if ca_cfg \<noteq> [] then ssl_file_path F ca_cfg else ret None) (\<lambda>ca_path.
         seq (if ca_cfg \<noteq> [] \<and> ca_path = None
              then warn_once (''ca-missing:'' @ ca_cfg)
                     (if force then ''custom CA is ignored. FORCE_TLS remains on with the process trust store''
                      else ''TLS via custom CA is disabled and the collector stays plaintext'')
              else ret ()) (\<lambda>_.
         ret (force \<or> ca_path \<noteq> None))))"

section \<open>Reading and checking PEM files\<close>

definition MAX_PEM_BYTES :: int where
  "MAX_PEM_BYTES = 256 * 1024"

definition read_bytes :: "tls_env \<Rightarrow> string \<Rightarrow> (string, tls_state) op" where
  "read_bytes F path =
     seq (ask (\<lambda>t. fs_getsize F t path)) (\<lambda>size.
     if size > MAX_PEM_BYTES then raise_err (ValueError ''SSL PEM file exceeds the limit'')
     else ask (\<lambda>t. fs_read F t path))"

definition load_trusted_ca :: "tls_env \<Rightarrow> string \<Rightarrow> (string, tls_state) op" where
  "load_trusted_ca F path =
     seq (read_bytes F path) (\<lambda>data.
     seq (catch is_OSError (ask (\<lambda>t. ssl_cafile F t path))
            (\<lambda>e. raise_err (ValueError (''Invalid trusted CA PEM '' @ path)))) (\<lambda>_.
     lift_res (extract_ca_pem_blocks data)))"

section \<open>Temporary files\<close>

definition mkstemp :: "tls_env \<Rightarrow> string \<Rightarrow> (string, tls_state) op" where
  "mkstemp F suffix s =
     seq (ask (\<lambda>t. fs_mkstemp F t suffix (ts_disk s))) (\<lambda>path.
     seq (modify (\<lambda>s. s\<lparr>ts_disk := (ts_disk s)(path \<mapsto> [])\<rparr>)) (\<lambda>_.
     ret path)) s"

definition disk_append :: "string \<Rightarrow> string \<Rightarrow> disk \<Rightarrow> disk" where
  "disk_append path data d = d(path := map_option (\<lambda>old. old @ data) (d path))"

definition os_write :: "tls_env \<Rightarrow> string \<Rightarrow> string \<Rightarrow> (int, tls_state) op" where
  "os_write F path data =
     seq (ask (\<lambda>t. fs_write F t (length data))) (\<lambda>written.
     seq (modify (\<lambda>s. s\<lparr>ts_disk := disk_append path (take (nat written) data) (ts_disk s)\<rparr>)) (\<lambda>_.
     ret written))"

definition os_unlink :: "tls_env \<Rightarrow> string \<Rightarrow> (unit, tls_state) op" where
  "os_unlink F path s =
     (Inr (), s\<lparr>ts_tick := Suc (ts_tick s),
               ts_disk := (if fs_unlink F (ts_tick s) path then (ts_disk s)(path := None) else ts_disk s)\<rparr>)"

definition load_cert_chain :: "tls_env \<Rightarrow> string \<Rightarrow> string \<Rightarrow> (unit, tls_state) op" where
  "load_cert_chain F cert_path key_path s =
     (case (ts_disk s cert_path, ts_disk s key_path) of
        (Some cert, Some key) \<Rightarrow> ask (\<lambda>t. ssl_chain F t cert key) s
      | _ \<Rightarrow> raise_err (OSError ''No such file or directory'') s)"

definition validate_client_cert_key :: "tls_env \<Rightarrow> string \<Rightarrow> string \<Rightarrow> (unit, tls_state) op" where
  "validate_client_cert_key F cert_pem key_pem =
     seq (mkstemp F ''.crt'') (\<lambda>cert_path.
     seq (on_error (os_write F cert_path cert_pem) (os_unlink F cert_path)) (\<lambda>_.
     seq (on_error (mkstemp F ''.pem'') (os_unlink F cert_path)) (\<lambda>key_path.
     finally_do (seq (os_write F key_path key_pem) (\<lambda>_. load_cert_chain F cert_path key_path))
       (seq (os_unlink F cert_path) (\<lambda>_. os_unlink F key_path)))))"

function write_loop :: "tls_env \<Rightarrow> string \<Rightarrow> string \<Rightarrow> nat \<Rightarrow> (unit, tls_state) op" where
  "write_loop F path data offset s =
     (if offset < length data then
        (case os_write F path (drop offset data) s of
           (Inl e, s1) \<Rightarrow> (Inl e, s1)
         | (Inr written, s1) \<Rightarrow>
             if written \<le> 0 then (Inl (OSError (''Failed to write SSL PEM temp file '' @ path)), s1)
             else write_loop F path data (offset + nat written) s1)
      else (Inr (), s))"
  by pat_completeness auto
termination
  by (relation "measure (\<lambda>(F, path, data, offset, s). length data - offset)") auto

declare write_loop.simps [simp del]

definition ensure_atexit :: "(unit, tls_state) op" where
  "ensure_atexit = modify (\<lambda>s. s\<lparr>ts_atexit := True\<rparr>)"

definition pem_bytes_to_temp_file :: "tls_env \<Rightarrow> string \<Rightarrow> string \<Rightarrow> (string, tls_state) op" where
  "pem_bytes_to_temp_file F data suffix =
     seq ensure_atexit (\<lambda>_.
     seq (mkstemp F suffix) (\<lambda>path.
     seq (on_error (write_loop F path data 0) (os_unlink F path)) (\<lambda>_.
     seq (modify (\<lambda>s. s\<lparr>ts_temp_files := ts_temp_files s @ [path]\<rparr>)) (\<lambda>_.
     ret path))))"

definition discard_mtls_temp_path :: "tls_env \<Rightarrow> string option \<Rightarrow> (unit, tls_state) op" where
  "discard_mtls_temp_path F p =
     (case p of
        None \<Rightarrow> ret ()
      | Some path \<Rightarrow>
          if path = [] then ret ()
          else seq (os_unlink F path) (\<lambda>_.
               modify (\<lambda>s. s\<lparr>ts_temp_files := remove1 path (ts_temp_files s)\<rparr>)))"

fun cleanup_mtls_temp_files :: "tls_env \<Rightarrow> string list \<Rightarrow> (unit, tls_state) op" where
  "cleanup_mtls_temp_files F [] s =
     (Inr (), s\<lparr>ts_temp_files := [], ts_mtls := None, ts_mtls_key := None, ts_ca := None, ts_ca_key := None\<rparr>)"
| "cleanup_mtls_temp_files F (p # ps) s = seq (os_unlink F p) (\<lambda>_. cleanup_mtls_temp_files F ps) s"

definition after_fork_in_child :: "tls_state \<Rightarrow> tls_state" where
  "after_fork_in_child s =
     s\<lparr>ts_temp_files := [], ts_mtls := None, ts_mtls_key := None, ts_ca := None, ts_ca_key := None\<rparr>"

definition mtls_cert_key_files :: "tls_env \<Rightarrow> string \<Rightarrow> string \<Rightarrow> ((string \<times> string) option, tls_state) op" where
  "mtls_cert_key_files F certificate_chain private_key s =
     (if ts_mtls s \<noteq> None \<and> ts_mtls_key s = Some (certificate_chain, private_key) then (Inr (ts_mtls s), s)
      else case pem_bytes_to_temp_file F certificate_chain ''.crt'' s of
        (Inl e, s1) \<Rightarrow>
          if is_OSError e
          then seq (warn_once (''mtls-temp:'' @ err_text e) ''Failed to write mTLS cert/key temp files'') (\<lambda>_. ret None) s1
          else (Inl e, s1)
      | (Inr cert_path, s1) \<Rightarrow>
          (case pem_bytes_to_temp_file F private_key ''.pem'' s1 of
             (Inl e, s2) \<Rightarrow>
               if is_OSError e
               then seq (discard_mtls_temp_path F (Some cert_path)) (\<lambda>_.
                    seq (warn_once (''mtls-temp:'' @ err_text e) ''Failed to write mTLS cert/key temp files'') (\<lambda>_.
                    ret None)) s2
               else (Inl e, s2)
           | (Inr key_path, s2) \<Rightarrow>
               (Inr (Some (cert_path, key_path)),
                s2\<lparr>ts_mtls_key := Some (certificate_chain, private_key), ts_mtls := Some (cert_path, key_path)\<rparr>)))"

definition ca_verify_temp_file :: "tls_env \<Rightarrow> string \<Rightarrow> (string, tls_state) op" where
  "ca_verify_temp_file F root_certificates s =
     (if ts_ca_key s = Some root_certificates \<and> (case ts_ca s of None \<Rightarrow> False | Some p \<Rightarrow> ts_disk s p \<noteq> None)
      then (Inr (the (ts_ca s)), s)
      else seq (pem_bytes_to_temp_file F root_certificates ''.crt'') (\<lambda>path.
           seq (modify (\<lambda>s. s\<lparr>ts_ca_key := Some root_certificates, ts_ca := Some path\<rparr>)) (\<lambda>_.
           ret path)) s)"

section \<open>PEM material\<close>

type_synonym pem_material = "(string option \<times> string option \<times> string option) option"

definition mtls_material :: "tls_env \<Rightarrow> config \<Rightarrow> bool \<Rightarrow> (string option \<times> string option, tls_state) op" where
  "mtls_material F c ca_usable =
     (let cert_cfg = configured_path (agent_ssl_cert_chain_path c);
          key_cfg = configured_path (agent_ssl_key_path c)
      in if \<not> ca_usable then
           seq (if cert_cfg \<noteq> [] \<or> key_cfg \<noteq> []
                then warn_once (''mtls-without-ca:'' @ cert_cfg @ ''|'' @ key_cfg) ''mTLS is disabled'' else ret ()) (\<lambda>_.
           ret (None, None))
         else if (cert_cfg \<noteq> []) \<noteq> (key_cfg \<noteq> []) then
           seq (warn_once (''mtls-partial:'' @ cert_cfg @ ''|'' @ key_cfg) ''mTLS requires both'') (\<lambda>_.
           ret (None, None))
         else if cert_cfg = [] \<or> key_cfg = [] then ret (None, None)
         else seq (ssl_file_path F cert_cfg) (\<lambda>cert_path.
              seq (ssl_file_path F key_cfg) (\<lambda>key_path.
              case (cert_path, key_path) of
                (Some cp, Some kp) \<Rightarrow>
                  catch read_error
                    (seq (read_bytes F cp) (\<lambda>cert_pem.
                     seq (read_bytes F kp) (\<lambda>raw.
                     seq (lift_res (normalize_private_key_pem raw)) (\<lambda>key_pem.
                     seq (validate_client_cert_key F cert_pem key_pem) (\<lambda>_.
                     ret (Some cert_pem, Some key_pem))))))
                    (\<lambda>e. seq (warning ''Failed to enable mTLS caused by cert or key read error'') (\<lambda>_. ret (None, None)))
              | _ \<Rightarrow> seq (warning ''Failed to enable mTLS caused by cert or key cannot be found.'') (\<lambda>_.
                       ret (None, None)))))"

definition load_ca :: "tls_env \<Rightarrow> string option \<Rightarrow> ((string option, py_error) sum, tls_state) op" where
  "load_ca F ca_path =
     (case ca_path of
        None \<Rightarrow> ret (Inl None)
      | Some p \<Rightarrow> catch read_error (seq (load_trusted_ca F p) (\<lambda>r. ret (Inl (Some r)))) (\<lambda>e. ret (Inr e)))"

definition tls_pem_material :: "tls_env \<Rightarrow> config \<Rightarrow> (pem_material, tls_state) op" where
  "tls_pem_material F c =
     seq (collector_uses_tls F c) (\<lambda>_.
     seq (ssl_file_path F (agent_ssl_trusted_ca_path c)) (\<lambda>ca_path.
     seq (load_ca F ca_path) (\<lambda>loaded.
     let finish = (\<lambda>root ca_usable.
           if \<not> agent_force_tls c \<and> \<not> ca_usable
           then seq (mtls_material F c False) (\<lambda>_. ret None)
           else seq (mtls_material F c ca_usable) (\<lambda>(certificate_chain, private_key).
                ret (Some (root, private_key, certificate_chain))))
     in case loaded of
          Inl None \<Rightarrow> finish None False
        | Inl (Some root) \<Rightarrow> finish (Some root) True
        | Inr e \<Rightarrow>
            if agent_force_tls c
            then seq (warning ''Failed to load trusted CA file; continuing with FORCE_TLS'') (\<lambda>_. finish None False)
            else seq (warning ''Failed to load trusted CA file; collector stays plaintext'') (\<lambda>_.
                 seq (mtls_material F c False) (\<lambda>_. ret None)))))"

definition any_error :: "py_error \<Rightarrow> bool" where
  "any_error e = True"

definition safe_tls_pem_material :: "tls_env \<Rightarrow> config \<Rightarrow> (pem_material, tls_state) op" where
  "safe_tls_pem_material F c =
     catch any_error (tls_pem_material F c)
       (\<lambda>e. seq (warn_once (''tls-material:'' @ err_text e) ''Failed to load collector TLS material'') (\<lambda>_.
            ret (if agent_force_tls c then Some (None, None, None) else None)))"

text \<open>The credentials are identified by the PEM bytes they were built from.\<close>

definition grpc_ssl_credentials :: "tls_env \<Rightarrow> config \<Rightarrow> (pem_material, tls_state) op" where
  "grpc_ssl_credentials F c =
     (let build = (\<lambda>root key chain.
            seq (ask (\<lambda>t. grpc_creds F t root key chain)) (\<lambda>_. ret (Some (root, key, chain))))
      in seq (tls_pem_material F c) (\<lambda>material.
         case material of
           None \<Rightarrow> ret None
         | Some (root, key, chain) \<Rightarrow>
             catch any_error (build root key chain) (\<lambda>e.
               if key \<noteq> None \<or> chain \<noteq> None then
                 seq (warn_once (''grpc-creds-mtls:'' @ err_text e) ''retrying one-way TLS'') (\<lambda>_.
                 catch any_error (build root None None) (\<lambda>e1.
                   seq (warn_once (''grpc-creds-oneway:'' @ err_text e1) ''collector stays plaintext'') (\<lambda>_. ret None)))
               else if agent_force_tls c then
                 seq (warn_once (''grpc-creds-force:'' @ err_text e) ''continuing with FORCE_TLS and the process trust store'') (\<lambda>_.
                 catch any_error (build None None None) (\<lambda>e1.
                   seq (warn_once (''grpc-creds-force-fail:'' @ err_text e1) ''collector stays plaintext'') (\<lambda>_. ret None)))
               else
                 seq (warn_once (''grpc-creds:'' @ err_text e) ''collector stays plaintext'') (\<lambda>_. ret None))))"

section \<open>HTTP reporters\<close>

text \<open>An optional \<open>material\<close> argument: \<open>None\<close> is the sentinel that loads it here.\<close>

definition given_material :: "tls_env \<Rightarrow> config \<Rightarrow> pem_material option \<Rightarrow> (pem_material, tls_state) op" where
  "given_material F c material = (case material of None \<Rightarrow> tls_pem_material F c | Some m \<Rightarrow> ret m)"

definition collector_http_scheme :: "tls_env \<Rightarrow> config \<Rightarrow> pem_material option \<Rightarrow> (string, tls_state) op" where
  "collector_http_scheme F c material =
     catch any_error
       (seq (given_material F c material) (\<lambda>m. ret (if m \<noteq> None then ''https://'' else ''http://'')))
       (\<lambda>e. seq (warn_once (''http-scheme:'' @ err_text e) ''Failed to decide collector HTTP scheme'') (\<lambda>_.
            ret (if agent_force_tls c then ''https://'' else ''http://'')))"

definition configured_ca_path_for_verify :: "tls_env \<Rightarrow> config \<Rightarrow> (string option, tls_state) op" where
  "configured_ca_path_for_verify F c =
     (let path = configured_path (agent_ssl_trusted_ca_path c) in
      if path = [] then ret None
      else seq (ssl_file_path F path) (\<lambda>r.
           case r of
             None \<Rightarrow> ret None
           | Some _ \<Rightarrow> catch path_error (seq (ask (\<lambda>t. fs_absolute F t path)) (\<lambda>p. ret (Some p))) (\<lambda>_. ret None)))"

definition ca_pem_has_trusted_certificate :: "string \<Rightarrow> bool" where
  "ca_pem_has_trusted_certificate root = contains ''BEGIN TRUSTED CERTIFICATE'' root"

datatype verify_setting = SystemStore | CaPath string

definition requests_tls_settings ::
  "tls_env \<Rightarrow> config \<Rightarrow> pem_material option \<Rightarrow> (verify_setting \<times> (string \<times> string) option, tls_state) op" where
  "requests_tls_settings F c material =
     seq (given_material F c material) (\<lambda>m.
     case m of
       None \<Rightarrow> ret (SystemStore, None)
     | Some (root, key, chain) \<Rightarrow>
         seq (case root of
                None \<Rightarrow> ret SystemStore
              | Some r \<Rightarrow>
                  catch is_OSError (seq (ca_verify_temp_file F r) (\<lambda>p. ret (CaPath p))) (\<lambda>e.
                    seq (configured_ca_path_for_verify F c) (\<lambda>ca_verify.
                    case ca_verify of
                      Some p \<Rightarrow> seq (warn_once (''requests-ca-temp:'' @ err_text e) ''falling back to configured CA path'')
                                  (\<lambda>_. ret (CaPath p))
                    | None \<Rightarrow> seq (warn_once (''requests-ca-temp:'' @ err_text e) ''using process trust store'')
                                (\<lambda>_. ret SystemStore)))) (\<lambda>verify.
         case (key, chain) of
           (Some k, Some ch) \<Rightarrow> seq (mtls_cert_key_files F ch k) (\<lambda>pair. ret (verify, pair))
         | _ \<Rightarrow> ret (verify, None)))"

record session =
  se_verify :: verify_setting
  se_cert :: "(string \<times> string) option"

definition configure_requests_session ::
  "tls_env \<Rightarrow> config \<Rightarrow> pem_material option \<Rightarrow> session \<Rightarrow> (session, tls_state) op" where
  "configure_requests_session F c material se =
     catch any_error
       (seq (requests_tls_settings F c material) (\<lambda>(verify, cert).
        ret (let se1 = se\<lparr>se_verify := verify\<rparr> in if cert \<noteq> None then se1\<lparr>se_cert := cert\<rparr> else se1)))
       (\<lambda>e. seq (warn_once (''requests-tls:'' @ err_text e) ''Failed to configure HTTP reporter TLS'') (\<lambda>_.
            seq (if agent_force_tls c then ret True
                 else seq (ssl_file_path F (agent_ssl_trusted_ca_path c)) (\<lambda>p. ret (p \<noteq> None))) (\<lambda>custom.
            if custom
            then seq (configured_ca_path_for_verify F c) (\<lambda>ca_verify.
                 ret (se\<lparr>se_verify := (case ca_verify of Some p \<Rightarrow> CaPath p | None \<Rightarrow> SystemStore), se_cert := None\<rparr>))
            else ret se)))"

section \<open>SSL contexts\<close>

datatype trust = SystemTrust | CaData string | CaFile string

record ssl_context =
  sc_trust :: trust
  sc_client :: "(string \<times> string) option"

definition load_ca_via_cafile :: "tls_env \<Rightarrow> config \<Rightarrow> string \<Rightarrow> (trust res, tls_state) op" where
  "load_ca_via_cafile F c root =
     catch is_OSError
       (seq (ca_verify_temp_file F root) (\<lambda>cafile.
        seq (ask (\<lambda>t. ssl_cafile F t cafile)) (\<lambda>_. ret (Inr (CaFile cafile)))))
       (\<lambda>temp_exc. seq (configured_ca_path_for_verify F c) (\<lambda>ca_verify.
          case ca_verify of
            Some p \<Rightarrow> catch is_OSError (seq (ask (\<lambda>t. ssl_cafile F t p)) (\<lambda>_. ret (Inr (CaFile p))))
                        (\<lambda>path_exc. ret (Inl path_exc))
          | None \<Rightarrow> ret (Inl temp_exc)))"

definition load_custom_ca :: "tls_env \<Rightarrow> config \<Rightarrow> string \<Rightarrow> (trust res, tls_state) op" where
  "load_custom_ca F c root =
     (if ca_pem_has_trusted_certificate root then load_ca_via_cafile F c root
      else catch read_error
             (seq (if is_ascii root then ask (\<lambda>t. ssl_cadata F t root)
                   else raise_err (ValueError ''ascii codec cannot decode'')) (\<lambda>_.
              ret (Inr (CaData root))))
             (\<lambda>_. load_ca_via_cafile F c root))"

definition system_trust_context :: "tls_env \<Rightarrow> (trust option, tls_state) op" where
  "system_trust_context F =
     catch is_OSError (seq (ask (\<lambda>t. ssl_default F t)) (\<lambda>_. ret (Some SystemTrust)))
       (\<lambda>e. seq (warn_once (''ssl-ctx-system:'' @ err_text e) ''collector stays plaintext'') (\<lambda>_. ret None))"

definition add_client_identity ::
  "tls_env \<Rightarrow> string option \<Rightarrow> string option \<Rightarrow> ssl_context \<Rightarrow> (ssl_context option, tls_state) op" where
  "add_client_identity F key chain ctx =
     (case (key, chain) of
        (Some k, Some ch) \<Rightarrow>
          seq (mtls_cert_key_files F ch k) (\<lambda>pair.
          case pair of
            None \<Rightarrow> ret (Some ctx)
          | Some (cert_file, key_file) \<Rightarrow>
              catch is_OSError
                (seq (load_cert_chain F cert_file key_file) (\<lambda>_. ret (Some (ctx\<lparr>sc_client := Some (ch, k)\<rparr>))))
                (\<lambda>e. seq (warn_once (''ssl-ctx-mtls:'' @ err_text e) ''staying on one-way TLS'') (\<lambda>_. ret (Some ctx))))
      | _ \<Rightarrow> ret (Some ctx))"

definition ssl_context_for_collector ::
  "tls_env \<Rightarrow> config \<Rightarrow> pem_material option \<Rightarrow> (ssl_context option, tls_state) op" where
  "ssl_context_for_collector F c material =
     seq (given_material F c material) (\<lambda>m.
     let on_system = (\<lambda>key chain. seq (system_trust_context F) (\<lambda>t.
           case t of None \<Rightarrow> ret None
           | Some tr \<Rightarrow> add_client_identity F key chain \<lparr>sc_trust = tr, sc_client = None\<rparr>))
     in case m of
       None \<Rightarrow> ret None
     | Some (None, key, chain) \<Rightarrow> on_system key chain
     | Some (Some root, key, chain) \<Rightarrow>
         seq (load_custom_ca F c root) (\<lambda>loaded.
         case loaded of
           Inr tr \<Rightarrow> add_client_identity F key chain \<lparr>sc_trust = tr, sc_client = None\<rparr>
         | Inl e \<Rightarrow>
             if agent_force_tls c
             then seq (warn_once (''ssl-ctx-ca:'' @ err_text e) ''continuing with FORCE_TLS and the process trust store'')
                    (\<lambda>_. on_system None None)
             else seq (warn_once (''ssl-ctx-ca-plain:'' @ err_text e) ''collector stays plaintext'') (\<lambda>_. ret None)))"

section \<open>Rules for the operations\<close>

text \<open>
  \<open>tls_ok E P f\<close>: whatever the state, a value returned by \<open>f\<close> satisfies \<open>P\<close> and an exception raised by
  \<open>f\<close> satisfies \<open>E\<close>.
\<close>

definition tls_ok :: "(py_error \<Rightarrow> bool) \<Rightarrow> ('a \<Rightarrow> bool) \<Rightarrow> ('a, tls_state) op \<Rightarrow> bool" where
  "tls_ok E P f = (\<forall>s s'. (\<forall>e. f s = (Inl e, s') \<longrightarrow> E e) \<and> (\<forall>x. f s = (Inr x, s') \<longrightarrow> P x))"

named_theorems tls_rules \<open>results and exceptions of the TLS operations\<close>

lemma seq_Inl_iff:
  "seq f g w = (Inl e, w') \<longleftrightarrow> f w = (Inl e, w') \<or> (\<exists>x w1. f w = (Inr x, w1) \<and> g x w1 = (Inl e, w'))"
  by (auto simp: seq_def split: prod.splits sum.splits)

lemma catch_iff:
  "catch sel f h w = r \<longleftrightarrow>
     (\<exists>x w'. f w = (Inr x, w') \<and> r = (Inr x, w'))
     \<or> (\<exists>e w'. f w = (Inl e, w') \<and> (if sel e then h e w' = r else r = (Inl e, w')))"
  by (auto simp: catch_def split: prod.splits sum.splits)

lemma on_error_iff:
  "on_error f g w = r \<longleftrightarrow>
     (\<exists>x w'. f w = (Inr x, w') \<and> r = (Inr x, w'))
     \<or> (\<exists>e w'. f w = (Inl e, w') \<and> seq g (\<lambda>_. raise_err e) w' = r)"
  by (auto simp: on_error_def split: prod.splits sum.splits)

lemma finally_iff: "finally_do f g w = r \<longleftrightarrow> (\<exists>q w'. f w = (q, w') \<and> seq g (\<lambda>_. lift_res q) w' = r)"
  by (auto simp: finally_do_def split: prod.splits)

lemma tls_ok_seq: "tls_ok E Q f \<Longrightarrow> (\<And>x. Q x \<Longrightarrow> tls_ok E P (g x)) \<Longrightarrow> tls_ok E P (seq f g)"
  unfolding tls_ok_def seq_Inl_iff seq_Inr_iff by blast

lemma tls_ok_catch:
  "tls_ok E' P f \<Longrightarrow> (\<And>e. E' e \<Longrightarrow> sel e \<Longrightarrow> tls_ok E P (h e)) \<Longrightarrow> (\<And>e. E' e \<Longrightarrow> \<not> sel e \<Longrightarrow> E e)
     \<Longrightarrow> tls_ok E P (catch sel f h)"
  unfolding tls_ok_def catch_iff by (auto split: if_splits; blast)

lemma tls_ok_ret: "P x \<Longrightarrow> tls_ok E P (ret x)"
  by (simp add: tls_ok_def)

lemma tls_ok_raise: "E e \<Longrightarrow> tls_ok E P (raise_err e)"
  by (simp add: tls_ok_def)

lemma tls_ok_modify: "P () \<Longrightarrow> tls_ok E P (modify f)"
  by (simp add: tls_ok_def)

lemma tls_ok_lift: "(\<And>x. r = Inr x \<Longrightarrow> P x) \<Longrightarrow> (\<And>e. r = Inl e \<Longrightarrow> E e) \<Longrightarrow> tls_ok E P (lift_res r)"
  by (auto simp: tls_ok_def)

lemma tls_ok_ask:
  "(\<And>t x. f t = Inr x \<Longrightarrow> P x) \<Longrightarrow> (\<And>t e. f t = Inl e \<Longrightarrow> E e) \<Longrightarrow> tls_ok E P (ask f)"
  by (auto simp: tls_ok_def ask_def)

lemma tls_ok_weaken: "tls_ok E' P' f \<Longrightarrow> (\<And>e. E' e \<Longrightarrow> E e) \<Longrightarrow> (\<And>x. P' x \<Longrightarrow> P x) \<Longrightarrow> tls_ok E P f"
  unfolding tls_ok_def by blast

lemma tls_ok_on_error: "tls_ok E P f \<Longrightarrow> tls_ok E (\<lambda>_. True) g \<Longrightarrow> tls_ok E P (on_error f g)"
  unfolding tls_ok_def on_error_iff by (auto simp: seq_Inl_iff seq_Inr_iff)

lemma tls_ok_finally: "tls_ok E P f \<Longrightarrow> tls_ok E (\<lambda>_. True) g \<Longrightarrow> tls_ok E P (finally_do f g)"
  unfolding tls_ok_def finally_iff by (auto simp: seq_Inl_iff seq_Inr_iff)

lemma tls_ok_state: "(\<And>s. tls_ok E P (g s)) \<Longrightarrow> tls_ok E P (\<lambda>s. g s s)"
  by (simp add: tls_ok_def)

lemma tls_ok_warning [tls_rules]: "tls_ok E (\<lambda>_. True) (warning m)"
  by (simp add: tls_ok_def warning_def)

lemma tls_ok_warn_once [tls_rules]: "tls_ok E (\<lambda>_. True) (warn_once k m)"
  by (simp add: tls_ok_def warn_once_def warning_def)

lemma tls_ok_unlink [tls_rules]: "tls_ok E (\<lambda>_. True) (os_unlink F p)"
  by (simp add: tls_ok_def os_unlink_def)

section \<open>Documented exceptions\<close>

text \<open>
  What the standard library documents: path resolution raises \<open>OSError\<close>, \<open>ValueError\<close> (embedded NUL) or
  \<open>RuntimeError\<close> (unknown user, symlink loop); file calls raise \<open>OSError\<close>; \<open>ssl\<close> raises \<open>SSLError\<close>, a
  subclass of \<open>OSError\<close>, and \<open>ValueError\<close> for malformed \<open>cadata\<close>.  grpcio may raise anything.
\<close>

definition raises_only :: "(py_error \<Rightarrow> bool) \<Rightarrow> 'a res \<Rightarrow> bool" where
  "raises_only E r = (\<forall>e. r = Inl e \<longrightarrow> E e)"

definition env_documented :: "tls_env \<Rightarrow> bool" where
  "env_documented F =
     (\<forall>t. (\<forall>p. raises_only path_error (fs_resolve F t p) \<and> raises_only path_error (fs_absolute F t p)
             \<and> raises_only is_OSError (fs_getsize F t p) \<and> raises_only is_OSError (fs_read F t p)
             \<and> raises_only is_OSError (ssl_cafile F t p) \<and> raises_only read_error (ssl_cadata F t p)
             \<and> (\<forall>q. raises_only is_OSError (ssl_chain F t p q))
             \<and> (\<forall>d. raises_only is_OSError (fs_mkstemp F t p d)))
          \<and> (\<forall>n. raises_only is_OSError (fs_write F t n))
          \<and> raises_only is_OSError (ssl_default F t))"

lemma env_documentedD:
  assumes "env_documented F"
  shows "fs_resolve F t p = Inl e \<Longrightarrow> path_error e" "fs_absolute F t p = Inl e \<Longrightarrow> path_error e"
    "fs_getsize F t p = Inl e \<Longrightarrow> is_OSError e" "fs_read F t p = Inl e \<Longrightarrow> is_OSError e"
    "ssl_cafile F t p = Inl e \<Longrightarrow> is_OSError e" "ssl_cadata F t p = Inl e \<Longrightarrow> read_error e"
    "ssl_chain F t p q = Inl e \<Longrightarrow> is_OSError e" "fs_mkstemp F t p d = Inl e \<Longrightarrow> is_OSError e"
    "fs_write F t n = Inl e \<Longrightarrow> is_OSError e" "ssl_default F t = Inl e \<Longrightarrow> is_OSError e"
  using assms by (simp_all add: env_documented_def raises_only_def)

lemma a2b_Inl: "a2b_base64 q l p s = Inl e \<Longrightarrow> is_ValueError e"
proof (induction s arbitrary: q l p)
  case (Cons c s)
  then show ?case
    by (auto simp: cons_byte_def bind_res_def Let_def split: if_splits option.splits sum.splits)
qed (auto split: if_splits)

lemma normalize_Inl: "normalize_private_key_pem k = Inl e \<Longrightarrow> is_ValueError e"
  by (auto simp: normalize_private_key_pem_def Let_def bind_res_def pem_payload_def std_b64decode_def
      dest: a2b_Inl split: if_splits sum.splits option.splits)

lemma extract_Inl: "extract_ca_pem_blocks d = Inl e \<Longrightarrow> is_ValueError e"
  by (auto simp: extract_ca_pem_blocks_def Let_def split: if_splits)

abbreviation no_error :: "py_error \<Rightarrow> bool" where
  "no_error \<equiv> \<lambda>_. False"

lemma ssl_file_path_ok [tls_rules]:
  "env_documented F \<Longrightarrow> tls_ok E (\<lambda>_. True) (ssl_file_path F v)"
  unfolding ssl_file_path_def Let_def
  by (auto intro!: tls_ok_ret tls_ok_catch [where E' = path_error] tls_ok_seq [where Q = "\<lambda>_. True"] tls_ok_ask
      dest: env_documentedD)

lemma collector_uses_tls_ok [tls_rules]:
  "env_documented F \<Longrightarrow> tls_ok E (\<lambda>b. agent_force_tls c \<longrightarrow> b) (collector_uses_tls F c)"
  unfolding collector_uses_tls_def Let_def
  by (auto intro!: tls_ok_ret tls_ok_seq [where Q = "\<lambda>_. True"] ssl_file_path_ok tls_ok_warn_once)

lemma read_bytes_ok:
  "env_documented F \<Longrightarrow> tls_ok read_error (\<lambda>d. \<exists>t. fs_read F t p = Inr d) (read_bytes F p)"
  unfolding read_bytes_def
  by (rule tls_ok_seq [where Q = "\<lambda>_. True"])
    (use env_documentedD in \<open>auto intro!: tls_ok_ask tls_ok_raise simp: read_error_def intro: exI\<close>)


lemma load_trusted_ca_ok:
  assumes "env_documented F"
  shows "tls_ok read_error (\<lambda>r. \<exists>t t' d. fs_read F t p = Inr d \<and> ssl_cafile F t' p = Inr () \<and> extract_ca_pem_blocks d = Inr r)
           (load_trusted_ca F p)"
  unfolding load_trusted_ca_def
proof (rule tls_ok_seq [OF read_bytes_ok [OF assms]])
  fix d assume d: "\<exists>t. fs_read F t p = Inr d"
  show "tls_ok read_error (\<lambda>r. \<exists>t t' d. fs_read F t p = Inr d \<and> ssl_cafile F t' p = Inr () \<and> extract_ca_pem_blocks d = Inr r)
      (seq (catch is_OSError (ask (\<lambda>t. ssl_cafile F t p)) (\<lambda>e. raise_err (ValueError (''Invalid trusted CA PEM '' @ p))))
        (\<lambda>_. lift_res (extract_ca_pem_blocks d)))"
  proof (rule tls_ok_seq [where Q = "\<lambda>_. \<exists>t'. ssl_cafile F t' p = Inr ()"])
    show "tls_ok read_error (\<lambda>_. \<exists>t'. ssl_cafile F t' p = Inr ())
        (catch is_OSError (ask (\<lambda>t. ssl_cafile F t p)) (\<lambda>e. raise_err (ValueError (''Invalid trusted CA PEM '' @ p))))"
      using env_documentedD(5) [OF assms]
      by (auto intro!: tls_ok_catch [where E' = is_OSError] tls_ok_ask tls_ok_raise simp: read_error_def)
    fix u :: unit
    assume "\<exists>t'. ssl_cafile F t' p = Inr ()"
    with d show "tls_ok read_error
        (\<lambda>r. \<exists>t t' d. fs_read F t p = Inr d \<and> ssl_cafile F t' p = Inr () \<and> extract_ca_pem_blocks d = Inr r)
        (lift_res (extract_ca_pem_blocks d))"
      by (intro tls_ok_lift) (auto simp: read_error_def dest: extract_Inl)
  qed
qed

lemma mkstemp_ok: "env_documented F \<Longrightarrow> tls_ok is_OSError (\<lambda>_. True) (mkstemp F sfx)"
  by (auto simp: tls_ok_def mkstemp_def seq_def ask_def split: sum.splits dest: env_documentedD(8))

lemma os_write_ok: "env_documented F \<Longrightarrow> tls_ok is_OSError (\<lambda>_. True) (os_write F p d)"
  unfolding os_write_def
  by (use env_documentedD(9) in
      \<open>auto intro!: tls_ok_seq [where Q = "\<lambda>_. True"] tls_ok_ask tls_ok_modify tls_ok_ret\<close>)

lemma load_cert_chain_ok: "env_documented F \<Longrightarrow> tls_ok is_OSError (\<lambda>_. True) (load_cert_chain F p q)"
  unfolding load_cert_chain_def
  by (auto simp: tls_ok_def ask_def split: option.splits dest: env_documentedD(7))

lemma validate_ok: "env_documented F \<Longrightarrow> tls_ok is_OSError (\<lambda>_. True) (validate_client_cert_key F c k)"
  unfolding validate_client_cert_key_def
  by (intro tls_ok_seq [where Q = "\<lambda>_. True"] mkstemp_ok tls_ok_on_error os_write_ok tls_ok_unlink tls_ok_finally
      load_cert_chain_ok)

lemma write_loop_ok:
  "env_documented F \<Longrightarrow> write_loop F p d n s = (Inl e, s') \<Longrightarrow> is_OSError e"
proof (induction F p d n s rule: write_loop.induct)
  case (1 F p d n s)
  from 1(3) show ?case
    by (subst (asm) write_loop.simps)
      (use 1(1,2) os_write_ok [OF 1(2)] in \<open>auto simp: tls_ok_def split: if_splits prod.splits sum.splits\<close>)
qed

lemma pem_temp_ok: "env_documented F \<Longrightarrow> tls_ok is_OSError (\<lambda>_. True) (pem_bytes_to_temp_file F d sfx)"
  unfolding pem_bytes_to_temp_file_def ensure_atexit_def
  by (intro tls_ok_seq [where Q = "\<lambda>_. True"] mkstemp_ok tls_ok_on_error tls_ok_unlink tls_ok_modify tls_ok_ret)
    (auto simp: tls_ok_def dest: write_loop_ok)

lemma ca_temp_ok: "env_documented F \<Longrightarrow> tls_ok is_OSError (\<lambda>_. True) (ca_verify_temp_file F r)"
  using pem_temp_ok [of F r "''.crt''"]
  by (auto simp: tls_ok_def ca_verify_temp_file_def seq_Inl_iff)

lemma discard_ok: "tls_ok E (\<lambda>_. True) (discard_mtls_temp_path F p)"
  unfolding discard_mtls_temp_path_def
  by (auto intro!: tls_ok_seq [where Q = "\<lambda>_. True"] tls_ok_unlink tls_ok_modify tls_ok_ret split: option.split)

lemma mtls_files_ok [tls_rules]: "env_documented F \<Longrightarrow> tls_ok E (\<lambda>_. True) (mtls_cert_key_files F ch k)"
proof -
  assume F: "env_documented F"
  have w: "tls_ok E (\<lambda>_. True) (seq (warn_once m m') (\<lambda>_. ret None))" for m m'
    by (intro tls_ok_seq [where Q = "\<lambda>_. True"] tls_ok_warn_once tls_ok_ret TrueI)
  have d: "tls_ok E (\<lambda>_. True) (seq (discard_mtls_temp_path F p) (\<lambda>_. seq (warn_once m m') (\<lambda>_. ret None)))" for m m' p
    by (intro tls_ok_seq [where Q = "\<lambda>_. True"] w discard_ok)
  show ?thesis
    using pem_temp_ok [OF F, of ch "''.crt''"] pem_temp_ok [OF F, of k "''.pem''"] w d
    by (auto simp: tls_ok_def mtls_cert_key_files_def split: if_splits prod.splits sum.splits; blast)
qed

section \<open>Which material is handed out\<close>

definition ca_loaded :: "tls_env \<Rightarrow> string \<Rightarrow> bool" where
  "ca_loaded F r = (\<exists>p t t' d. fs_read F t p = Inr d \<and> ssl_cafile F t' p = Inr () \<and> extract_ca_pem_blocks d = Inr r)"

definition client_loaded :: "tls_env \<Rightarrow> string \<Rightarrow> string \<Rightarrow> bool" where
  "client_loaded F ch k =
     (\<exists>cp kp t t' raw. fs_read F t cp = Inr ch \<and> fs_read F t' kp = Inr raw \<and> normalize_private_key_pem raw = Inr k)"

definition client_ok :: "tls_env \<Rightarrow> bool \<Rightarrow> string option \<times> string option \<Rightarrow> bool" where
  "client_ok F usable =
     (\<lambda>(ch, k). (ch = None \<longleftrightarrow> k = None) \<and> (\<forall>c' k'. ch = Some c' \<longrightarrow> k = Some k' \<longrightarrow> usable \<and> client_loaded F c' k'))"

definition material_ok :: "tls_env \<Rightarrow> config \<Rightarrow> pem_material \<Rightarrow> bool" where
  "material_ok F c m =
     (case m of
        None \<Rightarrow> \<not> agent_force_tls c
      | Some (root, key, chain) \<Rightarrow>
          (root = None \<longrightarrow> agent_force_tls c) \<and> (\<forall>r. root = Some r \<longrightarrow> ca_loaded F r)
          \<and> client_ok F (root \<noteq> None) (chain, key))"

lemma client_ok_None [simp]: "client_ok F u (None, None)"
  by (simp add: client_ok_def)

lemma read_client_ok:
  assumes "env_documented F"
  shows "tls_ok read_error (client_ok F True)
     (seq (read_bytes F cp) (\<lambda>cert_pem. seq (read_bytes F kp) (\<lambda>raw.
      seq (lift_res (normalize_private_key_pem raw)) (\<lambda>key_pem.
      seq (validate_client_cert_key F cert_pem key_pem) (\<lambda>_. ret (Some cert_pem, Some key_pem))))))"
proof (rule tls_ok_seq [OF read_bytes_ok [OF assms]], rule tls_ok_seq [OF read_bytes_ok [OF assms]])
  fix ch raw
  assume r: "\<exists>t. fs_read F t cp = Inr ch" "\<exists>t. fs_read F t kp = Inr raw"
  have v: "tls_ok read_error (\<lambda>_. True) (validate_client_cert_key F ch k)" for k
    by (rule tls_ok_weaken [OF validate_ok [OF assms]]) (auto simp: read_error_def)
  show "tls_ok read_error (client_ok F True) (seq (lift_res (normalize_private_key_pem raw)) (\<lambda>key_pem.
      seq (validate_client_cert_key F ch key_pem) (\<lambda>_. ret (Some ch, Some key_pem))))"
  proof (rule tls_ok_seq [where Q = "\<lambda>k. normalize_private_key_pem raw = Inr k"])
    show "tls_ok read_error (\<lambda>k. normalize_private_key_pem raw = Inr k) (lift_res (normalize_private_key_pem raw))"
      by (rule tls_ok_lift) (auto simp: read_error_def dest: normalize_Inl)
    fix k assume "normalize_private_key_pem raw = Inr k"
    with r show "tls_ok read_error (client_ok F True) (seq (validate_client_cert_key F ch k) (\<lambda>_. ret (Some ch, Some k)))"
      by (intro tls_ok_seq [OF v] tls_ok_ret) (auto simp: client_ok_def client_loaded_def)
  qed
qed

lemma warned_ret_ok:
  "P x \<Longrightarrow> tls_ok E P (seq (warn_once k m) (\<lambda>_. ret x))" "P x \<Longrightarrow> tls_ok E P (seq (warning m) (\<lambda>_. ret x))"
  "P x \<Longrightarrow> tls_ok E P (seq (ret ()) (\<lambda>_. ret x))"
  by (auto intro!: tls_ok_seq [where Q = "\<lambda>_. True"] tls_ok_warn_once tls_ok_warning tls_ok_ret)

lemma mtls_material_ok [tls_rules]:
  assumes "env_documented F"
  shows "tls_ok E (client_ok F u) (mtls_material F c u)"
  unfolding mtls_material_def Let_def
  by (auto intro!: warned_ret_ok tls_ok_ret tls_ok_seq [OF ssl_file_path_ok [OF assms]]
      tls_ok_catch [OF read_client_ok [OF assms]] simp del: op_simps split: if_split option.split)

lemma load_ca_ok:
  assumes "env_documented F"
  shows "tls_ok E (\<lambda>r. \<forall>x. r = Inl (Some x) \<longrightarrow> ca_loaded F x) (load_ca F p)"
proof -
  have "tls_ok read_error (\<lambda>r. \<forall>x. r = Inl (Some x) \<longrightarrow> ca_loaded F x) (seq (load_trusted_ca F q) (\<lambda>r. ret (Inl (Some r))))" for q
    by (rule tls_ok_seq [OF load_trusted_ca_ok [OF assms]], rule tls_ok_ret) (auto simp: ca_loaded_def)
  note load = tls_ok_catch [OF this]
  show ?thesis
    unfolding load_ca_def by (auto intro!: load tls_ok_ret simp del: op_simps split: option.split)
qed

lemma tls_pem_material_ok [tls_rules]:
  assumes F: "env_documented F"
  shows "tls_ok E (material_ok F c) (tls_pem_material F c)"
proof -
  define finish where "finish = (\<lambda>root ca_usable.
      if \<not> agent_force_tls c \<and> \<not> ca_usable
      then seq (mtls_material F c False) (\<lambda>_. ret None)
      else seq (mtls_material F c ca_usable) (\<lambda>(certificate_chain, private_key).
           ret (Some (root :: string option, private_key, certificate_chain))))"
  have plain: "tls_ok E (material_ok F c) (seq (mtls_material F c False) (\<lambda>_. ret None))" if "\<not> agent_force_tls c"
    using that by (intro tls_ok_seq [OF mtls_material_ok [OF F]] tls_ok_ret) (simp add: material_ok_def)
  have fin: "tls_ok E (material_ok F c) (finish root (root \<noteq> None))" if "\<forall>r. root = Some r \<longrightarrow> ca_loaded F r" for root
  proof (cases "\<not> agent_force_tls c \<and> root = None")
    case False
    then show ?thesis
      using that unfolding finish_def
      by (auto intro!: tls_ok_seq [OF mtls_material_ok [OF F]] tls_ok_ret simp: material_ok_def simp del: op_simps)
  qed (use plain in \<open>simp add: finish_def\<close>)
  show ?thesis
    unfolding tls_pem_material_def finish_def [symmetric] Let_def
    by (auto intro!: tls_ok_seq [OF collector_uses_tls_ok [OF F]] tls_ok_seq [OF ssl_file_path_ok [OF F]]
        tls_ok_seq [OF load_ca_ok [OF F]] tls_ok_seq [OF tls_ok_warning] plain fin [of None, simplified] fin [of "Some _", simplified]
        simp del: op_simps split: sum.split option.split)
qed


lemma tls_ok_returns: "tls_ok no_error P f \<Longrightarrow> \<exists>x s'. f s = (Inr x, s') \<and> P x"
  unfolding tls_ok_def by (metis old.prod.exhaust sum.exhaust)

text \<open>C17. Whatever the files do between the calls, and as long as the standard library raises only what it
  documents, loading the collector's TLS material returns: plaintext only when TLS is not forced; a
  root only when that very text was extracted from a file OpenSSL accepted as a CA; the process trust
  store only when TLS is forced; and client certificate and key only together, only when both were
  read and the key was normalized, and never without a custom CA.\<close>

theorem tls_material_policy:
  assumes "env_documented F"
  shows "\<exists>m s'. tls_pem_material F c s = (Inr m, s')
     \<and> (case m of
          None \<Rightarrow> \<not> agent_force_tls c
        | Some (root, key, chain) \<Rightarrow>
            (root = None \<longrightarrow> agent_force_tls c) \<and> (\<forall>r. root = Some r \<longrightarrow> ca_loaded F r)
            \<and> (key = None \<longleftrightarrow> chain = None)
            \<and> (\<forall>k ch. key = Some k \<longrightarrow> chain = Some ch \<longrightarrow> root \<noteq> None \<and> client_loaded F ch k))"
  using tls_ok_returns [OF tls_pem_material_ok [OF assms], of c s]
  by (fastforce simp: material_ok_def client_ok_def split: option.splits prod.splits)

section \<open>Consumers of the material\<close>

lemma catch_all_ok:
  "(\<And>e. tls_ok E P (h e)) \<Longrightarrow> tls_ok any_error P f \<Longrightarrow> tls_ok E P (catch any_error f h)"
  by (rule tls_ok_catch [where E' = any_error]) (auto simp: any_error_def)

definition creds_ok :: "tls_env \<Rightarrow> pem_material \<Rightarrow> bool" where
  "creds_ok F m = (\<forall>root key chain. m = Some (root, key, chain) \<longrightarrow>
     (\<exists>t. grpc_creds F t root key chain = Inr ()) \<and> (\<forall>r. root = Some r \<longrightarrow> ca_loaded F r)
     \<and> client_ok F (root \<noteq> None) (chain, key))"

lemma creds_None_ok: "creds_ok F None"
  by (simp add: creds_ok_def)

lemma build_ok:
  assumes "\<forall>r. root = Some r \<longrightarrow> ca_loaded F r" and "client_ok F (root \<noteq> None) (chain, key)"
  shows "tls_ok any_error (creds_ok F) (seq (ask (\<lambda>t. grpc_creds F t root key chain)) (\<lambda>_. ret (Some (root, key, chain))))"
  using assms
  by (intro tls_ok_seq [where Q = "\<lambda>_. \<exists>t. grpc_creds F t root key chain = Inr ()"] tls_ok_ask tls_ok_ret)
    (auto simp: creds_ok_def any_error_def)

lemma grpc_credentials_ok:
  assumes F: "env_documented F"
  shows "tls_ok E (creds_ok F) (grpc_ssl_credentials F c)"
  unfolding grpc_ssl_credentials_def Let_def
  by (rule tls_ok_seq [OF tls_pem_material_ok [OF F]])
    (auto intro!: tls_ok_ret catch_all_ok build_ok warned_ret_ok creds_None_ok tls_ok_seq [OF tls_ok_warn_once]
      simp: material_ok_def simp del: op_simps split: option.split)

lemma given_material_ok:
  "env_documented F \<Longrightarrow> (\<And>m. material = Some m \<Longrightarrow> material_ok F c m)
     \<Longrightarrow> tls_ok E (material_ok F c) (given_material F c material)"
  unfolding given_material_def
  by (auto intro!: tls_pem_material_ok tls_ok_ret simp del: op_simps split: option.split)

lemma given_material_returns:
  "env_documented F \<Longrightarrow> tls_ok E (\<lambda>m. \<forall>m'. material = Some m' \<longrightarrow> m = m') (given_material F c material)"
  unfolding given_material_def
  by (auto intro!: tls_ok_weaken [OF tls_pem_material_ok] tls_ok_ret simp del: op_simps split: option.split)

lemma verify_path_ok: "env_documented F \<Longrightarrow> tls_ok E (\<lambda>_. True) (configured_ca_path_for_verify F c)"
  unfolding configured_ca_path_for_verify_def Let_def
  by (auto intro!: tls_ok_ret tls_ok_seq [OF ssl_file_path_ok] ssl_file_path_ok tls_ok_catch [where E' = path_error]
      tls_ok_seq [where Q = "\<lambda>_. True"] tls_ok_ask dest: env_documentedD simp del: op_simps split: option.split)

definition settings_ok :: "pem_material option \<Rightarrow> verify_setting \<times> (string \<times> string) option \<Rightarrow> bool" where
  "settings_ok material = (\<lambda>(v, pair).
     (material = Some None \<longrightarrow> v = SystemStore) \<and>
     (\<forall>root key chain. material = Some (Some (root, key, chain)) \<longrightarrow>
        (root = None \<longrightarrow> v = SystemStore) \<and> (pair \<noteq> None \<longrightarrow> key \<noteq> None \<and> chain \<noteq> None)))"

lemma requests_settings_ok:
  assumes F: "env_documented F"
  shows "tls_ok E (settings_ok material) (requests_tls_settings F c material)"
proof -
  define verify_of where "verify_of = (\<lambda>root. case root of
      None \<Rightarrow> ret SystemStore
    | Some r \<Rightarrow>
        catch is_OSError (seq (ca_verify_temp_file F r) (\<lambda>p. ret (CaPath p))) (\<lambda>e.
          seq (configured_ca_path_for_verify F c) (\<lambda>ca_verify.
          case ca_verify of
            Some p \<Rightarrow> seq (warn_once (''requests-ca-temp:'' @ err_text e) ''falling back to configured CA path'')
                        (\<lambda>_. ret (CaPath p))
          | None \<Rightarrow> seq (warn_once (''requests-ca-temp:'' @ err_text e) ''using process trust store'')
                      (\<lambda>_. ret SystemStore))))"
  have v: "tls_ok E (\<lambda>v. root = None \<longrightarrow> v = SystemStore) (verify_of root)" for E root
    unfolding verify_of_def
    by (auto intro!: tls_ok_ret tls_ok_catch [where E' = is_OSError] tls_ok_seq [OF ca_temp_ok [OF F]]
        tls_ok_seq [OF verify_path_ok [OF F]] warned_ret_ok simp del: op_simps split: option.split)
  show ?thesis
    unfolding requests_tls_settings_def verify_of_def [symmetric]
    by (rule tls_ok_seq [OF given_material_returns [OF F]])
      (auto intro!: tls_ok_ret tls_ok_seq [OF v] tls_ok_seq [OF mtls_files_ok [OF F]] simp: settings_ok_def
        simp del: op_simps split: option.split)
qed

lemma configure_session_ok:
  assumes F: "env_documented F"
  shows "tls_ok E (\<lambda>_. True) (configure_requests_session F c material se)"
  unfolding configure_requests_session_def Let_def
  by (rule catch_all_ok)
    (auto intro!: tls_ok_ret tls_ok_seq [OF tls_ok_warn_once] tls_ok_seq [OF requests_settings_ok [OF F]]
      tls_ok_seq [where Q = "\<lambda>_. True"] ssl_file_path_ok [OF F] verify_path_ok [OF F] simp del: op_simps)


lemma scheme_ok:
  assumes F: "env_documented F"
  shows "tls_ok E (\<lambda>sch. \<forall>m. material = Some m \<longrightarrow> (sch = ''https://'' \<longleftrightarrow> m \<noteq> None)) (collector_http_scheme F c material)"
  unfolding collector_http_scheme_def
  by (rule tls_ok_catch [where E' = no_error])
    (auto intro!: tls_ok_seq [OF given_material_returns [OF F]] tls_ok_ret simp del: op_simps split: if_splits)

lemma safe_material_ok:
  assumes F: "env_documented F"
  shows "tls_ok E (material_ok F c) (safe_tls_pem_material F c)"
  unfolding safe_tls_pem_material_def
  by (rule tls_ok_catch [where E' = no_error]) (auto intro!: tls_pem_material_ok [OF F])

text \<open>No TLS entry point of the reporters raises into the host process: with documented
  environment exceptions (and any exception from grpcio) the gRPC credentials, the HTTP scheme, the
  requests session and the guarded loader all return.  Credentials were accepted by grpcio for a CA
  that was loaded, with a client identity only beside one, and the scheme computed from shared
  material is https exactly when there is TLS material.\<close>

theorem tls_never_fails_start:
  assumes "env_documented F"
  shows "(\<exists>r s'. grpc_ssl_credentials F c s = (Inr r, s') \<and> creds_ok F r)
    \<and> (\<exists>sch s'. collector_http_scheme F c material s = (Inr sch, s')
         \<and> (\<forall>m. material = Some m \<longrightarrow> (sch = ''https://'' \<longleftrightarrow> m \<noteq> None)))
    \<and> (\<exists>v s'. requests_tls_settings F c material s = (Inr v, s') \<and> settings_ok material v)
    \<and> (\<exists>se' s'. configure_requests_session F c material se s = (Inr se', s'))
    \<and> (\<exists>m s'. safe_tls_pem_material F c s = (Inr m, s') \<and> material_ok F c m)"
  by (intro conjI tls_ok_returns grpc_credentials_ok scheme_ok requests_settings_ok safe_material_ok assms)
    (use tls_ok_returns [OF configure_session_ok [OF assms]] in blast)

definition context_ok :: "tls_env \<Rightarrow> config \<Rightarrow> ssl_context option \<Rightarrow> bool" where
  "context_ok F c r = (\<forall>x. r = Some x \<longrightarrow>
     (sc_trust x = SystemTrust \<longrightarrow> agent_force_tls c \<and> sc_client x = None)
     \<and> (\<forall>ca. sc_trust x = CaData ca \<longrightarrow> ca_loaded F ca)
     \<and> (\<forall>ch k. sc_client x = Some (ch, k) \<longrightarrow> client_loaded F ch k))"

lemma context_None_ok: "context_ok F c None"
  by (simp add: context_ok_def)

lemma add_identity_ok:
  assumes F: "env_documented F" and "context_ok F c (Some ctx)" and "sc_client ctx = None"
    and "client_ok F (sc_trust ctx \<noteq> SystemTrust) (chain, key)"
  shows "tls_ok E (context_ok F c) (add_client_identity F key chain ctx)"
proof -
  have id: "context_ok F c (Some (ctx\<lparr>sc_client := Some (ch, k)\<rparr>))" if "chain = Some ch" "key = Some k" for ch k
    using assms(2-4) that by (auto simp: context_ok_def client_ok_def)
  show ?thesis
    unfolding add_client_identity_def
    by (auto intro!: tls_ok_ret assms(2) id tls_ok_seq [OF mtls_files_ok [OF F]] tls_ok_catch [where E' = is_OSError]
        tls_ok_seq [OF load_cert_chain_ok [OF F]] warned_ret_ok simp del: op_simps split: option.split)
qed

lemma load_cafile_ok:
  assumes F: "env_documented F"
  shows "tls_ok E (\<lambda>r. \<forall>t. r = Inr t \<longrightarrow> (\<exists>p. t = CaFile p)) (load_ca_via_cafile F c root)"
  unfolding load_ca_via_cafile_def
  by (auto intro!: tls_ok_ret tls_ok_seq [OF ca_temp_ok [OF F]] tls_ok_seq [OF verify_path_ok [OF F]]
      tls_ok_catch [where E' = is_OSError] tls_ok_seq [where Q = "\<lambda>_. True"] tls_ok_ask dest: env_documentedD(5) [OF F]
      simp del: op_simps split: option.split)

lemma load_custom_ok:
  assumes F: "env_documented F"
  shows "tls_ok E (\<lambda>r. \<forall>t. r = Inr t \<longrightarrow> t = CaData root \<or> (\<exists>p. t = CaFile p)) (load_custom_ca F c root)"
proof -
  have cafile: "tls_ok E (\<lambda>r. \<forall>t. r = Inr t \<longrightarrow> t = CaData root \<or> (\<exists>p. t = CaFile p)) (load_ca_via_cafile F c root)"
    by (rule tls_ok_weaken [OF load_cafile_ok [OF F, of E c root]]) auto
  show ?thesis
    unfolding load_custom_ca_def
    by (auto intro!: cafile tls_ok_catch [where E' = read_error] tls_ok_seq [where Q = "\<lambda>_. True"] tls_ok_ask tls_ok_raise
        tls_ok_ret dest: env_documentedD(6) [OF F] simp: read_error_def simp del: op_simps)
qed

lemma ssl_context_ok:
  assumes F: "env_documented F" and "\<And>m. material = Some m \<Longrightarrow> material_ok F c m"
  shows "tls_ok E (context_ok F c) (ssl_context_for_collector F c material)"
proof -
  have sys: "tls_ok E (\<lambda>t. \<forall>x. t = Some x \<longrightarrow> x = SystemTrust) (system_trust_context F)"
    unfolding system_trust_context_def
    by (auto intro!: tls_ok_ret tls_ok_catch [where E' = is_OSError] tls_ok_seq [where Q = "\<lambda>_. True"] tls_ok_ask
        warned_ret_ok dest: env_documentedD(10) [OF F] simp del: op_simps)
  have system: "tls_ok E (context_ok F c) (seq (system_trust_context F) (\<lambda>t.
      case t of None \<Rightarrow> ret None | Some tr \<Rightarrow> add_client_identity F key chain \<lparr>sc_trust = tr, sc_client = None\<rparr>))"
    if "agent_force_tls c" "client_ok F False (chain, key)" for key chain
  proof (rule tls_ok_seq [OF sys])
    fix t :: "trust option"
    assume t: "\<forall>x. t = Some x \<longrightarrow> x = SystemTrust"
    have "tls_ok E (context_ok F c) (add_client_identity F key chain \<lparr>sc_trust = SystemTrust, sc_client = None\<rparr>)"
      using that by (intro add_identity_ok [OF F]) (auto simp: context_ok_def)
    with t show "tls_ok E (context_ok F c)
        (case t of None \<Rightarrow> ret None | Some tr \<Rightarrow> add_client_identity F key chain \<lparr>sc_trust = tr, sc_client = None\<rparr>)"
      by (cases t) (simp_all add: tls_ok_ret context_None_ok del: op_simps)
  qed
  have custom: "tls_ok E (context_ok F c) (add_client_identity F key chain \<lparr>sc_trust = tr, sc_client = None\<rparr>)"
    if "tr = CaData root \<or> (\<exists>p. tr = CaFile p)" "ca_loaded F root" "client_ok F True (chain, key)" for tr root key chain
    using that by (intro add_identity_ok [OF F]) (auto simp: context_ok_def)
  show ?thesis
    unfolding ssl_context_for_collector_def Let_def
    by (rule tls_ok_seq [OF given_material_ok [OF F assms(2)]], assumption)
      (auto intro!: tls_ok_ret context_None_ok system custom tls_ok_seq [OF load_custom_ok [OF F]]
        tls_ok_seq [OF tls_ok_warn_once] simp: material_ok_def simp del: op_simps split: option.splits sum.split)
qed

text \<open>The SSL context for aiohttp degrades as documented and never raises: a context on the process
  trust store exists only when TLS is forced and never presents a client certificate; a context with
  in-memory roots uses exactly the loaded CA; and a client identity is one that was loaded.\<close>

theorem ssl_context_degrades:
  assumes "env_documented F" and "\<forall>m. material = Some m \<longrightarrow> material_ok F c m"
  shows "\<exists>r s'. ssl_context_for_collector F c material s = (Inr r, s')
     \<and> (\<forall>x. r = Some x \<longrightarrow>
          (sc_trust x = SystemTrust \<longrightarrow> agent_force_tls c \<and> sc_client x = None)
          \<and> (\<forall>ca. sc_trust x = CaData ca \<longrightarrow> ca_loaded F ca)
          \<and> (\<forall>ch k. sc_client x = Some (ch, k) \<longrightarrow> client_loaded F ch k))"
  using tls_ok_returns [OF ssl_context_ok [of F material c no_error], of s] assms by (auto simp: context_ok_def)

section \<open>Sample runs\<close>

text \<open>
  A stable file system for the witnesses: every path resolves to a file with one CA block, OpenSSL
  accepts everything, temporary names are numbered by the tick, and every write stores one byte.
\<close>

definition sample_ca :: string where
  "sample_ca = block_text ([], ''CERTIFICATE'', ''QUJD'' @ newline) @ newline"

definition sample_env :: tls_env where
  "sample_env =
     \<lparr>fs_resolve = \<lambda>t p. Inr (p, True), fs_absolute = \<lambda>t p. Inr p,
      fs_getsize = \<lambda>t p. Inr 10, fs_read = \<lambda>t p. Inr sample_ca,
      fs_mkstemp = \<lambda>t sfx d. let p = ''/tmp/'' @ str_of_nat t @ sfx in
        if d p = None then Inr p else Inl (OSError ''File exists''),
      fs_write = \<lambda>t n. Inr 1, fs_unlink = \<lambda>t p. True,
      ssl_cafile = \<lambda>t p. Inr (), ssl_cadata = \<lambda>t d. Inl (ValueError ''unsupported''),
      ssl_default = \<lambda>t. Inr (), ssl_chain = \<lambda>t c k. Inr (), grpc_creds = \<lambda>t r k c. Inr ()\<rparr>"

lemma sample_env_documented: "env_documented sample_env"
  by (auto simp: env_documented_def sample_env_def Let_def raises_only_def read_error_def split: if_splits)

definition sample_config :: "bool \<Rightarrow> config \<Rightarrow> config" where
  "sample_config force c = c\<lparr>agent_force_tls := force, agent_ssl_trusted_ca_path := '' /ca.crt'',
     agent_ssl_cert_chain_path := [], agent_ssl_key_path := []\<rparr>"

lemma sample_material:
  "fst (tls_pem_material sample_env (sample_config False c) tls_init) = Inr (Some (Some sample_ca, None, None))"
proof -
  have "extract_ca_pem_blocks sample_ca = Inr sample_ca" "configured_path '' /ca.crt'' = ''/ca.crt''"
    "configured_path ''/ca.crt'' = ''/ca.crt''" "configured_path [] = []"
    by code_simp+
  then show ?thesis
    by (simp add: tls_pem_material_def collector_uses_tls_def ssl_file_path_def load_ca_def load_trusted_ca_def
        read_bytes_def mtls_material_def seq_def catch_def ask_def sample_env_def sample_config_def MAX_PEM_BYTES_def Let_def)
qed

theorem tls_material_policy_witness:
  "\<forall>c. (\<exists>s'. tls_pem_material sample_env (sample_config False c) tls_init = (Inr (Some (Some sample_ca, None, None)), s'))
     \<and> ca_loaded sample_env sample_ca"
proof
  fix c
  from tls_material_policy [OF sample_env_documented, of "sample_config False c" tls_init] sample_material [of c]
  show "(\<exists>s'. tls_pem_material sample_env (sample_config False c) tls_init = (Inr (Some (Some sample_ca, None, None)), s'))
     \<and> ca_loaded sample_env sample_ca"
    by auto
qed

theorem tls_never_fails_start_witness:
  "\<forall>c. (\<exists>r s'. grpc_ssl_credentials sample_env c tls_init = (Inr r, s') \<and> creds_ok sample_env r)
     \<and> (\<exists>s'. collector_http_scheme sample_env c (Some (Some (None, None, None))) tls_init = (Inr ''https://'', s'))"
  using tls_never_fails_start [OF sample_env_documented, of _ tls_init "Some (Some (None, None, None))"] by fastforce

theorem ssl_context_degrades_witness:
  "\<forall>c. \<exists>s'. ssl_context_for_collector sample_env (sample_config True c) (Some (Some (None, None, None))) tls_init
     = (Inr (Some \<lparr>sc_trust = SystemTrust, sc_client = None\<rparr>), s')"
proof
  fix c
  have "\<forall>m. Some (Some (None, None, None)) = Some m \<longrightarrow> material_ok sample_env (sample_config True c) m"
    by (simp add: material_ok_def sample_config_def)
  moreover have "map_sum id (map_option sc_trust)
      (fst (ssl_context_for_collector sample_env (sample_config True c) (Some (Some (None, None, None))) tls_init))
      = Inr (Some SystemTrust)"
    by (simp add: ssl_context_for_collector_def given_material_def system_trust_context_def add_client_identity_def
        seq_def catch_def ask_def sample_env_def)
  ultimately show "\<exists>s'. ssl_context_for_collector sample_env (sample_config True c) (Some (Some (None, None, None))) tls_init
     = (Inr (Some \<lparr>sc_trust = SystemTrust, sc_client = None\<rparr>), s')"
    using ssl_context_degrades [OF sample_env_documented, of "Some (Some (None, None, None))" "sample_config True c" tls_init]
    by (fastforce simp: ssl_context.equality)
qed

end
