(* ===== verification/TlsFiles.thy ===== *)
theory TlsFiles
  imports Tls
begin

text \<open>
  The temporary PEM files of \<open>skywalking/utils/tls.py\<close> across processes.  A world has one disk and the
  module state of every live process; a process calls the TLS entry points, forks (the child rebinds
  its bookkeeping, \<open>_after_fork_in_child\<close>) and exits (the \<open>atexit\<close> handler unlinks what the process
  registered).  \<open>harmless\<close> is the contract of the operations that leave every existing file and the
  bookkeeping alone, \<open>own_files\<close> the contract of those that create files: they touch only files that
  did not exist or that the process registered itself, and keep the invariant \<open>files_ok\<close>.
  The one law about the environment is that \<open>mkstemp\<close> creates a file that did not exist.
\<close>

section \<open>Contracts of operations\<close>

definition preserves :: "('s \<Rightarrow> 's \<Rightarrow> bool) \<Rightarrow> ('a, 's) op \<Rightarrow> bool" where
  "preserves R f = (\<forall>s r s'. f s = (r, s') \<longrightarrow> R s s')"

lemma preservesI: "(\<And>s. R s (snd (f s))) \<Longrightarrow> preserves R f"
  unfolding preserves_def by (metis snd_conv)

lemma preservesD: "preserves R f \<Longrightarrow> R s (snd (f s))"
  unfolding preserves_def by (metis prod.collapse)

text \<open>
  A relation between the state before and after, closed under doing nothing and doing more, passes
  through the control structures of the code.
\<close>

locale op_contract =
  fixes R :: "'s \<Rightarrow> 's \<Rightarrow> bool"
  assumes R_refl: "R s s"
    and R_trans: "R s t \<Longrightarrow> R t u \<Longrightarrow> R s u"
begin

lemma preserves_seq: "preserves R f \<Longrightarrow> (\<And>x. preserves R (g x)) \<Longrightarrow> preserves R (seq f g)"
  by (auto simp: preserves_def seq_def split: prod.splits sum.splits) (blast intro: R_trans)+

lemma preserves_catch: "preserves R f \<Longrightarrow> (\<And>e. preserves R (h e)) \<Longrightarrow> preserves R (catch sel f h)"
  by (auto simp: preserves_def catch_def split: prod.splits sum.splits if_splits) (blast intro: R_trans)+

lemma preserves_pure: "preserves R (ret x)" "preserves R (raise_err e)" "preserves R (lift_res r)"
  by (auto simp: preserves_def R_refl)

lemma preserves_on_error: "preserves R f \<Longrightarrow> preserves R g \<Longrightarrow> preserves R (on_error f g)"
  by (auto simp: preserves_def on_error_def seq_def split: prod.splits sum.splits) (blast intro: R_trans)+

lemma preserves_finally: "preserves R f \<Longrightarrow> preserves R g \<Longrightarrow> preserves R (finally_do f g)"
  by (auto simp: preserves_def finally_do_def seq_def split: prod.splits sum.splits) (blast intro: R_trans)+

lemmas preserves_rules = preserves_on_error preserves_finally preserves_seq preserves_catch preserves_pure

end

section \<open>Operations that leave existing files alone\<close>

definition mkstemp_fresh :: "tls_env \<Rightarrow> bool" where
  "mkstemp_fresh F = (\<forall>t sfx d p. fs_mkstemp F t sfx d = Inr p \<longrightarrow> d p = None)"

definition same_vars :: "tls_state \<Rightarrow> tls_state \<Rightarrow> bool" where
  "same_vars s s' = (ts_temp_files s' = ts_temp_files s \<and> ts_mtls s' = ts_mtls s \<and> ts_mtls_key s' = ts_mtls_key s
     \<and> ts_ca s' = ts_ca s \<and> ts_ca_key s' = ts_ca_key s)"

definition undisturbed :: "string set \<Rightarrow> tls_state \<Rightarrow> tls_state \<Rightarrow> bool" where
  "undisturbed A s s' = (same_vars s s' \<and> (\<forall>p. p \<notin> A \<longrightarrow> ts_disk s p \<noteq> None \<longrightarrow> ts_disk s' p = ts_disk s p))"

abbreviation harmless :: "('a, tls_state) op \<Rightarrow> bool" where
  "harmless \<equiv> preserves (undisturbed {})"

interpretation harmless_ops: op_contract "undisturbed A" for A
  by unfold_locales (auto simp: undisturbed_def same_vars_def)

named_theorems harmless_rules \<open>operations that leave existing files alone\<close>

declare harmless_ops.preserves_rules [harmless_rules]

lemma harmless_simple [harmless_rules]: "harmless (ask q)" "harmless (warning m)" "harmless (warn_once k m)"
  by (rule preservesI, auto simp: undisturbed_def same_vars_def ask_def warning_def warn_once_def)+

lemma harmless_paths [harmless_rules]: "harmless (ssl_file_path F v)"
  unfolding ssl_file_path_def Let_def
  by (auto intro!: harmless_rules simp del: op_simps)

lemma harmless_uses_tls [harmless_rules]: "harmless (collector_uses_tls F c)"
  unfolding collector_uses_tls_def Let_def
  by (auto intro!: harmless_rules simp del: op_simps)

lemma harmless_verify_path [harmless_rules]: "harmless (configured_ca_path_for_verify F c)"
  unfolding configured_ca_path_for_verify_def Let_def
  by (auto intro!: harmless_rules simp del: op_simps split: option.split)

lemma harmless_read [harmless_rules]: "harmless (read_bytes F p)"
  unfolding read_bytes_def by (auto intro!: harmless_rules simp del: op_simps)

lemma harmless_load_ca [harmless_rules]: "harmless (load_ca F p)"
  unfolding load_ca_def load_trusted_ca_def
  by (auto intro!: harmless_rules simp del: op_simps split: option.split)

lemma mkstemp_cases:
  assumes "mkstemp_fresh F"
  obtains (error) e where "mkstemp F sfx s = (Inl e, s\<lparr>ts_tick := Suc (ts_tick s)\<rparr>)"
  | (path) p where "ts_disk s p = None"
      "mkstemp F sfx s = (Inr p, s\<lparr>ts_tick := Suc (ts_tick s), ts_disk := (ts_disk s)(p \<mapsto> [])\<rparr>)"
  using assms
  by (cases "fs_mkstemp F (ts_tick s) sfx (ts_disk s)")
    (auto simp: mkstemp_def seq_def ask_def mkstemp_fresh_def)

text \<open>A step on one file: nothing but that file and the clock changes.\<close>

definition only_file :: "string \<Rightarrow> tls_state \<Rightarrow> tls_state \<Rightarrow> bool" where
  "only_file p s s' = (same_vars s s' \<and> (\<forall>q. q \<noteq> p \<longrightarrow> ts_disk s' q = ts_disk s q))"

lemma only_file_trans: "only_file p s s1 \<Longrightarrow> only_file p s1 s2 \<Longrightarrow> only_file p s s2"
  by (auto simp: only_file_def same_vars_def)

lemma only_file_write: "only_file p s (snd (os_write F p d s))"
  by (auto simp: os_write_def seq_def ask_def only_file_def same_vars_def disk_append_def split: sum.splits)

lemma only_file_unlink: "only_file p s (snd (os_unlink F p s))"
  by (auto simp: os_unlink_def only_file_def same_vars_def)

lemma write_content:
  assumes "os_write F p d s = (Inr n, s')" and "ts_disk s p = Some x"
  shows "ts_disk s' p = Some (x @ take (nat n) d)"
  using assms by (auto simp: os_write_def seq_def ask_def disk_append_def split: sum.splits)

lemma write_loop_effect:
  assumes "ts_disk s p = Some (take n d)"
  shows "only_file p s (snd (write_loop F p d n s))
    \<and> (fst (write_loop F p d n s) = Inr () \<longrightarrow> ts_disk (snd (write_loop F p d n s)) p = Some d)"
  using assms
proof (induction F p d n s rule: write_loop.induct)
  case (1 F p d n s)
  show ?case
  proof (cases "n < length d")
    case True
    obtain r s1 where w: "os_write F p (drop n d) s = (r, s1)" by force
    have o: "only_file p s s1" using only_file_write [of p s F "drop n d"] w by simp
    show ?thesis
    proof (cases r)
      case (Inr k)
      have "take n d @ take (nat k) (drop n d) = take (n + nat k) d" by (simp add: take_add)
      with write_content [OF w [unfolded Inr] 1(2)] have c: "ts_disk s1 p = Some (take (n + nat k) d)" by simp
      show ?thesis
        using o True w Inr 1(1) [OF True w [symmetric] Inr _ c] only_file_trans [OF o]
        by (subst (1 2 3) write_loop.simps) auto
    qed (use o True w in \<open>subst (1 2 3) write_loop.simps; simp\<close>)
  next
    case False
    then show ?thesis using 1(2)
      by (subst (1 2 3) write_loop.simps) (simp add: only_file_def same_vars_def)
  qed
qed


lemma undisturbed_fresh:
  assumes "undisturbed (insert k A) u s'" "same_vars s u" "ts_disk u = (ts_disk s)(k \<mapsto> x)" "ts_disk s k = None"
  shows "undisturbed A s s'"
  unfolding undisturbed_def
proof (intro conjI allI impI)
  fix p assume "p \<notin> A" "ts_disk s p \<noteq> None"
  with assms show "ts_disk s' p = ts_disk s p" by (cases "p = k") (auto simp: undisturbed_def)
qed (use assms in \<open>auto simp: undisturbed_def same_vars_def\<close>)

lemma undisturbed_only_file:
  assumes "only_file p s s'" "p \<in> A"
  shows "undisturbed A s s'"
  using assms unfolding undisturbed_def only_file_def by metis

lemma pem_temp_effect:
  assumes "mkstemp_fresh F" and "pem_bytes_to_temp_file F d sfx s = (r, s')"
  shows "case r of
      Inl e \<Rightarrow> undisturbed {} s s'
    | Inr p \<Rightarrow> ts_disk s p = None \<and> ts_disk s' = (ts_disk s)(p \<mapsto> d) \<and> ts_temp_files s' = ts_temp_files s @ [p]
        \<and> ts_mtls s' = ts_mtls s \<and> ts_mtls_key s' = ts_mtls_key s \<and> ts_ca s' = ts_ca s \<and> ts_ca_key s' = ts_ca_key s"
  using assms(1)
proof (cases rule: mkstemp_cases [where sfx = sfx and s = "s\<lparr>ts_atexit := True\<rparr>"])
  case (error e)
  with assms(2) show ?thesis
    by (auto simp: pem_bytes_to_temp_file_def ensure_atexit_def seq_def undisturbed_def same_vars_def)
next
  case (path p)
  let ?s1 = "s\<lparr>ts_atexit := True, ts_tick := Suc (ts_tick s), ts_disk := (ts_disk s)(p \<mapsto> [])\<rparr>"
  obtain w s2 where w: "write_loop F p d 0 ?s1 = (w, s2)" by force
  have e: "only_file p ?s1 s2" "w = Inr () \<Longrightarrow> ts_disk s2 p = Some d"
    using write_loop_effect [of ?s1 p 0 d F] w by auto
  show ?thesis
  proof (cases w)
    case (Inl x)
    obtain s3 where u: "os_unlink F p s2 = (Inr (), s3)" by (simp add: os_unlink_def)
    then have "only_file p s2 s3" using only_file_unlink [of p s2 F] by simp
    with e(1) have "only_file p ?s1 s3" by (rule only_file_trans)
    moreover have "r = Inl x" "s' = s3"
      using assms(2) path w Inl u
      by (auto simp: pem_bytes_to_temp_file_def ensure_atexit_def seq_def on_error_def)
    moreover have "undisturbed {} s s3"
      by (rule undisturbed_fresh [where k = p and u = ?s1, OF undisturbed_only_file [OF calculation(1)]])
        (use path(1) in \<open>auto simp: same_vars_def\<close>)
    ultimately show ?thesis by simp
  next
    case (Inr x)
    then have "r = Inr p" "s' = s2\<lparr>ts_temp_files := ts_temp_files s2 @ [p]\<rparr>"
      using assms(2) path w by (auto simp: pem_bytes_to_temp_file_def ensure_atexit_def seq_def on_error_def)
    then show ?thesis using e Inr path(1) by (auto simp: only_file_def same_vars_def fun_eq_iff)
  qed
qed

lemma preserves_mkstemp:
  assumes "mkstemp_fresh F" and g: "\<And>k. preserves (undisturbed (insert k A)) (g k)" and h: "preserves (undisturbed A) h"
  shows "preserves (undisturbed A) (seq (on_error (mkstemp F sfx) h) g)"
proof (rule preservesI)
  fix s :: tls_state
  let ?s1 = "s\<lparr>ts_tick := Suc (ts_tick s)\<rparr>"
  show "undisturbed A s (snd (seq (on_error (mkstemp F sfx) h) g s))"
    using assms(1)
  proof (cases rule: mkstemp_cases [where sfx = sfx and s = s])
    case (error e)
    have "undisturbed A s ?s1" by (simp add: undisturbed_def same_vars_def)
    moreover have "undisturbed A ?s1 (snd (h ?s1))" by (rule preservesD [OF h])
    moreover have "snd (seq (on_error (mkstemp F sfx) h) g s) = snd (h ?s1)"
      using error by (auto simp: seq_def on_error_def split: prod.splits sum.splits)
    ultimately show ?thesis using harmless_ops.R_trans by simp
  next
    case (path k)
    let ?s2 = "s\<lparr>ts_tick := Suc (ts_tick s), ts_disk := (ts_disk s)(k \<mapsto> [])\<rparr>"
    have "undisturbed (insert k A) ?s2 (snd (g k ?s2))" by (rule preservesD [OF g])
    moreover have "snd (seq (on_error (mkstemp F sfx) h) g s) = snd (g k ?s2)"
      using path by (simp add: seq_def on_error_def)
    moreover have "undisturbed A s (snd (g k ?s2))"
      by (rule undisturbed_fresh [where k = k and u = ?s2, OF calculation(1)])
        (use path(1) in \<open>auto simp: same_vars_def\<close>)
    ultimately show ?thesis by simp
  qed
qed

lemma preserves_mkstemp_first:
  assumes "mkstemp_fresh F" and "\<And>k. preserves (undisturbed (insert k A)) (g k)"
  shows "preserves (undisturbed A) (seq (mkstemp F sfx) g)"
proof -
  have "on_error (mkstemp F sfx) (ret ()) = mkstemp F sfx"
    by (rule ext) (auto simp: on_error_def seq_def split: prod.splits sum.splits)
  with preserves_mkstemp [OF assms harmless_ops.preserves_pure(1)] show ?thesis by metis
qed

lemma undisturbed_file_ops:
  "p \<in> A \<Longrightarrow> preserves (undisturbed A) (os_write F p d)" "p \<in> A \<Longrightarrow> preserves (undisturbed A) (os_unlink F p)"
  "preserves (undisturbed A) (load_cert_chain F p q)"
  by (rule preservesI, rule undisturbed_only_file [OF only_file_write], assumption)
    (rule preservesI, rule undisturbed_only_file [OF only_file_unlink], assumption,
     auto intro!: preservesI simp: undisturbed_def load_cert_chain_def ask_def same_vars_def split: option.splits)

lemma harmless_validate [harmless_rules]:
  assumes "mkstemp_fresh F"
  shows "harmless (validate_client_cert_key F cert key)"
  unfolding validate_client_cert_key_def
  by (intro preserves_mkstemp_first preserves_mkstemp assms harmless_ops.preserves_rules undisturbed_file_ops) auto

lemma harmless_mtls_material [harmless_rules]: "mkstemp_fresh F \<Longrightarrow> harmless (mtls_material F c u)"
  unfolding mtls_material_def Let_def
  by (auto intro!: harmless_rules simp del: op_simps split: option.split)

lemma harmless_material [harmless_rules]: "mkstemp_fresh F \<Longrightarrow> harmless (tls_pem_material F c)"
  unfolding tls_pem_material_def Let_def
  by (auto intro!: harmless_rules simp del: op_simps split: option.split sum.split)

section \<open>Operations that create files\<close>

definition files_ok :: "tls_state \<Rightarrow> bool" where
  "files_ok s =
     (distinct (ts_temp_files s) \<and> (\<forall>p \<in> set (ts_temp_files s). ts_disk s p \<noteq> None)
      \<and> (\<forall>p. ts_ca s = Some p \<longrightarrow> p \<in> set (ts_temp_files s) \<and> ts_ca_key s = ts_disk s p)
      \<and> (\<forall>cp kp. ts_mtls s = Some (cp, kp) \<longrightarrow> cp \<in> set (ts_temp_files s) \<and> kp \<in> set (ts_temp_files s)
           \<and> (\<exists>ch k. ts_mtls_key s = Some (ch, k) \<and> ts_disk s cp = Some ch \<and> ts_disk s kp = Some k)))"

definition file_frame :: "tls_state \<Rightarrow> tls_state \<Rightarrow> bool" where
  "file_frame s s' =
     ((\<forall>p. ts_disk s p \<noteq> None \<longrightarrow> p \<notin> set (ts_temp_files s) \<longrightarrow> ts_disk s' p = ts_disk s p)
      \<and> (\<forall>p \<in> set (ts_temp_files s'). p \<in> set (ts_temp_files s) \<or> ts_disk s p = None))"

definition own_files :: "tls_state \<Rightarrow> tls_state \<Rightarrow> bool" where
  "own_files s s' = (files_ok s \<longrightarrow> files_ok s' \<and> file_frame s s')"

lemma file_frame_refl: "file_frame s s"
  by (simp add: file_frame_def)

lemma file_frame_trans: "file_frame s t \<Longrightarrow> file_frame t u \<Longrightarrow> file_frame s u"
  unfolding file_frame_def by metis

interpretation own_ops: op_contract own_files
  by unfold_locales (auto simp: own_files_def file_frame_refl intro: file_frame_trans)

lemma files_ok_undisturbed: "undisturbed {} s s' \<Longrightarrow> files_ok s \<Longrightarrow> files_ok s'"
  by (auto simp: undisturbed_def same_vars_def files_ok_def)

lemma own_undisturbed: "undisturbed {} s s' \<Longrightarrow> own_files s s'"
  using files_ok_undisturbed [of s s'] by (auto simp: own_files_def file_frame_def undisturbed_def same_vars_def)

lemma own_harmless: "harmless f \<Longrightarrow> preserves own_files f"
  by (rule preservesI, rule own_undisturbed, erule preservesD)

named_theorems own_rules \<open>operations that touch only files of their own process\<close>

declare own_ops.preserves_rules [own_rules] own_harmless [OF harmless_verify_path, own_rules]
  own_harmless [OF harmless_simple(1), own_rules] own_harmless [OF harmless_simple(2), own_rules]
  own_harmless [OF harmless_simple(3), own_rules] own_harmless [OF harmless_paths, own_rules]
  own_harmless [OF harmless_material, own_rules]

lemma files_ok_new:
  assumes "files_ok s" and "ts_disk s p = None" and "ts_disk s' = (ts_disk s)(p \<mapsto> d)"
    and "ts_temp_files s' = ts_temp_files s @ [p]"
    and "ts_mtls s' = ts_mtls s" "ts_mtls_key s' = ts_mtls_key s" "ts_ca s' = ts_ca s" "ts_ca_key s' = ts_ca_key s"
  shows "files_ok s' \<and> file_frame s s'"
proof -
  have "p \<notin> set (ts_temp_files s)" using assms(1,2) by (auto simp: files_ok_def)
  then have "x \<noteq> p" if "x \<in> set (ts_temp_files s)" for x using that by blast
  with assms show ?thesis by (auto simp: files_ok_def file_frame_def)
qed

lemma own_pem_temp [own_rules]: "mkstemp_fresh F \<Longrightarrow> preserves own_files (pem_bytes_to_temp_file F d sfx)"
proof (rule preservesI)
  fix s assume F: "mkstemp_fresh F"
  obtain r s' where r: "pem_bytes_to_temp_file F d sfx s = (r, s')" by force
  from pem_temp_effect [OF F r] show "own_files s (snd (pem_bytes_to_temp_file F d sfx s))"
    using r own_undisturbed files_ok_new [of s _ s' d] by (auto simp: own_files_def split: sum.splits)
qed

lemma own_ca_temp [own_rules]:
  assumes "mkstemp_fresh F"
  shows "preserves own_files (ca_verify_temp_file F r)"
proof (rule preservesI)
  fix s
  obtain q s1 where q: "pem_bytes_to_temp_file F r ''.crt'' s = (q, s1)" by force
  show "own_files s (snd (ca_verify_temp_file F r s))"
  proof (cases q)
    case (Inl e)
    then have "own_files s s1" using pem_temp_effect [OF assms q] own_undisturbed by simp
    with q Inl show ?thesis by (auto simp: ca_verify_temp_file_def seq_def own_ops.R_refl)
  next
    case (Inr p)
    then have n: "files_ok s \<Longrightarrow> files_ok s1 \<and> file_frame s s1" "p \<in> set (ts_temp_files s1)" "ts_disk s1 p = Some r"
      using pem_temp_effect [OF assms q] files_ok_new [of s p s1 r] by auto
    have "own_files s (s1\<lparr>ts_ca_key := Some r, ts_ca := Some p\<rparr>)"
      using n by (auto simp: own_files_def files_ok_def file_frame_def)
    with q Inr show ?thesis by (auto simp: ca_verify_temp_file_def seq_def own_ops.R_refl)
  qed
qed

lemma discard_effect:
  assumes "p \<noteq> []" and "distinct (ts_temp_files t)" and "snd (discard_mtls_temp_path F (Some p) t) = u"
  shows "set (ts_temp_files u) = set (ts_temp_files t) - {p}" "distinct (ts_temp_files u)"
    "q \<noteq> p \<Longrightarrow> ts_disk u q = ts_disk t q"
    "ts_ca u = ts_ca t" "ts_ca_key u = ts_ca_key t" "ts_mtls u = ts_mtls t" "ts_mtls_key u = ts_mtls_key t"
  using assms by (auto simp: discard_mtls_temp_path_def seq_def os_unlink_def set_remove1_eq)

lemma own_discard:
  assumes s: "files_ok s" "ts_disk s p = None" and t: "files_ok t" "file_frame s t"
    and vars: "ts_mtls t = ts_mtls s" "ts_ca t = ts_ca s"
    and u: "snd (discard_mtls_temp_path F (Some p) t) = u"
  shows "files_ok u \<and> file_frame s u"
proof (cases "p = []")
  case False
  note d = discard_effect [OF False _ u]
  have dt: "distinct (ts_temp_files t)" using t(1) by (simp add: files_ok_def)
  have "p \<notin> set (ts_temp_files s)" using s by (auto simp: files_ok_def)
  then have ca: "q \<noteq> p" if "ts_ca t = Some q" for q
    using that s(1) vars(2) by (auto simp: files_ok_def)
  have mtls: "cp \<noteq> p" "kp \<noteq> p" if "ts_mtls t = Some (cp, kp)" for cp kp
    using that s(1) vars(1) \<open>p \<notin> set (ts_temp_files s)\<close> by (auto simp: files_ok_def)
  have "files_ok u"
    unfolding files_ok_def d(1,4-7) [OF dt]
  proof (intro conjI allI impI ballI d(2) [OF dt])
    show "ts_disk u q \<noteq> None" if "q \<in> set (ts_temp_files t) - {p}" for q
      using that d(3) [OF dt] t(1) by (auto simp: files_ok_def)
    show "q \<in> set (ts_temp_files t) - {p}" "ts_ca_key t = ts_disk u q" if "ts_ca t = Some q" for q
      using that d(3) [OF dt ca] t(1) ca by (auto simp: files_ok_def)
    show "cp \<in> set (ts_temp_files t) - {p}" "kp \<in> set (ts_temp_files t) - {p}"
      "\<exists>ch k. ts_mtls_key t = Some (ch, k) \<and> ts_disk u cp = Some ch \<and> ts_disk u kp = Some k"
      if m: "ts_mtls t = Some (cp, kp)" for cp kp
      using m d(3) [OF dt mtls(1) [OF m]] d(3) [OF dt mtls(2) [OF m]] t(1) mtls [OF m] by (auto simp: files_ok_def)
  qed
  moreover have "file_frame s u"
    unfolding file_frame_def d(1) [OF dt]
  proof (intro conjI allI impI ballI)
    show "ts_disk u q = ts_disk s q" if "ts_disk s q \<noteq> None" "q \<notin> set (ts_temp_files s)" for q
      using that d(3) [OF dt, of q] s(2) t(2) by (cases "q = p") (auto simp: file_frame_def)
    show "q \<in> set (ts_temp_files s) \<or> ts_disk s q = None" if "q \<in> set (ts_temp_files t) - {p}" for q
      using that t(2) by (auto simp: file_frame_def)
  qed
  ultimately show ?thesis by simp
qed (use assms in \<open>simp add: discard_mtls_temp_path_def\<close>)

lemma own_warn_once: "own_files s x \<Longrightarrow> own_files s (snd (warn_once m m' x))"
  using own_ops.R_trans preservesD [OF own_harmless [OF harmless_simple(3)]] by metis

lemma own_mtls_failed_key:
  assumes F: "mkstemp_fresh F"
    and q: "pem_bytes_to_temp_file F ch ''.crt'' s = (Inr cp, s1)"
    and r: "pem_bytes_to_temp_file F k ''.pem'' s1 = (Inl e, s2)"
  shows "own_files s (snd (discard_mtls_temp_path F (Some cp) s2))"
proof -
  have "files_ok (snd (discard_mtls_temp_path F (Some cp) s2)) \<and> file_frame s (snd (discard_mtls_temp_path F (Some cp) s2))"
    if s: "files_ok s"
  proof (rule own_discard [OF s, where p = cp and t = s2])
    note c = pem_temp_effect [OF F q, simplified] and u = pem_temp_effect [OF F r, simplified]
    from files_ok_new [OF s, of cp s1 ch] c have 1: "files_ok s1" "file_frame s s1" by auto
    then show "files_ok s2" using files_ok_undisturbed [OF u] by simp
    from 1 own_undisturbed [OF u] show "file_frame s s2" by (auto simp: own_files_def intro: file_frame_trans)
    from c u show "ts_disk s cp = None" "ts_mtls s2 = ts_mtls s" "ts_ca s2 = ts_ca s"
      by (auto simp: undisturbed_def same_vars_def)
  qed simp
  then show ?thesis by (simp add: own_files_def)
qed

lemma own_mtls_written:
  assumes F: "mkstemp_fresh F"
    and q: "pem_bytes_to_temp_file F ch ''.crt'' s = (Inr cp, s1)"
    and r: "pem_bytes_to_temp_file F k ''.pem'' s1 = (Inr kp, s2)"
  shows "own_files s (s2\<lparr>ts_mtls_key := Some (ch, k), ts_mtls := Some (cp, kp)\<rparr>)"
proof -
  note c = pem_temp_effect [OF F q, simplified] and u = pem_temp_effect [OF F r, simplified]
  have "files_ok s2 \<and> file_frame s s2" if "files_ok s"
    using that c u files_ok_new [of s cp s1 ch] files_ok_new [of s1 kp s2 k] by (auto intro: file_frame_trans)
  moreover have "ts_disk s2 cp = Some ch" "ts_disk s2 kp = Some k" "{cp, kp} \<subseteq> set (ts_temp_files s2)"
    using c u by (auto split: if_splits)
  ultimately show ?thesis by (auto simp: own_files_def files_ok_def file_frame_def)
qed

lemma own_mtls [own_rules]:
  assumes F: "mkstemp_fresh F"
  shows "preserves own_files (mtls_cert_key_files F ch k)"
proof (rule preservesI)
  fix s
  obtain q s1 where q: "pem_bytes_to_temp_file F ch ''.crt'' s = (q, s1)" by force
  obtain r s2 where r: "pem_bytes_to_temp_file F k ''.pem'' s1 = (r, s2)" by force
  have 1: "own_files s s1" "own_files s1 s2"
    using preservesD [OF own_pem_temp [OF F]] q r by (metis snd_conv)+
  then have 2: "own_files s s2" by (rule own_ops.R_trans)
  have warned: "snd (seq (warn_once m m') (\<lambda>_. ret None) x) = snd (warn_once m m' x)" for m m' x
    by (simp add: seq_def warn_once_def warning_def)
  have discarded: "snd (seq (discard_mtls_temp_path F p) (\<lambda>_. seq (warn_once m m') (\<lambda>_. ret None)) x)
      = snd (warn_once m m' (snd (discard_mtls_temp_path F p x)))" for m m' p x
    by (auto simp: seq_def warn_once_def warning_def discard_mtls_temp_path_def os_unlink_def split: option.split)
  show "own_files s (snd (mtls_cert_key_files F ch k s))"
    using q r 1 2 own_mtls_failed_key [OF F, of ch s] own_mtls_written [OF F, of ch s]
    by (cases q; cases r)
      (auto simp: mtls_cert_key_files_def own_ops.R_refl warned discarded simp del: op_simps intro!: own_warn_once)
qed

lemma own_given [own_rules]: "mkstemp_fresh F \<Longrightarrow> preserves own_files (given_material F c m)"
  unfolding given_material_def by (auto intro!: own_rules simp del: op_simps split: option.split)

lemma own_settings [own_rules]: "mkstemp_fresh F \<Longrightarrow> preserves own_files (requests_tls_settings F c m)"
  unfolding requests_tls_settings_def
  by (auto intro!: own_rules simp del: op_simps split: option.split)

lemma own_session [own_rules]: "mkstemp_fresh F \<Longrightarrow> preserves own_files (configure_requests_session F c m se)"
  unfolding configure_requests_session_def Let_def
  by (auto intro!: own_rules simp del: op_simps split: option.split)

lemma own_grpc [own_rules]: "mkstemp_fresh F \<Longrightarrow> preserves own_files (grpc_ssl_credentials F c)"
  unfolding grpc_ssl_credentials_def Let_def
  by (auto intro!: own_rules simp del: op_simps split: option.split)

lemma own_safe [own_rules]: "mkstemp_fresh F \<Longrightarrow> preserves own_files (safe_tls_pem_material F c)"
  unfolding safe_tls_pem_material_def by (auto intro!: own_rules simp del: op_simps)

lemma own_scheme [own_rules]: "mkstemp_fresh F \<Longrightarrow> preserves own_files (collector_http_scheme F c m)"
  unfolding collector_http_scheme_def by (auto intro!: own_rules simp del: op_simps)

lemma own_context [own_rules]: "mkstemp_fresh F \<Longrightarrow> preserves own_files (ssl_context_for_collector F c m)"
  unfolding ssl_context_for_collector_def load_custom_ca_def load_ca_via_cafile_def system_trust_context_def
    add_client_identity_def Let_def
  by (auto intro!: own_rules own_harmless [OF undisturbed_file_ops(3)] simp del: op_simps split: option.split sum.split)

section \<open>Processes\<close>

datatype tls_call =
    CallGrpc
  | CallMaterial
  | CallScheme "pem_material option"
  | CallSession "pem_material option" session
  | CallContext "pem_material option"

definition run_call :: "tls_env \<Rightarrow> config \<Rightarrow> tls_call \<Rightarrow> tls_state \<Rightarrow> tls_state" where
  "run_call F c k s =
     (case k of
        CallGrpc \<Rightarrow> snd (grpc_ssl_credentials F c s)
      | CallMaterial \<Rightarrow> snd (safe_tls_pem_material F c s)
      | CallScheme m \<Rightarrow> snd (collector_http_scheme F c m s)
      | CallSession m se \<Rightarrow> snd (configure_requests_session F c m se s)
      | CallContext m \<Rightarrow> snd (ssl_context_for_collector F c m s))"

record tls_world =
  tw_procs :: "nat \<Rightarrow> tls_state option"
  tw_disk :: disk

definition tls_boot :: "nat \<Rightarrow> disk \<Rightarrow> tls_world" where
  "tls_boot pid d = \<lparr>tw_procs = [pid \<mapsto> tls_init], tw_disk = d\<rparr>"

text \<open>A process sees the shared disk; what it leaves there is what the next process sees.\<close>

definition on_disk :: "tls_world \<Rightarrow> tls_state \<Rightarrow> tls_state" where
  "on_disk w s = s\<lparr>ts_disk := tw_disk w\<rparr>"

definition do_call :: "tls_env \<Rightarrow> config \<Rightarrow> tls_call \<Rightarrow> nat \<Rightarrow> tls_state \<Rightarrow> tls_world \<Rightarrow> tls_world" where
  "do_call F c k pid s w =
     (let s' = run_call F c k (on_disk w s) in \<lparr>tw_procs = (tw_procs w)(pid \<mapsto> s'), tw_disk = ts_disk s'\<rparr>)"

definition do_fork :: "nat \<Rightarrow> tls_state \<Rightarrow> tls_world \<Rightarrow> tls_world" where
  "do_fork child s w = w\<lparr>tw_procs := (tw_procs w)(child \<mapsto> after_fork_in_child s)\<rparr>"

definition do_exit :: "tls_env \<Rightarrow> nat \<Rightarrow> tls_state \<Rightarrow> tls_world \<Rightarrow> tls_world" where
  "do_exit F pid s w =
     (let s' = (if ts_atexit s then snd (cleanup_mtls_temp_files F (ts_temp_files s) (on_disk w s)) else on_disk w s)
      in \<lparr>tw_procs = (tw_procs w)(pid := None), tw_disk = ts_disk s'\<rparr>)"

datatype tls_event = Call nat | Fork nat nat | Exit nat

inductive tls_step :: "tls_world \<Rightarrow> tls_event \<Rightarrow> tls_world \<Rightarrow> bool" where
  step_call: "tw_procs w pid = Some s \<Longrightarrow> mkstemp_fresh F \<Longrightarrow> tls_step w (Call pid) (do_call F c k pid s w)"
| step_fork: "tw_procs w pid = Some s \<Longrightarrow> tw_procs w child = None \<Longrightarrow> tls_step w (Fork pid child) (do_fork child s w)"
| step_exit: "tw_procs w pid = Some s \<Longrightarrow> tls_step w (Exit pid) (do_exit F pid s w)"

definition world_files_ok :: "tls_world \<Rightarrow> bool" where
  "world_files_ok w =
     ((\<forall>pid s. tw_procs w pid = Some s \<longrightarrow> files_ok (on_disk w s))
      \<and> (\<forall>pid pid' s s'. pid \<noteq> pid' \<longrightarrow> tw_procs w pid = Some s \<longrightarrow> tw_procs w pid' = Some s'
           \<longrightarrow> set (ts_temp_files s) \<inter> set (ts_temp_files s') = {}))"

lemma world_files_okD:
  assumes "world_files_ok w" and "tw_procs w pid = Some s"
  shows "files_ok (on_disk w s)" "p \<in> set (ts_temp_files s) \<Longrightarrow> tw_disk w p \<noteq> None"
    "tw_procs w q = Some t \<Longrightarrow> q \<noteq> pid \<Longrightarrow> p \<in> set (ts_temp_files t) \<Longrightarrow> p \<notin> set (ts_temp_files s)"
proof -
  show ok: "files_ok (on_disk w s)" using assms by (simp add: world_files_ok_def)
  show "p \<in> set (ts_temp_files s) \<Longrightarrow> tw_disk w p \<noteq> None" using ok by (simp add: files_ok_def on_disk_def)
  show "tw_procs w q = Some t \<Longrightarrow> q \<noteq> pid \<Longrightarrow> p \<in> set (ts_temp_files t) \<Longrightarrow> p \<notin> set (ts_temp_files s)"
    using assms unfolding world_files_ok_def by blast
qed

lemma world_files_okI:
  assumes "\<And>pid s. tw_procs w pid = Some s \<Longrightarrow> files_ok (on_disk w s)"
    and "\<And>pid s q t p. tw_procs w pid = Some s \<Longrightarrow> tw_procs w q = Some t \<Longrightarrow> q \<noteq> pid
           \<Longrightarrow> p \<in> set (ts_temp_files t) \<Longrightarrow> p \<notin> set (ts_temp_files s)"
  shows "world_files_ok w"
  using assms unfolding world_files_ok_def by blast

lemma cleanup_effect:
  assumes "snd (cleanup_mtls_temp_files F ps s) = s'" and "q \<notin> set ps"
  shows "ts_disk s' q = ts_disk s q"
  using assms
proof (induction ps arbitrary: s)
  case (Cons p ps)
  then show ?case by (auto simp: seq_def os_unlink_def split: if_splits)
qed auto

lemma files_ok_other:
  assumes "files_ok (on_disk w s)" and "\<And>p. p \<in> set (ts_temp_files s) \<Longrightarrow> tw_disk w' p = tw_disk w p"
  shows "files_ok (on_disk w' s)"
  using assms by (auto simp: files_ok_def on_disk_def)

lemma own_run_call:
  assumes "mkstemp_fresh F"
  shows "own_files s (run_call F c k s)"
  by (cases k) (simp_all add: run_call_def preservesD [OF own_grpc [OF assms]] preservesD [OF own_safe [OF assms]]
      preservesD [OF own_scheme [OF assms]] preservesD [OF own_session [OF assms]] preservesD [OF own_context [OF assms]])

lemma world_ok_update:
  assumes w: "world_files_ok w" "tw_procs w pid = Some s" and s': "files_ok s'" "file_frame (on_disk w s) s'"
    and w': "w' = \<lparr>tw_procs = (tw_procs w)(pid \<mapsto> s'), tw_disk = ts_disk s'\<rparr>"
  shows "world_files_ok w'"
proof (rule world_files_okI)
  have keep: "ts_disk s' p = tw_disk w p" "p \<notin> set (ts_temp_files s')"
    if "tw_procs w q = Some t" "q \<noteq> pid" "p \<in> set (ts_temp_files t)" for q t p
    using s'(2) world_files_okD(2) [OF w(1) that(1,3)] world_files_okD(3) [OF w that]
    by (auto simp: file_frame_def on_disk_def)
  fix q t assume t: "tw_procs w' q = Some t"
  show "files_ok (on_disk w' t)"
  proof (cases "q = pid")
    case True
    then show ?thesis using t s'(1) by (simp add: w' on_disk_def)
  next
    case False
    then have old: "tw_procs w q = Some t" using t by (simp add: w')
    show ?thesis
      by (rule files_ok_other [OF world_files_okD(1) [OF w(1) old]]) (simp add: w' keep(1) [OF old False])
  qed
  fix q' t' p assume t': "tw_procs w' q' = Some t'" "q' \<noteq> q" "p \<in> set (ts_temp_files t')"
  have q: "if q = pid then t = s' else tw_procs w q = Some t" using t by (simp add: w' split: if_splits)
  have q': "if q' = pid then t' = s' else tw_procs w q' = Some t'" using t'(1) by (simp add: w' split: if_splits)
  show "p \<notin> set (ts_temp_files t)"
  proof (cases "q = pid")
    case True
    then show ?thesis using q q' t'(2,3) keep(2) by simp
  next
    case False
    show ?thesis
    proof (cases "q' = pid")
      case True
      then show ?thesis using q q' t'(2,3) keep(2) [of q t p] by auto
    next
      case other: False
      then show ?thesis
        using q q' False t'(2,3) world_files_okD(3) [OF w(1), of q t q' t' p] by simp
    qed
  qed
qed

lemma world_ok_fork:
  assumes "world_files_ok w" and "tw_procs w child = None"
  shows "world_files_ok (do_fork child s w)"
proof (rule world_files_okI)
  have empty: "ts_temp_files (after_fork_in_child s) = []" "files_ok (on_disk v (after_fork_in_child s))" for v
    by (auto simp: after_fork_in_child_def files_ok_def on_disk_def)
  have procs: "t = after_fork_in_child s \<or> tw_procs w q = Some t" if "tw_procs (do_fork child s w) q = Some t" for q t
    using that by (auto simp: do_fork_def split: if_splits)
  fix q t assume t: "tw_procs (do_fork child s w) q = Some t"
  have "files_ok (on_disk (do_fork child s w) t)" if "tw_procs w q = Some t"
    using files_ok_other [OF world_files_okD(1) [OF assms(1) that]] by (simp add: do_fork_def)
  then show "files_ok (on_disk (do_fork child s w) t)" using procs [OF t] empty(2) by blast
  fix q' t' p assume t': "tw_procs (do_fork child s w) q' = Some t'" "q' \<noteq> q" "p \<in> set (ts_temp_files t')"
  then show "p \<notin> set (ts_temp_files t)"
    using procs [OF t] procs [OF t'(1)] world_files_okD(3) [OF assms(1)] empty(1) by (metis empty_iff empty_set)
qed

lemma world_ok_exit:
  assumes w: "world_files_ok w" "tw_procs w pid = Some s"
  shows "world_files_ok (do_exit F pid s w)"
proof (rule world_files_okI)
  have disk: "tw_disk (do_exit F pid s w) p = tw_disk w p" if "p \<notin> set (ts_temp_files s)" for p
    using that cleanup_effect [of F "ts_temp_files s" "on_disk w s" _ p] by (simp add: do_exit_def Let_def on_disk_def)
  have procs: "q \<noteq> pid \<and> tw_procs w q = Some t" if "tw_procs (do_exit F pid s w) q = Some t" for q t
    using that by (auto simp: do_exit_def Let_def split: if_splits)
  fix q t assume t: "tw_procs (do_exit F pid s w) q = Some t"
  show "files_ok (on_disk (do_exit F pid s w) t)"
    using procs [OF t] world_files_okD(3) [OF w] disk
    by (intro files_ok_other [OF world_files_okD(1) [OF w(1)]]) blast+
  fix q' t' p assume "tw_procs (do_exit F pid s w) q' = Some t'" "q' \<noteq> q" "p \<in> set (ts_temp_files t')"
  then show "p \<notin> set (ts_temp_files t)"
    using procs [OF t] procs world_files_okD(3) [OF w(1)] by blast
qed

lemma world_ok_step: "tls_step w e w' \<Longrightarrow> world_files_ok w \<Longrightarrow> world_files_ok w'"
proof (induction rule: tls_step.induct)
  case (step_call w pid s F c k)
  let ?s' = "run_call F c k (on_disk w s)"
  have "own_files (on_disk w s) ?s'" by (rule own_run_call [OF step_call(2)])
  moreover have "files_ok (on_disk w s)" by (rule world_files_okD(1) [OF step_call(3,1)])
  ultimately have "files_ok ?s'" "file_frame (on_disk w s) ?s'" by (simp_all add: own_files_def)
  from world_ok_update [OF step_call(3,1) this refl] show ?case by (simp add: do_call_def Let_def)
qed (rule world_ok_fork world_ok_exit; assumption)+

interpretation pem_files: machine "\<lambda>w. \<exists>pid d. w = tls_boot pid d" tls_step world_files_ok
proof
  show "\<exists>pid d. w = tls_boot pid d \<Longrightarrow> world_files_ok w" for w
    by (auto simp: tls_boot_def world_files_ok_def files_ok_def on_disk_def tls_init_def split: if_splits)
  show "tls_step w e w' \<Longrightarrow> world_files_ok w \<Longrightarrow> world_files_ok w'" for w e w'
    by (rule world_ok_step)
qed

text \<open>C18. However processes call the TLS entry points, fork and exit, and whatever the file system does
  short of creating a file twice - partial and failing writes, failing unlinks, changing inputs: in
  every live process a cached CA file still holds exactly the cached CA bytes and the cached client
  files exactly the cached certificate and key, and no two processes have registered the same file
  for removal.\<close>

theorem cached_pem_files_intact:
  assumes "pem_files.reach w" and "tw_procs w pid = Some s"
  shows "(\<forall>p. ts_ca s = Some p \<longrightarrow> tw_disk w p = ts_ca_key s \<and> tw_disk w p \<noteq> None)
    \<and> (\<forall>cp kp. ts_mtls s = Some (cp, kp) \<longrightarrow>
         (\<exists>ch k. ts_mtls_key s = Some (ch, k) \<and> tw_disk w cp = Some ch \<and> tw_disk w kp = Some k))
    \<and> (\<forall>pid' s'. tw_procs w pid' = Some s' \<longrightarrow> pid' \<noteq> pid \<longrightarrow> set (ts_temp_files s') \<inter> set (ts_temp_files s) = {})"
proof -
  have ok: "world_files_ok w" by (rule pem_files.reach_inv [OF assms(1)])
  then have "files_ok (on_disk w s)" using assms(2) by (simp add: world_files_ok_def)
  then show ?thesis
    using world_files_okD(3) [OF ok assms(2)] by (fastforce simp: files_ok_def on_disk_def)
qed

lemma sample_env_fresh: "mkstemp_fresh sample_env"
  by (auto simp: mkstemp_fresh_def sample_env_def Let_def split: if_splits)

definition sample_call :: tls_call where
  "sample_call = CallContext (Some (Some (Some ''CA'', None, None)))"

definition sample_parent :: "config \<Rightarrow> tls_state" where
  "sample_parent c = run_call sample_env c sample_call (on_disk (tls_boot 1 Map.empty) tls_init)"

lemma sample_parent_eval: "ts_ca_key (sample_parent c) = Some ''CA''" "ts_ca (sample_parent c) = Some ''/tmp/1.crt''"
  by code_simp+

text \<open>Parent 1 caches a CA file, forks child 2, and the child exits: the parent's file is still there.\<close>

theorem cached_pem_files_intact_witness:
  "\<forall>c. \<exists>(w :: tls_world) s. tw_procs w 1 = Some s \<and> tw_procs w 2 = None \<and> ts_ca s = Some ''/tmp/1.crt''
     \<and> tw_disk w ''/tmp/1.crt'' = Some ''CA''"
proof
  fix c
  let ?w1 = "do_call sample_env c sample_call 1 tls_init (tls_boot 1 Map.empty)" and ?p = "sample_parent c"
  let ?w2 = "do_fork 2 ?p ?w1"
  let ?w3 = "do_exit sample_env 2 (after_fork_in_child ?p) ?w2"
  have w1: "tw_procs ?w1 1 = Some ?p" "tw_procs ?w1 2 = None"
    by (simp_all add: do_call_def sample_parent_def Let_def tls_boot_def)
  have "pem_files.reach (tls_boot 1 Map.empty)" by (rule pem_files.start) blast
  moreover have "tls_step (tls_boot 1 Map.empty) (Call 1) ?w1"
    by (rule step_call) (simp_all add: tls_boot_def sample_env_fresh)
  ultimately have "pem_files.reach ?w1" by (rule pem_files.next_state)
  moreover have "tls_step ?w1 (Fork 1 2) ?w2" by (rule step_fork [OF w1])
  ultimately have "pem_files.reach ?w2" by (rule pem_files.next_state)
  moreover have "tls_step ?w2 (Exit 2) ?w3" by (rule step_exit) (simp add: do_fork_def)
  ultimately have reach: "pem_files.reach ?w3" by (rule pem_files.next_state)
  have p: "tw_procs ?w3 1 = Some ?p" "tw_procs ?w3 2 = None"
    using w1 by (simp_all add: do_exit_def do_fork_def Let_def)
  have "tw_disk ?w3 ''/tmp/1.crt'' = Some ''CA''"
    using cached_pem_files_intact [OF reach p(1)] sample_parent_eval [of c] by simp
  with p sample_parent_eval(2) [of c]
  show "\<exists>(w :: tls_world) s. tw_procs w 1 = Some s \<and> tw_procs w 2 = None \<and> ts_ca s = Some ''/tmp/1.crt''
     \<and> tw_disk w ''/tmp/1.crt'' = Some ''CA''"
    by (intro exI [of _ ?w3] exI [of _ ?p] conjI)
qed

end
