(* ===== verification/IpAddress.thy ===== *)
theory IpAddress
  imports Prelude
begin

text \<open>
  The parsers of Python's \<open>ipaddress\<close> module behind \<open>ipaddress.ip_address\<close>, on text without a zone
  index: dotted quads without leading zeros, and colon-separated hextets with at most one \<open>::\<close> and an
  optional dotted-quad suffix.  \<open>None\<close> is the \<open>ValueError\<close>.
\<close>

definition parse_octet :: "string \<Rightarrow> int option" where
  "parse_octet s =
     (if s = [] \<or> \<not> list_all is_digit s \<or> length s > 3 \<or> (s \<noteq> ''0'' \<and> hd s = CHR ''0'') \<or> nat_of_digits s > 255 then None
      else Some (int (nat_of_digits s)))"

definition ip4_parse :: "string \<Rightarrow> int option" where
  "ip4_parse s =
     (let octets = split_on (CHR ''.'') s in
      if length octets \<noteq> 4 \<or> (\<exists>p \<in> set octets. parse_octet p = None) then None
      else Some (foldl (\<lambda>n p. 256 * n + the (parse_octet p)) 0 octets))"

definition hex_val :: "char \<Rightarrow> int option" where
  "hex_val c =
     (let n = of_char c :: nat in
      if 48 \<le> n \<and> n \<le> 57 then Some (int (n - 48))
      else if 97 \<le> n \<and> n \<le> 102 then Some (int (n - 87))
      else if 65 \<le> n \<and> n \<le> 70 then Some (int (n - 55))
      else None)"

definition parse_hextet :: "string \<Rightarrow> int option" where
  "parse_hextet s =
     (if s = [] \<or> length s > 4 \<or> (\<exists>c \<in> set s. hex_val c = None) then None
      else Some (foldl (\<lambda>n c. 16 * n + the (hex_val c)) 0 s))"

text \<open>The groups as numbers, \<open>None\<close> standing for an empty group.\<close>

datatype hextet = EmptyGroup | Group int | BadGroup

definition hextet_of :: "string \<Rightarrow> hextet" where
  "hextet_of s = (if s = [] then EmptyGroup else case parse_hextet s of None \<Rightarrow> BadGroup | Some n \<Rightarrow> Group n)"

definition ip6_groups :: "string \<Rightarrow> hextet list option" where
  "ip6_groups s =
     (let parts = split_on (CHR '':'') s in
      if length parts < 3 then None
      else if CHR ''.'' \<in> set (last parts) then
        (case ip4_parse (last parts) of
           None \<Rightarrow> None
         | Some v \<Rightarrow> Some (map hextet_of (butlast parts) @ [Group (v div 65536), Group (v mod 65536)]))
      else Some (map hextet_of parts))"

fun group_value :: "int \<Rightarrow> hextet list \<Rightarrow> int option" where
  "group_value n [] = Some n"
| "group_value n (Group v # gs) = group_value (65536 * n + v) gs"
| "group_value n (_ # gs) = None"

definition empty_inner :: "hextet list \<Rightarrow> nat list" where
  "empty_inner gs = filter (\<lambda>i. gs ! i = EmptyGroup) [1..<length gs - 1]"

text \<open>The groups before and after a \<open>::\<close> at position \<open>i\<close>, without the empty group of a leading or trailing one.\<close>

definition groups_hi :: "hextet list \<Rightarrow> nat \<Rightarrow> hextet list" where
  "groups_hi gs i = (if hd gs = EmptyGroup then tl (take i gs) else take i gs)"

definition groups_lo :: "hextet list \<Rightarrow> nat \<Rightarrow> hextet list" where
  "groups_lo gs i = (if last gs = EmptyGroup then butlast (drop (Suc i) gs) else drop (Suc i) gs)"

definition ip6_value :: "hextet list \<Rightarrow> int option" where
  "ip6_value gs =
     (if length gs > 9 then None
      else case empty_inner gs of
        [] \<Rightarrow> if length gs \<noteq> 8 then None else group_value 0 gs
      | [i] \<Rightarrow>
          (let hi = groups_hi gs i; lo = groups_lo gs i; skipped = 8 - (int (length hi) + int (length lo))
           in if hd gs = EmptyGroup \<and> hi \<noteq> [] \<or> last gs = EmptyGroup \<and> lo \<noteq> [] \<or> skipped < 1 then None
              else group_value 0 (hi @ replicate (nat skipped) (Group 0) @ lo))
      | _ \<Rightarrow> None)"

definition ip6_parse :: "string \<Rightarrow> int option" where
  "ip6_parse s = (case ip6_groups s of None \<Rightarrow> None | Some gs \<Rightarrow> ip6_value gs)"

text \<open>\<open>IPv6Address.ipv4_mapped\<close>: the addresses \<open>::ffff:a.b.c.d\<close>.\<close>

definition ipv4_mapped :: "int \<Rightarrow> int option" where
  "ipv4_mapped v = (if v div 2 ^ 32 \<noteq> 65535 then None else Some (v mod 2 ^ 32))"

lemma hex_val_char: "hex_val c = Some v \<Longrightarrow> c \<noteq> CHR '':'' \<and> c \<noteq> CHR '']'' \<and> c \<noteq> CHR ''['' \<and> \<not> is_ws c"
  by (auto simp: hex_val_def is_ws_def Let_def split: if_splits)

lemma split_on_set: "x \<in> set s \<Longrightarrow> x = c \<or> (\<exists>p \<in> set (split_on c s). x \<in> set p)"
proof (induction s)
  case (Cons a s)
  then show ?case by (cases "split_on c s") auto
qed simp

lemma ip4_parse_chars:
  assumes "ip4_parse s = Some v" and "c \<in> set s"
  shows "is_digit c \<or> c = CHR ''.''"
proof (rule disjCI)
  assume "c \<noteq> CHR ''.''"
  then obtain p where p: "p \<in> set (split_on (CHR ''.'') s)" "c \<in> set p"
    using split_on_set [OF assms(2), of "CHR ''.''"] by blast
  then have "parse_octet p \<noteq> None" using assms(1) by (auto simp: ip4_parse_def Let_def split: if_splits)
  then show "is_digit c" using p(2) by (auto simp: parse_octet_def list_all_iff split: if_splits)
qed

lemma hextet_of_chars:
  assumes "hextet_of p \<noteq> BadGroup" and "c \<in> set p"
  shows "\<exists>v. hex_val c = Some v"
  using assms by (auto simp: hextet_of_def parse_hextet_def split: if_splits)

lemma group_value_good: "group_value n gs = Some v \<Longrightarrow> BadGroup \<notin> set gs"
  by (induction n gs rule: group_value.induct) auto

lemma groups_split:
  assumes "empty_inner gs = [i]" and "BadGroup \<notin> set (groups_hi gs i)" and "BadGroup \<notin> set (groups_lo gs i)"
  shows "BadGroup \<notin> set gs"
proof -
  have "i \<in> set (empty_inner gs)" using assms(1) by simp
  then have i: "i < length gs" "gs ! i = EmptyGroup" "0 < i" by (auto simp: empty_inner_def)
  have "BadGroup \<notin> set (take i gs)"
    using assms(2) i(3) by (cases gs; cases i) (auto simp: groups_hi_def split: if_splits)
  moreover have "BadGroup \<notin> set (drop (Suc i) gs)"
  proof
    assume bad: "BadGroup \<in> set (drop (Suc i) gs)"
    then have ne: "drop (Suc i) gs \<noteq> []" by auto
    then have "last (drop (Suc i) gs) = last gs" by (simp add: last_drop)
    with bad ne assms(3) show False
      by (metis append_butlast_last_id Un_iff groups_lo_def hextet.distinct(3) set_ConsD set_append empty_iff empty_set)
  qed
  ultimately show ?thesis
    using i id_take_nth_drop [OF i(1)] by (metis UnE hextet.distinct(3) set_append set_ConsD)
qed

lemma ip6_value_good:
  assumes "ip6_value gs = Some v"
  shows "BadGroup \<notin> set gs"
proof (cases "empty_inner gs")
  case Nil
  then show ?thesis using assms group_value_good by (auto simp: ip6_value_def split: if_splits)
next
  case (Cons i ks)
  then have "ks = []" using assms by (auto simp: ip6_value_def split: if_splits list.splits)
  with Cons assms obtain n where "group_value 0 (groups_hi gs i @ replicate n (Group 0) @ groups_lo gs i) = Some v"
    by (auto simp: ip6_value_def Let_def split: if_splits)
  from group_value_good [OF this] groups_split [of gs i] Cons \<open>ks = []\<close> show ?thesis by auto
qed

lemma ip6_parse_chars:
  assumes "ip6_parse s = Some v" and "c \<in> set s"
  shows "c \<noteq> CHR '']'' \<and> c \<noteq> CHR ''['' \<and> \<not> is_ws c"
proof (cases "c = CHR '':''")
  case False
  then obtain p where p: "p \<in> set (split_on (CHR '':'') s)" "c \<in> set p"
    using split_on_set [OF assms(2), of "CHR '':''"] by blast
  obtain gs where gs: "ip6_groups s = Some gs" "ip6_value gs = Some v"
    using assms(1) by (auto simp: ip6_parse_def split: option.splits)
  let ?ps = "split_on (CHR '':'') s"
  have mem: "p \<in> set (butlast ?ps) \<or> p = last ?ps"
    using p(1) append_butlast_last_id [of ?ps] by (metis split_on_not_Nil Un_iff empty_iff empty_set set_ConsD set_append)
  show ?thesis
  proof (cases "CHR ''.'' \<in> set (last ?ps)")
    case True
    then obtain a where a: "ip4_parse (last ?ps) = Some a"
        "gs = map hextet_of (butlast ?ps) @ [Group (a div 65536), Group (a mod 65536)]"
      using gs(1) by (auto simp: ip6_groups_def Let_def split: if_splits option.splits)
    show ?thesis
    proof (cases "p \<in> set (butlast ?ps)")
      case True
      then have "hextet_of p \<noteq> BadGroup" using ip6_value_good [OF gs(2)] a(2) by (metis Un_iff image_eqI list.set_map set_append)
      with p(2) show ?thesis using hextet_of_chars hex_val_char by blast
    next
      case False
      then have "is_digit c \<or> c = CHR ''.''" using mem p(2) ip4_parse_chars [OF a(1)] by blast
      then show ?thesis by (auto simp: is_digit_def is_ws_def)
    qed
  next
    case False
    then have "gs = map hextet_of ?ps" using gs(1) by (auto simp: ip6_groups_def Let_def split: if_splits)
    then have "hextet_of p \<noteq> BadGroup" using ip6_value_good [OF gs(2)] p(1) by (metis image_eqI list.set_map)
    with p(2) show ?thesis using hextet_of_chars hex_val_char by blast
  qed
qed (simp add: is_ws_def)

lemma ip6_parse_colon:
  assumes "ip6_parse s = Some v"
  shows "CHR '':'' \<in> set s"
proof (rule ccontr)
  assume "CHR '':'' \<notin> set s"
  then have "ip6_groups s = None" by (simp add: ip6_groups_def split_on_no_sep)
  with assms show False by (simp add: ip6_parse_def)
qed

end
