(* ===== verification/GrpcChannel.thy ===== *)
theory GrpcChannel
  imports Utils Config IpAddress
begin

text \<open>
  The gRPC channel helpers of \<open>skywalking/utils/grpc_channel.py\<close>: parsing the backend list, expanding
  host names, encoding several backends for grpcio, the READY gate and the throttled logs.  DNS
  (\<open>socket.getaddrinfo\<close> with a timeout), grpcio's channel constructors and the TLS credentials are
  parameters.  The backend list is ASCII text.
\<close>

section \<open>Addresses\<close>

datatype address_kind = IPV4 | IPV6 | HOSTNAME

record backend_address =
  ba_host :: string
  ba_port :: int
  ba_kind :: address_kind

definition endpoint :: "backend_address \<Rightarrow> string" where
  "endpoint a =
     (if ba_kind a = IPV6 then ''['' @ ba_host a @ '']:'' @ str_of_int (ba_port a)
      else ba_host a @ '':'' @ str_of_int (ba_port a))"

definition classify_host :: "string \<Rightarrow> address_kind option" where
  "classify_host host =
     (if host = [] \<or> (\<exists>c \<in> set host. is_ws c \<or> (of_char c :: nat) < 32) \<or> CHR ''/'' \<in> set host then None
      else if CHR ''%'' \<in> set host then None
      else if ip4_parse host \<noteq> None then Some IPV4
      else if ip6_parse host \<noteq> None then Some IPV6
      else Some HOSTNAME)"

fun str_find :: "char \<Rightarrow> string \<Rightarrow> int" where
  "str_find c [] = -1"
| "str_find c (x # xs) = (if x = c then 0 else if str_find c xs < 0 then -1 else str_find c xs + 1)"

text \<open>The host and the port text: \<open>[host]:port\<close>, or a text with a single colon.\<close>

definition split_host_port :: "string \<Rightarrow> (string \<times> string) option" where
  "split_host_port text =
     (if starts_with text ''['' then
        (let closing = str_find (CHR '']'') text in
         if closing \<le> 1 \<or> closing + 1 \<ge> int (length text) \<or> text ! nat (closing + 1) \<noteq> CHR '':'' then None
         else Some (drop 1 (take (nat closing) text), drop (nat (closing + 2)) text))
      else case split_on (CHR '':'') text of [h, p] \<Rightarrow> Some (h, p) | _ \<Rightarrow> None)"

definition parse_backend_address :: "string \<Rightarrow> backend_address option" where
  "parse_backend_address raw =
     (let text = strip raw in
      if text = [] then None
      else case split_host_port text of
        None \<Rightarrow> None
      | Some (h, p) \<Rightarrow>
          (let host = strip h; port_str = strip p in
           if host = [] \<or> port_str = [] then None
           else case py_int port_str of
             Inl _ \<Rightarrow> None
           | Inr port \<Rightarrow>
               if port < 1 \<or> port > 65535 then None
               else case classify_host host of
                 None \<Rightarrow> None
               | Some kind \<Rightarrow> Some \<lparr>ba_host = host, ba_port = port, ba_kind = kind\<rparr>))"

text \<open>The entries that do not parse are logged and skipped: they are the first component.\<close>

definition parse_backend_addresses :: "string \<Rightarrow> string list \<times> backend_address list" where
  "parse_backend_addresses services =
     (let parts = filter (\<lambda>p. p \<noteq> []) (map strip (split_on (CHR '','') services)) in
      (filter (\<lambda>p. parse_backend_address p = None) parts, List.map_filter parse_backend_address parts))"

definition sw_static_endpoints :: "backend_address list \<Rightarrow> (string \<times> int) list list" where
  "sw_static_endpoints as = map (\<lambda>a. [(ba_host a, ba_port a)]) as"

section \<open>Host names\<close>

text \<open>
  What \<open>getaddrinfo\<close> delivers within the time allowed.  The text of an \<open>AF_INET6\<close> address is never a
  dotted quad, so \<open>ip_address\<close> on it is the IPv6 parser.
\<close>

datatype dns_info = AF_INET string | AF_INET6 string | AF_OTHER

datatype dns_result = DnsTimeout | DnsFailed | DnsInfos "dns_info list"

type_synonym dns = "string \<Rightarrow> int \<Rightarrow> dns_result"

definition usable_info :: "int \<Rightarrow> dns_info \<Rightarrow> backend_address option" where
  "usable_info port i =
     (case i of
        AF_INET ip \<Rightarrow> Some \<lparr>ba_host = ip, ba_port = port, ba_kind = IPV4\<rparr>
      | AF_INET6 sa \<Rightarrow>
          (let ip = (if CHR ''%'' \<in> set sa then hd (split_on (CHR ''%'') sa) else sa) in
           case ip6_parse ip of
             None \<Rightarrow> None
           | Some v \<Rightarrow> if ipv4_mapped v \<noteq> None then None
                       else Some \<lparr>ba_host = ip, ba_port = port, ba_kind = IPV6\<rparr>)
      | AF_OTHER \<Rightarrow> None)"

text \<open>The \<open>seen\<close> sets hold the triple of all the fields, so an address is skipped when it is already there.\<close>

definition add_new :: "'a list \<Rightarrow> 'a list \<Rightarrow> 'a list" where
  "add_new acc xs = foldl (\<lambda>acc x. if x \<in> set acc then acc else acc @ [x]) acc xs"

definition lookup_hostname :: "dns \<Rightarrow> string \<Rightarrow> int \<Rightarrow> backend_address list" where
  "lookup_hostname dns host port =
     (case dns host port of
        DnsInfos infos \<Rightarrow> add_new [] (List.map_filter (usable_info port) infos)
      | _ \<Rightarrow> [])"

definition candidates :: "dns \<Rightarrow> backend_address \<Rightarrow> backend_address list" where
  "candidates dns a = (if ba_kind a = HOSTNAME then lookup_hostname dns (ba_host a) (ba_port a) else [a])"

definition expand_backend_addresses :: "dns \<Rightarrow> backend_address list \<Rightarrow> backend_address list" where
  "expand_backend_addresses dns as = foldl (\<lambda>acc a. add_new acc (candidates dns a)) [] as"

section \<open>Targets\<close>

definition ipv4_mapped_v6 :: "string \<Rightarrow> string" where
  "ipv4_mapped_v6 ipv4 = ''::ffff:'' @ ipv4"

definition mixed_part :: "backend_address \<Rightarrow> string" where
  "mixed_part a = ''['' @ (if ba_kind a = IPV4 then ipv4_mapped_v6 (ba_host a) else ba_host a) @ '']:'' @ str_of_int (ba_port a)"

definition encode_sw_static_for_c_core :: "backend_address list \<Rightarrow> string res" where
  "encode_sw_static_for_c_core as =
     (if as = [] then Inl (ValueError ''No valid collector backend address'')
      else if \<exists>a \<in> set as. ba_kind a = HOSTNAME then Inl (ValueError ''requires literal IP endpoints'')
      else if \<forall>a \<in> set as. ba_kind a = IPV4 then Inr (''ipv4:'' @ join_with '','' (map endpoint as))
      else if \<forall>a \<in> set as. ba_kind a = IPV6 then Inr (''ipv6:'' @ join_with '','' (map endpoint as))
      else Inr (''ipv6:'' @ join_with '','' (map mixed_part as)))"

text \<open>The loop over the configured entries: the addresses to encode and the authority chosen so far.\<close>

fun prepare_loop :: "dns \<Rightarrow> backend_address list \<Rightarrow> backend_address list \<Rightarrow> string option
    \<Rightarrow> backend_address list \<times> string option" where
  "prepare_loop dns [] enc auth = (enc, auth)"
| "prepare_loop dns (orig # rest) enc auth =
     (let cs = candidates dns orig in
      if ba_kind orig = HOSTNAME \<and> cs = [] then prepare_loop dns rest enc auth
      else prepare_loop dns rest (add_new enc cs) (case auth of None \<Rightarrow> Some (endpoint orig) | Some x \<Rightarrow> Some x))"

definition prepare_grpc_channel_endpoints :: "dns \<Rightarrow> backend_address list \<Rightarrow> (string \<times> string) res" where
  "prepare_grpc_channel_endpoints dns as =
     (if as = [] then Inl (ValueError ''No valid collector backend address'')
      else if length as = 1 then Inr (endpoint (hd as), endpoint (hd as))
      else case prepare_loop dns as [] None of
        (enc, auth) \<Rightarrow>
          if enc = [] then Inl (ValueError ''No usable collector backend address after DNS expansion'')
          else bind_res (encode_sw_static_for_c_core enc) (\<lambda>t.
               Inr (t, case auth of None \<Rightarrow> endpoint (hd enc) | Some x \<Rightarrow> x)))"

definition resolve_channel_target_and_authority :: "dns \<Rightarrow> string \<Rightarrow> string \<times> string" where
  "resolve_channel_target_and_authority dns raw =
     (let addresses = snd (parse_backend_addresses raw) in
      case prepare_grpc_channel_endpoints dns addresses of
        Inr r \<Rightarrow> r
      | Inl _ \<Rightarrow>
          if addresses \<noteq> [] then (endpoint (hd addresses), endpoint (hd addresses))
          else let fallback = (if strip raw \<noteq> [] then strip raw else ''localhost:1'') in (fallback, fallback))"

definition build_grpc_target :: "dns \<Rightarrow> backend_address list \<Rightarrow> string res" where
  "build_grpc_target dns as = bind_res (prepare_grpc_channel_endpoints dns as) (\<lambda>(t, _). Inr t)"

definition resolve_grpc_target :: "dns \<Rightarrow> config \<Rightarrow> string option \<Rightarrow> string res" where
  "resolve_grpc_target dns c services =
     build_grpc_target dns (snd (parse_backend_addresses
       (case services of None \<Rightarrow> agent_collector_backend_services c | Some s \<Rightarrow> s)))"

section \<open>Channels\<close>

text \<open>The service config is one fixed JSON text: pick-first with shuffling, retries of one unary method.\<close>

datatype option_value = OptInt int | OptStr string | PropertiesRetryServiceConfig

definition GRPC_CHANNEL_OPTIONS :: "(string \<times> option_value) list" where
  "GRPC_CHANNEL_OPTIONS =
     [(''grpc.enable_http_proxy'', OptInt 0), (''grpc.enable_retries'', OptInt 1),
      (''grpc.service_config'', PropertiesRetryServiceConfig), (''grpc.initial_reconnect_backoff_ms'', OptInt 1000),
      (''grpc.min_reconnect_backoff_ms'', OptInt 1000), (''grpc.max_reconnect_backoff_ms'', OptInt 30000)]"

definition channel_options :: "string \<Rightarrow> (string \<times> option_value) list" where
  "channel_options default_authority = GRPC_CHANNEL_OPTIONS @ [(''grpc.default_authority'', OptStr default_authority)]"

definition grpc_call_timeout :: "config \<Rightarrow> real" where
  "grpc_call_timeout c = max 10 (real_of_int (agent_queue_timeout c) + 5)"

text \<open>
  \<open>create_sync_channel\<close> and \<open>create_aio_channel\<close>: \<open>credentials\<close> is the outcome of \<open>grpc_ssl_credentials\<close>,
  \<open>secure\<close> and \<open>insecure\<close> are grpcio's constructors.
\<close>

definition create_channel ::
  "'k option res \<Rightarrow> (string \<Rightarrow> 'k \<Rightarrow> (string \<times> option_value) list \<Rightarrow> 'c res) \<Rightarrow> (string \<Rightarrow> (string \<times> option_value) list \<Rightarrow> 'c res)
    \<Rightarrow> dns \<Rightarrow> config \<Rightarrow> 'c res" where
  "create_channel credentials secure insecure dns c =
     (case resolve_channel_target_and_authority dns (agent_collector_backend_services c) of
        (target, authority) \<Rightarrow>
          (case bind_res credentials (\<lambda>k.
                  case k of Some k' \<Rightarrow> secure target k' (channel_options authority)
                          | None \<Rightarrow> insecure target (channel_options authority)) of
             Inr ch \<Rightarrow> Inr ch
           | Inl _ \<Rightarrow> insecure ''localhost:1'' (channel_options authority)))"

section \<open>Connectivity\<close>

datatype connectivity = IDLE | CONNECTING | READY | TRANSIENT_FAILURE | SHUTDOWN

text \<open>
  A channel object by the attributes that are probed: a callable \<open>get_state\<close>, a callable
  \<open>check_connectivity_state\<close> and a nested \<open>_channel\<close>.
\<close>

datatype channel_obj = Channel
  (get_state: "(bool \<Rightarrow> connectivity res) option")
  (check_state: "(bool \<Rightarrow> int res) option")
  (inner_channel: "channel_obj option")

definition state_of_code :: "(connectivity \<Rightarrow> int) \<Rightarrow> int \<Rightarrow> connectivity option" where
  "state_of_code code n = find (\<lambda>s. code s = n) [IDLE, CONNECTING, READY, TRANSIENT_FAILURE, SHUTDOWN]"

fun probe_inner :: "(connectivity \<Rightarrow> int) \<Rightarrow> bool \<Rightarrow> nat \<Rightarrow> channel_obj \<Rightarrow> connectivity option res" where
  "probe_inner code try 0 ch = Inr None"
| "probe_inner code try (Suc n) ch =
     (case inner_channel ch of
        None \<Rightarrow> Inr None
      | Some inner \<Rightarrow>
          (case check_state inner of
             Some check \<Rightarrow> bind_res (check try) (\<lambda>c. Inr (state_of_code code c))
           | None \<Rightarrow> probe_inner code try n inner))"

definition unwrap_connectivity_state :: "(connectivity \<Rightarrow> int) \<Rightarrow> channel_obj \<Rightarrow> bool \<Rightarrow> connectivity option res" where
  "unwrap_connectivity_state code ch try =
     (case get_state ch of
        Some f \<Rightarrow> bind_res (f try) (\<lambda>s. Inr (Some s))
      | None \<Rightarrow> probe_inner code try 4 ch)"

definition is_channel_ready :: "(connectivity \<Rightarrow> int) \<Rightarrow> channel_obj \<Rightarrow> bool" where
  "is_channel_ready code ch =
     (case unwrap_connectivity_state code ch True of
        Inl _ \<Rightarrow> True
      | Inr None \<Rightarrow> True
      | Inr (Some s) \<Rightarrow> s = READY)"

datatype status_code = UNAUTHENTICATED | PERMISSION_DENIED | OtherStatus int

text \<open>An exception by its \<open>code\<close> attribute: none or not callable, raising, or returning a status.\<close>

datatype rpc_failure = NoCode | CodeRaises | Code status_code

definition is_auth_rpc_error :: "rpc_failure \<Rightarrow> bool" where
  "is_auth_rpc_error e = (case e of Code s \<Rightarrow> s = UNAUTHENTICATED \<or> s = PERMISSION_DENIED | _ \<Rightarrow> False)"

section \<open>Throttled logs\<close>

record channel_log =
  last_auth_log_at :: real
  last_connectivity_log_at :: "string \<Rightarrow> real option"

definition channel_log_init :: channel_log where
  "channel_log_init = \<lparr>last_auth_log_at = 0, last_connectivity_log_at = (\<lambda>_. None)\<rparr>"

definition log_auth_failure_throttled :: "real \<Rightarrow> channel_log \<Rightarrow> bool \<times> channel_log" where
  "log_auth_failure_throttled now st =
     (if now - last_auth_log_at st < 60 then (False, st) else (True, st\<lparr>last_auth_log_at := now\<rparr>))"

definition log_connectivity_event :: "real \<Rightarrow> string \<Rightarrow> channel_log \<Rightarrow> bool \<times> channel_log" where
  "log_connectivity_event now kind st =
     (if now - get_or 0 (last_connectivity_log_at st kind) < 30 then (False, st)
      else (True, st\<lparr>last_connectivity_log_at := (last_connectivity_log_at st)(kind \<mapsto> now)\<rparr>))"

text \<open>The event a transition is logged as, and the log.\<close>

definition transition_kind :: "connectivity option \<Rightarrow> connectivity \<Rightarrow> string option" where
  "transition_kind prev state =
     (if state = TRANSIENT_FAILURE then Some ''transient_failure''
      else if state = IDLE \<and> prev = Some READY then Some ''idle''
      else if state = READY \<and> prev \<in> {Some TRANSIENT_FAILURE, Some IDLE, Some CONNECTING, None} then Some ''recovered''
      else None)"

definition apply_connectivity_transition ::
  "real \<Rightarrow> connectivity option \<Rightarrow> connectivity \<Rightarrow> channel_log \<Rightarrow> string option \<times> channel_log" where
  "apply_connectivity_transition now prev state st =
     (case transition_kind prev state of
        None \<Rightarrow> (None, st)
      | Some kind \<Rightarrow>
          (case log_connectivity_event now kind st of (b, st') \<Rightarrow> (if b then Some kind else None, st')))"

definition handle_rpc_error :: "real \<Rightarrow> rpc_failure \<Rightarrow> ('w \<Rightarrow> 'w) \<Rightarrow> channel_log \<times> 'w \<Rightarrow> channel_log \<times> 'w" where
  "handle_rpc_error now e on_connectivity_error sw =
     (case sw of (st, w) \<Rightarrow>
        if is_auth_rpc_error e then (snd (log_auth_failure_throttled now st), w)
        else (st, on_connectivity_error w))"

section \<open>Laws of the address parser\<close>

lemma classify_host_chars:
  assumes "classify_host host = Some kind"
  shows "host \<noteq> []" and "\<forall>c \<in> set host. \<not> is_ws c"
    and "kind = IPV4 \<Longrightarrow> c \<in> set host \<Longrightarrow> is_digit c \<or> c = CHR ''.''"
    and "kind = IPV6 \<Longrightarrow> CHR '']'' \<notin> set host"
  using assms ip4_parse_chars [of host] ip6_parse_chars [of host]
  by (auto simp: classify_host_def split: if_splits)

lemma str_find_append: "c \<notin> set xs \<Longrightarrow> str_find c (xs @ c # ys) = int (length xs)"
  by (induction xs) auto

lemma port_text:
  assumes "1 \<le> port"
  shows "py_int (str_of_int port) = Inr port" and "str_of_int port \<noteq> []"
    and "\<forall>c \<in> set (str_of_int port). \<not> is_ws c \<and> c \<noteq> CHR '':''"
  using assms str_of_nat_digits [of "nat port"]
  by (auto simp: str_of_int_def list_all_iff dest: is_digit_not_special)

lemma split_endpoint:
  assumes k: "classify_host host = Some kind" and p: "1 \<le> port"
    and h: "kind = HOSTNAME \<Longrightarrow> CHR '':'' \<notin> set host \<and> hd host \<noteq> CHR ''[''"
  shows "split_host_port (endpoint \<lparr>ba_host = host, ba_port = port, ba_kind = kind\<rparr>) = Some (host, str_of_int port)"
proof (cases "kind = IPV6")
  case True
  let ?t = "CHR ''['' # host @ CHR '']'' # CHR '':'' # str_of_int port"
  have "str_find (CHR '']'') ?t = int (length host) + 1"
    using str_find_append [of "CHR '']''" "CHR ''['' # host" "CHR '':'' # str_of_int port"]
      classify_host_chars(4) [OF k True] by simp
  moreover have "?t ! Suc (Suc (length host)) = CHR '':''" by (simp add: nth_append)
  ultimately show ?thesis
    using True classify_host_chars(1) [OF k] port_text(2) [OF p]
    by (simp add: endpoint_def split_host_port_def starts_with_def Let_def nat_add_distrib eval_nat_numeral)
next
  case False
  have "hd host \<noteq> CHR ''[''" "CHR '':'' \<notin> set host"
  proof -
    have "kind = IPV4 \<Longrightarrow> is_digit (hd host) \<or> hd host = CHR ''.''"
      using classify_host_chars(1,3) [OF k] by simp
    then show "hd host \<noteq> CHR ''[''" using False h by (cases kind) (auto simp: is_digit_def)
    show "CHR '':'' \<notin> set host"
      using False h classify_host_chars(3) [OF k, of "CHR '':''"] by (cases kind) (auto simp: is_digit_def)
  qed
  moreover have "split_on (CHR '':'') (str_of_int port) = [str_of_int port]"
    using port_text(3) [OF p] by (intro split_on_no_sep) auto
  ultimately show ?thesis
    using False classify_host_chars(1) [OF k]
    by (cases host) (auto simp: endpoint_def split_host_port_def starts_with_def split_on_append_sep [of _ "_ # _", simplified])
qed

lemma parse_endpoint:
  assumes k: "classify_host host = Some kind" and p: "1 \<le> port" "port \<le> 65535"
    and h: "kind = HOSTNAME \<Longrightarrow> CHR '':'' \<notin> set host \<and> hd host \<noteq> CHR ''[''"
  shows "parse_backend_address (endpoint \<lparr>ba_host = host, ba_port = port, ba_kind = kind\<rparr>) =
     Some \<lparr>ba_host = host, ba_port = port, ba_kind = kind\<rparr>"
proof -
  let ?a = "\<lparr>ba_host = host, ba_port = port, ba_kind = kind\<rparr>"
  have "\<forall>c \<in> set (endpoint ?a). \<not> is_ws c"
    using classify_host_chars(2) [OF k] port_text(3) [OF p(1)] by (auto simp: endpoint_def is_ws_def)
  then have "strip (endpoint ?a) = endpoint ?a" by (rule strip_no_ws)
  moreover have "endpoint ?a \<noteq> []" by (simp add: endpoint_def)
  moreover have "strip host = host" "strip (str_of_int port) = str_of_int port"
    using classify_host_chars(2) [OF k] port_text(3) [OF p(1)] by (auto intro!: strip_no_ws)
  ultimately show ?thesis
    using split_endpoint [OF k p(1) h] classify_host_chars(1) [OF k] port_text [OF p(1)] p k
    by (simp add: parse_backend_address_def Let_def)
qed

lemma parse_result:
  assumes "parse_backend_address s = Some a"
  shows "classify_host (ba_host a) = Some (ba_kind a)" and "1 \<le> ba_port a" and "ba_port a \<le> 65535"
  using assms by (auto simp: parse_backend_address_def Let_def split: if_splits option.splits prod.splits sum.splits)

section \<open>Laws of the expansion\<close>

lemma add_new_set: "set (add_new acc xs) = set acc \<union> set xs"
  by (induction xs arbitrary: acc) (auto simp: add_new_def)

lemma add_new_distinct: "distinct acc \<Longrightarrow> distinct (add_new acc xs)"
  by (induction xs arbitrary: acc) (auto simp: add_new_def)

lemma add_new_Nil [simp]: "add_new acc [] = acc"
  by (simp add: add_new_def)

lemma usable_info_literal: "usable_info port i = Some a \<Longrightarrow> ba_kind a \<noteq> HOSTNAME"
  by (auto simp: usable_info_def Let_def split: dns_info.splits option.splits if_splits)

lemma candidates_literal: "a \<in> set (candidates dns o1) \<Longrightarrow> ba_kind a \<noteq> HOSTNAME"
  by (auto simp: candidates_def lookup_hostname_def add_new_set map_filter_def dest: usable_info_literal
      split: if_splits dns_result.splits)

lemma candidates_Nil_iff: "candidates dns o1 = [] \<longleftrightarrow> ba_kind o1 = HOSTNAME \<and> lookup_hostname dns (ba_host o1) (ba_port o1) = []"
  by (simp add: candidates_def)

text \<open>The loop of \<open>prepare_grpc_channel_endpoints\<close> and the stand-alone expansion agree.\<close>

lemma prepare_loop_step:
  "prepare_loop dns (orig # rest) enc auth =
     (if candidates dns orig = [] then prepare_loop dns rest enc auth
      else prepare_loop dns rest (add_new enc (candidates dns orig)) (case auth of None \<Rightarrow> Some (endpoint orig) | Some x \<Rightarrow> Some x))"
  using candidates_Nil_iff [of dns orig] by (auto simp: Let_def)

lemma prepare_loop_expands:
  "fst (prepare_loop dns as enc auth) = foldl (\<lambda>acc a. add_new acc (candidates dns a)) enc as"
  by (induction as arbitrary: enc auth) (simp_all add: prepare_loop_step del: prepare_loop.simps(2))

lemma prepare_loop_authority:
  "snd (prepare_loop dns as enc auth) =
     (case auth of Some x \<Rightarrow> Some x | None \<Rightarrow> map_option endpoint (find (\<lambda>a. candidates dns a \<noteq> []) as))"
  by (induction as arbitrary: enc auth) (simp_all add: prepare_loop_step del: prepare_loop.simps(2) split: option.split)

lemma expand_foldl:
  "set (foldl (\<lambda>acc a. add_new acc (candidates dns a)) enc as) = set enc \<union> (\<Union>a \<in> set as. set (candidates dns a))"
  "distinct enc \<Longrightarrow> distinct (foldl (\<lambda>acc a. add_new acc (candidates dns a)) enc as)"
  by (induction as arbitrary: enc) (auto simp: add_new_set add_new_distinct)

lemma expand_result:
  "set (expand_backend_addresses dns as) = (\<Union>a \<in> set as. set (candidates dns a))"
  "distinct (expand_backend_addresses dns as)"
  by (simp_all add: expand_backend_addresses_def expand_foldl)

lemma encode_total:
  assumes "as \<noteq> []" and "\<forall>a \<in> set as. ba_kind a \<noteq> HOSTNAME"
  shows "\<exists>t. encode_sw_static_for_c_core as = Inr t \<and> t \<noteq> []"
  using assms by (auto simp: encode_sw_static_for_c_core_def)

section \<open>Throttling\<close>

text \<open>
  A log that stays silent until an interval has passed since the last line: over any sequence of
  calls the lines written are at least the interval apart.
\<close>

fun log_times :: "(real \<Rightarrow> 's \<Rightarrow> bool \<times> 's) \<Rightarrow> real list \<Rightarrow> 's \<Rightarrow> real list" where
  "log_times step [] s = []"
| "log_times step (t # ts) s = (case step t s of (b, s') \<Rightarrow> (if b then [t] else []) @ log_times step ts s')"

locale throttled =
  fixes interval :: real and step :: "real \<Rightarrow> 's \<Rightarrow> bool \<times> 's" and last_line :: "'s \<Rightarrow> real"
  assumes silent: "now - last_line s < interval \<Longrightarrow> step now s = (False, s)"
    and speaks: "\<not> now - last_line s < interval \<Longrightarrow> \<exists>s'. step now s = (True, s') \<and> last_line s' = now"
begin

lemma first_line: "log_times step ts s = u # us \<Longrightarrow> interval \<le> u - last_line s"
proof (induction ts arbitrary: s)
  case (Cons t ts)
  show ?case
  proof (cases "t - last_line s < interval")
    case True
    with Cons silent [OF True] show ?thesis by simp
  next
    case False
    with Cons.prems speaks [OF False] show ?thesis by auto
  qed
qed simp

lemma spaced: "sorted_wrt (\<lambda>a b. interval \<le> b - a) (log_times step ts s)" if "0 \<le> interval" "sorted ts"
  using that(2)
proof (induction ts arbitrary: s)
  case (Cons t ts)
  show ?case
  proof (cases "t - last_line s < interval")
    case True
    with Cons silent [OF True] show ?thesis by simp
  next
    case False
    then obtain s' where s': "step t s = (True, s')" "last_line s' = t" using speaks by blast
    have "interval \<le> b - t" if "b \<in> set (log_times step ts s')" for b
    proof (cases "log_times step ts s'")
      case (Cons u us)
      with that Cons.IH [of s'] \<open>sorted (t # ts)\<close> first_line [OF Cons] s'(2) \<open>0 \<le> interval\<close> show ?thesis by auto
    qed (use that in simp)
    with Cons s' show ?thesis by simp
  qed
qed simp

end

interpretation auth_log: throttled 60 log_auth_failure_throttled last_auth_log_at
  by unfold_locales (auto simp: log_auth_failure_throttled_def)

interpretation connectivity_log: throttled 30 "\<lambda>now. log_connectivity_event now kind"
  "\<lambda>st. get_or 0 (last_connectivity_log_at st kind)" for kind
  by unfold_locales (auto simp: log_connectivity_event_def)

interpretation reporter_log: throttled 30
  "\<lambda>now st. case log_reporter_exception_throttled now reporter wait st of (ls, st') \<Rightarrow> (ls \<noteq> [], st')"
  "\<lambda>st. get_or 0 (last_reporter_log_at st reporter)" for reporter wait
  by unfold_locales (auto simp: log_reporter_exception_throttled_def REPORTER_LOG_INTERVAL_SEC_def Let_def)

section \<open>The READY gate behind interceptors\<close>

text \<open>A sync channel under \<open>n\<close> interceptor wrappers, none of which has \<open>get_state\<close>.\<close>

fun intercepted :: "nat \<Rightarrow> channel_obj \<Rightarrow> channel_obj" where
  "intercepted 0 ch = ch"
| "intercepted (Suc n) ch = Channel None None (Some (intercepted n ch))"

lemma probe_intercepted:
  assumes "inner_channel ch = Some inner" and "check_state inner = Some check" and "check_state ch = None"
  shows "probe_inner code try m (intercepted n ch) =
     (if n < m then bind_res (check try) (\<lambda>c. Inr (state_of_code code c)) else Inr None)"
proof (induction m arbitrary: n)
  case (Suc m)
  show ?case
  proof (cases n)
    case (Suc k)
    have "check_state (intercepted k ch) = None" using assms(3) by (cases k) simp_all
    with Suc Suc.IH [of k] show ?thesis by simp
  qed (use assms in simp)
qed simp

lemma state_of_code_inj:
  assumes "inj code"
  shows "state_of_code code (code s) = Some s"
  using assms by (cases s) (simp_all add: state_of_code_def inj_eq)

lemma prepare_several:
  assumes "2 \<le> length as"
  shows "(case prepare_grpc_channel_endpoints dns as of
       Inl _ \<Rightarrow> \<forall>a \<in> set as. candidates dns a = []
     | Inr (target, authority) \<Rightarrow>
         encode_sw_static_for_c_core (expand_backend_addresses dns as) = Inr target
       \<and> distinct (expand_backend_addresses dns as)
       \<and> set (expand_backend_addresses dns as) = (\<Union>a \<in> set as. set (candidates dns a))
       \<and> (\<forall>a \<in> set (expand_backend_addresses dns as). ba_kind a \<noteq> HOSTNAME)
       \<and> (\<exists>pre a post. as = pre @ a # post \<and> (\<forall>b \<in> set pre. candidates dns b = []) \<and> candidates dns a \<noteq> []
             \<and> authority = endpoint a))"
proof -
  let ?e = "expand_backend_addresses dns as"
  have loop: "prepare_loop dns as [] None = (?e, map_option endpoint (find (\<lambda>a. candidates dns a \<noteq> []) as))"
    by (rule prod_eqI) (simp_all add: prepare_loop_expands prepare_loop_authority expand_backend_addresses_def)
  have lit: "\<forall>a \<in> set ?e. ba_kind a \<noteq> HOSTNAME" unfolding expand_result by (auto dest: candidates_literal)
  have len: "as \<noteq> []" "length as \<noteq> 1" using assms by auto
  show ?thesis
  proof (cases "find (\<lambda>a. candidates dns a \<noteq> []) as")
    case None
    then have none: "\<forall>a \<in> set as. candidates dns a = []" by (auto simp: find_None_iff)
    then have "set ?e = {}" unfolding expand_result(1) by auto
    then have "?e = []" by simp
    with none len loop show ?thesis by (simp add: prepare_grpc_channel_endpoints_def)
  next
    case (Some a)
    then obtain i where i: "i < length as" "candidates dns a \<noteq> []" "a = as ! i" "\<forall>j < i. candidates dns (as ! j) = []"
      by (auto simp: find_Some_iff)
    then have split: "as = take i as @ a # drop (Suc i) as" "\<forall>b \<in> set (take i as). candidates dns b = []"
      using id_take_nth_drop [OF i(1)] by (auto simp: in_set_conv_nth)
    obtain x where "x \<in> set (candidates dns a)" using i(2) by (cases "candidates dns a") auto
    then have "x \<in> set ?e" unfolding expand_result(1) using i(1,3) by auto
    then have ne: "?e \<noteq> []" by auto
    obtain t where t: "encode_sw_static_for_c_core ?e = Inr t" using encode_total [OF ne lit] by blast
    then have "prepare_grpc_channel_endpoints dns as = Inr (t, endpoint a)"
      using len loop Some ne by (simp add: prepare_grpc_channel_endpoints_def)
    with t split i(2) lit expand_result [of dns as] show ?thesis by auto
  qed
qed

section \<open>Properties\<close>

text \<open>Backend addresses survive printing and parsing: an entry that parses gives a port between 1 and
  65535 and an address whose \<open>host:port\<close> (or \<open>[ipv6]:port\<close>) text parses to the same address, except
  for a bracketed text that is not an IP address but contains a colon or begins with a bracket, which
  the parser takes for a host name.\<close>

theorem backend_address_roundtrip:
  assumes "parse_backend_address s = Some a"
    and "ba_kind a = HOSTNAME \<Longrightarrow> CHR '':'' \<notin> set (ba_host a) \<and> hd (ba_host a) \<noteq> CHR ''[''"
  shows "1 \<le> ba_port a \<and> ba_port a \<le> 65535 \<and> parse_backend_address (endpoint a) = Some a"
  using parse_result [OF assms(1)] parse_endpoint [OF parse_result(1-3) [OF assms(1)]] assms(2) by (cases a) simp

theorem backend_address_roundtrip_witness:
  "parse_backend_address (endpoint \<lparr>ba_host = ''oap'', ba_port = 11800, ba_kind = HOSTNAME\<rparr>) =
     Some \<lparr>ba_host = ''oap'', ba_port = 11800, ba_kind = HOSTNAME\<rparr>"
proof -
  have "parse_backend_address '' oap:11800'' = Some \<lparr>ba_host = ''oap'', ba_port = 11800, ba_kind = HOSTNAME\<rparr>" by code_simp
  from backend_address_roundtrip [OF this] show ?thesis by simp
qed

text \<open>C26. With several configured backends, preparing the channel succeeds exactly when some backend is
  usable; the target then encodes the expansion of the configuration: every usable address of every
  entry once, in configuration order, literal addresses only.  The authority is the first entry that
  has a usable address, never one that DNS skipped.\<close>

theorem multi_backend_target:
  assumes "2 \<le> length as"
  shows "(case prepare_grpc_channel_endpoints dns as of
       Inl _ \<Rightarrow> \<forall>a \<in> set as. candidates dns a = []
     | Inr (target, authority) \<Rightarrow>
         encode_sw_static_for_c_core (expand_backend_addresses dns as) = Inr target
       \<and> distinct (expand_backend_addresses dns as)
       \<and> set (expand_backend_addresses dns as) = (\<Union>a \<in> set as. set (candidates dns a))
       \<and> (\<forall>a \<in> set (expand_backend_addresses dns as). ba_kind a \<noteq> HOSTNAME)
       \<and> (\<exists>pre a post. as = pre @ a # post \<and> (\<forall>b \<in> set pre. candidates dns b = []) \<and> candidates dns a \<noteq> []
             \<and> authority = endpoint a))"
  using assms by (rule prepare_several)

definition demo_dns :: dns where
  "demo_dns host port = (if host = ''oap'' then DnsInfos [AF_INET ''10.0.0.1'', AF_INET6 ''fd00::1%2'', AF_INET ''10.0.0.1'']
     else DnsFailed)"

theorem multi_backend_target_witness:
  "prepare_grpc_channel_endpoints demo_dns (snd (parse_backend_addresses ''gone:80, oap:80,bad,10.0.0.2:81'')) =
     Inr (''ipv6:[::ffff:10.0.0.1]:80,[fd00::1]:80,[::ffff:10.0.0.2]:81'', ''oap:80'')
   \<and> distinct (expand_backend_addresses demo_dns (snd (parse_backend_addresses ''gone:80, oap:80,bad,10.0.0.2:81'')))"
proof -
  have l: "2 \<le> length (snd (parse_backend_addresses ''gone:80, oap:80,bad,10.0.0.2:81''))" by code_simp
  have p: "prepare_grpc_channel_endpoints demo_dns (snd (parse_backend_addresses ''gone:80, oap:80,bad,10.0.0.2:81'')) =
     Inr (''ipv6:[::ffff:10.0.0.1]:80,[fd00::1]:80,[::ffff:10.0.0.2]:81'', ''oap:80'')" by code_simp
  show ?thesis using multi_backend_target [OF l, of demo_dns] p by simp
qed

text \<open>Opening the channel never fails the host process: whatever the configured text, DNS, the
  credentials and the first channel constructor do, the target and authority are non-empty and the
  call returns a channel as long as a placeholder channel to \<open>localhost:1\<close> can be opened.\<close>

theorem channel_creation_never_raises:
  assumes "\<And>opts. \<exists>ch. insecure ''localhost:1'' opts = Inr ch"
  shows "(\<exists>ch. create_channel credentials secure insecure dns c = Inr ch)
     \<and> fst (resolve_channel_target_and_authority dns raw) \<noteq> [] \<and> snd (resolve_channel_target_and_authority dns raw) \<noteq> []"
proof -
  obtain ch where "insecure ''localhost:1'' (channel_options (snd (resolve_channel_target_and_authority dns (agent_collector_backend_services c)))) = Inr ch"
    using assms by blast
  then have "\<exists>ch. create_channel credentials secure insecure dns c = Inr ch"
    by (auto simp: create_channel_def split: prod.split sum.split)
  moreover have ep: "endpoint a \<noteq> []" for a by (simp add: endpoint_def)
  have "t \<noteq> [] \<and> u \<noteq> []" if "prepare_grpc_channel_endpoints dns as = Inr (t, u)" for as t u
  proof (cases "2 \<le> length as")
    case True
    then show ?thesis using prepare_several [OF True, of dns] that ep
      by (auto simp: encode_sw_static_for_c_core_def split: if_splits)
  next
    case False
    then have "as = [] \<or> length as = 1" using less_2_cases [of "length as"] by auto
    then show ?thesis using that ep by (auto simp: prepare_grpc_channel_endpoints_def split: if_splits)
  qed
  then have "fst (resolve_channel_target_and_authority dns raw) \<noteq> [] \<and> snd (resolve_channel_target_and_authority dns raw) \<noteq> []"
    using ep by (auto simp: resolve_channel_target_and_authority_def Let_def split: sum.split)
  ultimately show ?thesis by blast
qed

theorem channel_creation_never_raises_witness:
  "\<forall>c. \<exists>ch. create_channel (Inl (OSError ''no certificate'')) (\<lambda>t k opts. Inr t)
     (\<lambda>t opts. if t = ''localhost:1'' then Inr t else Inl (ValueError ''bad target'')) (demo_dns) c = Inr ch"
proof
  fix c
  show "\<exists>ch. create_channel (Inl (OSError ''no certificate'')) (\<lambda>t k opts. Inr t)
     (\<lambda>t opts. if t = ''localhost:1'' then Inr t else Inl (ValueError ''bad target'')) (demo_dns) c = Inr ch"
    by (rule conjunct1 [OF channel_creation_never_raises [where raw = "''x''"]]) simp
qed

text \<open>The READY gate sees through interceptors and fails open: for a sync channel whose state can be
  read and that is wrapped in at most three interceptors, reports are let through exactly when the
  state is READY; behind more wrappers, or when reading the state raises, they are let through
  regardless.\<close>

theorem ready_gate:
  assumes "inj code" and "get_state ch = None" and "check_state ch = None" and "inner_channel ch = Some inner"
    and "check_state inner = Some check"
  shows "is_channel_ready code (intercepted n ch) \<longleftrightarrow>
     4 \<le> n \<or> (\<exists>e. check True = Inl e) \<or> (\<exists>c. check True = Inr c \<and> (c \<notin> range code \<or> c = code READY))"
proof -
  have "get_state (intercepted n ch) = None" using assms(2) by (cases n) simp_all
  then have u: "unwrap_connectivity_state code (intercepted n ch) True =
      (if n < 4 then bind_res (check True) (\<lambda>c. Inr (state_of_code code c)) else Inr None)"
    by (simp add: unwrap_connectivity_state_def probe_intercepted [OF assms(4,5,3)])
  have none: "state_of_code code c = None" if "c \<notin> range code" for c
    using that by (auto simp: state_of_code_def find_None_iff)
  show ?thesis
  proof (cases "check True")
    case (Inl e)
    then show ?thesis using u by (simp add: is_channel_ready_def)
  next
    case (Inr c)
    show ?thesis
    proof (cases "c \<in> range code")
      case True
      then obtain s where "c = code s" by blast
      with Inr u assms(1) state_of_code_inj [OF assms(1), of s] show ?thesis
        by (auto simp: is_channel_ready_def inj_eq)
    next
      case False
      with Inr u none [OF False] show ?thesis by (simp add: is_channel_ready_def)
    qed
  qed
qed

definition demo_codes :: "connectivity \<Rightarrow> int" where
  "demo_codes s = (case s of IDLE \<Rightarrow> 0 | CONNECTING \<Rightarrow> 1 | READY \<Rightarrow> 2 | TRANSIENT_FAILURE \<Rightarrow> 3 | SHUTDOWN \<Rightarrow> 4)"

theorem ready_gate_witness:
  "is_channel_ready demo_codes (intercepted 2 (Channel None None (Some (Channel None (Some (\<lambda>_. Inr 2)) None))))
   \<and> \<not> is_channel_ready demo_codes (intercepted 2 (Channel None None (Some (Channel None (Some (\<lambda>_. Inr 1)) None))))"
proof -
  have "inj demo_codes" by (rule injI) (auto simp: demo_codes_def split: connectivity.splits)
  moreover have "1 \<in> range demo_codes" by (rule range_eqI [of _ _ CONNECTING]) (simp add: demo_codes_def)
  ultimately show ?thesis
    using ready_gate [of demo_codes "Channel None None (Some (Channel None (Some (\<lambda>_. Inr 2)) None))" _ _ 2]
      ready_gate [of demo_codes "Channel None None (Some (Channel None (Some (\<lambda>_. Inr 1)) None))" _ _ 2]
    by (auto simp: demo_codes_def)
qed

text \<open>Outages do not flood the log: over any sequence of channel events in time order, two lines of
  the same kind of connectivity event, or of the same reporter's exceptions, are at least 30 seconds
  apart, and two authentication lines at least 60 seconds.\<close>

theorem outage_logs_are_spaced:
  assumes "sorted ts"
  shows "sorted_wrt (\<lambda>a b. 30 \<le> b - a) (log_times (\<lambda>now. log_connectivity_event now kind) ts st)
     \<and> sorted_wrt (\<lambda>a b. 30 \<le> b - a) (log_times (\<lambda>now dl. case log_reporter_exception_throttled now reporter wait dl of (ls, dl') \<Rightarrow> (ls \<noteq> [], dl')) ts dl)
     \<and> sorted_wrt (\<lambda>a b. 60 \<le> b - a) (log_times log_auth_failure_throttled ts st)"
  using connectivity_log.spaced [OF _ assms] reporter_log.spaced [OF _ assms] auth_log.spaced [OF _ assms] by simp

theorem outage_logs_are_spaced_witness:
  "sorted_wrt (\<lambda>a b. 30 \<le> b - a) (log_times (\<lambda>now. log_connectivity_event now ''idle'') [40, 50, 75, 80] channel_log_init)
   \<and> log_times (\<lambda>now. log_connectivity_event now ''idle'') [40, 50, 75, 80] channel_log_init = [40, 75]"
  using outage_logs_are_spaced [of "[40, 50, 75, 80]" "''idle''" channel_log_init]
  by (simp add: log_connectivity_event_def channel_log_init_def)

end
