(* ===== verification/Batches.thy ===== *)
theory Batches
  imports PyQueue Config Utils "HOL-Library.Sublist"
begin

text \<open>
  The batches of the reporters: the generators over the agent's queues in
  \<open>skywalking/agent/protocol/{grpc,kafka,http}.py\<close> and their asyncio counterparts, and the services of
  \<open>skywalking/client/\<close> that consume them.  What a generator observes at each pull - the clock, and the items
  the application put into the queue before the \<open>get\<close> returned - is the list of pulls; the transport
  stops pulling where the list ends.  The locale \<open>batch_window\<close> is the contract of the guarded
  \<open>queue.get\<close>: accounting and termination are proved once for the gRPC and the Kafka/HTTP window.
\<close>

section \<open>The generators\<close>

type_synonym 'a pull = "real \<times> 'a list"

definition queue_get_within_batch ::
  "bool \<Rightarrow> real \<Rightarrow> real \<Rightarrow> 'a pyqueue \<Rightarrow> ('a \<times> 'a pyqueue) option" where
  "queue_get_within_batch allow_immediate batch_deadline now q =
     (let remaining = batch_deadline - now in
      if remaining \<le> 0 \<and> \<not> allow_immediate then None else q_get_nowait q)"

text \<open>
  The generator loop of a report call.  \<open>get first now\<close> is its guarded \<open>queue.get\<close>; the result lists the
  items yielded, whether the generator has ended by itself, and the queue.
\<close>

fun drain :: "(bool \<Rightarrow> real \<Rightarrow> 'a pyqueue \<Rightarrow> ('a \<times> 'a pyqueue) option) \<Rightarrow> bool \<Rightarrow> 'a pull list \<Rightarrow> 'a pyqueue
    \<Rightarrow> ('a list \<times> bool \<times> 'a pyqueue) res" where
  "drain get first [] q = Inr ([], False, q)"
| "drain get first ((now, arriving) # ps) q =
     (let q1 = snd (pyq.offer q arriving) in
      case get first now q1 of
        None \<Rightarrow> Inr ([], True, q1)
      | Some (x, q2) \<Rightarrow>
          bind_res (q_task_done q2) (\<lambda>q3.
          bind_res (drain get False ps q3) (\<lambda>(xs, ended, q'). Inr (x # xs, ended, q'))))"

definition grpc_generator :: "config \<Rightarrow> real \<Rightarrow> 'a pull list \<Rightarrow> 'a pyqueue \<Rightarrow> ('a list \<times> bool \<times> 'a pyqueue) res" where
  "grpc_generator c start ps q =
     drain (\<lambda>first now. queue_get_within_batch first (start + real_of_int (agent_queue_timeout c)) now) True ps q"

text \<open>
  The window of the Kafka and HTTP generators: whole seconds since the first pull count against the
  timeout, and the first pull is always made.  A blocking \<open>get\<close> refuses a negative timeout.
\<close>

definition py_trunc :: "real \<Rightarrow> int" where
  "py_trunc x = (if x < 0 then - \<lfloor>- x\<rfloor> else \<lfloor>x\<rfloor>)"

definition legacy_get :: "int \<Rightarrow> real \<Rightarrow> bool \<Rightarrow> real \<Rightarrow> 'a pyqueue \<Rightarrow> ('a \<times> 'a pyqueue) option" where
  "legacy_get timeout start first now q =
     (if \<not> first \<and> timeout - py_trunc (now - start) \<le> 0 then None else q_get_nowait q)"

definition legacy_generator ::
  "config \<Rightarrow> bool \<Rightarrow> 'a pull list \<Rightarrow> 'a pyqueue \<Rightarrow> ('a list \<times> bool \<times> 'a pyqueue) res" where
  "legacy_generator c block ps q =
     (case ps of
        [] \<Rightarrow> Inr ([], False, q)
      | (start, _) # _ \<Rightarrow>
          if block \<and> agent_queue_timeout c < 0 then Inl (ValueError ''timeout must be a non-negative number'')
          else drain (legacy_get (agent_queue_timeout c) start) True ps q)"

text \<open>
  The asyncio generators await \<open>queue.get()\<close>: at a wake-up with an empty queue they go on waiting, so
  they never end by themselves.
\<close>

fun aio_generator :: "'a list list \<Rightarrow> 'a pyqueue \<Rightarrow> ('a list \<times> bool \<times> 'a pyqueue) res" where
  "aio_generator [] q = Inr ([], False, q)"
| "aio_generator (arriving # ps) q =
     (let q1 = snd (pyq.offer q arriving) in
      case q_get_nowait q1 of
        None \<Rightarrow> aio_generator ps q1
      | Some (x, q2) \<Rightarrow>
          bind_res (q_task_done q2) (\<lambda>q3.
          bind_res (aio_generator ps q3) (\<lambda>(xs, ended, q'). Inr (x # xs, ended, q'))))"

section \<open>The consuming services\<close>

text \<open>
  What a service passes on of the items pulled so far: a stream or a loop passes each item on, the
  batch services first collect the whole generator.
\<close>

definition each_item :: "'a list \<Rightarrow> bool \<Rightarrow> 'a list list" where
  "each_item xs ended = map (\<lambda>x. [x]) xs"

definition http_log_batch :: "'a list \<Rightarrow> bool \<Rightarrow> 'a list list" where
  "http_log_batch xs ended = (if ended \<and> xs \<noteq> [] then [xs] else [])"

definition kafka_meter_batch :: "'a list \<Rightarrow> bool \<Rightarrow> 'a list list" where
  "kafka_meter_batch xs ended = (if ended then [xs] else [])"

section \<open>Accounting and termination\<close>

lemma offer_appends:
  assumes "q_ok q"
  obtains acc where "subseq acc xs" and "q_items (snd (pyq.offer q xs)) = q_items q @ acc"
    and "q_ok (snd (pyq.offer q xs))" and "q_in_flight (snd (pyq.offer q xs)) = q_in_flight q"
proof -
  have "\<exists>acc. subseq acc xs \<and> q_items (snd (pyq.offer q xs)) = q_items q @ acc
          \<and> q_in_flight (snd (pyq.offer q xs)) = q_in_flight q"
    using assms
  proof (induction xs arbitrary: q)
    case (Cons x xs)
    show ?case
    proof (cases "q_put_nowait q x")
      case None
      with Cons.IH [OF Cons.prems] show ?thesis by (auto simp: split_beta)
    next
      case (Some q1)
      have "q_items q1 = q_items q @ [x]" "q_in_flight q1 = q_in_flight q" "q_ok q1"
        using Some Cons.prems by (auto simp: q_put_nowait_def q_in_flight_def intro: q_ok_put split: if_splits)
      with Cons.IH [of q1] Some show ?thesis by auto
    qed
  qed simp
  with that pyq.offer_ok [OF assms prod.collapse [symmetric]] show ?thesis by blast
qed

text \<open>One iteration of a generator after its \<open>get\<close>.\<close>

lemma take_one:
  assumes "q_ok q" and "q_get_nowait q = Some (x, q2)"
  obtains q3 where "q_task_done q2 = Inr q3" and "q_ok q3" and "q_items q = x # q_items q3"
    and "q_in_flight q3 = q_in_flight q"
  using q_task_done_ok [OF assms] pyq.get_items [OF assms(2)] by auto

definition batch_accounts :: "'a pyqueue \<Rightarrow> 'a list \<Rightarrow> 'a list \<Rightarrow> 'a pyqueue \<Rightarrow> bool" where
  "batch_accounts q offered xs q' \<longleftrightarrow>
     (\<exists>acc. subseq acc offered \<and> xs @ q_items q' = q_items q @ acc) \<and> q_ok q' \<and> q_in_flight q' = q_in_flight q"

lemma batch_accounts_step:
  assumes ok: "q_ok q" and get: "q_get_nowait (snd (pyq.offer q arriving)) = Some (x, q2)"
    and "q_task_done q2 = Inr q3" and "batch_accounts q3 offered xs q'"
  shows "batch_accounts q (arriving @ offered) (x # xs) q'"
proof -
  obtain acc where acc: "subseq acc arriving" "q_items (snd (pyq.offer q arriving)) = q_items q @ acc"
    "q_ok (snd (pyq.offer q arriving))" "q_in_flight (snd (pyq.offer q arriving)) = q_in_flight q"
    by (rule offer_appends [OF ok])
  obtain q4 where q4: "q_task_done q2 = Inr q4" "q_items (snd (pyq.offer q arriving)) = x # q_items q4"
    "q_in_flight q4 = q_in_flight (snd (pyq.offer q arriving))"
    using take_one [OF acc(3) get] by metis
  have [simp]: "q4 = q3" using q4(1) assms(3) by simp
  obtain acc' where "subseq acc' offered" "xs @ q_items q' = q_items q3 @ acc'"
    using assms(4) by (auto simp: batch_accounts_def)
  moreover have "q_items q @ acc = x # q_items q3" using acc(2) q4(2) by simp
  ultimately have "subseq (acc @ acc') (arriving @ offered) \<and> (x # xs) @ q_items q' = q_items q @ (acc @ acc')"
    using list_emb_append_mono [OF acc(1)] by (auto simp flip: append_assoc)
  then show ?thesis using assms(4) q4(3) acc(4) unfolding batch_accounts_def by auto
qed

lemma batch_accounts_wait:
  assumes "q_ok q" and "batch_accounts (snd (pyq.offer q arriving)) offered xs q'"
  shows "batch_accounts q (arriving @ offered) xs q'"
proof -
  obtain acc where acc: "subseq acc arriving" "q_items (snd (pyq.offer q arriving)) = q_items q @ acc"
    "q_in_flight (snd (pyq.offer q arriving)) = q_in_flight q"
    by (rule offer_appends [OF assms(1)])
  with assms(2) show ?thesis unfolding batch_accounts_def by (metis append_assoc list_emb_append_mono)
qed

lemma batch_accounts_stop:
  assumes "q_ok q"
  shows "batch_accounts q (arriving @ offered) [] (snd (pyq.offer q arriving))"
proof (rule batch_accounts_wait [OF assms])
  show "batch_accounts (snd (pyq.offer q arriving)) offered [] (snd (pyq.offer q arriving))"
    using offer_appends [OF assms, of arriving] by (auto simp: batch_accounts_def)
qed

locale batch_window =
  fixes get :: "bool \<Rightarrow> real \<Rightarrow> 'a pyqueue \<Rightarrow> ('a \<times> 'a pyqueue) option"
    and expired :: "real \<Rightarrow> bool"
  assumes get_expired: "expired now \<Longrightarrow> get False now q = None"
    and get_open: "first \<or> \<not> expired now \<Longrightarrow> get first now q = q_get_nowait q"
begin

lemma get_queue: "get first now q = Some r \<Longrightarrow> q_get_nowait q = Some r"
  using get_expired get_open by (metis option.distinct(1))

lemma drain_accounts:
  "q_ok q \<Longrightarrow> \<exists>xs ended q'. drain get first ps q = Inr (xs, ended, q')
     \<and> batch_accounts q (concat (map snd ps)) xs q'"
proof (induction ps arbitrary: first q)
  case (Cons p ps)
  obtain now arriving where p: "p = (now, arriving)" by force
  let ?q1 = "snd (pyq.offer q arriving)"
  show ?case
  proof (cases "get first now ?q1")
    case None
    then show ?thesis using batch_accounts_stop [OF Cons.prems] by (auto simp: p)
  next
    case (Some r)
    obtain x q2 where r: "r = (x, q2)" by force
    have get: "q_get_nowait ?q1 = Some (x, q2)" using get_queue Some r by simp
    have "q_ok ?q1" by (rule offer_appends [OF Cons.prems])
    then obtain q3 where q3: "q_task_done q2 = Inr q3" "q_ok q3" using take_one [OF _ get] by metis
    from Cons.IH [OF this(2)] obtain xs ended q'
      where d: "drain get False ps q3 = Inr (xs, ended, q')"
        and a: "batch_accounts q3 (concat (map snd ps)) xs q'" by blast
    show ?thesis using batch_accounts_step [OF Cons.prems get q3(1) a] by (simp add: p Some r q3(1) d)
  qed
qed (auto simp: batch_accounts_def)

lemma drain_ends:
  assumes "drain get first ps q = Inr (xs, ended, q')" and "i < length ps" and "expired (fst (ps ! i))"
    and "first \<longrightarrow> 0 < i"
  shows "ended \<and> length xs \<le> i"
  using assms
proof (induction ps arbitrary: first q i xs)
  case (Cons p ps)
  obtain now arriving where p: "p = (now, arriving)" by force
  show ?case
  proof (cases "get first now (snd (pyq.offer q arriving))")
    case None
    then show ?thesis using Cons.prems(1) by (simp add: p)
  next
    case (Some r)
    obtain x q2 where r: "r = (x, q2)" by force
    obtain j where j: "i = Suc j"
      using Cons.prems(3,4) Some p get_expired [of now] by (cases i; cases first) auto
    obtain q3 ys where "drain get False ps q3 = Inr (ys, ended, q')" "xs = x # ys"
      using Cons.prems(1) by (auto simp: p Some r bind_res_Inr_iff)
    with Cons.IH [of False q3 ys j] Cons.prems(2,3) j show ?thesis by simp
  qed
qed simp

end

interpretation grpc_window: batch_window "\<lambda>first now. queue_get_within_batch first d now" "\<lambda>now. d \<le> now" for d
  by unfold_locales (auto simp: queue_get_within_batch_def)

interpretation legacy_window: batch_window "legacy_get timeout start" "\<lambda>now. timeout \<le> py_trunc (now - start)"
  for timeout start
  by unfold_locales (auto simp: legacy_get_def)

lemma grpc_generator_accounts:
  assumes "q_ok q"
  obtains xs ended q' where "grpc_generator c start ps q = Inr (xs, ended, q')"
    and "batch_accounts q (concat (map snd ps)) xs q'"
  using grpc_window.drain_accounts [OF assms] by (fastforce simp: grpc_generator_def)

lemma legacy_generator_accounts:
  assumes "q_ok q" and "block \<longrightarrow> 0 \<le> agent_queue_timeout c"
  obtains xs ended q' where "legacy_generator c block ps q = Inr (xs, ended, q')"
    and "batch_accounts q (concat (map snd ps)) xs q'"
proof (cases ps)
  case Nil
  then show ?thesis using that [of "[]" False q] assms(1) by (simp add: legacy_generator_def batch_accounts_def)
next
  case (Cons p ps')
  obtain start arriving where p: "p = (start, arriving)" by force
  obtain xs ended q' where "drain (legacy_get (agent_queue_timeout c) start) True ps q = Inr (xs, ended, q')"
    and "batch_accounts q (concat (map snd ps)) xs q'"
    using legacy_window.drain_accounts [OF assms(1)] by blast
  then show ?thesis using that assms(2) by (simp add: legacy_generator_def Cons p not_less)
qed

lemma aio_generator_accounts:
  "q_ok q \<Longrightarrow> \<exists>xs q'. aio_generator ps q = Inr (xs, False, q') \<and> batch_accounts q (concat ps) xs q'"
proof (induction ps arbitrary: q)
  case (Cons arriving ps)
  let ?q1 = "snd (pyq.offer q arriving)"
  have ok: "q_ok ?q1" by (rule offer_appends [OF Cons.prems])
  show ?case
  proof (cases "q_get_nowait ?q1")
    case None
    with Cons.IH [OF ok] batch_accounts_wait [OF Cons.prems] show ?thesis by auto
  next
    case (Some r)
    obtain x q2 where get: "q_get_nowait ?q1 = Some (x, q2)" using Some by (cases r) simp
    then obtain q3 where q3: "q_task_done q2 = Inr q3" "q_ok q3" using take_one [OF ok get] by metis
    with Cons.IH [OF q3(2)] batch_accounts_step [OF Cons.prems get q3(1)] get show ?thesis by fastforce
  qed
qed (simp add: batch_accounts_def)

lemma py_trunc_mono: "0 \<le> n \<Longrightarrow> real_of_int n \<le> x \<Longrightarrow> n \<le> py_trunc x"
  by (auto simp: py_trunc_def le_floor_iff)

text \<open>C29. A sync reporter's batch ends: as soon as a pull after the first happens at or after the end of the
  window - the deadline of the gRPC generators, the timeout after the first pull for Kafka and HTTP - the
  generator returns, having yielded at most the items of the pulls before it, however fast the
  application keeps filling the queue.\<close>

theorem batches_end:
  assumes ok: "q_ok q" and i: "0 < i" "i < length ps"
  shows "(start + real_of_int (agent_queue_timeout c) \<le> fst (ps ! i) \<longrightarrow>
            (\<exists>xs q'. grpc_generator c start ps q = Inr (xs, True, q') \<and> length xs \<le> i))
       \<and> (0 \<le> agent_queue_timeout c \<and> fst (ps ! 0) + real_of_int (agent_queue_timeout c) \<le> fst (ps ! i) \<longrightarrow>
            (\<exists>xs q'. legacy_generator c block ps q = Inr (xs, True, q') \<and> length xs \<le> i))"
proof (intro conjI impI)
  assume late: "start + real_of_int (agent_queue_timeout c) \<le> fst (ps ! i)"
  obtain xs ended q' where "grpc_generator c start ps q = Inr (xs, ended, q')"
    by (rule grpc_generator_accounts [OF ok])
  with grpc_window.drain_ends [of _ True ps q xs ended q' i] late i
  show "\<exists>xs q'. grpc_generator c start ps q = Inr (xs, True, q') \<and> length xs \<le> i"
    by (auto simp: grpc_generator_def)
next
  assume late: "0 \<le> agent_queue_timeout c \<and> fst (ps ! 0) + real_of_int (agent_queue_timeout c) \<le> fst (ps ! i)"
  obtain xs ended q' where g: "legacy_generator c block ps q = Inr (xs, ended, q')"
    using legacy_generator_accounts [OF ok] late by blast
  obtain first_at arriving ps' where ps: "ps = (first_at, arriving) # ps'" using i by (cases ps) auto
  have "agent_queue_timeout c \<le> py_trunc (fst (ps ! i) - first_at)"
    using late by (intro py_trunc_mono) (auto simp: ps algebra_simps)
  then show "\<exists>xs q'. legacy_generator c block ps q = Inr (xs, True, q') \<and> length xs \<le> i"
    using legacy_window.drain_ends [of _ first_at True ps q xs ended q' i] g late i
    by (auto simp: legacy_generator_def ps)
qed

theorem batches_end_witness:
  "\<forall>c. let c1 = c\<lparr>agent_queue_timeout := 1\<rparr>; q = Queue_init 8;
       ps = [(10, [1 :: nat, 2]), (10.5, [3, 4]), (11, [5]), (20, [6])]
   in (\<exists>xs q'. grpc_generator c1 10 ps q = Inr (xs, True, q') \<and> length xs \<le> 2)
    \<and> (\<exists>xs q'. legacy_generator c1 True ps q = Inr (xs, True, q') \<and> length xs \<le> 2)"
  using batches_end [of "Queue_init 8" 2 "[(10, [1 :: nat, 2]), (10.5, [3, 4]), (11, [5]), (20, [6])]" 10
      "_\<lparr>agent_queue_timeout := 1\<rparr>" True]
  by (simp add: Let_def)

end
