(* ===== verification/Protocols.thy ===== *)
theory Protocols
  imports GrpcChannel Batches
begin

text \<open>
  The reporters' protocols: \<open>skywalking/agent/protocol/grpc.py\<close>, \<open>kafka.py\<close>, \<open>http.py\<close> and their asyncio
  counterparts, with the service management of \<open>skywalking/client/\<close>.  A protocol's state extends that of
  its service management client: whether the instance properties were sent, the counter of the
  periodic refresh, and the messages delivered so far.  The outcome of each call to the collector is
  a parameter.  The conversion of a segment into its message is the subject of the theory \<open>Wire\<close>; here
  the queue's items are abstract.
\<close>

section \<open>Service management\<close>

text \<open>What a call to the collector does: it returns, fails with an RPC error, or raises something else.\<close>

datatype call_outcome = CallOk | CallRpcError rpc_failure | CallRaises py_error

datatype management_message = InstanceProps | KeepAlive

record management =
  properties_sent :: bool
  sent_properties_counter :: int
  delivered :: "management_message list"

definition management_init :: management where
  "management_init = \<lparr>properties_sent = False, sent_properties_counter = 0, delivered = []\<rparr>"

definition send :: "management_message \<Rightarrow> call_outcome \<Rightarrow> (rpc_failure option, 'b management_scheme) op" where
  "send m outcome =
     (case outcome of
        CallOk \<Rightarrow> seq (modify (\<lambda>s. s\<lparr>delivered := delivered s @ [m]\<rparr>)) (\<lambda>_. ret None)
      | CallRpcError f \<Rightarrow> ret (Some f)
      | CallRaises e \<Rightarrow> raise_err e)"

definition refresh_instance_props :: "config \<Rightarrow> call_outcome \<Rightarrow> (rpc_failure option, 'b management_scheme) op" where
  "refresh_instance_props c outcome =
     seq (modify (\<lambda>s. s\<lparr>sent_properties_counter := sent_properties_counter s + 1\<rparr>)) (\<lambda>_.
     seq (gets sent_properties_counter) (\<lambda>n.
     if agent_collector_properties_report_period_factor c = 0 then raise_err ZeroDivisionError
     else if n mod agent_collector_properties_report_period_factor c = 0 then send InstanceProps outcome
     else ret None))"

text \<open>The gRPC clients log an RPC error of the refresh and send the ping anyway.\<close>

definition grpc_send_heart_beat ::
  "config \<Rightarrow> call_outcome \<Rightarrow> call_outcome \<Rightarrow> (rpc_failure option, 'b management_scheme) op" where
  "grpc_send_heart_beat c refresh ping = seq (refresh_instance_props c refresh) (\<lambda>_. send KeepAlive ping)"

text \<open>The Kafka and HTTP clients let every exception through; \<open>None\<close> is a call that returns.\<close>

definition outcome_of :: "py_error option \<Rightarrow> call_outcome" where
  "outcome_of r = (case r of None \<Rightarrow> CallOk | Some e \<Rightarrow> CallRaises e)"

definition plain_send_heart_beat ::
  "config \<Rightarrow> py_error option \<Rightarrow> py_error option \<Rightarrow> (unit, 'b management_scheme) op" where
  "plain_send_heart_beat c refresh ping =
     seq (refresh_instance_props c (outcome_of refresh)) (\<lambda>_.
     seq (send KeepAlive (outcome_of ping)) (\<lambda>_. ret ()))"

text \<open>The Kafka client sends the properties when it is created, the HTTP protocol with its first heartbeat.\<close>

definition KafkaServiceManagementClient_init :: "py_error option \<Rightarrow> (unit, management) op" where
  "KafkaServiceManagementClient_init props =
     seq (modify (\<lambda>_. management_init)) (\<lambda>_. seq (send InstanceProps (outcome_of props)) (\<lambda>_. ret ()))"

definition kafka_heartbeat :: "config \<Rightarrow> py_error option \<Rightarrow> py_error option \<Rightarrow> (unit, management) op" where
  "kafka_heartbeat c refresh ping = plain_send_heart_beat c refresh ping"

definition http_heartbeat ::
  "config \<Rightarrow> py_error option \<Rightarrow> py_error option \<Rightarrow> py_error option \<Rightarrow> (unit, management) op" where
  "http_heartbeat c props refresh ping =
     seq (gets properties_sent) (\<lambda>sent.
     seq (if sent then ret ()
          else seq (send InstanceProps (outcome_of props)) (\<lambda>_. modify (\<lambda>s. s\<lparr>properties_sent := True\<rparr>))) (\<lambda>_.
     plain_send_heart_beat c refresh ping))"

section \<open>The gRPC protocol\<close>

text \<open>\<open>gp_log\<close> is the module-wide throttle of \<open>utils/grpc_channel.py\<close>.\<close>

record grpc_protocol = management +
  gp_state :: "connectivity option"
  gp_subscribed :: nat
  gp_closed :: bool
  gp_log :: channel_log

definition GrpcProtocol_init :: "channel_log \<Rightarrow> grpc_protocol" where
  "GrpcProtocol_init lg =
     \<lparr>properties_sent = False, sent_properties_counter = 0, delivered = [],
      gp_state = None, gp_subscribed = 1, gp_closed = False, gp_log = lg\<rparr>"

definition grpc_is_ready :: "grpc_protocol \<Rightarrow> bool" where
  "grpc_is_ready p = (gp_state p = Some READY)"

text \<open>
  \<open>_cb\<close>, and \<open>_on_connectivity\<close> of the asyncio protocol.  The first component is the line logged.
\<close>

definition grpc_cb :: "real \<Rightarrow> connectivity \<Rightarrow> grpc_protocol \<Rightarrow> string option \<times> grpc_protocol" where
  "grpc_cb now state p =
     (let (line, lg) = apply_connectivity_transition now (gp_state p) state (gp_log p);
          p1 = (if gp_state p = Some READY \<and> state \<noteq> READY
                then p\<lparr>properties_sent := False, sent_properties_counter := 0\<rparr> else p)
      in (line, p1\<lparr>gp_log := lg, gp_state := Some state\<rparr>))"

text \<open>\<open>unsubscribe\<close> removes the callback where it is registered, \<open>subscribe\<close> adds it again.\<close>

definition grpc_on_error :: "grpc_protocol \<Rightarrow> grpc_protocol" where
  "grpc_on_error p = p\<lparr>gp_subscribed := Suc (gp_subscribed p - 1)\<rparr>"

definition grpc_close :: "grpc_protocol \<Rightarrow> grpc_protocol" where
  "grpc_close p = p\<lparr>gp_subscribed := gp_subscribed p - 1, gp_closed := True\<rparr>"

text \<open>\<open>on_error\<close> is a parameter: the asyncio protocol's does nothing but log.\<close>

definition rpc_failed :: "real \<Rightarrow> (grpc_protocol \<Rightarrow> grpc_protocol) \<Rightarrow> rpc_failure \<Rightarrow> grpc_protocol \<Rightarrow> grpc_protocol" where
  "rpc_failed now on_error f p =
     (case handle_rpc_error now f on_error (gp_log p, p) of (lg, p') \<Rightarrow> p'\<lparr>gp_log := lg\<rparr>)"

definition heartbeat_when_ready ::
  "real \<Rightarrow> config \<Rightarrow> (grpc_protocol \<Rightarrow> grpc_protocol) \<Rightarrow> call_outcome \<Rightarrow> call_outcome \<Rightarrow> call_outcome
    \<Rightarrow> (unit, grpc_protocol) op" where
  "heartbeat_when_ready now c on_error props refresh ping =
     seq (gets properties_sent) (\<lambda>sent.
     seq (if sent then ret ()
          else seq (send InstanceProps props) (\<lambda>failed.
               case failed of
                 None \<Rightarrow> modify (\<lambda>p. p\<lparr>properties_sent := True\<rparr>)
               | Some f \<Rightarrow> modify (rpc_failed now on_error f))) (\<lambda>_.
     seq (grpc_send_heart_beat c refresh ping) (\<lambda>failed.
     case failed of
       None \<Rightarrow> ret ()
     | Some f \<Rightarrow> seq (modify (rpc_failed now on_error f)) (\<lambda>_. raise_err (RpcError ''keepAlive'')))))"

definition grpc_heartbeat ::
  "real \<Rightarrow> config \<Rightarrow> call_outcome \<Rightarrow> call_outcome \<Rightarrow> call_outcome \<Rightarrow> (unit, grpc_protocol) op" where
  "grpc_heartbeat now c props refresh ping =
     seq (gets grpc_is_ready) (\<lambda>ready.
     if \<not> ready then ret () else heartbeat_when_ready now c grpc_on_error props refresh ping)"

definition query_profile_commands :: "grpc_protocol \<Rightarrow> call_outcome \<Rightarrow> call_outcome option" where
  "query_profile_commands p do_query = (if grpc_is_ready p then Some do_query else None)"

definition notify_profile_task_finish :: "grpc_protocol \<Rightarrow> call_outcome \<Rightarrow> call_outcome option" where
  "notify_profile_task_finish p finish_call = (if grpc_is_ready p then Some finish_call else None)"

text \<open>
  The asyncio protocol also peeks at the channel when the watch has not seen it leave \<open>None\<close> or \<open>IDLE\<close>;
  \<open>peeked\<close> is what \<open>get_state(True)\<close> returns or raises.
\<close>

definition aio_is_ready :: "real \<Rightarrow> connectivity option res \<Rightarrow> grpc_protocol \<Rightarrow> bool \<times> grpc_protocol" where
  "aio_is_ready now peeked p =
     (if gp_state p = Some READY then (True, p)
      else
        let p1 = (if gp_state p = None \<or> gp_state p = Some IDLE
                  then case peeked of
                         Inr (Some s) \<Rightarrow> snd (grpc_cb now s p)
                       | _ \<Rightarrow> p
                  else p)
        in (gp_state p1 = Some READY, p1))"

definition aio_on_error :: "grpc_protocol \<Rightarrow> grpc_protocol" where
  "aio_on_error p = p"

definition aio_heartbeat ::
  "real \<Rightarrow> config \<Rightarrow> connectivity option res \<Rightarrow> call_outcome \<Rightarrow> call_outcome \<Rightarrow> call_outcome \<Rightarrow> (unit, grpc_protocol) op" where
  "aio_heartbeat now c peeked props refresh ping =
     (\<lambda>p. case aio_is_ready now peeked p of
            (ready, p1) \<Rightarrow>
              if \<not> ready then (Inr (), p1) else heartbeat_when_ready now c aio_on_error props refresh ping p1)"

text \<open>
  \<open>watch_connectivity\<close>: each iteration sees the channel's state, or an error after which it sleeps; it
  never returns, and ends only by cancellation (where the list ends).
\<close>

fun watch_connectivity :: "(real \<times> connectivity res) list \<Rightarrow> grpc_protocol \<Rightarrow> grpc_protocol" where
  "watch_connectivity [] p = p"
| "watch_connectivity ((now, Inr state) # es) p = watch_connectivity es (snd (grpc_cb now state p))"
| "watch_connectivity ((now, Inl e) # es) p = watch_connectivity es p"

section \<open>Report calls\<close>

record 'a report_result =
  rr_error :: "py_error option"
  rr_handed :: "'a list"
  rr_posts :: "'a list list"
  rr_queue :: "'a pyqueue"
  rr_drops :: drop_log
  rr_lines :: "log_line list"

definition untouched :: "'a pyqueue \<Rightarrow> drop_log \<Rightarrow> 'a report_result" where
  "untouched q dl = \<lparr>rr_error = None, rr_handed = [], rr_posts = [], rr_queue = q, rr_drops = dl, rr_lines = []\<rparr>"

text \<open>
  \<open>report_segment\<close>, \<open>report_log\<close>, \<open>report_meter\<close> and \<open>report_snapshot\<close> of the gRPC protocols, which differ in the
  label of the drop log: a failed batch is counted as dropped, the error is handled and raised again.
\<close>

definition stream_report ::
  "string \<Rightarrow> real \<Rightarrow> (grpc_protocol \<Rightarrow> grpc_protocol) \<Rightarrow> call_outcome \<Rightarrow> ('a list \<times> bool \<times> 'a pyqueue) res
    \<Rightarrow> 'a pyqueue \<Rightarrow> drop_log \<Rightarrow> grpc_protocol \<Rightarrow> 'a report_result \<times> grpc_protocol" where
  "stream_report kind now on_error outcome generated q dl p =
     (case generated of
        Inl e \<Rightarrow> ((untouched q dl)\<lparr>rr_error := Some e\<rparr>, p)
      | Inr (xs, ended, q') \<Rightarrow>
          let r = (untouched q' dl)\<lparr>rr_handed := xs, rr_posts := each_item xs ended\<rparr> in
          (case outcome of
             CallOk \<Rightarrow> (r, p)
           | CallRaises e \<Rightarrow> (r\<lparr>rr_error := Some e\<rparr>, p)
           | CallRpcError f \<Rightarrow>
               let (ls, dl') = (if xs \<noteq> [] then log_dropped_throttled now kind (int (length xs)) False dl else ([], dl))
               in (r\<lparr>rr_error := Some (RpcError kind), rr_drops := dl', rr_lines := ls\<rparr>,
                   rpc_failed now on_error f p)))"

definition grpc_report ::
  "string \<Rightarrow> config \<Rightarrow> real \<Rightarrow> 'a pull list \<Rightarrow> call_outcome \<Rightarrow> real \<Rightarrow> 'a pyqueue \<Rightarrow> drop_log
    \<Rightarrow> grpc_protocol \<Rightarrow> 'a report_result \<times> grpc_protocol" where
  "grpc_report kind c start ps outcome now q dl p =
     (if \<not> grpc_is_ready p then (untouched q dl, p)
      else stream_report kind now grpc_on_error outcome (grpc_generator c start ps q) q dl p)"

definition aio_report ::
  "string \<Rightarrow> real \<Rightarrow> connectivity option res \<Rightarrow> 'a list list \<Rightarrow> call_outcome \<Rightarrow> real \<Rightarrow> 'a pyqueue \<Rightarrow> drop_log
    \<Rightarrow> grpc_protocol \<Rightarrow> 'a report_result \<times> grpc_protocol" where
  "aio_report kind asked peeked ps outcome now q dl p =
     (case aio_is_ready asked peeked p of
        (ready, p1) \<Rightarrow>
          if \<not> ready then (untouched q dl, p1)
          else stream_report kind now aio_on_error outcome (aio_generator ps q) q dl p1)"

text \<open>
  The Kafka and HTTP report calls: \<open>post\<close> is the service's way of passing items on, \<open>call\<close> the exception of
  the transport, if any.  The sync Kafka protocol lets it through; the HTTP protocols and the asyncio
  Kafka protocol swallow it.  Nothing is counted as dropped.
\<close>

definition plain_report ::
  "bool \<Rightarrow> ('a list \<Rightarrow> bool \<Rightarrow> 'a list list) \<Rightarrow> py_error option \<Rightarrow> ('a list \<times> bool \<times> 'a pyqueue) res
    \<Rightarrow> 'a pyqueue \<Rightarrow> drop_log \<Rightarrow> 'a report_result" where
  "plain_report swallow post call generated q dl =
     (case generated of
        Inl e \<Rightarrow> (untouched q dl)\<lparr>rr_error := if swallow then None else Some e\<rparr>
      | Inr (xs, ended, q') \<Rightarrow>
          (untouched q' dl)\<lparr>rr_handed := xs, rr_posts := post xs ended, rr_error := if swallow then None else call\<rparr>)"

definition kafka_report ::
  "('a list \<Rightarrow> bool \<Rightarrow> 'a list list) \<Rightarrow> config \<Rightarrow> bool \<Rightarrow> 'a pull list \<Rightarrow> py_error option \<Rightarrow> 'a pyqueue \<Rightarrow> drop_log \<Rightarrow> 'a report_result" where
  "kafka_report post c block ps call q dl = plain_report False post call (legacy_generator c block ps q) q dl"

definition http_report ::
  "('a list \<Rightarrow> bool \<Rightarrow> 'a list list) \<Rightarrow> config \<Rightarrow> bool \<Rightarrow> 'a pull list \<Rightarrow> py_error option \<Rightarrow> 'a pyqueue \<Rightarrow> drop_log \<Rightarrow> 'a report_result" where
  "http_report post c block ps call q dl = plain_report True post call (legacy_generator c block ps q) q dl"

definition plain_aio_report ::
  "('a list \<Rightarrow> bool \<Rightarrow> 'a list list) \<Rightarrow> 'a list list \<Rightarrow> py_error option \<Rightarrow> 'a pyqueue \<Rightarrow> drop_log \<Rightarrow> 'a report_result" where
  "plain_aio_report post ps call q dl = plain_report True post call (aio_generator ps q) q dl"

text \<open>The HTTP protocols' \<open>report_meter\<close> and the Kafka and HTTP \<open>report_snapshot\<close> do nothing.\<close>

definition unsupported_report :: "'a pyqueue \<Rightarrow> drop_log \<Rightarrow> 'a report_result" where
  "unsupported_report q dl = untouched q dl"

section \<open>What a report call accounts for\<close>

lemma batch_accounts_refl: "q_ok q \<Longrightarrow> batch_accounts q offered [] q"
  by (auto simp: batch_accounts_def)

lemma log_dropped_total:
  "log_dropped_throttled now kind (int n) False dl = (ls, dl') \<Longrightarrow>
   get_or 0 (drop_totals dl' kind) = get_or 0 (drop_totals dl kind) + int n"
  using log_dropped_throttled_accounting(2) [of now kind "int n" False dl ls dl' kind]
  by (simp add: dropped_count_def)

definition counts_failures :: "string \<Rightarrow> call_outcome \<Rightarrow> drop_log \<Rightarrow> 'a report_result \<Rightarrow> bool" where
  "counts_failures kind outcome dl r \<longleftrightarrow>
     get_or 0 (drop_totals (rr_drops r) kind) = get_or 0 (drop_totals dl kind)
       + (case outcome of CallRpcError f \<Rightarrow> int (length (rr_handed r)) | _ \<Rightarrow> 0)
     \<and> (rr_error r = None \<longleftrightarrow> outcome = CallOk)"

lemma stream_report_accounts:
  assumes "batch_accounts q offered xs q'"
    and "stream_report kind now on_error outcome (Inr (xs, ended, q')) q dl p = (r, p')"
  shows "batch_accounts q offered (rr_handed r) (rr_queue r) \<and> counts_failures kind outcome dl r"
  using assms log_dropped_total
  by (auto simp: stream_report_def untouched_def counts_failures_def Let_def
           split: call_outcome.splits prod.splits if_splits)



text \<open>C35. The asyncio HTTP log service and the asyncio Kafka meter service first collect their whole
  generator, but the asyncio generators never end: whatever arrives, such a report call takes items off
  the queue, posts nothing, raises nothing and counts nothing as dropped.\<close>

theorem aio_batch_services_never_post:
  assumes ok: "q_ok q" and post: "post = http_log_batch \<or> post = kafka_meter_batch"
  shows "\<exists>r. plain_aio_report post wakeups call q dl = r \<and> rr_posts r = [] \<and> rr_error r = None
     \<and> rr_drops r = dl \<and> batch_accounts q (concat wakeups) (rr_handed r) (rr_queue r)"
proof -
  obtain xs q' where "aio_generator wakeups q = Inr (xs, False, q')" "batch_accounts q (concat wakeups) xs q'"
    using aio_generator_accounts [OF ok] by blast
  then show ?thesis using post
    by (auto simp: plain_aio_report_def plain_report_def untouched_def http_log_batch_def kafka_meter_batch_def)
qed

theorem aio_batch_services_never_post_witness:
  "\<forall>dl. let r = plain_aio_report http_log_batch [[1 :: nat], [], [2]] None (Queue_init 10) dl
    in rr_posts r = [] \<and> rr_handed r = [1, 2] \<and> rr_drops r = dl"
proof -
  have "aio_generator [[1 :: nat], [], [2]] (Queue_init 10) = Inr ([1, 2], False, Queue_init 10)"
    by (simp add: Queue_init_def q_get_nowait_def q_put_nowait_def q_full_def q_task_done_def)
  then have "rr_handed (plain_aio_report http_log_batch [[1 :: nat], [], [2]] None (Queue_init 10) dl) = [1, 2]" for dl
    by (simp add: plain_aio_report_def plain_report_def)
  then show ?thesis
    using aio_batch_services_never_post [of "Queue_init 10" http_log_batch "[[1 :: nat], [], [2]]" None]
    by (simp add: Let_def)
qed

section \<open>The heartbeat schedule\<close>

text \<open>\<open>n\<close> heartbeats on a READY channel, every call of which returns.\<close>

fun heartbeats :: "config \<Rightarrow> real list \<Rightarrow> (unit, grpc_protocol) op" where
  "heartbeats c [] = ret ()"
| "heartbeats c (now # ts) = seq (grpc_heartbeat now c CallOk CallOk CallOk) (\<lambda>_. heartbeats c ts)"

lemma steady_heartbeat:
  assumes "gp_state p = Some READY" and "properties_sent p"
    and "0 < agent_collector_properties_report_period_factor c"
  shows "grpc_heartbeat now c CallOk CallOk CallOk p =
     (Inr (), p\<lparr>sent_properties_counter := sent_properties_counter p + 1,
        delivered := delivered p
          @ (if (sent_properties_counter p + 1) mod agent_collector_properties_report_period_factor c = 0
             then [InstanceProps] else []) @ [KeepAlive]\<rparr>)"
  using assms
  by (simp add: grpc_heartbeat_def heartbeat_when_ready_def grpc_send_heart_beat_def refresh_instance_props_def
        send_def grpc_is_ready_def seq_def)

lemma first_heartbeat:
  assumes "gp_state p = Some READY" and "\<not> properties_sent p"
  shows "grpc_heartbeat now c CallOk CallOk CallOk p =
     grpc_heartbeat now c CallOk CallOk CallOk
       (p\<lparr>delivered := delivered p @ [InstanceProps], properties_sent := True\<rparr>)"
  using assms by (simp add: grpc_heartbeat_def heartbeat_when_ready_def send_def grpc_is_ready_def seq_def)

lemma div_step:
  assumes "0 \<le> n" and "0 < (k :: int)"
  shows "(n + 1) div k = n div k + (if (n + 1) mod k = 0 then 1 else 0)"
proof -
  obtain m j where "n = int m" "k = int j" using assms by (metis nonneg_int_cases less_imp_le)
  moreover have "int (Suc m div j) = int (m div j) + (if int (Suc m mod j) = 0 then 1 else 0)"
    by (simp add: div_Suc)
  ultimately show ?thesis by (simp add: zdiv_int zmod_int add.commute)
qed

lemma steady_heartbeats:
  assumes "gp_state p = Some READY" and "properties_sent p" and "0 \<le> sent_properties_counter p"
    and "0 < agent_collector_properties_report_period_factor c"
  shows "\<exists>p' ms. heartbeats c ts p = (Inr (), p') \<and> gp_state p' = Some READY \<and> delivered p' = delivered p @ ms
     \<and> count_list ms KeepAlive = length ts
     \<and> int (count_list ms InstanceProps) =
         (sent_properties_counter p + int (length ts)) div agent_collector_properties_report_period_factor c
         - sent_properties_counter p div agent_collector_properties_report_period_factor c"
  using assms
proof (induction ts arbitrary: p)
  case (Cons now ts)
  let ?k = "agent_collector_properties_report_period_factor c"
  let ?n = "sent_properties_counter p"
  let ?m = "(if (?n + 1) mod ?k = 0 then [InstanceProps] else []) @ [KeepAlive]"
  let ?p = "p\<lparr>sent_properties_counter := ?n + 1, delivered := delivered p @ ?m\<rparr>"
  have beat: "grpc_heartbeat now c CallOk CallOk CallOk p = (Inr (), ?p)"
    by (rule steady_heartbeat) (use Cons.prems in simp_all)
  obtain p' ms where "heartbeats c ts ?p = (Inr (), p')" "gp_state p' = Some READY" "delivered p' = delivered ?p @ ms"
    "count_list ms KeepAlive = length ts" "int (count_list ms InstanceProps) = (?n + 1 + int (length ts)) div ?k - (?n + 1) div ?k"
    using Cons.IH [of ?p] Cons.prems by auto
  then show ?case
    using beat div_step [OF Cons.prems(3,4)]
    by (intro exI [of _ p'] exI [of _ "?m @ ms"]) (auto simp: seq_eq algebra_simps)
qed (auto intro: exI [of _ "[]"])

text \<open>C34. When a READY gRPC channel is lost and becomes READY again, the next heartbeat registers the
  instance anew before it pings: over \<open>n \<ge> 1\<close> heartbeats whose calls succeed, the collector gets the instance
  properties first, then \<open>n\<close> pings, and \<open>1 + n div factor\<close> property messages in all - one at reconnection and
  one refresh per period factor.\<close>

theorem reconnect_registers_again:
  assumes "gp_state p = Some READY" and "lost \<noteq> READY" and "0 < agent_collector_properties_report_period_factor c"
    and "ts \<noteq> []"
  shows "\<exists>p' ms. heartbeats c ts (snd (grpc_cb t1 READY (snd (grpc_cb t0 lost p)))) = (Inr (), p')
     \<and> delivered p' = delivered p @ InstanceProps # ms
     \<and> count_list ms KeepAlive = length ts
     \<and> int (count_list ms InstanceProps) = int (length ts) div agent_collector_properties_report_period_factor c"
proof -
  let ?p = "snd (grpc_cb t1 READY (snd (grpc_cb t0 lost p)))"
  let ?r = "?p\<lparr>delivered := delivered ?p @ [InstanceProps], properties_sent := True\<rparr>"
  have p: "gp_state ?p = Some READY" "\<not> properties_sent ?p" "sent_properties_counter ?p = 0" "delivered ?p = delivered p"
    using assms(1,2) by (simp_all add: grpc_cb_def Let_def split_beta)
  have "heartbeats c ts ?p = heartbeats c ts ?r"
    using assms(4) first_heartbeat [OF p(1,2)] by (cases ts) (simp_all add: seq_def)
  moreover obtain p' ms where "heartbeats c ts ?r = (Inr (), p')" "delivered p' = delivered ?r @ ms"
    "count_list ms KeepAlive = length ts"
    "int (count_list ms InstanceProps) = int (length ts) div agent_collector_properties_report_period_factor c"
    using steady_heartbeats [of ?r c ts] p assms(3) by auto
  ultimately show ?thesis using p(4) by auto
qed

theorem reconnect_registers_again_witness:
  "\<forall>c lg. let p = (GrpcProtocol_init lg)\<lparr>gp_state := Some READY, properties_sent := True\<rparr> in
     \<exists>p' ms. heartbeats (c\<lparr>agent_collector_properties_report_period_factor := 2\<rparr>) [1, 2, 3]
        (snd (grpc_cb 0.5 READY (snd (grpc_cb 0 TRANSIENT_FAILURE p)))) = (Inr (), p')
      \<and> delivered p' = InstanceProps # ms \<and> count_list ms KeepAlive = 3 \<and> count_list ms InstanceProps = 1"
  using reconnect_registers_again [of "(GrpcProtocol_init _)\<lparr>gp_state := Some READY, properties_sent := True\<rparr>"
      TRANSIENT_FAILURE "_\<lparr>agent_collector_properties_report_period_factor := 2\<rparr>" "[1, 2, 3]" "0.5" 0]
  by (simp add: Let_def GrpcProtocol_init_def numeral_3_eq_3)

end
