(* ===== verification/Wire.thy ===== *)
theory Wire
  imports Protocols TraceProps
begin

text \<open>
  The messages of the reporters: how \<open>skywalking/agent/protocol/{grpc,grpc_aio,kafka,kafka_aio}.py\<close> and
  \<open>skywalking/client/{http,http_aio}.py\<close> read a segment and its spans when they report it, and the four kinds of
  report calls of each protocol.  The segments in the queue are references: a message is built from
  the store at the time of the report.  The records below hold the values passed to the message
  classes, whose schema is generated code; an optional text is passed on as it is.
\<close>

section \<open>Messages\<close>

record ref_object =
  ro_refType :: int
  ro_traceId :: string
  ro_parentTraceSegmentId :: string
  ro_parentSpanId :: int
  ro_parentService :: string
  ro_parentServiceInstance :: string
  ro_parentEndpoint :: "string option"
  ro_networkAddressUsedAtPeer :: "string option"

record log_object =
  lo_time :: int
  lo_data :: "(string \<times> string) list"

record span_object =
  so_spanId :: int
  so_parentSpanId :: int
  so_startTime :: int
  so_endTime :: int
  so_operationName :: "string option"
  so_peer :: "string option"
  so_spanType :: string
  so_spanLayer :: string
  so_componentId :: int
  so_isError :: bool
  so_logs :: "log_object list"
  so_tags :: "(string \<times> string) list"
  so_refs :: "ref_object list"

record segment_object =
  go_traceId :: string
  go_traceSegmentId :: string
  go_service :: string
  go_serviceInstance :: string
  go_isSizeLimited :: bool
  go_spans :: "span_object list"

fun kind_name :: "kind \<Rightarrow> string" where
  "kind_name Local = ''Local''"
| "kind_name Entry = ''Entry''"
| "kind_name Exit = ''Exit''"

fun layer_name :: "layer \<Rightarrow> string" where
  "layer_name Layer_Unknown = ''Unknown''"
| "layer_name Database = ''Database''"
| "layer_name RPCFramework = ''RPCFramework''"
| "layer_name Http = ''Http''"
| "layer_name MQ = ''MQ''"
| "layer_name Cache = ''Cache''"

definition ref_object_of :: "(segment_ref \<Rightarrow> int) \<Rightarrow> segment_ref \<Rightarrow> ref_object" where
  "ref_object_of ref_type r =
     \<lparr>ro_refType = ref_type r, ro_traceId = sr_trace_id r, ro_parentTraceSegmentId = sr_segment_id r,
      ro_parentSpanId = sr_span_id r, ro_parentService = sr_service r,
      ro_parentServiceInstance = sr_service_instance r, ro_parentEndpoint = sr_endpoint r,
      ro_networkAddressUsedAtPeer = sr_client_address r\<rparr>"

definition log_object_of :: "log_entry \<Rightarrow> log_object" where
  "log_object_of l = \<lparr>lo_time = py_trunc (log_timestamp l * 1000), lo_data = map (\<lambda>i. (li_key i, li_val i)) (log_items l)\<rparr>"

definition span_object_of :: "(segment_ref \<Rightarrow> int) \<Rightarrow> span \<Rightarrow> span_object" where
  "span_object_of ref_type s =
     \<lparr>so_spanId = sp_sid s, so_parentSpanId = sp_pid s, so_startTime = sp_start_time s, so_endTime = sp_end_time s,
      so_operationName = sp_op s, so_peer = sp_peer s, so_spanType = kind_name (sp_kind s),
      so_spanLayer = layer_name (sp_layer s), so_componentId = component_value (sp_component s),
      so_isError = sp_error_occurred s, so_logs = map log_object_of (sp_logs s),
      so_tags = map (\<lambda>t. (tag_key t, tag_val t)) (iter_tags s),
      so_refs = map (ref_object_of ref_type) (filter (\<lambda>r. sr_trace_id r \<noteq> []) (sp_refs s))\<rparr>"

text \<open>\<open>related_traces[0]\<close> raises on a segment without a trace.\<close>

definition segment_object_of ::
  "(segment_ref \<Rightarrow> int) \<Rightarrow> ('l, 'm, 'n) world \<Rightarrow> nat \<Rightarrow> segment_object res" where
  "segment_object_of ref_type w i =
     (let g = cx_segment (cx_of w i) in
      case seg_related g of
        [] \<Rightarrow> Inl IndexError
      | t # _ \<Rightarrow> Inr \<lparr>go_traceId = id_value t, go_traceSegmentId = id_value (seg_id g), go_service = agent_name (w_cfg w),
                     go_serviceInstance = agent_instance_name (w_cfg w), go_isSizeLimited = seg_size_limited g,
                     go_spans = map (\<lambda>j. span_object_of ref_type (sp_of w j)) (seg_spans g)\<rparr>)"

definition ref_type_number :: "segment_ref \<Rightarrow> int" where
  "ref_type_number r = (if sr_ref_type r = CrossProcess then 0 else 1)"

definition grpc_segment_object :: "('l, 'm, 'n) world \<Rightarrow> nat \<Rightarrow> segment_object res" where
  "grpc_segment_object = segment_object_of ref_type_number"

definition grpc_aio_segment_object :: "('l, 'm, 'n) world \<Rightarrow> nat \<Rightarrow> segment_object res" where
  "grpc_aio_segment_object = segment_object_of ref_type_number"

definition kafka_segment_object :: "('l, 'm, 'n) world \<Rightarrow> nat \<Rightarrow> segment_object res" where
  "kafka_segment_object = segment_object_of ref_type_number"

definition kafka_aio_segment_object :: "('l, 'm, 'n) world \<Rightarrow> nat \<Rightarrow> segment_object res" where
  "kafka_aio_segment_object = segment_object_of ref_type_number"

text \<open>The HTTP services write the reference type 0 for every reference.\<close>

definition http_segment_object :: "('l, 'm, 'n) world \<Rightarrow> nat \<Rightarrow> segment_object res" where
  "http_segment_object = segment_object_of (\<lambda>_. 0)"

definition http_aio_segment_object :: "('l, 'm, 'n) world \<Rightarrow> nat \<Rightarrow> segment_object res" where
  "http_aio_segment_object = segment_object_of (\<lambda>_. 0)"

record snapshot_object =
  to_taskId :: string
  to_traceSegmentId :: string
  to_time :: int
  to_sequence :: int
  to_codeSignatures :: "string list"

definition snapshot_object_of :: "thread_snapshot \<Rightarrow> snapshot_object" where
  "snapshot_object_of s =
     \<lparr>to_taskId = ts_task_id s, to_traceSegmentId = ts_segment_id s, to_time = ts_time s, to_sequence = ts_sequence s,
      to_codeSignatures = ts_stack s\<rparr>"

section \<open>The report calls of the protocols\<close>

definition grpc_report_segment ::
  "config \<Rightarrow> ('l, 'm, 'n) world \<Rightarrow> real \<Rightarrow> nat pull list \<Rightarrow> call_outcome \<Rightarrow> real \<Rightarrow> nat pyqueue \<Rightarrow> drop_log \<Rightarrow> grpc_protocol
    \<Rightarrow> segment_object res list \<times> nat report_result \<times> grpc_protocol" where
  "grpc_report_segment c w start ps outcome now q dl p =
     (case grpc_report ''segment'' c start ps outcome now q dl p of
        (r, p') \<Rightarrow> (map (grpc_segment_object w) (rr_handed r), r, p'))"

definition grpc_report_log ::
  "config \<Rightarrow> real \<Rightarrow> 'l pull list \<Rightarrow> call_outcome \<Rightarrow> real \<Rightarrow> 'l pyqueue \<Rightarrow> drop_log \<Rightarrow> grpc_protocol
    \<Rightarrow> 'l report_result \<times> grpc_protocol" where
  "grpc_report_log = grpc_report ''log''"

definition grpc_report_meter ::
  "config \<Rightarrow> real \<Rightarrow> 'm pull list \<Rightarrow> call_outcome \<Rightarrow> real \<Rightarrow> 'm pyqueue \<Rightarrow> drop_log \<Rightarrow> grpc_protocol
    \<Rightarrow> 'm report_result \<times> grpc_protocol" where
  "grpc_report_meter = grpc_report ''meter''"

definition grpc_report_snapshot ::
  "config \<Rightarrow> real \<Rightarrow> thread_snapshot pull list \<Rightarrow> call_outcome \<Rightarrow> real \<Rightarrow> thread_snapshot pyqueue \<Rightarrow> drop_log \<Rightarrow> grpc_protocol
    \<Rightarrow> snapshot_object list \<times> thread_snapshot report_result \<times> grpc_protocol" where
  "grpc_report_snapshot c start ps outcome now q dl p =
     (case grpc_report ''snapshot'' c start ps outcome now q dl p of
        (r, p') \<Rightarrow> (map snapshot_object_of (rr_handed r), r, p'))"

definition grpc_aio_report_segment ::
  "('l, 'm, 'n) world \<Rightarrow> real \<Rightarrow> connectivity option res \<Rightarrow> nat list list \<Rightarrow> call_outcome \<Rightarrow> real \<Rightarrow> nat pyqueue \<Rightarrow> drop_log
    \<Rightarrow> grpc_protocol \<Rightarrow> segment_object res list \<times> nat report_result \<times> grpc_protocol" where
  "grpc_aio_report_segment w asked peeked ps outcome now q dl p =
     (case aio_report ''segment'' asked peeked ps outcome now q dl p of
        (r, p') \<Rightarrow> (map (grpc_aio_segment_object w) (rr_handed r), r, p'))"

definition grpc_aio_report_log ::
  "real \<Rightarrow> connectivity option res \<Rightarrow> 'l list list \<Rightarrow> call_outcome \<Rightarrow> real \<Rightarrow> 'l pyqueue \<Rightarrow> drop_log \<Rightarrow> grpc_protocol
    \<Rightarrow> 'l report_result \<times> grpc_protocol" where
  "grpc_aio_report_log = aio_report ''log''"

definition grpc_aio_report_meter ::
  "real \<Rightarrow> connectivity option res \<Rightarrow> 'm list list \<Rightarrow> call_outcome \<Rightarrow> real \<Rightarrow> 'm pyqueue \<Rightarrow> drop_log \<Rightarrow> grpc_protocol
    \<Rightarrow> 'm report_result \<times> grpc_protocol" where
  "grpc_aio_report_meter = aio_report ''meter''"

definition grpc_aio_report_snapshot ::
  "real \<Rightarrow> connectivity option res \<Rightarrow> thread_snapshot list list \<Rightarrow> call_outcome \<Rightarrow> real \<Rightarrow> thread_snapshot pyqueue \<Rightarrow> drop_log
    \<Rightarrow> grpc_protocol \<Rightarrow> snapshot_object list \<times> thread_snapshot report_result \<times> grpc_protocol" where
  "grpc_aio_report_snapshot asked peeked ps outcome now q dl p =
     (case aio_report ''snapshot'' asked peeked ps outcome now q dl p of
        (r, p') \<Rightarrow> (map snapshot_object_of (rr_handed r), r, p'))"

definition kafka_report_segment ::
  "config \<Rightarrow> ('l, 'm, 'n) world \<Rightarrow> bool \<Rightarrow> nat pull list \<Rightarrow> py_error option \<Rightarrow> nat pyqueue \<Rightarrow> drop_log
    \<Rightarrow> segment_object res list \<times> nat report_result" where
  "kafka_report_segment c w block ps call q dl =
     (let r = kafka_report each_item c block ps call q dl in (map (kafka_segment_object w) (rr_handed r), r))"

definition kafka_report_log ::
  "config \<Rightarrow> bool \<Rightarrow> 'l pull list \<Rightarrow> py_error option \<Rightarrow> 'l pyqueue \<Rightarrow> drop_log \<Rightarrow> 'l report_result" where
  "kafka_report_log = kafka_report each_item"

definition kafka_report_meter ::
  "config \<Rightarrow> bool \<Rightarrow> 'm pull list \<Rightarrow> py_error option \<Rightarrow> 'm pyqueue \<Rightarrow> drop_log \<Rightarrow> 'm report_result" where
  "kafka_report_meter = kafka_report kafka_meter_batch"

definition kafka_aio_report_segment ::
  "('l, 'm, 'n) world \<Rightarrow> nat list list \<Rightarrow> py_error option \<Rightarrow> nat pyqueue \<Rightarrow> drop_log
    \<Rightarrow> segment_object res list \<times> nat report_result" where
  "kafka_aio_report_segment w ps call q dl =
     (let r = plain_aio_report each_item ps call q dl in (map (kafka_aio_segment_object w) (rr_handed r), r))"

definition kafka_aio_report_log ::
  "'l list list \<Rightarrow> py_error option \<Rightarrow> 'l pyqueue \<Rightarrow> drop_log \<Rightarrow> 'l report_result" where
  "kafka_aio_report_log = plain_aio_report each_item"

definition kafka_aio_report_meter ::
  "'m list list \<Rightarrow> py_error option \<Rightarrow> 'm pyqueue \<Rightarrow> drop_log \<Rightarrow> 'm report_result" where
  "kafka_aio_report_meter = plain_aio_report kafka_meter_batch"

definition http_report_segment ::
  "config \<Rightarrow> ('l, 'm, 'n) world \<Rightarrow> bool \<Rightarrow> nat pull list \<Rightarrow> py_error option \<Rightarrow> nat pyqueue \<Rightarrow> drop_log
    \<Rightarrow> segment_object res list \<times> nat report_result" where
  "http_report_segment c w block ps call q dl =
     (let r = http_report each_item c block ps call q dl in (map (http_segment_object w) (rr_handed r), r))"

definition http_report_log ::
  "config \<Rightarrow> bool \<Rightarrow> 'l pull list \<Rightarrow> py_error option \<Rightarrow> 'l pyqueue \<Rightarrow> drop_log \<Rightarrow> 'l report_result" where
  "http_report_log = http_report http_log_batch"

definition http_aio_report_segment ::
  "('l, 'm, 'n) world \<Rightarrow> nat list list \<Rightarrow> py_error option \<Rightarrow> nat pyqueue \<Rightarrow> drop_log
    \<Rightarrow> segment_object res list \<times> nat report_result" where
  "http_aio_report_segment w ps call q dl =
     (let r = plain_aio_report each_item ps call q dl in (map (http_aio_segment_object w) (rr_handed r), r))"

definition http_aio_report_log ::
  "'l list list \<Rightarrow> py_error option \<Rightarrow> 'l pyqueue \<Rightarrow> drop_log \<Rightarrow> 'l report_result" where
  "http_aio_report_log = plain_aio_report http_log_batch"

section \<open>Messages of well-formed segments\<close>

lemma message_total:
  assumes "tracing.reach w" and "i < length (w_ctxs w)"
  obtains t ts where "seg_related (cx_segment (cx_of w i)) = t # ts"
proof -
  have "seg_related (cx_segment (cx_of w i)) \<noteq> []"
    using tracing.reach_inv [OF assms(1)] nth_mem [OF assms(2)] by (simp add: wok_def world_ok_def related_ok_def)
  then show ?thesis using that by (cases "seg_related (cx_segment (cx_of w i))") auto
qed

text \<open>The spans a complete segment holds are all spans of its context.\<close>

definition segment_complete :: "nat \<Rightarrow> ('l, 'm, 'n) world \<Rightarrow> bool" where
  "segment_complete i w =
     (\<forall>k < length (w_spans w). sp_context (sp_of w k) = i \<longrightarrow> k \<in> set (seg_spans (cx_segment (cx_of w i))))"

definition message_tree :: "nat \<Rightarrow> segment_object \<Rightarrow> bool" where
  "message_tree n m \<longleftrightarrow>
     set (map so_spanId (go_spans m)) = int ` {..<n}
     \<and> (\<forall>s \<in> set (go_spans m). so_parentSpanId s = -1
          \<or> (\<exists>t \<in> set (go_spans m). so_spanId t = so_parentSpanId s \<and> so_spanId t < so_spanId s))
     \<and> (\<forall>s \<in> set (go_spans m). \<forall>r \<in> set (so_refs s). ro_traceId r \<noteq> [])"

lemma complete_spans:
  assumes "tracing.reach w" and "i < length (w_ctxs w)" and "segment_complete i w"
  shows "set (map (sp_of w) (seg_spans (cx_segment (cx_of w i)))) = set (spans_of i w)"
proof -
  have ok: "wok 0 0 0 w" using tracing.reach_inv [OF assms(1)] .
  have "set (spans_of i w) = sp_of w ` {k. k < length (w_spans w) \<and> sp_context (sp_of w k) = i}"
    by (auto simp: spans_of_def in_set_conv_nth)
  moreover have "{k. k < length (w_spans w) \<and> sp_context (sp_of w k) = i} = set (seg_spans (cx_segment (cx_of w i)))"
    using ctx_facts(4) [OF ok assms(2)] assms(3) unfolding segment_complete_def by blast
  ultimately show ?thesis by simp
qed

lemma message_is_tree:
  assumes "tracing.reach w" and "i < length (w_ctxs w)" and "\<not> cx_noop (cx_of w i)" and "segment_complete i w"
  shows "\<exists>m. segment_object_of rt w i = Inr m \<and> message_tree (length (spans_of i w)) m"
proof -
  have ok: "wok 0 0 0 w" using tracing.reach_inv [OF assms(1)] .
  obtain t ts where t: "seg_related (cx_segment (cx_of w i)) = t # ts" using message_total assms(1,2) by blast
  obtain m where m: "segment_object_of rt w i = Inr m"
    and sp: "go_spans m = map (span_object_of rt) (map (sp_of w) (seg_spans (cx_segment (cx_of w i))))"
    by (simp add: segment_object_of_def Let_def t comp_def)
  have set_m: "set (go_spans m) = span_object_of rt ` set (spans_of i w)"
    unfolding sp using complete_spans [OF assms(1,2,4)] by (metis set_map)
  have "set (map so_spanId (go_spans m)) = set (map sp_sid (spans_of i w))"
    using set_m by (auto simp: image_iff span_object_of_def)
  also have "\<dots> = int ` {..<length (spans_of i w)}"
    using ctx_facts(2) [OF ok assms(2,3)] by (simp add: lessThan_atLeast0)
  finally have ids: "set (map so_spanId (go_spans m)) = int ` {..<length (spans_of i w)}" .
  have parent: "so_parentSpanId ob = -1 \<or> (\<exists>t \<in> set (go_spans m). so_spanId t = so_parentSpanId ob \<and> so_spanId t < so_spanId ob)"
    if "ob \<in> set (go_spans m)" for ob
  proof -
    obtain s where s: "s \<in> set (spans_of i w)" "ob = span_object_of rt s" using \<open>ob \<in> _\<close> set_m by blast
    then obtain k where "k < length (w_spans w)" "sp_of w k = s" "sp_context s = i"
      by (auto simp: spans_of_def in_set_conv_nth)
    then have "sp_pid s = -1 \<or> (\<exists>t \<in> set (spans_of i w). sp_sid t = sp_pid s \<and> sp_sid t < sp_sid s)"
      using span_parent [OF ok, of k] assms(3) by auto
    then show ?thesis unfolding set_m s(2) by (auto simp: span_object_of_def)
  qed
  have "\<forall>ob \<in> set (go_spans m). \<forall>r \<in> set (so_refs ob). ro_traceId r \<noteq> []"
    unfolding set_m by (auto simp: span_object_of_def ref_object_of_def)
  with m ids parent show ?thesis unfolding message_tree_def by blast
qed

text \<open>The small world after its only span has ended.\<close>

definition demo_stopped :: "config \<Rightarrow> (unit, unit, unit) world" where
  "demo_stopped c = snd (span_stop demo_env 0 (demo_world c))"

lemma demo_stopped_reach: "tracing.reach (demo_stopped c)"
  unfolding demo_stopped_def
  by (rule tracing.next_state [OF demo_reach]) (rule tr_stop, simp_all add: demo_world_eq)

lemma demo_stopped_facts:
  "fst (span_stop demo_env 0 (demo_world c)) = Inr True" "length (w_ctxs (demo_stopped c)) = 1"
  "w_spans (demo_stopped c) = [(Span_init PlainSpan 0 0 (-1) (Some ''op'') None None)\<lparr>sp_start_time := 5, sp_end_time := 5\<rparr>]"
  "\<not> cx_noop (cx_of (demo_stopped c) 0)" "seg_spans (cx_segment (cx_of (demo_stopped c) 0)) = [0]"
proof -
  let ?a = "demo_agent c :: (nat, unit, unit, unit) agent"
  have "is_segment_queue_full ?a = Inr False" by (simp add: demo_agent_fields)
  moreover obtain b where "archive_segment 5 0 ?a = Inr b"
    using agent_queue_total(2) [OF demo_agent_ok] by blast
  ultimately show "fst (span_stop demo_env 0 (demo_world c)) = Inr True" "length (w_ctxs (demo_stopped c)) = 1"
    "w_spans (demo_stopped c) = [(Span_init PlainSpan 0 0 (-1) (Some ''op'') None None)\<lparr>sp_start_time := 5, sp_end_time := 5\<rparr>]"
    "\<not> cx_noop (cx_of (demo_stopped c) 0)" "seg_spans (cx_segment (cx_of (demo_stopped c) 0)) = [0]"
    by (simp_all add: demo_stopped_def demo_world_eq span_stop_def SpanContext_stop_def span_finish_def set_stack_def
        seq_def upd_span_def upd_ctx_def segment_archive_def on_agent_def Segment_init_def Span_init_def demo_env_def)
qed



end
