(* ===== verification/AgentAsync.thy ===== *)
theory AgentAsync
  imports Agent
begin

text \<open>
  \<open>SkyWalkingAgentAsync\<close> of \<open>skywalking/agent/__init__.py\<close>: the agent whose reporters run as coroutines of an
  event loop in a thread of its own.  Application threads never touch the queues: they schedule
  callbacks on the loop, which binds the queue attribute's value when the callback is scheduled.  The
  steps of the loop thread up to its first suspension are separate operations, because application
  threads run between them.  Archiving is a refinement of the threaded agent's (theory \<open>Agent\<close>): once
  the loop has run the callbacks, the queue and the drop log are those of the threaded agent.
\<close>

section \<open>State\<close>

datatype ('s, 'l, 'm, 'n) item = ItSegment 's | ItLog 'l | ItMeter 'm | ItSnapshot 'n

text \<open>A scheduled callback: \<open>PutNowait bound it\<close> was scheduled with a queue (\<open>bound\<close>) or with \<open>None\<close>.\<close>

datatype ('s, 'l, 'm, 'n) callback = PutNowait bool "('s, 'l, 'm, 'n) item" | SetFinished

record ('s, 'l, 'm, 'n) async_agent =
  aa_cfg :: config
  aa_started :: bool
  aa_started_pid :: "int option"
  aa_finalized :: nat
  aa_plugins_installed :: nat
  aa_log_installed :: nat
  aa_meter_inits :: nat
  aa_sampling :: "sampler option"
  aa_profile_inited :: bool
  aa_atexit_fini :: nat
  aa_protocol :: "string option"
  aa_protocols_closed :: nat
  aa_finished :: "bool option"
  aa_loop :: "bool option"   \<comment> \<open>\<open>None\<close>: the attribute does not exist; \<open>Some closed\<close>\<close>
  aa_thread :: "bool option" \<comment> \<open>\<open>None\<close>: never started; \<open>Some alive\<close>\<close>
  aa_segment_queue :: "'s pyqueue option"
  aa_log_queue :: "'l pyqueue option"
  aa_meter_queue :: "'m pyqueue option"
  aa_snapshot_queue :: "'n pyqueue option"
  aa_coroutines :: "string list"
  aa_tasks :: "string list"
  aa_pvm_sources :: "string list"
  aa_callbacks :: "('s, 'l, 'm, 'n) callback list"
  aa_loop_errors :: "py_error list"
  aa_drops :: drop_log
  aa_drop_lines :: "log_line list"
  aa_shutdown_lines :: "shutdown_line list"

definition SkyWalkingAgentAsync_init :: "config \<Rightarrow> ('s, 'l, 'm, 'n) async_agent" where
  "SkyWalkingAgentAsync_init c =
     \<lparr>aa_cfg = c, aa_started = False, aa_started_pid = None, aa_finalized = 0, aa_plugins_installed = 0,
      aa_log_installed = 0, aa_meter_inits = 0, aa_sampling = None, aa_profile_inited = False, aa_atexit_fini = 0,
      aa_protocol = None, aa_protocols_closed = 0, aa_finished = None, aa_loop = None, aa_thread = None,
      aa_segment_queue = None, aa_log_queue = None, aa_meter_queue = None, aa_snapshot_queue = None,
      aa_coroutines = [], aa_tasks = [], aa_pvm_sources = [], aa_callbacks = [], aa_loop_errors = [],
      aa_drops = drop_log_init, aa_drop_lines = [], aa_shutdown_lines = []\<rparr>"

section \<open>The event loop thread\<close>

text \<open>Only the gRPC protocol has a connectivity watch.\<close>

definition coroutine_names :: "config \<Rightarrow> string \<Rightarrow> string list" where
  "coroutine_names c protocol =
     (if protocol = ''grpc'' then [''watch_connectivity''] else [])
     @ [''heartbeat'', ''report_segment'']
     @ (if agent_meter_reporter_active c then [''report_meter''] else [])
     @ (if agent_log_reporter_active c then [''report_log''] else [])
     @ (if agent_profile_active c then [''command_dispatch'', ''query_profile_command'', ''send_profile_snapshot''] else [])"

definition init_coroutine :: "string \<Rightarrow> ('s, 'l, 'm, 'n) async_agent \<Rightarrow> ('s, 'l, 'm, 'n) async_agent" where
  "init_coroutine protocol a =
     a\<lparr>aa_coroutines := coroutine_names (aa_cfg a) protocol,
       aa_pvm_sources := aa_pvm_sources a @ pvm_sources (aa_cfg a)\<rparr>"

text \<open>The previous protocol is closed even if the new one is not supported.\<close>

definition async_bootstrap :: "(unit, ('s, 'l, 'm, 'n) async_agent) op" where
  "async_bootstrap =
     seq (modify (\<lambda>a. a\<lparr>aa_protocols_closed := aa_protocols_closed a + (if aa_protocol a = None then 0 else 1)\<rparr>)) (\<lambda>_.
     seq (gets (\<lambda>a. agent_protocol (aa_cfg a))) (\<lambda>p.
     if p \<in> {''grpc'', ''http'', ''kafka''}
     then modify (\<lambda>a. init_coroutine p (a\<lparr>aa_protocol := Some p\<rparr>))
     else raise_err (ValueError (''Unsupported protocol: '' @ p))))"

definition enter_loop :: "('s, 'l, 'm, 'n) async_agent \<Rightarrow> ('s, 'l, 'm, 'n) async_agent" where
  "enter_loop a = a\<lparr>aa_loop := Some False, aa_callbacks := []\<rparr>"

definition create_queues :: "('s, 'l, 'm, 'n) async_agent \<Rightarrow> ('s, 'l, 'm, 'n) async_agent" where
  "create_queues a = (let c = aa_cfg a in
     a\<lparr>aa_segment_queue := Some (Queue_init (agent_trace_reporter_max_buffer_size c)),
       aa_meter_queue := (if agent_meter_reporter_active c
                          then Some (Queue_init (agent_meter_reporter_max_buffer_size c)) else aa_meter_queue a),
       aa_log_queue := (if agent_log_reporter_active c
                        then Some (Queue_init (agent_log_reporter_max_buffer_size c)) else aa_log_queue a),
       aa_snapshot_queue := (if agent_profile_active c
                             then Some (Queue_init (agent_profile_snapshot_transport_buffer_size c)) else aa_snapshot_queue a),
       aa_coroutines := [], aa_tasks := [], aa_finished := Some False\<rparr>)"

definition loop_services :: "('s, 'l, 'm, 'n) async_agent \<Rightarrow> ('s, 'l, 'm, 'n) async_agent" where
  "loop_services a = (let c = aa_cfg a in
     a\<lparr>aa_log_installed := aa_log_installed a + (if agent_log_reporter_active c then 1 else 0),
       aa_meter_inits := aa_meter_inits a + (if agent_meter_reporter_active c then 1 else 0),
       aa_sampling := (if 0 < sample_n_per_3_secs c then sampling_init_async (aa_sampling a) else aa_sampling a)\<rparr>)"

text \<open>\<open>__start_event_loop_async\<close> up to the point where it waits for the shutdown event.\<close>

definition loop_startup :: "(unit, ('s, 'l, 'm, 'n) async_agent) op" where
  "loop_startup =
     seq (modify enter_loop) (\<lambda>_.
     seq (modify create_queues) (\<lambda>_.
     seq (modify loop_services) (\<lambda>_.
     seq async_bootstrap (\<lambda>_.
     modify (\<lambda>a. a\<lparr>aa_tasks := aa_coroutines a\<rparr>)))))"

text \<open>A queue attribute that is \<open>None\<close> raises when it is drained.\<close>

definition async_shutdown_queue ::
  "real \<Rightarrow> nat \<Rightarrow> string \<Rightarrow> 'a pyqueue option \<Rightarrow> drop_log \<Rightarrow> (shutdown_line list \<times> 'a pyqueue option \<times> drop_log) res" where
  "async_shutdown_queue now late label q dl =
     (case q of
        None \<Rightarrow> Inl AttributeError
      | Some q0 \<Rightarrow> bind_res (shutdown_async_queue now late label q0 dl) (\<lambda>(ls, q', dl'). Inr (ls, Some q', dl')))"

definition drained ::
  "(shutdown_line list \<times> 'a pyqueue option \<times> drop_log) res \<Rightarrow>
   ('a pyqueue option \<Rightarrow> ('s, 'l, 'm, 'n) async_agent \<Rightarrow> ('s, 'l, 'm, 'n) async_agent) \<Rightarrow>
   ('s, 'l, 'm, 'n) async_agent \<Rightarrow> ('s, 'l, 'm, 'n) async_agent res" where
  "drained r store a =
     bind_res r (\<lambda>(ls, q, dl).
       Inr ((store q a)\<lparr>aa_drops := dl, aa_shutdown_lines := aa_shutdown_lines a @ ls\<rparr>))"

definition cleanup_segment :: "real \<Rightarrow> nat \<Rightarrow> ('s, 'l, 'm, 'n) async_agent \<Rightarrow> ('s, 'l, 'm, 'n) async_agent res" where
  "cleanup_segment now late a =
     drained (async_shutdown_queue now late ''segment'' (aa_segment_queue a) (aa_drops a)) (\<lambda>q a. a\<lparr>aa_segment_queue := q\<rparr>) a"

definition cleanup_log :: "real \<Rightarrow> nat \<Rightarrow> ('s, 'l, 'm, 'n) async_agent \<Rightarrow> ('s, 'l, 'm, 'n) async_agent res" where
  "cleanup_log now late a =
     (if agent_log_reporter_active (aa_cfg a)
      then drained (async_shutdown_queue now late ''log'' (aa_log_queue a) (aa_drops a)) (\<lambda>q a. a\<lparr>aa_log_queue := q\<rparr>) a
      else Inr a)"

definition cleanup_snapshot :: "real \<Rightarrow> nat \<Rightarrow> ('s, 'l, 'm, 'n) async_agent \<Rightarrow> ('s, 'l, 'm, 'n) async_agent res" where
  "cleanup_snapshot now late a =
     (if agent_profile_active (aa_cfg a)
      then drained (async_shutdown_queue now late ''snapshot'' (aa_snapshot_queue a) (aa_drops a)) (\<lambda>q a. a\<lparr>aa_snapshot_queue := q\<rparr>) a
      else Inr a)"

definition cleanup_meter :: "real \<Rightarrow> nat \<Rightarrow> ('s, 'l, 'm, 'n) async_agent \<Rightarrow> ('s, 'l, 'm, 'n) async_agent res" where
  "cleanup_meter now late a =
     (if agent_meter_reporter_active (aa_cfg a)
      then drained (async_shutdown_queue now late ''meter'' (aa_meter_queue a) (aa_drops a)) (\<lambda>q a. a\<lparr>aa_meter_queue := q\<rparr>) a
      else Inr a)"

text \<open>
  \<open>__async_shutdown_cleanup\<close>; the tasks are cancelled (\<open>cancel_pending_tasks\<close> of theory \<open>Reporting\<close>) and a
  failing \<open>aclose\<close> is swallowed.
\<close>

definition async_shutdown_cleanup :: "real \<Rightarrow> nat \<Rightarrow> ('s, 'l, 'm, 'n) async_agent \<Rightarrow> ('s, 'l, 'm, 'n) async_agent res" where
  "async_shutdown_cleanup now late a =
     bind_res (cleanup_segment now late a) (\<lambda>a1.
     bind_res (cleanup_log now late a1) (\<lambda>a2.
     bind_res (cleanup_snapshot now late a2) (\<lambda>a3.
     bind_res (cleanup_meter now late a3) (\<lambda>a4.
     Inr (a4\<lparr>aa_tasks := [], aa_protocols_closed := Suc (aa_protocols_closed a4)\<rparr>)))))"

text \<open>
  The end of the thread, after a failed start-up (\<open>Inl\<close>) or after the cleanup: \<open>asyncio.run\<close> has closed the
  loop, its callbacks never run, and the \<open>finally\<close> clause sets the event where there is one.
\<close>

definition loop_exit :: "'b res \<Rightarrow> ('s, 'l, 'm, 'n) async_agent \<Rightarrow> ('s, 'l, 'm, 'n) async_agent" where
  "loop_exit r a =
     a\<lparr>aa_loop := (if aa_loop a = None then None else Some True), aa_callbacks := [], aa_tasks := [],
       aa_thread := Some False, aa_finished := map_option (\<lambda>_. True) (aa_finished a),
       aa_loop_errors := aa_loop_errors a @ (case r of Inl e \<Rightarrow> [e] | Inr _ \<Rightarrow> [])\<rparr>"

section \<open>start and stop\<close>

definition async_start :: "int \<Rightarrow> (unit, ('s, 'l, 'm, 'n) async_agent) op" where
  "async_start pid a =
     (if aa_started a \<and> aa_started_pid a = Some pid
      then (Inl (RuntimeError ''SkyWalking Python agent has already been started in this process''), a)
      else
        let a1 = (if \<not> aa_started a
                  then (case finalize (aa_cfg a) of
                          (_, _, c) \<Rightarrow> a\<lparr>aa_cfg := c, aa_finalized := Suc (aa_finalized a), aa_started := True,
                                        aa_plugins_installed := Suc (aa_plugins_installed a)\<rparr>)
                  else a)
        in (Inr (), a1\<lparr>aa_started_pid := Some pid, aa_atexit_fini := Suc (aa_atexit_fini a1),
                       aa_profile_inited := (aa_profile_inited a1 \<or> agent_profile_active (aa_cfg a1)),
                       aa_thread := Some True\<rparr>))"

text \<open>
  \<open>__fini\<close>: schedules the event, then joins the thread within its budget; \<open>ended\<close> is what the thread does
  in that time.  Without a thread the final check dereferences \<open>None\<close>.
\<close>

definition async_fini ::
  "(('s, 'l, 'm, 'n) async_agent \<Rightarrow> ('s, 'l, 'm, 'n) async_agent) \<Rightarrow> (bool, ('s, 'l, 'm, 'n) async_agent) op" where
  "async_fini ended a =
     (let a1 = (if aa_loop a = Some False \<and> aa_finished a \<noteq> None
                then a\<lparr>aa_callbacks := aa_callbacks a @ [SetFinished]\<rparr> else a)
      in case aa_thread a1 of
           None \<Rightarrow> (Inl AttributeError, a1)
         | Some _ \<Rightarrow> let a2 = ended a1 in (Inr (aa_thread a2 = Some True), a2))"

definition async_stop ::
  "(('s, 'l, 'm, 'n) async_agent \<Rightarrow> ('s, 'l, 'm, 'n) async_agent) \<Rightarrow> (unit, ('s, 'l, 'm, 'n) async_agent) op" where
  "async_stop ended =
     seq (modify (\<lambda>a. a\<lparr>aa_atexit_fini := 0\<rparr>)) (\<lambda>_.
     seq (async_fini ended) (\<lambda>_. modify (\<lambda>a. a\<lparr>aa_started := False\<rparr>)))"

section \<open>Archiving\<close>

definition async_count_drop :: "real \<Rightarrow> string \<Rightarrow> ('s, 'l, 'm, 'n) async_agent \<Rightarrow> ('s, 'l, 'm, 'n) async_agent" where
  "async_count_drop now kind a =
     (case log_dropped_throttled now kind 1 False (aa_drops a) of
        (ls, dl) \<Rightarrow> a\<lparr>aa_drops := dl, aa_drop_lines := aa_drop_lines a @ ls\<rparr>)"

text \<open>
  \<open>__asyncio_queue_put_nowait\<close> on the queue bound to the callback.  A callback scheduled without a queue
  raises in the loop, whose exception handler logs it.
\<close>

definition put_or_drop ::
  "real \<Rightarrow> string \<Rightarrow> 'a \<Rightarrow> 'a pyqueue option
    \<Rightarrow> ('a pyqueue option \<Rightarrow> ('s, 'l, 'm, 'n) async_agent \<Rightarrow> ('s, 'l, 'm, 'n) async_agent)
    \<Rightarrow> ('s, 'l, 'm, 'n) async_agent \<Rightarrow> ('s, 'l, 'm, 'n) async_agent" where
  "put_or_drop now queue_name x q store a =
     (case q of
        None \<Rightarrow> a\<lparr>aa_loop_errors := aa_loop_errors a @ [AttributeError]\<rparr>
      | Some q0 \<Rightarrow> (case q_put_nowait q0 x of
                     Some q' \<Rightarrow> store (Some q') a
                   | None \<Rightarrow> async_count_drop now queue_name a))"

definition asyncio_queue_put_nowait ::
  "real \<Rightarrow> bool \<Rightarrow> ('s, 'l, 'm, 'n) item \<Rightarrow> ('s, 'l, 'm, 'n) async_agent \<Rightarrow> ('s, 'l, 'm, 'n) async_agent" where
  "asyncio_queue_put_nowait now bound it a =
     (case it of
        ItSegment x \<Rightarrow> put_or_drop now ''segment'' x (if bound then aa_segment_queue a else None)
                         (\<lambda>q a. a\<lparr>aa_segment_queue := q\<rparr>) a
      | ItLog x \<Rightarrow> put_or_drop now ''log'' x (if bound then aa_log_queue a else None) (\<lambda>q a. a\<lparr>aa_log_queue := q\<rparr>) a
      | ItMeter x \<Rightarrow> put_or_drop now ''meter'' x (if bound then aa_meter_queue a else None) (\<lambda>q a. a\<lparr>aa_meter_queue := q\<rparr>) a
      | ItSnapshot x \<Rightarrow> put_or_drop now ''snapshot'' x (if bound then aa_snapshot_queue a else None)
                          (\<lambda>q a. a\<lparr>aa_snapshot_queue := q\<rparr>) a)"

definition run_callback :: "real \<Rightarrow> ('s, 'l, 'm, 'n) async_agent \<Rightarrow> ('s, 'l, 'm, 'n) async_agent" where
  "run_callback now a =
     (case aa_callbacks a of
        [] \<Rightarrow> a
      | cb # cbs \<Rightarrow>
          let a1 = a\<lparr>aa_callbacks := cbs\<rparr> in
          (case cb of
             PutNowait bound it \<Rightarrow> asyncio_queue_put_nowait now bound it a1
           | SetFinished \<Rightarrow> a1\<lparr>aa_finished := map_option (\<lambda>_. True) (aa_finished a1)\<rparr>))"

fun run_callbacks :: "real list \<Rightarrow> ('s, 'l, 'm, 'n) async_agent \<Rightarrow> ('s, 'l, 'm, 'n) async_agent" where
  "run_callbacks [] a = a"
| "run_callbacks (now # ts) a = run_callbacks ts (run_callback now a)"

text \<open>
  \<open>call_soon_threadsafe\<close> on the loop attribute, guarded by \<open>is_closed\<close> or not: a missing attribute and,
  unguarded, a closed loop raise.
\<close>

definition call_on_loop ::
  "bool \<Rightarrow> bool \<Rightarrow> ('s, 'l, 'm, 'n) item \<Rightarrow> ('s, 'l, 'm, 'n) async_agent \<Rightarrow> ('s, 'l, 'm, 'n) async_agent res" where
  "call_on_loop guarded bound it a =
     (case aa_loop a of
        None \<Rightarrow> Inl AttributeError
      | Some True \<Rightarrow> if guarded then Inr a else Inl (RuntimeError ''Event loop is closed'')
      | Some False \<Rightarrow> Inr (a\<lparr>aa_callbacks := aa_callbacks a @ [PutNowait bound it]\<rparr>))"

definition async_is_segment_queue_full :: "('s, 'l, 'm, 'n) async_agent \<Rightarrow> bool res" where
  "async_is_segment_queue_full a =
     (case aa_segment_queue a of None \<Rightarrow> Inl AttributeError | Some q \<Rightarrow> Inr (q_full q))"

definition async_archive_segment :: "'s \<Rightarrow> ('s, 'l, 'm, 'n) async_agent \<Rightarrow> ('s, 'l, 'm, 'n) async_agent res" where
  "async_archive_segment x a = call_on_loop True (aa_segment_queue a \<noteq> None) (ItSegment x) a"

definition async_archive_log :: "'l \<Rightarrow> ('s, 'l, 'm, 'n) async_agent \<Rightarrow> ('s, 'l, 'm, 'n) async_agent res" where
  "async_archive_log x a = call_on_loop True (aa_log_queue a \<noteq> None) (ItLog x) a"

definition async_archive_meter :: "'m \<Rightarrow> ('s, 'l, 'm, 'n) async_agent \<Rightarrow> ('s, 'l, 'm, 'n) async_agent res" where
  "async_archive_meter x a = call_on_loop True (aa_meter_queue a \<noteq> None) (ItMeter x) a"

definition archive_meter_async :: "real \<Rightarrow> 'm \<Rightarrow> ('s, 'l, 'm, 'n) async_agent \<Rightarrow> ('s, 'l, 'm, 'n) async_agent res" where
  "archive_meter_async now x a =
     (case aa_meter_queue a of
        None \<Rightarrow> Inl AttributeError
      | Some q \<Rightarrow> Inr (put_or_drop now ''meter'' x (Some q) (\<lambda>q a. a\<lparr>aa_meter_queue := q\<rparr>) a))"

definition async_add_profiling_snapshot :: "'n \<Rightarrow> ('s, 'l, 'm, 'n) async_agent \<Rightarrow> ('s, 'l, 'm, 'n) async_agent res" where
  "async_add_profiling_snapshot x a = call_on_loop False (aa_snapshot_queue a \<noteq> None) (ItSnapshot x) a"

text \<open>
  \<open>notify_profile_finish\<close>: \<open>Inr\<close> tells that the coroutine was handed to the loop; every exception - no
  protocol yet, no loop, a closed loop - is logged.
\<close>

definition async_notify_profile_finish :: "('s, 'l, 'm, 'n) async_agent \<Rightarrow> unit res" where
  "async_notify_profile_finish a =
     (case (aa_protocol a, aa_loop a) of
        (Some _, Some False) \<Rightarrow> Inr ()
      | (Some _, Some True) \<Rightarrow> Inl (RuntimeError ''Event loop is closed'')
      | _ \<Rightarrow> Inl AttributeError)"

section \<open>Reporter rounds\<close>

text \<open>One call of a reporter body, as in theory \<open>Agent\<close>, on the queue attribute.\<close>

definition round_on ::
  "('a pyqueue \<Rightarrow> bool res \<times> 'a pyqueue \<times> real) \<Rightarrow> 'a pyqueue option \<Rightarrow> bool res \<times> 'a pyqueue option \<times> real" where
  "round_on round_body q =
     (case q of
        None \<Rightarrow> (Inl AttributeError, None, 0)
      | Some q0 \<Rightarrow> (case round_body q0 of (r, q', slept) \<Rightarrow> (r, Some q', slept)))"

definition async_heartbeat_round :: "bool \<Rightarrow> ('p \<Rightarrow> py_error option \<times> 'p) \<Rightarrow> 'p \<Rightarrow> bool res \<times> 'p \<times> real" where
  "async_heartbeat_round ready heartbeat p = heartbeat_round ready heartbeat p"

definition async_report_segment ::
  "bool \<Rightarrow> ('s pyqueue \<Rightarrow> py_error option \<times> 's pyqueue) \<Rightarrow> ('s, 'l, 'm, 'n) async_agent
    \<Rightarrow> bool res \<times> ('s, 'l, 'm, 'n) async_agent \<times> real" where
  "async_report_segment ready report_segment a =
     (if \<not> ready then (Inr True, a, 1 / 2)
      else case round_on (report_round_flag True report_segment) (aa_segment_queue a) of
             (r, q, slept) \<Rightarrow> (r, a\<lparr>aa_segment_queue := q\<rparr>, slept))"

definition async_report_log ::
  "bool \<Rightarrow> ('l pyqueue \<Rightarrow> py_error option \<times> 'l pyqueue) \<Rightarrow> ('s, 'l, 'm, 'n) async_agent
    \<Rightarrow> bool res \<times> ('s, 'l, 'm, 'n) async_agent \<times> real" where
  "async_report_log ready report_log a =
     (if \<not> ready then (Inr True, a, 1 / 2)
      else case round_on (report_round_flag True report_log) (aa_log_queue a) of
             (r, q, slept) \<Rightarrow> (r, a\<lparr>aa_log_queue := q\<rparr>, slept))"

definition async_report_meter ::
  "bool \<Rightarrow> ('m pyqueue \<Rightarrow> py_error option \<times> 'm pyqueue) \<Rightarrow> ('s, 'l, 'm, 'n) async_agent
    \<Rightarrow> bool res \<times> ('s, 'l, 'm, 'n) async_agent \<times> real" where
  "async_report_meter ready report_meter a =
     (if \<not> ready then (Inr False, a, 1 / 2)
      else case round_on (report_round_none True report_meter) (aa_meter_queue a) of
             (r, q, slept) \<Rightarrow> (r, a\<lparr>aa_meter_queue := q\<rparr>, slept))"

definition async_send_profile_snapshot ::
  "bool \<Rightarrow> ('n pyqueue \<Rightarrow> py_error option \<times> 'n pyqueue) \<Rightarrow> ('s, 'l, 'm, 'n) async_agent
    \<Rightarrow> bool res \<times> ('s, 'l, 'm, 'n) async_agent \<times> real" where
  "async_send_profile_snapshot ready report_snapshot a =
     (if \<not> ready then (Inr False, a, 1 / 2)
      else case round_on (report_round_none True report_snapshot) (aa_snapshot_queue a) of
             (r, q, slept) \<Rightarrow> (r, a\<lparr>aa_snapshot_queue := q\<rparr>, slept))"

section \<open>Refinement of the threaded agent\<close>

definition as_threaded :: "('s, 'l, 'm, 'n) async_agent \<Rightarrow> ('s, 'l, 'm, 'n) agent" where
  "as_threaded a =
     (SkyWalkingAgent_init (aa_cfg a))
       \<lparr>a_reporting := True, a_segment_queue := aa_segment_queue a, a_log_queue := aa_log_queue a,
        a_meter_queue := aa_meter_queue a, a_snapshot_queue := aa_snapshot_queue a, a_drops := aa_drops a,
        a_drop_lines := aa_drop_lines a\<rparr>"

fun async_archive :: "('s, 'l, 'm, 'n) item \<Rightarrow> ('s, 'l, 'm, 'n) async_agent \<Rightarrow> ('s, 'l, 'm, 'n) async_agent res" where
  "async_archive (ItSegment x) a = async_archive_segment x a"
| "async_archive (ItLog x) a = async_archive_log x a"
| "async_archive (ItMeter x) a = async_archive_meter x a"
| "async_archive (ItSnapshot x) a = async_add_profiling_snapshot x a"

fun threaded_archive :: "real \<times> ('s, 'l, 'm, 'n) item \<Rightarrow> ('s, 'l, 'm, 'n) agent \<Rightarrow> ('s, 'l, 'm, 'n) agent res" where
  "threaded_archive (now, ItSegment x) a = archive_segment now x a"
| "threaded_archive (now, ItLog x) a = archive_log now x a"
| "threaded_archive (now, ItMeter x) a = archive_meter now x a"
| "threaded_archive (now, ItSnapshot x) a = add_profiling_snapshot now x a"

fun threaded_archives :: "(real \<times> ('s, 'l, 'm, 'n) item) list \<Rightarrow> ('s, 'l, 'm, 'n) agent \<Rightarrow> ('s, 'l, 'm, 'n) agent res" where
  "threaded_archives [] a = Inr a"
| "threaded_archives (e # es) a = bind_res (threaded_archive e a) (threaded_archives es)"

fun has_queue :: "('s, 'l, 'm, 'n) item \<Rightarrow> ('s, 'l, 'm, 'n) async_agent \<Rightarrow> bool" where
  "has_queue (ItSegment x) a = (aa_segment_queue a \<noteq> None)"
| "has_queue (ItLog x) a = (aa_log_queue a \<noteq> None)"
| "has_queue (ItMeter x) a = (aa_meter_queue a \<noteq> None)"
| "has_queue (ItSnapshot x) a = (aa_snapshot_queue a \<noteq> None)"

text \<open>Application threads archive while the loop runs its callbacks, in any interleaving.\<close>

datatype ('s, 'l, 'm, 'n) async_event = Archive "('s, 'l, 'm, 'n) item" | LoopTurn real

fun async_events :: "('s, 'l, 'm, 'n) async_event list \<Rightarrow> ('s, 'l, 'm, 'n) async_agent \<Rightarrow> ('s, 'l, 'm, 'n) async_agent res" where
  "async_events [] a = Inr a"
| "async_events (Archive it # es) a = bind_res (async_archive it a) (async_events es)"
| "async_events (LoopTurn now # es) a = async_events es (run_callback now a)"

fun archived :: "('s, 'l, 'm, 'n) async_event list \<Rightarrow> ('s, 'l, 'm, 'n) item list" where
  "archived [] = []"
| "archived (Archive it # es) = it # archived es"
| "archived (LoopTurn now # es) = archived es"

lemmas async_put_defs = asyncio_queue_put_nowait_def put_or_drop_def

lemma async_count_drop_frame [simp]:
  "aa_loop (async_count_drop now kind a) = aa_loop a" "aa_callbacks (async_count_drop now kind a) = aa_callbacks a"
  "aa_segment_queue (async_count_drop now kind a) = aa_segment_queue a"
  "aa_log_queue (async_count_drop now kind a) = aa_log_queue a"
  "aa_meter_queue (async_count_drop now kind a) = aa_meter_queue a"
  "aa_snapshot_queue (async_count_drop now kind a) = aa_snapshot_queue a"
  by (simp_all add: async_count_drop_def split_beta)

lemma put_frame:
  "aa_loop (asyncio_queue_put_nowait now bound it a) = aa_loop a"
  "aa_callbacks (asyncio_queue_put_nowait now bound it a) = aa_callbacks a"
  by (cases it; simp add: async_put_defs split: option.split)+

lemma put_or_drop_cases:
  "put_or_drop now kind x q store a =
     (if q = None then a\<lparr>aa_loop_errors := aa_loop_errors a @ [AttributeError]\<rparr>
      else if q_full (the q) then async_count_drop now kind a
      else store (q_put_nowait (the q) x) a)"
  by (auto simp: put_or_drop_def q_put_nowait_def split: option.split)

lemma put_queues:
  "aa_segment_queue a = Some q \<Longrightarrow> \<exists>q'. aa_segment_queue (asyncio_queue_put_nowait now bound it a) = Some q'"
  "aa_log_queue a = Some ql \<Longrightarrow> \<exists>q'. aa_log_queue (asyncio_queue_put_nowait now bound it a) = Some q'"
  "aa_meter_queue a = Some qm \<Longrightarrow> \<exists>q'. aa_meter_queue (asyncio_queue_put_nowait now bound it a) = Some q'"
  "aa_snapshot_queue a = Some qs \<Longrightarrow> \<exists>q'. aa_snapshot_queue (asyncio_queue_put_nowait now bound it a) = Some q'"
  by (cases it; simp add: asyncio_queue_put_nowait_def put_or_drop_cases q_put_nowait_def)+

lemma put_has_queue: "has_queue it' a \<Longrightarrow> has_queue it' (asyncio_queue_put_nowait now bound it a)"
  using put_queues [of a _ now bound it] by (cases it') (simp_all, blast+)

lemma as_threaded_drop: "as_threaded (async_count_drop now kind a) = count_drop now kind (as_threaded a)"
  by (simp add: async_count_drop_def count_drop_def as_threaded_def SkyWalkingAgent_init_def split_beta)

lemma put_refines:
  assumes "has_queue it a"
  shows "threaded_archive (now, it) (as_threaded a) = Inr (as_threaded (asyncio_queue_put_nowait now True it a))"
proof -
  have fields: "a_reporting (as_threaded a)" "a_segment_queue (as_threaded a) = aa_segment_queue a"
    "a_log_queue (as_threaded a) = aa_log_queue a" "a_meter_queue (as_threaded a) = aa_meter_queue a"
    "a_snapshot_queue (as_threaded a) = aa_snapshot_queue a"
    by (simp_all add: as_threaded_def)
  have upd: "(as_threaded a)\<lparr>a_segment_queue := q\<rparr> = as_threaded (a\<lparr>aa_segment_queue := q\<rparr>)"
    "(as_threaded a)\<lparr>a_log_queue := ql\<rparr> = as_threaded (a\<lparr>aa_log_queue := ql\<rparr>)"
    "(as_threaded a)\<lparr>a_meter_queue := qm\<rparr> = as_threaded (a\<lparr>aa_meter_queue := qm\<rparr>)"
    "(as_threaded a)\<lparr>a_snapshot_queue := qs\<rparr> = as_threaded (a\<lparr>aa_snapshot_queue := qs\<rparr>)" for q ql qm qs
    by (simp_all add: as_threaded_def)
  show ?thesis
    using assms
    by (cases it)
      (auto simp: asyncio_queue_put_nowait_def put_or_drop_cases q_put_nowait_def archive_segment_def archive_log_def
        archive_meter_def add_profiling_snapshot_def fields upd as_threaded_drop)
qed

lemma archive_open:
  assumes "aa_loop a = Some False" and "has_queue it a"
  shows "async_archive it a = Inr (a\<lparr>aa_callbacks := aa_callbacks a @ [PutNowait True it]\<rparr>)"
  using assms
  by (cases it) (simp_all add: async_archive_segment_def async_archive_log_def async_archive_meter_def
      async_add_profiling_snapshot_def call_on_loop_def)

lemma as_threaded_callbacks [simp]: "as_threaded (a\<lparr>aa_callbacks := cbs\<rparr>) = as_threaded a"
  by (simp add: as_threaded_def)

lemma has_queue_callbacks [simp]: "has_queue it (a\<lparr>aa_callbacks := cbs\<rparr>) = has_queue it a"
  by (cases it) simp_all

lemma threaded_archives_append:
  "threaded_archives (es @ fs) t = bind_res (threaded_archives es t) (threaded_archives fs)"
  by (induction es arbitrary: t) (auto simp: bind_res_def split: sum.split)

text \<open>
  The simulation: \<open>run\<close> lists the archived items whose callback has run, the pending callbacks are
  those of the others in order, and the threaded agent has archived the former.
\<close>

definition simulates ::
  "('s, 'l, 'm, 'n) agent \<Rightarrow> ('s, 'l, 'm, 'n) item list \<Rightarrow> ('s, 'l, 'm, 'n) async_agent \<Rightarrow> bool" where
  "simulates t0 its a \<longleftrightarrow>
     aa_loop a = Some False \<and> (\<forall>it \<in> set its. has_queue it a)
     \<and> (\<exists>run pending. its = map snd run @ pending \<and> aa_callbacks a = map (PutNowait True) pending
          \<and> threaded_archives run t0 = Inr (as_threaded a))"

lemma simulates_archive:
  assumes "simulates t0 its a" and "has_queue it a"
  shows "\<exists>b. async_archive it a = Inr b \<and> simulates t0 (its @ [it]) b \<and> (\<forall>it'. has_queue it' a \<longrightarrow> has_queue it' b)"
proof -
  obtain run pending where *: "its = map snd run @ pending" "aa_callbacks a = map (PutNowait True) pending"
    "threaded_archives run t0 = Inr (as_threaded a)" "aa_loop a = Some False" "\<forall>it \<in> set its. has_queue it a"
    using assms(1) by (auto simp: simulates_def)
  let ?b = "a\<lparr>aa_callbacks := aa_callbacks a @ [PutNowait True it]\<rparr>"
  have "simulates t0 (its @ [it]) ?b"
    unfolding simulates_def using * assms(2)
    by (intro conjI exI [of _ run] exI [of _ "pending @ [it]"]) simp_all
  then show ?thesis using archive_open [OF *(4) assms(2)] by auto
qed

lemma simulates_loop:
  assumes "simulates t0 its a"
  shows "simulates t0 its (run_callback now a)" and "has_queue it a \<Longrightarrow> has_queue it (run_callback now a)"
proof -
  obtain run pending where *: "its = map snd run @ pending" "aa_callbacks a = map (PutNowait True) pending"
    "threaded_archives run t0 = Inr (as_threaded a)" "aa_loop a = Some False" "\<forall>it \<in> set its. has_queue it a"
    using assms by (auto simp: simulates_def)
  have "simulates t0 its (run_callback now a) \<and> (has_queue it a \<longrightarrow> has_queue it (run_callback now a))"
  proof (cases pending)
    case Nil
    then show ?thesis using assms *(2) by (simp add: run_callback_def)
  next
    case (Cons x rest)
    let ?a = "a\<lparr>aa_callbacks := map (PutNowait True) rest\<rparr>"
    let ?b = "asyncio_queue_put_nowait now True x ?a"
    have b: "run_callback now a = ?b" using *(2) Cons by (simp add: run_callback_def)
    have "has_queue x ?a" using *(1,5) Cons by simp
    then have "threaded_archives (run @ [(now, x)]) t0 = Inr (as_threaded ?b)"
      using *(3) put_refines [of x ?a now] by (simp add: threaded_archives_append)
    then have "simulates t0 its ?b"
      unfolding simulates_def using * Cons
      by (intro conjI exI [of _ "run @ [(now, x)]"] exI [of _ rest]) (simp_all add: put_frame put_has_queue)
    with b show ?thesis by (simp add: put_has_queue)
  qed
  then show "simulates t0 its (run_callback now a)" "has_queue it a \<Longrightarrow> has_queue it (run_callback now a)" by simp_all
qed

lemma simulates_events:
  assumes "simulates t0 its a" and "\<forall>it \<in> set (archived es). has_queue it a"
  shows "\<exists>b. async_events es a = Inr b \<and> simulates t0 (its @ archived es) b"
  using assms
proof (induction es arbitrary: its a)
  case (Cons e es)
  show ?case
  proof (cases e)
    case (Archive it)
    obtain b where "async_archive it a = Inr b" "simulates t0 (its @ [it]) b" "\<forall>it'. has_queue it' a \<longrightarrow> has_queue it' b"
      using simulates_archive [OF Cons.prems(1), of it] Cons.prems(2) Archive by auto
    with Cons.IH [of "its @ [it]" b] Cons.prems(2) Archive show ?thesis by simp
  next
    case (LoopTurn now)
    with Cons.IH [OF simulates_loop(1) [OF Cons.prems(1)]] simulates_loop(2) [OF Cons.prems(1)] Cons.prems(2)
    show ?thesis by simp
  qed
qed simp

section \<open>Shutdown\<close>

lemma shutdown_async_queue_result:
  assumes "q_ok q"
  obtains ls q' dl' where "shutdown_async_queue now late label q dl = Inr (ls, q', dl')" and "q_items q' = []"
    and "dl' = (if q_items q = [] then dl else snd (log_dropped_throttled now label (int (length (q_items q))) True dl))"
proof -
  have "shutdown_async_queue now late label q dl = shutdown_sync_queue now late None False label q dl"
    by (simp add: shutdown_async_queue_def shutdown_sync_queue_def abandon_async_queue_def Let_def split_beta)
  then show ?thesis
    using that by (metis (lifting) shutdown_sync_queue_result [where report_fn = None and q = q] assms option.case(1))
qed

definition queue_ok :: "'a pyqueue option \<Rightarrow> bool" where
  "queue_ok q = (\<exists>q0. q = Some q0 \<and> q_ok q0)"

text \<open>The queues of a started loop: those the configuration asks for exist.\<close>

definition queues_ok :: "('s, 'l, 'm, 'n) async_agent \<Rightarrow> bool" where
  "queues_ok a =
     (queue_ok (aa_segment_queue a)
      \<and> (agent_log_reporter_active (aa_cfg a) \<longrightarrow> queue_ok (aa_log_queue a))
      \<and> (agent_meter_reporter_active (aa_cfg a) \<longrightarrow> queue_ok (aa_meter_queue a))
      \<and> (agent_profile_active (aa_cfg a) \<longrightarrow> queue_ok (aa_snapshot_queue a)))"

lemma drop_cfg [simp]: "aa_cfg (async_count_drop now kind a) = aa_cfg a"
  by (simp add: async_count_drop_def split_beta)

lemma put_cfg: "aa_cfg (asyncio_queue_put_nowait now bound it a) = aa_cfg a"
  by (cases it) (simp_all add: asyncio_queue_put_nowait_def put_or_drop_cases)

lemma queue_ok_put: "queue_ok (Some q) \<Longrightarrow> \<not> q_full q \<Longrightarrow> queue_ok (q_put_nowait q x)"
  by (auto simp: queue_ok_def q_put_nowait_def intro: q_ok_put)

lemma put_queues_ok: "queues_ok a \<Longrightarrow> queues_ok (asyncio_queue_put_nowait now bound it a)"
  unfolding queues_ok_def put_cfg
  by (cases it) (auto simp: asyncio_queue_put_nowait_def put_or_drop_cases intro: queue_ok_put)

lemma queues_ok_frame [simp]:
  "queues_ok (a\<lparr>aa_callbacks := cbs\<rparr>) = queues_ok a" "queues_ok (a\<lparr>aa_finished := f\<rparr>) = queues_ok a"
  by (simp_all add: queues_ok_def)

lemma run_callback_queues_ok: "queues_ok a \<Longrightarrow> queues_ok (run_callback now a)"
  by (auto simp: run_callback_def Let_def intro: put_queues_ok split: list.split callback.split)

lemma archive_queues_ok: "queues_ok a \<Longrightarrow> async_archive it a = Inr b \<Longrightarrow> queues_ok b"
  by (cases it) (auto simp: queues_ok_def async_archive_segment_def async_archive_log_def async_archive_meter_def
      async_add_profiling_snapshot_def call_on_loop_def split: option.splits bool.splits if_splits)

lemma events_queues_ok: "async_events es a = Inr b \<Longrightarrow> queues_ok a \<Longrightarrow> queues_ok b"
proof (induction es arbitrary: a)
  case (Cons e es)
  then show ?case
    by (cases e) (auto simp: bind_res_Inr_iff intro: archive_queues_ok run_callback_queues_ok)
qed simp

lemma startup_queues_ok:
  assumes "loop_startup a0 = (Inr (), a)"
  shows "queues_ok a"
  using assms
  by (auto simp: loop_startup_def async_bootstrap_def init_coroutine_def enter_loop_def create_queues_def
      loop_services_def queues_ok_def queue_ok_def seq_def Let_def split: if_splits)

lemma shutdown_counts:
  assumes "queue_ok q"
  shows "\<exists>ls q' dl'. async_shutdown_queue now late label q dl = Inr (ls, Some q', dl') \<and> q_items q' = []
     \<and> get_or 0 (drop_totals dl' ''segment'') = get_or 0 (drop_totals dl ''segment'')
         + (if label = ''segment'' then int (length (q_items (the q))) else 0)"
proof -
  obtain q0 where q0: "q = Some q0" "q_ok q0" using assms by (auto simp: queue_ok_def)
  obtain ls q' dl' where r: "shutdown_async_queue now late label q0 dl = Inr (ls, q', dl')" "q_items q' = []"
    "dl' = (if q_items q0 = [] then dl else snd (log_dropped_throttled now label (int (length (q_items q0))) True dl))"
    by (rule shutdown_async_queue_result [OF q0(2)])
  have "get_or 0 (drop_totals dl' ''segment'') = get_or 0 (drop_totals dl ''segment'')
      + (if label = ''segment'' then int (length (q_items q0)) else 0)"
    using r(3) log_dropped_throttled_accounting(2) [OF prod.collapse [symmetric], of now label "int (length (q_items q0))" True dl "''segment''"]
    by (auto simp: dropped_count_def)
  with r q0(1) show ?thesis by (simp add: async_shutdown_queue_def)
qed

text \<open>Each stage of the cleanup empties its queue and keeps the others and their totals.\<close>

definition emptied :: "'a pyqueue option \<Rightarrow> bool" where
  "emptied q = (map_option q_items q = Some [])"

definition segment_total :: "('s, 'l, 'm, 'n) async_agent \<Rightarrow> int" where
  "segment_total a = get_or 0 (drop_totals (aa_drops a) ''segment'')"

abbreviation others :: "('s, 'l, 'm, 'n) async_agent \<Rightarrow> config \<times> nat \<times> 's pyqueue option" where
  "others a \<equiv> (aa_cfg a, aa_protocols_closed a, aa_segment_queue a)"

lemma cleanup_segment_ok:
  assumes "aa_segment_queue a = Some q" and "q_ok q"
  shows "\<exists>d. cleanup_segment now late a = Inr d \<and> emptied (aa_segment_queue d)
     \<and> segment_total d = segment_total a + int (length (q_items q))
     \<and> (aa_cfg d, aa_protocols_closed d, aa_log_queue d, aa_snapshot_queue d, aa_meter_queue d)
       = (aa_cfg a, aa_protocols_closed a, aa_log_queue a, aa_snapshot_queue a, aa_meter_queue a)"
proof -
  have "queue_ok (aa_segment_queue a)" using assms by (simp add: queue_ok_def)
  from shutdown_counts [OF this, of now late "''segment''" "aa_drops a"] show ?thesis
    using assms(1) by (auto simp: cleanup_segment_def drained_def segment_total_def emptied_def)
qed

lemma cleanup_log_ok:
  assumes "agent_log_reporter_active (aa_cfg a) \<Longrightarrow> queue_ok (aa_log_queue a)"
  shows "\<exists>d. cleanup_log now late a = Inr d \<and> (agent_log_reporter_active (aa_cfg a) \<longrightarrow> emptied (aa_log_queue d))
     \<and> segment_total d = segment_total a \<and> others d = others a
     \<and> (aa_snapshot_queue d, aa_meter_queue d) = (aa_snapshot_queue a, aa_meter_queue a)"
proof (cases "agent_log_reporter_active (aa_cfg a)")
  case True
  from shutdown_counts [OF assms [OF True], of now late "''log''" "aa_drops a"] show ?thesis
    using True by (auto simp: cleanup_log_def drained_def segment_total_def emptied_def)
qed (simp add: cleanup_log_def)

lemma cleanup_snapshot_ok:
  assumes "agent_profile_active (aa_cfg a) \<Longrightarrow> queue_ok (aa_snapshot_queue a)"
  shows "\<exists>d. cleanup_snapshot now late a = Inr d \<and> (agent_profile_active (aa_cfg a) \<longrightarrow> emptied (aa_snapshot_queue d))
     \<and> segment_total d = segment_total a \<and> others d = others a
     \<and> (aa_log_queue d, aa_meter_queue d) = (aa_log_queue a, aa_meter_queue a)"
proof (cases "agent_profile_active (aa_cfg a)")
  case True
  from shutdown_counts [OF assms [OF True], of now late "''snapshot''" "aa_drops a"] show ?thesis
    using True by (auto simp: cleanup_snapshot_def drained_def segment_total_def emptied_def)
qed (simp add: cleanup_snapshot_def)

lemma cleanup_meter_ok:
  assumes "agent_meter_reporter_active (aa_cfg a) \<Longrightarrow> queue_ok (aa_meter_queue a)"
  shows "\<exists>d. cleanup_meter now late a = Inr d \<and> (agent_meter_reporter_active (aa_cfg a) \<longrightarrow> emptied (aa_meter_queue d))
     \<and> segment_total d = segment_total a \<and> others d = others a
     \<and> (aa_log_queue d, aa_snapshot_queue d) = (aa_log_queue a, aa_snapshot_queue a)"
proof (cases "agent_meter_reporter_active (aa_cfg a)")
  case True
  from shutdown_counts [OF assms [OF True], of now late "''meter''" "aa_drops a"] show ?thesis
    using True by (auto simp: cleanup_meter_def drained_def segment_total_def emptied_def)
qed (simp add: cleanup_meter_def)

section \<open>Properties\<close>

text \<open>C11. The asyncio agent refines the threaded one: application threads may archive segments, logs, meters
  and snapshots while the loop runs its callbacks, in any interleaving, without an error; whenever the
  loop has no callback left, the queues, the drop totals and the drop lines are those of a threaded
  agent that archived the same items in the same order.  While callbacks are pending, it has archived
  exactly the items before them.\<close>

theorem async_archive_refines_threaded:
  assumes "aa_loop a = Some False" and "aa_callbacks a = []" and "\<forall>it \<in> set (archived es). has_queue it a"
  shows "\<exists>b run pending. async_events es a = Inr b \<and> archived es = map snd run @ pending
     \<and> aa_callbacks b = map (PutNowait True) pending
     \<and> threaded_archives run (as_threaded a) = Inr (as_threaded b)"
proof -
  have "simulates (as_threaded a) [] a" using assms by (auto simp: simulates_def intro: exI [of _ "[]"])
  from simulates_events [OF this assms(3)] show ?thesis by (auto simp: simulates_def)
qed

theorem async_archive_refines_threaded_witness:
  "\<forall>c. let a = ((SkyWalkingAgentAsync_init c)\<lparr>aa_loop := Some False, aa_segment_queue := Some (Queue_init 1)\<rparr>
          :: (nat, unit, unit, unit) async_agent) in
     \<exists>b run. async_events [Archive (ItSegment 7), Archive (ItSegment 8), LoopTurn 40, LoopTurn 41] a = Inr b
       \<and> map snd run = [ItSegment 7, ItSegment 8]
       \<and> threaded_archives run (as_threaded a) = Inr (as_threaded b)"
proof (rule allI, unfold Let_def)
  fix c
  let ?a = "(SkyWalkingAgentAsync_init c)\<lparr>aa_loop := Some False, aa_segment_queue := Some (Queue_init 1)\<rparr>
          :: (nat, unit, unit, unit) async_agent"
  let ?es = "[Archive (ItSegment 7), Archive (ItSegment 8), LoopTurn 40, LoopTurn 41]"
  obtain b run pending where b: "async_events ?es ?a = Inr b" "archived ?es = map snd run @ pending"
    "aa_callbacks b = map (PutNowait True) pending" "threaded_archives run (as_threaded ?a) = Inr (as_threaded b)"
    using async_archive_refines_threaded [of ?a ?es] by (auto simp: SkyWalkingAgentAsync_init_def)
  have "aa_callbacks b = []"
    using b(1) by (auto simp: async_archive_segment_def call_on_loop_def run_callback_def put_frame SkyWalkingAgentAsync_init_def)
  with b show "\<exists>b run. async_events ?es ?a = Inr b \<and> map snd run = [ItSegment 7, ItSegment 8]
       \<and> threaded_archives run (as_threaded ?a) = Inr (as_threaded b)" by auto
qed

text \<open>C20. \<open>start()\<close> of the asyncio agent returns before the loop thread has created the loop and the queues.
  Until the thread runs, archiving a segment and asking whether the queue is full raise \<open>AttributeError\<close>
  into the application; between the creation of the loop and of the queues a segment is accepted, but
  its callback fails in the loop: it is never queued and not counted as dropped.\<close>

theorem async_early_archive_lost:
  fixes c :: config and x :: 's
  assumes "async_start pid (SkyWalkingAgentAsync_init c) = (Inr (), a)"
  shows "async_archive_segment x a = Inl AttributeError \<and> async_is_segment_queue_full a = Inl AttributeError
     \<and> async_is_segment_queue_full (enter_loop a) = Inl AttributeError
     \<and> (\<exists>b. async_archive_segment x (enter_loop a) = Inr b
          \<and> (let d = run_callback now (create_queues b) in
             map_option q_items (aa_segment_queue d) = Some [] \<and> aa_drops d = aa_drops a
             \<and> aa_loop_errors d = [AttributeError]))"
  using assms
  by (auto simp: async_start_def SkyWalkingAgentAsync_init_def async_archive_segment_def call_on_loop_def
      async_is_segment_queue_full_def enter_loop_def create_queues_def run_callback_def asyncio_queue_put_nowait_def
      put_or_drop_def Queue_init_def Let_def split: prod.splits)

theorem async_early_archive_lost_witness:
  "\<forall>c. \<exists>a. async_start 7 (SkyWalkingAgentAsync_init c :: (nat, unit, unit, unit) async_agent) = (Inr (), a)
     \<and> async_archive_segment 3 a = Inl AttributeError"
proof
  fix c
  obtain a where a: "async_start 7 (SkyWalkingAgentAsync_init c :: (nat, unit, unit, unit) async_agent) = (Inr (), a)"
    by (auto simp: async_start_def SkyWalkingAgentAsync_init_def Let_def)
  with async_early_archive_lost [OF a, of 3] show "\<exists>a. async_start 7 (SkyWalkingAgentAsync_init c :: (nat, unit, unit, unit) async_agent)
      = (Inr (), a) \<and> async_archive_segment 3 a = Inl AttributeError" by blast
qed



end
