(* ===== verification/Plugins.thy ===== *)
theory Plugins
  imports Utils Config
begin

text \<open>
  The plugin installer of \<open>skywalking/plugins/__init__.py\<close> and the text filters of \<open>skywalking/utils/filter.py\<close> the
  plugins and the log reporter share.  The regular expressions of the disabled plugins, the version of
  an installed package and the parser of version numbers (\<open>packaging.version\<close>) are parameters; versions
  are linearly ordered.
\<close>

section \<open>Version rules\<close>

definition check :: "(string \<Rightarrow> 'v::linorder res) \<Rightarrow> string \<Rightarrow> 'v \<Rightarrow> bool res" where
  "check parse rule_unit current =
     (if length rule_unit < 2 then Inl IndexError
      else
        let idx = (if rule_unit ! 1 = CHR ''='' then 2 else 1);
            symb = take idx rule_unit
        in bind_res (parse (drop idx rule_unit)) (\<lambda>expect.
           case operators symb of
             None \<Rightarrow> Inl (OtherError (''VersionRuleException: '' @ rule_unit))
           | Some f \<Rightarrow> Inr (f current expect)))"

text \<open>The list comprehension over the units evaluates every unit before the results are looked at.\<close>

fun check_units :: "(string \<Rightarrow> 'v::linorder res) \<Rightarrow> string list \<Rightarrow> 'v \<Rightarrow> bool list res" where
  "check_units parse [] current = Inr []"
| "check_units parse (u # us) current =
     bind_res (check parse u current) (\<lambda>b. bind_res (check_units parse us current) (\<lambda>bs. Inr (b # bs)))"

fun check_rules :: "(string \<Rightarrow> 'v::linorder res) \<Rightarrow> string list \<Rightarrow> 'v \<Rightarrow> bool res" where
  "check_rules parse [] current = Inr False"
| "check_rules parse (rule # rules) current =
     (if CHR '' '' \<notin> set rule
      then bind_res (check parse rule current) (\<lambda>b. if b then Inr True else check_rules parse rules current)
      else bind_res (check_units parse (split_on (CHR '' '') rule) current)
             (\<lambda>bs. if False \<in> set bs then check_rules parse rules current else Inr True))"

text \<open>\<open>rule\<close> is the module's \<open>version_rule\<close>, if it has one; a package that is not installed counts as supported.\<close>

definition pkg_version_check ::
  "(string \<Rightarrow> 'v::linorder res) \<Rightarrow> (string \<Rightarrow> string option) \<Rightarrow> (string \<times> string list) option \<Rightarrow> bool res" where
  "pkg_version_check parse pkg_version rule =
     (case rule of
        None \<Rightarrow> Inr True
      | Some (pkg, rules) \<Rightarrow>
          (case pkg_version pkg of
             None \<Rightarrow> Inr True
           | Some v \<Rightarrow> bind_res (parse v) (check_rules parse rules)))"

section \<open>Installing the plugins\<close>

text \<open>
  A module of the package: what executing it raises, its version rule, whether it has an \<open>install\<close>
  function and what that raises.
\<close>

record plugin =
  pl_name :: string
  pl_exec :: "py_error option"
  pl_rule :: "(string \<times> string list) option"
  pl_has_install :: bool
  pl_install :: "py_error option"

datatype install_line =
    Disabled string | Unsupported string | NoInstall string | Installed string | InstallFailed string

definition disable_patterns :: "config \<Rightarrow> string list" where
  "disable_patterns c = map strip (filter (\<lambda>p. strip p \<noteq> []) (agent_disable_plugins c))"

fun install_loop ::
  "(string \<Rightarrow> 'v::linorder res) \<Rightarrow> (string \<Rightarrow> string option) \<Rightarrow> (string \<Rightarrow> bool) \<Rightarrow> plugin list
    \<Rightarrow> install_line list \<times> py_error option" where
  "install_loop parse pkg_version disabled [] = ([], None)"
| "install_loop parse pkg_version disabled (p # ps) =
     (let go_on = (\<lambda>l. case install_loop parse pkg_version disabled ps of (ls, e) \<Rightarrow> (l # ls, e)) in
      if disabled (pl_name p) then go_on (Disabled (pl_name p))
      else case pl_exec p of
        Some e \<Rightarrow> ([], Some e)
      | None \<Rightarrow>
          (case pkg_version_check parse pkg_version (pl_rule p) of
             Inl e \<Rightarrow> ([], Some e)
           | Inr False \<Rightarrow> go_on (Unsupported (pl_name p))
           | Inr True \<Rightarrow>
               if \<not> pl_has_install p then go_on (NoInstall (pl_name p))
               else if pl_install p = None then go_on (Installed (pl_name p))
               else go_on (InstallFailed (pl_name p))))"

definition install ::
  "config \<Rightarrow> (string \<Rightarrow> string \<Rightarrow> bool) \<Rightarrow> (string \<Rightarrow> 'v::linorder res) \<Rightarrow> (string \<Rightarrow> string option) \<Rightarrow> plugin list
    \<Rightarrow> install_line list \<times> py_error option" where
  "install c match parse pkg_version ps =
     install_loop parse pkg_version (\<lambda>name. \<exists>p \<in> set (disable_patterns c). match p name) ps"

section \<open>Filters\<close>

text \<open>
  \<open>sw_filter\<close>: \<open>re.sub(r'://(.*?)@', '://', target)\<close>.  At \<open>://\<close> the shortest run of characters other than a
  newline up to an \<open>@\<close> is removed; the scan goes on behind it.
\<close>

fun after_at :: "string \<Rightarrow> string option" where
  "after_at [] = None"
| "after_at (ch # s) = (if ch = CHR ''@'' then Some s else if ch = CHR ''\<newline>'' then None else after_at s)"

lemma after_at_length: "after_at s = Some t \<Longrightarrow> length t < length s"
  by (induction s) (auto split: if_splits)

function strip_credentials :: "string \<Rightarrow> string" where
  "strip_credentials s =
     (if take 3 s = ''://'' then
        (case after_at (drop 3 s) of
           Some t \<Rightarrow> ''://'' @ strip_credentials t
         | None \<Rightarrow> hd s # strip_credentials (tl s))
      else case s of [] \<Rightarrow> [] | ch # t \<Rightarrow> ch # strip_credentials t)"
  by pat_completeness auto
termination
proof (relation "measure length")
  show "take 3 s = ''://'' \<Longrightarrow> after_at (drop 3 s) = Some t \<Longrightarrow> (t, s) \<in> measure length" for s t
    using after_at_length [of "drop 3 s" t] by simp
  show "take 3 s = ''://'' \<Longrightarrow> after_at (drop 3 s) = None \<Longrightarrow> (tl s, s) \<in> measure length" for s
    by (cases s) simp_all
qed simp_all

declare strip_credentials.simps [simp del]

definition sw_filter :: "config \<Rightarrow> string \<Rightarrow> string" where
  "sw_filter c target = (if agent_log_reporter_safe_mode c then strip_credentials target else target)"

text \<open>
  \<open>hostname\<close> and \<open>port\<close> of \<open>urllib.parse\<close> on a network location, and \<open>sw_urlparse\<close>'s replacement for it.  The
  text of a missing host name is \<open>None\<close>; an illegal port leaves the location as it is.
\<close>

definition rpartition_at :: "string \<Rightarrow> string" where
  "rpartition_at s = rev (takeWhile (\<lambda>ch. ch \<noteq> CHR ''@'') (rev s))"

definition partition_on :: "char \<Rightarrow> string \<Rightarrow> string \<times> bool \<times> string" where
  "partition_on sep s = (let a = takeWhile (\<lambda>ch. ch \<noteq> sep) s in (a, sep \<in> set s, drop (Suc (length a)) s))"

definition hostinfo :: "string \<Rightarrow> string \<times> string option" where
  "hostinfo netloc =
     (let h = rpartition_at netloc in
      case partition_on (CHR ''['') h of
        (_, True, bracketed) \<Rightarrow>
          (case partition_on (CHR '']'') bracketed of
             (host, _, rest) \<Rightarrow> (case partition_on (CHR '':'') rest of
                                  (_, have_port, port) \<Rightarrow> (host, if have_port then Some port else None)))
      | (_, False, _) \<Rightarrow>
          (case partition_on (CHR '':'') h of (host, have_port, port) \<Rightarrow> (host, if have_port then Some port else None)))"

definition url_hostname :: "string \<Rightarrow> string option" where
  "url_hostname netloc =
     (let host = fst (hostinfo netloc) in
      if host = [] then None
      else case partition_on (CHR ''%'') host of
             (h, percent, zone) \<Rightarrow> Some (lower h @ (if percent then CHR ''%'' # zone else [])))"

definition url_port :: "string \<Rightarrow> int option res" where
  "url_port netloc =
     (case snd (hostinfo netloc) of
        None \<Rightarrow> Inr None
      | Some [] \<Rightarrow> Inr None
      | Some p \<Rightarrow> if \<not> list_all is_digit p then Inl (ValueError ''Port could not be cast to integer value'')
                  else if int (nat_of_digits p) \<le> 65535 then Inr (Some (int (nat_of_digits p)))
                  else Inl (ValueError ''Port out of range 0-65535''))"

definition safe_netloc :: "string \<Rightarrow> string" where
  "safe_netloc netloc =
     (case url_port netloc of
        Inl _ \<Rightarrow> netloc
      | Inr port \<Rightarrow>
          (case url_hostname netloc of None \<Rightarrow> ''None'' | Some h \<Rightarrow> h)
          @ (case port of None \<Rightarrow> [] | Some p \<Rightarrow> if p = 0 then [] else CHR '':'' # str_of_int p))"

section \<open>Laws\<close>

lemma check_units_ok:
  "\<forall>u \<in> set us. \<exists>b. check parse u v = Inr b \<Longrightarrow>
     \<exists>bs. check_units parse us v = Inr bs \<and> (False \<in> set bs \<longleftrightarrow> (\<exists>u \<in> set us. check parse u v = Inr False))"
  by (induction us) auto

lemma check_rules_dnf:
  assumes "\<forall>rule \<in> set rules. \<forall>u \<in> set (split_on (CHR '' '') rule). \<exists>b. check parse u v = Inr b"
  shows "check_rules parse rules v
    = Inr (\<exists>rule \<in> set rules. \<forall>u \<in> set (split_on (CHR '' '') rule). check parse u v = Inr True)"
  using assms
proof (induction rules)
  case (Cons rule rules)
  let ?us = "split_on (CHR '' '') rule"
  have ok: "\<forall>u \<in> set ?us. \<exists>b. check parse u v = Inr b" using Cons.prems by simp
  have all: "(\<exists>u \<in> set ?us. check parse u v = Inr False) \<longleftrightarrow> \<not> (\<forall>u \<in> set ?us. check parse u v = Inr True)"
    using ok by fastforce
  show ?case
  proof (cases "CHR '' '' \<in> set rule")
    case True
    obtain bs where "check_units parse ?us v = Inr bs" "False \<in> set bs \<longleftrightarrow> (\<exists>u \<in> set ?us. check parse u v = Inr False)"
      using check_units_ok [OF ok] by blast
    with True all Cons show ?thesis by auto
  next
    case False
    then have "?us = [rule]" by (rule split_on_no_sep)
    with ok False Cons show ?thesis by auto
  qed
qed simp

text \<open>A module that can be looked at: it executes and its version rule is well-formed.\<close>

definition load_error ::
  "(string \<Rightarrow> 'v::linorder res) \<Rightarrow> (string \<Rightarrow> string option) \<Rightarrow> (string \<Rightarrow> bool) \<Rightarrow> plugin \<Rightarrow> py_error option" where
  "load_error parse pkg_version disabled p =
     (if disabled (pl_name p) then None
      else case pl_exec p of
        Some e \<Rightarrow> Some e
      | None \<Rightarrow> (case pkg_version_check parse pkg_version (pl_rule p) of Inl e \<Rightarrow> Some e | Inr _ \<Rightarrow> None))"

definition verdict ::
  "(string \<Rightarrow> 'v::linorder res) \<Rightarrow> (string \<Rightarrow> string option) \<Rightarrow> (string \<Rightarrow> bool) \<Rightarrow> plugin \<Rightarrow> install_line" where
  "verdict parse pkg_version disabled p =
     (if disabled (pl_name p) then Disabled (pl_name p)
      else if pkg_version_check parse pkg_version (pl_rule p) = Inr False then Unsupported (pl_name p)
      else if \<not> pl_has_install p then NoInstall (pl_name p)
      else if pl_install p = None then Installed (pl_name p) else InstallFailed (pl_name p))"

lemma install_loop_result:
  "install_loop parse pkg_version disabled ps =
     (map (verdict parse pkg_version disabled) (takeWhile (\<lambda>p. load_error parse pkg_version disabled p = None) ps),
      case dropWhile (\<lambda>p. load_error parse pkg_version disabled p = None) ps of
        [] \<Rightarrow> None | p # _ \<Rightarrow> load_error parse pkg_version disabled p)"
  by (induction ps) (auto simp: load_error_def verdict_def Let_def split: option.split sum.split bool.split)

text \<open>C38. Plugins are installed independently of each other: every module up to the first that cannot be
  looked at gets its verdict in order - disabled, unsupported, without \<open>install\<close>, installed or failed - and an
  \<open>install\<close> that raises stops none of the others.  A well-formed version rule is a disjunction of
  conjunctions.  But a module that raises when it is executed, or whose version rule is malformed,
  ends the installation with its error, which \<open>start()\<close> does not catch.\<close>

theorem plugin_failures_isolated:
  fixes parse :: "string \<Rightarrow> 'v::linorder res"
  shows "install c match parse pkg_version ps =
     (let disabled = (\<lambda>name. \<exists>p \<in> set (disable_patterns c). match p name);
          loads = (\<lambda>p. load_error parse pkg_version disabled p = None)
      in (map (verdict parse pkg_version disabled) (takeWhile loads ps),
          case dropWhile loads ps of [] \<Rightarrow> None | p # _ \<Rightarrow> load_error parse pkg_version disabled p))
    \<and> (pkg_version pkg = Some text \<and> parse text = Inr v
        \<and> (\<forall>rule \<in> set rules. \<forall>u \<in> set (split_on (CHR '' '') rule). \<exists>b. check parse u v = Inr b) \<longrightarrow>
       pkg_version_check parse pkg_version (Some (pkg, rules))
         = Inr (\<exists>rule \<in> set rules. \<forall>u \<in> set (split_on (CHR '' '') rule). check parse u v = Inr True))"
  using check_rules_dnf [of rules parse v]
  by (auto simp: install_def install_loop_result pkg_version_check_def Let_def)

theorem plugin_failures_isolated_witness:
  "\<forall>c. install c (\<lambda>_ _. False) (\<lambda>s. Inr (nat_of_digits s)) (\<lambda>_. Some ''3'')
       [\<lparr>pl_name = ''a'', pl_exec = None, pl_rule = None, pl_has_install = True, pl_install = Some TypeError\<rparr>,
        \<lparr>pl_name = ''b'', pl_exec = None, pl_rule = None, pl_has_install = True, pl_install = None\<rparr>,
        \<lparr>pl_name = ''c'', pl_exec = Some IndexError, pl_rule = None, pl_has_install = True, pl_install = None\<rparr>]
     = ([InstallFailed ''a'', Installed ''b''], Some IndexError)
     \<and> pkg_version_check (\<lambda>s. Inr (nat_of_digits s)) (\<lambda>_. Some ''3'') (Some (''pkg'', [''<2'', ''>=2 <4''])) = Inr True"
proof
  fix c
  have v: "nat_of_digits ''3'' = 3" "nat_of_digits ''2'' = 2" "nat_of_digits ''4'' = 4"
    by code_simp+
  have u: "split_on (CHR '' '') ''<2'' = [''<2'']" "split_on (CHR '' '') ''>=2 <4'' = [''>=2'', ''<4'']"
    by code_simp+
  have k: "check (\<lambda>s. Inr (nat_of_digits s)) ''<2'' (3 :: nat) = Inr False"
    "check (\<lambda>s. Inr (nat_of_digits s)) ''>=2'' (3 :: nat) = Inr True"
    "check (\<lambda>s. Inr (nat_of_digits s)) ''<4'' (3 :: nat) = Inr True"
    by (simp_all add: check_def operators_def v)
  show "install c (\<lambda>_ _. False) (\<lambda>s. Inr (nat_of_digits s)) (\<lambda>_. Some ''3'')
       [\<lparr>pl_name = ''a'', pl_exec = None, pl_rule = None, pl_has_install = True, pl_install = Some TypeError\<rparr>,
        \<lparr>pl_name = ''b'', pl_exec = None, pl_rule = None, pl_has_install = True, pl_install = None\<rparr>,
        \<lparr>pl_name = ''c'', pl_exec = Some IndexError, pl_rule = None, pl_has_install = True, pl_install = None\<rparr>]
     = ([InstallFailed ''a'', Installed ''b''], Some IndexError)
     \<and> pkg_version_check (\<lambda>s. Inr (nat_of_digits s)) (\<lambda>_. Some ''3'') (Some (''pkg'', [''<2'', ''>=2 <4''])) = Inr True"
    using plugin_failures_isolated [of c "\<lambda>_ _. False" "\<lambda>s. Inr (nat_of_digits s)" "\<lambda>_. Some ''3''" _ "''pkg''" "''3''" 3
        "[''<2'', ''>=2 <4'']"]
    by (simp add: Let_def load_error_def verdict_def pkg_version_check_def v u k)
qed

text \<open>Outside quoted at-signs the filter removes exactly the user information of a URL.\<close>

lemma strip_credentials_Cons: "CHR '':'' \<noteq> ch \<Longrightarrow> strip_credentials (ch # s) = ch # strip_credentials s"
  by (subst strip_credentials.simps) simp

lemma after_at_cred:
  "CHR ''@'' \<notin> set cred \<Longrightarrow> CHR ''\<newline>'' \<notin> set cred \<Longrightarrow> after_at (cred @ CHR ''@'' # s) = Some s"
  by (induction cred) auto

theorem credentials_removed:
  assumes "CHR '':'' \<notin> set pre" and "CHR ''@'' \<notin> set cred" and "CHR ''\<newline>'' \<notin> set cred"
  shows "strip_credentials (pre @ ''://'' @ cred @ ''@'' @ s) = pre @ ''://'' @ strip_credentials s"
  using assms(1)
proof (induction pre)
  case Nil
  show ?case using after_at_cred [OF assms(2,3)] by (subst strip_credentials.simps) simp
qed (simp add: strip_credentials_Cons)

text \<open>A password with an at-sign leaks its tail, and an illegal port keeps the credentials in the location.\<close>

lemma filter_leaks:
  "strip_credentials ''db://u:p@ss@host'' = ''db://ss@host''"
  "safe_netloc ''u:p@host:x'' = ''u:p@host:x''"
  "safe_netloc [] = ''None''"
  "safe_netloc ''[::1]:80'' = ''::1:80''"
  by code_simp+

end
