(* ===== verification/LogReporter.thy ===== *)
theory LogReporter
  imports TraceProps Plugins
begin

text \<open>
  The log reporter of \<open>skywalking/log/sw_logging.py\<close>: the replacement of \<open>Logger.handle\<close> that sends a copy of a log
  record, tied to the active span, to the agent's log queue; and the sink of \<open>plugins/sw_loguru.py\<close>, which
  builds the same message.  The formatter, \<open>getMessage()\<close> and the traceback text are parts of the record;
  \<open>logging.getLevelName\<close> is a parameter, \<open>None\<close> where it answers an unknown name with a text.
\<close>

section \<open>Records and messages\<close>

record log_record =
  lr_name :: string
  lr_levelno :: int
  lr_levelname :: string
  lr_threadName :: string
  lr_msg :: string
  lr_message :: string
  lr_args :: "string list"
  lr_exc :: "string option"
  lr_created :: real

record app_logger =
  lg_disabled :: bool
  lg_filter :: "log_record \<Rightarrow> bool"

record log_data =
  ld_timestamp :: int
  ld_service :: string
  ld_serviceInstance :: string
  ld_text :: string
  ld_tags :: "(string \<times> string) list"
  ld_traceContext :: "(string \<times> string \<times> int) option"
  ld_endpoint :: "string option"

text \<open>Python rounds a tie to the even neighbour.\<close>

definition py_round :: "real \<Rightarrow> int" where
  "py_round x =
     (let f = \<lfloor>x\<rfloor>; d = x - of_int f
      in if d < 1 / 2 then f else if 1 / 2 < d then f + 1 else if even f then f else f + 1)"

fun occurs_in :: "string \<Rightarrow> string \<Rightarrow> bool" where
  "occurs_in p [] = (p = [])"
| "occurs_in p (ch # s) = (take (length p) (ch # s) = p \<or> occurs_in p s)"

definition sw_traceback :: "config \<Rightarrow> string \<Rightarrow> string" where
  "sw_traceback c stack_trace = sw_filter c stack_trace"

definition build_log_tags :: "config \<Rightarrow> log_record \<Rightarrow> (string \<times> string) list" where
  "build_log_tags c r =
     [(''level'', lr_levelname r), (''logger'', lr_name r), (''thread'', lr_threadName r)]
     @ (if agent_log_reporter_formatted c then []
        else map (\<lambda>i. (''argument.'' @ str_of_nat i, lr_args r ! i)) [0..<length (lr_args r)]
             @ (case lr_exc r of None \<Rightarrow> [] | Some tb \<Rightarrow> [(''exception'', sw_traceback c tb)]))"

text \<open>\<open>format\<close> is the formatter on the record with its \<open>tid\<close> attribute, if the layout asks for one.\<close>

definition transform :: "(string option \<Rightarrow> log_record \<Rightarrow> string) \<Rightarrow> config \<Rightarrow> string option \<Rightarrow> log_record \<Rightarrow> string" where
  "transform format c tid r =
     (if agent_log_reporter_formatted c
      then if agent_log_reporter_layout c \<noteq> [] then format tid r
           else lr_message r @ (case lr_exc r of None \<Rightarrow> [] | Some tb \<Rightarrow> CHR ''\<newline>'' # sw_traceback c tb)
      else lr_msg r)"

definition internal_logger :: "string \<Rightarrow> bool" where
  "internal_logger name = (name \<in> {''skywalking'', ''skywalking-cli'', ''skywalking-loader''})"

section \<open>The handler\<close>

text \<open>The fields of a message that come from the tracing context: the active span and the primary endpoint.\<close>

definition active_fields :: "trace_env \<Rightarrow> nat \<Rightarrow> (int \<times> string option, (log_data, 'm, 'n) world) op" where
  "active_fields e i =
     seq (active_span e) (\<lambda>s.
     case s of
       None \<Rightarrow> ret (-1, None)
     | Some j \<Rightarrow> gets (\<lambda>w. (sp_sid (sp_of w j),
                           case cx_primary_endpoint (cx_of w i) of None \<Rightarrow> None | Some k \<Rightarrow> sp_op (sp_of w k))))"

definition trace_context :: "nat \<Rightarrow> int \<Rightarrow> ((string \<times> string \<times> int) option, (log_data, 'm, 'n) world) op" where
  "trace_context i sid =
     (if sid = -1 then ret None
      else seq (first_related i) (\<lambda>t.
           gets (\<lambda>w. Some (t, id_value (seg_id (cx_segment (cx_of w i))), sid))))"

definition non_empty :: "string option \<Rightarrow> string option" where
  "non_empty s = (if s = Some [] then None else s)"

text \<open>
  \<open>_sw_handle\<close> after the original handler has run; \<open>None\<close> where the record is not reported.
\<close>

definition sw_handle ::
  "(string \<Rightarrow> int option) \<Rightarrow> (string option \<Rightarrow> log_record \<Rightarrow> string) \<Rightarrow> trace_env \<Rightarrow> app_logger \<Rightarrow> log_record
    \<Rightarrow> (log_data option, (log_data, 'm, 'n) world) op" where
  "sw_handle level_of format e lg r =
     seq (gets (\<lambda>w. w_cfg w)) (\<lambda>c.
     if lg_disabled lg \<or> internal_logger (lr_name r) then ret None
     else case level_of (agent_log_reporter_level c) of
       None \<Rightarrow> raise_err TypeError
     | Some level \<Rightarrow>
         if lr_levelno r < level then ret None
         else if \<not> agent_log_reporter_ignore_filter c \<and> \<not> lg_filter lg r then ret None
         else
           seq (get_context e) (\<lambda>i.
           seq (if occurs_in ''%(tid)s'' (agent_log_reporter_layout c)
                then seq (first_related i) (\<lambda>t. ret (Some t)) else ret None) (\<lambda>tid.
           seq (active_fields e i) (\<lambda>(sid, endpoint).
           seq (trace_context i sid) (\<lambda>tc.
           let ld = \<lparr>ld_timestamp = py_round (lr_created r * 1000), ld_service = agent_name c,
                     ld_serviceInstance = agent_instance_name c, ld_text = sw_filter c (transform format c tid r),
                     ld_tags = build_log_tags c r, ld_traceContext = tc, ld_endpoint = non_empty endpoint\<rparr>
           in seq (on_agent (archive_log (te_clock e) ld)) (\<lambda>_. ret (Some ld)))))))"

text \<open>The loguru sink has no logger to ask; its message is the record's text.\<close>

definition sw_sink ::
  "(string \<Rightarrow> int option) \<Rightarrow> trace_env \<Rightarrow> log_record \<Rightarrow> (log_data option, (log_data, 'm, 'n) world) op" where
  "sw_sink level_of e r =
     seq (gets (\<lambda>w. w_cfg w)) (\<lambda>c.
     case level_of (agent_log_reporter_level c) of
       None \<Rightarrow> raise_err TypeError
     | Some level \<Rightarrow>
         if lr_levelno r < level then ret None
         else
           seq (get_context e) (\<lambda>i.
           seq (active_fields e i) (\<lambda>(sid, endpoint).
           seq (trace_context i sid) (\<lambda>tc.
           let ld = \<lparr>ld_timestamp = py_round (lr_created r * 1000), ld_service = agent_name c,
                     ld_serviceInstance = agent_instance_name c, ld_text = sw_filter c (lr_message r),
                     ld_tags = [(''level'', lr_levelname r), (''logger'', ''loguru''), (''thread'', lr_threadName r)]
                       @ (case lr_exc r of None \<Rightarrow> [] | Some tb \<Rightarrow> [(''exception'', sw_filter c tb)]),
                     ld_traceContext = tc, ld_endpoint = non_empty endpoint\<rparr>
           in seq (on_agent (archive_log (te_clock e) ld)) (\<lambda>_. ret (Some ld))))))"

section \<open>Properties\<close>

text \<open>A record that passes the gates of the handler.\<close>

definition reported :: "(string \<Rightarrow> int option) \<Rightarrow> config \<Rightarrow> app_logger \<Rightarrow> log_record \<Rightarrow> bool" where
  "reported level_of c lg r \<longleftrightarrow>
     \<not> lg_disabled lg \<and> \<not> internal_logger (lr_name r)
     \<and> (\<exists>level. level_of (agent_log_reporter_level c) = Some level \<and> level \<le> lr_levelno r)
     \<and> (agent_log_reporter_ignore_filter c \<or> lg_filter lg r)"

lemma not_reported:
  assumes "level_of (agent_log_reporter_level (w_cfg w)) \<noteq> None" and "\<not> reported level_of (w_cfg w) lg r"
  shows "sw_handle level_of format e lg r w = (Inr None, w)"
  using assms by (auto simp: sw_handle_def reported_def)

lemma first_related_reach:
  assumes "tracing.reach w" and "i < length (w_ctxs w)"
  shows "first_related i w = (Inr (id_value (hd (seg_related (cx_segment (cx_of w i))))), w)"
  using tracing.reach_inv [OF assms(1)] nth_mem [OF assms(2)]
  by (auto simp: first_related_def wok_def world_ok_def related_ok_def split: list.split)


lemma archive_log_total:
  assumes "a_log_queue a = Some q"
  obtains b where "archive_log now ld a = Inr b" and "a_sampling b = a_sampling a"
proof -
  have "\<exists>b. archive_log now ld a = Inr b \<and> a_sampling b = a_sampling a"
    using assms by (auto simp: archive_log_def count_drop_def split_beta split: option.split)
  then show ?thesis using that by blast
qed

lemma get_context_samples:
  assumes "w_stacks w (te_tid e) = []" and "a_sampling (w_agent w) = Some s"
  obtains i w1 where "get_context e w = (Inr i, w1)"
    and "w_agent w1 = (w_agent w)\<lparr>a_sampling := Some (snd (try_sampling (sample_n_per_3_secs (w_cfg w)) s))\<rparr>"
    and "w_stacks w1 = w_stacks w"
  using assms
  by (cases "try_sampling (sample_n_per_3_secs (w_cfg w)) s"; cases "fst (try_sampling (sample_n_per_3_secs (w_cfg w)) s)")
    (auto simp: get_context_def SpanContext_new_def NoopContext_new_def fresh_uuid_def seq_def)

text \<open>Logging outside a span spends the sampling quota: where sampling is on and no span is active, each
  reported record asks for a context and so takes a slot of the current sampling window, although no
  trace is started.\<close>

theorem log_takes_sampling_slot:
  assumes "w_stacks w (te_tid e) = []" and "a_sampling (w_agent w) = Some s" and "reported level_of (w_cfg w) lg r"
    and "a_log_queue (w_agent w) = Some q"
    and "\<not> occurs_in ''%(tid)s'' (agent_log_reporter_layout (w_cfg w))"
  shows "\<exists>ld w'. sw_handle level_of format e lg r w = (Inr (Some ld), w') \<and> ld_traceContext ld = None
     \<and> a_sampling (w_agent w') = Some (snd (try_sampling (sample_n_per_3_secs (w_cfg w)) s))"
proof -
  let ?s = "snd (try_sampling (sample_n_per_3_secs (w_cfg w)) s)"
  obtain i w1 where w1: "get_context e w = (Inr i, w1)" "w_agent w1 = (w_agent w)\<lparr>a_sampling := Some ?s\<rparr>"
    "w_stacks w1 = w_stacks w" by (rule get_context_samples [OF assms(1,2)])
  let ?ld = "\<lparr>ld_timestamp = py_round (lr_created r * 1000), ld_service = agent_name (w_cfg w),
      ld_serviceInstance = agent_instance_name (w_cfg w), ld_text = sw_filter (w_cfg w) (transform format (w_cfg w) None r),
      ld_tags = build_log_tags (w_cfg w) r, ld_traceContext = None, ld_endpoint = None\<rparr>"
  obtain b where b: "archive_log (te_clock e) ?ld (w_agent w1) = Inr b" "a_sampling b = Some ?s"
    using archive_log_total [of "w_agent w1" q] assms(4) w1(2) by auto
  have "sw_handle level_of format e lg r w = (Inr (Some ?ld), w1\<lparr>w_agent := b\<rparr>)"
    using assms(1,3,5) w1 b(1)
    by (auto simp: sw_handle_def reported_def seq_def active_fields_def active_span_def peek_def trace_context_def
        on_agent_def non_empty_def Let_def)
  then show ?thesis using b(2) by simp
qed

text \<open>A logger and a record for the witnesses.\<close>

definition demo_logger :: app_logger where
  "demo_logger = \<lparr>lg_disabled = False, lg_filter = (\<lambda>_. True)\<rparr>"

definition demo_record :: log_record where
  "demo_record = \<lparr>lr_name = ''app'', lr_levelno = 40, lr_levelname = ''ERROR'', lr_threadName = ''MainThread'',
     lr_msg = ''x'', lr_message = ''x'', lr_args = [], lr_exc = None, lr_created = 1\<rparr>"

lemma demo_reported: "reported (\<lambda>_. Some 30) c demo_logger demo_record"
  by (simp add: reported_def demo_logger_def demo_record_def internal_logger_def)

theorem log_takes_sampling_slot_witness:
  "\<forall>c. \<exists>ld w'. sw_handle (\<lambda>_. Some 30) (\<lambda>_ _. []) demo_env demo_logger demo_record
       (empty_world ((SkyWalkingAgent_init (c\<lparr>agent_log_reporter_layout := [], sample_n_per_3_secs := 3\<rparr>))
          \<lparr>a_log_queue := Some (Queue_init 4), a_sampling := Some SamplingServiceBase_init\<rparr>) None
        :: (log_data, unit, unit) world) = (Inr (Some ld), w')
     \<and> a_sampling (w_agent w') = Some \<lparr>sampling_factor = 1\<rparr>"
proof
  fix c
  let ?w = "empty_world ((SkyWalkingAgent_init (c\<lparr>agent_log_reporter_layout := [], sample_n_per_3_secs := 3\<rparr>))
          \<lparr>a_log_queue := Some (Queue_init 4), a_sampling := Some SamplingServiceBase_init\<rparr>) None
        :: (log_data, unit, unit) world"
  have "snd (try_sampling 3 SamplingServiceBase_init) = \<lparr>sampling_factor = 1\<rparr>" by (simp add: sampler_defs)
  then show "\<exists>ld w'. sw_handle (\<lambda>_. Some 30) (\<lambda>_ _. []) demo_env demo_logger demo_record ?w = (Inr (Some ld), w')
     \<and> a_sampling (w_agent w') = Some \<lparr>sampling_factor = 1\<rparr>"
    using log_takes_sampling_slot [of ?w demo_env SamplingServiceBase_init "\<lambda>_. Some 30" demo_logger demo_record "Queue_init 4"
        "\<lambda>_ _. []"] demo_reported
    by (auto simp: empty_world_def SkyWalkingAgent_init_def)
qed

text \<open>One local span is active and the agent reports logs.\<close>

definition log_world :: "config \<Rightarrow> (log_data, unit, unit) world" where
  "log_world c = (span_start demo_env 0 (snd (new_local_span demo_env 0 ''op''
     (snd (get_context demo_env (empty_world (demo_agent c) None))))))
     \<lparr>w_agent := (demo_agent c)\<lparr>a_log_queue := Some (Queue_init 4)\<rparr>\<rparr>"

lemma log_world_reach: "tracing.reach (log_world c)"
proof -
  let ?w = "empty_world (demo_agent c) None :: (log_data, unit, unit) world"
  have "tracing.reach ?w" by (rule tracing.start) blast
  moreover have "get_context demo_env ?w = (Inr 0, snd (get_context demo_env ?w))" by (simp add: demo_context)
  ultimately have "tracing.reach (snd (new_local_span demo_env 0 ''op'' (snd (get_context demo_env ?w))))"
    using tracing.next_state tr_local [OF _ prod.collapse [symmetric]] by blast
  then have "tracing.reach (span_start demo_env 0 (snd (new_local_span demo_env 0 ''op'' (snd (get_context demo_env ?w)))))"
    by (rule tracing.next_state) (rule tr_start, simp add: demo_span)
  then show ?thesis unfolding log_world_def by (rule tracing.next_state) (rule tr_agent)
qed

lemma log_world_facts:
  "w_stacks (log_world c) 0 = [0]" "length (w_spans (log_world c)) = 1" "sp_context (sp_of (log_world c) 0) = 0"
  "sp_sid (sp_of (log_world c) 0) = 0" "id_value (hd (seg_related (cx_segment (cx_of (log_world c) 0)))) = ''uu''"
  "id_value (seg_id (cx_segment (cx_of (log_world c) 0))) = ''u''"
  "a_log_queue (w_agent (log_world c)) = Some (Queue_init 4)"
  unfolding log_world_def demo_span
  by (simp_all add: span_start_def Span_start_def context_start_def Span_init_def upd_span_def upd_ctx_def set_stack_def
      demo_env_def Let_def Segment_init_def)


end
