(* ===== verification/Clients.thy ===== *)
theory Clients
  imports Protocols Carrier
begin

text \<open>
  What the clients of \<open>skywalking/client/\<close> build before they talk to the collector: the instance properties, the
  options of the Kafka producer, the URLs of the HTTP services, and the interceptor of
  \<open>skywalking/agent/protocol/interceptors.py\<close> that adds the authentication header to every call.  The facts about
  the host, the JSON parser and the environment are parameters.
\<close>

section \<open>Instance properties\<close>

record host_info =
  hi_os_name :: string
  hi_hostname :: string
  hi_addresses :: "string list"
  hi_implementation :: string
  hi_version :: string

text \<open>\<open>info\<close> is \<open>None\<close> where looking it up raises; \<open>loads\<close> is \<open>json.loads\<close> on the configured text.\<close>

definition get_instance_properties ::
  "config \<Rightarrow> int \<Rightarrow> host_info option \<Rightarrow> (string \<Rightarrow> (string \<times> string) list res) \<Rightarrow> (string \<times> string) list res" where
  "get_instance_properties c pid info loads =
     (let base = (case info of
            Some h \<Rightarrow> [(''language'', ''python''), (''OS Name'', hi_os_name h), (''Process No.'', str_of_int pid),
                      (''hostname'', hi_hostname h), (''ipv4'', join_with ''; '' (hi_addresses h)),
                      (''python_implementation'', hi_implementation h), (''python_version'', hi_version h)]
          | None \<Rightarrow> [(''language'', ''python''), (''Process No.'', str_of_int pid)]);
          ns = (if agent_namespace c \<noteq> [] then [(''namespace'', agent_namespace c)] else [])
      in if agent_instance_properties_json c = [] then Inr (base @ ns)
         else bind_res (loads (agent_instance_properties_json c)) (\<lambda>extra. Inr (base @ ns @ extra)))"

section \<open>Kafka producer options\<close>

datatype kafka_value = KServers "string list" | KInt int | KBool bool | KText string

definition KAFKA_PREFIX :: string where
  "KAFKA_PREFIX = ''SW_KAFKA_REPORTER_CONFIG_''"

definition option_key :: "string \<times> string \<Rightarrow> string" where
  "option_key kv = drop 25 (fst kv)"

definition kafka_value_of :: "unicode \<Rightarrow> string \<Rightarrow> kafka_value res" where
  "kafka_value_of U v =
     (if isnumeric U v
      then bind_res (int_of_text U v) (\<lambda>n. Inr (KInt n))
      else if v = ''True'' then Inr (KBool True)
      else if v = ''False'' then Inr (KBool False)
      else Inr (KText v))"

fun kafka_loop ::
  "unicode \<Rightarrow> (string \<times> string) list \<Rightarrow> (string, kafka_value) dict \<Rightarrow> (string, kafka_value) dict res" where
  "kafka_loop U [] d = Inr d"
| "kafka_loop U ((k, v) # env) d =
     bind_res (kafka_value_of U v) (\<lambda>x.
       let key = option_key (k, v) in
       if map_of d key = None then kafka_loop U env (d @ [(key, x)])
       else Inl (OtherError (''KafkaConfigDuplicated: '' @ key)))"

definition init_kafka_configs :: "unicode \<Rightarrow> config \<Rightarrow> (string \<times> string) list \<Rightarrow> (string, kafka_value) dict res" where
  "init_kafka_configs U c env =
     kafka_loop U (filter (\<lambda>(k, _). starts_with k KAFKA_PREFIX) env)
       [(''bootstrap_servers'', KServers (split_on (CHR '','') (kafka_bootstrap_servers c)))]"

section \<open>URLs of the HTTP services\<close>

definition rstrip_slash :: "string \<Rightarrow> string" where
  "rstrip_slash s = rev (dropWhile (\<lambda>ch. ch = CHR ''/'') (rev s))"

definition collector_url :: "string \<Rightarrow> config \<Rightarrow> string \<Rightarrow> string" where
  "collector_url proto c path = proto @ rstrip_slash (agent_collector_backend_services c) @ path"

definition management_urls :: "string \<Rightarrow> config \<Rightarrow> string \<times> string" where
  "management_urls proto c =
     (collector_url proto c ''/v3/management/reportProperties'', collector_url proto c ''/v3/management/keepAlive'')"

definition segment_url :: "string \<Rightarrow> config \<Rightarrow> string" where
  "segment_url proto c = collector_url proto c ''/v3/segment''"

definition logs_url :: "string \<Rightarrow> config \<Rightarrow> string" where
  "logs_url proto c = collector_url proto c ''/v3/logs''"

section \<open>The authentication header\<close>

record call_details =
  cd_method :: string
  cd_timeout :: "real option"
  cd_metadata :: "(string \<times> string) list option"
  cd_credentials :: "nat option"

definition header_adder :: "string \<Rightarrow> string \<Rightarrow> call_details \<Rightarrow> call_details" where
  "header_adder header v d =
     d\<lparr>cd_metadata := Some ((case cd_metadata d of None \<Rightarrow> [] | Some m \<Rightarrow> m) @ [(header, v)])\<rparr>"

text \<open>The four call shapes pass the changed details and the unchanged request on to the continuation.\<close>

definition intercept_call :: "(call_details \<Rightarrow> call_details) \<Rightarrow> (call_details \<Rightarrow> 'q \<Rightarrow> 'r) \<Rightarrow> call_details \<Rightarrow> 'q \<Rightarrow> 'r" where
  "intercept_call fn continuation details request = continuation (fn details) request"

section \<open>Laws\<close>

lemma kafka_loop_result:
  assumes "distinct (map option_key env)" and "\<forall>kv \<in> set env. option_key kv \<notin> fst ` set d"
    and "\<forall>kv \<in> set env. \<exists>x. kafka_value_of U (snd kv) = Inr x"
  shows "\<exists>d'. kafka_loop U env d = Inr (d @ d') \<and> map fst d' = map option_key env
     \<and> list_all2 (\<lambda>kv kx. kafka_value_of U (snd kv) = Inr (snd kx)) env d'"
  using assms
proof (induction env arbitrary: d)
  case (Cons e env)
  obtain k v where e: "e = (k, v)" by force
  obtain x where x: "kafka_value_of U v = Inr x" using Cons.prems(3) e by auto
  let ?d = "d @ [(option_key e, x)]"
  have "map_of d (option_key e) = None" using Cons.prems(2) by (simp add: map_of_eq_None_iff)
  moreover have "\<exists>d'. kafka_loop U env ?d = Inr (?d @ d') \<and> map fst d' = map option_key env
     \<and> list_all2 (\<lambda>kv kx. kafka_value_of U (snd kv) = Inr (snd kx)) env d'"
  proof (rule Cons.IH)
    show "\<forall>kv \<in> set env. option_key kv \<notin> fst ` set ?d"
      using Cons.prems(1,2) by (simp add: image_iff) metis
  qed (use Cons.prems in simp_all)
  ultimately show ?case using x e by auto
qed simp

text \<open>The options of the Kafka producer are the environment's, in order and with their types, after the
  configured servers; an entry for the servers, or two entries for one option, are refused.\<close>

theorem kafka_configs_from_environment:
  assumes typed: "\<forall>kv \<in> set env. starts_with (fst kv) KAFKA_PREFIX \<longrightarrow> (\<exists>x. kafka_value_of U (snd kv) = Inr x)"
    and servers: "''bootstrap_servers'' \<notin> option_key ` set (filter (\<lambda>(k, _). starts_with k KAFKA_PREFIX) env)"
    and distinct: "distinct (map option_key (filter (\<lambda>(k, _). starts_with k KAFKA_PREFIX) env))"
  shows "\<exists>d. init_kafka_configs U c env
      = Inr ((''bootstrap_servers'', KServers (split_on (CHR '','') (kafka_bootstrap_servers c))) # d)
     \<and> map fst d = map option_key (filter (\<lambda>(k, _). starts_with k KAFKA_PREFIX) env)
     \<and> list_all2 (\<lambda>kv kx. kafka_value_of U (snd kv) = Inr (snd kx)) (filter (\<lambda>(k, _). starts_with k KAFKA_PREFIX) env) d"
proof -
  let ?d = "[(''bootstrap_servers'', KServers (split_on (CHR '','') (kafka_bootstrap_servers c)))]"
  have "\<forall>kv \<in> set (filter (\<lambda>(k, _). starts_with k KAFKA_PREFIX) env). option_key kv \<notin> fst ` set ?d"
  proof
    fix kv assume "kv \<in> set (filter (\<lambda>(k, _). starts_with k KAFKA_PREFIX) env)"
    then have "option_key kv \<noteq> ''bootstrap_servers''" using servers imageI by metis
    then show "option_key kv \<notin> fst ` set ?d" by simp
  qed
  moreover have "\<forall>kv \<in> set (filter (\<lambda>(k, _). starts_with k KAFKA_PREFIX) env). \<exists>x. kafka_value_of U (snd kv) = Inr x"
    using typed by auto
  ultimately show ?thesis using kafka_loop_result [OF distinct, of ?d U] by (simp add: init_kafka_configs_def)
qed

lemma header_added_once:
  "intercept_call (header_adder h v) k d q = k (header_adder h v d) q"
  "count_list (the (cd_metadata (header_adder h v d))) (h, v)
     = Suc (case cd_metadata d of None \<Rightarrow> 0 | Some m \<Rightarrow> count_list m (h, v))"
  by (simp_all add: intercept_call_def header_adder_def split: option.split)

end
