(* ===== verification/Instrument.thy ===== *)
theory Instrument
  imports TraceEdge Plugins Clients
begin

text \<open>
  The shape every instrumentation plugin of \<open>skywalking/plugins\<close> has: a wrapper around a function of a
  third-party library opens a span, enters it as a \<open>with\<close> block, writes what it knows about the call
  into the span, calls the library, and leaves the block on whatever path the library took.  The
  library is a parameter: a function of its arguments and of the store, which returns, raises an
  \<open>Exception\<close> (with its formatted traceback) or raises another \<open>BaseException\<close>.

  The contract that the wrappers keep and rely on - the library included, since an instrumented
  library may call another one - is \<open>lib_ok\<close>; the locale \<open>instrumented\<close> states what a plugin promises.
\<close>

section \<open>Library calls\<close>

datatype 'r outcome = Returned 'r | Raised string | RaisedBase

fun exit_of :: "'r outcome \<Rightarrow> with_exit" where
  "exit_of (Returned _) = NormalExit"
| "exit_of (Raised tb) = ExceptionExit tb"
| "exit_of RaisedBase = BaseExceptionExit"

type_synonym ('r, 'w) call = "'w \<Rightarrow> 'r outcome \<times> 'w"

definition run_lib :: "('r, 'w) call \<Rightarrow> ('r outcome, 'w) op" where
  "run_lib f w = (case f w of (r, w') \<Rightarrow> (Inr r, w'))"

text \<open>Code after the library call runs only when the call has returned.\<close>

definition on_return :: "('r \<Rightarrow> (unit, 'w) op) \<Rightarrow> 'r outcome \<Rightarrow> ('r outcome, 'w) op" where
  "on_return f r = (case r of Returned x \<Rightarrow> seq (f x) (\<lambda>_. ret r) | _ \<Rightarrow> ret r)"

text \<open>A call seen from outside: an exception of the agent's own code is an \<open>Exception\<close> to the application.\<close>

definition as_call :: "('r outcome, 'w) op \<Rightarrow> ('r, 'w) call" where
  "as_call f w = (case f w of (Inl err, w') \<Rightarrow> (Raised [], w') | (Inr r, w') \<Rightarrow> (r, w'))"

text \<open>What a wrapper runs with: the environment when it is entered and when its block ends, and the
  compiled \<open>RE_HTTP_IGNORE_METHOD.match\<close>.\<close>

record call_env =
  ce_start :: trace_env
  ce_end :: trace_env
  ce_ignored_method :: "string \<Rightarrow> bool"

definition same_thread :: "nat \<Rightarrow> call_env \<Rightarrow> bool" where
  "same_thread t ce = (te_tid (ce_start ce) = t \<and> te_tid (ce_end ce) = t)"

section \<open>The span of a wrapper\<close>

text \<open>\<open>with span:\<close> (\<open>__enter__\<close> and \<open>__exit__\<close> of \<open>trace/span.py\<close>); the traceback of an exception of the
  agent's own code is not modelled and left empty.\<close>

definition with_span :: "call_env \<Rightarrow> nat \<Rightarrow> ('r outcome, ('l, 'm, 'n) world) op \<Rightarrow> ('r outcome, ('l, 'm, 'n) world) op" where
  "with_span ce sp body =
     seq (modify (span_start (ce_start ce) sp)) (\<lambda>_. \<lambda>w.
       case body w of
         (Inl err, w1) \<Rightarrow> seq (span_exit (ce_end ce) (ExceptionExit []) sp) (\<lambda>_. raise_err err) w1
       | (Inr r, w1) \<Rightarrow> seq (span_exit (ce_end ce) (exit_of r) sp) (\<lambda>_. ret r) w1)"

text \<open>\<open>NoopSpan(NoopContext())\<close>.\<close>

definition noop_span :: "(nat, ('l, 'm, 'n) world) op" where
  "noop_span = seq NoopContext_new NoopSpan_new"

text \<open>\<open>get_context().new_exit_span(...)\<close> and \<open>get_context().new_entry_span(...)\<close>.\<close>

definition exit_span :: "call_env \<Rightarrow> string \<Rightarrow> string \<Rightarrow> component \<Rightarrow> (nat, ('l, 'm, 'n) world) op" where
  "exit_span ce op peer cmp =
     seq (get_context (ce_start ce)) (\<lambda>ctx. new_exit_span (ce_start ce) ctx op peer (Some cmp) None)"

definition entry_span ::
  "call_env \<Rightarrow> string \<Rightarrow> nat carrier option \<Rightarrow> component option \<Rightarrow> (nat, ('l, 'm, 'n) world) op" where
  "entry_span ce op carrier inherit =
     seq (get_context (ce_start ce)) (\<lambda>ctx. new_entry_span (ce_start ce) ctx op carrier inherit)"

definition set_layer :: "nat \<Rightarrow> layer \<Rightarrow> (unit, ('l, 'm, 'n) world) op" where
  "set_layer sp l = modify (upd_span sp (\<lambda>s. s\<lparr>sp_layer := l\<rparr>))"

definition set_component :: "nat \<Rightarrow> component \<Rightarrow> (unit, ('l, 'm, 'n) world) op" where
  "set_component sp c = modify (upd_span sp (\<lambda>s. s\<lparr>sp_component := c\<rparr>))"

definition set_peer :: "nat \<Rightarrow> string \<Rightarrow> (unit, ('l, 'm, 'n) world) op" where
  "set_peer sp p = modify (upd_span sp (\<lambda>s. s\<lparr>sp_peer := Some p\<rparr>))"

definition set_peer_opt :: "nat \<Rightarrow> string option \<Rightarrow> (unit, ('l, 'm, 'n) world) op" where
  "set_peer_opt sp p = modify (upd_span sp (\<lambda>s. s\<lparr>sp_peer := p\<rparr>))"

definition set_error :: "nat \<Rightarrow> (unit, ('l, 'm, 'n) world) op" where
  "set_error sp = modify (upd_span sp (\<lambda>s. s\<lparr>sp_error_occurred := True\<rparr>))"

definition tag_span :: "nat \<Rightarrow> tag_class \<Rightarrow> string \<Rightarrow> (unit, ('l, 'm, 'n) world) op" where
  "tag_span sp cls v = tag_all sp [Tag_init cls v]"

definition when_op :: "bool \<Rightarrow> (unit, 'w) op \<Rightarrow> (unit, 'w) op" where
  "when_op b f = (if b then f else ret ())"

text \<open>The status tag and the error flag, as most HTTP plugins write them after the call.\<close>

definition tag_status :: "nat \<Rightarrow> int \<Rightarrow> (unit, ('l, 'm, 'n) world) op" where
  "tag_status sp code =
     seq (tag_span sp TagHttpStatusCode (str_of_int code)) (\<lambda>_. when_op (code \<ge> 400) (set_error sp))"

section \<open>Headers\<close>

text \<open>\<open>for item in carrier: headers[item.key] = item.val\<close>, where the carrier's dictionary lives in the store.\<close>

definition inject_headers ::
  "nat carrier \<Rightarrow> (string, string) dict \<Rightarrow> ((string, string) dict, ('l, 'm, 'n) world) op" where
  "inject_headers c h w = (write_headers carrier_items (recarry (w_corrs w ! c_correlation c) c) h, w)"

text \<open>\<open>str.capitalize\<close>.\<close>

definition capitalize :: "string \<Rightarrow> string" where
  "capitalize s = (case s of [] \<Rightarrow> [] | c # cs \<Rightarrow> char_upper c # lower cs)"

text \<open>
  \<open>carrier = Carrier()\<close>, then \<open>item.val = ...\<close> for every item whose header is present; \<open>look\<close> is the lookup
  in the header mapping of the framework, applied to the key of the item.
\<close>

fun fill_carrier ::
  "int \<Rightarrow> (string \<Rightarrow> string option) \<Rightarrow> carrier_item list \<Rightarrow> correlation carrier \<Rightarrow> py_error option \<times> correlation carrier" where
  "fill_carrier mx look [] c = (None, c)"
| "fill_carrier mx look (i # is) c =
     (case look (item_key i) of
        None \<Rightarrow> fill_carrier mx look is c
      | Some v \<Rightarrow>
          (case set_item mx i (Some v) c of
             (Some err, c') \<Rightarrow> (Some err, c')
           | (None, c') \<Rightarrow> fill_carrier mx look is c'))"

definition extract_headers :: "(string \<Rightarrow> string option) \<Rightarrow> (nat carrier, ('l, 'm, 'n) world) op" where
  "extract_headers look w =
     (case fill_carrier (correlation_element_max_number (w_cfg w)) look carrier_items (Carrier_empty []) of
        (err, c) \<Rightarrow>
          (let w' = w\<lparr>w_corrs := w_corrs w @ [c_correlation c]\<rparr> in
           case err of Some x \<Rightarrow> (Inl x, w') | None \<Rightarrow> (Inr (recarry (length (w_corrs w)) c), w')))"

section \<open>Text of a limited length\<close>

text \<open>\<open>s[0:n]\<close>, by code points; a negative bound counts from the end.\<close>

definition py_prefix :: "int \<Rightarrow> string \<Rightarrow> string" where
  "py_prefix n s =
     (let cs = utf8_chunks s in concat (take (if 0 \<le> n then nat n else length cs - nat (- n)) cs))"

text \<open>\<open>f'{s[0:n]}...' if len(s) > n else s\<close>.\<close>

definition shortened :: "int \<Rightarrow> string \<Rightarrow> string" where
  "shortened n s = (if int (py_len s) > n then py_prefix n s @ ''...'' else s)"

text \<open>A text that does not begin in the middle of a character.\<close>

definition starts_char :: "string \<Rightarrow> bool" where
  "starts_char s = (\<forall>ch cs. s = ch # cs \<longrightarrow> \<not> is_cont ch)"

lemma chunk_lengths: "starts_char s \<Longrightarrow> \<forall>x \<in> set (utf8_chunks s). py_len x = 1"
proof (induction s rule: utf8_chunks.induct)
  case (2 c s)
  have "filter (\<lambda>c. \<not> is_cont c) (takeWhile is_cont s) = []" by (auto simp: filter_empty_conv dest: set_takeWhileD)
  moreover have "starts_char (dropWhile is_cont s)"
    by (auto simp: starts_char_def dropWhile_eq_Cons_conv)
  ultimately show ?case using 2 by (simp add: py_len_def starts_char_def)
qed simp

lemma concat_chunks [simp]: "concat (utf8_chunks s) = s"
  by (induction s rule: utf8_chunks.induct) simp_all

lemma py_len_concat: "\<forall>x \<in> set xs. py_len x = 1 \<Longrightarrow> py_len (concat xs) = length xs"
  by (induction xs) auto

lemma py_prefix_len:
  assumes "starts_char s"
  shows "int (py_len (py_prefix n s)) = (if 0 \<le> n then min n (int (py_len s)) else max 0 (int (py_len s) + n))"
proof -
  have "py_len s = length (utf8_chunks s)" using py_len_concat [OF chunk_lengths [OF assms]] by simp
  moreover have "py_len (concat (take k (utf8_chunks s))) = min (length (utf8_chunks s)) k" for k
    using chunk_lengths [OF assms] by (subst py_len_concat) (auto dest: in_set_takeD)
  ultimately show ?thesis by (auto simp: py_prefix_def Let_def)
qed

lemma shortened_len: "starts_char s \<Longrightarrow> 0 \<le> n \<Longrightarrow> int (py_len (shortened n s)) \<le> n + 3"
  using py_prefix_len [of s n] by (auto simp: shortened_def py_len_def is_cont_def)

section \<open>The contract\<close>

definition span_fine :: "span \<Rightarrow> bool" where
  "span_fine s = (tags_ok s \<and> sp_kind s = class_kind (sp_class s))"

definition live :: "nat \<Rightarrow> ('l, 'm, 'n) world \<Rightarrow> bool" where
  "live t w = (\<forall>j \<in> set (w_stacks w t). 0 < sp_depth (sp_of w j))"

text \<open>A store in which the spans on the thread's stack are active.\<close>

definition calm :: "nat \<Rightarrow> ('l, 'm, 'n) world \<Rightarrow> bool" where
  "calm t w = (wok 0 0 0 w \<and> agent_ok (w_agent w) \<and> (\<forall>s \<in> set (w_spans w). span_fine s) \<and> live t w)"

definition same_span :: "span \<Rightarrow> span \<Rightarrow> bool" where
  "same_span s s' =
     (sp_depth s' = sp_depth s \<and> sp_class s' = sp_class s \<and> sp_context s' = sp_context s
      \<and> (sp_class s = ExitSpan \<longrightarrow> (sp_op s \<noteq> None \<longrightarrow> sp_op s' \<noteq> None) \<and> (sp_peer s \<noteq> None \<longrightarrow> sp_peer s' \<noteq> None)))"

text \<open>What a call leaves as it was: the thread's stack, and the nesting, class and context of every span.\<close>

definition frame :: "nat \<Rightarrow> ('l, 'm, 'n) world \<Rightarrow> ('l, 'm, 'n) world \<Rightarrow> bool" where
  "frame t w w' =
     (w_stacks w' t = w_stacks w t
      \<and> length (w_spans w) \<le> length (w_spans w') \<and> length (w_ctxs w) \<le> length (w_ctxs w')
      \<and> length (w_corrs w) \<le> length (w_corrs w')
      \<and> (\<forall>j < length (w_spans w). same_span (sp_of w j) (sp_of w' j))
      \<and> (\<forall>i < length (w_ctxs w). cx_noop (cx_of w' i) = cx_noop (cx_of w i)))"

definition lib_ok :: "nat \<Rightarrow> ('x \<Rightarrow> ('r, ('l, 'm, 'n) world) call) \<Rightarrow> bool" where
  "lib_ok t lib = (\<forall>x w. calm t w \<longrightarrow> calm t (snd (lib x w)) \<and> frame t w (snd (lib x w)))"

lemma frame_refl [simp]: "frame t w w"
  by (simp add: frame_def same_span_def)

lemma frame_trans: "frame t w w1 \<Longrightarrow> frame t w1 w2 \<Longrightarrow> frame t w w2"
  by (fastforce simp: frame_def same_span_def)

text \<open>
  An operation that keeps the contract: \<open>may\<close> tells whether it may raise; a result satisfies \<open>Q\<close>.
\<close>

definition fits :: "bool \<Rightarrow> ('a \<Rightarrow> bool) \<Rightarrow> 'a res \<Rightarrow> bool" where
  "fits may Q r = (case r of Inl _ \<Rightarrow> may | Inr x \<Rightarrow> Q x)"

lemma fits_simps [simp]: "fits may Q (Inl err) = may" "fits may Q (Inr x) = Q x"
  by (simp_all add: fits_def)

lemma fits_mono: "fits may' Q' r \<Longrightarrow> (may' \<Longrightarrow> may) \<Longrightarrow> (\<And>x. Q' x \<Longrightarrow> Q x) \<Longrightarrow> fits may Q r"
  by (cases r) auto

definition keeps ::
  "nat \<Rightarrow> bool \<Rightarrow> (('l, 'm, 'n) world \<Rightarrow> bool) \<Rightarrow> ('a, ('l, 'm, 'n) world) op \<Rightarrow> ('a \<Rightarrow> ('l, 'm, 'n) world \<Rightarrow> bool) \<Rightarrow> bool" where
  "keeps t may P f Q =
     (\<forall>w. calm t w \<and> P w \<longrightarrow> calm t (snd (f w)) \<and> frame t w (snd (f w)) \<and> fits may (\<lambda>x. Q x (snd (f w))) (fst (f w)))"

definition stable :: "nat \<Rightarrow> (('l, 'm, 'n) world \<Rightarrow> bool) \<Rightarrow> bool" where
  "stable t P = (\<forall>w w'. calm t w \<longrightarrow> frame t w w' \<longrightarrow> P w \<longrightarrow> P w')"

lemma keepsI:
  assumes "\<And>w. calm t w \<Longrightarrow> P w \<Longrightarrow> \<exists>r w'. f w = (r, w') \<and> calm t w' \<and> frame t w w' \<and> fits may (\<lambda>x. Q x w') r"
  shows "keeps t may P f Q"
  using assms unfolding keeps_def by fastforce

lemma keepsD:
  assumes "keeps t may P f Q" and "calm t w" and "P w"
  shows "\<exists>r w'. f w = (r, w') \<and> calm t w' \<and> frame t w w' \<and> fits may (\<lambda>x. Q x w') r"
  using assms by (cases "f w") (auto simp: keeps_def dest!: spec [where x = w])

lemma keeps_seq:
  assumes f: "keeps t may P f R" and g: "\<And>x. keeps t may (R x) (g x) Q"
  shows "keeps t may P (seq f g) Q"
proof (rule keepsI)
  fix w
  assume w: "calm t w" "P w"
  from keepsD [OF f this] obtain r w1 where 1: "f w = (r, w1)" "calm t w1" "frame t w w1" "fits may (\<lambda>x. R x w1) r"
    by blast
  show "\<exists>r w'. seq f g w = (r, w') \<and> calm t w' \<and> frame t w w' \<and> fits may (\<lambda>x. Q x w') r"
  proof (cases r)
    case (Inl err)
    with 1 show ?thesis by (simp add: seq_def)
  next
    case (Inr x)
    with 1 have "R x w1" by simp
    from keepsD [OF g 1(2) this] obtain r' w2 where "g x w1 = (r', w2)" "calm t w2" "frame t w1 w2"
      "fits may (\<lambda>x. Q x w2) r'" by blast
    with 1 Inr show ?thesis by (auto simp: seq_def intro: frame_trans)
  qed
qed

lemma keeps_weaken:
  assumes "keeps t may' P' f Q'" and "\<And>w. calm t w \<Longrightarrow> P w \<Longrightarrow> P' w" and "\<And>x w. calm t w \<Longrightarrow> Q' x w \<Longrightarrow> Q x w" and "may' \<Longrightarrow> may"
  shows "keeps t may P f Q"
proof (rule keepsI)
  fix w
  assume "calm t w" "P w"
  from keepsD [OF assms(1) this(1) assms(2) [OF this]] obtain r w' where
    1: "f w = (r, w')" "calm t w'" "frame t w w'" "fits may' (\<lambda>x. Q' x w') r" by blast
  have "fits may (\<lambda>x. Q x w') r" by (rule fits_mono [OF 1(4)]) (use assms(3,4) 1(2) in auto)
  with 1 show "\<exists>r w'. f w = (r, w') \<and> calm t w' \<and> frame t w w' \<and> fits may (\<lambda>x. Q x w') r" by blast
qed

lemma keeps_stable:
  assumes "keeps t may P f Q" and "stable t R"
  shows "keeps t may (\<lambda>w. P w \<and> R w) f (\<lambda>x w. Q x w \<and> R w)"
proof (rule keepsI)
  fix w
  assume w: "calm t w" "P w \<and> R w"
  from keepsD [OF assms(1) w(1)] w(2) obtain r w' where
    1: "f w = (r, w')" "calm t w'" "frame t w w'" "fits may (\<lambda>x. Q x w') r" by blast
  with w assms(2) have "R w'" by (auto simp: stable_def)
  with 1 show "\<exists>r w'. f w = (r, w') \<and> calm t w' \<and> frame t w w' \<and> fits may (\<lambda>x. Q x w' \<and> R w') r"
    using fits_mono [OF 1(4), of may "\<lambda>x. Q x w' \<and> R w'"] by blast
qed

section \<open>Primitive operations\<close>

text \<open>Predicates that survive everything a call may do.\<close>

definition openable :: "nat \<Rightarrow> nat \<Rightarrow> ('l, 'm, 'n) world \<Rightarrow> bool" where
  "openable t sp w =
     (sp < length (w_spans w) \<and> (0 < sp_depth (sp_of w sp) \<or> sp_depth (sp_of w sp) = 0 \<and> sp \<notin> set (w_stacks w t)))"

definition injectable :: "nat \<Rightarrow> ('l, 'm, 'n) world \<Rightarrow> bool" where
  "injectable sp w =
     (sp < length (w_spans w) \<and> (sp_class (sp_of w sp) = NoopSpan
      \<or> sp_class (sp_of w sp) = ExitSpan \<and> sp_op (sp_of w sp) \<noteq> None \<and> sp_peer (sp_of w sp) \<noteq> None))"

lemma stable_openable: "stable t (openable t sp)"
  by (auto simp: stable_def openable_def frame_def same_span_def)

lemma stable_injectable: "stable t (injectable sp)"
  by (auto simp: stable_def injectable_def frame_def same_span_def)

lemma stable_const: "stable t (\<lambda>_. b)"
  by (simp add: stable_def)

definition ext :: "('l, 'm, 'n) world \<Rightarrow> ('l, 'm, 'n) world \<Rightarrow> bool" where
  "ext w w' =
     (w_stacks w' = w_stacks w \<and> (agent_ok (w_agent w) \<longrightarrow> agent_ok (w_agent w'))
      \<and> length (w_spans w) \<le> length (w_spans w') \<and> length (w_ctxs w) \<le> length (w_ctxs w')
      \<and> length (w_corrs w) \<le> length (w_corrs w')
      \<and> (\<forall>j < length (w_spans w). same_span (sp_of w j) (sp_of w' j))
      \<and> (\<forall>i < length (w_ctxs w). cx_noop (cx_of w' i) = cx_noop (cx_of w i))
      \<and> ((\<forall>s \<in> set (w_spans w). span_fine s) \<longrightarrow> (\<forall>s \<in> set (w_spans w'). span_fine s)))"

lemma ext_refl [simp]: "ext w w"
  by (simp add: ext_def same_span_def)

lemma ext_trans: "ext w w1 \<Longrightarrow> ext w1 w2 \<Longrightarrow> ext w w2"
  by (fastforce simp: ext_def same_span_def)

text \<open>The invariant of the store is kept by every operation; \<open>ext\<close> adds the rest.\<close>

lemma calm_ext:
  assumes "calm t w" and "ext w w'" and "wok 0 0 0 w'"
  shows "calm t w'" and "frame t w w'"
proof -
  have "j < length (w_spans w)" if "j \<in> set (w_stacks w t)" for j
    using that assms(1) by (auto simp: calm_def intro: stack_in_range)
  with assms show "calm t w'" by (auto simp: calm_def ext_def live_def same_span_def)
  from assms(2) show "frame t w w'" by (simp add: frame_def ext_def)
qed

lemma calm_stack:
  assumes "calm t w" and "j \<in> set (w_stacks w t)"
  shows "j < length (w_spans w)" and "0 < sp_depth (sp_of w j)" and "span_fine (sp_of w j)" and "openable t j w"
proof -
  show "j < length (w_spans w)" using assms by (auto simp: calm_def intro: stack_in_range)
  then show "0 < sp_depth (sp_of w j)" "span_fine (sp_of w j)" "openable t j w"
    using assms by (auto simp: calm_def live_def openable_def)
qed

definition steady :: "('a, ('l, 'm, 'n) world) op \<Rightarrow> bool" where
  "steady f = (\<forall>w. ext w (snd (f w)))"

lemma steadyD: "steady f \<Longrightarrow> ext w (snd (f w))"
  by (simp add: steady_def)

lemma steady_seq: "steady f \<Longrightarrow> (\<And>x. steady (g x)) \<Longrightarrow> steady (seq f g)"
  by (auto simp: steady_def seq_def split: prod.splits sum.splits) (metis ext_trans snd_conv)+

lemma steady_state: "(\<And>w. snd (f w) = w) \<Longrightarrow> steady f"
  by (simp add: steady_def)

lemma ext_upd_span:
  assumes "\<And>s. span_fine s \<Longrightarrow> span_fine (f s)" and "\<And>s. same_span s (f s)"
  shows "ext w (upd_span j f w)"
proof -
  have "sp_of (upd_span j f w) k = (if k = j \<and> k < length (w_spans w) then f (sp_of w k) else sp_of w k)" for k
    by (auto simp: upd_span_def nth_list_update list_update_beyond)
  moreover have "same_span s s" for s by (simp add: same_span_def)
  moreover have "\<forall>s \<in> set (w_spans (upd_span j f w)). span_fine s" if "\<forall>s \<in> set (w_spans w). span_fine s"
    using that assms(1) set_update_subset_insert [of "w_spans w" j "f (sp_of w j)"]
    by (cases "j < length (w_spans w)") (auto simp: upd_span_def list_update_beyond)
  ultimately show ?thesis using assms(2) by (simp add: ext_def)
qed

lemma ext_upd_ctx: "(\<And>x. cx_noop (f x) = cx_noop x) \<Longrightarrow> ext w (upd_ctx i f w)"
  by (cases "i < length (w_ctxs w)") (auto simp: ext_def upd_ctx_def nth_list_update list_update_beyond same_span_def)

lemma ext_new_span: "span_fine s \<Longrightarrow> ext w (w\<lparr>w_spans := w_spans w @ [s]\<rparr>)"
  by (auto simp: ext_def nth_append same_span_def)

lemma span_fine_init: "span_fine (Span_init cls ctx sid pid op peer cmp)"
  by (simp add: span_fine_def Span_init_def tags_ok_def)

lemma span_fine_fields [simp]:
  "span_fine (s\<lparr>sp_refs := r\<rparr>) = span_fine s" "span_fine (s\<lparr>sp_op := x\<rparr>) = span_fine s"
  "span_fine (s\<lparr>sp_peer := x\<rparr>) = span_fine s" "span_fine (s\<lparr>sp_component := cm\<rparr>) = span_fine s"
  "span_fine (s\<lparr>sp_inherit := cm\<rparr>) = span_fine s" "span_fine (s\<lparr>sp_layer := l\<rparr>) = span_fine s"
  "span_fine (s\<lparr>sp_logs := ls\<rparr>) = span_fine s" "span_fine (s\<lparr>sp_error_occurred := b\<rparr>) = span_fine s"
  "span_fine (s\<lparr>sp_depth := d\<rparr>) = span_fine s" "span_fine (s\<lparr>sp_start_time := st\<rparr>) = span_fine s"
  "span_fine (s\<lparr>sp_end_time := st\<rparr>) = span_fine s" "span_fine (s\<lparr>sp_max_depth := d\<rparr>) = span_fine s"
  by (simp_all add: span_fine_def tags_ok_def)

section \<open>Creating spans keeps the store\<close>

lemma agent_ok_sampling [simp]: "agent_ok (a\<lparr>a_sampling := s\<rparr>) = agent_ok a"
  by (simp add: agent_ok_def)

lemma steady_span_context: "steady (SpanContext_new e)"
  by (auto simp: steady_def SpanContext_new_def fresh_uuid_def seq_def ext_def nth_append same_span_def)

lemma steady_noop_context: "steady NoopContext_new"
  by (auto simp: steady_def NoopContext_new_def ext_def nth_append same_span_def)

lemma get_context_cases:
  "get_context e w = (Inr (sp_context (sp_of w (last (w_stacks w (te_tid e))))), w)
   \<or> (\<exists>s. get_context e w = SpanContext_new e (w\<lparr>w_agent := (w_agent w)\<lparr>a_sampling := s\<rparr>\<rparr>))
   \<or> (\<exists>s. get_context e w = NoopContext_new (w\<lparr>w_agent := (w_agent w)\<lparr>a_sampling := s\<rparr>\<rparr>))"
proof (cases "a_sampling (w_agent w)")
  case None
  then have "w\<lparr>w_agent := (w_agent w)\<lparr>a_sampling := None\<rparr>\<rparr> = w" by simp
  with None have "w_stacks w (te_tid e) = [] \<Longrightarrow> get_context e w = SpanContext_new e (w\<lparr>w_agent := (w_agent w)\<lparr>a_sampling := None\<rparr>\<rparr>)"
    by (simp only: get_context_def Let_def) simp
  then show ?thesis by (cases "w_stacks w (te_tid e) = []") (blast, simp add: get_context_def Let_def)
next
  case (Some s)
  obtain b s' where "try_sampling (sample_n_per_3_secs (w_cfg w)) s = (b, s')" by fastforce
  with Some show ?thesis by (simp add: get_context_def Let_def) metis
qed

lemma context_total: "\<exists>i w1. SpanContext_new e w = (Inr i, w1)" "\<exists>i w1. NoopContext_new w' = (Inr i, w1)"
  by (simp_all add: SpanContext_new_def NoopContext_new_def fresh_uuid_def seq_def)

lemma get_context_total: "\<exists>i w1. get_context e w = (Inr i, w1)"
  using get_context_cases [of e w] context_total by metis

lemma steady_get_context: "steady (get_context e)"
  unfolding steady_def
proof
  fix w :: "('l, 'm, 'n) world"
  have smp: "ext w (w\<lparr>w_agent := (w_agent w)\<lparr>a_sampling := s\<rparr>\<rparr>)" for s
    by (simp add: ext_def same_span_def)
  from get_context_cases [of e w] show "ext w (snd (get_context e w))"
    using ext_trans [OF smp steadyD [OF steady_span_context]] ext_trans [OF smp steadyD [OF steady_noop_context]] by auto
qed

lemma steady_new_span_obj: "span_fine s \<Longrightarrow> steady (new_span_obj s)"
  by (simp add: steady_def new_span_obj_def ext_new_span)

lemma steady_noop: "steady (NoopSpan_new ctx)"
  unfolding NoopSpan_new_def NoopSpan_init_def by (intro steady_new_span_obj span_fine_init)

lemma steady_next_sid: "steady (next_sid i)"
  by (simp add: steady_def next_sid_def ext_upd_ctx split: prod.split)

lemma steady_when: "steady f \<Longrightarrow> steady g \<Longrightarrow> steady (if b then f else g)"
  by simp

lemma steady_branch: "steady f \<Longrightarrow> steady g \<Longrightarrow> steady (\<lambda>w. if c w then f w else g w)"
  by (simp add: steady_def)

lemma steady_ret: "steady (ret x)" "steady (gets f)" "steady (lift_res r)" "steady (raise_err err)" "steady (peek e b)"
  by (simp_all add: steady_def peek_def Let_def)

lemma steady_ignore_check: "steady (ignore_check e op carrier)"
  unfolding ignore_check_def
  by (intro steady_seq steady_when steady_noop_context steady_noop steady_ret steady_state)
    (auto split: sum.split bool.split option.split)

lemma steady_upd_ctx: "(\<And>x. cx_noop (f x) = cx_noop x) \<Longrightarrow> steady (modify (upd_ctx i f))"
  by (simp add: steady_def ext_upd_ctx)

lemma steady_upd_span: "(\<And>s. span_fine s \<Longrightarrow> span_fine (f s)) \<Longrightarrow> (\<And>s. same_span s (f s)) \<Longrightarrow> steady (modify (upd_span j f))"
  by (simp add: steady_def ext_upd_span)

lemma steady_make_id: "steady (make_id e raw)"
  by (auto simp: steady_def make_id_def fresh_uuid_def seq_def ext_def same_span_def)

lemma steady_relate: "steady (relate_ctx i tid)"
  by (simp add: steady_def relate_ctx_def ext_upd_ctx split: sum.split)

lemma steady_Span_extract: "steady (Span_extract e sp carrier)"
  unfolding Span_extract_def
  by (cases carrier) (auto intro!: steady_seq steady_ret steady_make_id steady_relate steady_upd_ctx steady_upd_span simp: same_span_def)

lemma steady_carrier_of: "steady (carrier_of sp)"
  unfolding carrier_of_def
  by (intro steady_seq steady_ret) (simp add: steady_def first_related_def split: list.split)

lemma steady_new_span: "steady (new_span e self parent cls op peer cmp)"
  unfolding new_span_def
  by (intro steady_seq steady_when steady_ret steady_span_context steady_next_sid steady_new_span_obj span_fine_init
      steady_carrier_of steady_Span_extract)

lemma steady_unless_ignored:
  "steady f \<Longrightarrow> steady (seq (ignore_check e op carrier) (\<lambda>ign. case ign of Some sp \<Rightarrow> ret sp | None \<Rightarrow> f))"
  by (intro steady_seq steady_ignore_check) (simp add: steady_ret split: option.split)

lemma steady_new_exit_span: "steady (new_exit_span e self op peer cmp inherit)"
  unfolding new_exit_span_def [abs_def]
  by (intro steady_branch steady_unless_ignored steady_noop)
    (cases inherit; auto intro!: steady_seq steady_ret steady_new_span steady_upd_span simp: same_span_def)

lemma steady_new_local_span: "steady (new_local_span e self op)"
  unfolding new_local_span_def [abs_def]
  by (intro steady_branch steady_unless_ignored steady_noop steady_seq steady_ret steady_new_span)

lemma steady_profiling: "steady (add_profiling e self op)" "steady (ctx_profiling_recheck e self' sp op')"
proof -
  have "ext w (upd_ctx i (\<lambda>x. x\<lparr>cx_profile_status := s\<rparr>) (w\<lparr>w_profile := p\<rparr>))" for w :: "('l, 'm, 'n) world" and i s p
    using ext_upd_ctx [of "\<lambda>x. x\<lparr>cx_profile_status := s\<rparr>" "w\<lparr>w_profile := p\<rparr>" i] by (simp add: ext_def)
  moreover have "ext w (w\<lparr>w_profile := p\<rparr>)" for w :: "('l, 'm, 'n) world" and p by (simp add: ext_def same_span_def)
  ultimately show "steady (add_profiling e self op :: (unit, ('l, 'm, 'n) world) op)"
    "steady (ctx_profiling_recheck e self' sp op' :: (unit, ('l, 'm, 'n) world) op)"
    by (auto simp: steady_def add_profiling_def ctx_profiling_recheck_def split: option.split sum.split prod.split)
qed

lemma steady_span_extract: "steady (span_extract e sp carrier)"
  by (simp add: steady_def span_extract_def steadyD [OF steady_Span_extract])

lemma steady_new_entry_span: "steady (new_entry_span e self op carrier inherit)"
  unfolding new_entry_span_def [abs_def]
  by (intro steady_branch steady_unless_ignored steady_noop)
    (cases carrier; auto intro!: steady_seq steady_ret steady_new_span steady_upd_span steady_profiling steady_span_extract
       simp: same_span_def)

section \<open>Which span is handed out\<close>

definition fresh_span :: "nat \<Rightarrow> ('l, 'm, 'n) world \<Rightarrow> ('l, 'm, 'n) world \<Rightarrow> bool" where
  "fresh_span sp w w' = (length (w_spans w) \<le> sp \<and> sp < length (w_spans w') \<and> sp_depth (sp_of w' sp) = 0)"

lemma fresh_openable:
  assumes "calm t w" and "ext w w'" and "fresh_span sp w w'"
  shows "openable t sp w'"
  using assms by (auto simp: calm_def ext_def fresh_span_def openable_def dest: stack_in_range)

lemma noop_fresh:
  "\<exists>w'. NoopSpan_new ctx w = (Inr (length (w_spans w)), w') \<and> sp_class (sp_of w' (length (w_spans w))) = NoopSpan
     \<and> fresh_span (length (w_spans w)) w w'"
  by (simp add: NoopSpan_new_def new_span_obj_def NoopSpan_init_def Span_init_def fresh_span_def)

lemma ignore_check_cases:
  assumes "agent_ok (w_agent w)"
  shows "ignore_check e op None w = (Inr None, w) \<or>
     (\<exists>sp w'. ignore_check e op None w = (Inr (Some sp), w') \<and> sp_class (sp_of w' sp) = NoopSpan \<and> fresh_span sp w w')"
proof -
  obtain full where "is_segment_queue_full (w_agent w) = Inr full" using agent_queue_total(1) [OF assms] by blast
  then show ?thesis
    by (cases full) (auto simp: ignore_check_def seq_def NoopContext_new_def NoopSpan_new_def new_span_obj_def NoopSpan_init_def
        Span_init_def fresh_span_def split: if_split)
qed

lemma new_span_fresh:
  assumes "\<forall>p. parent = Some p \<longrightarrow> sp_depth (sp_of w p) \<noteq> 0"
  shows "\<exists>sp w'. new_span e self parent cls op peer cmp w = (Inr sp, w') \<and> fresh_span sp w w' \<and> sp_class (sp_of w' sp) = cls
     \<and> sp_op (sp_of w' sp) = Some op \<and> sp_peer (sp_of w' sp) = peer
     \<and> sp_component (sp_of w' sp) = (case cmp of None \<Rightarrow> Component_Unknown | Some c \<Rightarrow> c)"
  using assms by (cases parent) (auto simp: new_span_def seq_def next_sid_def new_span_obj_def Span_init_def fresh_span_def upd_ctx_def
      split: prod.split)


text \<open>An exit span that is not a no-op describes the call it was opened for, new or reused.\<close>

definition describes :: "nat \<Rightarrow> string \<Rightarrow> string \<Rightarrow> component \<Rightarrow> ('l, 'm, 'n) world \<Rightarrow> bool" where
  "describes sp op peer cmp w =
     (sp_class (sp_of w sp) = NoopSpan \<or> sp_op (sp_of w sp) = Some op \<and> sp_peer (sp_of w sp) = Some peer
      \<and> sp_component (sp_of w sp) = cmp)"

lemma new_exit_span_result:
  assumes calm: "calm t w" and tid: "te_tid e = t"
  shows "\<exists>sp w'. new_exit_span e i op peer (Some cmp) None w = (Inr sp, w')
     \<and> (fresh_span sp w w' \<or> sp \<in> set (w_stacks w t)) \<and> injectable sp w' \<and> describes sp op peer cmp w'"
proof (cases "cx_noop (cx_of w i)")
  case True
  obtain w' where "NoopSpan_new i w = (Inr (length (w_spans w)), w')" "sp_class (sp_of w' (length (w_spans w))) = NoopSpan"
    "fresh_span (length (w_spans w)) w w'" using noop_fresh by blast
  with True show ?thesis by (auto simp: new_exit_span_def injectable_def fresh_span_def describes_def)
next
  case real: False
  have agent: "agent_ok (w_agent w)" using calm by (simp add: calm_def)
  from ignore_check_cases [OF agent, of e op] show ?thesis
  proof (elim disjE exE conjE)
    fix sp w'
    assume "ignore_check e op None w = (Inr (Some sp), w')" "sp_class (sp_of w' sp) = NoopSpan" "fresh_span sp w w'"
    with real show ?thesis by (auto simp: new_exit_span_def seq_def injectable_def fresh_span_def describes_def)
  next
    assume ign: "ignore_check e op None w = (Inr None, w)"
    let ?ss = "w_stacks w t"
    have pk: "peek e False w = (Inr (if ?ss = [] then None else Some (last ?ss)), w)" using tid by (simp add: peek_def)
    let ?p = "if ?ss = [] then None else Some (last ?ss)"
    have act: "\<forall>p. ?p = Some p \<longrightarrow> p \<in> set ?ss \<and> p < length (w_spans w) \<and> sp_depth (sp_of w p) \<noteq> 0 \<and> span_fine (sp_of w p)"
      using calm_stack [OF calm last_in_set] by (auto split: if_splits)
    show ?thesis
    proof (cases "\<exists>p. ?p = Some p \<and> is_exit (sp_kind (sp_of w p)) \<and> Some cmp = Some (sp_inherit (sp_of w p))")
      case True
      then obtain p where p: "?p = Some p" "is_exit (sp_kind (sp_of w p))" "cmp = sp_inherit (sp_of w p)" by blast
      with act have "p \<in> set ?ss" "p < length (w_spans w)" "class_kind (sp_class (sp_of w p)) = Exit"
        by (auto simp: span_fine_def is_exit_def)
      then have "p \<in> set ?ss" "p < length (w_spans w)" "sp_class (sp_of w p) = ExitSpan"
        by (cases "sp_class (sp_of w p)"; simp)+
      with p real ign pk show ?thesis
        by (simp add: new_exit_span_def seq_def injectable_def describes_def)
    next
      case False
      obtain sp w' where new: "new_span e i ?p ExitSpan op (Some peer) (Some cmp) w = (Inr sp, w')" "fresh_span sp w w'"
        "sp_class (sp_of w' sp) = ExitSpan" "sp_op (sp_of w' sp) = Some op" "sp_peer (sp_of w' sp) = Some peer"
        "sp_component (sp_of w' sp) = cmp"
        using new_span_fresh [of ?p w e i ExitSpan op "Some peer" "Some cmp"] act unfolding option.case by blast
      have "(case ?p of None \<Rightarrow> False | Some p \<Rightarrow> is_exit (sp_kind (sp_of w p)) \<and> Some cmp = Some (sp_inherit (sp_of w p))) = False"
        using False by (auto split: option.splits)
      with real ign pk new show ?thesis
        by (simp add: new_exit_span_def seq_def injectable_def fresh_span_def describes_def)
    qed
  qed
qed

lemma exit_span_ok:
  assumes calm: "calm t w" and thr: "same_thread t ce"
  shows "\<exists>sp w'. exit_span ce op peer cmp w = (Inr sp, w') \<and> calm t w' \<and> frame t w w' \<and> openable t sp w' \<and> injectable sp w'
     \<and> describes sp op peer cmp w'"
proof -
  let ?e = "ce_start ce"
  have tid: "te_tid ?e = t" using thr by (simp add: same_thread_def)
  have wok: "wok 0 0 0 w" using calm by (simp add: calm_def)
  obtain i w1 where ctx: "get_context ?e w = (Inr i, w1)" using get_context_total by blast
  have e1: "ext w w1" using steadyD [OF steady_get_context, of w ?e] ctx by simp
  have w1: "wok 0 0 0 w1" "top_ok ?e i w1" using triple_apply [OF get_context_ok wok ctx] by simp_all
  note c1 = calm_ext [OF calm e1 w1(1)]
  obtain r w2 where new: "new_exit_span ?e i op peer (Some cmp) None w1 = (r, w2)" by fastforce
  have e2: "ext w1 w2" using steadyD [OF steady_new_exit_span, of w1 ?e i op peer "Some cmp" None] new by simp
  have wk: "wok 0 0 0 w2"
    using triple_then [OF get_context_ok new_exit_span_ok wok ctx new] by simp
  note c2 = calm_ext [OF c1(1) e2 wk]
  obtain sp where sp: "r = Inr sp" "fresh_span sp w1 w2 \<or> sp \<in> set (w_stacks w1 t)" "injectable sp w2"
    "describes sp op peer cmp w2" using new_exit_span_result [OF c1(1) tid, of i op peer cmp] new by auto
  have "openable t sp w2"
    using sp(2) fresh_openable [OF c1(1) e2] calm_stack(4) [OF c2(1)] e2 by (auto simp: ext_def)
  with sp ctx new c1 c2 show ?thesis by (auto simp: exit_span_def seq_def intro: frame_trans)
qed


section \<open>Entering and leaving a span\<close>

lemma start_active:
  assumes "0 < sp_depth (sp_of w sp)" and "sp < length (w_spans w)"
  shows "Span_start e sp w = upd_span sp (\<lambda>s. s\<lparr>sp_depth := sp_depth s + 1\<rparr>) w"
  using assms by (simp add: Span_start_def Let_def)

text \<open>One span's nesting depth and the thread's stack change, everything else is as \<open>frame\<close> says.\<close>

definition moved :: "nat \<Rightarrow> nat \<Rightarrow> int \<Rightarrow> nat list \<Rightarrow> ('l, 'm, 'n) world \<Rightarrow> ('l, 'm, 'n) world \<Rightarrow> bool" where
  "moved t sp d ss w w' =
     (w_stacks w' t = ss \<and> (agent_ok (w_agent w) \<longrightarrow> agent_ok (w_agent w'))
      \<and> length (w_spans w') = length (w_spans w) \<and> length (w_ctxs w') = length (w_ctxs w) \<and> length (w_corrs w') = length (w_corrs w)
      \<and> (\<forall>j < length (w_spans w). same_span (if j = sp then (sp_of w j)\<lparr>sp_depth := d\<rparr> else sp_of w j) (sp_of w' j))
      \<and> (\<forall>i < length (w_ctxs w). cx_noop (cx_of w' i) = cx_noop (cx_of w i))
      \<and> ((\<forall>s \<in> set (w_spans w). span_fine s) \<longrightarrow> (\<forall>s \<in> set (w_spans w'). span_fine s)))"

lemma fine_upd:
  "(\<forall>s \<in> set (w_spans w). span_fine s) \<Longrightarrow> (\<And>s. span_fine s \<Longrightarrow> span_fine (f s)) \<Longrightarrow> \<forall>s \<in> set (w_spans (upd_span j f w)). span_fine s"
  using ext_upd_span [of f w j] set_update_subset_insert [of "w_spans w" j "f (sp_of w j)"]
  by (cases "j < length (w_spans w)") (auto simp: upd_span_def list_update_beyond)

lemma moved_upd:
  assumes "sp < length (w_spans w)" and "\<And>s. span_fine s \<Longrightarrow> span_fine (f s)" and "same_span ((sp_of w sp)\<lparr>sp_depth := d\<rparr>) (f (sp_of w sp))"
  shows "moved t sp d (w_stacks w t) w (upd_span sp f w)"
proof -
  have "same_span s s" for s by (simp add: same_span_def)
  then have s: "same_span (if j = sp then (sp_of w j)\<lparr>sp_depth := d\<rparr> else sp_of w j) (sp_of (upd_span sp f w) j)" for j
    using assms(1,3) by simp
  show ?thesis unfolding moved_def
    by (intro conjI allI impI s fine_upd assms(2)) simp_all
qed

lemma moved_then_ctx:
  assumes "moved t sp d ss w w'" and "\<And>x. cx_noop (f x) = cx_noop x"
  shows "moved t sp d ss w (upd_ctx i f w')"
  using assms by (cases "i < length (w_ctxs w')") (auto simp: moved_def upd_ctx_def nth_list_update list_update_beyond)

lemma moved_then_stack: "moved t sp d ss w w' \<Longrightarrow> moved t sp d ss' w (set_stack t ss' w')"
  by (simp add: moved_def set_stack_def)

lemma moved_then_span:
  assumes "moved t sp d ss w w'" and "\<And>s. span_fine s \<Longrightarrow> span_fine (f s)" and "\<And>s. same_span s (f s)"
  shows "moved t sp d ss w (upd_span j f w')"
proof -
  have trans: "same_span a b \<Longrightarrow> same_span b c \<Longrightarrow> same_span a c" for a b c by (auto simp: same_span_def)
  from ext_upd_span [OF assms(2,3), of w' j] have e: "ext w' (upd_span j f w')" by simp
  have l: "length (w_spans (upd_span j f w')) = length (w_spans w')" by simp
  show ?thesis
    unfolding moved_def
  proof (intro conjI allI impI)
    fix k
    assume k: "k < length (w_spans w)"
    with assms(1) e have 2: "same_span (sp_of w' k) (sp_of (upd_span j f w') k)" by (simp add: moved_def ext_def)
    have 1: "same_span (if k = sp then (sp_of w k)\<lparr>sp_depth := d\<rparr> else sp_of w k) (sp_of w' k)"
      using assms(1) k unfolding moved_def by blast
    show "same_span (if k = sp then (sp_of w k)\<lparr>sp_depth := d\<rparr> else sp_of w k) (sp_of (upd_span j f w') k)"
      using trans [OF 1 2] .
  qed (use assms(1) e in \<open>simp_all add: moved_def ext_def\<close>)
qed

lemma moved_calm:
  assumes w: "calm t w" and m: "moved t sp d ss w w'" and ok: "wok 0 0 0 w'" and ss: "set ss \<subseteq> insert sp (set (w_stacks w t))"
    and d: "sp \<in> set ss \<longrightarrow> 0 < d"
  shows "calm t w'"
proof -
  have "0 < sp_depth (sp_of w' j)" if "j \<in> set ss" for j
  proof -
    have "j < length (w_spans w)"
      using that ok m by (auto simp: moved_def dest: stack_in_range)
    with that ss d m calm_stack(2) [OF w, of j] show ?thesis by (cases "j = sp") (auto simp: moved_def same_span_def)
  qed
  with w m ok show ?thesis by (auto simp: calm_def live_def moved_def)
qed

lemma span_start_moved:
  assumes w: "calm t w" and tid: "te_tid e = t" and op: "openable t sp w"
  shows "moved t sp (sp_depth (sp_of w sp) + 1) (if sp_depth (sp_of w sp) = 0 then w_stacks w t @ [sp] else w_stacks w t)
      w (span_start e sp w)" (is "moved t sp ?d ?ss w _")
proof -
  have sp: "sp < length (w_spans w)" using op by (simp add: openable_def)
  have "moved t sp ?d ?ss w (Span_start e sp w)"
  proof (cases "sp_depth (sp_of w sp) = 0")
    case False
    with op have "0 < sp_depth (sp_of w sp)" by (simp add: openable_def)
    with False sp show ?thesis by (simp add: start_active moved_upd same_span_def)
  next
    case True
    with op have ns: "sp \<notin> set (w_stacks w t)" by (simp add: openable_def)
    let ?w1 = "upd_span sp (\<lambda>s. s\<lparr>sp_depth := sp_depth s + 1\<rparr>) w"
    let ?w2 = "upd_span sp (\<lambda>s. s\<lparr>sp_start_time := te_now e\<rparr>) ?w1"
    have "moved t sp ?d (w_stacks w t) w ?w1" using sp by (intro moved_upd) (simp_all add: same_span_def)
    then have 2: "moved t sp ?d (w_stacks w t) w ?w2" by (rule moved_then_span) (simp_all add: same_span_def)
    have "Span_start e sp w = context_start e (sp_context (sp_of w sp)) sp ?w2"
      using True sp by (simp add: Span_start_def Let_def)
    then show ?thesis
      using 2 ns tid True by (auto simp: context_start_def Let_def intro!: moved_then_ctx moved_then_stack)
  qed
  then show ?thesis
    by (auto simp: span_start_def EntrySpan_start_def same_span_def intro!: moved_then_span)
      (simp_all add: span_fine_def tags_ok_def)
qed


lemma calm_start:
  assumes w: "calm t w" and tid: "te_tid e = t" and op: "openable t sp w"
  shows "calm t (span_start e sp w)"
proof -
  have sp: "sp < length (w_spans w)" and d: "0 \<le> sp_depth (sp_of w sp)" using op by (auto simp: openable_def)
  have "wok 0 0 0 (span_start e sp w)" using w sp by (simp add: calm_def span_start_ok)
  then show ?thesis by (rule moved_calm [OF w span_start_moved [OF w tid op]]) (use d in \<open>auto split: if_splits\<close>)
qed

lemma moved_then_agent: "moved t sp d ss w w' \<Longrightarrow> agent_ok (w_agent w) \<Longrightarrow> agent_ok a \<Longrightarrow> moved t sp d ss w (w'\<lparr>w_agent := a\<rparr>)"
  by (simp add: moved_def)

lemma span_stop_moved:
  assumes w: "calm t w" and tid: "te_tid e = t" and sp: "sp < length (w_spans w)" and d: "0 < sp_depth (sp_of w sp)"
  shows "\<exists>b w'. span_stop e sp w = (Inr b, w')
     \<and> moved t sp (sp_depth (sp_of w sp) - 1) (if sp_depth (sp_of w sp) = 1 then remove1 sp (w_stacks w t) else w_stacks w t) w w'"
proof (cases "sp_depth (sp_of w sp) = 1")
  case False
  then show ?thesis
    using span_stop_nested [OF sp] moved_upd [OF sp, of "\<lambda>s. s\<lparr>sp_depth := sp_depth s - 1\<rparr>" "sp_depth (sp_of w sp) - 1" t]
    by (auto simp: same_span_def)
next
  case True
  have ok: "wok 0 0 0 w" and agent: "agent_ok (w_agent w)" using w by (simp_all add: calm_def)
  let ?i = "sp_context (sp_of w sp)" let ?ss = "remove1 sp (w_stacks w t)"
  have "moved t sp 0 (w_stacks w t) w (upd_span sp (\<lambda>s. if sp_class s = NoopSpan then s\<lparr>sp_depth := 0\<rparr>
      else s\<lparr>sp_depth := 0, sp_end_time := te_now e\<rparr>) w)"
    using sp by (rule moved_upd) (auto simp: same_span_def)
  then have m: "moved t sp 0 ?ss w (ended e sp w)"
    unfolding ended_def tid by (rule moved_then_stack [OF moved_then_ctx]) simp
  show ?thesis
  proof (cases "cx_noop (cx_of w ?i) \<or> cx_nspans (cx_of w ?i) \<noteq> 1")
    case True
    then have "\<exists>b. span_stop e sp w = (Inr b, ended e sp w)"
      using span_stop_noop [OF ok sp \<open>sp_depth (sp_of w sp) = 1\<close>] span_stop_real [OF ok sp \<open>sp_depth (sp_of w sp) = 1\<close>] by fastforce
    with m \<open>sp_depth (sp_of w sp) = 1\<close> show ?thesis by auto
  next
    case last: False
    obtain full where full: "is_segment_queue_full (w_agent w) = Inr full" using agent_queue_total(1) [OF agent] by blast
    obtain a where a: "archive_segment (te_clock e) ?i (w_agent w) = Inr a" using agent_queue_total(2) [OF agent] by blast
    have "agent_ok a" using agent_ok_archive(1) [OF agent a] .
    let ?w2 = "upd_ctx ?i (\<lambda>x. x\<lparr>cx_segment := (cx_segment x)\<lparr>seg_size_limited := full\<rparr>\<rparr>) (ended e sp w)"
    have ag: "w_agent (ended e sp w) = w_agent w" by (simp add: ended_def set_stack_def)
    have "span_stop e sp w = (Inr True, ?w2\<lparr>w_agent := a\<rparr>)"
      using last full a ag by (simp add: span_stop_real [OF ok sp True] seq_def on_agent_def)
    moreover have "moved t sp 0 ?ss w (?w2\<lparr>w_agent := a\<rparr>)"
      using \<open>agent_ok a\<close> agent m by (intro moved_then_agent moved_then_ctx) simp_all
    ultimately show ?thesis using True by auto
  qed
qed

lemma moved_back:
  assumes m1: "moved t sp (sp_depth (sp_of w sp) + 1) ss w w1" and f: "frame t w1 w2" and m2: "moved t sp (sp_depth (sp_of w sp)) (w_stacks w t) w2 w3"
    and d: "0 \<le> sp_depth (sp_of w sp)"
  shows "frame t w w3"
proof -
  have "same_span (sp_of w j) (sp_of w3 j)" if j: "j < length (w_spans w)" for j
  proof -
    have j': "j < length (w_spans w1)" "j < length (w_spans w2)" using j m1 f by (simp_all add: moved_def frame_def)
    have 1: "same_span (if j = sp then (sp_of w j)\<lparr>sp_depth := sp_depth (sp_of w sp) + 1\<rparr> else sp_of w j) (sp_of w1 j)"
      using m1 j by (simp add: moved_def)
    have 2: "same_span (sp_of w1 j) (sp_of w2 j)" using f j' by (simp add: frame_def)
    have 3: "same_span (if j = sp then (sp_of w2 j)\<lparr>sp_depth := sp_depth (sp_of w sp)\<rparr> else sp_of w2 j) (sp_of w3 j)"
      using m2 j' by (simp add: moved_def)
    from 1 2 3 show ?thesis by (cases "j = sp") (auto simp: same_span_def)
  qed
  with m1 f m2 show ?thesis by (auto simp: moved_def frame_def)
qed

text \<open>Leaving the block undoes what entering it did.\<close>

lemma span_exit_back:
  assumes w: "calm t w" and op: "openable t sp w" and thr: "same_thread t ce"
    and c2: "calm t w2" and fr: "frame t (span_start (ce_start ce) sp w) w2"
  shows "\<exists>b w3. span_exit (ce_end ce) how sp w2 = (Inr b, w3) \<and> calm t w3 \<and> frame t w w3"
proof -
  let ?w1 = "span_start (ce_start ce) sp w" let ?d = "sp_depth (sp_of w sp)"
  let ?ss = "if ?d = 0 then w_stacks w t @ [sp] else w_stacks w t"
  have tid: "te_tid (ce_start ce) = t" "te_tid (ce_end ce) = t" using thr by (simp_all add: same_thread_def)
  have sp: "sp < length (w_spans w)" and d: "0 \<le> ?d" and ns: "?d = 0 \<Longrightarrow> sp \<notin> set (w_stacks w t)"
    using op by (auto simp: openable_def)
  have m1: "moved t sp (?d + 1) ?ss w ?w1" using span_start_moved [OF w tid(1) op] .
  define g :: "span \<Rightarrow> span" where "g = (case how of ExceptionExit tb \<Rightarrow> span_raised (te_import_time (ce_end ce)) tb | _ \<Rightarrow> (\<lambda>s. s))"
  have g: "span_fine s \<Longrightarrow> span_fine (g s)" "same_span s (g s)" "key_of (g s) = key_of s" for s
    by (auto simp: g_def span_raised_def same_span_def split: with_exit.split)
  let ?w2 = "upd_span sp g w2"
  have ex: "span_exit (ce_end ce) how sp w2 = seq (span_stop (ce_end ce) sp) (\<lambda>_. ret (how = NormalExit)) ?w2"
  proof -
    have "upd_span sp (\<lambda>s. s) w2 = w2" by (simp add: upd_span_def)
    then show ?thesis by (simp add: span_exit_def g_def split: with_exit.split)
  qed
  have e2: "ext w2 ?w2" by (rule ext_upd_span) (use g in auto)
  have "wok 0 0 0 ?w2" using c2 g(3) by (simp add: wok_upd_span calm_def)
  note c2' = calm_ext [OF c2 e2 this]
  have f2: "frame t ?w1 ?w2" using frame_trans [OF fr c2'(2)] .
  have d2: "sp_depth (sp_of ?w2 sp) = ?d + 1" and sp2: "sp < length (w_spans ?w2)" and ss2: "w_stacks ?w2 t = ?ss"
    using m1 f2 sp by (auto simp: moved_def frame_def same_span_def)
  have ss3: "(if ?d = 0 then remove1 sp (w_stacks ?w2 t) else w_stacks ?w2 t) = w_stacks w t"
    unfolding ss2 using ns by (simp add: remove1_append)
  have q: "sp_depth (sp_of ?w2 sp) - 1 = ?d" "sp_depth (sp_of ?w2 sp) = 1 \<longleftrightarrow> ?d = 0" "0 < sp_depth (sp_of ?w2 sp)" using d2 d by simp_all
  obtain b w3 where st: "span_stop (ce_end ce) sp ?w2 = (Inr b, w3)" "moved t sp ?d (w_stacks w t) ?w2 w3"
    using span_stop_moved [OF c2'(1) tid(2) sp2 q(3)] unfolding q(1,2) ss3 by blast
  have ok3: "wok 0 0 0 w3" using span_stop_ok [of 0 0 0 ?w2 sp "ce_end ce"] c2'(1) sp2 d2 d st(1) by (simp add: calm_def)
  have "calm t w3"
    using moved_calm [OF c2'(1) st(2) ok3] ss2 calm_stack(2) [OF w, of sp] by (auto split: if_splits)
  moreover have "frame t w w3" using m1 f2 st(2) d by (rule moved_back)
  ultimately show ?thesis using ex st(1) by (simp add: seq_def)
qed


section \<open>Rules for the operations of a wrapper\<close>

lemma keeps_with_span:
  assumes thr: "same_thread t ce" and body: "keeps t may P body (\<lambda>r _. R r)" and P: "stable t P" "\<And>w. P w \<Longrightarrow> P (span_start (ce_start ce) sp w)"
  shows "keeps t may (\<lambda>w. openable t sp w \<and> P w) (with_span ce sp body) (\<lambda>r _. R r)"
proof (rule keepsI)
  fix w
  assume w: "calm t w" and op: "openable t sp w \<and> P w"
  let ?w1 = "span_start (ce_start ce) sp w"
  have tid: "te_tid (ce_start ce) = t" using thr by (simp add: same_thread_def)
  have c1: "calm t ?w1" using calm_start [OF w tid] op by simp
  from keepsD [OF body c1] P(2) op obtain r w2 where
    b: "body ?w1 = (r, w2)" "calm t w2" "frame t ?w1 w2" "fits may R r" by blast
  note bk = span_exit_back [OF w conjunct1 [OF op] thr b(2,3)]
  show "\<exists>r w'. with_span ce sp body w = (r, w') \<and> calm t w' \<and> frame t w w' \<and> fits may R r"
  proof (cases r)
    case (Inl err)
    from bk [of "ExceptionExit []"] obtain b' w3 where "span_exit (ce_end ce) (ExceptionExit []) sp w2 = (Inr b', w3)" "calm t w3" "frame t w w3" by blast
    with b Inl show ?thesis by (simp add: with_span_def seq_def)
  next
    case (Inr x)
    from bk [of "exit_of x"] obtain b' w3 where "span_exit (ce_end ce) (exit_of x) sp w2 = (Inr b', w3)" "calm t w3" "frame t w w3" by blast
    with b Inr show ?thesis by (simp add: with_span_def seq_def)
  qed
qed

lemma keeps_state: "(\<And>w. P w \<Longrightarrow> snd (f w) = w \<and> fits may (\<lambda>x. Q x w) (fst (f w))) \<Longrightarrow> keeps t may P f Q"
  by (simp add: keeps_def)

lemma keeps_ret: "(\<And>w. P w \<Longrightarrow> Q x w) \<Longrightarrow> keeps t may P (ret x) Q"
  by (simp add: keeps_state)

lemma keeps_upd_span:
  assumes "\<And>s. key_of (f s) = key_of s" and "\<And>s. span_fine s \<Longrightarrow> span_fine (f s)" and "\<And>s. same_span s (f s)"
  shows "keeps t may (\<lambda>_. True) (modify (upd_span j f)) (\<lambda>_ _. True)"
proof (rule keepsI)
  fix w :: "('l, 'm, 'n) world"
  assume c: "calm t w"
  have "wok 0 0 0 (upd_span j f w)" using c assms(1) by (simp add: calm_def wok_upd_span)
  note calm_ext [OF c ext_upd_span [OF assms(2,3)] this]
  then show "\<exists>r w'. modify (upd_span j f) w = (r, w') \<and> calm t w' \<and> frame t w w' \<and> fits may (\<lambda>x. True) r" by simp
qed


text \<open>Inside a block the predicate on the store is carried along; a fact about a result is pure.\<close>

lemma keeps_then:
  assumes "keeps t may P f (\<lambda>x w. C x)" and "stable t P" and "\<And>x. C x \<Longrightarrow> keeps t may P (g x) Q"
  shows "keeps t may P (seq f g) Q"
proof (rule keeps_seq)
  show "keeps t may P f (\<lambda>x w. C x \<and> P w)"
    by (rule keeps_weaken [OF keeps_stable [OF assms(1,2)]]) auto
  show "keeps t may (\<lambda>w. C x \<and> P w) (g x) Q" for x
    using assms(3) [of x] by (cases "C x") (auto simp: keeps_def)
qed

lemma keeps_do: "keeps t may P f (\<lambda>_ _. True) \<Longrightarrow> stable t P \<Longrightarrow> (\<And>x. keeps t may P (g x) Q) \<Longrightarrow> keeps t may P (seq f g) Q"
  by (rule keeps_then [where C = "\<lambda>_. True"])

lemma keeps_pre: "keeps t may P f Q \<Longrightarrow> (\<And>w. P' w \<Longrightarrow> P w) \<Longrightarrow> keeps t may P' f Q"
  by (auto simp: keeps_def)

lemma keeps_if: "(b \<Longrightarrow> keeps t may P f Q) \<Longrightarrow> (\<not> b \<Longrightarrow> keeps t may P g Q) \<Longrightarrow> keeps t may P (if b then f else g) Q"
  by simp

lemma keeps_when: "keeps t may P f (\<lambda>_ _. True) \<Longrightarrow> keeps t may P (when_op b f) (\<lambda>_ _. True)"
  by (auto simp: when_op_def intro: keeps_ret)

lemma keeps_set:
  "keeps t may P (set_layer sp l) (\<lambda>_ _. True)" "keeps t may P (set_component sp c) (\<lambda>_ _. True)"
  "keeps t may P (set_peer sp p) (\<lambda>_ _. True)" "keeps t may P (set_error sp) (\<lambda>_ _. True)"
  unfolding set_layer_def set_component_def set_peer_def set_error_def
  by (rule keeps_pre [OF keeps_upd_span]; simp add: same_span_def)+

definition known :: "nat \<Rightarrow> ('l, 'm, 'n) world \<Rightarrow> bool" where
  "known sp w = (sp < length (w_spans w))"

text \<open>A span that is not an exit span: its peer is whatever the plugin finds, which may be nothing.\<close>

definition served :: "nat \<Rightarrow> ('l, 'm, 'n) world \<Rightarrow> bool" where
  "served sp w = (sp < length (w_spans w) \<and> sp_class (sp_of w sp) \<noteq> ExitSpan)"

lemma stable_known: "stable t (known sp)"
  by (auto simp: stable_def known_def frame_def)

lemma stable_served: "stable t (served sp)"
  by (auto simp: stable_def served_def frame_def same_span_def)

lemma served_known: "served sp w \<Longrightarrow> known sp w"
  by (simp add: served_def known_def)

lemma injectable_known: "injectable sp w \<Longrightarrow> known sp w"
  by (simp add: injectable_def known_def)

lemma keeps_set_peer_opt: "keeps t may (served sp) (set_peer_opt sp p) (\<lambda>_ _. True)"
proof (rule keepsI)
  fix w :: "('l, 'm, 'n) world"
  assume c: "calm t w" and s: "served sp w"
  have "ext w (upd_span sp (\<lambda>s. s\<lparr>sp_peer := p\<rparr>) w)"
    using s fine_upd [of w "\<lambda>s. s\<lparr>sp_peer := p\<rparr>" sp] by (auto simp: ext_def served_def same_span_def)
  moreover have "wok 0 0 0 (upd_span sp (\<lambda>s. s\<lparr>sp_peer := p\<rparr>) w)" using c by (simp add: calm_def wok_upd_span)
  ultimately show "\<exists>r w'. set_peer_opt sp p w = (r, w') \<and> calm t w' \<and> frame t w w' \<and> fits may (\<lambda>_. True) r"
    using calm_ext [OF c] by (simp add: set_peer_opt_def)
qed

lemma span_tag_fields: "span_tag tg s = Inr s' \<Longrightarrow> key_of s' = key_of s \<and> same_span s s' \<and> sp_kind s' = sp_kind s"
  by (auto simp: span_tag_def same_span_def split: if_splits option.splits tag_slot.splits)

lemma keeps_tag: "keeps t may (known sp) (tag_span sp cls v) (\<lambda>_ _. True)"
proof (rule keepsI)
  fix w :: "('l, 'm, 'n) world"
  assume c: "calm t w" and k: "known sp w"
  have "span_fine (sp_of w sp)" using c k by (simp add: calm_def known_def)
  moreover have "class_tag (Tag_init cls v)" by (auto simp: class_tag_def)
  ultimately obtain s' where s': "span_tag (Tag_init cls v) (sp_of w sp) = Inr s'" "tags_ok s'"
    using span_tag_total unfolding span_fine_def by blast
  note f = span_tag_fields [OF s'(1)]
  have upd: "upd_span sp (\<lambda>_. s') w = w\<lparr>w_spans := (w_spans w)[sp := s']\<rparr>" by (simp add: upd_span_def)
  have fine: "span_fine s'" using s'(2) f \<open>span_fine (sp_of w sp)\<close> by (simp add: span_fine_def same_span_def)
  have wok: "wok 0 0 0 (upd_span sp (\<lambda>_. s') w)" using c f by (simp add: calm_def wok_upd_span)
  have "ext w (upd_span sp (\<lambda>_. s') w)"
    unfolding upd using f fine k set_update_subset_insert [of "w_spans w" sp s']
    by (auto simp: ext_def nth_list_update known_def same_span_def)
  note calm_ext [OF c this wok]
  with s'(1) show "\<exists>r w'. tag_span sp cls v w = (r, w') \<and> calm t w' \<and> frame t w w' \<and> fits may (\<lambda>x. True) r"
    by (simp add: tag_span_def)
qed

lemma keeps_status: "keeps t may (known sp) (tag_status sp code) (\<lambda>_ _. True)"
  unfolding tag_status_def by (intro keeps_do keeps_tag keeps_when keeps_set stable_known)

section \<open>Propagation inside a wrapper\<close>

definition sendable :: "'d carrier \<Rightarrow> bool" where
  "sendable c = (c_endpoint c \<noteq> None \<and> c_client_address c \<noteq> None)"

text \<open>The headers the library is called with are the caller's, with both items of some carrier set.\<close>

definition carries :: "(string, string) dict \<Rightarrow> (string, string) dict \<Rightarrow> bool" where
  "carries h h' = (\<exists>c. write_headers carrier_items c h = Inr h')"

lemma carries_lookup:
  assumes "carries h h'"
  shows "map_of h' ''sw8'' \<noteq> None" "map_of h' ''sw8-correlation'' \<noteq> None"
    and "k \<noteq> ''sw8'' \<Longrightarrow> k \<noteq> ''sw8-correlation'' \<Longrightarrow> map_of h' k = map_of h k"
  using assms by (auto simp: carries_def carrier_items_def bind_res_Inr_iff update_conv')

lemma keeps_inject: "keeps t may (injectable sp) (span_inject sp) (\<lambda>c _. sendable c)"
proof (rule keepsI)
  fix w :: "('l, 'm, 'n) world"
  assume c: "calm t w" and i: "injectable sp w"
  have ok: "wok 0 0 0 w" and sp: "sp < length (w_spans w)" using c i by (simp_all add: calm_def injectable_def)
  show "\<exists>r w'. span_inject sp w = (r, w') \<and> calm t w' \<and> frame t w w' \<and> fits may (\<lambda>c. sendable c) r"
  proof (cases "sp_class (sp_of w sp) = NoopSpan")
    case True
    let ?w' = "w\<lparr>w_corrs := w_corrs w @ [[]]\<rparr>"
    have "ext w ?w'" by (simp add: ext_def same_span_def)
    note calm_ext [OF c this wok_new_corr [OF ok]]
    with True show ?thesis by (simp add: span_inject_def sendable_def Carrier_empty_def Carrier_init_def)
  next
    case False
    with i have x: "sp_class (sp_of w sp) = ExitSpan" "sp_op (sp_of w sp) \<noteq> None" "sp_peer (sp_of w sp) \<noteq> None"
      by (auto simp: injectable_def)
    obtain tid rest where "seg_related (cx_segment (cx_of w (sp_context (sp_of w sp)))) = tid # rest"
      using related_nonempty [OF ok span_ctx_in_range [OF ok sp]] by (cases "seg_related (cx_segment (cx_of w (sp_context (sp_of w sp))))") auto
    with x c show ?thesis
      by (simp add: span_inject_def carrier_of_def first_related_def seq_def sendable_def Carrier_init_def)
  qed
qed

lemma write_headers_total: "sendable c \<Longrightarrow> \<exists>h'. write_headers carrier_items c h = Inr h'"
  by (auto simp: carrier_items_def Carrier_get_val_def sendable_def)

lemma inject_headers_total: "sendable c \<Longrightarrow> \<exists>h'. inject_headers c h w = (Inr h', w) \<and> carries h h'"
  using write_headers_total [of "recarry (w_corrs w ! c_correlation c) c" h]
  by (auto simp: inject_headers_def carries_def sendable_def recarry_def)

lemma keeps_inject_headers:
  assumes "sendable c"
  shows "keeps t may P (inject_headers c h) (\<lambda>h' _. carries h h')"
proof (rule keeps_state)
  fix w :: "('l, 'm, 'n) world"
  from inject_headers_total [OF assms, of h w]
  show "snd (inject_headers c h w) = w \<and> fits may (\<lambda>h'. carries h h') (fst (inject_headers c h w))" by auto
qed

section \<open>Library calls inside a wrapper\<close>

definition called :: "nat \<Rightarrow> ('x \<Rightarrow> bool) \<Rightarrow> ('x \<Rightarrow> ('r, ('l, 'm, 'n) world) call) \<Rightarrow> 'r outcome \<Rightarrow> bool" where
  "called t C lib r = (\<exists>x w w'. calm t w \<and> C x \<and> lib x w = (r, w'))"

lemma keeps_run_lib:
  fixes lib :: "'x \<Rightarrow> ('r, ('l, 'm, 'n) world) call"
  assumes "lib_ok t lib" and "C x"
  shows "keeps t may P (run_lib (lib x)) (\<lambda>r _. called t C lib r)"
proof (rule keepsI)
  fix w :: "('l, 'm, 'n) world"
  assume w: "calm t w"
  obtain r w' where "lib x w = (r, w')" by fastforce
  moreover have "calm t (snd (lib x w))" "frame t w (snd (lib x w))" using assms(1) w by (simp_all add: lib_ok_def)
  moreover have "called t C lib (fst (lib x w))" unfolding called_def using assms(2) w by (metis prod.collapse)
  ultimately show "\<exists>r w'. run_lib (lib x) w = (r, w') \<and> calm t w' \<and> frame t w w' \<and> fits may (\<lambda>r. called t C lib r) r"
    by (simp add: run_lib_def)
qed

lemma keeps_on_return:
  assumes "\<And>x. r = Returned x \<Longrightarrow> keeps t may P (f x) (\<lambda>_ _. True)" and "R r"
  shows "keeps t may P (on_return f r) (\<lambda>r _. R r)"
proof (cases r)
  case (Returned x)
  with assms show ?thesis by (auto simp: on_return_def intro!: keeps_seq [OF assms(1)] keeps_ret)
qed (use assms(2) in \<open>auto simp: on_return_def intro: keeps_ret\<close>)


section \<open>Opening the span of a wrapper\<close>

lemma keeps_exit_span:
  assumes "same_thread t ce"
  shows "keeps t may P (exit_span ce op peer cmp) (\<lambda>sp w. openable t sp w \<and> injectable sp w)"
proof (rule keepsI)
  fix w :: "('l, 'm, 'n) world"
  assume "calm t w"
  from exit_span_ok [OF this assms, of op peer cmp]
  show "\<exists>r w'. exit_span ce op peer cmp w = (r, w') \<and> calm t w' \<and> frame t w w' \<and> fits may (\<lambda>sp. openable t sp w' \<and> injectable sp w') r"
    by (auto simp: fits_def)
qed

lemma keeps_noop_both: "keeps t may P noop_span (\<lambda>sp w. openable t sp w \<and> injectable sp w \<and> served sp w)"
proof (rule keepsI)
  fix w :: "('l, 'm, 'n) world"
  assume c: "calm t w"
  have ok: "wok 0 0 0 w" using c by (simp add: calm_def)
  obtain i w1 where ctx: "NoopContext_new w = (Inr i, w1)" "cx_noop (cx_of w1 i)" "i < length (w_ctxs w1)"
    by (simp add: NoopContext_new_def)
  have ok1: "wok 0 0 0 w1" using triple_apply [OF NoopContext_new_ok ok ctx(1)] by simp
  have e1: "ext w w1" using steadyD [OF steady_noop_context, of w] ctx(1) by simp
  note c1 = calm_ext [OF c e1 ok1]
  obtain w2 where new: "NoopSpan_new i w1 = (Inr (length (w_spans w1)), w2)" "sp_class (sp_of w2 (length (w_spans w1))) = NoopSpan"
    "fresh_span (length (w_spans w1)) w1 w2" using noop_fresh by blast
  have ok2: "wok 0 0 0 w2" using triple_apply [OF NoopSpan_new_ok _ new(1), of 0 0 0] ok1 ctx(2,3) by simp
  have e2: "ext w1 w2" using steadyD [OF steady_noop, of w1 i] new(1) by simp
  note c2 = calm_ext [OF c1(1) e2 ok2]
  have "injectable (length (w_spans w1)) w2" "served (length (w_spans w1)) w2"
    using new(2,3) by (simp_all add: injectable_def served_def fresh_span_def)
  with fresh_openable [OF c1(1) e2 new(3)] c2 frame_trans [OF c1(2) c2(2)] ctx(1) new(1)
  show "\<exists>r w'. noop_span w = (r, w') \<and> calm t w' \<and> frame t w w'
      \<and> fits may (\<lambda>sp. openable t sp w' \<and> injectable sp w' \<and> served sp w') r"
    by (simp add: noop_span_def seq_def)
qed

lemma keeps_noop_span:
  "keeps t may P noop_span (\<lambda>sp w. openable t sp w \<and> injectable sp w)" "keeps t may P noop_span (\<lambda>sp w. openable t sp w \<and> served sp w)"
  by (rule keeps_weaken [OF keeps_noop_both [of t may P]]; simp)+


text \<open>Entry spans may raise: on a header that is not base64 text, or when profiling is not set up.\<close>

definition corr_known :: "nat carrier option \<Rightarrow> ('l, 'm, 'n) world \<Rightarrow> bool" where
  "corr_known carrier w = (\<forall>c. carrier = Some c \<longrightarrow> c_correlation c < length (w_corrs w))"

lemma stable_corr_known: "stable t (corr_known carrier)"
  by (auto simp: stable_def corr_known_def frame_def)

lemma keeps_extract_headers: "keeps t True P (extract_headers look) (\<lambda>c w. corr_known (Some c) w)"
proof (rule keepsI)
  fix w :: "('l, 'm, 'n) world"
  assume c: "calm t w"
  obtain err cr where f: "fill_carrier (correlation_element_max_number (w_cfg w)) look carrier_items (Carrier_empty []) = (err, cr)"
    by fastforce
  let ?w' = "w\<lparr>w_corrs := w_corrs w @ [c_correlation cr]\<rparr>"
  have "ext w ?w'" by (simp add: ext_def same_span_def)
  moreover have "wok 0 0 0 ?w'" using c by (simp add: calm_def wok_new_corr)
  ultimately have "calm t ?w'" "frame t w ?w'" using calm_ext [OF c] by blast+
  with f show "\<exists>r w'. extract_headers look w = (r, w') \<and> calm t w' \<and> frame t w w' \<and> fits True (\<lambda>c. corr_known (Some c) w') r"
    by (cases err) (auto simp: extract_headers_def Let_def corr_known_def)
qed

definition serving :: "nat \<Rightarrow> ('l, 'm, 'n) world \<Rightarrow> bool" where
  "serving sp w = (sp_class (sp_of w sp) \<noteq> ExitSpan)"

lemma fresh_after: "fresh_span sp w w1 \<Longrightarrow> ext w1 w2 \<Longrightarrow> fresh_span sp w w2"
  by (auto simp: fresh_span_def ext_def same_span_def)

lemma fresh_before: "ext w w1 \<Longrightarrow> fresh_span sp w1 w2 \<Longrightarrow> fresh_span sp w w2"
  by (auto simp: fresh_span_def ext_def)

lemma ignore_check_fresh:
  assumes "ignore_check e op carrier w = (Inr r, w1)"
  shows "case r of None \<Rightarrow> w1 = w | Some sp \<Rightarrow> fresh_span sp w w1 \<and> serving sp w1"
  using assms
  by (auto simp: ignore_check_def seq_def NoopContext_new_def NoopSpan_new_def new_span_obj_def NoopSpan_init_def Span_init_def
      fresh_span_def serving_def split: if_splits sum.splits bool.splits option.splits)

lemma entry_tail:
  assumes "(case carrier of None \<Rightarrow> ret x | Some c \<Rightarrow> seq (lift_res (is_valid (te_unicode e) c)) (\<lambda>valid.
      if valid then seq (span_extract e x (Some c)) (\<lambda>_. ret x) else ret x)) v = (Inr y, v')"
  shows "ext v v' \<and> y = x"
  using assms steadyD [OF steady_span_extract, of v e x carrier]
  by (auto simp: seq_def split: option.splits if_splits sum.splits prod.splits)

lemma new_entry_span_result:
  assumes calm: "calm t w" and tid: "te_tid e = t" and new: "new_entry_span e i op carrier inherit w = (Inr sp, w')"
  shows "(fresh_span sp w w' \<or> sp \<in> set (w_stacks w t)) \<and> serving sp w'"
proof (cases "cx_noop (cx_of w i)")
  case True
  with new noop_fresh [of i w] show ?thesis by (auto simp: new_entry_span_def serving_def)
next
  case False
  from new False obtain r w1 where ig: "ignore_check e op carrier w = (Inr r, w1)" by (auto simp: new_entry_span_def seq_Inr_iff)
  show ?thesis
  proof (cases r)
    case (Some x)
    with ignore_check_fresh [OF ig] new False ig show ?thesis by (simp add: new_entry_span_def seq_def)
  next
    case None
    with ignore_check_fresh [OF ig] have w1: "w1 = w" by simp
    let ?p = "if w_stacks w t = [] then None else Some (last (w_stacks w t))"
    have pk: "peek e False w = (Inr ?p, w)" using tid by (simp add: peek_def)
    from new False ig None w1 pk obtain u w2 where pf: "add_profiling e i op w = (Inr u, w2)"
      by (auto simp: new_entry_span_def seq_def split: sum.splits prod.splits)
    have e2: "ext w w2" using steadyD [OF steady_profiling(1), of w e i op] pf by simp
    show ?thesis
    proof (cases "\<exists>p. ?p = Some p \<and> is_entry (sp_kind (sp_of w2 p)) \<and> inherit = Some (sp_component (sp_of w2 p))")
      case True
      then obtain p where p: "?p = Some p" "is_entry (sp_kind (sp_of w2 p))" "inherit = Some (sp_component (sp_of w2 p))" by blast
      with new False ig None w1 pk pf have "sp = p"
        by (auto simp: new_entry_span_def seq_def split: sum.splits prod.splits)
      moreover have q: "p \<in> set (w_stacks w t)" using p(1) by (auto split: if_splits)
      moreover have "serving p w'"
      proof -
        have e': "ext w w'" using steadyD [OF steady_new_entry_span, of w e i op carrier inherit] new by simp
        have "span_fine (sp_of w p)" "p < length (w_spans w)" using calm_stack [OF calm q] by auto
        moreover have "sp_kind (sp_of w2 p) = sp_kind (sp_of w p)"
          using pf by (auto simp: add_profiling_def split: if_splits option.splits sum.splits)
        ultimately have "class_kind (sp_class (sp_of w p)) = Entry" using p(2) by (simp add: span_fine_def is_entry_def)
        with e' \<open>p < length (w_spans w)\<close> show ?thesis by (auto simp: serving_def ext_def same_span_def)
      qed
      ultimately show ?thesis by blast
    next
      case no: False
      have act: "\<forall>p. ?p = Some p \<longrightarrow> sp_depth (sp_of w2 p) \<noteq> 0"
        using calm_stack [OF calm last_in_set] e2 by (auto simp: ext_def same_span_def)
      obtain x w3 where n: "new_span e i ?p EntrySpan op None None w2 = (Inr x, w3)" "fresh_span x w2 w3" "sp_class (sp_of w3 x) = EntrySpan"
        using new_span_fresh [OF act, of e i EntrySpan op None None] by blast
      have "(case ?p of None \<Rightarrow> False | Some p \<Rightarrow> is_entry (sp_kind (sp_of w2 p)) \<and> inherit = Some (sp_component (sp_of w2 p))) = False"
        using no by (auto split: option.splits)
      with new False ig None w1 pk pf n have "ext w3 w' \<and> sp = x" by (intro entry_tail) (simp add: new_entry_span_def seq_def)
      moreover from this n(2,3) have "serving x w'" by (auto simp: serving_def ext_def same_span_def fresh_span_def)
      ultimately show ?thesis using n(2) e2 by (meson fresh_after fresh_before)
    qed
  qed
qed

lemma keeps_new_entry_span:
  assumes tid: "te_tid e = t"
  shows "keeps t True (\<lambda>w. top_ok e i w \<and> corr_known carrier w) (new_entry_span e i op carrier inherit) (\<lambda>sp w. openable t sp w \<and> served sp w)"
proof (rule keepsI)
  fix w :: "('l, 'm, 'n) world"
  assume c: "calm t w" and p: "top_ok e i w \<and> corr_known carrier w"
  obtain r w' where new: "new_entry_span e i op carrier inherit w = (r, w')" by fastforce
  have "wok 0 0 (length (w_corrs w)) w" using c by (simp add: calm_def wok_def)
  with new_entry_span_ok [of carrier "length (w_corrs w)" 0 0 e i op inherit] p new have "wok 0 0 0 w'"
    unfolding triple_def corr_known_def by (cases r) (fastforce simp: wok_def)+
  moreover have e: "ext w w'" using steadyD [OF steady_new_entry_span, of w e i op carrier inherit] new by simp
  ultimately have c': "calm t w'" "frame t w w'" using calm_ext [OF c] by blast+
  have "w_stacks w' = w_stacks w" using e by (simp add: ext_def)
  then have "openable t sp w' \<and> served sp w'" if "r = Inr sp" for sp
    using new_entry_span_result [OF c tid new [unfolded that]] fresh_openable [OF c e] calm_stack(4) [OF c'(1)]
    by (auto simp: served_def serving_def openable_def)
  with new c' show "\<exists>r w'. new_entry_span e i op carrier inherit w = (r, w') \<and> calm t w' \<and> frame t w w'
      \<and> fits True (\<lambda>sp. openable t sp w' \<and> served sp w') r"
    by (cases r) auto
qed

lemma keeps_get_context: "te_tid e = t \<Longrightarrow> keeps t may P (get_context e) (\<lambda>i w. top_ok e i w)"
proof (rule keepsI)
  fix w :: "('l, 'm, 'n) world"
  assume c: "calm t w"
  obtain i w1 where ctx: "get_context e w = (Inr i, w1)" using get_context_total by blast
  have w1: "wok 0 0 0 w1" "top_ok e i w1" using triple_apply [OF get_context_ok _ ctx, of 0 0 0] c by (simp_all add: calm_def)
  have "ext w w1" using steadyD [OF steady_get_context, of w e] ctx by simp
  with calm_ext [OF c this w1(1)] ctx w1
  show "\<exists>r w'. get_context e w = (r, w') \<and> calm t w' \<and> frame t w w' \<and> fits may (\<lambda>i. top_ok e i w') r" by simp
qed

lemma keeps_entry_span:
  assumes "same_thread t ce"
  shows "keeps t True (corr_known carrier) (entry_span ce op carrier inherit) (\<lambda>sp w. openable t sp w \<and> served sp w)"
proof -
  have tid: "te_tid (ce_start ce) = t" using assms by (simp add: same_thread_def)
  have "keeps t True (corr_known carrier) (get_context (ce_start ce)) (\<lambda>i w. top_ok (ce_start ce) i w \<and> corr_known carrier w)"
    by (rule keeps_weaken [OF keeps_stable [OF keeps_get_context [OF tid, of True "\<lambda>_. True"] stable_corr_known [of t carrier]]]) auto
  then show ?thesis unfolding entry_span_def
    using keeps_new_entry_span [OF tid] by (rule keeps_seq)
qed


section \<open>Rules for the body of a block\<close>

lemma span_start_known:
  "sp_class (sp_of (span_start e sp w) j) = sp_class (sp_of w j)" "sp_op (sp_of (span_start e sp w) j) = sp_op (sp_of w j)"
  "sp_peer (sp_of (span_start e sp w) j) = sp_peer (sp_of w j)" "length (w_spans (span_start e sp w)) = length (w_spans w)"
proof -
  have u: "sp_of (upd_span sp f v) j = (if j = sp \<and> sp < length (w_spans v) then f (sp_of v j) else sp_of v j)" for f and v :: "('a, 'b, 'c) world"
    by (auto simp: upd_span_def nth_list_update list_update_beyond)
  have s: "w_spans (set_stack t' ss v) = w_spans v" for t' ss and v :: "('a, 'b, 'c) world" by (simp add: set_stack_def)
  show "sp_class (sp_of (span_start e sp w) j) = sp_class (sp_of w j)" "sp_op (sp_of (span_start e sp w) j) = sp_op (sp_of w j)"
    "sp_peer (sp_of (span_start e sp w) j) = sp_peer (sp_of w j)" "length (w_spans (span_start e sp w)) = length (w_spans w)"
    by (simp_all add: span_start_def EntrySpan_start_def Span_start_def context_start_def Let_def u s)
qed

lemma injectable_start: "injectable sp w \<Longrightarrow> injectable sp (span_start e j w)"
  by (simp add: injectable_def span_start_known)

lemma served_start: "served sp w \<Longrightarrow> served sp (span_start e j w)"
  by (simp add: served_def span_start_known)

lemma keeps_block:
  assumes "same_thread t ce" and "\<And>sp. keeps t may (injectable sp) (body sp) (\<lambda>r _. R r)"
    and "keeps t may P f (\<lambda>sp w. openable t sp w \<and> injectable sp w)"
  shows "keeps t may P (seq f (\<lambda>sp. with_span ce sp (body sp))) (\<lambda>r _. R r)"
  using assms(3) keeps_with_span [OF assms(1,2) stable_injectable injectable_start] by (rule keeps_seq)

lemma keeps_entry_block:
  assumes "same_thread t ce" and "\<And>sp. keeps t may (served sp) (body sp) (\<lambda>r _. R r)"
    and "keeps t may P f (\<lambda>sp w. openable t sp w \<and> served sp w)"
  shows "keeps t may P (seq f (\<lambda>sp. with_span ce sp (body sp))) (\<lambda>r _. R r)"
  using assms(3) keeps_with_span [OF assms(1,2) stable_served served_start] by (rule keeps_seq)

lemma stable_top_ok: "te_tid e = t \<Longrightarrow> stable t (top_ok e i)"
  unfolding stable_def
proof (intro allI impI)
  fix w w' :: "('l, 'm, 'n) world"
  assume "te_tid e = t" "calm t w" "frame t w w'" "top_ok e i w"
  with calm_stack(1) [OF this(2) last_in_set] show "top_ok e i w'"
    by (auto simp: top_ok_def frame_def same_span_def)
qed

text \<open>Plugins that fetch the context before they read the headers.\<close>

lemma keeps_late_entry:
  assumes thr: "same_thread t ce" and ex: "keeps t True (\<lambda>_. True) ex (\<lambda>c w. corr_known (Some c) w)"
    and body: "\<And>sp. keeps t True (served sp) (body sp) (\<lambda>r _. R r)"
  shows "keeps t True (\<lambda>_. True) (seq (get_context (ce_start ce)) (\<lambda>ctx. seq ex (\<lambda>carrier.
     seq (new_entry_span (ce_start ce) ctx op (Some carrier) inh) (\<lambda>sp. with_span ce sp (body sp))))) (\<lambda>r _. R r)"
proof (rule keeps_seq)
  let ?e = "ce_start ce"
  have tid: "te_tid ?e = t" using thr by (simp add: same_thread_def)
  show "keeps t True (\<lambda>_. True) (get_context ?e) (top_ok ?e)" by (rule keeps_get_context [OF tid])
  fix ctx
  show "keeps t True (top_ok ?e ctx) (seq ex (\<lambda>carrier.
     seq (new_entry_span ?e ctx op (Some carrier) inh) (\<lambda>sp. with_span ce sp (body sp)))) (\<lambda>r _. R r)"
    by (rule keeps_seq [OF keeps_pre [OF keeps_stable [OF ex stable_top_ok [OF tid]]]], simp)
      (rule keeps_entry_block [OF thr body keeps_pre [OF keeps_new_entry_span [OF tid]]], auto)
qed

lemma keeps_tag_exit: "keeps t may (injectable sp) (tag_span sp cls v) (\<lambda>_ _. True)"
  by (rule keeps_pre [OF keeps_tag injectable_known])

lemma keeps_status_exit: "keeps t may (injectable sp) (tag_status sp code) (\<lambda>_ _. True)"
  by (rule keeps_pre [OF keeps_status injectable_known])

lemma keeps_branch:
  "keeps t may P f Q \<Longrightarrow> keeps t may P g Q \<Longrightarrow> keeps t may P (\<lambda>w. if c w then f w else g w) Q"
  by (auto simp: keeps_def)

lemmas exit_body_rules =
  keeps_then [OF keeps_inject stable_injectable]
  keeps_then [OF keeps_inject_headers stable_injectable]
  keeps_do [OF keeps_set(1) stable_injectable] keeps_do [OF keeps_set(2) stable_injectable]
  keeps_do [OF keeps_set(3) stable_injectable] keeps_do [OF keeps_set(4) stable_injectable]
  keeps_do [OF keeps_tag_exit stable_injectable]
  keeps_do [OF keeps_when [OF keeps_tag_exit] stable_injectable]
  keeps_then [OF keeps_run_lib stable_injectable] keeps_run_lib
  keeps_on_return keeps_status_exit keeps_tag_exit keeps_when keeps_set

lemma keeps_tag_entry: "keeps t may (served sp) (tag_span sp cls v) (\<lambda>_ _. True)"
  by (rule keeps_pre [OF keeps_tag served_known])

lemma keeps_status_entry: "keeps t may (served sp) (tag_status sp code) (\<lambda>_ _. True)"
  by (rule keeps_pre [OF keeps_status served_known])

lemma keeps_config: "(\<And>c. keeps t may P (f c) Q) \<Longrightarrow> keeps t may P (seq (gets w_cfg) f) Q"
  by (simp add: keeps_def)

lemma keeps_option: "(\<And>x. keeps t may P (f x) (\<lambda>_ _. True)) \<Longrightarrow> keeps t may P (case_option (ret ()) f v) (\<lambda>_ _. True)"
  by (auto simp: keeps_ret split: option.split)

lemma keeps_lift: "keeps t True P (lift_res r) (\<lambda>x _. r = Inr x)"
  by (rule keeps_state) (cases r; simp)

lemmas entry_body_rules =
  keeps_do [OF keeps_set(1) stable_served] keeps_do [OF keeps_set(2) stable_served]
  keeps_do [OF keeps_set(3) stable_served] keeps_do [OF keeps_set(4) stable_served]
  keeps_do [OF keeps_set_peer_opt stable_served] keeps_config
  keeps_do [OF keeps_tag_entry stable_served] keeps_do [OF keeps_when [OF keeps_set(3)] stable_served]
  keeps_do [OF keeps_when [OF keeps_tag_entry] stable_served] keeps_do [OF keeps_when [OF keeps_set(4)] stable_served]
  keeps_do [OF keeps_status_entry stable_served] keeps_do [OF keeps_option [OF keeps_set(3)] stable_served]
  keeps_do [OF keeps_option [OF keeps_status_entry] stable_served]
  keeps_then [OF keeps_run_lib stable_served] keeps_run_lib
  keeps_on_return keeps_status_entry keeps_tag_entry keeps_when keeps_set

section \<open>What the span says when the block is left\<close>

text \<open>Entering and leaving a block changes none of what a plugin writes into an exit or local span.\<close>

definition same_data :: "span \<Rightarrow> span \<Rightarrow> bool" where
  "same_data s s' =
     (sp_class s' = sp_class s \<and> sp_op s' = sp_op s \<and> sp_peer s' = sp_peer s \<and> sp_layer s' = sp_layer s
      \<and> sp_component s' = sp_component s \<and> sp_tags s' = sp_tags s \<and> sp_logs s' = sp_logs s
      \<and> sp_error_occurred s' = sp_error_occurred s \<and> sp_refs s' = sp_refs s)"

lemma upd_span_at: "sp_of (upd_span sp f w) j = (if j = sp \<and> sp < length (w_spans w) then f (sp_of w j) else sp_of w j)"
  by (auto simp: upd_span_def nth_list_update list_update_beyond)

lemma same_data_start:
  assumes "sp_class (sp_of w sp) \<noteq> EntrySpan"
  shows "same_data (sp_of w j) (sp_of (span_start e sp w) j)"
proof -
  have s: "w_spans (set_stack t' ss v) = w_spans v" for t' ss and v :: "('a, 'b, 'c) world" by (simp add: set_stack_def)
  show ?thesis using assms
    by (simp add: span_start_def Span_start_def context_start_def Let_def upd_span_at s same_data_def)
qed

lemma same_data_stop:
  assumes w: "calm t w" and sp: "sp < length (w_spans w)" and d: "0 < sp_depth (sp_of w sp)"
  shows "same_data (sp_of w j) (sp_of (snd (span_stop e sp w)) j)"
proof (cases "sp_depth (sp_of w sp) = 1")
  case False
  then show ?thesis using span_stop_nested [OF sp] by (simp add: upd_span_at same_data_def)
next
  case True
  have ok: "wok 0 0 0 w" using w by (simp add: calm_def)
  have e: "same_data (sp_of w j) (sp_of (ended e sp w) j)"
    by (simp add: ended_def set_stack_def upd_span_at same_data_def)
  show ?thesis
  proof (cases "cx_noop (cx_of w (sp_context (sp_of w sp)))")
    case noop: True
    with e show ?thesis using span_stop_noop [OF ok sp True] by simp
  next
    case False
    with e show ?thesis
      by (simp add: span_stop_real [OF ok sp True] seq_def on_agent_def split: sum.split prod.split)
  qed
qed

lemma with_span_records:
  assumes thr: "same_thread t ce" and w: "calm t w" and op: "openable t sp w" and inj: "injectable sp w"
    and body: "keeps t may (injectable sp) body Q" and run: "body (span_start (ce_start ce) sp w) = (Inr (Returned x), v)"
  shows "\<exists>w'. with_span ce sp body w = (Inr (Returned x), w') \<and> same_data (sp_of v sp) (sp_of w' sp)"
proof -
  let ?w1 = "span_start (ce_start ce) sp w"
  have tid: "te_tid (ce_start ce) = t" using thr by (simp add: same_thread_def)
  have sp: "sp < length (w_spans w)" and d: "0 \<le> sp_depth (sp_of w sp)" using op by (auto simp: openable_def)
  note m = span_start_moved [OF w tid op]
  have c1: "calm t ?w1" using calm_start [OF w tid op] .
  from keepsD [OF body c1 injectable_start [OF inj]] run have v: "calm t v" "frame t ?w1 v" by auto
  have "sp < length (w_spans v)" "0 < sp_depth (sp_of v sp)" using v(2) m sp d by (auto simp: frame_def moved_def same_span_def)
  then have data: "same_data (sp_of v sp) (sp_of (snd (span_stop (ce_end ce) sp v)) sp)" by (rule same_data_stop [OF v(1)])
  from span_exit_back [OF w op thr v, of NormalExit] obtain b w' where "span_stop (ce_end ce) sp v = (Inr b, w')"
    by (auto simp: span_exit_def seq_def split: prod.splits sum.splits)
  with data run show ?thesis by (simp add: with_span_def span_exit_def seq_def)
qed

lemma tag_span_over:
  assumes "cls \<noteq> TagDbSqlParameters"
  shows "tag_span sp cls v = modify (upd_span sp (\<lambda>s. s\<lparr>sp_tags := dict_set (tag_class_key cls) (OneTag (Tag_init cls v)) (sp_tags s)\<rparr>))"
proof
  fix w :: "('a, 'b, 'c) world"
  have "span_tag (Tag_init cls v) (sp_of w sp) = Inr ((sp_of w sp)\<lparr>sp_tags := dict_set (tag_class_key cls) (OneTag (Tag_init cls v)) (sp_tags (sp_of w sp))\<rparr>)"
    using assms by (simp add: span_tag_def Tag_init_def)
  then show "tag_span sp cls v w = modify (upd_span sp (\<lambda>s. s\<lparr>sp_tags := dict_set (tag_class_key cls) (OneTag (Tag_init cls v)) (sp_tags s)\<rparr>)) w"
    by (simp add: tag_span_def upd_span_def)
qed

section \<open>What a plugin promises\<close>

text \<open>
  A wrapper around a library that keeps the contract keeps it itself and hands the outcome of a
  library call - made with arguments in \<open>C\<close> - to the application, whatever the outcome is.  \<open>may\<close> tells
  whether the wrapper's own code may raise.
\<close>

text \<open>A library that gets its arguments as the application passed them.\<close>

definition any_arg :: "unit \<Rightarrow> bool" where
  "any_arg u = True"

lemma any_argI: "any_arg ()"
  by (simp add: any_arg_def)

text \<open>Any environment, run on a given thread.\<close>

definition on_thread :: "nat \<Rightarrow> call_env \<Rightarrow> call_env" where
  "on_thread t ce = ce\<lparr>ce_start := (ce_start ce)\<lparr>te_tid := t\<rparr>, ce_end := (ce_end ce)\<lparr>te_tid := t\<rparr>\<rparr>"

lemma on_thread_same [simp]: "same_thread t (on_thread t ce)"
  by (simp add: same_thread_def on_thread_def)

locale instrumented =
  fixes t :: nat and may :: bool and C :: "'y \<Rightarrow> 'x \<Rightarrow> bool"
    and wrap :: "('x \<Rightarrow> ('r, ('l, 'm, 'n) world) call) \<Rightarrow> 'y \<Rightarrow> ('r outcome, ('l, 'm, 'n) world) op"
  assumes wrap_keeps: "lib_ok t lib \<Longrightarrow> keeps t may (\<lambda>_. True) (wrap lib y) (\<lambda>r _. called t (C y) lib r)"
begin

text \<open>So wrappers stack: the wrapped library is again a library that keeps the contract.\<close>

lemma wrapped_ok:
  assumes "lib_ok t lib"
  shows "lib_ok t (\<lambda>y. as_call (wrap lib y))"
proof -
  have "calm t (snd (as_call (wrap lib y) w)) \<and> frame t w (snd (as_call (wrap lib y) w))" if "calm t w" for y w
    using keepsD [OF wrap_keeps [OF assms, of y] that] by (auto simp: as_call_def split: sum.split)
  then show ?thesis by (simp add: lib_ok_def)
qed

lemma outcome_of_library:
  assumes "lib_ok t lib" and "calm t w" and "\<not> may"
  shows "\<exists>r w'. wrap lib y w = (Inr r, w') \<and> called t (C y) lib r \<and> frame t w w' \<and> calm t w'"
proof -
  from keepsD [OF wrap_keeps [OF assms(1), of y] assms(2)] obtain r w' where
    1: "wrap lib y w = (r, w')" "calm t w'" "frame t w w'" "fits may (called t (C y) lib) r" by auto
  with assms(3) show ?thesis by (cases r) auto
qed

text \<open>A sequence of instrumented calls of one thread leaves the thread's stack as it was.\<close>

lemma calls_keep_stack:
  assumes "lib_ok t lib" and "calm t w"
  shows "w_stacks (foldl (\<lambda>v y. snd (wrap lib y v)) w ys) t = w_stacks w t"
proof -
  have "calm t (foldl (\<lambda>v y. snd (wrap lib y v)) w ys) \<and> frame t w (foldl (\<lambda>v y. snd (wrap lib y v)) w ys)"
  proof (rule foldl_invariant)
    fix v y
    assume v: "calm t v \<and> frame t w v"
    from keepsD [OF wrap_keeps [OF assms(1), of y]] v show "calm t (snd (wrap lib y v)) \<and> frame t w (snd (wrap lib y v))"
      by (metis frame_trans snd_conv)
  qed (simp add: assms(2))
  then show ?thesis by (simp add: frame_def)
qed

end


section \<open>A small world\<close>

definition demo_call :: call_env where
  "demo_call = \<lparr>ce_start = demo_env, ce_end = demo_env, ce_ignored_method = (\<lambda>_. False)\<rparr>"

lemma demo_same_thread: "same_thread 0 demo_call"
  by (simp add: same_thread_def demo_call_def demo_env_def)

lemma demo_calm: "calm 0 (demo_world c)"
proof -
  have "wok 0 0 0 (demo_world c)" using tracing.reach_inv [OF demo_reach] .
  moreover have "span_fine (Span_init PlainSpan 0 0 (-1) (Some ''op'') None None)" by (rule span_fine_init)
  ultimately show ?thesis
    by (simp add: calm_def live_def demo_world_eq demo_agent_ok)
qed

text \<open>A library that returns one value and touches nothing.\<close>

definition quiet_lib :: "'r \<Rightarrow> 'x \<Rightarrow> ('r, ('l, 'm, 'n) world) call" where
  "quiet_lib r x w = (Returned r, w)"

lemma quiet_lib_ok: "lib_ok t (quiet_lib r)"
  by (simp add: lib_ok_def quiet_lib_def)

lemma demo_exit_span:
  "\<exists>w1. exit_span demo_call op peer cmp (demo_world c) = (Inr 1, w1) \<and> sp_class (sp_of w1 1) = ExitSpan"
proof -
  have ctx: "get_context demo_env (demo_world c) = (Inr 0, demo_world c)"
    by (simp add: get_context_def demo_world_eq demo_env_def Span_init_def)
  have ig: "ignore_check demo_env op None (demo_world c) = (Inr None, demo_world c)"
    by (simp add: ignore_check_def seq_def demo_world_eq demo_agent_fields demo_env_def)
  have pk: "peek demo_env False (demo_world c) = (Inr (Some 0), demo_world c)"
    by (simp add: peek_def demo_world_eq demo_env_def)
  obtain sp w' where new: "new_span demo_env 0 (Some 0) ExitSpan op (Some peer) (Some cmp) (demo_world c) = (Inr sp, w')"
    "fresh_span sp (demo_world c) w'" "sp_class (sp_of w' sp) = ExitSpan"
    using new_span_fresh [of "Some 0" "demo_world c" demo_env 0 ExitSpan op "Some peer" "Some cmp"]
    by (auto simp: demo_world_eq)
  have "sp = 1" using new(1) by (auto simp: new_span_def seq_def next_sid_def new_span_obj_def demo_world_eq upd_ctx_def split: prod.splits)
  with ctx ig pk new show ?thesis
    by (simp add: exit_span_def seq_def demo_call_def new_exit_span_def)
      (simp add: demo_world_eq Span_init_def is_exit_def)
qed

end
