(* ===== verification/HttpClients.thy ===== *)
theory HttpClients
  imports Instrument
begin

text \<open>
  The plugins for HTTP clients: \<open>sw_requests.py\<close>, \<open>sw_urllib3.py\<close>, \<open>sw_urllib3_v2.py\<close>, \<open>sw_urllib_request.py\<close>,
  \<open>sw_httpx.py\<close>, the client half of \<open>sw_aiohttp.py\<close> and \<open>sw_websockets.py\<close>.  Requests, URLs and responses are
  objects of the libraries: of a URL we keep the parts the plugins read, of a response its status.
\<close>

section \<open>Requests\<close>

text \<open>What \<open>urlparse\<close> returns: \<open>pu_geturl\<close> is the text of the URL as a function of its network location.\<close>

record parsed_url =
  pu_netloc :: string
  pu_path :: string
  pu_geturl :: "string \<Rightarrow> string"

definition sw_urlparse :: "parsed_url \<Rightarrow> parsed_url" where
  "sw_urlparse u = u\<lparr>pu_netloc := safe_netloc (pu_netloc u)\<rparr>"

definition geturl :: "parsed_url \<Rightarrow> string" where
  "geturl u = pu_geturl u (pu_netloc u)"

type_synonym headers = "(string, string) dict"

record http_request =
  rq_method :: string
  rq_url :: parsed_url
  rq_headers :: "headers option"

definition path_or_root :: "string \<Rightarrow> string" where
  "path_or_root p = (if p = [] then ''/'' else p)"

definition opt_headers :: "headers option \<Rightarrow> headers" where
  "opt_headers h = (case h of None \<Rightarrow> [] | Some d \<Rightarrow> d)"

text \<open>The agent's own requests to the collector are not traced.\<close>

definition own_request :: "string \<Rightarrow> config \<Rightarrow> bool" where
  "own_request netloc c =
     (agent_protocol c = ''http'' \<and> ends_with (rstrip_slash (agent_collector_backend_services c)) netloc)"

definition requests_request ::
  "call_env \<Rightarrow> ('r \<Rightarrow> int) \<Rightarrow> (headers option \<Rightarrow> ('r, ('l, 'm, 'n) world) call) \<Rightarrow> http_request
     \<Rightarrow> ('r outcome, ('l, 'm, 'n) world) op" where
  "requests_request ce status_code lib rq w =
     (let url = sw_urlparse (rq_url rq) in
      if own_request (pu_netloc url) (w_cfg w) then run_lib (lib (rq_headers rq)) w
      else seq (if ce_ignored_method ce (rq_method rq) then noop_span
                else exit_span ce (path_or_root (pu_path url)) (pu_netloc url) Requests) (\<lambda>sp.
           with_span ce sp (
             seq (span_inject sp) (\<lambda>carrier.
             seq (set_layer sp Http) (\<lambda>_.
             seq (inject_headers carrier (opt_headers (rq_headers rq))) (\<lambda>h.
             seq (tag_span sp TagHttpMethod (upper (rq_method rq))) (\<lambda>_.
             seq (tag_span sp TagHttpURL (geturl url)) (\<lambda>_.
             seq (run_lib (lib (Some h))) (\<lambda>res.
             on_return (\<lambda>r. tag_status sp (status_code r)) res)))))))) w)"

definition urllib3_request ::
  "call_env \<Rightarrow> ('r \<Rightarrow> int) \<Rightarrow> (headers \<Rightarrow> ('r, ('l, 'm, 'n) world) call) \<Rightarrow> http_request
     \<Rightarrow> ('r outcome, ('l, 'm, 'n) world) op" where
  "urllib3_request ce status lib rq =
     (let url = sw_urlparse (rq_url rq) in
      seq (if ce_ignored_method ce (rq_method rq) then noop_span
           else exit_span ce (path_or_root (pu_path url)) (pu_netloc url) Urllib3) (\<lambda>sp.
      with_span ce sp (
        seq (span_inject sp) (\<lambda>carrier.
        seq (set_layer sp Http) (\<lambda>_.
        seq (inject_headers carrier (opt_headers (rq_headers rq))) (\<lambda>h.
        seq (tag_span sp TagHttpMethod (upper (rq_method rq))) (\<lambda>_.
        seq (tag_span sp TagHttpURL (geturl url)) (\<lambda>_.
        seq (run_lib (lib h)) (\<lambda>res.
        on_return (\<lambda>r. tag_status sp (status r)) res)))))))))"

text \<open>\<open>sw_urllib3_v2.py\<close>: \<open>install\<close> does nothing when \<open>RequestMethods\<close> exists (urllib3 1.x); the wrapper copies
  the caller's headers, which makes no difference to the value that is passed on.\<close>

definition urllib3_v2_installs :: "bool \<Rightarrow> bool" where
  "urllib3_v2_installs has_RequestMethods = (\<not> has_RequestMethods)"

definition urllib3_v2_request ::
  "call_env \<Rightarrow> ('r \<Rightarrow> int) \<Rightarrow> (headers \<Rightarrow> ('r, ('l, 'm, 'n) world) call) \<Rightarrow> http_request
     \<Rightarrow> ('r outcome, ('l, 'm, 'n) world) op" where
  "urllib3_v2_request ce status lib rq =
     (let url = sw_urlparse (rq_url rq) in
      seq (if ce_ignored_method ce (rq_method rq) then noop_span
           else exit_span ce (path_or_root (pu_path url)) (pu_netloc url) Urllib3) (\<lambda>sp.
      with_span ce sp (
        seq (span_inject sp) (\<lambda>carrier.
        seq (set_layer sp Http) (\<lambda>_.
        seq (inject_headers carrier (opt_headers (rq_headers rq))) (\<lambda>h.
        seq (tag_span sp TagHttpMethod (upper (rq_method rq))) (\<lambda>_.
        seq (tag_span sp TagHttpURL (geturl url)) (\<lambda>_.
        seq (run_lib (lib h)) (\<lambda>res.
        on_return (\<lambda>r. tag_status sp (status r)) res)))))))))"

section \<open>urllib.request\<close>

text \<open>
  A \<open>Request\<close>: its selector, its method if set, its host - \<open>None\<close> when the URL has none, as in
  \<open>data:,text\<close> - and its headers, which \<open>add_header\<close> keeps under capitalized keys.  \<open>code\<close> is the status the
  wrapper sees (\<open>res.code\<close>, \<open>e.code\<close> of an \<open>HTTPError\<close>, nothing otherwise); \<open>full_url\<close> is read after the call.
\<close>

record open_request =
  or_selector :: string
  or_method :: "string option"
  or_data :: bool
  or_host :: "string option"
  or_headers :: headers

definition add_headers :: "headers \<Rightarrow> headers \<Rightarrow> headers" where
  "add_headers items h = dict_update h (map (\<lambda>(k, v). (capitalize k, v)) items)"

definition open_method :: "open_request \<Rightarrow> string" where
  "open_method rq = (case or_method rq of
     Some m \<Rightarrow> if m = [] then (if or_data rq then ''POST'' else ''GET'') else m
   | None \<Rightarrow> if or_data rq then ''POST'' else ''GET'')"

definition open_path :: "open_request \<Rightarrow> string" where
  "open_path rq = (if or_selector rq = [] then ''/'' else hd (split_on (CHR ''?'') (or_selector rq)))"

text \<open>A span opened with \<open>peer=None\<close>: on an ignored or unsampled request the peer is not stored.\<close>

definition exit_span_to ::
  "call_env \<Rightarrow> string \<Rightarrow> string option \<Rightarrow> component \<Rightarrow> (nat, ('l, 'm, 'n) world) op" where
  "exit_span_to ce op peer cmp =
     (case peer of
        Some p \<Rightarrow> exit_span ce op p cmp
      | None \<Rightarrow> seq (exit_span ce op [] cmp) (\<lambda>sp.
                seq (modify (upd_span sp (\<lambda>s. if sp_class s = NoopSpan then s else s\<lparr>sp_peer := None\<rparr>))) (\<lambda>_. ret sp)))"

definition urllib_open ::
  "call_env \<Rightarrow> ('r outcome \<Rightarrow> int option) \<Rightarrow> ('r outcome \<Rightarrow> string) \<Rightarrow> (headers \<Rightarrow> ('r, ('l, 'm, 'n) world) call)
     \<Rightarrow> open_request \<Rightarrow> ('r outcome, ('l, 'm, 'n) world) op" where
  "urllib_open ce code full_url lib rq =
     (let meth = open_method rq in
      seq (if ce_ignored_method ce meth then noop_span else exit_span_to ce (open_path rq) (or_host rq) General) (\<lambda>sp.
      with_span ce sp (
        seq (span_inject sp) (\<lambda>carrier.
        seq (set_layer sp Http) (\<lambda>_.
        seq (inject_headers carrier []) (\<lambda>items.
        seq (run_lib (lib (add_headers items (or_headers rq)))) (\<lambda>res.
        seq (tag_span sp TagHttpMethod meth) (\<lambda>_.
        seq (tag_span sp TagHttpURL (full_url res)) (\<lambda>_.
        seq (case code res of None \<Rightarrow> ret () | Some c \<Rightarrow> tag_status sp c) (\<lambda>_.
        ret res))))))))))"

section \<open>httpx\<close>

record httpx_request =
  hx_method :: string
  hx_path :: string
  hx_netloc :: string
  hx_text :: string
  hx_username :: string
  hx_password :: string
  hx_headers :: headers

text \<open>\<open>s.replace(old, '')\<close>.\<close>

function remove_all :: "string \<Rightarrow> string \<Rightarrow> string" where
  "remove_all old s =
     (if old = [] \<or> s = [] then s
      else if starts_with s old then remove_all old (drop (length old) s)
      else hd s # remove_all old (tl s))"
  by pat_completeness auto
termination
  by (relation "measure (length \<circ> snd)") auto

declare remove_all.simps [simp del]

definition url_safe :: "httpx_request \<Rightarrow> string" where
  "url_safe rq = remove_all (hx_password rq) (remove_all (hx_username rq) (hx_text rq))"

definition httpx_send ::
  "call_env \<Rightarrow> ('r \<Rightarrow> int) \<Rightarrow> (headers \<Rightarrow> ('r, ('l, 'm, 'n) world) call) \<Rightarrow> httpx_request
     \<Rightarrow> ('r outcome, ('l, 'm, 'n) world) op" where
  "httpx_send ce status_code lib rq =
     seq (if ce_ignored_method ce (hx_method rq) then noop_span
          else exit_span ce (path_or_root (hx_path rq)) (hx_netloc rq) HTTPX) (\<lambda>sp.
     with_span ce sp (
       seq (span_inject sp) (\<lambda>carrier.
       seq (set_layer sp Http) (\<lambda>_.
       seq (inject_headers carrier (hx_headers rq)) (\<lambda>h.
       seq (tag_span sp TagHttpMethod (upper (hx_method rq))) (\<lambda>_.
       seq (tag_span sp TagHttpURL (url_safe rq)) (\<lambda>_.
       seq (run_lib (lib h)) (\<lambda>res.
       on_return (\<lambda>r. tag_status sp (status_code r)) res))))))))"

text \<open>\<open>_sw_async_send\<close> is the same text with one \<open>await\<close>: the task's stack is the thread's of the model.\<close>

definition httpx_async_send ::
  "call_env \<Rightarrow> ('r \<Rightarrow> int) \<Rightarrow> (headers \<Rightarrow> ('r, ('l, 'm, 'n) world) call) \<Rightarrow> httpx_request
     \<Rightarrow> ('r outcome, ('l, 'm, 'n) world) op" where
  "httpx_async_send = httpx_send"

section \<open>aiohttp client\<close>

text \<open>
  The \<open>headers\<close> argument: absent, a plain mapping (copied into a \<open>CIMultiDict\<close>), a \<open>MultiDict\<close> that is used as
  it is, or a read-only \<open>MultiDictProxy\<close>, which has no \<open>add\<close>.  \<open>add\<close> appends, it does not overwrite.
\<close>

datatype given_headers = NoHeaders | PlainHeaders headers | MultiHeaders headers | ProxyHeaders headers

record aio_request =
  ar_method :: string
  ar_host :: "string option"
  ar_port :: "int option"
  ar_path :: string
  ar_url :: string
  ar_headers :: given_headers

definition f_host :: "string option \<Rightarrow> string" where
  "f_host h = (case h of None \<Rightarrow> ''None'' | Some s \<Rightarrow> s)"

definition f_port :: "int option \<Rightarrow> string" where
  "f_port p = (case p of None \<Rightarrow> ''None'' | Some n \<Rightarrow> str_of_int n)"

definition aio_peer :: "aio_request \<Rightarrow> string" where
  "aio_peer rq = (case ar_host rq of None \<Rightarrow> [] | Some h \<Rightarrow> h) @ '':''
     @ (case ar_port rq of None \<Rightarrow> [] | Some p \<Rightarrow> if p = 0 then [] else str_of_int p)"

fun multi_add :: "headers \<Rightarrow> given_headers \<Rightarrow> headers res" where
  "multi_add items NoHeaders = Inr items"
| "multi_add items (PlainHeaders h) = Inr (h @ items)"
| "multi_add items (MultiHeaders h) = Inr (h @ items)"
| "multi_add items (ProxyHeaders h) = Inl AttributeError"

definition aiohttp_request ::
  "call_env \<Rightarrow> ('r \<Rightarrow> int) \<Rightarrow> (headers option \<Rightarrow> ('r, ('l, 'm, 'n) world) call) \<Rightarrow> aio_request
     \<Rightarrow> ('r outcome, ('l, 'm, 'n) world) op" where
  "aiohttp_request ce status lib rq w =
     (if own_request (f_host (ar_host rq) @ '':'' @ f_port (ar_port rq)) (w_cfg w) then run_lib (lib None) w
      else seq (if ce_ignored_method ce (ar_method rq) then noop_span
                else exit_span ce (path_or_root (ar_path rq)) (aio_peer rq) AioHttp) (\<lambda>sp.
           with_span ce sp (
             seq (set_layer sp Http) (\<lambda>_.
             seq (tag_span sp TagHttpMethod (upper (ar_method rq))) (\<lambda>_.
             seq (tag_span sp TagHttpURL (ar_url rq)) (\<lambda>_.
             seq (span_inject sp) (\<lambda>carrier.
             seq (inject_headers carrier []) (\<lambda>items.
             seq (lift_res (multi_add items (ar_headers rq))) (\<lambda>h.
             seq (run_lib (lib (Some h))) (\<lambda>res.
             on_return (\<lambda>r. tag_status sp (status r)) res))))))))) w)"

section \<open>websockets\<close>

record ws_uri =
  ws_host :: string
  ws_port :: int
  ws_path :: string
  ws_secure :: bool

definition ws_peer :: "ws_uri \<Rightarrow> string" where
  "ws_peer u = ws_host u @ '':'' @ str_of_int (ws_port u)"

definition ws_url :: "ws_uri \<Rightarrow> string" where
  "ws_url u = (if ws_secure u then ''wss'' else ''ws'') @ ''://'' @ ws_peer u @ ws_path u"

text \<open>\<open>try: await ... except Exception as e: ... raise e finally: ...\<close>; \<open>str_exc\<close> gives \<open>str(e)\<close>.\<close>

definition ws_finish ::
  "real \<Rightarrow> (string \<Rightarrow> string) \<Rightarrow> nat \<Rightarrow> 'r outcome \<Rightarrow> ('r outcome, ('l, 'm, 'n) world) op" where
  "ws_finish import_time str_exc sp res =
     (case res of
        Raised tb \<Rightarrow>
          seq (set_error sp) (\<lambda>_.
          seq (modify (upd_span sp (span_log import_time (str_exc tb)))) (\<lambda>_.
          seq (tag_span sp TagHttpStatusMsg ''invalid handshake'') (\<lambda>_. ret res)))
      | _ \<Rightarrow> seq (tag_span sp TagHttpStatusMsg ''connection open'') (\<lambda>_. ret res))"

definition ws_handshake ::
  "call_env \<Rightarrow> (string \<Rightarrow> string) \<Rightarrow> (headers \<Rightarrow> ('r, ('l, 'm, 'n) world) call) \<Rightarrow> ws_uri \<times> headers
     \<Rightarrow> ('r outcome, ('l, 'm, 'n) world) op" where
  "ws_handshake ce str_exc lib rq =
     (case rq of (uri, headers) \<Rightarrow>
        seq (exit_span ce (path_or_root (ws_path uri)) (ws_peer uri) Websockets) (\<lambda>sp.
        with_span ce sp (
          seq (span_inject sp) (\<lambda>carrier.
          seq (set_layer sp Http) (\<lambda>_.
          seq (inject_headers carrier headers) (\<lambda>h.
          seq (tag_span sp TagHttpMethod ''websocket.connect'') (\<lambda>_.
          seq (tag_span sp TagHttpURL (ws_url uri)) (\<lambda>_.
          seq (run_lib (lib h)) (\<lambda>res.
          ws_finish (te_import_time (ce_end ce)) str_exc sp res)))))))))"

text \<open>
  The legacy handshake writes into \<open>self.extra_headers\<close>; it is replaced by an empty dictionary only when
  neither the argument nor the attribute is set, so an argument without the attribute fails.
\<close>

definition ws_legacy_handshake ::
  "call_env \<Rightarrow> (string \<Rightarrow> string) \<Rightarrow> (headers \<Rightarrow> ('r, ('l, 'm, 'n) world) call)
     \<Rightarrow> ws_uri \<times> headers option \<times> headers option \<Rightarrow> ('r outcome, ('l, 'm, 'n) world) op" where
  "ws_legacy_handshake ce str_exc lib rq =
     (case rq of (uri, extra, own) \<Rightarrow>
        seq (exit_span ce (path_or_root (ws_path uri)) (ws_peer uri) Websockets) (\<lambda>sp.
        with_span ce sp (
          seq (span_inject sp) (\<lambda>carrier.
          seq (set_layer sp Http) (\<lambda>_.
          seq (lift_res (if opt_headers extra = [] \<and> opt_headers own = [] then Inr []
                         else case own of None \<Rightarrow> Inl TypeError | Some d \<Rightarrow> Inr d)) (\<lambda>d.
          seq (inject_headers carrier d) (\<lambda>h.
          seq (tag_span sp TagHttpMethod ''websocket.connect'') (\<lambda>_.
          seq (tag_span sp TagHttpURL (ws_url uri)) (\<lambda>_.
          seq (run_lib (lib h)) (\<lambda>res.
          ws_finish (te_import_time (ce_end ce)) str_exc sp res))))))))))"

section \<open>The contract\<close>

definition opt_carries :: "headers option \<Rightarrow> headers option \<Rightarrow> bool" where
  "opt_carries h h' = (h' = h \<or> (\<exists>d. h' = Some d \<and> carries (opt_headers h) d))"

lemma urllib3_keeps:
  assumes "same_thread t ce" and "lib_ok t lib"
  shows "keeps t False (\<lambda>_. True) (urllib3_request ce st lib rq) (\<lambda>r _. called t (carries (opt_headers (rq_headers rq))) lib r)"
  unfolding urllib3_request_def Let_def
  by (intro keeps_block keeps_if keeps_noop_span keeps_exit_span exit_body_rules assms)

lemma requests_keeps:
  assumes "same_thread t ce" and "lib_ok t lib"
  shows "keeps t False (\<lambda>_. True) (requests_request ce st lib rq) (\<lambda>r _. called t (opt_carries (rq_headers rq)) lib r)"
  unfolding requests_request_def [abs_def] Let_def
  by (intro keeps_branch keeps_block keeps_if keeps_noop_span keeps_exit_span exit_body_rules assms) (simp_all add: opt_carries_def)


lemma urllib3_v2_keeps:
  assumes "same_thread t ce" and "lib_ok t lib"
  shows "keeps t False (\<lambda>_. True) (urllib3_v2_request ce st lib rq) (\<lambda>r _. called t (carries (opt_headers (rq_headers rq))) lib r)"
  unfolding urllib3_v2_request_def Let_def
  by (intro keeps_block keeps_if keeps_noop_span keeps_exit_span exit_body_rules assms)

lemma httpx_keeps:
  assumes "same_thread t ce" and "lib_ok t lib"
  shows "keeps t False (\<lambda>_. True) (httpx_send ce st lib rq) (\<lambda>r _. called t (carries (hx_headers rq)) lib r)"
  unfolding httpx_send_def
  by (intro keeps_block keeps_if keeps_noop_span keeps_exit_span exit_body_rules assms)

definition capitalized_carries :: "headers \<Rightarrow> headers \<Rightarrow> bool" where
  "capitalized_carries h h' = (\<exists>items. carries [] items \<and> h' = add_headers items h)"

lemma urllib_keeps:
  assumes "same_thread t ce" and "lib_ok t lib" and "or_host rq = Some host"
  shows "keeps t False (\<lambda>_. True) (urllib_open ce code full lib rq) (\<lambda>r _. called t (capitalized_carries (or_headers rq)) lib r)"
  unfolding urllib_open_def Let_def exit_span_to_def assms(3) option.case
  by (intro keeps_block keeps_if keeps_noop_span keeps_exit_span exit_body_rules assms
      keeps_do [OF keeps_option [OF keeps_status_exit] stable_injectable] keeps_ret) (auto simp: capitalized_carries_def)

lemma ws_finish_keeps: "R res \<Longrightarrow> keeps t may (injectable sp) (ws_finish it se sp res) (\<lambda>r _. R r)"
proof -
  assume "R res"
  have log: "keeps t may P (modify (upd_span sp (span_log it x))) (\<lambda>_ _. True)" for P x
    by (rule keeps_pre [OF keeps_upd_span]) (simp_all add: span_log_def same_span_def)
  show ?thesis unfolding ws_finish_def
    by (cases res) (use \<open>R res\<close> in \<open>auto intro!: exit_body_rules keeps_ret keeps_do [OF log stable_injectable]\<close>)
qed

lemma ws_keeps:
  assumes "same_thread t ce" and "lib_ok t lib"
  shows "keeps t False (\<lambda>_. True) (ws_handshake ce se lib rq) (\<lambda>r _. called t (carries (snd rq)) lib r)"
proof (cases rq)
  case (Pair uri h)
  show ?thesis unfolding ws_handshake_def Pair prod.case snd_conv
    by (intro keeps_block keeps_exit_span exit_body_rules ws_finish_keeps assms)
qed


definition aio_carries :: "given_headers \<Rightarrow> headers option \<Rightarrow> bool" where
  "aio_carries g h' = (h' = None \<or> (\<exists>items h. carries [] items \<and> multi_add items g = Inr h \<and> h' = Some h))"

lemma aiohttp_keeps:
  assumes "same_thread t ce" and "lib_ok t lib"
  shows "keeps t True (\<lambda>_. True) (aiohttp_request ce st lib rq) (\<lambda>r _. called t (aio_carries (ar_headers rq)) lib r)"
  unfolding aiohttp_request_def [abs_def]
  by (intro keeps_branch keeps_block keeps_if keeps_noop_span keeps_exit_span exit_body_rules assms
      keeps_then [OF keeps_lift stable_injectable]) (auto simp: aio_carries_def)

definition own_carries :: "headers option \<Rightarrow> headers \<Rightarrow> bool" where
  "own_carries h h' = carries (opt_headers h) h'"

lemma ws_legacy_keeps:
  assumes "same_thread t ce" and "lib_ok t lib"
  shows "keeps t True (\<lambda>_. True) (ws_legacy_handshake ce se lib rq) (\<lambda>r _. called t (own_carries (snd (snd rq))) lib r)"
proof -
  obtain uri extra own where rq: "rq = (uri, extra, own)" by (metis prod.exhaust)
  have d: "(if opt_headers extra = [] \<and> opt_headers own = [] then Inr [] else case own of None \<Rightarrow> Inl TypeError | Some d \<Rightarrow> Inr d) = Inr d
      \<Longrightarrow> carries d h \<Longrightarrow> own_carries own h" for d h
    by (auto simp: own_carries_def opt_headers_def split: if_splits option.splits)
  show ?thesis unfolding ws_legacy_handshake_def rq prod.case snd_conv
    by (intro keeps_block keeps_exit_span keeps_then [OF keeps_run_lib [where C = "own_carries own"] stable_injectable]
        exit_body_rules ws_finish_keeps assms keeps_then [OF keeps_lift stable_injectable]) (assumption | erule (1) d)+
qed

text \<open>Every client plugin keeps the promise on every thread.\<close>

interpretation requests: instrumented t False "\<lambda>rq. opt_carries (rq_headers rq)" "requests_request (on_thread t ce) st" for t ce st
  by unfold_locales (simp add: requests_keeps)

interpretation urllib3: instrumented t False "\<lambda>rq. carries (opt_headers (rq_headers rq))" "urllib3_request (on_thread t ce) st" for t ce st
  by unfold_locales (simp add: urllib3_keeps)

interpretation urllib3_v2: instrumented t False "\<lambda>rq. carries (opt_headers (rq_headers rq))" "urllib3_v2_request (on_thread t ce) st" for t ce st
  by unfold_locales (simp add: urllib3_v2_keeps)

interpretation urllib: instrumented t False "\<lambda>rq. capitalized_carries (or_headers (fst rq))"
    "\<lambda>lib rq. urllib_open (on_thread t ce) code full lib ((fst rq)\<lparr>or_host := Some (snd rq)\<rparr>)" for t ce code full
proof unfold_locales
  fix lib :: "headers \<Rightarrow> ('d, ('a, 'b, 'c) world) call" and rq :: "open_request \<times> string"
  assume "lib_ok t lib"
  from urllib_keeps [OF on_thread_same this, of "(fst rq)\<lparr>or_host := Some (snd rq)\<rparr>" "snd rq" ce code full]
  show "keeps t False (\<lambda>_. True) (urllib_open (on_thread t ce) code full lib ((fst rq)\<lparr>or_host := Some (snd rq)\<rparr>))
      (\<lambda>r _. called t (capitalized_carries (or_headers (fst rq))) lib r)" by simp
qed

interpretation httpx: instrumented t False "\<lambda>rq. carries (hx_headers rq)" "httpx_send (on_thread t ce) st" for t ce st
  by unfold_locales (simp add: httpx_keeps)

interpretation aiohttp: instrumented t True "\<lambda>rq. aio_carries (ar_headers rq)" "aiohttp_request (on_thread t ce) st" for t ce st
  by unfold_locales (simp add: aiohttp_keeps)

interpretation websockets: instrumented t False "\<lambda>rq. carries (snd rq)" "ws_handshake (on_thread t ce) se" for t ce se
  by unfold_locales (simp add: ws_keeps)

interpretation ws_legacy: instrumented t True "\<lambda>rq. own_carries (snd (snd rq))" "ws_legacy_handshake (on_thread t ce) se" for t ce se
  by unfold_locales (simp add: ws_legacy_keeps)


section \<open>What is recorded\<close>

lemma inject_exit:
  assumes "calm t w" and "injectable sp w" and "sp_class (sp_of w sp) = ExitSpan"
  shows "\<exists>c. span_inject sp w = (Inr c, w) \<and> sendable c"
proof -
  have ok: "wok 0 0 0 w" and sp: "sp < length (w_spans w)" using assms by (simp_all add: calm_def injectable_def)
  obtain cr where "carrier_of sp w = (Inr cr, w)" using carrier_of_result [OF ok sp] by blast
  with keepsD [OF keeps_inject assms(1,2), of False] assms(3) show ?thesis by (auto simp: span_inject_def)
qed

text \<open>C8. A traced request is recorded as it happened: the exit span that \<open>requests\<close> opens - when it is not
  a no-op - ends with the path, the network location without credentials, the method, the URL and
  the status of the response, its error flag is set when the status is 400 or more and untouched
  otherwise, and the application gets the response.\<close>

theorem http_request_recorded:
  assumes thr: "same_thread t ce" and w: "calm t w" and lib: "lib_ok t lib"
    and ret: "\<And>h v. fst (lib h v) = Returned r \<and> w_spans (snd (lib h v)) = w_spans v"
    and url: "url = sw_urlparse (rq_url rq)" "\<not> own_request (pu_netloc url) (w_cfg w)" "\<not> ce_ignored_method ce (rq_method rq)"
    and opn: "exit_span ce (path_or_root (pu_path url)) (pu_netloc url) Requests w = (Inr sp, w1)" "sp_class (sp_of w1 sp) \<noteq> NoopSpan"
  shows "\<exists>w'. requests_request ce status lib rq w = (Inr (Returned r), w')
     \<and> sp_op (sp_of w' sp) = Some (path_or_root (pu_path url)) \<and> sp_peer (sp_of w' sp) = Some (pu_netloc url)
     \<and> sp_component (sp_of w' sp) = Requests \<and> sp_layer (sp_of w' sp) = Http
     \<and> dict_get (sp_tags (sp_of w' sp)) ''http.method'' = Some (OneTag (Tag_init TagHttpMethod (upper (rq_method rq))))
     \<and> dict_get (sp_tags (sp_of w' sp)) ''http.url'' = Some (OneTag (Tag_init TagHttpURL (geturl url)))
     \<and> dict_get (sp_tags (sp_of w' sp)) ''http.status_code'' = Some (OneTag (Tag_init TagHttpStatusCode (str_of_int (status r))))
     \<and> sp_error_occurred (sp_of w' sp) = (400 \<le> status r \<or> sp_error_occurred (sp_of w1 sp))"
proof -
  let ?body = "seq (span_inject sp) (\<lambda>carrier.
             seq (set_layer sp Http) (\<lambda>_.
             seq (inject_headers carrier (opt_headers (rq_headers rq))) (\<lambda>h.
             seq (tag_span sp TagHttpMethod (upper (rq_method rq))) (\<lambda>_.
             seq (tag_span sp TagHttpURL (geturl url)) (\<lambda>_.
             seq (run_lib (lib (Some h))) (\<lambda>res.
             on_return (\<lambda>r. tag_status sp (status r)) res))))))"
  let ?v = "span_start (ce_start ce) sp w1"
  from exit_span_ok [OF w thr, of "path_or_root (pu_path url)" "pu_netloc url" Requests] opn
  have w1: "calm t w1" "openable t sp w1" "injectable sp w1" "describes sp (path_or_root (pu_path url)) (pu_netloc url) Requests w1"
    by auto
  have cls: "sp_class (sp_of w1 sp) = ExitSpan" using w1(3) opn(2) by (auto simp: injectable_def)
  have sp: "sp < length (w_spans w1)" using w1(2) by (simp add: openable_def)
  have start: "same_data (sp_of w1 sp) (sp_of ?v sp)" using cls by (intro same_data_start) simp
  have spv: "sp < length (w_spans ?v)" using sp by (simp add: span_start_known)
  have tid: "te_tid (ce_start ce) = t" using thr by (simp add: same_thread_def)
  obtain c where c: "span_inject sp ?v = (Inr c, ?v)" "sendable c"
    using inject_exit [OF calm_start [OF w1(1) tid w1(2)] injectable_start [OF w1(3)]] start cls by (auto simp: same_data_def)
  have body: "keeps t False (injectable sp) ?body (\<lambda>r _. called t (opt_carries (rq_headers rq)) lib r)"
    by (intro exit_body_rules lib) (simp_all add: opt_carries_def)
  let ?v1 = "upd_span sp (\<lambda>s. s\<lparr>sp_layer := Http\<rparr>) ?v"
  let ?v3 = "upd_span sp (\<lambda>s. s\<lparr>sp_tags := dict_set ''http.url'' (OneTag (Tag_init TagHttpURL (geturl url))) (sp_tags s)\<rparr>)
    (upd_span sp (\<lambda>s. s\<lparr>sp_tags := dict_set ''http.method'' (OneTag (Tag_init TagHttpMethod (upper (rq_method rq)))) (sp_tags s)\<rparr>) ?v1)"
  obtain h where h: "inject_headers c (opt_headers (rq_headers rq)) ?v1 = (Inr h, ?v1)"
    using inject_headers_total [OF c(2)] by blast
  obtain v4 where v4: "lib (Some h) ?v3 = (Returned r, v4)" "w_spans v4 = w_spans ?v3"
    using ret [of "Some h" ?v3] by (cases "lib (Some h) ?v3") auto
  let ?f = "\<lambda>s. s\<lparr>sp_tags := dict_set ''http.status_code'' (OneTag (Tag_init TagHttpStatusCode (str_of_int (status r)))) (sp_tags s)\<rparr>"
  let ?v5 = "if 400 \<le> status r then upd_span sp (\<lambda>s. s\<lparr>sp_error_occurred := True\<rparr>) (upd_span sp ?f v4) else upd_span sp ?f v4"
  have run: "?body ?v = (Inr (Returned r), ?v5)"
    using c(1) h v4(1)
    by (simp add: seq_def set_layer_def tag_span_over run_lib_def on_return_def tag_status_def when_op_def set_error_def)
  from with_span_records [OF thr w1(1-3) body run] obtain w' where
    w': "with_span ce sp ?body w1 = (Inr (Returned r), w')" "same_data (sp_of ?v5 sp) (sp_of w' sp)" by blast
  have "requests_request ce status lib rq w = (Inr (Returned r), w')"
    using url opn(1) w'(1) by (simp add: requests_request_def Let_def seq_def)
  moreover have "sp_of ?v5 sp = ((sp_of ?v sp)\<lparr>sp_layer := Http, sp_error_occurred := (400 \<le> status r \<or> sp_error_occurred (sp_of ?v sp)),
     sp_tags := dict_set ''http.status_code'' (OneTag (Tag_init TagHttpStatusCode (str_of_int (status r))))
       (dict_set ''http.url'' (OneTag (Tag_init TagHttpURL (geturl url)))
       (dict_set ''http.method'' (OneTag (Tag_init TagHttpMethod (upper (rq_method rq)))) (sp_tags (sp_of ?v sp))))\<rparr>)"
    using spv v4(2) by (simp add: upd_span_at)
  ultimately show ?thesis
    using w'(2) start w1(4) opn(2) by (auto simp: same_data_def describes_def update_conv')
qed


theorem http_request_recorded_witness:
  "\<forall>c :: config. \<exists>w'. requests_request demo_call id (quiet_lib 404)
       \<lparr>rq_method = ''get'', rq_url = \<lparr>pu_netloc = ''me:pw@h:80'', pu_path = [], pu_geturl = (\<lambda>n. ''http://'' @ n)\<rparr>, rq_headers = None\<rparr>
       (demo_world (c\<lparr>agent_protocol := ''grpc''\<rparr>)) = (Inr (Returned 404), w')
     \<and> sp_peer (sp_of w' 1) = Some ''h:80'' \<and> sp_op (sp_of w' 1) = Some ''/'' \<and> sp_error_occurred (sp_of w' 1)"
proof
  fix c :: config
  let ?c = "c\<lparr>agent_protocol := ''grpc''\<rparr>"
  let ?rq = "\<lparr>rq_method = ''get'', rq_url = \<lparr>pu_netloc = ''me:pw@h:80'', pu_path = [], pu_geturl = (\<lambda>n. ''http://'' @ n)\<rparr>, rq_headers = None\<rparr>"
  have net: "pu_netloc (sw_urlparse (rq_url ?rq)) = ''h:80''" "pu_path (sw_urlparse (rq_url ?rq)) = []"
    by (simp_all add: sw_urlparse_def) code_simp
  have own: "\<not> own_request (pu_netloc (sw_urlparse (rq_url ?rq))) (w_cfg (demo_world ?c))"
    by (simp add: own_request_def demo_world_eq demo_agent_def SkyWalkingAgent_init_def)
  obtain w1 where w1: "exit_span demo_call ''/'' ''h:80'' Requests (demo_world ?c) = (Inr 1, w1)" "sp_class (sp_of w1 1) = ExitSpan"
    using demo_exit_span by blast
  have op: "exit_span demo_call (path_or_root (pu_path (sw_urlparse (rq_url ?rq)))) (pu_netloc (sw_urlparse (rq_url ?rq))) Requests
      (demo_world ?c) = (Inr 1, w1)" unfolding net using w1(1) by (simp add: path_or_root_def)
  from http_request_recorded [OF demo_same_thread demo_calm quiet_lib_ok [of 0 "404 :: int"] _ refl own _ op, of 404 id] w1(2) net
  show "\<exists>w'. requests_request demo_call id (quiet_lib 404) ?rq (demo_world ?c) = (Inr (Returned 404), w')
     \<and> sp_peer (sp_of w' 1) = Some ''h:80'' \<and> sp_op (sp_of w' 1) = Some ''/'' \<and> sp_error_occurred (sp_of w' 1)"
    by (auto simp: quiet_lib_def path_or_root_def demo_call_def)
qed




text \<open>A URL without a host breaks \<open>urllib.request\<close>: for \<open>data:,text\<close> and the like the exit span has no
  peer, writing the propagation header fails, and \<open>urlopen\<close> raises \<open>AttributeError\<close> without having
  called the library - the span is closed all the same.\<close>

theorem hostless_url_raises:
  assumes thr: "same_thread t ce" and w: "calm t w" and rq: "or_host rq = None" "\<not> ce_ignored_method ce (open_method rq)"
    and opn: "exit_span ce (open_path rq) [] General w = (Inr sp, w1)" "sp_class (sp_of w1 sp) \<noteq> NoopSpan"
  shows "\<exists>w'. urllib_open ce code full_url lib rq w = (Inl AttributeError, w') \<and> w_stacks w' t = w_stacks w t"
proof -
  let ?g = "\<lambda>s. if sp_class s = NoopSpan then s else s\<lparr>sp_peer := None\<rparr>"
  let ?w2 = "upd_span sp ?g w1" let ?w3 = "span_start (ce_start ce) sp ?w2" let ?w4 = "upd_span sp (\<lambda>s. s\<lparr>sp_layer := Http\<rparr>) ?w3"
  have tid: "te_tid (ce_start ce) = t" using thr by (simp add: same_thread_def)
  from exit_span_ok [OF w thr, of "open_path rq" "[]" General] opn(1)
  have w1: "calm t w1" "frame t w w1" "openable t sp w1" "injectable sp w1" by auto
  have sp: "sp < length (w_spans w1)" and cls: "sp_class (sp_of w1 sp) = ExitSpan"
    using w1(3,4) opn(2) by (auto simp: openable_def injectable_def)
  have "wok 0 0 0 ?w2" using w1(1) by (simp add: calm_def wok_upd_span)
  moreover have "live t ?w2" using w1(1) by (simp add: calm_def live_def upd_span_at)
  moreover have "\<forall>s \<in> set (w_spans ?w2). span_fine s" using w1(1) by (intro fine_upd) (simp_all add: calm_def)
  ultimately have c2: "calm t ?w2" using w1(1) by (simp add: calm_def)
  have o2: "openable t sp ?w2" using w1(3) by (simp add: openable_def upd_span_at)
  have c3: "calm t ?w3" using calm_start [OF c2 tid o2] .
  obtain r w4 where 4: "set_layer sp Http ?w3 = (r, w4)" "calm t w4" "frame t ?w3 w4"
    using keepsD [OF keeps_set(1) [of t False "\<lambda>_. True" sp Http] c3] by auto
  then have w4: "w4 = ?w4" by (simp add: set_layer_def)
  have s3: "sp_class (sp_of ?w3 sp) = ExitSpan" "sp_peer (sp_of ?w3 sp) = None" "sp < length (w_spans ?w3)"
    using cls sp by (simp_all add: span_start_known upd_span_at)
  obtain cr where cr: "carrier_of sp ?w3 = (Inr cr, ?w3)" using carrier_of_result [of 0 0 0 ?w3 sp] c3 s3(3) by (auto simp: calm_def)
  then have "c_client_address cr = None"
    using s3(2) by (auto simp: carrier_of_def seq_def first_related_def Carrier_init_def split: list.splits)
  then have hd: "inject_headers cr [] ?w4 = (Inl AttributeError, ?w4)"
    by (simp add: inject_headers_def carrier_items_def Carrier_get_val_def recarry_def split: option.split)
  from span_exit_back [OF c2 o2 thr 4(2,3), of "ExceptionExit []"] obtain b w' where
    w': "span_exit (ce_end ce) (ExceptionExit []) sp ?w4 = (Inr b, w')" "frame t ?w2 w'" unfolding w4 by blast
  have "urllib_open ce code full_url lib rq w = (Inl AttributeError, w')"
    using rq opn(1) s3(1) cr hd w'(1)
    by (simp add: urllib_open_def Let_def exit_span_to_def seq_def with_span_def span_inject_def set_layer_def)
  moreover have "w_stacks w' t = w_stacks w t" using w'(2) w1(2) by (simp add: frame_def)
  ultimately show ?thesis by blast
qed

theorem hostless_url_raises_witness:
  "\<forall>c lib. \<exists>w'. urllib_open demo_call (\<lambda>_. None) (\<lambda>_ :: int outcome. []) lib
       \<lparr>or_selector = '',x'', or_method = None, or_data = False, or_host = None, or_headers = []\<rparr> (demo_world c)
       = (Inl AttributeError, w') \<and> w_stacks w' 0 = [0]"
proof (intro allI)
  fix c and lib :: "headers \<Rightarrow> (int, (unit, unit, unit) world) call"
  let ?rq = "\<lparr>or_selector = '',x'', or_method = None, or_data = False, or_host = None, or_headers = []\<rparr>"
  obtain w1 where "exit_span demo_call (open_path ?rq) [] General (demo_world c) = (Inr 1, w1)" "sp_class (sp_of w1 1) = ExitSpan"
    using demo_exit_span by blast
  with hostless_url_raises [OF demo_same_thread demo_calm, of ?rq c 1 w1 "\<lambda>_. None" "\<lambda>_. []" lib]
  show "\<exists>w'. urllib_open demo_call (\<lambda>_. None) (\<lambda>_. []) lib ?rq (demo_world c) = (Inl AttributeError, w') \<and> w_stacks w' 0 = [0]"
    by (simp add: demo_world_eq demo_call_def)
qed

end
