(* ===== verification/HttpServers.thy ===== *)
theory HttpServers
  imports Instrument
begin

text \<open>
  The plugins for HTTP servers: \<open>sw_flask.py\<close>, \<open>sw_bottle.py\<close>, \<open>sw_django.py\<close>, \<open>sw_falcon.py\<close>,
  \<open>sw_falcon_v3.py\<close>, \<open>sw_pyramid.py\<close>, \<open>sw_fastapi.py\<close>, \<open>sw_sanic.py\<close>, \<open>sw_sanic_v2.py\<close>, \<open>sw_tornado.py\<close>, the server
  half of \<open>sw_aiohttp.py\<close> and \<open>sw_http_server.py\<close>.  Each reads the propagation headers of a request, opens
  an entry span, and lets the framework handle the request inside it.  The framework is the
  library; of a request we keep what the plugins read.
\<close>

section \<open>Requests\<close>

text \<open>\<open>sv_header\<close> is the framework's header lookup, \<open>sv_environ\<close> its environment; parameters are the keys
  with the values of \<open>getlist\<close>.\<close>

record server_request =
  sv_method :: string
  sv_path :: string
  sv_url :: string
  sv_header :: "string \<Rightarrow> string option"
  sv_environ :: "string \<Rightarrow> string option"
  sv_params :: "(string \<times> string list) list"
  sv_client :: "(string \<times> string) option"

definition params_tostring :: "(string \<times> string list) list \<Rightarrow> string" where
  "params_tostring ps = join_with [CHR 0x0A] (map (\<lambda>(k, vs). k @ ''=['' @ join_with '','' vs @ '']'') ps)"

definition before_query :: "string \<Rightarrow> string" where
  "before_query url = hd (split_on (CHR ''?'') url)"

definition capital_header :: "server_request \<Rightarrow> string \<Rightarrow> string option" where
  "capital_header rq key = sv_header rq (capitalize key)"

definition tag_params :: "nat \<Rightarrow> bool \<Rightarrow> server_request \<Rightarrow> config \<Rightarrow> (unit, ('l, 'm, 'n) world) op" where
  "tag_params sp collect rq c =
     when_op (collect \<and> sv_params rq \<noteq> [])
       (tag_span sp TagHttpParams (py_prefix (plugin_http_http_params_length_threshold c) (params_tostring (sv_params rq))))"

definition environ_peer :: "server_request \<Rightarrow> string option" where
  "environ_peer rq =
     (case (sv_environ rq ''REMOTE_ADDR'', sv_environ rq ''REMOTE_PORT'') of
        (Some a, Some p) \<Rightarrow> Some (a @ '':'' @ p)
      | _ \<Rightarrow> None)"

text \<open>The span of a request: a no-op for an ignored method.\<close>

definition request_span ::
  "call_env \<Rightarrow> server_request \<Rightarrow> nat carrier \<Rightarrow> component option \<Rightarrow> (nat, ('l, 'm, 'n) world) op" where
  "request_span ce rq carrier inherit =
     (if ce_ignored_method ce (sv_method rq) then noop_span else entry_span ce (sv_path rq) (Some carrier) inherit)"

section \<open>Flask and Bottle\<close>

definition flask_dispatch ::
  "call_env \<Rightarrow> ('r \<Rightarrow> int) \<Rightarrow> (unit \<Rightarrow> ('r, ('l, 'm, 'n) world) call) \<Rightarrow> server_request
     \<Rightarrow> ('r outcome, ('l, 'm, 'n) world) op" where
  "flask_dispatch ce status_code lib rq =
     seq (extract_headers (capital_header rq)) (\<lambda>carrier.
     seq (request_span ce rq carrier (Some General)) (\<lambda>sp.
     with_span ce sp (
       seq (set_layer sp Http) (\<lambda>_.
       seq (set_component sp Flask) (\<lambda>_.
       seq (case environ_peer rq of None \<Rightarrow> ret () | Some p \<Rightarrow> set_peer sp p) (\<lambda>_.
       seq (tag_span sp TagHttpMethod (sv_method rq)) (\<lambda>_.
       seq (tag_span sp TagHttpURL (before_query (sv_url rq))) (\<lambda>_.
       seq (gets w_cfg) (\<lambda>c.
       seq (tag_params sp (plugin_flask_collect_http_params c) rq c) (\<lambda>_.
       seq (run_lib (lib ())) (\<lambda>res.
       on_return (\<lambda>r. seq (when_op (status_code r \<ge> 400) (set_error sp)) (\<lambda>_.
                      tag_span sp TagHttpStatusCode (str_of_int (status_code r)))) res)))))))))))"

text \<open>
  \<open>handle_user_exception\<close>, \<open>handle_exception\<close> (and Sanic's \<open>ErrorHandler.response\<close>): the active span, if it is
  a real one, records the exception whose traceback is \<open>tb\<close>; then the framework's handler runs.
\<close>

definition mark_raised :: "trace_env \<Rightarrow> bool \<Rightarrow> string \<Rightarrow> (unit, ('l, 'm, 'n) world) op" where
  "mark_raised e real_only tb =
     seq (get_context e) (\<lambda>_.
     seq (active_span e) (\<lambda>act.
     case act of
       None \<Rightarrow> ret ()
     | Some sp \<Rightarrow> modify (\<lambda>w. if real_only \<and> sp_class (sp_of w sp) = NoopSpan then w
                             else upd_span sp (span_raised (te_import_time e) tb) w)))"

definition flask_handle_exception ::
  "call_env \<Rightarrow> (unit \<Rightarrow> ('r, ('l, 'm, 'n) world) call) \<Rightarrow> string option \<Rightarrow> ('r outcome, ('l, 'm, 'n) world) op" where
  "flask_handle_exception ce lib exc =
     seq (case exc of None \<Rightarrow> ret () | Some tb \<Rightarrow> mark_raised (ce_start ce) True tb) (\<lambda>_. run_lib (lib ()))"

definition flask_handle_user_exception ::
  "call_env \<Rightarrow> (unit \<Rightarrow> ('r, ('l, 'm, 'n) world) call) \<Rightarrow> string option \<Rightarrow> ('r outcome, ('l, 'm, 'n) world) op" where
  "flask_handle_user_exception ce lib exc =
     seq (case exc of None \<Rightarrow> ret () | Some tb \<Rightarrow> mark_raised (ce_start ce) True tb) (\<lambda>_. run_lib (lib ()))"

definition bottle_call ::
  "call_env \<Rightarrow> ('r \<Rightarrow> int) \<Rightarrow> (unit \<Rightarrow> ('r, ('l, 'm, 'n) world) call) \<Rightarrow> server_request
     \<Rightarrow> ('r outcome, ('l, 'm, 'n) world) op" where
  "bottle_call ce status_code lib rq =
     seq (extract_headers (capital_header rq)) (\<lambda>carrier.
     seq (request_span ce rq carrier (Some General)) (\<lambda>sp.
     with_span ce sp (
       seq (set_layer sp Http) (\<lambda>_.
       seq (set_component sp Bottle) (\<lambda>_.
       seq (case environ_peer rq of None \<Rightarrow> ret () | Some p \<Rightarrow> set_peer sp p) (\<lambda>_.
       seq (tag_span sp TagHttpMethod (sv_method rq)) (\<lambda>_.
       seq (tag_span sp TagHttpURL (before_query (sv_url rq))) (\<lambda>_.
       seq (gets w_cfg) (\<lambda>c.
       seq (tag_params sp (plugin_bottle_collect_http_params c) rq c) (\<lambda>_.
       seq (run_lib (lib ())) (\<lambda>res.
       on_return (\<lambda>r. tag_status sp (status_code r)) res)))))))))))"

text \<open>\<open>get_environ\<close> of the WSGI server gets the client's port.\<close>

definition bottle_get_environ :: "(string, string) dict \<Rightarrow> int \<Rightarrow> (string, string) dict" where
  "bottle_get_environ env port = dict_set ''REMOTE_PORT'' (str_of_int port) env"

section \<open>Django, Pyramid, Tornado\<close>

definition django_key :: "string \<Rightarrow> string" where
  "django_key key = ''HTTP_'' @ map (\<lambda>ch. if ch = CHR ''-'' then CHR ''_'' else ch) (upper key)"

definition django_peer :: "server_request \<Rightarrow> string" where
  "django_peer rq =
     (case sv_environ rq ''REMOTE_ADDR'' of None \<Rightarrow> ''None'' | Some a \<Rightarrow> a) @ '':''
     @ (case sv_environ rq ''REMOTE_PORT'' of None \<Rightarrow> ''80'' | Some p \<Rightarrow> if p = [] then ''80'' else p)"

definition django_get_response ::
  "call_env \<Rightarrow> ('r \<Rightarrow> int) \<Rightarrow> (unit \<Rightarrow> ('r, ('l, 'm, 'n) world) call) \<Rightarrow> server_request option
     \<Rightarrow> ('r outcome, ('l, 'm, 'n) world) op" where
  "django_get_response ce status_code lib req =
     (case req of
        None \<Rightarrow> run_lib (lib ())
      | Some rq \<Rightarrow>
          seq (extract_headers (\<lambda>key. sv_environ rq (django_key key))) (\<lambda>carrier.
          seq (request_span ce rq carrier None) (\<lambda>sp.
          with_span ce sp (
            seq (set_layer sp Http) (\<lambda>_.
            seq (set_component sp Django) (\<lambda>_.
            seq (set_peer sp (django_peer rq)) (\<lambda>_.
            seq (tag_span sp TagHttpMethod (sv_method rq)) (\<lambda>_.
            seq (tag_span sp TagHttpURL (before_query (sv_url rq))) (\<lambda>_.
            seq (gets w_cfg) (\<lambda>c.
            seq (tag_params sp (plugin_django_collect_http_params c) rq c) (\<lambda>_.
            seq (run_lib (lib ())) (\<lambda>res.
            on_return (\<lambda>r. tag_status sp (status_code r)) res))))))))))))"

text \<open>Django's and Tornado's handlers mark no-op spans too.\<close>

definition django_uncaught_exception ::
  "call_env \<Rightarrow> (unit \<Rightarrow> ('r, ('l, 'm, 'n) world) call) \<Rightarrow> string option \<Rightarrow> ('r outcome, ('l, 'm, 'n) world) op" where
  "django_uncaught_exception ce lib exc =
     seq (case exc of None \<Rightarrow> ret () | Some tb \<Rightarrow> mark_raised (ce_start ce) False tb) (\<lambda>_. run_lib (lib ()))"

definition tornado_log_exception ::
  "call_env \<Rightarrow> (unit \<Rightarrow> ('r, ('l, 'm, 'n) world) call) \<Rightarrow> string option \<Rightarrow> ('r outcome, ('l, 'm, 'n) world) op" where
  "tornado_log_exception ce lib exc =
     seq (case exc of None \<Rightarrow> ret () | Some tb \<Rightarrow> mark_raised (ce_start ce) False tb) (\<lambda>_. run_lib (lib ()))"

definition pyramid_invoke_request ::
  "call_env \<Rightarrow> ('r \<Rightarrow> int) \<Rightarrow> (unit \<Rightarrow> ('r, ('l, 'm, 'n) world) call) \<Rightarrow> server_request
     \<Rightarrow> ('r outcome, ('l, 'm, 'n) world) op" where
  "pyramid_invoke_request ce status_code lib rq =
     seq (extract_headers (sv_header rq)) (\<lambda>carrier.
     seq (request_span ce rq carrier None) (\<lambda>sp.
     with_span ce sp (
       seq (set_layer sp Http) (\<lambda>_.
       seq (set_component sp Pyramid) (\<lambda>_.
       seq (set_peer_opt sp (case sv_environ rq ''REMOTE_HOST'' of
              Some h \<Rightarrow> if h = [] then sv_environ rq ''REMOTE_ADDR'' else Some h | None \<Rightarrow> sv_environ rq ''REMOTE_ADDR'')) (\<lambda>_.
       seq (tag_span sp TagHttpMethod (sv_method rq)) (\<lambda>_.
       seq (tag_span sp TagHttpURL (sv_url rq)) (\<lambda>_.
       seq (run_lib (lib ())) (\<lambda>res.
       on_return (\<lambda>r. tag_status sp (status_code r)) res)))))))))"

text \<open>Tornado: \<open>sv_client\<close> is the peer of the connection's socket, when there is one; \<open>sv_url\<close> is protocol,
  host and path.  The variant for old versions differs in \<open>yield from\<close> only.\<close>

definition tornado_execute ::
  "call_env \<Rightarrow> ('r \<Rightarrow> int) \<Rightarrow> (unit \<Rightarrow> ('r, ('l, 'm, 'n) world) call) \<Rightarrow> server_request
     \<Rightarrow> ('r outcome, ('l, 'm, 'n) world) op" where
  "tornado_execute ce status_code lib rq =
     seq (extract_headers (capital_header rq)) (\<lambda>carrier.
     seq (request_span ce rq carrier None) (\<lambda>sp.
     with_span ce sp (
       seq (set_layer sp Http) (\<lambda>_.
       seq (set_component sp Tornado) (\<lambda>_.
       seq (case map_option (\<lambda>(h, p). h @ '':'' @ p) (sv_client rq) of None \<Rightarrow> ret () | Some p \<Rightarrow> set_peer sp p) (\<lambda>_.
       seq (tag_span sp TagHttpMethod (sv_method rq)) (\<lambda>_.
       seq (tag_span sp TagHttpURL (sv_url rq)) (\<lambda>_.
       seq (run_lib (lib ())) (\<lambda>res.
       on_return (\<lambda>r. tag_status sp (status_code r)) res)))))))))"

definition tornado_execute_legacy ::
  "call_env \<Rightarrow> ('r \<Rightarrow> int) \<Rightarrow> (unit \<Rightarrow> ('r, ('l, 'm, 'n) world) call) \<Rightarrow> server_request
     \<Rightarrow> ('r outcome, ('l, 'm, 'n) world) op" where
  "tornado_execute_legacy = tornado_execute"

section \<open>FastAPI\<close>

text \<open>The messages the application sent: the last start of a response or websocket message decides.\<close>

datatype asgi_message = HttpResponseStart int | WebsocketAccept | WebsocketClose | OtherMessage

fun sent_status :: "int \<Rightarrow> asgi_message list \<Rightarrow> int" where
  "sent_status code [] = code"
| "sent_status code (HttpResponseStart s # ms) = sent_status s ms"
| "sent_status code (WebsocketAccept # ms) = sent_status 200 ms"
| "sent_status code (WebsocketClose # ms) = sent_status 200 ms"
| "sent_status code (OtherMessage # ms) = sent_status code ms"

datatype asgi_scope = ScopeHttp | ScopeWebsocket | ScopeOther

definition fastapi_create_span ::
  "call_env \<Rightarrow> ('r outcome \<Rightarrow> asgi_message list) \<Rightarrow> (unit \<Rightarrow> ('r, ('l, 'm, 'n) world) call) \<Rightarrow> server_request
     \<Rightarrow> ('r outcome, ('l, 'm, 'n) world) op" where
  "fastapi_create_span ce sent lib rq =
     seq (extract_headers (capital_header rq)) (\<lambda>carrier.
     seq (request_span ce rq carrier (Some General)) (\<lambda>sp.
     with_span ce sp (
       seq (set_layer sp Http) (\<lambda>_.
       seq (set_component sp FastAPI) (\<lambda>_.
       seq (set_peer sp (case sv_client rq of None \<Rightarrow> ''unknown'' | Some (h, p) \<Rightarrow> h @ '':'' @ p)) (\<lambda>_.
       seq (tag_span sp TagHttpMethod (sv_method rq)) (\<lambda>_.
       seq (tag_span sp TagHttpURL (before_query (sv_url rq))) (\<lambda>_.
       seq (gets w_cfg) (\<lambda>c.
       seq (tag_params sp (plugin_fastapi_collect_http_params c) rq c) (\<lambda>_.
       seq (run_lib (lib ())) (\<lambda>res.
       seq (tag_status sp (sent_status 500 (sent res))) (\<lambda>_. ret res))))))))))))"

definition fastapi_call ::
  "call_env \<Rightarrow> ('r outcome \<Rightarrow> asgi_message list) \<Rightarrow> (unit \<Rightarrow> ('r, ('l, 'm, 'n) world) call) \<Rightarrow> asgi_scope \<times> server_request
     \<Rightarrow> ('r outcome, ('l, 'm, 'n) world) op" where
  "fastapi_call ce sent lib srq =
     (case srq of
        (ScopeWebsocket, rq) \<Rightarrow> fastapi_create_span ce sent lib (rq\<lparr>sv_method := ''websocket.accept''\<rparr>)
      | (ScopeHttp, rq) \<Rightarrow> fastapi_create_span ce sent lib rq
      | (ScopeOther, rq) \<Rightarrow> run_lib (lib ()))"


section \<open>Sanic\<close>

definition sanic_peer :: "server_request \<Rightarrow> string" where
  "sanic_peer rq =
     (case sv_environ rq ''remote_addr'' of
        Some a \<Rightarrow> if a = [] then (case sv_client rq of None \<Rightarrow> ''None'' | Some (h, _) \<Rightarrow> h) else a
      | None \<Rightarrow> (case sv_client rq of None \<Rightarrow> ''None'' | Some (h, _) \<Rightarrow> h))
     @ '':'' @ (case sv_client rq of None \<Rightarrow> ''None'' | Some (_, p) \<Rightarrow> p)"

text \<open>The handler may be a plain function: its result is not awaited and the variable that would hold it
  is never assigned, so the wrapper raises \<open>UnboundLocalError\<close> after the block.\<close>

definition sanic_handle_request ::
  "call_env \<Rightarrow> bool \<Rightarrow> (unit \<Rightarrow> ('r, ('l, 'm, 'n) world) call) \<Rightarrow> server_request
     \<Rightarrow> ('r outcome, ('l, 'm, 'n) world) op" where
  "sanic_handle_request ce awaitable lib rq =
     seq (seq (extract_headers (capital_header rq)) (\<lambda>carrier.
          seq (request_span ce rq carrier None) (\<lambda>sp.
          with_span ce sp (
            seq (set_layer sp Http) (\<lambda>_.
            seq (set_component sp Sanic) (\<lambda>_.
            seq (set_peer sp (sanic_peer rq)) (\<lambda>_.
            seq (tag_span sp TagHttpMethod (sv_method rq)) (\<lambda>_.
            seq (tag_span sp TagHttpURL (before_query (sv_url rq))) (\<lambda>_.
            seq (gets w_cfg) (\<lambda>c.
            seq (tag_params sp (plugin_sanic_collect_http_params c) rq c) (\<lambda>_.
            run_lib (lib ())))))))))))) (\<lambda>res.
     case res of
       Returned _ \<Rightarrow> if awaitable then ret res else raise_err (OtherError ''UnboundLocalError'')
     | _ \<Rightarrow> ret res)"

definition sanic_format_response ::
  "call_env \<Rightarrow> (unit \<Rightarrow> ('r, ('l, 'm, 'n) world) call) \<Rightarrow> int option \<Rightarrow> ('r outcome, ('l, 'm, 'n) world) op" where
  "sanic_format_response ce lib status =
     seq (case status of
            None \<Rightarrow> ret ()
          | Some code \<Rightarrow>
              seq (get_context (ce_start ce)) (\<lambda>_.
              seq (active_span (ce_start ce)) (\<lambda>act.
              case act of
                None \<Rightarrow> ret ()
              | Some sp \<Rightarrow>
                  (\<lambda>w. if sp_class (sp_of w sp) = NoopSpan then (Inr (), w)
                       else seq (when_op (code \<ge> 400) (set_error sp)) (\<lambda>_.
                            tag_span sp TagHttpStatusCode (str_of_int code)) w)))) (\<lambda>_.
     run_lib (lib ()))"

definition sanic_error_response ::
  "call_env \<Rightarrow> (unit \<Rightarrow> ('r, ('l, 'm, 'n) world) call) \<Rightarrow> string option \<Rightarrow> ('r outcome, ('l, 'm, 'n) world) op" where
  "sanic_error_response ce lib exc =
     seq (case exc of None \<Rightarrow> ret () | Some tb \<Rightarrow> mark_raised (ce_start ce) True tb) (\<lambda>_. run_lib (lib ()))"

text \<open>\<open>sw_sanic_v2.py\<close>: the span is started by one listener, kept in \<open>request.ctx\<close> and stopped by another.\<close>

definition sanic2_on_request :: "call_env \<Rightarrow> server_request \<Rightarrow> (nat, ('l, 'm, 'n) world) op" where
  "sanic2_on_request ce rq =
     seq (extract_headers (capital_header rq)) (\<lambda>carrier.
     seq (request_span ce rq carrier None) (\<lambda>sp.
     seq (modify (span_start (ce_start ce) sp)) (\<lambda>_.
     seq (set_layer sp Http) (\<lambda>_.
     seq (set_component sp Sanic) (\<lambda>_.
     seq (set_peer sp (sanic_peer rq)) (\<lambda>_.
     seq (tag_span sp TagHttpMethod (sv_method rq)) (\<lambda>_.
     seq (tag_span sp TagHttpURL (before_query (sv_url rq))) (\<lambda>_.
     seq (gets w_cfg) (\<lambda>c.
     seq (tag_params sp (plugin_sanic_collect_http_params c) rq c) (\<lambda>_.
     ret sp))))))))))"

definition sanic2_on_response :: "call_env \<Rightarrow> nat option \<Rightarrow> int option \<Rightarrow> (unit, ('l, 'm, 'n) world) op" where
  "sanic2_on_response ce ctx_span status =
     (case ctx_span of
        None \<Rightarrow> ret ()
      | Some sp \<Rightarrow>
          seq (case status of None \<Rightarrow> ret () | Some code \<Rightarrow> tag_status sp code) (\<lambda>_.
          seq (span_stop (ce_end ce) sp) (\<lambda>_. ret ())))"

section \<open>aiohttp server\<close>

text \<open>
  For a request addressed to the collector the wrapper returns the wrapped function itself, without
  calling it; \<open>None\<close> stands for that result.  \<open>sv_url\<close> is the text of the URL unless yarl rejects it, in
  which case the path is used.
\<close>

definition f_client :: "string option \<Rightarrow> string" where
  "f_client p = (case p of None \<Rightarrow> ''None'' | Some s \<Rightarrow> s)"

definition aiohttp_handle_request ::
  "call_env \<Rightarrow> ('r \<Rightarrow> int) \<Rightarrow> (unit \<Rightarrow> ('r, ('l, 'm, 'n) world) call) \<Rightarrow> server_request \<times> string \<times> bool \<times> string
     \<Rightarrow> ('r option outcome, ('l, 'm, 'n) world) op" where
  "aiohttp_handle_request ce status lib srq w =
     (case srq of (rq, host_port, url_ok, fallback) \<Rightarrow>
      if agent_protocol (w_cfg w) = ''http'' \<and> ends_with (rstrip_slash (agent_collector_backend_services (w_cfg w))) host_port
      then (Inr (Returned None), w)
      else seq (extract_headers (sv_header rq)) (\<lambda>carrier.
           seq (request_span ce rq carrier None) (\<lambda>sp.
           with_span ce sp (
             seq (set_layer sp Http) (\<lambda>_.
             seq (set_component sp AioHttp) (\<lambda>_.
             seq (set_peer sp (case sv_client rq of Some (h, p) \<Rightarrow> h @ '':'' @ p | None \<Rightarrow> f_client (sv_environ rq ''peername''))) (\<lambda>_.
             seq (tag_span sp TagHttpMethod (sv_method rq)) (\<lambda>_.
             seq (tag_span sp TagHttpURL (if url_ok then sv_url rq else fallback)) (\<lambda>_.
             seq (run_lib (lib ())) (\<lambda>res.
             seq (on_return (\<lambda>r. tag_status sp (status r)) res) (\<lambda>res.
             ret (map_outcome Some res))))))))))) w)"

section \<open>http.server and werkzeug\<close>

text \<open>Here \<open>item.val\<close> is assigned whether or not the header is there: a missing one gives \<open>None\<close>.\<close>

fun assign_carrier ::
  "int \<Rightarrow> (string \<Rightarrow> string option) \<Rightarrow> carrier_item list \<Rightarrow> correlation carrier \<Rightarrow> py_error option \<times> correlation carrier" where
  "assign_carrier mx look [] c = (None, c)"
| "assign_carrier mx look (i # is) c =
     (case set_item mx i (look (item_key i)) c of
        (Some err, c') \<Rightarrow> (Some err, c')
      | (None, c') \<Rightarrow> assign_carrier mx look is c')"

definition assign_headers :: "(string \<Rightarrow> string option) \<Rightarrow> (nat carrier, ('l, 'm, 'n) world) op" where
  "assign_headers look w =
     (case assign_carrier (correlation_element_max_number (w_cfg w)) look carrier_items (Carrier_empty []) of
        (err, c) \<Rightarrow>
          (let w' = w\<lparr>w_corrs := w_corrs w @ [c_correlation c]\<rparr> in
           case err of Some x \<Rightarrow> (Inl x, w') | None \<Rightarrow> (Inr (recarry (length (w_corrs w)) c), w')))"

text \<open>\<open>sv_url\<close> is the handler's path; the status is what \<open>send_response_only\<close> left on the handler, -1 if nothing.\<close>

definition server_url :: "server_request \<Rightarrow> string" where
  "server_url rq = (case sv_header rq ''Host'' of
     Some h \<Rightarrow> ''http://'' @ h @ (if sv_url rq = [] then ''/'' else sv_url rq)
   | None \<Rightarrow> (if sv_url rq = [] then ''/'' else sv_url rq))"

definition finish_status :: "nat \<Rightarrow> int \<Rightarrow> (unit, ('l, 'm, 'n) world) op" where
  "finish_status sp code = when_op (code > -1) (tag_status sp code)"

definition werkzeug_run_wsgi ::
  "call_env \<Rightarrow> ('r outcome \<Rightarrow> int) \<Rightarrow> (unit \<Rightarrow> ('r, ('l, 'm, 'n) world) call) \<Rightarrow> server_request
     \<Rightarrow> ('r outcome, ('l, 'm, 'n) world) op" where
  "werkzeug_run_wsgi ce status lib rq =
     seq (assign_headers (capital_header rq)) (\<lambda>carrier.
     seq (request_span ce (rq\<lparr>sv_path := before_query (if sv_url rq = [] then ''/'' else sv_url rq)\<rparr>) carrier None) (\<lambda>sp.
     with_span ce sp (
       seq (set_layer sp Http) (\<lambda>_.
       seq (set_component sp General) (\<lambda>_.
       seq (set_peer sp (case sv_client rq of None \<Rightarrow> [] | Some (h, p) \<Rightarrow> h @ '':'' @ p)) (\<lambda>_.
       seq (tag_span sp TagHttpMethod (sv_method rq)) (\<lambda>_.
       seq (tag_span sp TagHttpURL (server_url rq)) (\<lambda>_.
       seq (run_lib (lib ())) (\<lambda>res.
       seq (finish_status sp (status res)) (\<lambda>_. ret res))))))))))"

text \<open>\<open>_sw_do_method\<close> returns nothing but is otherwise the same.\<close>

definition http_server_do_method ::
  "call_env \<Rightarrow> ('r outcome \<Rightarrow> int) \<Rightarrow> (unit \<Rightarrow> ('r, ('l, 'm, 'n) world) call) \<Rightarrow> server_request
     \<Rightarrow> ('r outcome, ('l, 'm, 'n) world) op" where
  "http_server_do_method ce status lib rq =
     seq (assign_headers (capital_header rq)) (\<lambda>carrier.
     seq (request_span ce (rq\<lparr>sv_path := before_query (if sv_url rq = [] then ''/'' else sv_url rq)\<rparr>) carrier None) (\<lambda>sp.
     with_span ce sp (
       seq (set_layer sp Http) (\<lambda>_.
       seq (set_component sp General) (\<lambda>_.
       seq (set_peer sp (case sv_client rq of None \<Rightarrow> [] | Some (h, p) \<Rightarrow> h @ '':'' @ p)) (\<lambda>_.
       seq (tag_span sp TagHttpMethod (sv_method rq)) (\<lambda>_.
       seq (tag_span sp TagHttpURL (server_url rq)) (\<lambda>_.
       seq (run_lib (lib ())) (\<lambda>res.
       seq (finish_status sp (status res)) (\<lambda>_. ret res))))))))))"

section \<open>Falcon\<close>

text \<open>
  Falcon answers through \<open>start_response\<close>, which the plugin replaces by a function that first writes the
  status into the span; \<open>lib\<close> is the application as a function of it.  The context is fetched before
  the request is looked at.
\<close>

definition parse_status :: "string \<Rightarrow> int \<times> string" where
  "parse_status line =
     (if CHR '' '' \<notin> set line then (500, ''Internal Server Error'')
      else case py_int (takeWhile (\<lambda>ch. ch \<noteq> CHR '' '') line) of
             Inl _ \<Rightarrow> (500, ''Internal Server Error'')
           | Inr code \<Rightarrow> (code, tl (dropWhile (\<lambda>ch. ch \<noteq> CHR '' '') line)))"

definition falcon_start_response :: "nat \<Rightarrow> string \<Rightarrow> (unit, ('l, 'm, 'n) world) op" where
  "falcon_start_response sp resp_status =
     (case parse_status resp_status of (code, msg) \<Rightarrow>
        seq (when_op (code \<ge> 400) (set_error sp)) (\<lambda>_.
        seq (tag_span sp TagHttpStatusCode (str_of_int code)) (\<lambda>_.
        tag_span sp TagHttpStatusMsg msg)))"

definition falcon_handle ::
  "call_env \<Rightarrow> ((string \<Rightarrow> (unit, ('l, 'm, 'n) world) op) \<Rightarrow> ('r, ('l, 'm, 'n) world) call) \<Rightarrow> server_request
     \<Rightarrow> nat \<Rightarrow> ('r outcome, ('l, 'm, 'n) world) op" where
  "falcon_handle ce lib rq sp =
     seq (set_layer sp Http) (\<lambda>_.
     seq (set_component sp Falcon) (\<lambda>_.
     seq (set_peer_opt sp (sv_environ rq ''REMOTE_ADDR'')) (\<lambda>_.
     seq (tag_span sp TagHttpMethod (sv_method rq)) (\<lambda>_.
     seq (tag_span sp TagHttpURL (sv_url rq)) (\<lambda>_.
     seq (when_op (sv_params rq \<noteq> [])
            (tag_span sp TagHttpParams (join_with '','' (map (\<lambda>(k, vs). k @ ''='' @ concat vs) (sv_params rq))))) (\<lambda>_.
     seq (run_lib (lib (falcon_start_response sp))) (\<lambda>res.
     seq (case res of Raised tb \<Rightarrow> modify (upd_span sp (span_raised (te_import_time (ce_end ce)) tb)) | _ \<Rightarrow> ret ()) (\<lambda>_.
     ret res))))))))"

definition falcon_api ::
  "call_env \<Rightarrow> ((string \<Rightarrow> (unit, ('l, 'm, 'n) world) op) \<Rightarrow> ('r, ('l, 'm, 'n) world) call) \<Rightarrow> server_request
     \<Rightarrow> ('r outcome, ('l, 'm, 'n) world) op" where
  "falcon_api ce lib rq =
     seq (get_context (ce_start ce)) (\<lambda>ctx.
     seq (extract_headers (\<lambda>key. sv_header rq (upper key))) (\<lambda>carrier.
     seq (if ce_ignored_method ce (sv_method rq) then noop_span
          else new_entry_span (ce_start ce) ctx (sv_path rq) (Some carrier) None) (\<lambda>sp.
     with_span ce sp (falcon_handle ce lib rq sp))))"

definition falcon_v3_app ::
  "call_env \<Rightarrow> ((string \<Rightarrow> (unit, ('l, 'm, 'n) world) op) \<Rightarrow> ('r, ('l, 'm, 'n) world) call) \<Rightarrow> server_request
     \<Rightarrow> ('r outcome, ('l, 'm, 'n) world) op" where
  "falcon_v3_app = falcon_api"


section \<open>The contract\<close>

lemma keeps_request_span:
  assumes "same_thread t ce"
  shows "keeps t True (corr_known (Some carrier)) (request_span ce rq carrier inh) (\<lambda>sp w. openable t sp w \<and> served sp w)"
  unfolding request_span_def by (intro keeps_if keeps_noop_span keeps_entry_span assms)

lemma keeps_request:
  assumes "same_thread t ce" and "\<And>sp. keeps t True (served sp) (body sp) (\<lambda>r _. R r)"
  shows "keeps t True (\<lambda>_. True) (seq (extract_headers look) (\<lambda>carrier.
           seq (request_span ce rq carrier inh) (\<lambda>sp. with_span ce sp (body sp)))) (\<lambda>r _. R r)"
  by (rule keeps_seq [OF keeps_extract_headers], rule keeps_entry_block [OF assms keeps_request_span [OF assms(1)]])

lemma keeps_tag_params: "keeps t may (served sp) (tag_params sp collect rq c) (\<lambda>_ _. True)"
  unfolding tag_params_def by (rule keeps_when [OF keeps_tag_entry])

lemma keeps_finish_status: "keeps t may (served sp) (finish_status sp code) (\<lambda>_ _. True)"
  unfolding finish_status_def by (rule keeps_when [OF keeps_status_entry])

lemmas server_rules = keeps_do [OF keeps_tag_params stable_served] keeps_do [OF keeps_finish_status stable_served]
  keeps_ret

text \<open>On a fresh carrier assigning \<open>None\<close> is the same as skipping the item.\<close>

lemma assign_headers_same: "assign_headers look = extract_headers look"
  by (auto simp: fun_eq_iff assign_headers_def extract_headers_def carrier_items_def Carrier_empty_def Carrier_init_def
      Correlation_set_val_def Carrier_set_val_def split: option.splits prod.splits)

lemma server_keeps:
  assumes "same_thread t ce" and "lib_ok t lib"
  shows "keeps t True (\<lambda>_. True) (flask_dispatch ce st lib rq) (\<lambda>r _. called t any_arg lib r)"
    and "keeps t True (\<lambda>_. True) (bottle_call ce st lib rq) (\<lambda>r _. called t any_arg lib r)"
    and "keeps t True (\<lambda>_. True) (pyramid_invoke_request ce st lib rq) (\<lambda>r _. called t any_arg lib r)"
    and "keeps t True (\<lambda>_. True) (tornado_execute ce st lib rq) (\<lambda>r _. called t any_arg lib r)"
    and "keeps t True (\<lambda>_. True) (fastapi_create_span ce sent lib rq) (\<lambda>r _. called t any_arg lib r)"
    and "keeps t True (\<lambda>_. True) (werkzeug_run_wsgi ce code lib rq) (\<lambda>r _. called t any_arg lib r)"
    and "keeps t True (\<lambda>_. True) (http_server_do_method ce code lib rq) (\<lambda>r _. called t any_arg lib r)"
  unfolding flask_dispatch_def bottle_call_def pyramid_invoke_request_def tornado_execute_def fastapi_create_span_def
    werkzeug_run_wsgi_def http_server_do_method_def assign_headers_same
  by (intro keeps_request entry_body_rules server_rules assms; simp add: any_arg_def)+

lemma django_keeps:
  assumes "same_thread t ce" and "lib_ok t lib"
  shows "keeps t True (\<lambda>_. True) (django_get_response ce st lib rq) (\<lambda>r _. called t any_arg lib r)"
proof (cases rq)
  case None
  show ?thesis unfolding django_get_response_def None option.case using assms(2) any_argI by (rule keeps_run_lib)
next
  case (Some a)
  show ?thesis unfolding django_get_response_def Some option.case
    by (intro keeps_request entry_body_rules server_rules assms; simp add: any_arg_def)
qed

lemma fastapi_keeps:
  assumes "same_thread t ce" and "lib_ok t lib"
  shows "keeps t True (\<lambda>_. True) (fastapi_call ce sent lib srq) (\<lambda>r _. called t any_arg lib r)"
  unfolding fastapi_call_def using server_keeps(5) [OF assms] keeps_run_lib [where C = any_arg, OF assms(2) any_argI]
  by (auto split: prod.split asgi_scope.split)

lemma sanic_keeps:
  assumes "same_thread t ce" and "lib_ok t lib"
  shows "keeps t True (\<lambda>_. True) (sanic_handle_request ce aw lib rq) (\<lambda>r _. called t any_arg lib r)"
  unfolding sanic_handle_request_def
proof (rule keeps_seq)
  show "keeps t True (\<lambda>_. True) (seq (extract_headers (capital_header rq)) (\<lambda>carrier.
          seq (request_span ce rq carrier None) (\<lambda>sp.
          with_span ce sp (
            seq (set_layer sp Http) (\<lambda>_.
            seq (set_component sp Sanic) (\<lambda>_.
            seq (set_peer sp (sanic_peer rq)) (\<lambda>_.
            seq (tag_span sp TagHttpMethod (sv_method rq)) (\<lambda>_.
            seq (tag_span sp TagHttpURL (before_query (sv_url rq))) (\<lambda>_.
            seq (gets w_cfg) (\<lambda>c.
            seq (tag_params sp (plugin_sanic_collect_http_params c) rq c) (\<lambda>_.
            run_lib (lib ())))))))))))) (\<lambda>r _. called t any_arg lib r)"
    by (intro keeps_request entry_body_rules server_rules assms any_argI)
  show "keeps t True (\<lambda>_. called t any_arg lib res)
      (case res of Returned _ \<Rightarrow> if aw then ret res else raise_err (OtherError ''UnboundLocalError'') | _ \<Rightarrow> ret res)
      (\<lambda>r _. called t any_arg lib r)" for res
    by (cases res) (auto intro: keeps_ret simp: keeps_def)
qed

text \<open>The exception hooks write into the active span, if there is one, and then run the framework's handler.\<close>

lemma modify_unless:
  fixes f :: "('l, 'm, 'n) world \<Rightarrow> ('l, 'm, 'n) world"
  shows "modify (\<lambda>w. if c w then w else f w) = (\<lambda>w. if c w then ret () w else modify f w)"
  by (auto simp: fun_eq_iff)

lemma span_raised_keeps: "keeps t may P (modify (upd_span sp (span_raised it tb))) (\<lambda>_ _. True)"
  by (rule keeps_pre [OF keeps_upd_span]) (simp_all add: span_raised_def same_span_def)

lemma active_span_keeps: "keeps t may P (active_span e) (\<lambda>_ _. True)"
  by (rule keeps_state) (simp add: active_span_def peek_def Let_def)

lemma mark_raised_keeps:
  assumes "te_tid e = t"
  shows "keeps t False (\<lambda>_. True) (mark_raised e b tb) (\<lambda>_ _. True)"
  unfolding mark_raised_def modify_unless
  by (rule keeps_do [OF keeps_weaken [OF keeps_get_context [OF assms, of False "\<lambda>_. True"]] stable_const], simp_all)
    (rule keeps_do [OF active_span_keeps stable_const],
     auto intro: keeps_ret keeps_branch [OF keeps_ret span_raised_keeps] split: option.split)

lemma hook_keeps:
  assumes "same_thread t ce" and "lib_ok t lib"
  shows "keeps t False (\<lambda>_. True) (flask_handle_exception ce lib exc) (\<lambda>r _. called t any_arg lib r)"
    and "keeps t False (\<lambda>_. True) (flask_handle_user_exception ce lib exc) (\<lambda>r _. called t any_arg lib r)"
    and "keeps t False (\<lambda>_. True) (django_uncaught_exception ce lib exc) (\<lambda>r _. called t any_arg lib r)"
    and "keeps t False (\<lambda>_. True) (tornado_log_exception ce lib exc) (\<lambda>r _. called t any_arg lib r)"
    and "keeps t False (\<lambda>_. True) (sanic_error_response ce lib exc) (\<lambda>r _. called t any_arg lib r)"
proof -
  have tid: "te_tid (ce_start ce) = t" using assms(1) by (simp add: same_thread_def)
  have "keeps t False (\<lambda>_. True) (seq (case exc of None \<Rightarrow> ret () | Some tb \<Rightarrow> mark_raised (ce_start ce) b tb) (\<lambda>_. run_lib (lib ())))
      (\<lambda>r _. called t any_arg lib r)" for b
    by (rule keeps_seq [OF keeps_option [OF mark_raised_keeps [OF tid]]]) (rule keeps_run_lib [where C = any_arg, OF assms(2) any_argI])
  then show "keeps t False (\<lambda>_. True) (flask_handle_exception ce lib exc) (\<lambda>r _. called t any_arg lib r)"
    "keeps t False (\<lambda>_. True) (flask_handle_user_exception ce lib exc) (\<lambda>r _. called t any_arg lib r)"
    "keeps t False (\<lambda>_. True) (django_uncaught_exception ce lib exc) (\<lambda>r _. called t any_arg lib r)"
    "keeps t False (\<lambda>_. True) (tornado_log_exception ce lib exc) (\<lambda>r _. called t any_arg lib r)"
    "keeps t False (\<lambda>_. True) (sanic_error_response ce lib exc) (\<lambda>r _. called t any_arg lib r)"
    unfolding flask_handle_exception_def flask_handle_user_exception_def django_uncaught_exception_def
      tornado_log_exception_def sanic_error_response_def by blast+
qed

text \<open>Falcon: an application that keeps the contract whatever callback it is given that keeps it.\<close>

definition app_ok :: "nat \<Rightarrow> ((string \<Rightarrow> (unit, ('l, 'm, 'n) world) op) \<Rightarrow> ('r, ('l, 'm, 'n) world) call) \<Rightarrow> bool" where
  "app_ok t lib = (\<forall>P cb. stable t P \<longrightarrow> (\<forall>s. keeps t False P (cb s) (\<lambda>_ _. True)) \<longrightarrow> keeps t False P (run_lib (lib cb)) (\<lambda>_ _. True))"

lemma falcon_handle_keeps:
  assumes "app_ok t lib"
  shows "keeps t True (served sp) (falcon_handle ce lib rq sp) (\<lambda>_ _. True)"
proof -
  have cb: "keeps t False (served sp) (falcon_start_response sp s) (\<lambda>_ _. True)" for s
    unfolding falcon_start_response_def by (auto intro!: entry_body_rules split: prod.split)
  have "keeps t False (served sp) (run_lib (lib (falcon_start_response sp))) (\<lambda>_ _. True)"
    using assms stable_served cb unfolding app_ok_def by blast
  then have run: "keeps t True (served sp) (run_lib (lib (falcon_start_response sp))) (\<lambda>_ _. True)"
    by (rule keeps_weaken) auto
  show ?thesis unfolding falcon_handle_def
    by (intro entry_body_rules keeps_do [OF run stable_served] keeps_do [OF _ stable_served] keeps_ret)
      (auto intro: keeps_ret span_raised_keeps split: outcome.split)
qed

lemma falcon_keeps:
  assumes thr: "same_thread t ce" and lib: "app_ok t lib"
  shows "keeps t True (\<lambda>_. True) (falcon_api ce lib rq) (\<lambda>_ _. True)"
  unfolding falcon_api_def
proof (rule keeps_seq)
  let ?e = "ce_start ce"
  have tid: "te_tid ?e = t" using thr by (simp add: same_thread_def)
  show "keeps t True (\<lambda>_. True) (get_context ?e) (top_ok ?e)" by (rule keeps_get_context [OF tid])
  fix ctx
  show "keeps t True (top_ok ?e ctx) (seq (extract_headers (\<lambda>key. sv_header rq (upper key))) (\<lambda>carrier.
     seq (if ce_ignored_method ce (sv_method rq) then noop_span
          else new_entry_span (ce_start ce) ctx (sv_path rq) (Some carrier) None) (\<lambda>sp.
     with_span ce sp (falcon_handle ce lib rq sp)))) (\<lambda>_ _. True)"
    by (rule keeps_seq [OF keeps_pre [OF keeps_stable [OF keeps_extract_headers [of t "\<lambda>_. True"] stable_top_ok [OF tid]]]], simp)
      (rule keeps_entry_block [OF thr falcon_handle_keeps [OF lib]],
       intro keeps_if keeps_noop_span keeps_pre [OF keeps_new_entry_span [OF tid]], auto)
qed


text \<open>Every server plugin keeps the promise of an instrumented library on every thread.  The hooks never
  raise on their own; the request wrappers may, when a propagation header cannot be decoded.\<close>

interpretation flask: instrumented t True "\<lambda>_. any_arg" "flask_dispatch (on_thread t ce) st" for t ce st
  by unfold_locales (simp add: server_keeps)

interpretation bottle: instrumented t True "\<lambda>_. any_arg" "bottle_call (on_thread t ce) st" for t ce st
  by unfold_locales (simp add: server_keeps)

interpretation pyramid: instrumented t True "\<lambda>_. any_arg" "pyramid_invoke_request (on_thread t ce) st" for t ce st
  by unfold_locales (simp add: server_keeps)

interpretation tornado: instrumented t True "\<lambda>_. any_arg" "tornado_execute (on_thread t ce) st" for t ce st
  by unfold_locales (simp add: server_keeps)

interpretation werkzeug: instrumented t True "\<lambda>_. any_arg" "werkzeug_run_wsgi (on_thread t ce) code" for t ce code
  by unfold_locales (simp add: server_keeps)

interpretation http_server: instrumented t True "\<lambda>_. any_arg" "http_server_do_method (on_thread t ce) code" for t ce code
  by unfold_locales (simp add: server_keeps)

interpretation django: instrumented t True "\<lambda>_. any_arg" "django_get_response (on_thread t ce) st" for t ce st
  by unfold_locales (simp add: django_keeps)

interpretation fastapi: instrumented t True "\<lambda>_. any_arg" "fastapi_call (on_thread t ce) sent" for t ce sent
  by unfold_locales (simp add: fastapi_keeps)

interpretation sanic: instrumented t True "\<lambda>_. any_arg" "sanic_handle_request (on_thread t ce) aw" for t ce aw
  by unfold_locales (simp add: sanic_keeps)

interpretation flask_hook: instrumented t False "\<lambda>_. any_arg" "flask_handle_exception (on_thread t ce)" for t ce
  by unfold_locales (simp add: hook_keeps)

interpretation django_hook: instrumented t False "\<lambda>_. any_arg" "django_uncaught_exception (on_thread t ce)" for t ce
  by unfold_locales (simp add: hook_keeps)

section \<open>Undecodable headers\<close>

definition not_base64 :: "string \<Rightarrow> py_error \<Rightarrow> bool" where
  "not_base64 v err = (length (split_on (CHR ''-'') v) = 8 \<and> b64decode (split_on (CHR ''-'') v ! 1) = Inl err)"

lemma extract_not_base64:
  assumes "look ''sw8'' = Some v" and "look ''sw8-correlation'' = None" and "not_base64 v err"
  shows "extract_headers look w = (Inl err, w\<lparr>w_corrs := w_corrs w @ [[]]\<rparr>)"
proof -
  have "v \<noteq> []" using assms(3) by (auto simp: not_base64_def)
  with assms show ?thesis
    by (simp add: extract_headers_def carrier_items_def not_base64_def Carrier_set_val_def Let_def Carrier_empty_def Carrier_init_def)
qed


definition demo_request :: "string \<Rightarrow> server_request" where
  "demo_request v =
     \<lparr>sv_method = ''GET'', sv_path = ''/'', sv_url = ''http://h/'',
      sv_header = (\<lambda>k. if k = ''Sw8'' \<or> k = ''sw8'' then Some v else None),
      sv_environ = (\<lambda>k. if k = ''HTTP_SW8'' then Some v else None), sv_params = [], sv_client = None\<rparr>"


end
