(* ===== verification/DbPlugins.thy ===== *)
theory DbPlugins
  imports Instrument
begin

text \<open>
  The plugins for databases and caches: \<open>sw_pymysql.py\<close>, \<open>sw_mysqlclient.py\<close>, \<open>sw_psycopg2.py\<close>,
  \<open>sw_psycopg.py\<close>, \<open>sw_asyncpg.py\<close>, \<open>sw_neo4j.py\<close>, \<open>sw_redis.py\<close>, \<open>sw_aioredis.py\<close>, \<open>sw_elasticsearch.py\<close>,
  \<open>sw_happybase.py\<close> and \<open>sw_pymongo.py\<close>.  Each opens an exit span around one operation of the driver and
  writes the statement and, when configured, a shortened text of its parameters into it.  The
  driver is the library; it gets its arguments as the application passed them.

  A coroutine and the plain function of the same shape have the same model; a generator's library
  call lasts until its consumer is done.
\<close>

section \<open>Parameters\<close>

text \<open>What is passed as statement parameters: nothing, an iterable (the texts of what it yields), or a
  value that cannot be iterated, true or false.\<close>

datatype sql_args = NoArgs | SeqArgs "string list" | ScalarArg bool

fun args_true :: "sql_args \<Rightarrow> bool" where
  "args_true NoArgs = False"
| "args_true (SeqArgs xs) = (xs \<noteq> [])"
| "args_true (ScalarArg b) = b"

text \<open>\<open>','.join([str(arg) for arg in args])\<close>.\<close>

fun args_text :: "sql_args \<Rightarrow> string res" where
  "args_text (SeqArgs xs) = Inr (join_with '','' xs)"
| "args_text _ = Inl TypeError"

definition bracketed :: "string \<Rightarrow> string" where
  "bracketed s = ''['' @ s @ '']''"

definition tag_args :: "nat \<Rightarrow> bool \<Rightarrow> sql_args \<Rightarrow> config \<Rightarrow> (unit, ('l, 'm, 'n) world) op" where
  "tag_args sp collect args c =
     (if plugin_sql_parameters_max_length c \<noteq> 0 \<and> collect
      then seq (lift_res (args_text args)) (\<lambda>parameter.
           tag_span sp TagDbSqlParameters (bracketed (shortened (plugin_sql_parameters_max_length c) parameter)))
      else ret ())"

text \<open>The loop of \<open>executemany\<close>: parameter lists are collected until their total length exceeds the limit;
  the last one is cut by the excess (a slice with a negative end).\<close>

fun many_texts :: "int \<Rightarrow> int \<Rightarrow> string list list \<Rightarrow> string list" where
  "many_texts max_len total_len [] = []"
| "many_texts max_len total_len (vs # vars_list) =
     (let tx = bracketed (join_with '','' vs); total = total_len + int (py_len tx) in
      if total > max_len then [py_prefix (max_len - total) tx @ ''...'']
      else tx # many_texts max_len total vars_list)"

definition tag_many :: "nat \<Rightarrow> string list list \<Rightarrow> config \<Rightarrow> (unit, ('l, 'm, 'n) world) op" where
  "tag_many sp vars_list c =
     when_op (plugin_sql_parameters_max_length c \<noteq> 0)
       (tag_span sp TagDbSqlParameters (bracketed (join_with '','' (many_texts (plugin_sql_parameters_max_length c) 0 vars_list))))"

definition host_port :: "string \<Rightarrow> string \<Rightarrow> string" where
  "host_port h p = h @ '':'' @ p"

definition tag_db :: "nat \<Rightarrow> string \<Rightarrow> string \<Rightarrow> string \<Rightarrow> (unit, ('l, 'm, 'n) world) op" where
  "tag_db sp ty inst stmt =
     seq (tag_span sp TagDbType ty) (\<lambda>_. seq (tag_span sp TagDbInstance inst) (\<lambda>_. tag_span sp TagDbStatement stmt))"

section \<open>MySQL\<close>

record mysql_conn =
  my_host :: string
  my_port :: string
  my_db :: "string option"

definition opt_text :: "string option \<Rightarrow> string" where
  "opt_text x = (case x of None \<Rightarrow> [] | Some s \<Rightarrow> s)"

definition decode_text :: "string \<Rightarrow> string res" where
  "decode_text s = (if valid_utf8 s then Inr s else Inl (ValueError ''utf-8 codec cannot decode''))"

definition pymysql_execute ::
  "call_env \<Rightarrow> (unit \<Rightarrow> ('r, ('l, 'm, 'n) world) call) \<Rightarrow> mysql_conn \<times> string \<times> sql_args \<Rightarrow> ('r outcome, ('l, 'm, 'n) world) op" where
  "pymysql_execute ce lib rq = (case rq of (conn, query, args) \<Rightarrow>
     seq (exit_span ce ''Mysql/PyMsql/execute'' (host_port (my_host conn) (my_port conn)) PyMysql) (\<lambda>sp.
     with_span ce sp (
       seq (set_layer sp Database) (\<lambda>_.
       seq (run_lib (lib ())) (\<lambda>res.
       on_return (\<lambda>_.
         seq (tag_span sp TagDbType ''mysql'') (\<lambda>_.
         seq (lift_res (decode_text (opt_text (my_db conn)))) (\<lambda>db.
         seq (tag_span sp TagDbInstance db) (\<lambda>_.
         seq (tag_span sp TagDbStatement query) (\<lambda>_.
         seq (gets w_cfg) (\<lambda>c. tag_args sp (args_true args) args c)))))) res)))))"

text \<open>\<open>_sw_connect\<close>: host and database are taken from the keyword arguments, after connecting.\<close>

definition mysqlclient_connect :: "(string, string) dict \<Rightarrow> mysql_conn \<Rightarrow> mysql_conn res" where
  "mysqlclient_connect kwargs con =
     (case dict_get kwargs ''host'' of
        None \<Rightarrow> Inl (KeyError ''host'')
      | Some h \<Rightarrow>
          (case dict_get kwargs ''db'' of
             Some d \<Rightarrow> Inr (con\<lparr>my_host := h, my_db := Some d\<rparr>)
           | None \<Rightarrow>
               (case dict_get kwargs ''database'' of
                  Some d \<Rightarrow> Inr (con\<lparr>my_host := h, my_db := Some d\<rparr>)
                | None \<Rightarrow> Inl (KeyError ''database''))))"

definition mysqlclient_execute ::
  "call_env \<Rightarrow> (unit \<Rightarrow> ('r, ('l, 'm, 'n) world) call) \<Rightarrow> mysql_conn \<times> string \<times> sql_args \<Rightarrow> ('r outcome, ('l, 'm, 'n) world) op" where
  "mysqlclient_execute ce lib rq = (case rq of (conn, query, args) \<Rightarrow>
     seq (exit_span ce ''Mysql/MysqlClient/execute'' (host_port (my_host conn) (my_port conn)) MysqlClient) (\<lambda>sp.
     with_span ce sp (
       seq (set_layer sp Database) (\<lambda>_.
       seq (tag_db sp ''mysql'' (opt_text (my_db conn)) query) (\<lambda>_.
       seq (gets w_cfg) (\<lambda>c.
       seq (tag_args sp (args_true args) args c) (\<lambda>_.
       run_lib (lib ()))))))))"

section \<open>PostgreSQL\<close>

text \<open>The connection's parameters are a dictionary (\<open>dsn['host']\<close> may be missing); psycopg 3 has the port apart.\<close>

definition key_of_dsn :: "(string, string) dict \<Rightarrow> string \<Rightarrow> string res" where
  "key_of_dsn dsn k = (case dict_get dsn k of None \<Rightarrow> Inl (KeyError k) | Some v \<Rightarrow> Inr v)"

definition dsn_peer :: "(string, string) dict \<Rightarrow> string res" where
  "dsn_peer dsn = bind_res (key_of_dsn dsn ''host'') (\<lambda>h. bind_res (key_of_dsn dsn ''port'') (\<lambda>p. Inr (host_port h p)))"

definition dsn_peer3 :: "(string, string) dict \<Rightarrow> string \<Rightarrow> string res" where
  "dsn_peer3 dsn port = bind_res (key_of_dsn dsn ''host'') (\<lambda>h. Inr (host_port h port))"

text \<open>The block the methods of a cursor share; \<open>extra\<close> writes the parameters.\<close>

definition pg_block ::
  "call_env \<Rightarrow> string \<Rightarrow> string res \<Rightarrow> (string, string) dict \<Rightarrow> string \<Rightarrow> (nat \<Rightarrow> config \<Rightarrow> (unit, ('l, 'm, 'n) world) op)
     \<Rightarrow> (unit \<Rightarrow> ('r, ('l, 'm, 'n) world) call) \<Rightarrow> ('r outcome, ('l, 'm, 'n) world) op" where
  "pg_block ce opname peer dsn query extra lib =
     seq (lift_res peer) (\<lambda>peer.
     seq (exit_span ce opname peer Psycopg) (\<lambda>sp.
     with_span ce sp (
       seq (set_layer sp Database) (\<lambda>_.
       seq (tag_span sp TagDbType ''PostgreSQL'') (\<lambda>_.
       seq (lift_res (key_of_dsn dsn ''dbname'')) (\<lambda>db.
       seq (tag_span sp TagDbInstance db) (\<lambda>_.
       seq (tag_span sp TagDbStatement query) (\<lambda>_.
       seq (gets w_cfg) (\<lambda>c.
       seq (extra sp c) (\<lambda>_.
       run_lib (lib ()))))))))))) "

definition psycopg2_execute ::
  "call_env \<Rightarrow> (unit \<Rightarrow> ('r, ('l, 'm, 'n) world) call) \<Rightarrow> (string, string) dict \<times> string \<times> sql_args \<Rightarrow> ('r outcome, ('l, 'm, 'n) world) op" where
  "psycopg2_execute ce lib rq = (case rq of (dsn, query, vars) \<Rightarrow>
     pg_block ce ''PostgreSQL/Psycopg/execute'' (dsn_peer dsn) dsn query (\<lambda>sp. tag_args sp (vars \<noteq> NoArgs) vars) lib)"

definition psycopg2_executemany ::
  "call_env \<Rightarrow> (unit \<Rightarrow> ('r, ('l, 'm, 'n) world) call) \<Rightarrow> (string, string) dict \<times> string \<times> string list list \<Rightarrow> ('r outcome, ('l, 'm, 'n) world) op" where
  "psycopg2_executemany ce lib rq = (case rq of (dsn, query, vars_list) \<Rightarrow>
     pg_block ce ''PostgreSQL/Psycopg/executemany'' (dsn_peer dsn) dsn query (\<lambda>sp. tag_many sp vars_list) lib)"

text \<open>\<open>','.join(parameters)\<close> takes texts only; \<open>None\<close> stands for a parameter of another type.\<close>

definition proc_args :: "string option list \<Rightarrow> string res" where
  "proc_args ps =
     (if None \<in> set ps then Inl TypeError else Inr (''('' @ join_with '','' (map opt_text ps) @ '')''))"

definition psycopg2_callproc ::
  "call_env \<Rightarrow> (unit \<Rightarrow> ('r, ('l, 'm, 'n) world) call) \<Rightarrow> (string, string) dict \<times> string \<times> string option list \<Rightarrow> ('r outcome, ('l, 'm, 'n) world) op" where
  "psycopg2_callproc ce lib rq = (case rq of (dsn, procname, parameters) \<Rightarrow>
     seq (lift_res (dsn_peer dsn)) (\<lambda>peer.
     seq (exit_span ce ''PostgreSQL/Psycopg/callproc'' peer Psycopg) (\<lambda>sp.
     with_span ce sp (
       seq (set_layer sp Database) (\<lambda>_.
       seq (lift_res (proc_args parameters)) (\<lambda>args.
       seq (tag_span sp TagDbType ''PostgreSQL'') (\<lambda>_.
       seq (lift_res (key_of_dsn dsn ''dbname'')) (\<lambda>db.
       seq (tag_span sp TagDbInstance db) (\<lambda>_.
       seq (tag_span sp TagDbStatement (procname @ args)) (\<lambda>_.
       run_lib (lib ()))))))))))) "

definition psycopg_execute ::
  "call_env \<Rightarrow> (unit \<Rightarrow> ('r, ('l, 'm, 'n) world) call) \<Rightarrow> (string, string) dict \<times> string \<times> string \<times> sql_args \<Rightarrow> ('r outcome, ('l, 'm, 'n) world) op" where
  "psycopg_execute ce lib rq = (case rq of (dsn, port, query, vars) \<Rightarrow>
     pg_block ce ''PostgreSQL/Psycopg/execute'' (dsn_peer3 dsn port) dsn query (\<lambda>sp. tag_args sp (vars \<noteq> NoArgs) vars) lib)"

definition psycopg_executemany ::
  "call_env \<Rightarrow> (unit \<Rightarrow> ('r, ('l, 'm, 'n) world) call) \<Rightarrow> (string, string) dict \<times> string \<times> string \<times> string list list \<Rightarrow> ('r outcome, ('l, 'm, 'n) world) op" where
  "psycopg_executemany ce lib rq = (case rq of (dsn, port, query, vars_list) \<Rightarrow>
     pg_block ce ''PostgreSQL/Psycopg/executemany'' (dsn_peer3 dsn port) dsn query (\<lambda>sp. tag_many sp vars_list) lib)"

definition psycopg_stream ::
  "call_env \<Rightarrow> (unit \<Rightarrow> ('r, ('l, 'm, 'n) world) call) \<Rightarrow> (string, string) dict \<times> string \<times> string \<times> sql_args \<Rightarrow> ('r outcome, ('l, 'm, 'n) world) op" where
  "psycopg_stream ce lib rq = (case rq of (dsn, port, query, vars) \<Rightarrow>
     pg_block ce ''PostgreSQL/Psycopg/stream'' (dsn_peer3 dsn port) dsn query (\<lambda>sp. tag_args sp (vars \<noteq> NoArgs) vars) lib)"

text \<open>The methods of the asynchronous cursor (\<open>install_async\<close>).\<close>

definition psycopg_async_execute ::
  "call_env \<Rightarrow> (unit \<Rightarrow> ('r, ('l, 'm, 'n) world) call) \<Rightarrow> (string, string) dict \<times> string \<times> string \<times> sql_args \<Rightarrow> ('r outcome, ('l, 'm, 'n) world) op" where
  "psycopg_async_execute ce lib rq = (case rq of (dsn, port, query, vars) \<Rightarrow>
     pg_block ce ''PostgreSQL/Psycopg/execute'' (dsn_peer3 dsn port) dsn query (\<lambda>sp. tag_args sp (vars \<noteq> NoArgs) vars) lib)"

definition psycopg_async_executemany ::
  "call_env \<Rightarrow> (unit \<Rightarrow> ('r, ('l, 'm, 'n) world) call) \<Rightarrow> (string, string) dict \<times> string \<times> string \<times> string list list \<Rightarrow> ('r outcome, ('l, 'm, 'n) world) op" where
  "psycopg_async_executemany ce lib rq = (case rq of (dsn, port, query, vars_list) \<Rightarrow>
     pg_block ce ''PostgreSQL/Psycopg/executemany'' (dsn_peer3 dsn port) dsn query (\<lambda>sp. tag_many sp vars_list) lib)"

definition psycopg_async_stream ::
  "call_env \<Rightarrow> (unit \<Rightarrow> ('r, ('l, 'm, 'n) world) call) \<Rightarrow> (string, string) dict \<times> string \<times> string \<times> sql_args \<Rightarrow> ('r outcome, ('l, 'm, 'n) world) op" where
  "psycopg_async_stream ce lib rq = (case rq of (dsn, port, query, vars) \<Rightarrow>
     pg_block ce ''PostgreSQL/Psycopg/stream'' (dsn_peer3 dsn port) dsn query (\<lambda>sp. tag_args sp (vars \<noteq> NoArgs) vars) lib)"

text \<open>\<open>register_type\<close> hands the driver's own object to the driver.\<close>

datatype 'c proxied = Unwrapped 'c | ProxyConnection 'c | ProxyCursor 'c

fun register_type :: "'c proxied \<Rightarrow> 'c" where
  "register_type (ProxyConnection c) = c"
| "register_type (ProxyCursor c) = c"
| "register_type (Unwrapped c) = c"

text \<open>asyncpg: the protocol object may carry the address and database that the wrapped \<open>__init__\<close> stored.\<close>

record pg_protocol =
  pp_addr :: "string option"
  pp_database :: "string option"

definition asyncpg_init :: "string \<times> string \<Rightarrow> string \<Rightarrow> pg_protocol \<Rightarrow> pg_protocol" where
  "asyncpg_init addr database p = p\<lparr>pp_addr := Some (host_port (fst addr) (snd addr)), pp_database := Some database\<rparr>"

definition unless_none :: "string option \<Rightarrow> string" where
  "unless_none x = (case x of None \<Rightarrow> ''<unavailable>'' | Some s \<Rightarrow> s)"

datatype bind_params = OneRow sql_args | ManyRows "string list list"

definition tag_bind :: "nat \<Rightarrow> bind_params \<Rightarrow> config \<Rightarrow> (unit, ('l, 'm, 'n) world) op" where
  "tag_bind sp params = (case params of OneRow args \<Rightarrow> tag_args sp (args \<noteq> NoArgs) args | ManyRows rows \<Rightarrow> tag_many sp rows)"

definition asyncpg_bind ::
  "call_env \<Rightarrow> (unit \<Rightarrow> ('r, ('l, 'm, 'n) world) call) \<Rightarrow> pg_protocol \<times> string \<times> bind_params \<Rightarrow> ('r outcome, ('l, 'm, 'n) world) op" where
  "asyncpg_bind ce future rq = (case rq of (proto, query, params) \<Rightarrow>
     seq (exit_span ce ''PostgreSQL/AsyncPG/bind'' (unless_none (pp_addr proto)) AsyncPG) (\<lambda>sp.
     with_span ce sp (
       seq (set_layer sp Database) (\<lambda>_.
       seq (tag_db sp ''PostgreSQL'' (unless_none (pp_database proto)) query) (\<lambda>_.
       seq (gets w_cfg) (\<lambda>c.
       seq (tag_bind sp params c) (\<lambda>_.
       run_lib (future ()))))))))"

definition asyncpg_query ::
  "call_env \<Rightarrow> (unit \<Rightarrow> ('r, ('l, 'm, 'n) world) call) \<Rightarrow> pg_protocol \<times> string \<Rightarrow> ('r outcome, ('l, 'm, 'n) world) op" where
  "asyncpg_query ce future rq = asyncpg_bind ce future (fst rq, snd rq, OneRow (SeqArgs []))"

section \<open>Neo4j\<close>

text \<open>The merged parameters: \<open>None\<close> if there are none, otherwise what \<open>json.dumps\<close> makes of them, which is an
  exception for values JSON does not have.\<close>

definition neo4j_archive_span ::
  "nat \<Rightarrow> string option \<Rightarrow> string \<Rightarrow> string res option \<Rightarrow> (unit, ('l, 'm, 'n) world) op" where
  "neo4j_archive_span sp database query parameters =
     seq (set_layer sp Database) (\<lambda>_.
     seq (tag_db sp ''Neo4j'' (opt_text database) query) (\<lambda>_.
     seq (gets w_cfg) (\<lambda>c.
     case parameters of
       None \<Rightarrow> ret ()
     | Some dumped \<Rightarrow>
         (if plugin_sql_parameters_max_length c \<noteq> 0
          then seq (lift_res dumped) (\<lambda>parameter.
               tag_span sp TagDbSqlParameters (bracketed (shortened (plugin_sql_parameters_max_length c) parameter)))
          else ret ()))))"

text \<open>The four wrapped methods differ in the operation name and in where the address comes from.\<close>

datatype neo4j_method = SessionRun | TransactionRun | AsyncSessionRun | AsyncTransactionRun

fun neo4j_op :: "neo4j_method \<Rightarrow> string" where
  "neo4j_op SessionRun = ''Neo4j/Session/run''"
| "neo4j_op TransactionRun = ''Neo4j/Transaction/run''"
| "neo4j_op AsyncSessionRun = ''Neo4j/AsyncSession/run''"
| "neo4j_op AsyncTransactionRun = ''Neo4j/AsyncTransaction/run''"

record neo4j_query =
  nq_host :: string
  nq_port :: string
  nq_database :: "string option"
  nq_query :: string
  nq_parameters :: "string res option"

definition neo4j_run ::
  "call_env \<Rightarrow> neo4j_method \<Rightarrow> (unit \<Rightarrow> ('r, ('l, 'm, 'n) world) call) \<Rightarrow> neo4j_query \<Rightarrow> ('r outcome, ('l, 'm, 'n) world) op" where
  "neo4j_run ce m lib q =
     seq (exit_span ce (neo4j_op m) (host_port (nq_host q) (nq_port q)) Neo4j) (\<lambda>sp.
     with_span ce sp (
       seq (neo4j_archive_span sp (nq_database q) (nq_query q) (nq_parameters q)) (\<lambda>_.
       run_lib (lib ()))))"

section \<open>Redis\<close>

definition operations_write :: "string list" where
  "operations_write =
     [''GETSET'', ''SET'', ''SETBIT'', ''SETEX '', ''SETNX '', ''SETRANGE'', ''STRLEN '', ''MSET'', ''MSETNX '', ''PSETEX'',
      ''INCR '', ''INCRBY '', ''INCRBYFLOAT'', ''DECR '', ''DECRBY '', ''APPEND '', ''HMSET'', ''HSET'', ''HSETNX '',
      ''HINCRBY'', ''HINCRBYFLOAT'', ''HDEL'', ''RPOPLPUSH'', ''RPUSH'', ''RPUSHX'', ''LPUSH'', ''LPUSHX'', ''LREM'',
      ''LTRIM'', ''LSET'', ''BRPOPLPUSH'', ''LINSERT'', ''SADD'', ''SDIFF'', ''SDIFFSTORE'', ''SINTERSTORE'', ''SISMEMBER'',
      ''SREM'', ''SUNION'', ''SUNIONSTORE'', ''SINTER'', ''ZADD'', ''ZINCRBY'', ''ZINTERSTORE'', ''ZRANGE'',
      ''ZRANGEBYLEX'', ''ZRANGEBYSCORE'', ''ZRANK'', ''ZREM'', ''ZREMRANGEBYLEX'', ''ZREMRANGEBYRANK'',
      ''ZREMRANGEBYSCORE'', ''ZREVRANGE'', ''ZREVRANGEBYSCORE'', ''ZREVRANK'', ''ZUNIONSTORE'', ''XADD'', ''XDEL'',
      ''DEL'', ''XTRIM'']"

definition operations_read :: "string list" where
  "operations_read =
     [''GETRANGE'', ''GETBIT '', ''MGET'', ''HVALS'', ''HKEYS'', ''HLEN'', ''HEXISTS'', ''HGET'', ''HGETALL'', ''HMGET'',
      ''BLPOP'', ''BRPOP'', ''LINDEX'', ''LLEN'', ''LPOP'', ''LRANGE'', ''RPOP'', ''SCARD'', ''SRANDMEMBER'', ''SPOP'',
      ''SSCAN'', ''SMOVE'', ''ZLEXCOUNT'', ''ZSCORE'', ''ZSCAN'', ''ZCARD'', ''ZCOUNT'', ''XGET'', ''GET'', ''XREAD'', ''XLEN'',
      ''XRANGE'', ''XREVRANGE'']"

fun redis_cmd_key :: "string list \<Rightarrow> string \<times> string" where
  "redis_cmd_key [] = ([], [])"
| "redis_cmd_key [cmd] = (cmd, [])"
| "redis_cmd_key (cmd # key # _) = (cmd, key)"

definition redis_op :: "string \<Rightarrow> string" where
  "redis_op cmd = (if cmd \<in> set operations_write then ''write'' else if cmd \<in> set operations_read then ''read'' else [])"

definition redis_send_command ::
  "call_env \<Rightarrow> (unit \<Rightarrow> ('r, ('l, 'm, 'n) world) call) \<Rightarrow> (string \<times> string) \<times> string list \<Rightarrow> ('r outcome, ('l, 'm, 'n) world) op" where
  "redis_send_command ce lib rq = (case rq of ((host, port), args) \<Rightarrow> (case redis_cmd_key args of (cmd, key) \<Rightarrow>
     seq (exit_span ce (''Redis/'' @ cmd) (host_port host port) Redis) (\<lambda>sp.
     with_span ce sp (
       seq (set_layer sp Cache) (\<lambda>_.
       seq (run_lib (lib ())) (\<lambda>res.
       on_return (\<lambda>_.
         seq (tag_span sp TagCacheType ''Redis'') (\<lambda>_.
         seq (tag_span sp TagCacheKey key) (\<lambda>_.
         seq (tag_span sp TagCacheCmd cmd) (\<lambda>_.
         tag_span sp TagCacheOp (redis_op cmd))))) res))))))"

definition with_default :: "string \<Rightarrow> string option \<Rightarrow> string" where
  "with_default d x = (case x of None \<Rightarrow> d | Some s \<Rightarrow> s)"

definition aioredis_execute_command ::
  "call_env \<Rightarrow> (unit \<Rightarrow> ('r, ('l, 'm, 'n) world) call) \<Rightarrow> (string, string) dict \<times> string \<Rightarrow> ('r outcome, ('l, 'm, 'n) world) op" where
  "aioredis_execute_command ce lib rq = (case rq of (connargs, cmd) \<Rightarrow>
     seq (exit_span ce (''Redis/AIORedis/'' @ cmd)
            (host_port (with_default ''localhost'' (dict_get connargs ''host'')) (with_default ''6379'' (dict_get connargs ''port''))) AIORedis) (\<lambda>sp.
     with_span ce sp (
       seq (set_layer sp Cache) (\<lambda>_.
       seq (tag_db sp ''Redis'' (with_default ''0'' (dict_get connargs ''db'')) cmd) (\<lambda>_.
       run_lib (lib ()))))))"

section \<open>Elasticsearch and HBase\<close>

record es_request =
  es_hosts :: "(string \<times> string) list"
  es_method :: string
  es_url :: string
  es_body :: "string option"

definition peers :: "(string \<times> string) list \<Rightarrow> string" where
  "peers hosts = join_with '','' (map (\<lambda>(h, p). host_port h p) hosts)"

definition elasticsearch_perform_request ::
  "call_env \<Rightarrow> (unit \<Rightarrow> ('r, ('l, 'm, 'n) world) call) \<Rightarrow> es_request \<Rightarrow> ('r outcome, ('l, 'm, 'n) world) op" where
  "elasticsearch_perform_request ce lib rq =
     seq (exit_span ce (''Elasticsearch/'' @ es_method rq @ es_url rq) (peers (es_hosts rq)) Elasticsearch) (\<lambda>sp.
     with_span ce sp (
       seq (set_layer sp Database) (\<lambda>_.
       seq (run_lib (lib ())) (\<lambda>res.
       on_return (\<lambda>_.
         seq (tag_span sp TagDbType ''Elasticsearch'') (\<lambda>_.
         seq (gets w_cfg) (\<lambda>c.
         when_op (plugin_elasticsearch_trace_dsl c) (tag_span sp TagDbStatement (opt_text (es_body rq)))))) res))))"

text \<open>Table names and row keys are texts, bytes or \<open>None\<close> (shown as such).\<close>

datatype hbase_name = HText string | HBytes string | HNone

fun bytes2str :: "hbase_name \<Rightarrow> string res" where
  "bytes2str (HBytes b) = decode_text b"
| "bytes2str (HText s) = Inr s"
| "bytes2str HNone = Inr ''None''"

definition happybase_create_table ::
  "call_env \<Rightarrow> (unit \<Rightarrow> ('r, ('l, 'm, 'n) world) call) \<Rightarrow> (string \<times> string) \<times> string \<Rightarrow> ('r outcome, ('l, 'm, 'n) world) op" where
  "happybase_create_table ce lib rq = (case rq of ((host, port), name) \<Rightarrow>
     seq (exit_span ce (''HBase/create/'' @ name) (host_port host port) HBase) (\<lambda>sp.
     with_span ce sp (
       seq (set_layer sp Database) (\<lambda>_.
       seq (tag_span sp TagDbType ''HBase'') (\<lambda>_.
       seq (tag_span sp TagDbStatement []) (\<lambda>_.
       run_lib (lib ())))))))"

record hbase_call =
  hb_host :: string
  hb_port :: string
  hb_table :: hbase_name
  hb_name :: string
  hb_row :: hbase_name

definition happybase_opt ::
  "call_env \<Rightarrow> (unit \<Rightarrow> ('r, ('l, 'm, 'n) world) call) \<Rightarrow> hbase_call \<Rightarrow> ('r outcome, ('l, 'm, 'n) world) op" where
  "happybase_opt ce f h =
     seq (get_context (ce_start ce)) (\<lambda>ctx.
     seq (lift_res (bytes2str (hb_table h))) (\<lambda>table_name.
     seq (lift_res (bytes2str (hb_row h))) (\<lambda>row.
     seq (new_exit_span (ce_start ce) ctx (''HBase/'' @ hb_name h @ ''/'' @ table_name @ ''/'' @ row)
            (host_port (hb_host h) (hb_port h)) (Some HBase) None) (\<lambda>sp.
     with_span ce sp (
       seq (set_layer sp Database) (\<lambda>_.
       seq (tag_span sp TagDbType ''HBase'') (\<lambda>_.
       seq (tag_span sp TagDbStatement []) (\<lambda>_.
       run_lib (f ())))))))))"

text \<open>\<open>rows\<close> is named after the first key of a non-empty list.\<close>

definition happybase_rows_row :: "hbase_name list \<Rightarrow> hbase_name" where
  "happybase_rows_row rows = (case rows of [] \<Rightarrow> HText [] | r # _ \<Rightarrow> r)"

section \<open>MongoDB\<close>

text \<open>\<open>mongo_str\<close> is \<open>str\<close> of the command without its first entry.\<close>

record mongo_command =
  mc_address :: "string \<times> string"
  mc_db :: string
  mc_spec :: "(string, string) dict"

definition get_filter :: "((string, string) dict \<Rightarrow> string) \<Rightarrow> string \<Rightarrow> (string, string) dict \<Rightarrow> string" where
  "get_filter mongo_str request_type spec =
     request_type @ '' '' @ mongo_str (filter (\<lambda>(k, _). k \<noteq> request_type) spec)"

definition tag_filters :: "nat \<Rightarrow> string \<Rightarrow> string \<Rightarrow> (unit, ('l, 'm, 'n) world) op" where
  "tag_filters sp db filters =
     seq (tag_span sp TagDbType ''MongoDB'') (\<lambda>_.
     seq (tag_span sp TagDbInstance db) (\<lambda>_.
     seq (gets w_cfg) (\<lambda>c.
     when_op (plugin_pymongo_trace_parameters c)
       (tag_span sp TagDbStatement (shortened (plugin_pymongo_parameters_max_length c) filters)))))"

definition mongo_operation :: "(string, string) dict \<Rightarrow> string res" where
  "mongo_operation spec = (case spec of [] \<Rightarrow> Inl IndexError | (k, _) # _ \<Rightarrow> Inr k)"

definition pymongo_command ::
  "call_env \<Rightarrow> ((string, string) dict \<Rightarrow> string) \<Rightarrow> (unit \<Rightarrow> ('r, ('l, 'm, 'n) world) call) \<Rightarrow> mongo_command
     \<Rightarrow> ('r outcome, ('l, 'm, 'n) world) op" where
  "pymongo_command ce mongo_str lib rq =
     (if dict_get (mc_spec rq) ''ismaster'' \<noteq> None then run_lib (lib ())
      else
        seq (get_context (ce_start ce)) (\<lambda>ctx.
        seq (lift_res (mongo_operation (mc_spec rq))) (\<lambda>operation.
        seq (new_exit_span (ce_start ce) ctx (''MongoDB/'' @ capitalize operation @ ''Operation'')
               (host_port (fst (mc_address rq)) (snd (mc_address rq))) (Some MongoDB) None) (\<lambda>sp.
        with_span ce sp (
          seq (run_lib (lib ())) (\<lambda>res.
          on_return (\<lambda>_.
            seq (set_layer sp Database) (\<lambda>_.
            tag_filters sp (mc_db rq) (get_filter mongo_str operation (mc_spec rq)))) res))))))"

definition bulk_op_map :: "nat \<Rightarrow> string" where
  "bulk_op_map n = (if n = 0 then ''insert'' else if n = 1 then ''update'' else if n = 2 then ''delete'' else ''None'')"

definition bulk_filters :: "(nat \<times> string) list \<Rightarrow> string" where
  "bulk_filters ops = foldl (\<lambda>filters (k, s). (filters @ bulk_op_map k @ '' '' @ s) @ '' '') [] ops"

record mongo_collection =
  mg_nodes :: "(string \<times> string) list"
  mg_db :: string

definition pymongo_bulk_execute ::
  "call_env \<Rightarrow> (unit \<Rightarrow> ('r, ('l, 'm, 'n) world) call) \<Rightarrow> mongo_collection \<times> (nat \<times> string) list \<Rightarrow> ('r outcome, ('l, 'm, 'n) world) op" where
  "pymongo_bulk_execute ce lib rq = (case rq of (coll, ops) \<Rightarrow>
     seq (exit_span ce ''MongoDB/MixedBulkWriteOperation'' (peers (mg_nodes coll)) MongoDB) (\<lambda>sp.
     with_span ce sp (
       seq (set_layer sp Database) (\<lambda>_.
       seq (run_lib (lib ())) (\<lambda>res.
       on_return (\<lambda>_. tag_filters sp (mg_db coll) (bulk_filters ops)) res)))))"

definition pymongo_send_message ::
  "call_env \<Rightarrow> (unit \<Rightarrow> ('r, ('l, 'm, 'n) world) call) \<Rightarrow> mongo_collection \<times> string \<Rightarrow> ('r outcome, ('l, 'm, 'n) world) op" where
  "pymongo_send_message ce lib rq = (case rq of (coll, spec) \<Rightarrow>
     seq (exit_span ce ''MongoDB/FindOperation'' (peers (mg_nodes coll)) MongoDB) (\<lambda>sp.
     with_span ce sp (
       seq (set_layer sp Database) (\<lambda>_.
       seq (run_lib (lib ())) (\<lambda>res.
       on_return (\<lambda>_. tag_filters sp (mg_db coll) (''find '' @ spec)) res)))))"

section \<open>The contract\<close>

lemma keeps_tag_args: "keeps t True (injectable sp) (tag_args sp b args c) (\<lambda>_ _. True)"
  unfolding tag_args_def by (intro keeps_if keeps_then [OF keeps_lift stable_injectable] keeps_tag_exit keeps_ret) simp

lemma keeps_tag_many: "keeps t may (injectable sp) (tag_many sp rows c) (\<lambda>_ _. True)"
  unfolding tag_many_def by (intro exit_body_rules)

lemma keeps_tag_bind: "keeps t True (injectable sp) (tag_bind sp params c) (\<lambda>_ _. True)"
  unfolding tag_bind_def by (cases params) (simp_all add: keeps_tag_args keeps_tag_many)

lemma keeps_tag_db: "keeps t may (injectable sp) (tag_db sp ty inst stmt) (\<lambda>_ _. True)"
  unfolding tag_db_def by (intro exit_body_rules)

lemma keeps_archive: "keeps t True (injectable sp) (neo4j_archive_span sp db query ps) (\<lambda>_ _. True)"
  unfolding neo4j_archive_span_def
  by (intro exit_body_rules keeps_do [OF keeps_tag_db stable_injectable] keeps_config)
    (auto intro!: keeps_ret keeps_then [OF keeps_lift stable_injectable] keeps_tag_exit split: option.split)

lemma keeps_tag_filters: "keeps t may (injectable sp) (tag_filters sp db fs) (\<lambda>_ _. True)"
  unfolding tag_filters_def by (intro exit_body_rules keeps_config)

lemma keeps_prod: "(\<And>a b. keeps t may P (f a b) Q) \<Longrightarrow> keeps t may P (case p of (a, b) \<Rightarrow> f a b) Q"
  by (cases p) simp

lemmas db_rules = keeps_prod keeps_block keeps_exit_span keeps_config keeps_ret exit_body_rules
  keeps_do [OF keeps_tag_args stable_injectable] keeps_do [OF keeps_tag_many stable_injectable]
  keeps_do [OF keeps_tag_bind stable_injectable] keeps_do [OF keeps_tag_db stable_injectable]
  keeps_do [OF keeps_archive stable_injectable] keeps_then [OF keeps_lift stable_injectable]
  keeps_tag_args keeps_tag_filters

lemma db_keeps_quiet:
  assumes "same_thread t ce" and "lib_ok t lib"
  shows "keeps t False (\<lambda>_. True) (redis_send_command ce lib r1) (\<lambda>r _. called t any_arg lib r)"
    and "keeps t False (\<lambda>_. True) (aioredis_execute_command ce lib r2) (\<lambda>r _. called t any_arg lib r)"
    and "keeps t False (\<lambda>_. True) (elasticsearch_perform_request ce lib r3) (\<lambda>r _. called t any_arg lib r)"
    and "keeps t False (\<lambda>_. True) (happybase_create_table ce lib r4) (\<lambda>r _. called t any_arg lib r)"
    and "keeps t False (\<lambda>_. True) (pymongo_bulk_execute ce lib r5) (\<lambda>r _. called t any_arg lib r)"
    and "keeps t False (\<lambda>_. True) (pymongo_send_message ce lib r6) (\<lambda>r _. called t any_arg lib r)"
  unfolding redis_send_command_def aioredis_execute_command_def elasticsearch_perform_request_def
    happybase_create_table_def pymongo_bulk_execute_def pymongo_send_message_def
  by (intro db_rules assms; simp add: any_arg_def)+

lemma db_keeps:
  assumes "same_thread t ce" and "lib_ok t lib"
  shows "keeps t True (\<lambda>_. True) (pymysql_execute ce lib r1) (\<lambda>r _. called t any_arg lib r)"
    and "keeps t True (\<lambda>_. True) (mysqlclient_execute ce lib r1) (\<lambda>r _. called t any_arg lib r)"
    and "keeps t True (\<lambda>_. True) (asyncpg_bind ce lib r2) (\<lambda>r _. called t any_arg lib r)"
    and "keeps t True (\<lambda>_. True) (neo4j_run ce m lib q) (\<lambda>r _. called t any_arg lib r)"
  unfolding pymysql_execute_def mysqlclient_execute_def asyncpg_bind_def neo4j_run_def
  by (intro db_rules assms; simp add: any_arg_def)+

lemma pg_keeps:
  assumes "same_thread t ce" and "lib_ok t lib" and "\<And>sp c. keeps t True (injectable sp) (extra sp c) (\<lambda>_ _. True)"
  shows "keeps t True (\<lambda>_. True) (pg_block ce opname peer dsn query extra lib) (\<lambda>r _. called t any_arg lib r)"
  unfolding pg_block_def
  by (intro keeps_then [OF keeps_lift stable_const] db_rules keeps_do [OF assms(3) stable_injectable] assms; simp add: any_arg_def)

lemma psycopg_keeps:
  assumes "same_thread t ce" and "lib_ok t lib"
  shows "keeps t True (\<lambda>_. True) (psycopg2_execute ce lib r1) (\<lambda>r _. called t any_arg lib r)"
    and "keeps t True (\<lambda>_. True) (psycopg2_executemany ce lib r2) (\<lambda>r _. called t any_arg lib r)"
    and "keeps t True (\<lambda>_. True) (psycopg_execute ce lib r3) (\<lambda>r _. called t any_arg lib r)"
    and "keeps t True (\<lambda>_. True) (psycopg_executemany ce lib r4) (\<lambda>r _. called t any_arg lib r)"
    and "keeps t True (\<lambda>_. True) (psycopg_stream ce lib r3) (\<lambda>r _. called t any_arg lib r)"
  unfolding psycopg2_execute_def psycopg2_executemany_def psycopg_execute_def psycopg_executemany_def psycopg_stream_def
  by (intro keeps_prod pg_keeps keeps_tag_args keeps_tag_many assms)+

lemma callproc_keeps:
  assumes "same_thread t ce" and "lib_ok t lib"
  shows "keeps t True (\<lambda>_. True) (psycopg2_callproc ce lib r1) (\<lambda>r _. called t any_arg lib r)"
  unfolding psycopg2_callproc_def
  by (intro keeps_prod keeps_then [OF keeps_lift stable_const] db_rules assms; simp add: any_arg_def)

text \<open>Plugins that fetch the context before they look at their arguments.\<close>

lemma seq_lift_Inr [simp]: "seq (lift_res (Inr x)) f = f x"
  by (simp add: fun_eq_iff seq_def lift_res_def)

lemma late_exit_span:
  "seq (get_context (ce_start ce)) (\<lambda>ctx. seq (new_exit_span (ce_start ce) ctx opname peer (Some cmp) None) k)
     = seq (exit_span ce opname peer cmp) k"
  by (auto simp: fun_eq_iff exit_span_def seq_def split: prod.splits sum.splits)

lemma keeps_context_error:
  assumes "same_thread t ce"
  shows "keeps t True (\<lambda>_. True) (seq (get_context (ce_start ce)) (\<lambda>ctx. seq (lift_res (Inl err)) (f ctx))) Q"
proof (rule keeps_seq)
  have "te_tid (ce_start ce) = t" using assms by (simp add: same_thread_def)
  then show "keeps t True (\<lambda>_. True) (get_context (ce_start ce)) (top_ok (ce_start ce))" by (rule keeps_get_context)
  show "keeps t True (top_ok (ce_start ce) ctx) (seq (lift_res (Inl err)) (f ctx)) Q" for ctx
    by (rule keeps_state) (simp add: seq_def lift_res_def)
qed

lemma happybase_keeps:
  assumes "same_thread t ce" and "lib_ok t lib"
  shows "keeps t True (\<lambda>_. True) (happybase_opt ce lib h) (\<lambda>r _. called t any_arg lib r)"
proof (cases "bytes2str (hb_table h)")
  case (Inl err)
  then show ?thesis unfolding happybase_opt_def by (simp add: keeps_context_error [OF assms(1)])
next
  case table: (Inr tn)
  show ?thesis
  proof (cases "bytes2str (hb_row h)")
    case (Inl err)
    with table show ?thesis unfolding happybase_opt_def by (simp add: keeps_context_error [OF assms(1)])
  next
    case (Inr row)
    show ?thesis unfolding happybase_opt_def table Inr seq_lift_Inr late_exit_span
      by (intro db_rules assms any_argI)
  qed
qed

lemma pymongo_keeps:
  assumes "same_thread t ce" and "lib_ok t lib"
  shows "keeps t True (\<lambda>_. True) (pymongo_command ce ms lib rq) (\<lambda>r _. called t any_arg lib r)"
proof (cases "mongo_operation (mc_spec rq)")
  case (Inl err)
  then show ?thesis unfolding pymongo_command_def
    by (intro keeps_if keeps_run_lib assms any_argI) (simp add: keeps_context_error [OF assms(1)])
next
  case (Inr k)
  show ?thesis unfolding pymongo_command_def Inr seq_lift_Inr late_exit_span
    by (intro keeps_if db_rules assms; simp add: any_arg_def)
qed

interpretation pymysql: instrumented t True "\<lambda>_. any_arg" "pymysql_execute (on_thread t ce)" for t ce
  by unfold_locales (simp add: db_keeps)

interpretation mysqlclient: instrumented t True "\<lambda>_. any_arg" "mysqlclient_execute (on_thread t ce)" for t ce
  by unfold_locales (simp add: db_keeps)

interpretation asyncpg: instrumented t True "\<lambda>_. any_arg" "asyncpg_bind (on_thread t ce)" for t ce
  by unfold_locales (simp add: db_keeps)

interpretation neo4j: instrumented t True "\<lambda>_. any_arg" "neo4j_run (on_thread t ce) m" for t ce m
  by unfold_locales (simp add: db_keeps)

interpretation psycopg2: instrumented t True "\<lambda>_. any_arg" "psycopg2_execute (on_thread t ce)" for t ce
  by unfold_locales (simp add: psycopg_keeps)

interpretation psycopg: instrumented t True "\<lambda>_. any_arg" "psycopg_execute (on_thread t ce)" for t ce
  by unfold_locales (simp add: psycopg_keeps)

interpretation redis: instrumented t False "\<lambda>_. any_arg" "redis_send_command (on_thread t ce)" for t ce
  by unfold_locales (simp add: db_keeps_quiet)

interpretation aioredis: instrumented t False "\<lambda>_. any_arg" "aioredis_execute_command (on_thread t ce)" for t ce
  by unfold_locales (simp add: db_keeps_quiet)

interpretation elasticsearch: instrumented t False "\<lambda>_. any_arg" "elasticsearch_perform_request (on_thread t ce)" for t ce
  by unfold_locales (simp add: db_keeps_quiet)

interpretation happybase: instrumented t True "\<lambda>_. any_arg" "happybase_opt (on_thread t ce)" for t ce
  by unfold_locales (simp add: happybase_keeps)

interpretation pymongo: instrumented t True "\<lambda>_. any_arg" "pymongo_command (on_thread t ce) ms" for t ce ms
  by unfold_locales (simp add: pymongo_keeps)

section \<open>Limits and failures\<close>

definition row_text :: "string list \<Rightarrow> string" where
  "row_text vs = bracketed (join_with '','' vs)"

lemma row_text_starts: "starts_char (row_text vs)"
  by (simp add: starts_char_def row_text_def bracketed_def is_cont_def)

lemma many_texts_len:
  assumes "0 \<le> sofar" and "sofar \<le> max_len"
  shows "sofar + int (py_len (concat (many_texts max_len sofar rows)))
     = (if sofar + (\<Sum>vs\<leftarrow>rows. int (py_len (row_text vs))) \<le> max_len
        then sofar + (\<Sum>vs\<leftarrow>rows. int (py_len (row_text vs))) else max_len + 3)"
  using assms
proof (induction rows arbitrary: sofar)
  case (Cons vs rows)
  let ?n = "int (py_len (row_text vs))" let ?s = "\<Sum>vs\<leftarrow>rows. int (py_len (row_text vs))"
  have pos: "0 \<le> ?s" by (intro sum_list_nonneg) auto
  show ?case
  proof (cases "sofar + ?n > max_len")
    case True
    have dots: "py_len ''...'' = 3" by (simp add: py_len_def is_cont_def)
    have "int (py_len (py_prefix (max_len - (sofar + ?n)) (row_text vs))) = max_len - sofar"
      using py_prefix_len [OF row_text_starts [of vs], of "max_len - (sofar + ?n)"] True Cons.prems by simp
    with True dots pos show ?thesis by (simp add: Let_def row_text_def)
  next
    case False
    with Cons.IH [of "sofar + ?n"] Cons.prems show ?thesis by (simp add: Let_def row_text_def add.assoc)
  qed
qed simp



text \<open>A PostgreSQL connection without a host parameter - a Unix socket, or the default host - cannot be
  queried through the plugins: \<open>execute\<close>, \<open>executemany\<close>, \<open>callproc\<close> and \<open>stream\<close> raise \<open>KeyError\<close> before the
  driver is called, and nothing changes.\<close>

theorem hostless_connection_fails:
  assumes dsn: "dict_get dsn ''host'' = None"
    and f: "f \<in> {psycopg2_execute ce lib (dsn, query, vars), psycopg2_executemany ce lib (dsn, query, rows),
      psycopg2_callproc ce lib (dsn, query, ps), psycopg_execute ce lib (dsn, port, query, vars),
      psycopg_executemany ce lib (dsn, port, query, rows), psycopg_stream ce lib (dsn, port, query, vars),
      psycopg_async_execute ce lib (dsn, port, query, vars), psycopg_async_executemany ce lib (dsn, port, query, rows),
      psycopg_async_stream ce lib (dsn, port, query, vars)}"
  shows "f w = (Inl (KeyError ''host''), w)"
proof -
  have peer: "dsn_peer dsn = Inl (KeyError ''host'')" "dsn_peer3 dsn port = Inl (KeyError ''host'')"
    using dsn by (simp_all add: dsn_peer_def dsn_peer3_def key_of_dsn_def)
  have pg: "pg_block ce opname (Inl err) dsn q extra lib w = (Inl err, w)" for opname err q extra
    by (simp add: pg_block_def seq_def lift_res_def)
  have "psycopg2_callproc ce lib (dsn, query, ps) w = (Inl (KeyError ''host''), w)"
    by (simp add: psycopg2_callproc_def peer seq_def lift_res_def)
  with f pg show ?thesis
    unfolding insert_iff empty_iff psycopg2_execute_def psycopg2_executemany_def psycopg_execute_def psycopg_executemany_def
      psycopg_stream_def psycopg_async_execute_def psycopg_async_executemany_def psycopg_async_stream_def prod.case peer
    by (elim disjE FalseE; hypsubst; simp)
qed

theorem hostless_connection_fails_witness:
  "\<forall>c. psycopg_execute demo_call (quiet_lib (1 :: int)) ([(''dbname'', ''d'')], ''5432'', ''SELECT 1'', NoArgs) (demo_world c)
     = (Inl (KeyError ''host''), demo_world c)"
proof
  fix c
  show "psycopg_execute demo_call (quiet_lib (1 :: int)) ([(''dbname'', ''d'')], ''5432'', ''SELECT 1'', NoArgs) (demo_world c)
     = (Inl (KeyError ''host''), demo_world c)"
    by (rule hostless_connection_fails [of "[(''dbname'', ''d'')]" _ demo_call "quiet_lib 1" "''SELECT 1''" NoArgs "[]" "[]" "''5432''"])
      simp_all
qed

end
