(* ===== verification/MqPlugins.thy ===== *)
theory MqPlugins
  imports DbPlugins
begin

text \<open>
  The plugins for message queues: \<open>sw_kafka.py\<close>, \<open>sw_confluent_kafka.py\<close>, \<open>sw_rabbitmq.py\<close>, \<open>sw_amqp.py\<close>,
  \<open>sw_aiormq.py\<close>, \<open>sw_pulsar.py\<close> and \<open>sw_celery.py\<close>.  A producer opens an exit span and sends the two
  propagation items as headers of the message; a consumer reads them back and opens an entry span
  around the callback, or one that covers the polled messages.
\<close>

section \<open>Headers of messages\<close>

definition headers_or_empty :: "(string, string) dict option \<Rightarrow> (string, string) dict" where
  "headers_or_empty h = (case h of None \<Rightarrow> [] | Some d \<Rightarrow> d)"

text \<open>Kafka headers are a list of pairs: \<open>headers.append((item.key, item.val.encode('utf-8')))\<close>.\<close>

fun append_headers ::
  "carrier_item list \<Rightarrow> correlation carrier \<Rightarrow> (string \<times> string) list \<Rightarrow> (string \<times> string) list res" where
  "append_headers [] c h = Inr h"
| "append_headers (i # is) c h = bind_res (get_item i c) (\<lambda>v. append_headers is c (h @ [(item_key i, v)]))"

definition inject_append ::
  "nat carrier \<Rightarrow> (string \<times> string) list \<Rightarrow> ((string \<times> string) list, ('l, 'm, 'n) world) op" where
  "inject_append c h w = (append_headers carrier_items (recarry (w_corrs w ! c_correlation c) c) h, w)"

text \<open>A carrier filled by one of the reading loops, with its dictionary in the store.\<close>

definition store_carrier :: "(int \<Rightarrow> py_error option \<times> correlation carrier) \<Rightarrow> (nat carrier, ('l, 'm, 'n) world) op" where
  "store_carrier fill w =
     (case fill (correlation_element_max_number (w_cfg w)) of
        (err, c) \<Rightarrow>
          (let w' = w\<lparr>w_corrs := w_corrs w @ [c_correlation c]\<rparr> in
           case err of Some x \<Rightarrow> (Inl x, w') | None \<Rightarrow> (Inr (recarry (length (w_corrs w)) c), w')))"

text \<open>The loop whose values may have to be decoded first.\<close>

fun fill_decoding ::
  "(string \<Rightarrow> string res option) \<Rightarrow> carrier_item list \<Rightarrow> correlation carrier \<Rightarrow> int \<Rightarrow> py_error option \<times> correlation carrier" where
  "fill_decoding look [] c mx = (None, c)"
| "fill_decoding look (i # is) c mx =
     (case look (item_key i) of
        None \<Rightarrow> fill_decoding look is c mx
      | Some (Inl err) \<Rightarrow> (Some err, c)
      | Some (Inr v) \<Rightarrow>
          (case set_item mx i (Some v) c of
             (Some err, c') \<Rightarrow> (Some err, c')
           | (None, c') \<Rightarrow> fill_decoding look is c' mx))"

text \<open>A value on the wire: a text or bytes.\<close>

datatype wire_text = Text string | Raw string

fun wire_decode :: "wire_text \<Rightarrow> string res" where
  "wire_decode (Text s) = Inr s"
| "wire_decode (Raw s) = decode_text s"

section \<open>kafka-python\<close>

definition hex_digit :: "nat \<Rightarrow> char" where
  "hex_digit n = ''0123456789abcdef'' ! n"

text \<open>\<open>str\<close> of a bytes object: its literal, with the quotes and the escapes.\<close>

definition bytes_quote :: "string \<Rightarrow> char" where
  "bytes_quote s = (if CHR 0x27 \<in> set s \<and> CHR 0x22 \<notin> set s then CHR 0x22 else CHR 0x27)"

definition byte_escape :: "char \<Rightarrow> char \<Rightarrow> string" where
  "byte_escape q ch =
     (if ch = q \<or> ch = CHR 0x5C then [CHR 0x5C, ch]
      else if ch = CHR 0x09 then [CHR 0x5C, CHR ''t'']
      else if ch = CHR 0x0A then [CHR 0x5C, CHR ''n'']
      else if ch = CHR 0x0D then [CHR 0x5C, CHR ''r'']
      else let n = of_char ch :: nat in
           if n < 32 \<or> 127 \<le> n then [CHR 0x5C, CHR ''x'', hex_digit (n div 16), hex_digit (n mod 16)] else [ch])"

definition bytes_str :: "string \<Rightarrow> string" where
  "bytes_str s = (let q = bytes_quote s in CHR ''b'' # q # concat (map (byte_escape q) s) @ [q])"

text \<open>\<open>for item in carrier: for header in record.headers: if item.key == header[0]: item.val = str(header[1])\<close>.\<close>

fun kafka_item ::
  "int \<Rightarrow> carrier_item \<Rightarrow> (string \<times> string) list \<Rightarrow> correlation carrier \<Rightarrow> py_error option \<times> correlation carrier" where
  "kafka_item mx i [] c = (None, c)"
| "kafka_item mx i ((k, v) # hs) c =
     (if item_key i = k
      then (case set_item mx i (Some (bytes_str v)) c of
              (Some err, c') \<Rightarrow> (Some err, c')
            | (None, c') \<Rightarrow> kafka_item mx i hs c')
      else kafka_item mx i hs c)"

fun kafka_fill ::
  "(string \<times> string) list \<Rightarrow> carrier_item list \<Rightarrow> correlation carrier \<Rightarrow> int \<Rightarrow> py_error option \<times> correlation carrier" where
  "kafka_fill hs [] c mx = (None, c)"
| "kafka_fill hs (i # is) c mx =
     (case kafka_item mx i hs c of
        (Some err, c') \<Rightarrow> (Some err, c')
      | (None, c') \<Rightarrow> kafka_fill hs is c' mx)"

fun kafka_records :: "trace_env \<Rightarrow> nat \<Rightarrow> (string \<times> string) list list \<Rightarrow> (unit, ('l, 'm, 'n) world) op" where
  "kafka_records e sp [] = ret ()"
| "kafka_records e sp (hs # rs) =
     seq (store_carrier (kafka_fill hs carrier_items (Carrier_empty []))) (\<lambda>carrier.
     seq (span_extract e sp (Some carrier)) (\<lambda>_. kafka_records e sp rs))"

fun kafka_partitions ::
  "trace_env \<Rightarrow> nat \<Rightarrow> string \<Rightarrow> string \<Rightarrow> (string \<times> string) list list list \<Rightarrow> (unit, ('l, 'm, 'n) world) op" where
  "kafka_partitions e sp brokers topics [] = ret ()"
| "kafka_partitions e sp brokers topics (rs # ps) =
     seq (kafka_records e sp rs) (\<lambda>_.
     seq (tag_span sp TagMqBroker brokers) (\<lambda>_.
     seq (tag_span sp TagMqTopic topics) (\<lambda>_.
     seq (set_layer sp MQ) (\<lambda>_.
     seq (set_component sp KafkaConsumer) (\<lambda>_.
     kafka_partitions e sp brokers topics ps)))))"

record kafka_consumer =
  kc_servers :: "string list"
  kc_subscription :: "string list"
  kc_assignment :: "string list"
  kc_group :: "string option"

definition kafka_topics :: "kafka_consumer \<Rightarrow> string" where
  "kafka_topics k = join_with '';'' (if kc_subscription k \<noteq> [] then kc_subscription k else kc_assignment k)"

text \<open>\<open>records\<close> gives, for each partition of a poll's result, the headers of its records.\<close>

definition kafka_poll_once ::
  "call_env \<Rightarrow> ('r \<Rightarrow> (string \<times> string) list list list) \<Rightarrow> (unit \<Rightarrow> ('r, ('l, 'm, 'n) world) call) \<Rightarrow> kafka_consumer
     \<Rightarrow> ('r outcome, ('l, 'm, 'n) world) op" where
  "kafka_poll_once ce records lib k =
     seq (run_lib (lib ())) (\<lambda>res.
     on_return (\<lambda>r.
       if records r = [] then ret ()
       else seq (entry_span ce (''Kafka/'' @ kafka_topics k @ ''/Consumer/'' @ opt_text (kc_group k)) None None) (\<lambda>sp.
            seq (with_span ce sp (
                   seq (kafka_partitions (ce_start ce) sp (join_with '';'' (kc_servers k)) (kafka_topics k) (records r)) (\<lambda>_.
                   ret (Returned ())))) (\<lambda>_. ret ()))) res)"

definition own_topic :: "config \<Rightarrow> string \<Rightarrow> bool" where
  "own_topic c topic =
     (agent_protocol c = ''kafka''
      \<and> (kafka_topic_segment c = topic \<or> kafka_topic_log c = topic \<or> kafka_topic_management c = topic \<or> kafka_topic_meter c = topic))"

record kafka_message =
  km_servers :: "string list"
  km_topic :: string
  km_headers :: "(string \<times> string) list option"

definition kafka_send ::
  "call_env \<Rightarrow> ((string \<times> string) list option \<Rightarrow> ('r, ('l, 'm, 'n) world) call) \<Rightarrow> kafka_message
     \<Rightarrow> ('r outcome, ('l, 'm, 'n) world) op" where
  "kafka_send ce lib m =
     seq (gets w_cfg) (\<lambda>c.
     if own_topic c (km_topic m) then run_lib (lib (km_headers m))
     else
       seq (exit_span ce (''Kafka/'' @ km_topic m @ ''/Producer'') (join_with '';'' (km_servers m)) KafkaProducer) (\<lambda>sp.
       with_span ce sp (
         seq (span_inject sp) (\<lambda>carrier.
         seq (set_layer sp MQ) (\<lambda>_.
         seq (inject_append carrier (case km_headers m of None \<Rightarrow> [] | Some h \<Rightarrow> h)) (\<lambda>h.
         seq (run_lib (lib (Some h))) (\<lambda>res.
         on_return (\<lambda>_.
           seq (tag_span sp TagMqBroker (join_with '';'' (km_servers m))) (\<lambda>_.
           tag_span sp TagMqTopic (km_topic m))) res)))))))"

section \<open>RabbitMQ\<close>

record rabbit_message =
  rm_peer :: string
  rm_exchange :: string
  rm_routing_key :: string
  rm_headers :: "(string, string) dict option"

definition rabbit_op :: "rabbit_message \<Rightarrow> string \<Rightarrow> string" where
  "rabbit_op m role = ''RabbitMQ/Topic/'' @ rm_exchange m @ ''/Queue/'' @ rm_routing_key m @ ''/'' @ role"

definition tag_rabbit :: "nat \<Rightarrow> rabbit_message \<Rightarrow> (unit, ('l, 'm, 'n) world) op" where
  "tag_rabbit sp m =
     seq (tag_span sp TagMqBroker (rm_peer m)) (\<lambda>_.
     seq (tag_span sp TagMqTopic (rm_exchange m)) (\<lambda>_.
     tag_span sp TagMqQueue (rm_routing_key m)))"

definition rabbitmq_basic_publish ::
  "call_env \<Rightarrow> ((string, string) dict \<Rightarrow> ('r, ('l, 'm, 'n) world) call) \<Rightarrow> rabbit_message \<Rightarrow> ('r outcome, ('l, 'm, 'n) world) op" where
  "rabbitmq_basic_publish ce lib m =
     seq (exit_span ce (rabbit_op m ''Producer'') (rm_peer m) RabbitmqProducer) (\<lambda>sp.
     with_span ce sp (
       seq (span_inject sp) (\<lambda>carrier.
       seq (set_layer sp MQ) (\<lambda>_.
       seq (inject_headers carrier (headers_or_empty (rm_headers m))) (\<lambda>h.
       seq (run_lib (lib h)) (\<lambda>res.
       on_return (\<lambda>_. tag_rabbit sp m) res))))))"

text \<open>\<open>if item.key in headers: item.val = headers[item.key]\<close>, where \<open>in\<close> on \<open>None\<close> raises a \<open>TypeError\<close> that is
  swallowed; the context is fetched before.\<close>

definition rabbit_look :: "rabbit_message \<Rightarrow> string \<Rightarrow> string option" where
  "rabbit_look m key = dict_get (headers_or_empty (rm_headers m)) key"

definition rabbitmq_callback ::
  "call_env \<Rightarrow> (unit \<Rightarrow> ('r, ('l, 'm, 'n) world) call) \<Rightarrow> rabbit_message \<Rightarrow> ('r outcome, ('l, 'm, 'n) world) op" where
  "rabbitmq_callback ce callback m =
     seq (get_context (ce_start ce)) (\<lambda>ctx.
     seq (extract_headers (rabbit_look m)) (\<lambda>carrier.
     seq (new_entry_span (ce_start ce) ctx (rabbit_op m ''Consumer'') (Some carrier) None) (\<lambda>sp.
     with_span ce sp (
       seq (set_layer sp MQ) (\<lambda>_.
       seq (set_component sp RabbitmqConsumer) (\<lambda>_.
       seq (run_lib (callback ())) (\<lambda>res.
       on_return (\<lambda>_. tag_rabbit sp m) res)))))))"

text \<open>\<open>_on_deliver\<close>: a message for a consumer of a blocking channel is passed on - its callback opens the span.\<close>

definition rabbitmq_on_deliver ::
  "call_env \<Rightarrow> (unit \<Rightarrow> ('r, ('l, 'm, 'n) world) call) \<Rightarrow> bool \<times> rabbit_message \<Rightarrow> ('r outcome, ('l, 'm, 'n) world) op" where
  "rabbitmq_on_deliver ce lib dm = (case dm of (defer_span, m) \<Rightarrow>
     if defer_span then run_lib (lib ()) else rabbitmq_callback ce lib m)"

text \<open>The peer of a callback: what \<open>_on_deliver\<close> left on the method, else the connection's parameters.\<close>

definition callback_peer :: "string option \<Rightarrow> (string \<times> string) option \<Rightarrow> string" where
  "callback_peer sw_peer params =
     (case sw_peer of
        Some p \<Rightarrow> p
      | None \<Rightarrow> (case params of None \<Rightarrow> ''<unavailable>'' | Some (h, p) \<Rightarrow> host_port h p))"

text \<open>\<open>basic_get\<close> and each step of \<open>consume\<close>: an empty callback is wrapped for a message that is there.\<close>

definition rabbitmq_basic_get ::
  "call_env \<Rightarrow> ('r \<Rightarrow> rabbit_message option) \<Rightarrow> (unit \<Rightarrow> ('r, ('l, 'm, 'n) world) call) \<Rightarrow> unit \<Rightarrow> ('r outcome, ('l, 'm, 'n) world) op" where
  "rabbitmq_basic_get ce msg lib u =
     seq (run_lib (lib ())) (\<lambda>res.
     on_return (\<lambda>r. case msg r of
         None \<Rightarrow> ret ()
       | Some m \<Rightarrow> seq (rabbitmq_callback ce (\<lambda>_ w. (Returned (), w)) m) (\<lambda>_. ret ())) res)"

section \<open>py-amqp and aiormq\<close>

definition amqp_basic_publish ::
  "call_env \<Rightarrow> ((string, string) dict \<Rightarrow> ('r, ('l, 'm, 'n) world) call) \<Rightarrow> rabbit_message \<Rightarrow> ('r outcome, ('l, 'm, 'n) world) op" where
  "amqp_basic_publish ce lib m =
     seq (exit_span ce (rabbit_op m ''Producer'') (rm_peer m) RabbitmqProducer) (\<lambda>sp.
     with_span ce sp (
       seq (tag_rabbit sp m) (\<lambda>_.
       seq (set_layer sp MQ) (\<lambda>_.
       seq (span_inject sp) (\<lambda>carrier.
       seq (inject_headers carrier (headers_or_empty (rm_headers m))) (\<lambda>h.
       run_lib (lib h)))))))"

definition amqp_callback ::
  "call_env \<Rightarrow> (unit \<Rightarrow> ('r, ('l, 'm, 'n) world) call) \<Rightarrow> rabbit_message \<Rightarrow> ('r outcome, ('l, 'm, 'n) world) op" where
  "amqp_callback ce callback m =
     seq (extract_headers (rabbit_look m)) (\<lambda>carrier.
     seq (entry_span ce (rabbit_op m ''Consumer'') (Some carrier) None) (\<lambda>sp.
     with_span ce sp (
       seq (set_layer sp MQ) (\<lambda>_.
       seq (set_component sp RabbitmqConsumer) (\<lambda>_.
       seq (tag_rabbit sp m) (\<lambda>_.
       run_lib (callback ())))))))"

definition aiormq_peer :: "string \<Rightarrow> string option \<Rightarrow> string" where
  "aiormq_peer host port = (case port of None \<Rightarrow> host | Some p \<Rightarrow> host_port host p)"

definition aiormq_basic_publish ::
  "call_env \<Rightarrow> ((string, string) dict \<Rightarrow> ('r, ('l, 'm, 'n) world) call) \<Rightarrow> rabbit_message \<Rightarrow> ('r outcome, ('l, 'm, 'n) world) op" where
  "aiormq_basic_publish ce lib m =
     seq (exit_span ce (rabbit_op m ''Producer'') (rm_peer m) RabbitmqProducer) (\<lambda>sp.
     with_span ce sp (
       seq (tag_rabbit sp m) (\<lambda>_.
       seq (set_layer sp MQ) (\<lambda>_.
       seq (span_inject sp) (\<lambda>carrier.
       seq (inject_headers carrier (headers_or_empty (rm_headers m))) (\<lambda>h.
       run_lib (lib h)))))))"

text \<open>Here \<open>in\<close> is not guarded: a message without headers raises.\<close>

definition aiormq_callback ::
  "call_env \<Rightarrow> (unit \<Rightarrow> ('r, ('l, 'm, 'n) world) call) \<Rightarrow> rabbit_message \<times> (string, wire_text) dict option
     \<Rightarrow> ('r outcome, ('l, 'm, 'n) world) op" where
  "aiormq_callback ce callback mh = (case mh of (m, headers) \<Rightarrow>
     seq (get_context (ce_start ce)) (\<lambda>ctx.
     seq (lift_res (case headers of None \<Rightarrow> Inl TypeError | Some h \<Rightarrow> Inr h)) (\<lambda>h.
     seq (store_carrier (fill_decoding (\<lambda>key. map_option wire_decode (dict_get h key)) carrier_items (Carrier_empty []))) (\<lambda>carrier.
     seq (new_entry_span (ce_start ce) ctx (rabbit_op m ''Consumer'') (Some carrier) None) (\<lambda>sp.
     with_span ce sp (
       seq (set_layer sp MQ) (\<lambda>_.
       seq (set_component sp RabbitmqConsumer) (\<lambda>_.
       seq (tag_rabbit sp m) (\<lambda>_.
       run_lib (callback ())))))))))) "

section \<open>Pulsar\<close>

text \<open>One peer for all clients: the service URL of the client that was created last (\<open>set_peer\<close>).\<close>

definition pulsar_client_init :: "string \<Rightarrow> string \<Rightarrow> string" where
  "pulsar_client_init peer service_url = service_url"

definition last_part :: "string \<Rightarrow> string" where
  "last_part s = last (split_on (CHR ''/'') s)"

definition pulsar_send ::
  "call_env \<Rightarrow> ((string, string) dict \<Rightarrow> ('r, ('l, 'm, 'n) world) call) \<Rightarrow> string \<times> string \<times> (string, string) dict option
     \<Rightarrow> ('r outcome, ('l, 'm, 'n) world) op" where
  "pulsar_send ce lib m = (case m of (peer, topic, properties) \<Rightarrow>
     seq (exit_span ce (''Pulsar/Topic/'' @ last_part topic @ ''/Producer'') peer PulsarProducer) (\<lambda>sp.
     with_span ce sp (
       seq (tag_span sp TagMqTopic (last_part topic)) (\<lambda>_.
       seq (tag_span sp TagMqBroker peer) (\<lambda>_.
       seq (set_layer sp MQ) (\<lambda>_.
       seq (span_inject sp) (\<lambda>carrier.
       seq (inject_headers carrier (headers_or_empty properties)) (\<lambda>h.
       run_lib (lib h)))))))))"

text \<open>\<open>msg\<close> gives the topic and the properties of a received message, \<open>None\<close> for a false result.\<close>

definition pulsar_receive ::
  "call_env \<Rightarrow> ('r \<Rightarrow> (string \<times> (string, string) dict) option) \<Rightarrow> (unit \<Rightarrow> ('r, ('l, 'm, 'n) world) call) \<Rightarrow> string
     \<Rightarrow> ('r outcome, ('l, 'm, 'n) world) op" where
  "pulsar_receive ce msg lib peer =
     seq (run_lib (lib ())) (\<lambda>res.
     on_return (\<lambda>r. case msg r of
         None \<Rightarrow> ret ()
       | Some (topic, properties) \<Rightarrow>
           seq (extract_headers (dict_get properties)) (\<lambda>carrier.
           seq (entry_span ce (''Pulsar/Topic/'' @ last_part topic @ ''/Consumer'') (Some carrier) None) (\<lambda>sp.
           seq (with_span ce sp (
                  seq (tag_span sp TagMqTopic (last_part topic)) (\<lambda>_.
                  seq (tag_span sp TagMqBroker peer) (\<lambda>_.
                  seq (set_layer sp MQ) (\<lambda>_.
                  seq (set_component sp PulsarConsumer) (\<lambda>_.
                  ret (Returned ()))))))) (\<lambda>_. ret ())))) res)"

section \<open>Celery\<close>

text \<open>\<open>ct_location\<close> is host name and port of the parsed broker URL, as shown; \<open>ct_params\<close> the text of the
  arguments.\<close>

record celery_task =
  ct_name :: string
  ct_broker :: "string option"
  ct_location :: "string \<times> string"
  ct_params :: string
  ct_headers :: "(string, string) dict option"

definition celery_peer :: "celery_task \<Rightarrow> string" where
  "celery_peer k = (case ct_broker k of
     None \<Rightarrow> ''???''
   | Some u \<Rightarrow> if u = [] then ''???'' else host_port (fst (ct_location k)) (snd (ct_location k)))"

definition none_text :: "string option \<Rightarrow> string" where
  "none_text x = (case x of None \<Rightarrow> ''None'' | Some s \<Rightarrow> s)"

definition tag_celery :: "nat \<Rightarrow> celery_task \<Rightarrow> (unit, ('l, 'm, 'n) world) op" where
  "tag_celery sp k =
     seq (tag_span sp TagMqBroker (none_text (ct_broker k))) (\<lambda>_.
     seq (gets w_cfg) (\<lambda>c.
     when_op (plugin_celery_parameters_length c \<noteq> 0)
       (tag_span sp TagCeleryParameters (py_prefix (plugin_celery_parameters_length c) (ct_params k)))))"

definition celery_send_task ::
  "call_env \<Rightarrow> ((string, string) dict \<Rightarrow> ('r, ('l, 'm, 'n) world) call) \<Rightarrow> celery_task \<Rightarrow> ('r outcome, ('l, 'm, 'n) world) op" where
  "celery_send_task ce lib k =
     seq (exit_span ce (''celery/'' @ ct_name k) (celery_peer k) Celery) (\<lambda>sp.
     with_span ce sp (
       seq (set_layer sp MQ) (\<lambda>_.
       seq (tag_celery sp k) (\<lambda>_.
       seq (span_inject sp) (\<lambda>carrier.
       seq (inject_headers carrier (headers_or_empty (ct_headers k))) (\<lambda>h.
       run_lib (lib h)))))))"

definition origin_host :: "string \<Rightarrow> string" where
  "origin_host s = (if CHR ''@'' \<in> set s then tl (dropWhile (\<lambda>ch. ch \<noteq> CHR ''@'') s) else s)"

text \<open>The request of a running task: \<open>req.get\<close>, where an empty value counts as missing.\<close>

definition true_value :: "string option \<Rightarrow> string option" where
  "true_value x = (case x of None \<Rightarrow> None | Some s \<Rightarrow> if s = [] then None else Some s)"

definition celery_task_span ::
  "call_env \<Rightarrow> (string \<Rightarrow> string option) \<Rightarrow> string \<Rightarrow> nat \<Rightarrow> nat carrier \<Rightarrow> (nat, ('l, 'm, 'n) world) op" where
  "celery_task_span ce req opname ctx carrier =
     (case true_value (req ''origin'') of
        Some origin \<Rightarrow>
          seq (new_entry_span (ce_start ce) ctx opname (Some carrier) None) (\<lambda>sp.
          seq (set_peer sp (origin_host origin)) (\<lambda>_. ret sp))
      | None \<Rightarrow> new_local_span (ce_start ce) ctx opname)"

definition celery_run_task ::
  "call_env \<Rightarrow> (string \<Rightarrow> string option) \<Rightarrow> (unit \<Rightarrow> ('r, ('l, 'm, 'n) world) call) \<Rightarrow> celery_task \<Rightarrow> ('r outcome, ('l, 'm, 'n) world) op" where
  "celery_run_task ce req f k =
     seq (extract_headers (\<lambda>key. true_value (req key))) (\<lambda>carrier.
     seq (get_context (ce_start ce)) (\<lambda>ctx.
     seq (celery_task_span ce req (''celery/'' @ ct_name k) ctx carrier) (\<lambda>sp.
     with_span ce sp (
       seq (set_layer sp MQ) (\<lambda>_.
       seq (set_component sp Celery) (\<lambda>_.
       seq (tag_celery sp k) (\<lambda>_.
       run_lib (f ()))))))))"

section \<open>confluent-kafka\<close>

text \<open>The server setting is a keyword argument, an entry of the configuration, or missing; it may be a list.\<close>

datatype servers = OneServer string | ManyServers "string list"

definition confluent_peer :: "servers option \<Rightarrow> servers option \<Rightarrow> string" where
  "confluent_peer kwarg conf =
     (case kwarg of
        Some (OneServer s) \<Rightarrow> s
      | Some (ManyServers ss) \<Rightarrow> join_with '';'' ss
      | None \<Rightarrow>
          (case conf of
             None \<Rightarrow> ''<unavailable>''
           | Some (OneServer s) \<Rightarrow> if s = [] then ''<unavailable>'' else s
           | Some (ManyServers ss) \<Rightarrow> if ss = [] then ''<unavailable>'' else join_with '';'' ss))"

definition key_text :: "wire_text option \<Rightarrow> string option res" where
  "key_text key = (case key of None \<Rightarrow> Inr None | Some k \<Rightarrow> bind_res (wire_decode k) (\<lambda>s. Inr (Some s)))"

definition tag_message_key :: "nat \<Rightarrow> string option \<Rightarrow> (unit, ('l, 'm, 'n) world) op" where
  "tag_message_key sp key = (case key of None \<Rightarrow> ret () | Some k \<Rightarrow> tag_span sp TagMqQueue k)"

record confluent_message =
  cm_peer :: string
  cm_topic :: string
  cm_key :: "wire_text option"

definition confluent_produce ::
  "call_env \<Rightarrow> ((string, string) dict \<Rightarrow> ('r, ('l, 'm, 'n) world) call) \<Rightarrow> confluent_message \<times> (string, string) dict option
     \<Rightarrow> ('r outcome, ('l, 'm, 'n) world) op" where
  "confluent_produce ce lib mh = (case mh of (m, headers) \<Rightarrow>
     seq (get_context (ce_start ce)) (\<lambda>ctx.
     seq (lift_res (key_text (cm_key m))) (\<lambda>key.
     seq (new_exit_span (ce_start ce) ctx (''Kafka/'' @ cm_topic m @ ''/'' @ opt_text key @ ''/Producer'') (cm_peer m) (Some KafkaProducer) None) (\<lambda>sp.
     with_span ce sp (
       seq (span_inject sp) (\<lambda>carrier.
       seq (set_layer sp MQ) (\<lambda>_.
       seq (tag_span sp TagMqBroker (cm_peer m)) (\<lambda>_.
       seq (tag_span sp TagMqTopic (cm_topic m)) (\<lambda>_.
       seq (tag_message_key sp key) (\<lambda>_.
       seq (inject_headers carrier (headers_or_empty headers)) (\<lambda>h.
       run_lib (lib h))))))))))) )"

text \<open>\<open>message\<close>: nothing for no message and for an error; the span is entered before the headers are read.\<close>

definition confluent_message_span ::
  "call_env \<Rightarrow> string \<Rightarrow> (confluent_message \<times> (string, string) dict) option \<Rightarrow> (unit, ('l, 'm, 'n) world) op" where
  "confluent_message_span ce group_id msg =
     (case msg of
        None \<Rightarrow> ret ()
      | Some (m, headers) \<Rightarrow>
          seq (get_context (ce_start ce)) (\<lambda>ctx.
          seq (lift_res (key_text (cm_key m))) (\<lambda>key.
          seq (new_entry_span (ce_start ce) ctx
                 (''Kafka/'' @ cm_topic m @ ''/'' @ opt_text key @ ''/Consumer/'' @ group_id) None None) (\<lambda>sp.
          seq (with_span ce sp (
                 seq (set_layer sp MQ) (\<lambda>_.
                 seq (set_component sp KafkaConsumer) (\<lambda>_.
                 seq (store_carrier (fill_decoding (\<lambda>k. map_option decode_text (dict_get headers k)) carrier_items (Carrier_empty []))) (\<lambda>carrier.
                 seq (span_extract (ce_start ce) sp (Some carrier)) (\<lambda>_.
                 seq (tag_span sp TagMqBroker (cm_peer m)) (\<lambda>_.
                 seq (tag_span sp TagMqTopic (cm_topic m)) (\<lambda>_.
                 seq (tag_message_key sp key) (\<lambda>_.
                 ret (Returned ())))))))))) (\<lambda>_. ret ())))))"

fun confluent_each ::
  "call_env \<Rightarrow> string \<Rightarrow> (confluent_message \<times> (string, string) dict) option list \<Rightarrow> (unit, ('l, 'm, 'n) world) op" where
  "confluent_each ce group_id [] = ret ()"
| "confluent_each ce group_id (m # ms) = seq (confluent_message_span ce group_id m) (\<lambda>_. confluent_each ce group_id ms)"

text \<open>\<open>poll\<close> and \<open>consume\<close>: \<open>msgs\<close> gives the message, or the messages, of a result.\<close>

definition confluent_poll ::
  "call_env \<Rightarrow> ('r \<Rightarrow> (confluent_message \<times> (string, string) dict) option) \<Rightarrow> (unit \<Rightarrow> ('r, ('l, 'm, 'n) world) call) \<Rightarrow> string
     \<Rightarrow> ('r outcome, ('l, 'm, 'n) world) op" where
  "confluent_poll ce msg lib group_id =
     seq (run_lib (lib ())) (\<lambda>res. on_return (\<lambda>r. confluent_message_span ce group_id (msg r)) res)"

definition confluent_consume ::
  "call_env \<Rightarrow> ('r \<Rightarrow> (confluent_message \<times> (string, string) dict) option list) \<Rightarrow> (unit \<Rightarrow> ('r, ('l, 'm, 'n) world) call) \<Rightarrow> string
     \<Rightarrow> ('r outcome, ('l, 'm, 'n) world) op" where
  "confluent_consume ce msgs lib group_id =
     seq (run_lib (lib ())) (\<lambda>res. on_return (\<lambda>r. confluent_each ce group_id (msgs r)) res)"

section \<open>The contract\<close>

definition appended :: "(string \<times> string) list \<Rightarrow> (string \<times> string) list \<Rightarrow> bool" where
  "appended h h' = (\<exists>a b. h' = h @ [(''sw8-correlation'', a), (''sw8'', b)])"

lemma keeps_inject_append:
  assumes "sendable c"
  shows "keeps t may P (inject_append c h) (\<lambda>h' _. appended h h')"
  by (rule keeps_state) (use assms in \<open>auto simp: inject_append_def appended_def carrier_items_def Carrier_get_val_def sendable_def recarry_def\<close>)

lemma keeps_store_carrier: "keeps t True P (store_carrier fill) (\<lambda>c w. corr_known (Some c) w)"
proof (rule keepsI)
  fix w :: "('l, 'm, 'n) world"
  assume c: "calm t w"
  obtain err cr where f: "fill (correlation_element_max_number (w_cfg w)) = (err, cr)" by fastforce
  let ?w' = "w\<lparr>w_corrs := w_corrs w @ [c_correlation cr]\<rparr>"
  have "ext w ?w'" by (simp add: ext_def same_span_def)
  moreover have "wok 0 0 0 ?w'" using c by (simp add: calm_def wok_new_corr)
  ultimately have "calm t ?w'" "frame t w ?w'" using calm_ext [OF c] by blast+
  with f show "\<exists>r w'. store_carrier fill w = (r, w') \<and> calm t w' \<and> frame t w w' \<and> fits True (\<lambda>c. corr_known (Some c) w') r"
    by (cases err) (auto simp: store_carrier_def Let_def corr_known_def)
qed

lemma keeps_extract: "keeps t True (\<lambda>w. corr_known carrier w \<and> served sp w) (span_extract e sp carrier) (\<lambda>_ _. True)"
proof (rule keepsI)
  fix w :: "('l, 'm, 'n) world"
  assume c: "calm t w" and p: "corr_known carrier w \<and> served sp w"
  obtain r w' where ex: "span_extract e sp carrier w = (r, w')" by fastforce
  have "wok (Suc sp) 0 (length (w_corrs w)) w" using c p by (auto simp: calm_def wok_def served_def)
  moreover have "triple (wok (Suc sp) 0 (length (w_corrs w))) (span_extract e sp carrier)
      (\<lambda>_. wok (Suc sp) 0 (length (w_corrs w))) (wok (Suc sp) 0 (length (w_corrs w)))"
    using p by (intro span_extract_ok) (auto simp: corr_known_def)
  ultimately have "wok (Suc sp) 0 (length (w_corrs w)) w'"
    using ex by (cases r) (auto simp: triple_def dest!: spec [where x = w])
  then have "wok 0 0 0 w'" by (simp add: wok_def)
  moreover have "ext w w'" using steadyD [OF steady_span_extract, of w e sp carrier] ex by simp
  ultimately show "\<exists>r w'. span_extract e sp carrier w = (r, w') \<and> calm t w' \<and> frame t w w' \<and> fits True (\<lambda>_. True) r"
    using calm_ext [OF c] ex by (cases r) auto
qed

text \<open>Local spans.\<close>

lemma new_local_span_result:
  assumes calm: "calm t w" and tid: "te_tid e = t" and new: "new_local_span e i opname w = (Inr sp, w')"
  shows "fresh_span sp w w' \<and> serving sp w'"
proof (cases "cx_noop (cx_of w i)")
  case True
  with new noop_fresh [of i w] show ?thesis by (auto simp: new_local_span_def serving_def)
next
  case False
  from new False obtain r w1 where ig: "ignore_check e opname None w = (Inr r, w1)" by (auto simp: new_local_span_def seq_Inr_iff)
  show ?thesis
  proof (cases r)
    case (Some x)
    with ignore_check_fresh [OF ig] new False ig show ?thesis by (simp add: new_local_span_def seq_def)
  next
    case None
    with ignore_check_fresh [OF ig] have w1: "w1 = w" by simp
    let ?p = "if w_stacks w t = [] then None else Some (last (w_stacks w t))"
    have pk: "peek e False w = (Inr ?p, w)" using tid by (simp add: peek_def)
    have act: "\<forall>p. ?p = Some p \<longrightarrow> sp_depth (sp_of w p) \<noteq> 0"
      using calm_stack [OF calm last_in_set] by auto
    from new False ig None w1 pk have "new_span e i ?p PlainSpan opname None None w = (Inr sp, w')"
      by (auto simp: new_local_span_def seq_def)
    with new_span_fresh [OF act, of e i PlainSpan opname None None] show ?thesis by (auto simp: serving_def)
  qed
qed

lemma keeps_new_local_span:
  assumes tid: "te_tid e = t"
  shows "keeps t True (top_ok e i) (new_local_span e i opname) (\<lambda>sp w. openable t sp w \<and> served sp w)"
proof (rule keepsI)
  fix w :: "('l, 'm, 'n) world"
  assume c: "calm t w" and top: "top_ok e i w"
  obtain r w' where ex: "new_local_span e i opname w = (r, w')" by fastforce
  have wok: "wok 0 0 0 w'"
    using new_local_span_ok [of 0 0 0 e i opname] c top ex
    by (cases r) (auto simp: triple_def calm_def dest!: spec [where x = w])
  have "ext w w'" using steadyD [OF steady_new_local_span, of w e i opname] ex by simp
  note k = calm_ext [OF c this wok]
  show "\<exists>r w'. new_local_span e i opname w = (r, w') \<and> calm t w' \<and> frame t w w' \<and> fits True (\<lambda>sp. openable t sp w' \<and> served sp w') r"
  proof (cases r)
    case (Inr sp)
    from new_local_span_result [OF c tid] ex Inr have f: "fresh_span sp w w'" "serving sp w'" by auto
    have "openable t sp w' \<and> served sp w'"
      using f k calm_stack [OF c, of sp] by (auto simp: fresh_span_def openable_def served_def serving_def frame_def)
    with k ex Inr show ?thesis by auto
  qed (use k ex in auto)
qed

lemma keeps_tag_rabbit:
  "keeps t may (injectable sp) (tag_rabbit sp m) (\<lambda>_ _. True)" "keeps t may (served sp) (tag_rabbit sp m) (\<lambda>_ _. True)"
  unfolding tag_rabbit_def by (intro exit_body_rules, intro entry_body_rules)

lemma keeps_tag_celery:
  "keeps t may (injectable sp) (tag_celery sp k) (\<lambda>_ _. True)" "keeps t may (served sp) (tag_celery sp k) (\<lambda>_ _. True)"
  unfolding tag_celery_def by (intro exit_body_rules keeps_config, intro entry_body_rules)

lemma keeps_tag_message_key:
  "keeps t may (injectable sp) (tag_message_key sp key) (\<lambda>_ _. True)" "keeps t may (served sp) (tag_message_key sp key) (\<lambda>_ _. True)"
  unfolding tag_message_key_def by (intro keeps_option keeps_tag_exit, intro keeps_option keeps_tag_entry)

lemmas mq_rules = db_rules keeps_then [OF keeps_inject_append stable_injectable] keeps_tag_rabbit
  keeps_do [OF keeps_tag_rabbit(1) stable_injectable] keeps_do [OF keeps_tag_celery(1) stable_injectable]
  keeps_do [OF keeps_tag_message_key(1) stable_injectable]

lemmas consumer_rules = entry_body_rules keeps_tag_rabbit(2) keeps_do [OF keeps_tag_rabbit(2) stable_served]
  keeps_do [OF keeps_tag_celery(2) stable_served] keeps_do [OF keeps_tag_message_key(2) stable_served]

definition opt_appended :: "(string \<times> string) list option \<Rightarrow> (string \<times> string) list option \<Rightarrow> bool" where
  "opt_appended h h' = (h' = h \<or> (\<exists>d. h' = Some d \<and> appended (case h of None \<Rightarrow> [] | Some d \<Rightarrow> d) d))"

lemma producer_keeps:
  assumes "same_thread t ce" and "lib_ok t lib"
  shows "keeps t False (\<lambda>_. True) (rabbitmq_basic_publish ce lib m) (\<lambda>r _. called t (carries (headers_or_empty (rm_headers m))) lib r)"
    and "keeps t False (\<lambda>_. True) (amqp_basic_publish ce lib m) (\<lambda>r _. called t (carries (headers_or_empty (rm_headers m))) lib r)"
    and "keeps t False (\<lambda>_. True) (aiormq_basic_publish ce lib m) (\<lambda>r _. called t (carries (headers_or_empty (rm_headers m))) lib r)"
    and "keeps t False (\<lambda>_. True) (pulsar_send ce lib (peer, topic, ps)) (\<lambda>r _. called t (carries (headers_or_empty ps)) lib r)"
    and "keeps t False (\<lambda>_. True) (celery_send_task ce lib k) (\<lambda>r _. called t (carries (headers_or_empty (ct_headers k))) lib r)"
  unfolding rabbitmq_basic_publish_def amqp_basic_publish_def aiormq_basic_publish_def pulsar_send_def celery_send_task_def
    prod.case
  by (intro mq_rules assms; simp)+

lemma kafka_send_keeps:
  assumes "same_thread t ce" and "lib_ok t lib"
  shows "keeps t False (\<lambda>_. True) (kafka_send ce lib m) (\<lambda>r _. called t (opt_appended (km_headers m)) lib r)"
  unfolding kafka_send_def by (intro keeps_config keeps_if mq_rules assms) (auto simp: opt_appended_def)

lemma confluent_produce_keeps:
  assumes "same_thread t ce" and "lib_ok t lib"
  shows "keeps t True (\<lambda>_. True) (confluent_produce ce lib mh) (\<lambda>r _. called t (carries (headers_or_empty (snd mh))) lib r)"
proof -
  obtain m headers where mh: "mh = (m, headers)" by (cases mh)
  show ?thesis
  proof (cases "key_text (cm_key m)")
    case (Inl err)
    then show ?thesis unfolding confluent_produce_def mh prod.case by (simp add: keeps_context_error [OF assms(1)])
  next
    case (Inr key)
    show ?thesis unfolding confluent_produce_def mh prod.case Inr seq_lift_Inr late_exit_span snd_conv
      by (intro mq_rules assms) assumption
  qed
qed

lemma consumer_keeps:
  assumes "same_thread t ce" and "lib_ok t lib"
  shows "keeps t True (\<lambda>_. True) (rabbitmq_callback ce lib m) (\<lambda>r _. called t any_arg lib r)"
    and "keeps t True (\<lambda>_. True) (amqp_callback ce lib m) (\<lambda>r _. called t any_arg lib r)"
  unfolding rabbitmq_callback_def amqp_callback_def
   apply (intro keeps_late_entry keeps_extract_headers consumer_rules assms; simp add: any_arg_def)
  apply (rule keeps_seq [OF keeps_extract_headers], rule keeps_entry_block [OF assms(1) _ keeps_entry_span [OF assms(1)]])
  apply (intro consumer_rules assms; simp add: any_arg_def)
  done

lemma aiormq_callback_keeps:
  assumes "same_thread t ce" and "lib_ok t lib"
  shows "keeps t True (\<lambda>_. True) (aiormq_callback ce lib mh) (\<lambda>r _. called t any_arg lib r)"
proof -
  obtain m headers where mh: "mh = (m, headers)" by (cases mh)
  show ?thesis
  proof (cases headers)
    case None
    then show ?thesis unfolding aiormq_callback_def mh prod.case by (simp add: keeps_context_error [OF assms(1)])
  next
    case (Some h)
    show ?thesis unfolding aiormq_callback_def mh prod.case Some option.case seq_lift_Inr
      by (intro keeps_late_entry keeps_store_carrier consumer_rules assms; simp add: any_arg_def)
  qed
qed

lemma on_deliver_keeps:
  assumes "same_thread t ce" and "lib_ok t lib"
  shows "keeps t True (\<lambda>_. True) (rabbitmq_on_deliver ce lib dm) (\<lambda>r _. called t any_arg lib r)"
  unfolding rabbitmq_on_deliver_def
  by (intro keeps_prod keeps_if keeps_run_lib consumer_keeps assms any_argI)

text \<open>Reading a carrier and linking the span to it.\<close>

lemma keeps_store_extract:
  assumes "\<And>x. keeps t True (served sp) (g x) Q"
  shows "keeps t True (served sp) (seq (store_carrier fill) (\<lambda>carrier. seq (span_extract e sp (Some carrier)) g)) Q"
proof (rule keeps_seq)
  show "keeps t True (served sp) (store_carrier fill) (\<lambda>c w. corr_known (Some c) w \<and> served sp w)"
    by (rule keeps_pre [OF keeps_stable [OF keeps_store_carrier [of t "\<lambda>_. True"] stable_served]]) simp
  show "keeps t True (\<lambda>w. corr_known (Some c) w \<and> served sp w) (seq (span_extract e sp (Some c)) g) Q" for c
  proof (rule keeps_seq)
    show "keeps t True (\<lambda>w. corr_known (Some c) w \<and> served sp w) (span_extract e sp (Some c)) (\<lambda>_. served sp)"
      by (rule keeps_weaken [OF keeps_stable [OF keeps_extract [of t "Some c" sp e] stable_served]]) auto
  qed (rule assms)
qed

lemma keeps_kafka_records: "keeps t True (served sp) (kafka_records e sp rs) (\<lambda>_ _. True)"
  by (induction rs; unfold kafka_records.simps) (rule keeps_ret, simp, rule keeps_store_extract)

lemma keeps_kafka_partitions: "keeps t True (served sp) (kafka_partitions e sp brokers topics ps) (\<lambda>_ _. True)"
  by (induction ps; unfold kafka_partitions.simps)
    (rule keeps_ret, simp, intro keeps_do [OF keeps_kafka_records stable_served] consumer_rules)

text \<open>A span that is opened and closed after the library call, inside the wrapper.\<close>

lemma keeps_inner_block:
  assumes "same_thread t ce" and "\<And>sp. keeps t True (served sp) (body sp) (\<lambda>_ _. True)"
    and "keeps t True P f (\<lambda>sp w. openable t sp w \<and> served sp w)"
  shows "keeps t True P (seq f (\<lambda>sp. seq (with_span ce sp (body sp)) (\<lambda>_. ret ()))) (\<lambda>_ _. True)"
proof -
  have eq: "seq f (\<lambda>sp. seq (with_span ce sp (body sp)) (\<lambda>_. ret ())) = seq (seq f (\<lambda>sp. with_span ce sp (body sp))) (\<lambda>_. ret ())"
    by (auto simp: fun_eq_iff seq_def split: prod.splits sum.splits)
  have "keeps t True P (seq f (\<lambda>sp. with_span ce sp (body sp))) (\<lambda>_ _. True)"
    by (rule keeps_entry_block [OF assms(1) _ assms(3), where R = "\<lambda>_. True"]) (rule assms(2))
  then show ?thesis unfolding eq by (rule keeps_seq) (simp add: keeps_ret)
qed

lemma poll_keeps:
  assumes "same_thread t ce" and "lib_ok t lib"
  shows "keeps t True (\<lambda>_. True) (kafka_poll_once ce records lib k) (\<lambda>r _. called t any_arg lib r)"
  unfolding kafka_poll_once_def
proof (rule keeps_then [OF keeps_run_lib [where C = any_arg, OF assms(2) any_argI] stable_const])
  fix res
  assume res: "called t any_arg lib res"
  have blk: "keeps t True (\<lambda>_. True) (seq (entry_span ce opname None None) (\<lambda>sp.
            seq (with_span ce sp (
                   seq (kafka_partitions (ce_start ce) sp brokers topics ps) (\<lambda>_.
                   ret (Returned ())))) (\<lambda>_. ret ()))) (\<lambda>_ _. True)" for opname brokers topics ps
    by (rule keeps_inner_block [OF assms(1) _ keeps_pre [OF keeps_entry_span [OF assms(1)]]])
      (auto intro: keeps_do [OF keeps_kafka_partitions stable_served] keeps_ret simp: corr_known_def)
  show "keeps t True (\<lambda>_. True) (on_return (\<lambda>r. if records r = [] then ret ()
       else seq (entry_span ce (''Kafka/'' @ kafka_topics k @ ''/Consumer/'' @ opt_text (kc_group k)) None None) (\<lambda>sp.
            seq (with_span ce sp (
                   seq (kafka_partitions (ce_start ce) sp (join_with '';'' (kc_servers k)) (kafka_topics k) (records r)) (\<lambda>_.
                   ret (Returned ())))) (\<lambda>_. ret ()))) res) (\<lambda>r _. called t any_arg lib r)"
    by (intro keeps_on_return keeps_if keeps_ret blk res) simp
qed

lemma pulsar_receive_keeps:
  assumes "same_thread t ce" and "lib_ok t lib"
  shows "keeps t True (\<lambda>_. True) (pulsar_receive ce msg lib peer) (\<lambda>r _. called t any_arg lib r)"
  unfolding pulsar_receive_def
proof (rule keeps_then [OF keeps_run_lib [where C = any_arg, OF assms(2) any_argI] stable_const])
  fix res
  assume res: "called t any_arg lib res"
  have blk: "keeps t True (\<lambda>_. True) (seq (extract_headers look) (\<lambda>carrier.
           seq (entry_span ce opname (Some carrier) None) (\<lambda>sp.
           seq (with_span ce sp (
                  seq (tag_span sp TagMqTopic topic) (\<lambda>_.
                  seq (tag_span sp TagMqBroker peer) (\<lambda>_.
                  seq (set_layer sp MQ) (\<lambda>_.
                  seq (set_component sp PulsarConsumer) (\<lambda>_.
                  ret (Returned ()))))))) (\<lambda>_. ret ())))) (\<lambda>_ _. True)" for look opname topic
    by (rule keeps_seq [OF keeps_extract_headers], rule keeps_inner_block [OF assms(1) _ keeps_entry_span [OF assms(1)]])
      (intro consumer_rules keeps_ret; simp)
  show "keeps t True (\<lambda>_. True) (on_return (\<lambda>r. case msg r of
         None \<Rightarrow> ret ()
       | Some (topic, properties) \<Rightarrow>
           seq (extract_headers (dict_get properties)) (\<lambda>carrier.
           seq (entry_span ce (''Pulsar/Topic/'' @ last_part topic @ ''/Consumer'') (Some carrier) None) (\<lambda>sp.
           seq (with_span ce sp (
                  seq (tag_span sp TagMqTopic (last_part topic)) (\<lambda>_.
                  seq (tag_span sp TagMqBroker peer) (\<lambda>_.
                  seq (set_layer sp MQ) (\<lambda>_.
                  seq (set_component sp PulsarConsumer) (\<lambda>_.
                  ret (Returned ()))))))) (\<lambda>_. ret ())))) res) (\<lambda>r _. called t any_arg lib r)"
    by (intro keeps_on_return keeps_option keeps_prod blk res)
qed

lemma basic_get_keeps:
  assumes "same_thread t ce" and "lib_ok t lib"
  shows "keeps t True (\<lambda>_. True) (rabbitmq_basic_get ce msg lib u) (\<lambda>r _. called t any_arg lib r)"
  unfolding rabbitmq_basic_get_def
proof (rule keeps_then [OF keeps_run_lib [where C = any_arg, OF assms(2) any_argI] stable_const], intro keeps_on_return keeps_option)
  fix m
  have "lib_ok t (\<lambda>_ w. (Returned (), w))" by (simp add: lib_ok_def)
  note consumer_keeps(1) [OF assms(1) this, of m]
  then show "keeps t True (\<lambda>_. True) (seq (rabbitmq_callback ce (\<lambda>_ w. (Returned (), w)) m) (\<lambda>_. ret ())) (\<lambda>_ _. True)"
    by (rule keeps_seq) (simp add: keeps_ret)
qed assumption

lemma late_entry_span:
  "seq (get_context (ce_start ce)) (\<lambda>ctx. seq (new_entry_span (ce_start ce) ctx opname c inh) k)
     = seq (entry_span ce opname c inh) k"
  by (auto simp: fun_eq_iff entry_span_def seq_def split: prod.splits sum.splits)

lemma message_keeps:
  assumes "same_thread t ce"
  shows "keeps t True (\<lambda>_. True) (confluent_message_span ce group_id msg) (\<lambda>_ _. True)"
  unfolding confluent_message_span_def
proof (intro keeps_option keeps_prod)
  fix m headers
  show "keeps t True (\<lambda>_. True) (seq (get_context (ce_start ce)) (\<lambda>ctx.
          seq (lift_res (key_text (cm_key m))) (\<lambda>key.
          seq (new_entry_span (ce_start ce) ctx
                 (''Kafka/'' @ cm_topic m @ ''/'' @ opt_text key @ ''/Consumer/'' @ group_id) None None) (\<lambda>sp.
          seq (with_span ce sp (
                 seq (set_layer sp MQ) (\<lambda>_.
                 seq (set_component sp KafkaConsumer) (\<lambda>_.
                 seq (store_carrier (fill_decoding (\<lambda>k. map_option decode_text (dict_get headers k)) carrier_items (Carrier_empty []))) (\<lambda>carrier.
                 seq (span_extract (ce_start ce) sp (Some carrier)) (\<lambda>_.
                 seq (tag_span sp TagMqBroker (cm_peer m)) (\<lambda>_.
                 seq (tag_span sp TagMqTopic (cm_topic m)) (\<lambda>_.
                 seq (tag_message_key sp key) (\<lambda>_.
                 ret (Returned ())))))))))) (\<lambda>_. ret ()))))) (\<lambda>_ _. True)"
  proof (cases "key_text (cm_key m)")
    case (Inl err)
    then show ?thesis by (simp add: keeps_context_error [OF assms])
  next
    case (Inr key)
    show ?thesis unfolding Inr seq_lift_Inr late_entry_span
      by (rule keeps_inner_block [OF assms _ keeps_pre [OF keeps_entry_span [OF assms]]])
        (((intro consumer_rules keeps_store_extract keeps_ret; simp)), simp add: corr_known_def)
  qed
qed

lemma confluent_keeps:
  assumes "same_thread t ce" and "lib_ok t lib"
  shows "keeps t True (\<lambda>_. True) (confluent_poll ce msg lib g) (\<lambda>r _. called t any_arg lib r)"
    and "keeps t True (\<lambda>_. True) (confluent_consume ce msgs lib g) (\<lambda>r _. called t any_arg lib r)"
proof -
  have each: "keeps t True (\<lambda>_. True) (confluent_each ce g ms) (\<lambda>_ _. True)" for ms
    by (induction ms; unfold confluent_each.simps) (rule keeps_ret, simp, rule keeps_seq [OF message_keeps [OF assms(1)]])
  show "keeps t True (\<lambda>_. True) (confluent_poll ce msg lib g) (\<lambda>r _. called t any_arg lib r)"
    "keeps t True (\<lambda>_. True) (confluent_consume ce msgs lib g) (\<lambda>r _. called t any_arg lib r)"
    unfolding confluent_poll_def confluent_consume_def
    by (rule keeps_then [OF keeps_run_lib [where C = any_arg, OF assms(2) any_argI] stable_const],
        intro keeps_on_return message_keeps assms each, assumption)+
qed

lemma celery_keeps:
  assumes "same_thread t ce" and "lib_ok t lib"
  shows "keeps t True (\<lambda>_. True) (celery_run_task ce req lib k) (\<lambda>r _. called t any_arg lib r)"
  unfolding celery_run_task_def
proof (rule keeps_seq [OF keeps_extract_headers])
  let ?e = "ce_start ce"
  have tid: "te_tid ?e = t" using assms(1) by (simp add: same_thread_def)
  fix carrier
  have entry: "keeps t True (\<lambda>w. top_ok ?e ctx w \<and> corr_known (Some carrier) w) (celery_task_span ce req opname ctx carrier)
      (\<lambda>sp w. openable t sp w \<and> served sp w)" for ctx opname
  proof (cases "true_value (req ''origin'')")
    case None
    show ?thesis unfolding celery_task_span_def None option.case by (rule keeps_pre [OF keeps_new_local_span [OF tid]]) simp
  next
    case (Some origin)
    have "keeps t True (\<lambda>w. openable t sp w \<and> served sp w) (set_peer sp p) (\<lambda>_ w. openable t sp w \<and> served sp w)" for sp p
      by (rule keeps_weaken [OF keeps_stable [OF keeps_stable [OF keeps_set(3) [of t True "\<lambda>_. True"] stable_openable] stable_served]]) auto
    then have "keeps t True (\<lambda>w. openable t sp w \<and> served sp w) (seq (set_peer sp p) (\<lambda>_. ret sp)) (\<lambda>sp w. openable t sp w \<and> served sp w)" for sp p
      by (rule keeps_seq) (simp add: keeps_ret)
    then show ?thesis unfolding celery_task_span_def Some option.case by (rule keeps_seq [OF keeps_new_entry_span [OF tid]])
  qed
  show "keeps t True (corr_known (Some carrier)) (seq (get_context ?e) (\<lambda>ctx.
     seq (celery_task_span ce req (''celery/'' @ ct_name k) ctx carrier) (\<lambda>sp.
     with_span ce sp (
       seq (set_layer sp MQ) (\<lambda>_.
       seq (set_component sp Celery) (\<lambda>_.
       seq (tag_celery sp k) (\<lambda>_.
       run_lib (lib ())))))))) (\<lambda>r _. called t any_arg lib r)"
    by (rule keeps_seq [OF keeps_pre [OF keeps_stable [OF keeps_get_context [OF tid, of True "\<lambda>_. True"] stable_corr_known]]], simp)
      (rule keeps_entry_block [OF assms(1) _ entry], intro consumer_rules assms any_argI)
qed

interpretation rabbitmq: instrumented t False "\<lambda>m. carries (headers_or_empty (rm_headers m))" "rabbitmq_basic_publish (on_thread t ce)" for t ce
  by unfold_locales (simp add: producer_keeps)

interpretation amqp: instrumented t False "\<lambda>m. carries (headers_or_empty (rm_headers m))" "amqp_basic_publish (on_thread t ce)" for t ce
  by unfold_locales (simp add: producer_keeps)

interpretation aiormq: instrumented t False "\<lambda>m. carries (headers_or_empty (rm_headers m))" "aiormq_basic_publish (on_thread t ce)" for t ce
  by unfold_locales (simp add: producer_keeps)

interpretation celery: instrumented t False "\<lambda>k. carries (headers_or_empty (ct_headers k))" "celery_send_task (on_thread t ce)" for t ce
  by unfold_locales (simp add: producer_keeps)

interpretation kafka: instrumented t False "\<lambda>m. opt_appended (km_headers m)" "kafka_send (on_thread t ce)" for t ce
  by unfold_locales (simp add: kafka_send_keeps)

interpretation confluent: instrumented t True "\<lambda>mh. carries (headers_or_empty (snd mh))" "confluent_produce (on_thread t ce)" for t ce
  by unfold_locales (simp add: confluent_produce_keeps)

interpretation rabbitmq_consumer: instrumented t True "\<lambda>_. any_arg" "rabbitmq_on_deliver (on_thread t ce)" for t ce
  by unfold_locales (simp add: on_deliver_keeps)

interpretation amqp_consumer: instrumented t True "\<lambda>_. any_arg" "amqp_callback (on_thread t ce)" for t ce
  by unfold_locales (simp add: consumer_keeps)

interpretation aiormq_consumer: instrumented t True "\<lambda>_. any_arg" "aiormq_callback (on_thread t ce)" for t ce
  by unfold_locales (simp add: aiormq_callback_keeps)

interpretation kafka_poll: instrumented t True "\<lambda>_. any_arg" "kafka_poll_once (on_thread t ce) records" for t ce records
  by unfold_locales (simp add: poll_keeps)

interpretation pulsar_consumer: instrumented t True "\<lambda>_. any_arg" "pulsar_receive (on_thread t ce) msg" for t ce msg
  by unfold_locales (simp add: pulsar_receive_keeps)

interpretation celery_worker: instrumented t True "\<lambda>_. any_arg" "celery_run_task (on_thread t ce) req" for t ce req
  by unfold_locales (simp add: celery_keeps)

interpretation confluent_poll: instrumented t True "\<lambda>_. any_arg" "confluent_poll (on_thread t ce) msg" for t ce msg
  by unfold_locales (simp add: confluent_keeps)

section \<open>What Kafka headers carry\<close>

text \<open>Texts whose bytes literal is the text between quotes.\<close>

definition plain :: "string \<Rightarrow> bool" where
  "plain s = (\<forall>ch \<in> set s. 32 \<le> (of_char ch :: nat) \<and> (of_char ch :: nat) < 127 \<and> ch \<noteq> CHR 0x27 \<and> ch \<noteq> CHR 0x5C)"

lemma byte_escape_plain:
  assumes "plain [ch]"
  shows "byte_escape (CHR 0x27) ch = [ch]"
proof -
  have "ch \<noteq> CHR 0x27" "ch \<noteq> CHR 0x5C" and n: "32 \<le> (of_char ch :: nat)" "(of_char ch :: nat) < 127" using assms by (simp_all add: plain_def)
  moreover have "ch \<noteq> CHR 0x09" "ch \<noteq> CHR 0x0A" "ch \<noteq> CHR 0x0D" using n(1) by (auto simp del: of_char_eq_iff)
  ultimately show ?thesis by (simp add: byte_escape_def Let_def)
qed

lemma plain_simps: "plain []" "plain (ch # s) \<longleftrightarrow> plain [ch] \<and> plain s" "plain (s @ s') \<longleftrightarrow> plain s \<and> plain s'"
  by (auto simp: plain_def)

lemma escape_plain: "plain s \<Longrightarrow> concat (map (byte_escape (CHR 0x27)) s) = s"
proof (induction s)
  case (Cons ch s)
  then show ?case using byte_escape_plain [of ch] plain_simps(2) [of ch s] by simp
qed simp

lemma bytes_str_plain:
  assumes "plain s"
  shows "bytes_str s = CHR ''b'' # CHR 0x27 # s @ [CHR 0x27]"
proof -
  have "CHR 0x27 \<notin> set s" using assms unfolding plain_def by blast
  then have "bytes_quote s = CHR 0x27" by (simp add: bytes_quote_def)
  with escape_plain [OF assms] show ?thesis by (simp add: bytes_str_def Let_def)
qed

lemma b64_char_plain: "n < 64 \<Longrightarrow> plain [b64_char n]"
  using b64_char_byte [of n] by (auto simp: plain_def split: if_splits)

lemma plain_b64: "plain (b64encode s)"
proof -
  have "plain [ch]" if "ch \<in> set (b64encode s)" for ch
    using b2a_chars [of ch s] that b64_char_plain by (auto simp: b64encode_def plain_def)
  then show ?thesis by (simp add: plain_def)
qed

lemma a2b_junk: "b64_val ch = None \<Longrightarrow> ch \<noteq> CHR ''='' \<Longrightarrow> a2b_base64 q l p (s @ [ch]) = a2b_base64 q l p s"
  by (induction s arbitrary: q l p) (auto split: option.split)

lemma b64decode_quoted: "b64decode (b64encode s @ [CHR 0x27]) = b64decode (b64encode s)"
proof -
  have "b64_val (CHR 0x27) = None" by code_simp
  moreover have "is_ascii (b64encode s @ [CHR 0x27])" using is_ascii_b64encode [of s] by (simp add: is_ascii_def)
  ultimately show ?thesis using is_ascii_b64encode [of s] by (simp add: b64decode_def b64encode_def a2b_junk)
qed

lemma a2b_shifted:
  "length s mod 3 = 0 \<Longrightarrow> a2b_base64 1 l 0 (b2a_base64 s)
     = Inl (ValueError ''number of data characters cannot be 1 more than a multiple of 4'')"
  by (induction s arbitrary: l rule: b2a_base64.induct) (auto simp: cons_byte_def)

lemma plain_digits: "list_all is_digit s \<Longrightarrow> plain s"
  unfolding plain_def list_all_iff is_digit_def by fastforce

lemma plain_join: "plain sep \<Longrightarrow> \<forall>p \<in> set ps. plain p \<Longrightarrow> plain (join_with sep ps)"
proof -
  assume p: "plain sep" "\<forall>p \<in> set ps. plain p"
  have "plain [ch]" if "ch \<in> set (join_with sep ps)" for ch
  proof -
    have "ch \<in> set sep \<or> (\<exists>p \<in> set ps. ch \<in> set p)" using that set_join_with [of sep ps] by blast
    with p show ?thesis by (elim disjE bexE) (simp_all add: plain_def)
  qed
  then show ?thesis by (simp add: plain_def)
qed

lemma plain_correlation: "plain (Correlation_get_val d)"
proof -
  have sep: "plain '',''" "plain '':''" by (simp_all add: plain_def)
  have "plain (b64encode k @ '':'' @ b64encode v)" for k v using sep plain_b64 by (simp only: plain_simps(3))
  then show ?thesis unfolding Correlation_get_val_def
    by (cases "d = []") (auto intro!: plain_join [OF sep(1)] simp: plain_simps(1) split: prod.split)
qed

lemma kafka_sw8:
  assumes ok: "carrier_text_ok c" and num: "list_all is_digit (c_span_id c)" and get: "Carrier_get_val c = Inr v"
  shows "Carrier_set_val (Some (bytes_str v)) c0 =
    (None, c\<lparr>carrier_val := Some (bytes_str v), c_correlation := c_correlation c0\<rparr>)"
proof -
  from ok obtain ep addr where e: "c_endpoint c = Some ep" "valid_utf8 ep"
    and a: "c_client_address c = Some addr" "valid_utf8 addr" and sp: "CHR ''-'' \<notin> set (c_span_id c)"
    by (auto simp: carrier_text_ok_def)
  let ?mid = "[b64encode (c_trace_id c), b64encode (c_segment_id c), c_span_id c,
    b64encode (c_service c), b64encode (c_service_instance c), b64encode ep]"
  have v: "v = join_with ''-'' (''1'' # ?mid @ [b64encode addr])"
    using get e a by (simp add: Carrier_get_val_def)
  have "plain v" unfolding v by (rule plain_join) (auto simp: plain_b64 plain_digits [OF num], simp_all add: plain_def)
  then have str: "bytes_str v = join_with ''-'' ((CHR ''b'' # CHR 0x27 # ''1'') # ?mid @ [b64encode addr @ [CHR 0x27]])"
    using v by (simp add: bytes_str_plain)
  have parts: "split_on (CHR ''-'') (bytes_str v) = (CHR ''b'' # CHR 0x27 # ''1'') # ?mid @ [b64encode addr @ [CHR 0x27]]"
    unfolding str by (rule split_on_join_with) (auto simp: sp dash_codec.enc_no_sep)
  have "bytes_str v \<noteq> []" unfolding str by simp
  then show ?thesis
    using ok e a parts
    by (simp add: Carrier_set_val_def Let_def carrier_text_ok_def dash_codec.dec_enc b64decode_quoted)
qed

text \<open>C14. A Kafka message keeps its trace: the headers that \<open>KafkaProducer.send\<close> gets for a carrier without
  correlation data, turned into the text of a bytes literal by the consumer, are read back as the
  same carrier - the stray \<open>b\<close> and quotes fall into the version field and into what base64 decoding
  skips.\<close>

theorem kafka_headers_roundtrip:
  assumes ok: "carrier_text_ok c" "list_all is_digit (c_span_id c)" "c_correlation c = []"
    and send: "append_headers carrier_items c [] = Inr hs"
  shows "\<exists>v. kafka_fill hs carrier_items (Carrier_empty []) mx = (None, c\<lparr>carrier_val := Some v\<rparr>)"
proof -
  obtain v where v: "Carrier_get_val c = Inr v" using Carrier_get_val_total [OF ok(1)] by blast
  have hs: "hs = [(''sw8-correlation'', []), (''sw8'', v)]"
    using send v ok(3) by (simp add: carrier_items_def Correlation_get_val_def)
  have corr: "Correlation_set_val mx (Some (bytes_str [])) [] = (None, [])"
    by (simp add: bytes_str_plain plain_def Correlation_set_val_def split_on_no_sep)
  have "(Carrier_empty [])\<lparr>c_correlation := []\<rparr> = Carrier_empty []" by (simp add: Carrier_empty_def Carrier_init_def)
  with corr kafka_sw8 [OF ok(1,2) v, of "Carrier_empty []"] ok(3)
  have "kafka_fill hs carrier_items (Carrier_empty []) mx = (None, c\<lparr>carrier_val := Some (bytes_str v)\<rparr>)"
    by (simp add: hs carrier_items_def Carrier_empty_def Carrier_init_def)
  then show ?thesis by blast
qed

theorem kafka_headers_roundtrip_witness:
  "\<exists>v. kafka_fill [(''sw8-correlation'', []), (''sw8'', ''1-dA==-cw==-0-YQ==-Yg==-L2U=-aDox'')] carrier_items (Carrier_empty []) 3
     = (None, (Carrier_init ''t'' ''s'' ''0'' ''a'' ''b'' (Some ''/e'') (Some ''h:1'') [])\<lparr>carrier_val := Some v\<rparr>)"
proof -
  let ?c = "Carrier_init ''t'' ''s'' ''0'' ''a'' ''b'' (Some ''/e'') (Some ''h:1'') ([] :: correlation)"
  have "carrier_text_ok ?c" by (simp add: carrier_text_ok_def Carrier_init_def valid_utf8.simps)
  moreover have "list_all is_digit (c_span_id ?c)" "c_correlation ?c = []"
    "append_headers carrier_items ?c [] = Inr [(''sw8-correlation'', []), (''sw8'', ''1-dA==-cw==-0-YQ==-Yg==-L2U=-aDox'')]"
    by code_simp+
  ultimately show ?thesis by (rule kafka_headers_roundtrip)
qed

text \<open>C21. A Kafka message with correlation data cannot be consumed: when the first key has a length that is
  a multiple of three bytes, reading the headers that the producer wrote raises the base64 error -
  the consumer decodes the text of the bytes literal, whose leading \<open>b\<close> is a base64 character.\<close>

theorem kafka_correlation_unreadable:
  assumes corr: "c_correlation c = (k, v) # rest" "length k mod 3 = 0" "valid_utf8 v" and mx: "0 \<le> mx"
    and send: "append_headers carrier_items c [] = Inr hs"
  shows "\<exists>c'. kafka_fill hs carrier_items (Carrier_empty []) mx
     = (Some (ValueError ''number of data characters cannot be 1 more than a multiple of 4''), c')"
proof -
  let ?err = "ValueError ''number of data characters cannot be 1 more than a multiple of 4''"
  let ?h = "Correlation_get_val ((k, v) # rest)" let ?k = "CHR ''b'' # CHR 0x27 # b64encode k"
  obtain w where hs: "hs = [(''sw8-correlation'', ?h), (''sw8'', w)]"
    using send corr(1) by (auto simp: carrier_items_def bind_res_Inr_iff)
  have split: "\<exists>v' ps. split_on (CHR '','') (bytes_str ?h) = (?k @ CHR '':'' # v') # ps \<and> b64decode v' = Inr v \<and> CHR '':'' \<notin> set v'"
  proof (cases rest)
    case Nil
    have "bytes_str ?h = ?k @ CHR '':'' # b64encode v @ [CHR 0x27]"
      using plain_correlation [of "(k, v) # rest"] Nil by (simp add: bytes_str_plain Correlation_get_val_def)
    moreover have "CHR '','' \<notin> set (?k @ CHR '':'' # b64encode v @ [CHR 0x27])" by (simp add: b64encode_no_sep)
    ultimately show ?thesis
      using b64_roundtrip [OF corr(3)] by (auto simp: split_on_no_sep b64decode_quoted b64encode_no_sep)
  next
    case (Cons p ps)
    then obtain s where "?h = b64encode k @ CHR '':'' # b64encode v @ CHR '','' # s" by (cases p) (simp add: Correlation_get_val_def)
    then have "bytes_str ?h = (?k @ CHR '':'' # b64encode v) @ CHR '','' # s @ [CHR 0x27]"
      using bytes_str_plain [OF plain_correlation [of "(k, v) # rest"]] by simp
    moreover have "CHR '','' \<notin> set (?k @ CHR '':'' # b64encode v)" by (simp add: b64encode_no_sep)
    ultimately have "split_on (CHR '','') (bytes_str ?h) = (?k @ CHR '':'' # b64encode v) # split_on (CHR '','') (s @ [CHR 0x27])"
      by (metis split_on_append_sep)
    then show ?thesis using b64_roundtrip [OF corr(3)] b64encode_no_sep(3) [of v] by blast
  qed
  then obtain v' ps where sp: "split_on (CHR '','') (bytes_str ?h) = (?k @ CHR '':'' # v') # ps" "b64decode v' = Inr v" "CHR '':'' \<notin> set v'"
    by blast
  have nk: "CHR '':'' \<notin> set ?k" by (simp add: b64encode_no_sep)
  have parts: "split_on (CHR '':'') (?k @ CHR '':'' # v') = [?k, v']"
    using split_on_append_sep [OF nk] split_on_no_sep [OF sp(3)] by simp
  have bad: "b64decode ?k = Inl ?err"
  proof -
    have b: "b64_val (CHR ''b'') = Some 27" "b64_val (CHR 0x27) = None" by code_simp+
    have "a2b_base64 0 0 0 ?k = Inl ?err" using a2b_shifted [OF corr(2), of 27] b by (simp add: b64encode_def)
    moreover have "is_ascii ?k" using is_ascii_b64encode [of k] by (simp add: is_ascii_def)
    ultimately show ?thesis by (simp add: b64decode_def)
  qed
  have "bytes_str ?h \<noteq> []" by (simp add: bytes_str_def Let_def)
  then have "Correlation_set_val mx (Some (bytes_str ?h)) [] = (Some ?err, [])"
    using mx sp(2) bad parts by (simp add: Correlation_set_val_def sp(1) [simplified])
  then show ?thesis by (simp add: hs carrier_items_def Carrier_empty_def Carrier_init_def)
qed

theorem kafka_correlation_unreadable_witness:
  "\<exists>c'. kafka_fill [(''sw8-correlation'', ''a2V5:dg==''), (''sw8'', ''1-dA==-cw==-0-YQ==-Yg==-L2U=-aDox'')] carrier_items (Carrier_empty []) 3
     = (Some (ValueError ''number of data characters cannot be 1 more than a multiple of 4''), c')"
proof -
  let ?c = "Carrier_init ''t'' ''s'' ''0'' ''a'' ''b'' (Some ''/e'') (Some ''h:1'') [(''key'', ''v'')]"
  have "c_correlation ?c = [(''key'', ''v'')]" by (simp add: Carrier_init_def)
  moreover have "append_headers carrier_items ?c [] = Inr [(''sw8-correlation'', ''a2V5:dg==''), (''sw8'', ''1-dA==-cw==-0-YQ==-Yg==-L2U=-aDox'')]"
    "length ''key'' mod 3 = 0" "valid_utf8 ''v''" by code_simp+
  ultimately show ?thesis using kafka_correlation_unreadable [of ?c "''key''" "''v''" "[]" 3] by simp
qed

text \<open>A message without headers is lost to an \<open>aiormq\<close> consumer: the plugin looks up the propagation items
  in \<open>None\<close> and raises \<open>TypeError\<close> without having called the consumer's callback, whatever it is.\<close>

theorem aiormq_headerless_message_raises:
  "\<exists>w'. aiormq_callback ce callback (m, None) w = (Inl TypeError, w') \<and> w_stacks w' = w_stacks w"
proof -
  obtain ctx w' where "get_context (ce_start ce) w = (Inr ctx, w')" using get_context_total by blast
  moreover from this have "w_stacks w' = w_stacks w"
    using steadyD [OF steady_get_context, of w "ce_start ce"] by (simp add: ext_def)
  ultimately show ?thesis by (simp add: aiormq_callback_def seq_def lift_res_def)
qed

end
