(* ===== verification/GrpcPlugin.thy ===== *)
theory GrpcPlugin
  imports HttpServers MqPlugins
begin

text \<open>
  \<open>sw_grpc.py\<close>: interceptors for gRPC servers and clients, synchronous and asynchronous.  A server
  interceptor wraps the handler of a method in an entry span; a client interceptor wraps a call in an
  exit span and appends the propagation items to its metadata.  Channels to the collector are not
  intercepted.  Handlers that stream their response are generators: their call lasts until the
  stream ends.
\<close>

section \<open>Handlers and names\<close>

datatype rpc_kind = UnaryUnary | UnaryStream | StreamUnary | StreamStream

record 'h rpc_handler =
  rh_unary_unary :: "'h option"
  rh_unary_stream :: "'h option"
  rh_stream_unary :: "'h option"
  rh_stream_stream :: "'h option"
  rh_response_streaming :: bool

text \<open>A service that does not know the method has no handler: the attribute of \<open>None\<close> is then looked up.\<close>

definition get_factory_and_method :: "'h rpc_handler option \<Rightarrow> (rpc_kind \<times> 'h) res" where
  "get_factory_and_method rpc_handler =
     (case rpc_handler of
        None \<Rightarrow> Inl AttributeError
      | Some h \<Rightarrow>
          (case rh_unary_unary h of Some f \<Rightarrow> Inr (UnaryUnary, f)
           | None \<Rightarrow>
          (case rh_unary_stream h of Some f \<Rightarrow> Inr (UnaryStream, f)
           | None \<Rightarrow>
          (case rh_stream_unary h of Some f \<Rightarrow> Inr (StreamUnary, f)
           | None \<Rightarrow>
          (case rh_stream_stream h of Some f \<Rightarrow> Inr (StreamStream, f)
           | None \<Rightarrow> Inl (RuntimeError ''RPC handler implementation does not exist''))))))"

text \<open>\<open>dict(invocation_metadata or ()).get\<close>: the last of several values of a key counts.\<close>

definition metadata_look :: "(string \<times> string) list option \<Rightarrow> string \<Rightarrow> string option" where
  "metadata_look md key = map_of (rev (case md of None \<Rightarrow> [] | Some m \<Rightarrow> m)) key"

definition restore_carrier :: "(string \<times> string) list option \<Rightarrow> (nat carrier, ('l, 'm, 'n) world) op" where
  "restore_carrier md = extract_headers (metadata_look md)"

datatype method_name = MethodBytes string | MethodStr string | MethodOther string

fun get_method_name :: "method_name \<Rightarrow> string res" where
  "get_method_name (MethodBytes b) = decode_text b"
| "get_method_name (MethodStr s) = Inr s"
| "get_method_name (MethodOther s) = Inr s"

section \<open>Servers\<close>

record rpc_call =
  rc_method :: method_name
  rc_metadata :: "(string \<times> string) list option"
  rc_peer :: string

text \<open>\<open>rpc_error\<close> tells whether an outcome is a \<open>grpc.RpcError\<close>, and its status code if it has one.\<close>

definition mark_rpc_error :: "call_env \<Rightarrow> nat \<Rightarrow> string option option \<Rightarrow> string \<Rightarrow> (unit, ('l, 'm, 'n) world) op" where
  "mark_rpc_error ce sp err tb =
     (case err of
        None \<Rightarrow> ret ()
      | Some code \<Rightarrow>
          seq (tag_span sp TagGrpcStatusCode (case code of Some c \<Rightarrow> c | None \<Rightarrow> ''StatusCode.UNKNOWN'')) (\<lambda>_.
          modify (upd_span sp (span_raised (te_import_time (ce_end ce)) tb))))"

definition grpc_invoke ::
  "call_env \<Rightarrow> (string \<Rightarrow> bool) \<Rightarrow> ('r outcome \<Rightarrow> string option option) \<Rightarrow> (unit \<Rightarrow> ('r, ('l, 'm, 'n) world) call) \<Rightarrow> rpc_call
     \<Rightarrow> ('r outcome, ('l, 'm, 'n) world) op" where
  "grpc_invoke ce ignored rpc_error handler rq =
     seq (restore_carrier (rc_metadata rq)) (\<lambda>carrier.
     seq (lift_res (get_method_name (rc_method rq))) (\<lambda>name.
     seq (if ignored name then noop_span else entry_span ce name (Some carrier) None) (\<lambda>sp.
     with_span ce sp (
       seq (set_layer sp RPCFramework) (\<lambda>_.
       seq (tag_span sp TagGrpcMethod name) (\<lambda>_.
       seq (set_component sp Grpc) (\<lambda>_.
       seq (set_peer sp (rc_peer rq)) (\<lambda>_.
       seq (run_lib (handler ())) (\<lambda>res.
       seq (case res of Raised tb \<Rightarrow> mark_rpc_error ce sp (rpc_error res) tb | _ \<Rightarrow> ret ()) (\<lambda>_.
       ret res))))))))))"

text \<open>The generator and the two coroutines have the same body.\<close>

definition grpc_invoke_streaming ::
  "call_env \<Rightarrow> (string \<Rightarrow> bool) \<Rightarrow> ('r outcome \<Rightarrow> string option option) \<Rightarrow> (unit \<Rightarrow> ('r, ('l, 'm, 'n) world) call) \<Rightarrow> rpc_call
     \<Rightarrow> ('r outcome, ('l, 'm, 'n) world) op" where
  "grpc_invoke_streaming = grpc_invoke"

definition grpc_aio_invoke ::
  "call_env \<Rightarrow> (string \<Rightarrow> bool) \<Rightarrow> ('r outcome \<Rightarrow> string option option) \<Rightarrow> (unit \<Rightarrow> ('r, ('l, 'm, 'n) world) call) \<Rightarrow> rpc_call
     \<Rightarrow> ('r outcome, ('l, 'm, 'n) world) op" where
  "grpc_aio_invoke = grpc_invoke"

definition grpc_aio_invoke_streaming ::
  "call_env \<Rightarrow> (string \<Rightarrow> bool) \<Rightarrow> ('r outcome \<Rightarrow> string option option) \<Rightarrow> (unit \<Rightarrow> ('r, ('l, 'm, 'n) world) call) \<Rightarrow> rpc_call
     \<Rightarrow> ('r outcome, ('l, 'm, 'n) world) op" where
  "grpc_aio_invoke_streaming = grpc_invoke"

text \<open>\<open>intercept_service\<close>: the handler of the next interceptor is rebuilt, of the same kind, around the wrapper.\<close>

definition intercept_service ::
  "('h \<Rightarrow> 'f) \<Rightarrow> ('h \<Rightarrow> 'f) \<Rightarrow> 'h rpc_handler option \<Rightarrow> (rpc_kind \<times> 'f) res" where
  "intercept_service invoke invoke_streaming next_handler =
     bind_res (get_factory_and_method next_handler) (\<lambda>(kind, f).
       Inr (kind, (if rh_response_streaming (the next_handler) then invoke_streaming else invoke) f))"

definition grpc_server_interceptors :: "'i \<Rightarrow> 'i list option \<Rightarrow> 'i list" where
  "grpc_server_interceptors sw interceptors = [sw] @ (case interceptors of None \<Rightarrow> [] | Some l \<Rightarrow> l)"

section \<open>Clients\<close>

definition grpc_intercept ::
  "call_env \<Rightarrow> (string \<Rightarrow> bool) \<Rightarrow> ((string \<times> string) list \<Rightarrow> ('r, ('l, 'm, 'n) world) call) \<Rightarrow> rpc_call
     \<Rightarrow> ('r outcome, ('l, 'm, 'n) world) op" where
  "grpc_intercept ce ignored continuation rq =
     seq (lift_res (get_method_name (rc_method rq))) (\<lambda>name.
     seq (if ignored name then noop_span else exit_span ce name (rc_peer rq) Grpc) (\<lambda>sp.
     with_span ce sp (
       seq (set_layer sp RPCFramework) (\<lambda>_.
       seq (tag_span sp TagGrpcMethod name) (\<lambda>_.
       seq (tag_span sp TagGrpcUrl (rc_peer rq)) (\<lambda>_.
       seq (span_inject sp) (\<lambda>carrier.
       seq (inject_append carrier (case rc_metadata rq of None \<Rightarrow> [] | Some md \<Rightarrow> md)) (\<lambda>md.
       run_lib (continuation md))))))))) "

definition grpc_aio_intercept ::
  "call_env \<Rightarrow> (string \<Rightarrow> bool) \<Rightarrow> ((string \<times> string) list \<Rightarrow> ('r, ('l, 'm, 'n) world) call) \<Rightarrow> rpc_call
     \<Rightarrow> ('r outcome, ('l, 'm, 'n) world) op" where
  "grpc_aio_intercept = grpc_intercept"

text \<open>Channels to the collector, built inside the agent's own scope or named by its address, are left alone.\<close>

definition grpc_channel_intercepted :: "bool \<Rightarrow> string \<Rightarrow> config \<Rightarrow> bool" where
  "grpc_channel_intercepted building target c = (\<not> (building \<or> target = agent_collector_backend_services c))"

definition aio_channel_interceptors :: "bool \<Rightarrow> string \<Rightarrow> config \<Rightarrow> (rpc_kind \<Rightarrow> 'i) \<Rightarrow> 'i list option \<Rightarrow> 'i list option" where
  "aio_channel_interceptors building target c sw interceptors =
     (if building \<or> target = agent_collector_backend_services c then interceptors
      else Some ([sw UnaryUnary, sw UnaryStream, sw StreamUnary, sw StreamStream]
                 @ (case interceptors of None \<Rightarrow> [] | Some l \<Rightarrow> l)))"

section \<open>The contract\<close>

lemma keeps_mark_rpc: "keeps t may (served sp) (mark_rpc_error ce sp err tb) (\<lambda>_ _. True)"
  unfolding mark_rpc_error_def by (intro keeps_option keeps_do [OF keeps_tag_entry stable_served] span_raised_keeps)

lemma keeps_on_raise:
  "(\<And>tb. keeps t may P (f tb) (\<lambda>_ _. True)) \<Longrightarrow> keeps t may P (case res of Raised tb \<Rightarrow> f tb | _ \<Rightarrow> ret ()) (\<lambda>_ _. True)"
  by (cases res) (auto simp: keeps_def)

lemma grpc_invoke_keeps:
  assumes "same_thread t ce" and "lib_ok t lib"
  shows "keeps t True (\<lambda>_. True) (grpc_invoke ce ign err lib rq) (\<lambda>r _. called t any_arg lib r)"
  unfolding grpc_invoke_def restore_carrier_def
proof (rule keeps_seq [OF keeps_extract_headers], rule keeps_then [OF keeps_lift stable_corr_known])
  fix carrier name
  have mark: "keeps t True (served sp) (case res of Raised tb \<Rightarrow> mark_rpc_error ce sp (err res) tb | _ \<Rightarrow> ret ()) (\<lambda>_ _. True)" for sp res
    by (rule keeps_on_raise [OF keeps_mark_rpc])
  show "keeps t True (corr_known (Some carrier)) (seq (if ign name then noop_span else entry_span ce name (Some carrier) None) (\<lambda>sp.
     with_span ce sp (
       seq (set_layer sp RPCFramework) (\<lambda>_.
       seq (tag_span sp TagGrpcMethod name) (\<lambda>_.
       seq (set_component sp Grpc) (\<lambda>_.
       seq (set_peer sp (rc_peer rq)) (\<lambda>_.
       seq (run_lib (lib ())) (\<lambda>res.
       seq (case res of Raised tb \<Rightarrow> mark_rpc_error ce sp (err res) tb | _ \<Rightarrow> ret ()) (\<lambda>_.
       ret res)))))))) ) (\<lambda>r _. called t any_arg lib r)"
    by (rule keeps_entry_block [OF assms(1)])
      (intro keeps_do [OF mark stable_served] entry_body_rules keeps_ret assms keeps_if keeps_noop_span keeps_entry_span;
       simp add: any_arg_def)+
qed

lemma grpc_intercept_keeps:
  assumes "same_thread t ce" and "lib_ok t lib"
  shows "keeps t True (\<lambda>_. True) (grpc_intercept ce ign lib rq)
     (\<lambda>r _. called t (appended (case rc_metadata rq of None \<Rightarrow> [] | Some md \<Rightarrow> md)) lib r)"
  unfolding grpc_intercept_def
  by (intro keeps_then [OF keeps_lift stable_const] keeps_block keeps_if keeps_noop_span keeps_exit_span mq_rules assms; simp)

interpretation grpc_server: instrumented t True "\<lambda>_. any_arg" "grpc_invoke (on_thread t ce) ign err" for t ce ign err
  by unfold_locales (simp add: grpc_invoke_keeps)

interpretation grpc_client: instrumented t True "\<lambda>rq. appended (case rc_metadata rq of None \<Rightarrow> [] | Some md \<Rightarrow> md)"
    "grpc_intercept (on_thread t ce) ign" for t ce ign
  by unfold_locales (simp add: grpc_intercept_keeps)

section \<open>What gRPC metadata carries\<close>

lemma metadata_last:
  "metadata_look (Some (md @ [(''sw8-correlation'', a), (''sw8'', b)])) ''sw8-correlation'' = Some a"
  "metadata_look (Some (md @ [(''sw8-correlation'', a), (''sw8'', b)])) ''sw8'' = Some b"
  by (simp_all add: metadata_look_def)

text \<open>C13. A gRPC call keeps its trace whatever metadata the caller sends along, stale propagation items of
  an earlier hop included: the server reads the metadata that the client interceptor passed on as
  exactly the carrier that was injected, with its correlation data.\<close>

theorem grpc_metadata_roundtrip:
  assumes ok: "carrier_text_ok c" "corr_text_ok (c_correlation c)" "dict_ok (c_correlation c)"
    and mx: "0 \<le> mx" "int (length (c_correlation c)) \<le> mx + 1"
    and sent: "append_headers carrier_items c md = Inr md'"
  shows "\<exists>v. Carrier_get_val c = Inr v
     \<and> fill_carrier mx (metadata_look (Some md')) carrier_items (Carrier_empty []) = (None, c\<lparr>carrier_val := Some v\<rparr>)"
proof -
  from headers_transport [OF ok mx] obtain h v where h: "write_headers carrier_items c [] = Inr h" "Carrier_get_val c = Inr v"
    "read_headers mx carrier_items h (Carrier_empty []) = (None, c\<lparr>carrier_val := Some v\<rparr>)" by blast
  let ?cv = "Correlation_get_val (c_correlation c)"
  have hd: "h = [(''sw8-correlation'', ?cv), (''sw8'', v)]" using h(1,2) by (simp add: carrier_items_def)
  have md: "md' = md @ [(''sw8-correlation'', ?cv), (''sw8'', v)]" using sent h(2) by (simp add: carrier_items_def)
  have "fill_carrier mx (metadata_look (Some md')) carrier_items (Carrier_empty []) = read_headers mx carrier_items h (Carrier_empty [])"
    unfolding md hd carrier_items_def by (auto simp: metadata_last split: prod.splits option.splits)
  with h show ?thesis by simp
qed

theorem grpc_metadata_roundtrip_witness:
  "\<exists>v. Carrier_get_val (Carrier_init ''t'' ''s'' ''0'' ''a'' ''b'' (Some ''/e'') (Some ''h:1'') [(''k'', ''v'')]) = Inr v
     \<and> fill_carrier 3 (metadata_look (Some [(''sw8'', ''old''), (''sw8-correlation'', ''aw==:dg==''), (''sw8'', ''1-dA==-cw==-0-YQ==-Yg==-L2U=-aDox'')]))
         carrier_items (Carrier_empty [])
       = (None, (Carrier_init ''t'' ''s'' ''0'' ''a'' ''b'' (Some ''/e'') (Some ''h:1'') [(''k'', ''v'')])\<lparr>carrier_val := Some v\<rparr>)"
proof (rule grpc_metadata_roundtrip [where md = "[(''sw8'', ''old'')]"])
  let ?c = "Carrier_init ''t'' ''s'' ''0'' ''a'' ''b'' (Some ''/e'') (Some ''h:1'') [(''k'', ''v'')]"
  show "carrier_text_ok ?c" by (simp add: carrier_text_ok_def Carrier_init_def valid_utf8.simps)
  show "append_headers carrier_items ?c [(''sw8'', ''old'')]
      = Inr [(''sw8'', ''old''), (''sw8-correlation'', ''aw==:dg==''), (''sw8'', ''1-dA==-cw==-0-YQ==-Yg==-L2U=-aDox'')]" by code_simp
qed (simp_all add: Carrier_init_def corr_text_ok_def valid_utf8_ascii is_ascii_def dict_ok_def)

text \<open>A method that a gRPC server does not implement fails in the interceptor: where the next interceptor
  has no handler the server interceptor raises \<open>AttributeError\<close> instead of passing the absence on; and
  every handler that there is gets a wrapper of its own kind.\<close>

theorem missing_handler_raises:
  "intercept_service f g None = Inl AttributeError
   \<and> (\<forall>h kind m. get_factory_and_method (Some h) = Inr (kind, m)
        \<longrightarrow> intercept_service f g (Some h) = Inr (kind, if rh_response_streaming h then g m else f m))"
  by (simp add: intercept_service_def get_factory_and_method_def)

theorem missing_handler_raises_witness:
  "intercept_service Suc id (Some \<lparr>rh_unary_unary = None, rh_unary_stream = Some 4, rh_stream_unary = None, rh_stream_stream = None,
     rh_response_streaming = True\<rparr>) = Inr (UnaryStream, 4)"
  using missing_handler_raises [of Suc id] by (simp add: get_factory_and_method_def)

end
