(* ===== verification/Bootstrap.thy ===== *)
theory Bootstrap
  imports Agent
begin

text \<open>
  The command line and the loader: \<open>bootstrap/cli/sw_python.py\<close> and \<open>cli/utility/runner.py\<close>, which prepare
  the environment of a command and replace the process by it; \<open>bootstrap/loader/sitecustomize.py\<close>, which
  the new interpreter runs at startup and which starts the agent; and \<open>bootstrap/hooks/uwsgi_hook.py\<close>.
  The process environment is a map from names to texts.  Log output is not modelled.
\<close>

section \<open>The runner\<close>

definition env_slots :: "string list" where
  "env_slots = [''UWSGI_SHARED_PYTHON_IMPORT'', ''UWSGI_SHARED_IMPORT'', ''UWSGI_SHARED_PYIMPORT'', ''UWSGI_SHARED_PY_IMPORT'']"

definition SWRunnerFailure :: py_error where
  "SWRunnerFailure = OtherError ''SWRunnerFailure''"

definition pick_env_var :: "environ \<Rightarrow> string res" where
  "pick_env_var env = (case filter (\<lambda>v. env v = None) env_slots of [] \<Rightarrow> Inl SWRunnerFailure | v # _ \<Rightarrow> Inr v)"

definition unless_given :: "string \<Rightarrow> string list \<Rightarrow> string \<Rightarrow> environ \<Rightarrow> environ" where
  "unless_given flag args var env = (if flag \<in> set args then env else env(var \<mapsto> ''true''))"

definition prefork_handler :: "string list \<Rightarrow> environ \<Rightarrow> environ res" where
  "prefork_handler command env0 =
     (let env = env0(''prefork'' \<mapsto> []) in
      case command of
        [] \<Rightarrow> Inl IndexError
      | c0 # rest \<Rightarrow>
          if c0 = ''gunicorn'' then Inr (env(''prefork'' \<mapsto> ''gunicorn''))
          else if c0 = ''uwsgi''
          then let env1 = unless_given ''--master'' rest ''UWSGI_MASTER'' env;
                   env2 = unless_given ''--enable-threads'' rest ''UWSGI_ENABLE_THREADS'' env1;
                   env3 = env2(''prefork'' \<mapsto> ''uwsgi'')
               in bind_res (pick_env_var env3) (\<lambda>v. Inr (env3(v \<mapsto> ''uwsgi_hook'')))
          else Inr env)"

definition path_of :: "string list \<Rightarrow> string" where
  "path_of ps = join_with '':'' ps"

definition entries :: "string \<Rightarrow> string list" where
  "entries p = split_on (CHR '':'') p"

definition new_python_path :: "string \<Rightarrow> string \<Rightarrow> string option \<Rightarrow> string" where
  "new_python_path loader_path hook_path python_path =
     (let new_path = (case python_path of
                        None \<Rightarrow> []
                      | Some p \<Rightarrow> if p = [] then []
                                  else if loader_path \<in> set (entries p) then []
                                  else path_of [loader_path, hook_path, p])
      in if new_path \<noteq> [] then new_path else path_of [loader_path, hook_path])"

text \<open>The installation the command line runs in: the two directories, the normalised prefix, the version.\<close>

record installation =
  in_loader :: string
  in_hook :: string
  in_prefix :: string
  in_version :: string

definition runner_env :: "installation \<Rightarrow> bool \<Rightarrow> environ \<Rightarrow> environ" where
  "runner_env i debug env =
     env(''PYTHONPATH'' \<mapsto> new_python_path (in_loader i) (in_hook i) (env ''PYTHONPATH''),
         ''SW_PYTHON_PREFIX'' \<mapsto> in_prefix i,
         ''SW_PYTHON_VERSION'' \<mapsto> in_version i,
         ''SW_AGENT_SW_PYTHON_CLI_DEBUG_ENABLED'' \<mapsto> (if debug then ''True'' else ''False''))"

text \<open>\<open>execute\<close>: the environment the command is started with; \<open>can_exec\<close> tells whether \<open>execvp\<close> succeeds.\<close>

definition execute ::
  "installation \<Rightarrow> bool \<Rightarrow> (string \<Rightarrow> bool) \<Rightarrow> string list \<Rightarrow> bool \<Rightarrow> environ \<Rightarrow> environ res" where
  "execute i debug can_exec command check_prefork env =
     bind_res (if check_prefork then prefork_handler command env else Inr env) (\<lambda>env1.
       let env2 = runner_env i debug env1 in
       case command of [] \<Rightarrow> Inl IndexError | c0 # _ \<Rightarrow> if can_exec c0 then Inr env2 else Inl SWRunnerFailure)"

record cli_args =
  ca_debug :: bool
  ca_prefork :: bool
  ca_command :: "string list"

definition dispatch :: "installation \<Rightarrow> (string \<Rightarrow> bool) \<Rightarrow> cli_args \<Rightarrow> environ \<Rightarrow> environ res" where
  "dispatch i can_exec args env = execute i (ca_debug args) can_exec (ca_command args) (ca_prefork args) env"

text \<open>\<open>start\<close> with the parsed arguments: \<open>None\<close> when it returns without having started the command.\<close>

definition cli_start :: "installation \<Rightarrow> (string \<Rightarrow> bool) \<Rightarrow> cli_args \<Rightarrow> environ \<Rightarrow> environ option res" where
  "cli_start i can_exec args env =
     (if ca_command args = [] then Inr None
      else case dispatch i can_exec args env of
             Inr env' \<Rightarrow> Inr (Some env')
           | Inl err \<Rightarrow> if err = SWRunnerFailure then Inr None else Inl err)"

section \<open>The loader\<close>

text \<open>The user's own \<open>sitecustomize\<close> is imported with the loader's directory taken off the path; whatever
  happens, a module of that name is registered again: the user's, or else the loader's.\<close>

datatype site_import = SiteFound | SiteMissing | SiteRaises py_error

definition cleared_path :: "string \<Rightarrow> string list \<Rightarrow> string list" where
  "cleared_path dir sys_path = filter (\<lambda>p. p \<noteq> dir) sys_path"

definition user_sitecustomize :: "site_import \<Rightarrow> py_error option \<times> bool" where
  "user_sitecustomize r = (case r of SiteFound \<Rightarrow> (None, True) | SiteMissing \<Rightarrow> (None, False) | SiteRaises err \<Rightarrow> (Some err, False))"

definition stop_propagation :: "string \<Rightarrow> environ \<Rightarrow> environ" where
  "stop_propagation dir env =
     (if env ''SW_AGENT_SW_PYTHON_BOOTSTRAP_PROPAGATE'' = Some ''False''
      then case env ''PYTHONPATH'' of
             None \<Rightarrow> env
           | Some p \<Rightarrow> if p \<noteq> [] \<and> dir \<in> set (entries p)
                        then env(''PYTHONPATH'' \<mapsto> path_of (remove1 dir (entries p))) else env
      else env)"

text \<open>The check that the program runs in the installation of the command line.\<close>

definition loader_match :: "string \<Rightarrow> string \<Rightarrow> environ \<Rightarrow> bool res" where
  "loader_match version prefix env =
     (case env ''SW_PYTHON_PREFIX'' of
        None \<Rightarrow> Inl AttributeError
      | Some p \<Rightarrow> Inr (env ''SW_PYTHON_VERSION'' = Some version \<and> lower p = lower prefix))"

definition rename_instance :: "string \<Rightarrow> int \<Rightarrow> ('s, 'l, 'm, 'n) agent \<Rightarrow> ('s, 'l, 'm, 'n) agent" where
  "rename_instance what pid a =
     a\<lparr>a_cfg := (a_cfg a)\<lparr>agent_instance_name := agent_instance_name (a_cfg a) @ ''-'' @ what @ ''('' @ str_of_int pid @ '')''\<rparr>\<rparr>"

text \<open>The start of the (threaded) agent; an exception is logged and the program goes on.\<close>

definition loader_agent :: "bool \<Rightarrow> int \<Rightarrow> environ \<Rightarrow> ('s, 'l, 'm, 'n) agent \<Rightarrow> ('s, 'l, 'm, 'n) agent" where
  "loader_agent has_at_fork pid env a0 =
     (let a = (if env ''SW_AGENT_SW_PYTHON_CLI_DEBUG_ENABLED'' = Some ''True''
               then a0\<lparr>a_cfg := (a_cfg a0)\<lparr>agent_logging_level := ''DEBUG''\<rparr>\<rparr> else a0);
          server = (case env ''prefork'' of None \<Rightarrow> [] | Some p \<Rightarrow> p)
      in if server \<noteq> []
         then let m = rename_instance ''master'' pid a in
              if server = ''gunicorn''
              then let g = m\<lparr>a_cfg := (a_cfg m)\<lparr>agent_experimental_fork_support := True\<rparr>\<rparr> in
                   if agent_asyncio_enhancement (a_cfg g) then g else start_prefork_master has_at_fork pid g
              else m
         else snd (agent_start has_at_fork pid a))"

datatype ('s, 'l, 'm, 'n) boot = Raises py_error | ExitOne | Booted "('s, 'l, 'm, 'n) agent" environ

definition sitecustomize ::
  "bool \<Rightarrow> int \<Rightarrow> string \<Rightarrow> string \<Rightarrow> string \<Rightarrow> site_import \<Rightarrow> environ \<Rightarrow> ('s, 'l, 'm, 'n) agent \<Rightarrow> ('s, 'l, 'm, 'n) boot" where
  "sitecustomize has_at_fork pid dir version prefix site env a =
     (case user_sitecustomize site of
        (Some err, _) \<Rightarrow> Raises err
      | (None, _) \<Rightarrow>
          (let env' = stop_propagation dir env in
           case loader_match version prefix env' of
             Inl err \<Rightarrow> Raises err
           | Inr False \<Rightarrow> ExitOne
           | Inr True \<Rightarrow> Booted (loader_agent has_at_fork pid env' a) env'))"

text \<open>The post-fork hook of uWSGI; an exception of \<open>start\<close> is logged.\<close>

definition setup_skywalking :: "bool \<Rightarrow> int \<Rightarrow> ('s, 'l, 'm, 'n) agent \<Rightarrow> ('s, 'l, 'm, 'n) agent" where
  "setup_skywalking has_at_fork pid a = snd (agent_start has_at_fork pid (rename_instance ''child'' pid a))"

section \<open>Properties\<close>

lemma path_entries: "CHR '':'' \<notin> set l \<Longrightarrow> CHR '':'' \<notin> set h \<Longrightarrow> entries (path_of [l, h, p]) = l # h # entries p"
  by (simp add: entries_def path_of_def split_on_append_sep)

lemma path_pair: "CHR '':'' \<notin> set l \<Longrightarrow> CHR '':'' \<notin> set h \<Longrightarrow> entries (path_of [l, h]) = [l, h]"
  by (simp add: entries_def path_of_def split_on_append_sep split_on_no_sep)

text \<open>C32. The module path of a started command: the loader's and the hook's directory come first, and the
  entries the user had follow in their order - except when the loader is among them already, as in
  a command line started by another one: then all of the user's entries are lost.\<close>

theorem run_python_path:
  assumes "CHR '':'' \<notin> set (in_loader i)" "CHR '':'' \<notin> set (in_hook i)" and "env ''PYTHONPATH'' = Some p" "p \<noteq> []"
    and "command \<noteq> []" "can_exec (hd command)"
  shows "\<exists>env'. execute i debug can_exec command False env = Inr env'
     \<and> map_option entries (env' ''PYTHONPATH'')
        = Some (if in_loader i \<in> set (entries p) then [in_loader i, in_hook i] else in_loader i # in_hook i # entries p)"
proof -
  obtain c0 rest where c: "command = c0 # rest" using assms(5) by (cases command) auto
  have ne: "path_of [in_loader i, in_hook i, p] \<noteq> []" by (simp add: path_of_def)
  have "map_option entries (runner_env i debug env ''PYTHONPATH'')
      = Some (if in_loader i \<in> set (entries p) then [in_loader i, in_hook i] else in_loader i # in_hook i # entries p)"
    using assms(3,4) ne path_entries [OF assms(1,2)] path_pair [OF assms(1,2)]
    by (simp add: runner_env_def new_python_path_def Let_def)
  with assms(6) c show ?thesis by (simp add: execute_def)
qed

theorem run_python_path_witness:
  "\<exists>env'. execute \<lparr>in_loader = ''/l'', in_hook = ''/h'', in_prefix = ''/usr'', in_version = ''3''\<rparr> False (\<lambda>_. True) [''python'']
      False [''PYTHONPATH'' \<mapsto> ''/l:/h:/app''] = Inr env'
     \<and> map_option entries (env' ''PYTHONPATH'') = Some [''/l'', ''/h'']"
  using run_python_path [of "\<lparr>in_loader = ''/l'', in_hook = ''/h'', in_prefix = ''/usr'', in_version = ''3''\<rparr>"
    "[''PYTHONPATH'' \<mapsto> ''/l:/h:/app'']" "''/l:/h:/app''" "[''python'']" "\<lambda>_. True" False]
  by (simp add: entries_def)

lemma runner_env_keeps:
  "runner_env i debug env ''SW_PYTHON_PREFIX'' = Some (in_prefix i)" "runner_env i debug env ''SW_PYTHON_VERSION'' = Some (in_version i)"
  "runner_env i debug env ''prefork'' = env ''prefork''"
  "runner_env i debug env ''SW_AGENT_SW_PYTHON_BOOTSTRAP_PROPAGATE'' = env ''SW_AGENT_SW_PYTHON_BOOTSTRAP_PROPAGATE''"
  "runner_env i debug env ''SW_AGENT_SW_PYTHON_CLI_DEBUG_ENABLED'' = Some (if debug then ''True'' else ''False'')"
  by (simp_all add: runner_env_def)

lemma stop_propagation_keeps: "k \<noteq> ''PYTHONPATH'' \<Longrightarrow> stop_propagation dir env k = env k"
  by (auto simp: stop_propagation_def split: option.split)

text \<open>The master that the loader leaves behind for Gunicorn.\<close>

lemma loader_gunicorn:
  assumes "env ''prefork'' = Some ''gunicorn''" and "\<not> agent_asyncio_enhancement (a_cfg a)" and "\<not> a_started a"
    and "a_threads a = []" and "\<not> a_reporting a" and "\<not> a_at_fork_registered a"
  shows "let m = loader_agent True pid env a in \<not> a_reporting m \<and> a_threads m = [] \<and> a_started m \<and> a_started_pid m = Some pid
     \<and> a_at_fork_registered m \<and> agent_experimental_fork_support (a_cfg m)"
  using assms by (simp add: loader_agent_def Let_def rename_instance_def start_prefork_master_def)



end
