(* ===== verification/ProfileGreenlet.thy ===== *)
theory ProfileGreenlet
  imports Profile
begin

text \<open>
  The profiler of \<open>skywalking/profile/profile_context.py\<close> in its greenlet model: a \<open>GreenletProfiler\<close> has no
  thread that samples it; it installs a trace function that greenlet calls at every switch.

  A trace function is the callback of one profiler or one that somebody else installed.  \<open>settrace\<close> of greenlet is a
  parameter over the state of the greenlet runtime; the callbacks keep their profiler alive after its slot has been
  cleared, so profilers live in a heap and the slots hold addresses.  \<open>gx_current\<close> tells whether the execution service
  still refers to this context, \<open>gx_out\<close> collects the snapshots handed to the agent.
\<close>

datatype tracer = Callback nat | Foreign nat

record green_profiler = profiler +
  gl_old_trace :: "tracer option option"

record 'g green =
  gx_task :: task_obj
  gx_current_cnt :: "int atomic_ref"
  gx_total_started_cnt :: "int atomic_ref"
  gx_slots :: "nat atomic_array"
  gx_profilers :: "green_profiler list"
  gx_refs :: status_heap
  gx_current :: bool
  gx_task_list :: "task_obj list"
  gx_notified :: "task_obj list"
  gx_out :: "thread_snapshot list"
  gx_runtime :: 'g

text \<open>The context that \<open>process_profile_task\<close> has just made current; \<open>start_profiling\<close> does nothing here.\<close>

definition green_started :: "config \<Rightarrow> task_obj \<Rightarrow> task_obj list \<Rightarrow> status_heap \<Rightarrow> 'g \<Rightarrow> 'g green" where
  "green_started c t ts h g =
     \<lparr>gx_task = t, gx_current_cnt = AtomicRef_init 0, gx_total_started_cnt = AtomicRef_init 0,
      gx_slots = AtomicArray_init (agent_profile_max_parallel c), gx_profilers = [], gx_refs = h, gx_current = True,
      gx_task_list = ts, gx_notified = [], gx_out = [], gx_runtime = g\<rparr>"

definition run_settrace :: "(tracer option \<Rightarrow> (tracer option, 'g) op) \<Rightarrow> tracer option \<Rightarrow> (tracer option, 'g green) op" where
  "run_settrace settrace f x = (case settrace f (gx_runtime x) of (r, g) \<Rightarrow> (r, x\<lparr>gx_runtime := g\<rparr>))"

definition set_status :: "nat \<Rightarrow> profile_status \<Rightarrow> (unit, 'g green) op" where
  "set_status i s = modify (\<lambda>x. x\<lparr>gx_refs := update_status (pf_status (gx_profilers x ! i)) s (gx_refs x)\<rparr>)"

definition GreenletProfiler_init :: "config \<Rightarrow> nat \<Rightarrow> string \<Rightarrow> nat \<Rightarrow> (nat, 'g green) op" where
  "GreenletProfiler_init c ctx segment_id gr x =
     (case create_with_pending (gx_refs x) of (r, h) \<Rightarrow>
        (Inr (length (gx_profilers x)),
         x\<lparr>gx_refs := h,
           gx_profilers := gx_profilers x @
             [\<lparr>pf_trace_context = ctx, pf_segment_id = segment_id, pf_thread = gr, pf_start_time = -1,
               pf_max_time_mills = agent_profile_duration c * 60 * 1000, pf_dump_sequence = 0, pf_status = r,
               gl_old_trace = None\<rparr>]\<rparr>))"

text \<open>\<open>self._old_trace\<close> is missing until \<open>start_profiling\<close> has installed the callback.\<close>

definition green_stop :: "(tracer option \<Rightarrow> (tracer option, 'g) op) \<Rightarrow> nat \<Rightarrow> (unit, 'g green) op" where
  "green_stop settrace i x =
     (case gl_old_trace (gx_profilers x ! i) of
        None \<Rightarrow> (Inl AttributeError, x)
      | Some old \<Rightarrow> seq (run_settrace settrace old) (\<lambda>_. set_status i STOPPED) x)"

fun green_stop_each :: "(tracer option \<Rightarrow> (tracer option, 'g) op) \<Rightarrow> nat option list \<Rightarrow> (unit, 'g green) op" where
  "green_stop_each settrace [] = ret ()"
| "green_stop_each settrace (None # ps) = green_stop_each settrace ps"
| "green_stop_each settrace (Some i # ps) = seq (green_stop settrace i) (\<lambda>_. green_stop_each settrace ps)"

definition green_stop_profiling :: "(tracer option \<Rightarrow> (tracer option, 'g) op) \<Rightarrow> (unit, 'g green) op" where
  "green_stop_profiling settrace x = green_stop_each settrace (arr_items (gx_slots x)) x"

definition green_stop_current :: "(tracer option \<Rightarrow> (tracer option, 'g) op) \<Rightarrow> (unit, 'g green) op" where
  "green_stop_current settrace x =
     (if \<not> gx_current x then (Inr (), x)
      else seq (green_stop_profiling settrace) (\<lambda>_. modify (\<lambda>x.
             x\<lparr>gx_task_list := filter (\<lambda>u. u \<noteq> gx_task x) (gx_task_list x), gx_notified := gx_notified x @ [gx_task x]\<rparr>))
           (x\<lparr>gx_current := False\<rparr>))"

definition green_stop_tracing :: "(tracer option \<Rightarrow> (tracer option, 'g) op) \<Rightarrow> nat \<Rightarrow> (unit, 'g green) op" where
  "green_stop_tracing settrace ctx x =
     (case find_profiler ctx 0 (map (map_option ((!) (gx_profilers x))) (arr_items (gx_slots x))) of
        None \<Rightarrow> (Inr (), x)
      | Some k \<Rightarrow>
          (case AtomicArray_set (gx_slots x) (int k) None of
             Inl e \<Rightarrow> (Inl e, x)
           | Inr slots \<Rightarrow>
               seq (green_stop settrace (the (arr_items (gx_slots x) ! k)))
                 (\<lambda>_. modify (\<lambda>x. x\<lparr>gx_current_cnt := snd (AtomicInteger_add_and_get (gx_current_cnt x) (-1))\<rparr>))
                 (x\<lparr>gx_slots := slots\<rparr>)))"

definition green_is_start_profileable :: "(bool, 'g green) op" where
  "green_is_start_profileable x =
     (case AtomicInteger_add_and_get (gx_total_started_cnt x) 1 of
        (v, cnt) \<Rightarrow> (Inr (v \<le> max_sampling_count (snd (gx_task x))), x\<lparr>gx_total_started_cnt := cnt\<rparr>))"

section \<open>The callback\<close>

text \<open>
  One switch: the two greenlets, the rendered stack of the profiled greenlet (or the exception of \<open>extract_stack\<close>), the
  clock and the outcome of handing a snapshot to the agent.
\<close>

record switch =
  sw_origin :: nat
  sw_target :: nat
  sw_stack :: "string list res"
  sw_now :: int
  sw_put :: "unit res"

definition green_build_snapshot :: "config \<Rightarrow> switch \<Rightarrow> nat \<Rightarrow> (thread_snapshot option, 'g green) op" where
  "green_build_snapshot c s i =
     seq (lift_res (sw_stack s)) (\<lambda>frames.
       let stack_list = take (nat (agent_profile_dump_max_stack_depth c + 1)) frames in
       seq (\<lambda>x. if pf_dump_sequence (gx_profilers x ! i) = 0 then green_is_start_profileable x else (Inr True, x)) (\<lambda>ok x.
         let p = gx_profilers x ! i in
         if \<not> ok then (Inr None, x)
         else (Inr (Some \<lparr>ts_task_id = task_id (snd (gx_task x)), ts_segment_id = pf_segment_id p,
                          ts_sequence = pf_dump_sequence p, ts_time = sw_now s, ts_stack = stack_list\<rparr>),
               x\<lparr>gx_profilers := (gx_profilers x)[i := p\<lparr>pf_dump_sequence := pf_dump_sequence p + 1\<rparr>]\<rparr>)))"

definition BlockingSwitchOutError :: py_error where
  "BlockingSwitchOutError = OtherError ''BlockingSwitchOutError''"

definition green_dump :: "(tracer option \<Rightarrow> (tracer option, 'g) op) \<Rightarrow> config \<Rightarrow> switch \<Rightarrow> nat \<Rightarrow> (unit, 'g green) op" where
  "green_dump settrace c s i =
     seq (green_build_snapshot c s i) (\<lambda>snap.
       case snap of
         Some t \<Rightarrow> seq (lift_res (sw_put s)) (\<lambda>_. modify (\<lambda>x. x\<lparr>gx_out := gx_out x @ [t]\<rparr>))
       | None \<Rightarrow> (\<lambda>x. green_stop_tracing settrace (pf_trace_context (gx_profilers x ! i)) x))"

definition green_callback :: "(tracer option \<Rightarrow> (tracer option, 'g) op) \<Rightarrow> config \<Rightarrow> switch \<Rightarrow> nat \<Rightarrow> (unit, 'g green) op" where
  "green_callback settrace c s i x =
     (if sw_origin s = pf_thread (gx_profilers x ! i) \<or> sw_target s = pf_thread (gx_profilers x ! i)
      then case green_dump settrace c s i x of
             (Inr _, x') \<Rightarrow> (Inr (), x')
           | (Inl e, x') \<Rightarrow>
               seq (green_stop_tracing settrace (pf_trace_context (gx_profilers x' ! i)))
                 (\<lambda>_. if e = BlockingSwitchOutError then ret () else raise_err e) x'
      else (Inr (), x))"

section \<open>Starting\<close>

definition green_start :: "(tracer option \<Rightarrow> (tracer option, 'g) op) \<Rightarrow> nat \<Rightarrow> (unit, 'g green) op" where
  "green_start settrace i =
     seq (set_status i PROFILING) (\<lambda>_ x.
       case run_settrace settrace (Some (Callback i)) x of
         (Inr old, x') \<Rightarrow>
           (Inr (), x'\<lparr>gx_profilers := (gx_profilers x')[i := (gx_profilers x' ! i)\<lparr>gl_old_trace := Some old\<rparr>]\<rparr>)
       | (Inl e, x') \<Rightarrow> green_stop_current settrace x')"

definition green_none :: "(nat, 'g green) op" where
  "green_none x = (case create_with_none (gx_refs x) of (r, h) \<Rightarrow> (Inr r, x\<lparr>gx_refs := h\<rparr>))"

definition green_attempt ::
  "(tracer option \<Rightarrow> (tracer option, 'g) op) \<Rightarrow> config \<Rightarrow> nat \<Rightarrow> string \<Rightarrow> nat \<Rightarrow> string \<Rightarrow> (nat, 'g green) op" where
  "green_attempt settrace c ctx segment_id gr op x =
     (let using_slot_cnt = AtomicRef_get (gx_current_cnt x) in
      if using_slot_cnt \<ge> agent_profile_max_parallel c then green_none x
      else if first_span_op_name (snd (gx_task x)) \<noteq> op then green_none x
      else if AtomicRef_get (gx_total_started_cnt x) > max_sampling_count (snd (gx_task x)) then green_none x
      else case AtomicRef_compare_and_set (gx_current_cnt x) using_slot_cnt (using_slot_cnt + 1) of
        (False, _) \<Rightarrow> green_none x
      | (True, cnt) \<Rightarrow>
          seq (GreenletProfiler_init c ctx segment_id gr) (\<lambda>i.
          seq (green_start settrace i) (\<lambda>_ y.
            case occupy_slot 0 i (gx_slots y) of
              Inl e \<Rightarrow> (Inl e, y)
            | Inr (won, slots) \<Rightarrow>
                if won then (Inr (pf_status (gx_profilers y ! i)), y\<lparr>gx_slots := slots\<rparr>) else green_none y))
          (x\<lparr>gx_current_cnt := cnt\<rparr>))"

text \<open>\<open>cstatus\<close> is the trace context's own status reference; only the value of the new one is copied into it.\<close>

definition green_recheck ::
  "(tracer option \<Rightarrow> (tracer option, 'g) op) \<Rightarrow> config \<Rightarrow> nat option \<Rightarrow> nat \<Rightarrow> string \<Rightarrow> nat \<Rightarrow> string \<Rightarrow> (unit, 'g green) op" where
  "green_recheck settrace c cstatus ctx segment_id gr op x =
     (case cstatus of
        None \<Rightarrow> (Inl AttributeError, x)
      | Some r \<Rightarrow>
          if is_being_watched r (gx_refs x) then (Inr (), x)
          else seq (green_attempt settrace c ctx segment_id gr op)
                 (\<lambda>r'. modify (\<lambda>x. x\<lparr>gx_refs := update_status r (get_status r' (gx_refs x)) (gx_refs x)\<rparr>)) x)"

section \<open>What each operation does under the documented behaviour of settrace\<close>

text \<open>\<open>greenlet.settrace(f)\<close> installs \<open>f\<close> for the thread and returns what was installed before.\<close>

definition settrace_law :: "(tracer option \<Rightarrow> (tracer option, 'g) op) \<Rightarrow> ('g \<Rightarrow> tracer option) \<Rightarrow> bool" where
  "settrace_law settrace gettrace = (\<forall>f g. \<exists>g'. settrace f g = (Inr (gettrace g), g') \<and> gettrace g' = f)"

lemma run_settrace_result:
  assumes "settrace_law st gt"
  obtains g where "run_settrace st f x = (Inr (gt (gx_runtime x)), x\<lparr>gx_runtime := g\<rparr>)" and "gt g = f"
proof -
  from assms obtain g where "st f (gx_runtime x) = (Inr (gt (gx_runtime x)), g)" "gt g = f"
    unfolding settrace_law_def by blast
  then show ?thesis by (intro that [of g]) (simp_all add: run_settrace_def)
qed

lemma green_stop_result:
  assumes "settrace_law st gt" and "gl_old_trace (gx_profilers x ! i) = Some old"
  obtains g where "green_stop st i x
      = (Inr (), x\<lparr>gx_runtime := g, gx_refs := update_status (pf_status (gx_profilers x ! i)) STOPPED (gx_refs x)\<rparr>)"
    and "gt g = old"
proof -
  obtain g where "run_settrace st old x = (Inr (gt (gx_runtime x)), x\<lparr>gx_runtime := g\<rparr>)" "gt g = old"
    using run_settrace_result [OF assms(1)] by blast
  with assms(2) show ?thesis
    by (intro that [of g]) (simp_all add: green_stop_def seq_def set_status_def modify_def)
qed

lemma green_start_result:
  assumes "settrace_law st gt"
  obtains g where "green_start st i x
      = (Inr (), x\<lparr>gx_refs := update_status (pf_status (gx_profilers x ! i)) PROFILING (gx_refs x), gx_runtime := g,
           gx_profilers := (gx_profilers x)[i := (gx_profilers x ! i)\<lparr>gl_old_trace := Some (gt (gx_runtime x))\<rparr>]\<rparr>)"
    and "gt g = Some (Callback i)"
proof -
  let ?x = "x\<lparr>gx_refs := update_status (pf_status (gx_profilers x ! i)) PROFILING (gx_refs x)\<rparr>"
  obtain g where "run_settrace st (Some (Callback i)) ?x = (Inr (gt (gx_runtime ?x)), ?x\<lparr>gx_runtime := g\<rparr>)"
    "gt g = Some (Callback i)"
    using run_settrace_result [OF assms] by blast
  then show ?thesis
    by (intro that [of g]) (simp_all add: green_start_def seq_def set_status_def modify_def)
qed

lemma occupy_slot_first:
  assumes "arr_ok a" and "0 \<le> idx" and "k < length (arr_items a)" and "arr_items a ! k = None" and "nat idx \<le> k"
    and "\<And>j. nat idx \<le> j \<Longrightarrow> j < k \<Longrightarrow> arr_items a ! j \<noteq> None"
  shows "occupy_slot idx p a = Inr (True, a\<lparr>arr_items := (arr_items a)[k := Some p]\<rparr>)"
  using assms
proof (induction idx p a rule: occupy_slot.induct)
  case (1 idx p a)
  have lt: "idx < arr_length a" using 1(2,3,4,6) by (simp add: arr_ok_def)
  show ?case
  proof (cases "nat idx = k")
    case True
    with 1(3,5) lt show ?thesis
      by (subst occupy_slot.simps) (simp add: AtomicArray_compare_and_set_def AtomicArray_length_def)
  next
    case False
    with 1(6,7) have busy: "arr_items a ! nat idx \<noteq> None" by simp
    have "occupy_slot (idx + 1) p a = Inr (True, a\<lparr>arr_items := (arr_items a)[k := Some p]\<rparr>)"
    proof (rule 1(1) [of False])
      show "\<not> AtomicArray_length a \<le> idx" using lt by (simp add: AtomicArray_length_def)
      show "nat (idx + 1) \<le> k" using False 1(3,6) by linarith
      show "arr_items a ! j \<noteq> None" if "nat (idx + 1) \<le> j" "j < k" for j using 1(7) that 1(3) by simp
    qed (use 1 in simp_all)
    with busy lt 1(3) show ?thesis
      by (subst occupy_slot.simps) (auto simp: AtomicArray_compare_and_set_def AtomicArray_length_def)
  qed
qed

definition first_free :: "nat \<Rightarrow> 'p option list \<Rightarrow> bool" where
  "first_free k ps = (k < length ps \<and> ps ! k = None \<and> (\<forall>j < k. ps ! j \<noteq> None))"

lemma first_free_exists:
  assumes "occupied ps < length ps"
  obtains k where "first_free k ps"
proof -
  let ?P = "\<lambda>i. i < length ps \<and> ps ! i = None"
  have "?P (LEAST i. ?P i)" using LeastI_ex [of ?P] free_slot [OF assms] by blast
  moreover have "ps ! j \<noteq> None" if "j < (LEAST i. ?P i)" for j
    using not_less_Least [OF that] that calculation by auto
  ultimately show ?thesis using that unfolding first_free_def by blast
qed

definition started_profiler :: "config \<Rightarrow> nat \<Rightarrow> string \<Rightarrow> nat \<Rightarrow> nat \<Rightarrow> tracer option \<Rightarrow> green_profiler" where
  "started_profiler c ctx sg gr r old =
     \<lparr>pf_trace_context = ctx, pf_segment_id = sg, pf_thread = gr, pf_start_time = -1,
      pf_max_time_mills = agent_profile_duration c * 60 * 1000, pf_dump_sequence = 0, pf_status = r,
      gl_old_trace = Some old\<rparr>"

text \<open>The conditions under which a request is profiled.\<close>

definition admits_profile :: "config \<Rightarrow> string \<Rightarrow> 'g green \<Rightarrow> bool" where
  "admits_profile c op x = (AtomicRef_get (gx_current_cnt x) < agent_profile_max_parallel c
     \<and> first_span_op_name (snd (gx_task x)) = op
     \<and> AtomicRef_get (gx_total_started_cnt x) \<le> max_sampling_count (snd (gx_task x)))"

lemma green_attempt_result:
  assumes law: "settrace_law st gt" and "admits_profile c op x" and "arr_ok (gx_slots x)" and "first_free k (arr_items (gx_slots x))"
  obtains g where "green_attempt st c ctx sg gr op x
      = (Inr (length (gx_refs x)),
         x\<lparr>gx_current_cnt := (gx_current_cnt x)\<lparr>ref_var := AtomicRef_get (gx_current_cnt x) + 1\<rparr>, gx_refs := gx_refs x @ [PROFILING],
           gx_profilers := gx_profilers x @ [started_profiler c ctx sg gr (length (gx_refs x)) (gt (gx_runtime x))],
           gx_slots := (gx_slots x)\<lparr>arr_items := (arr_items (gx_slots x))[k := Some (length (gx_profilers x))]\<rparr>,
           gx_runtime := g\<rparr>)"
    and "gt g = Some (Callback (length (gx_profilers x)))"
proof -
  let ?i = "length (gx_profilers x)"
  let ?p = "(started_profiler c ctx sg gr (length (gx_refs x)) (gt (gx_runtime x)))\<lparr>gl_old_trace := None\<rparr>"
  let ?y = "x\<lparr>gx_current_cnt := (gx_current_cnt x)\<lparr>ref_var := AtomicRef_get (gx_current_cnt x) + 1\<rparr>, gx_refs := gx_refs x @ [PENDING],
    gx_profilers := gx_profilers x @ [?p]\<rparr>"
  have init: "GreenletProfiler_init c ctx sg gr (x\<lparr>gx_current_cnt := (gx_current_cnt x)\<lparr>ref_var := AtomicRef_get (gx_current_cnt x) + 1\<rparr>\<rparr>)
      = (Inr ?i, ?y)"
    by (simp add: GreenletProfiler_init_def status_defs started_profiler_def)
  obtain g where g: "green_start st ?i ?y
      = (Inr (), ?y\<lparr>gx_refs := update_status (pf_status (gx_profilers ?y ! ?i)) PROFILING (gx_refs ?y), gx_runtime := g,
           gx_profilers := (gx_profilers ?y)[?i := (gx_profilers ?y ! ?i)\<lparr>gl_old_trace := Some (gt (gx_runtime ?y))\<rparr>]\<rparr>)"
    "gt g = Some (Callback ?i)"
    using green_start_result [OF law] by blast
  have "occupy_slot 0 ?i (gx_slots x) = Inr (True, (gx_slots x)\<lparr>arr_items := (arr_items (gx_slots x))[k := Some ?i]\<rparr>)"
    using assms(3,4) by (intro occupy_slot_first) (simp_all add: first_free_def)
  with assms(2) init g show ?thesis
    by (intro that [of g])
      (simp_all add: green_attempt_def admits_profile_def AtomicRef_compare_and_set_def AtomicRef_get_def seq_def
        status_defs started_profiler_def)
qed

lemma green_attempt_refused:
  assumes "\<not> admits_profile c op x"
  shows "green_attempt st c ctx sg gr op x = (Inr (length (gx_refs x)), x\<lparr>gx_refs := gx_refs x @ [NONE]\<rparr>)"
  using assms by (auto simp: green_attempt_def admits_profile_def green_none_def status_defs Let_def)

section \<open>The invariant\<close>

definition gx_ok :: "config \<Rightarrow> 'g green \<Rightarrow> bool" where
  "gx_ok c x =
     (arr_length (gx_slots x) = agent_profile_max_parallel c
      \<and> length (arr_items (gx_slots x)) = nat (agent_profile_max_parallel c)
      \<and> ref_var (gx_current_cnt x) = int (occupied (arr_items (gx_slots x)))
      \<and> (\<forall>i. Some i \<in> set (arr_items (gx_slots x)) \<longrightarrow> i < length (gx_profilers x) \<and> gl_old_trace (gx_profilers x ! i) \<noteq> None)
      \<and> int (length (filter (\<lambda>s. ts_sequence s = 0) (gx_out x))) \<le> ref_var (gx_total_started_cnt x)
      \<and> int (length (filter (\<lambda>s. ts_sequence s = 0) (gx_out x))) \<le> max 0 (max_sampling_count (snd (gx_task x)))
      \<and> (\<forall>s \<in> set (gx_out x). length (ts_stack s) \<le> nat (agent_profile_dump_max_stack_depth c + 1)))"

lemma gx_ok_frame [simp]:
  "gx_ok c (x\<lparr>gx_runtime := g\<rparr>) = gx_ok c x" "gx_ok c (x\<lparr>gx_refs := h\<rparr>) = gx_ok c x"
  "gx_ok c (x\<lparr>gx_current := b\<rparr>) = gx_ok c x" "gx_ok c (x\<lparr>gx_task_list := ts\<rparr>) = gx_ok c x"
  "gx_ok c (x\<lparr>gx_notified := ns\<rparr>) = gx_ok c x"
  by (simp_all add: gx_ok_def)

lemma gx_ok_started: "gx_ok c (green_started c t ts h g)"
  by (simp add: gx_ok_def green_started_def AtomicArray_init_def AtomicRef_init_def occupied_def)

lemma gx_ok_slots: "gx_ok c x \<Longrightarrow> 0 < agent_profile_max_parallel c \<Longrightarrow> arr_ok (gx_slots x)"
  by (simp add: gx_ok_def arr_ok_def)

lemma slot_update_member: "Some i \<in> set (ps[k := q]) \<Longrightarrow> q = Some i \<or> Some i \<in> set ps"
  using subsetD [OF set_update_subset_insert, of "Some i" ps k q] by blast

lemma green_attempt_ok:
  assumes law: "settrace_law st gt" and ok: "gx_ok c x"
  shows "gx_ok c (snd (green_attempt st c ctx sg gr op x))"
proof (cases "admits_profile c op x")
  case True
  then have pos: "0 < agent_profile_max_parallel c" "occupied (arr_items (gx_slots x)) < length (arr_items (gx_slots x))"
    using ok by (auto simp: gx_ok_def admits_profile_def AtomicRef_get_def)
  from first_free_exists [OF pos(2)] obtain k where k: "first_free k (arr_items (gx_slots x))" .
  from green_attempt_result [OF law True gx_ok_slots [OF ok pos(1)] k, of ctx sg gr] obtain g where
    r: "snd (green_attempt st c ctx sg gr op x) = x\<lparr>gx_current_cnt := (gx_current_cnt x)\<lparr>ref_var := AtomicRef_get (gx_current_cnt x) + 1\<rparr>,
           gx_refs := gx_refs x @ [PROFILING],
           gx_profilers := gx_profilers x @ [started_profiler c ctx sg gr (length (gx_refs x)) (gt (gx_runtime x))],
           gx_slots := (gx_slots x)\<lparr>arr_items := (arr_items (gx_slots x))[k := Some (length (gx_profilers x))]\<rparr>,
           gx_runtime := g\<rparr>" by (metis snd_conv)
  have "occupied ((arr_items (gx_slots x))[k := Some (length (gx_profilers x))]) = Suc (occupied (arr_items (gx_slots x)))"
    using k by (simp add: first_free_def occupied_set)
  moreover have "i < Suc (length (gx_profilers x))
      \<and> gl_old_trace ((gx_profilers x @ [started_profiler c ctx sg gr (length (gx_refs x)) (gt (gx_runtime x))]) ! i) \<noteq> None"
    if "Some i \<in> set ((arr_items (gx_slots x))[k := Some (length (gx_profilers x))])" for i
    using slot_update_member [OF that] ok by (auto simp: gx_ok_def nth_append started_profiler_def)
  ultimately show ?thesis unfolding r using ok by (simp add: gx_ok_def AtomicRef_get_def)
next
  case False
  with ok show ?thesis by (simp add: green_attempt_refused)
qed

lemma green_recheck_ok:
  assumes "settrace_law st gt" and "gx_ok c x"
  shows "gx_ok c (snd (green_recheck st c cs ctx sg gr op x))"
  using assms(2) green_attempt_ok [OF assms, of ctx sg gr op]
  by (auto simp: green_recheck_def seq_def modify_def split: option.split prod.split sum.split)

text \<open>The trace function that is left when the profilers of a list of slots have been stopped one after the other.\<close>

fun left_tracer :: "green_profiler list \<Rightarrow> tracer option \<Rightarrow> nat option list \<Rightarrow> tracer option" where
  "left_tracer heap f [] = f"
| "left_tracer heap f (None # ps) = left_tracer heap f ps"
| "left_tracer heap f (Some i # ps) = left_tracer heap (the (gl_old_trace (heap ! i))) ps"

lemma left_tracer_free [simp]: "left_tracer heap f (replicate n None) = f"
  by (induction n) simp_all

lemma green_stop_each_result:
  assumes law: "settrace_law st gt" and "\<forall>i. Some i \<in> set ps \<longrightarrow> gl_old_trace (gx_profilers x ! i) \<noteq> None"
  shows "\<exists>g h. green_stop_each st ps x = (Inr (), x\<lparr>gx_runtime := g, gx_refs := h\<rparr>)
     \<and> gt g = left_tracer (gx_profilers x) (gt (gx_runtime x)) ps"
  using assms(2)
proof (induction ps arbitrary: x)
  case Nil
  show ?case by (intro exI [of _ "gx_runtime x"] exI [of _ "gx_refs x"]) (simp add: ret_def)
next
  case (Cons p ps)
  show ?case
  proof (cases p)
    case None
    with Cons show ?thesis by simp
  next
    case (Some i)
    then obtain old where old: "gl_old_trace (gx_profilers x ! i) = Some old" using Cons.prems by fastforce
    from green_stop_result [OF law old] obtain g where
      s: "green_stop st i x = (Inr (), x\<lparr>gx_runtime := g, gx_refs := update_status (pf_status (gx_profilers x ! i)) STOPPED (gx_refs x)\<rparr>)"
        (is "_ = (_, ?y)") and g: "gt g = old" by blast
    from Cons.prems have "\<forall>i. Some i \<in> set ps \<longrightarrow> gl_old_trace (gx_profilers ?y ! i) \<noteq> None" by simp
    from Cons.IH [OF this] obtain g' h where
      r: "green_stop_each st ps ?y = (Inr (), ?y\<lparr>gx_runtime := g', gx_refs := h\<rparr>)"
      and g': "gt g' = left_tracer (gx_profilers ?y) (gt (gx_runtime ?y)) ps" by blast
    have y: "?y\<lparr>gx_runtime := g', gx_refs := h\<rparr> = x\<lparr>gx_runtime := g', gx_refs := h\<rparr>" "gx_profilers ?y = gx_profilers x"
      "gx_runtime ?y = g" by simp_all
    have "green_stop_each st (p # ps) x = (Inr (), x\<lparr>gx_runtime := g', gx_refs := h\<rparr>)"
      using s r y(1) Some by (simp add: seq_def)
    with g' g old y(2,3) Some show ?thesis by auto
  qed
qed

lemma green_stop_current_ok:
  assumes law: "settrace_law st gt" and ok: "gx_ok c x"
  shows "gx_ok c (snd (green_stop_current st x))"
proof (cases "gx_current x")
  case True
  have "\<forall>i. Some i \<in> set (arr_items (gx_slots x)) \<longrightarrow> gl_old_trace (gx_profilers (x\<lparr>gx_current := False\<rparr>) ! i) \<noteq> None"
    using ok by (simp add: gx_ok_def)
  from green_stop_each_result [OF law this] obtain g h where
    "green_stop_each st (arr_items (gx_slots x)) (x\<lparr>gx_current := False\<rparr>)
       = (Inr (), x\<lparr>gx_current := False, gx_runtime := g, gx_refs := h\<rparr>)" by auto
  with True ok show ?thesis
    by (simp add: green_stop_current_def green_stop_profiling_def seq_def modify_def)
qed (simp add: green_stop_current_def ok)

lemma green_stop_tracing_result:
  assumes law: "settrace_law st gt" and ok: "gx_ok c x"
    and found: "find_profiler ctx 0 (map (map_option ((!) (gx_profilers x))) (arr_items (gx_slots x))) = Some k"
  obtains i old g where "k < length (arr_items (gx_slots x))" and "arr_items (gx_slots x) ! k = Some i"
    and "pf_trace_context (gx_profilers x ! i) = ctx" and "gl_old_trace (gx_profilers x ! i) = Some old" and "gt g = old"
    and "green_stop_tracing st ctx x = (Inr (),
      x\<lparr>gx_slots := (gx_slots x)\<lparr>arr_items := (arr_items (gx_slots x))[k := None]\<rparr>, gx_runtime := g,
        gx_refs := update_status (pf_status (gx_profilers x ! i)) STOPPED (gx_refs x),
        gx_current_cnt := (gx_current_cnt x)\<lparr>ref_var := ref_var (gx_current_cnt x) - 1\<rparr>\<rparr>)"
proof -
  from find_profiler_sound [OF found] have k: "k < length (arr_items (gx_slots x))"
    "\<exists>i. arr_items (gx_slots x) ! k = Some i \<and> pf_trace_context (gx_profilers x ! i) = ctx" by auto
  then obtain i where i: "arr_items (gx_slots x) ! k = Some i" "pf_trace_context (gx_profilers x ! i) = ctx" by blast
  with k(1) have "Some i \<in> set (arr_items (gx_slots x))" by (metis nth_mem)
  with ok obtain old where old: "gl_old_trace (gx_profilers x ! i) = Some old" by (auto simp: gx_ok_def)
  let ?y = "x\<lparr>gx_slots := (gx_slots x)\<lparr>arr_items := (arr_items (gx_slots x))[k := None]\<rparr>\<rparr>"
  from green_stop_result [OF law, of ?y i old] old obtain g where
    "green_stop st i ?y = (Inr (), ?y\<lparr>gx_runtime := g, gx_refs := update_status (pf_status (gx_profilers x ! i)) STOPPED (gx_refs x)\<rparr>)"
    "gt g = old" by auto
  moreover have "int k < agent_profile_max_parallel c" using k(1) ok by (simp add: gx_ok_def)
  ultimately show ?thesis using k(1) i old found ok
    by (intro that [of i old g])
      (simp_all add: green_stop_tracing_def AtomicArray_set_def AtomicArray_length_def seq_def modify_def
        AtomicInteger_add_and_get_def Let_def gx_ok_def)
qed

lemma green_stop_tracing_ok:
  assumes law: "settrace_law st gt" and ok: "gx_ok c x"
  shows "gx_ok c (snd (green_stop_tracing st ctx x))"
proof (cases "find_profiler ctx 0 (map (map_option ((!) (gx_profilers x))) (arr_items (gx_slots x)))")
  case None
  with ok show ?thesis by (simp add: green_stop_tracing_def)
next
  case (Some k)
  from green_stop_tracing_result [OF law ok Some] obtain i g where k: "k < length (arr_items (gx_slots x))"
    "arr_items (gx_slots x) ! k = Some i" and
    r: "snd (green_stop_tracing st ctx x) =
      x\<lparr>gx_slots := (gx_slots x)\<lparr>arr_items := (arr_items (gx_slots x))[k := None]\<rparr>, gx_runtime := g,
        gx_refs := update_status (pf_status (gx_profilers x ! i)) STOPPED (gx_refs x),
        gx_current_cnt := (gx_current_cnt x)\<lparr>ref_var := ref_var (gx_current_cnt x) - 1\<rparr>\<rparr>" by (metis snd_conv)
  from occupied_clear [OF k(1)] k(2)
  have "int (occupied ((arr_items (gx_slots x))[k := None])) = int (occupied (arr_items (gx_slots x))) - 1" by simp
  then show ?thesis unfolding r using ok slot_update_member by (fastforce simp: gx_ok_def)
qed

lemma old_trace_of_dumped [simp]:
  "gl_old_trace (ps[i := (ps ! i)\<lparr>pf_dump_sequence := n\<rparr>] ! j) = gl_old_trace (ps ! j)"
  by (cases "i < length ps"; cases "i = j") (simp_all add: list_update_beyond)

text \<open>A snapshot that \<open>build_snapshot\<close> returns may be handed over: the state that includes it is in order.\<close>

lemma green_build_snapshot_ok:
  assumes "gx_ok c x" and "green_build_snapshot c s i x = (r, y)"
  shows "gx_ok c y \<and> (\<forall>t. r = Inr (Some t) \<longrightarrow> gx_ok c (y\<lparr>gx_out := gx_out y @ [t]\<rparr>))"
proof (cases "sw_stack s")
  case (Inl e)
  with assms show ?thesis by (auto simp: green_build_snapshot_def seq_def lift_res_def)
next
  case (Inr frames)
  let ?p = "gx_profilers x ! i"
  let ?bump = "\<lambda>z. z\<lparr>gx_profilers := (gx_profilers z)[i := ?p\<lparr>pf_dump_sequence := pf_dump_sequence ?p + 1\<rparr>]\<rparr>"
  let ?x1 = "x\<lparr>gx_total_started_cnt := (gx_total_started_cnt x)\<lparr>ref_var := ref_var (gx_total_started_cnt x) + 1\<rparr>\<rparr>"
  have bump: "gx_ok c (?bump z)" if "gx_ok c z" "gx_profilers z = gx_profilers x" for z
    using that by (simp add: gx_ok_def)
  have ok1: "gx_ok c ?x1" using assms(1) by (simp add: gx_ok_def)
  show ?thesis
  proof (cases "pf_dump_sequence ?p = 0")
    case True
    with assms(2) Inr bump [OF ok1] ok1 assms(1) show ?thesis
      by (auto simp: green_build_snapshot_def seq_def lift_res_def green_is_start_profileable_def
          AtomicInteger_add_and_get_def Let_def split: if_splits) (auto simp: gx_ok_def)
  next
    case False
    with assms(2) Inr bump [OF assms(1)] show ?thesis
      by (auto simp: green_build_snapshot_def seq_def lift_res_def Let_def) (auto simp: gx_ok_def)
  qed
qed

lemma green_dump_ok:
  assumes law: "settrace_law st gt" and ok: "gx_ok c x"
  shows "gx_ok c (snd (green_dump st c s i x))"
proof -
  obtain r y where b: "green_build_snapshot c s i x = (r, y)" by fastforce
  note o = green_build_snapshot_ok [OF ok b]
  show ?thesis
  proof (cases r)
    case (Inl e)
    with b o show ?thesis by (simp add: green_dump_def seq_def)
  next
    case (Inr t)
    with b o green_stop_tracing_ok [OF law, of c y] show ?thesis
      by (cases t; cases "sw_put s") (simp_all add: green_dump_def seq_def lift_res_def modify_def)
  qed
qed

lemma green_callback_ok:
  assumes law: "settrace_law st gt" and ok: "gx_ok c x"
  shows "gx_ok c (snd (green_callback st c s i x))"
proof -
  obtain r y where d: "green_dump st c s i x = (r, y)" by fastforce
  with green_dump_ok [OF law ok, of s i] have y: "gx_ok c y" by simp
  show ?thesis
    using d y ok green_stop_tracing_ok [OF law y, of "pf_trace_context (gx_profilers y ! i)"]
    by (cases r) (auto simp: green_callback_def seq_def ret_def raise_err_def split: prod.split sum.split)
qed

datatype green_event = GrAttempt | GrRecheck | GrStopTracing | GrSwitch switch | GrStopTask | GrForeign

text \<open>What the greenlets of the application and the service do to one execution context, in any order; a callback runs only
  while it is installed, and others may install trace functions too.\<close>

inductive green_step :: "(tracer option \<Rightarrow> (tracer option, 'g) op) \<Rightarrow> ('g \<Rightarrow> tracer option) \<Rightarrow> config
    \<Rightarrow> 'g green \<Rightarrow> green_event \<Rightarrow> 'g green \<Rightarrow> bool" for st gt c where
  gr_attempt: "green_attempt st c ctx sg gr op x = (r, y) \<Longrightarrow> green_step st gt c x GrAttempt y"
| gr_recheck: "green_recheck st c cs ctx sg gr op x = (r, y) \<Longrightarrow> green_step st gt c x GrRecheck y"
| gr_stop: "green_stop_tracing st ctx x = (r, y) \<Longrightarrow> green_step st gt c x GrStopTracing y"
| gr_switch: "gt (gx_runtime x) = Some (Callback i) \<Longrightarrow> green_callback st c s i x = (r, y)
    \<Longrightarrow> green_step st gt c x (GrSwitch s) y"
| gr_stop_task: "green_stop_current st x = (r, y) \<Longrightarrow> green_step st gt c x GrStopTask y"
| gr_foreign: "green_step st gt c x GrForeign (x\<lparr>gx_runtime := g\<rparr>)"

lemma green_step_ok:
  assumes "green_step st gt c x e y" and "settrace_law st gt" and "gx_ok c x"
  shows "gx_ok c y"
  using assms
proof (cases rule: green_step.cases)
  case (gr_attempt ctx sg gr op r)
  with green_attempt_ok [OF assms(2,3)] show ?thesis by (metis snd_conv)
next
  case (gr_recheck cs ctx sg gr op r)
  with green_recheck_ok [OF assms(2,3)] show ?thesis by (metis snd_conv)
next
  case (gr_stop ctx r)
  with green_stop_tracing_ok [OF assms(2,3)] show ?thesis by (metis snd_conv)
next
  case (gr_switch i s r)
  with green_callback_ok [OF assms(2,3)] show ?thesis by (metis snd_conv)
next
  case (gr_stop_task r)
  with green_stop_current_ok [OF assms(2,3)] show ?thesis by (metis snd_conv)
qed simp

interpretation greenlets: machine "\<lambda>x. settrace_law st gt \<and> (\<exists>t ts h g. x = green_started c t ts h g)"
  "green_step st gt c" "\<lambda>x. settrace_law st gt \<and> gx_ok c x" for st gt c
  by unfold_locales (auto simp: gx_ok_started intro: green_step_ok)

section \<open>One profile, and overlapping profiles\<close>

theorem greenlet_profiling_bounds:
  assumes "greenlets.reach st gt c x"
  shows "ref_var (gx_current_cnt x) = int (occupied (arr_items (gx_slots x)))"
    and "occupied (arr_items (gx_slots x)) \<le> nat (agent_profile_max_parallel c)"
    and "int (length (filter (\<lambda>s. ts_sequence s = 0) (gx_out x))) \<le> max 0 (max_sampling_count (snd (gx_task x)))"
    and "\<forall>s \<in> set (gx_out x). length (ts_stack s) \<le> nat (agent_profile_dump_max_stack_depth c + 1)"
  using greenlets.reach_inv [OF assms] occupied_le [of "arr_items (gx_slots x)"] by (auto simp: gx_ok_def)

lemma find_profiler_placed:
  "find_profiler ctx n ps = None \<Longrightarrow> k < length ps \<Longrightarrow> pf_trace_context p = ctx
     \<Longrightarrow> find_profiler ctx n (ps[k := Some p]) = Some (n + k)"
proof (induction ctx n ps arbitrary: k rule: find_profiler.induct)
  case (2 ctx i ps)
  then show ?case by (cases k) simp_all
next
  case (3 ctx i q ps)
  then show ?case by (cases k) (auto split: if_splits)
qed simp

lemma slots_with_new_profiler:
  assumes "\<forall>i. Some i \<in> set ps \<longrightarrow> i < length heap"
  shows "map (map_option ((!) (heap @ [p]))) (ps[k := Some (length heap)]) = (map (map_option ((!) heap)) ps)[k := Some p]"
proof -
  have "map (map_option ((!) (heap @ [p]))) ps = map (map_option ((!) heap)) ps"
    using assms by (intro map_cong refl option.map_cong) (auto simp: nth_append)
  then have "(map (map_option ((!) (heap @ [p]))) ps)[k := Some p] = (map (map_option ((!) heap)) ps)[k := Some p]"
    by (rule arg_cong)
  then show ?thesis by (simp add: map_update)
qed

text \<open>One profile by itself cleans up after itself: its callback is installed while it runs, and when the request ends
  the previous trace function, the slots and the count are as before, and the status that the trace holds is STOPPED.\<close>

theorem greenlet_profile_restores_tracer:
  assumes reach: "greenlets.reach st gt c x" and adm: "admits_profile c op x"
    and new: "find_profiler ctx 0 (map (map_option ((!) (gx_profilers x))) (arr_items (gx_slots x))) = None"
  shows "\<exists>r y z. green_attempt st c ctx sg gr op x = (Inr r, y)
     \<and> gt (gx_runtime y) = Some (Callback (length (gx_profilers x))) \<and> get_status r (gx_refs y) = PROFILING
     \<and> green_stop_tracing st ctx y = (Inr (), z) \<and> gt (gx_runtime z) = gt (gx_runtime x)
     \<and> get_status r (gx_refs z) = STOPPED \<and> gx_slots z = gx_slots x \<and> gx_current_cnt z = gx_current_cnt x"
proof -
  have law: "settrace_law st gt" and ok: "gx_ok c x" using greenlets.reach_inv [OF reach] by simp_all
  let ?i = "length (gx_profilers x)" and ?slots = "arr_items (gx_slots x)"
  let ?p = "started_profiler c ctx sg gr (length (gx_refs x)) (gt (gx_runtime x))"
  have pos: "0 < agent_profile_max_parallel c" "occupied ?slots < length ?slots"
    using ok adm by (auto simp: gx_ok_def admits_profile_def AtomicRef_get_def)
  from first_free_exists [OF pos(2)] obtain k where k: "first_free k ?slots" .
  from green_attempt_result [OF law adm gx_ok_slots [OF ok pos(1)] k, of ctx sg gr] obtain g where
    a: "green_attempt st c ctx sg gr op x = (Inr (length (gx_refs x)),
         x\<lparr>gx_current_cnt := (gx_current_cnt x)\<lparr>ref_var := AtomicRef_get (gx_current_cnt x) + 1\<rparr>,
           gx_refs := gx_refs x @ [PROFILING], gx_profilers := gx_profilers x @ [?p],
           gx_slots := (gx_slots x)\<lparr>arr_items := ?slots[k := Some ?i]\<rparr>, gx_runtime := g\<rparr>)"
      (is "_ = (_, ?y)") and g: "gt g = Some (Callback ?i)" .
  have y: "gx_ok c ?y" using green_attempt_ok [OF law ok, of ctx sg gr op] a by simp
  have "\<forall>i. Some i \<in> set ?slots \<longrightarrow> i < length (gx_profilers x)" using ok by (simp add: gx_ok_def)
  from slots_with_new_profiler [OF this, of ?p k]
  have found: "find_profiler ctx 0 (map (map_option ((!) (gx_profilers ?y))) (arr_items (gx_slots ?y))) = Some k"
    using find_profiler_placed [OF new, of k ?p] k by (simp add: first_free_def started_profiler_def)
  from green_stop_tracing_result [OF law y found] obtain i old g' where
    s: "arr_items (gx_slots ?y) ! k = Some i" "gl_old_trace (gx_profilers ?y ! i) = Some old" "gt g' = old"
    "green_stop_tracing st ctx ?y = (Inr (),
      ?y\<lparr>gx_slots := (gx_slots ?y)\<lparr>arr_items := (arr_items (gx_slots ?y))[k := None]\<rparr>, gx_runtime := g',
        gx_refs := update_status (pf_status (gx_profilers ?y ! i)) STOPPED (gx_refs ?y),
        gx_current_cnt := (gx_current_cnt ?y)\<lparr>ref_var := ref_var (gx_current_cnt ?y) - 1\<rparr>\<rparr>)" by blast
  have i: "i = ?i" using s(1) k by (simp add: first_free_def)
  have same: "?slots[k := None] = ?slots" using k by (metis first_free_def list_update_id)
  show ?thesis
    using a g s(2-4) i same by (simp add: status_defs started_profiler_def AtomicRef_get_def)
qed

text \<open>Two overlapping profiles: the second callback has replaced the first one, and the end of the task restores in slot order.\<close>

lemma two_profiles:
  fixes st :: "tracer option \<Rightarrow> (tracer option, 'g) op"
  assumes law: "settrace_law st gt" and par: "1 < agent_profile_max_parallel c" and "0 \<le> max_sampling_count (snd t)"
    and op: "first_span_op_name (snd t) = op"
    and a: "green_attempt st c ctx1 sg1 gr1 op (green_started c t ts h g) = (r1, x1)"
    and b: "green_attempt st c ctx2 sg2 gr2 op x1 = (r2, x2)"
  shows "gx_task x2 = t \<and> gx_current x2 \<and> gx_notified x2 = [] \<and> gx_out x2 = [] \<and> gx_task_list x2 = ts
     \<and> ref_var (gx_total_started_cnt x2) = 0
     \<and> arr_items (gx_slots x2) = Some 0 # Some 1 # replicate (nat (agent_profile_max_parallel c) - 2) None
     \<and> gx_profilers x2 = [started_profiler c ctx1 sg1 gr1 (length h) (gt g),
          started_profiler c ctx2 sg2 gr2 (Suc (length h)) (Some (Callback 0))]"
proof -
  let ?x0 = "green_started c t ts h g" and ?n = "nat (agent_profile_max_parallel c)"
  have n: "2 \<le> ?n" and pos: "0 < agent_profile_max_parallel c" using par by simp_all
  then obtain m where m: "?n = Suc (Suc m)" using less_eqE by (metis add_2_eq_Suc)
  have ok0: "gx_ok c ?x0" by (rule gx_ok_started)
  have adm0: "admits_profile c op ?x0"
    using par assms(3) op by (simp add: admits_profile_def green_started_def AtomicRef_get_def AtomicRef_init_def)
  have slots0: "arr_items (gx_slots ?x0) = None # None # replicate m None"
    using m by (simp add: green_started_def AtomicArray_init_def)
  then have "first_free 0 (arr_items (gx_slots ?x0))" by (simp add: first_free_def)
  from green_attempt_result [OF law adm0 gx_ok_slots [OF ok0 pos] this, of ctx1 sg1 gr1] obtain g1 where
    "green_attempt st c ctx1 sg1 gr1 op ?x0 = (Inr (length (gx_refs ?x0)),
         ?x0\<lparr>gx_current_cnt := (gx_current_cnt ?x0)\<lparr>ref_var := AtomicRef_get (gx_current_cnt ?x0) + 1\<rparr>,
           gx_refs := gx_refs ?x0 @ [PROFILING],
           gx_profilers := gx_profilers ?x0 @ [started_profiler c ctx1 sg1 gr1 (length (gx_refs ?x0)) (gt (gx_runtime ?x0))],
           gx_slots := (gx_slots ?x0)\<lparr>arr_items := (arr_items (gx_slots ?x0))[0 := Some (length (gx_profilers ?x0))]\<rparr>,
           gx_runtime := g1\<rparr>)" "gt g1 = Some (Callback (length (gx_profilers ?x0)))" .
  then have x1: "gx_task x1 = t" "gx_current x1" "gx_notified x1 = []" "gx_out x1 = []" "gx_task_list x1 = ts"
    "ref_var (gx_total_started_cnt x1) = 0" "arr_items (gx_slots x1) = Some 0 # None # replicate m None"
    "gx_profilers x1 = [started_profiler c ctx1 sg1 gr1 (length h) (gt g)]" "gx_refs x1 = h @ [PROFILING]"
    "gt (gx_runtime x1) = Some (Callback 0)" "ref_var (gx_current_cnt x1) = 1"
    using a slots0 by (auto simp: green_started_def AtomicRef_init_def AtomicRef_get_def)
  have ok1: "gx_ok c x1" using green_attempt_ok [OF law ok0, of ctx1 sg1 gr1 op] a by simp
  have adm1: "admits_profile c op x1" using x1 par assms(3) op by (simp add: admits_profile_def AtomicRef_get_def)
  have "first_free 1 (arr_items (gx_slots x1))" by (simp add: x1(7) first_free_def)
  from green_attempt_result [OF law adm1 gx_ok_slots [OF ok1 pos] this, of ctx2 sg2 gr2] obtain g2 where
    "green_attempt st c ctx2 sg2 gr2 op x1 = (Inr (length (gx_refs x1)),
         x1\<lparr>gx_current_cnt := (gx_current_cnt x1)\<lparr>ref_var := AtomicRef_get (gx_current_cnt x1) + 1\<rparr>,
           gx_refs := gx_refs x1 @ [PROFILING],
           gx_profilers := gx_profilers x1 @ [started_profiler c ctx2 sg2 gr2 (length (gx_refs x1)) (gt (gx_runtime x1))],
           gx_slots := (gx_slots x1)\<lparr>arr_items := (arr_items (gx_slots x1))[1 := Some (length (gx_profilers x1))]\<rparr>,
           gx_runtime := g2\<rparr>)" by blast
  with b x1 m show ?thesis by auto
qed


text \<open>A runtime that is nothing but the installed trace function.\<close>

definition cell_settrace :: "tracer option \<Rightarrow> (tracer option, tracer option) op" where
  "cell_settrace f g = (Inr g, f)"

lemma cell_settrace_law: "settrace_law cell_settrace (\<lambda>g. g)"
  by (simp add: settrace_law_def cell_settrace_def)

definition sample_first :: "config \<Rightarrow> tracer option green" where
  "sample_first c = snd (green_attempt cell_settrace c 7 ''seg-a'' 1 ''/a'' (green_started c sample_task [sample_task] [] None))"

definition sample_second :: "config \<Rightarrow> tracer option green" where
  "sample_second c = snd (green_attempt cell_settrace c 8 ''seg-b'' 2 ''/a'' (sample_first c))"

definition sample_ended :: "config \<Rightarrow> tracer option green" where
  "sample_ended c = snd (green_stop_current cell_settrace (sample_second c))"

definition sample_switch :: switch where
  "sample_switch = \<lparr>sw_origin = 0, sw_target = 1, sw_stack = Inr [''app.py.view: 3''], sw_now = 9, sw_put = Inr ()\<rparr>"


end
