(* ===== verification/KafkaAio.thy ===== *)
theory KafkaAio
  imports Wire Clients
begin

text \<open>
  The services of \<open>skywalking/client/kafka_aio.py\<close>.  A producer of aiokafka cannot be started in a constructor, so each
  coroutine of a service first starts it on demand: it reads an event, awaits \<open>producer.start()\<close> and sets the event.

  A coroutine is the list of what it still has to do, cut where it may be suspended; the coroutines of one service share
  the producer and the event, and the loop resumes any of them.  The producer is what the code uses of it: the calls of
  \<open>start\<close>, by coroutine, and the messages handed to \<open>send_and_wait\<close>; whether an awaited call returns or raises is up to
  the environment.  A message is a topic, a key and a value.
\<close>

datatype ('l, 'm) payload =
    PropsOf "(string \<times> string) list"
  | PingOf
  | SegmentOf segment_object
  | LogOf 'l
  | MeterOf "'m list"

type_synonym ('l, 'm) kafka_out = "string \<times> string \<times> ('l, 'm) payload"

datatype ('l, 'm) act =
    Ensure
  | AwaitStart
  | Refresh "('l, 'm) kafka_out"
  | SendAndWait "('l, 'm) kafka_out"
  | AwaitAck

record ('l, 'm) kafka_service =
  kp_event :: bool
  kp_starts :: "nat list"
  kp_counter :: int
  kp_handed :: "(nat \<times> ('l, 'm) kafka_out) list"
  kp_failed :: "(nat \<times> py_error) list"
  kp_tasks :: "('l, 'm) act list list"

section \<open>The coroutines\<close>

definition props_message :: "config \<Rightarrow> (string \<times> string) list \<Rightarrow> ('l, 'm) kafka_out" where
  "props_message c props = (kafka_topic_management c, ''register-'' @ agent_instance_name c, PropsOf props)"

definition aio_send_instance_props :: "config \<Rightarrow> (string \<times> string) list \<Rightarrow> ('l, 'm) act list" where
  "aio_send_instance_props c props = [Ensure, SendAndWait (props_message c props)]"

definition aio_send_heart_beat :: "config \<Rightarrow> (string \<times> string) list \<Rightarrow> ('l, 'm) act list" where
  "aio_send_heart_beat c props =
     [Ensure, Refresh (props_message c props),
      SendAndWait (kafka_topic_management c, agent_instance_name c, PingOf)]"

definition aio_segment_report :: "config \<Rightarrow> segment_object list \<Rightarrow> ('l, 'm) act list" where
  "aio_segment_report c segments =
     Ensure # map (\<lambda>s. SendAndWait (kafka_topic_segment c, go_traceSegmentId s, SegmentOf s)) segments"

text \<open>\<open>segment_of\<close> reads \<open>log_data.traceContext.traceSegmentId\<close>.\<close>

definition aio_log_report :: "config \<Rightarrow> ('l \<Rightarrow> string) \<Rightarrow> 'l list \<Rightarrow> ('l, 'm) act list" where
  "aio_log_report c segment_of logs = Ensure # map (\<lambda>d. SendAndWait (kafka_topic_log c, segment_of d, LogOf d)) logs"

definition aio_meter_report :: "config \<Rightarrow> 'm list \<Rightarrow> ('l, 'm) act list" where
  "aio_meter_report c data = [Ensure, SendAndWait (kafka_topic_meter c, agent_instance_name c, MeterOf data)]"

section \<open>The services\<close>

definition KafkaService_init :: "('l, 'm) kafka_service" where
  "KafkaService_init = \<lparr>kp_event = False, kp_starts = [], kp_counter = 0, kp_handed = [], kp_failed = [], kp_tasks = []\<rparr>"

definition spawn :: "('l, 'm) act list \<Rightarrow> ('l, 'm) kafka_service \<Rightarrow> ('l, 'm) kafka_service" where
  "spawn prog s = s\<lparr>kp_tasks := kp_tasks s @ [prog]\<rparr>"

text \<open>The constructor of the management client schedules the properties at once.\<close>

definition KafkaServiceManagementClientAsync_init :: "config \<Rightarrow> (string \<times> string) list \<Rightarrow> ('l, 'm) kafka_service" where
  "KafkaServiceManagementClientAsync_init c props = spawn (aio_send_instance_props c props) KafkaService_init"

definition go_on :: "nat \<Rightarrow> ('l, 'm) act list \<Rightarrow> ('l, 'm) kafka_service \<Rightarrow> ('l, 'm) kafka_service" where
  "go_on i k s = s\<lparr>kp_tasks := (kp_tasks s)[i := k]\<rparr>"

definition fail_with :: "nat \<Rightarrow> py_error \<Rightarrow> ('l, 'm) kafka_service \<Rightarrow> ('l, 'm) kafka_service" where
  "fail_with i e s = s\<lparr>kp_tasks := (kp_tasks s)[i := []], kp_failed := kp_failed s @ [(i, e)]\<rparr>"

text \<open>The loop resumes coroutine \<open>i\<close>; \<open>out\<close> is the exception of the call that it awaits, if any.\<close>

definition resume :: "config \<Rightarrow> nat \<Rightarrow> py_error option \<Rightarrow> ('l, 'm) kafka_service \<Rightarrow> ('l, 'm) kafka_service" where
  "resume c i out s =
     (case kp_tasks s ! i of
        [] \<Rightarrow> s
      | Ensure # k \<Rightarrow>
          if kp_event s then go_on i k s else go_on i (AwaitStart # k) (s\<lparr>kp_starts := kp_starts s @ [i]\<rparr>)
      | AwaitStart # k \<Rightarrow>
          (case out of None \<Rightarrow> go_on i k (s\<lparr>kp_event := True\<rparr>) | Some e \<Rightarrow> fail_with i e s)
      | Refresh m # k \<Rightarrow>
          (let s' = s\<lparr>kp_counter := kp_counter s + 1\<rparr>; n = agent_collector_properties_report_period_factor c
           in if n = 0 then fail_with i ZeroDivisionError s'
              else if kp_counter s' mod n = 0 then go_on i (Ensure # SendAndWait m # k) s'
              else go_on i k s')
      | SendAndWait m # k \<Rightarrow> go_on i (AwaitAck # k) (s\<lparr>kp_handed := kp_handed s @ [(i, m)]\<rparr>)
      | AwaitAck # k \<Rightarrow> (case out of None \<Rightarrow> go_on i k s | Some e \<Rightarrow> fail_with i e s))"

datatype ('l, 'm) kafka_event = Spawned "('l, 'm) act list" | Resumed nat

text \<open>Every coroutine of a service begins with the check of the event.\<close>

inductive kafka_step ::
  "config \<Rightarrow> ('l, 'm) kafka_service \<Rightarrow> ('l, 'm) kafka_event \<Rightarrow> ('l, 'm) kafka_service \<Rightarrow> bool" for c where
  kp_spawn: "AwaitStart \<notin> set k \<Longrightarrow> kafka_step c s (Spawned (Ensure # k)) (spawn (Ensure # k) s)"
| kp_resume: "i < length (kp_tasks s) \<Longrightarrow> kafka_step c s (Resumed i) (resume c i out s)"

section \<open>The producer is started before it is used\<close>

text \<open>A coroutine that may hand over a message next does so after the event has been set.\<close>

fun guarded :: "('l, 'm) act list \<Rightarrow> bool" where
  "guarded [] = True"
| "guarded (Ensure # _) = True"
| "guarded (AwaitStart # _) = True"
| "guarded _ = False"

definition starting :: "('l, 'm) act list \<Rightarrow> bool" where
  "starting k = (case k of AwaitStart # _ \<Rightarrow> True | _ \<Rightarrow> False)"

lemma starting_simps [simp]:
  "\<not> starting []" "starting (AwaitStart # k)" "a \<noteq> AwaitStart \<Longrightarrow> \<not> starting (a # k)"
  by (simp_all add: starting_def split: act.split)

definition task_ok :: "bool \<Rightarrow> nat set \<Rightarrow> nat \<Rightarrow> ('l, 'm) act list \<Rightarrow> bool" where
  "task_ok ev starts j k =
     (AwaitStart \<notin> set (tl k) \<and> (starting k \<longrightarrow> j \<in> starts)
      \<and> (\<not> ev \<longrightarrow> guarded k \<and> (j \<in> starts \<longrightarrow> k = [] \<or> starting k)))"

definition service_started_ok :: "('l, 'm) kafka_service \<Rightarrow> bool" where
  "service_started_ok s =
     ((kp_event s \<longrightarrow> kp_starts s \<noteq> []) \<and> (kp_handed s \<noteq> [] \<longrightarrow> kp_event s)
      \<and> distinct (kp_starts s) \<and> set (kp_starts s) \<subseteq> {..<length (kp_tasks s)}
      \<and> (\<forall>j < length (kp_tasks s). task_ok (kp_event s) (set (kp_starts s)) j (kp_tasks s ! j)))"

text \<open>Once the event is set it stays set, so what a coroutine has checked remains true while it is suspended.\<close>

lemma task_ok_later: "task_ok ev S j k \<Longrightarrow> (ev \<Longrightarrow> ev') \<Longrightarrow> S' = S \<or> S' = insert i S \<Longrightarrow> i \<noteq> j \<Longrightarrow> task_ok ev' S' j k"
  by (auto simp: task_ok_def)

lemma service_ok_go_on:
  assumes ok: "service_started_ok s" and "i < length (kp_tasks s)"
    and s': "kp_tasks s' = (kp_tasks s)[i := k]" "kp_event s \<Longrightarrow> kp_event s'" "kp_event s' \<Longrightarrow> kp_starts s' \<noteq> []"
      "kp_handed s' \<noteq> [] \<Longrightarrow> kp_event s'" "distinct (kp_starts s')"
      "set (kp_starts s') = set (kp_starts s) \<or> set (kp_starts s') = insert i (set (kp_starts s))"
    and k: "task_ok (kp_event s') (set (kp_starts s')) i k"
  shows "service_started_ok s'"
proof -
  have "task_ok (kp_event s') (set (kp_starts s')) j ((kp_tasks s)[i := k] ! j)" if "j < length (kp_tasks s)" for j
  proof (cases "i = j")
    case True
    with k that show ?thesis by simp
  next
    case False
    with ok that have "task_ok (kp_event s) (set (kp_starts s)) j (kp_tasks s ! j)" by (simp add: service_started_ok_def)
    from task_ok_later [OF this s'(2) s'(6) False] False show ?thesis by simp
  qed
  with assms show ?thesis by (auto simp: service_started_ok_def)
qed

lemma tl_member: "x \<in> set (tl xs) \<Longrightarrow> x \<in> set xs"
  by (cases xs) simp_all

lemma service_ok_resume:
  assumes ok: "service_started_ok s" and i: "i < length (kp_tasks s)"
  shows "service_started_ok (resume c i out s)"
proof (cases "kp_tasks s ! i")
  case Nil
  with ok show ?thesis by (simp add: resume_def)
next
  case (Cons a k)
  have "task_ok (kp_event s) (set (kp_starts s)) i (kp_tasks s ! i)" using ok i by (simp add: service_started_ok_def)
  with Cons have t: "AwaitStart \<notin> set k" "starting (a # k) \<longrightarrow> i \<in> set (kp_starts s)"
    "\<not> kp_event s \<longrightarrow> guarded (a # k) \<and> (i \<in> set (kp_starts s) \<longrightarrow> starting (a # k))"
    by (simp_all add: task_ok_def)
  then have k: "\<not> starting k" by (cases k) (auto simp: starting_def split: act.split)
  note parts = ok [unfolded service_started_ok_def]
  have failed: "service_started_ok (fail_with i e (s\<lparr>kp_counter := n\<rparr>))" for e n
    by (rule service_ok_go_on [OF ok i, of _ "[]"]) (use parts in \<open>auto simp: fail_with_def task_ok_def\<close>)
  from failed [of _ "kp_counter s"] have failed0: "service_started_ok (fail_with i e s)" for e by simp
  show ?thesis
  proof (cases a)
    case Ensure
    show ?thesis
    proof (cases "kp_event s")
      case True
      then have "service_started_ok (go_on i k s)"
        by (intro service_ok_go_on [OF ok i, of _ k]) (use parts t k in \<open>auto simp: go_on_def task_ok_def dest: tl_member\<close>)
      with Cons Ensure True show ?thesis by (simp add: resume_def)
    next
      case False
      with t Ensure have "i \<notin> set (kp_starts s)" by simp
      with False have "service_started_ok (go_on i (AwaitStart # k) (s\<lparr>kp_starts := kp_starts s @ [i]\<rparr>))"
        by (intro service_ok_go_on [OF ok i, of _ "AwaitStart # k"]) (use parts t k in \<open>auto simp: go_on_def task_ok_def\<close>)
      with Cons Ensure False show ?thesis by (simp add: resume_def)
    qed
  next
    case AwaitStart
    have "service_started_ok (go_on i k (s\<lparr>kp_event := True\<rparr>))"
      by (intro service_ok_go_on [OF ok i, of _ k]) (use parts t k AwaitStart in \<open>auto simp: go_on_def task_ok_def dest: tl_member\<close>)
    with Cons AwaitStart failed0 show ?thesis by (simp add: resume_def split: option.split)
  next
    case (Refresh m)
    with t have ev: "kp_event s" by auto
    have "service_started_ok (go_on i k' (s\<lparr>kp_counter := n\<rparr>))" if "k' = k \<or> k' = Ensure # SendAndWait m # k" for k' n
      by (intro service_ok_go_on [OF ok i, of _ k']) (use parts t k ev that in \<open>auto simp: go_on_def task_ok_def dest: tl_member\<close>)
    with Cons Refresh failed show ?thesis by (simp add: resume_def Let_def)
  next
    case (SendAndWait m)
    with t have ev: "kp_event s" by auto
    have "service_started_ok (go_on i (AwaitAck # k) (s\<lparr>kp_handed := kp_handed s @ [(i, m)]\<rparr>))"
      by (intro service_ok_go_on [OF ok i, of _ "AwaitAck # k"]) (use parts t k ev in \<open>auto simp: go_on_def task_ok_def\<close>)
    with Cons SendAndWait show ?thesis by (simp add: resume_def)
  next
    case AwaitAck
    with t have ev: "kp_event s" by auto
    have "service_started_ok (go_on i k s)"
      by (intro service_ok_go_on [OF ok i, of _ k]) (use parts t k ev in \<open>auto simp: go_on_def task_ok_def dest: tl_member\<close>)
    with Cons AwaitAck failed0 show ?thesis by (simp add: resume_def split: option.split)
  qed
qed

lemma service_ok_spawn:
  assumes "service_started_ok s" and "AwaitStart \<notin> set k"
  shows "service_started_ok (spawn (Ensure # k) s)"
  using assms by (auto simp: service_started_ok_def spawn_def nth_append task_ok_def less_Suc_eq)

interpretation kafka_services: machine
  "\<lambda>s. s = KafkaService_init \<or> (\<exists>props. s = KafkaServiceManagementClientAsync_init c props)" "kafka_step c" service_started_ok for c
proof unfold_locales
  have init: "service_started_ok KafkaService_init" by (simp add: service_started_ok_def KafkaService_init_def)
  fix s :: "('l, 'm) kafka_service"
  show "s = KafkaService_init \<or> (\<exists>props. s = KafkaServiceManagementClientAsync_init c props) \<Longrightarrow> service_started_ok s"
    by (auto simp: KafkaServiceManagementClientAsync_init_def aio_send_instance_props_def intro!: init service_ok_spawn)
  show "kafka_step c s e t \<Longrightarrow> service_started_ok s \<Longrightarrow> service_started_ok t" for e t
    by (auto elim!: kafka_step.cases intro: service_ok_resume service_ok_spawn)
qed

text \<open>In every interleaving, no message is handed to a producer before a \<open>start\<close> of it has returned, and each coroutine
  calls \<open>start\<close> at most once.\<close>

theorem producer_started_first:
  assumes "kafka_services.reach c s"
  shows "(kp_handed s \<noteq> [] \<longrightarrow> kp_event s \<and> kp_starts s \<noteq> []) \<and> distinct (kp_starts s)
     \<and> length (kp_starts s) \<le> length (kp_tasks s)"
proof -
  have ok: "service_started_ok s" using kafka_services.reach_inv [OF assms] .
  then have "card (set (kp_starts s)) \<le> length (kp_tasks s)"
    using card_mono [of "{..<length (kp_tasks s)}" "set (kp_starts s)"] by (simp add: service_started_ok_def)
  with ok show ?thesis by (auto simp: service_started_ok_def distinct_card)
qed

section \<open>What a coroutine delivers\<close>

lemma resume_sends:
  assumes "i < length (kp_tasks s)" and "kp_tasks s ! i = map SendAndWait ms"
  shows "(resume c i None ^^ (2 * length ms)) s
     = s\<lparr>kp_handed := kp_handed s @ map (Pair i) ms, kp_tasks := (kp_tasks s)[i := []]\<rparr>"
  using assms
proof (induction ms arbitrary: s)
  case Nil
  then have "(kp_tasks s)[i := []] = kp_tasks s" by (metis list.simps(8) list_update_id)
  then show ?case by simp
next
  case (Cons m ms)
  let ?s = "s\<lparr>kp_handed := kp_handed s @ [(i, m)], kp_tasks := (kp_tasks s)[i := map SendAndWait ms]\<rparr>"
  have "resume c i None (resume c i None s) = ?s"
    using Cons.prems by (simp add: resume_def go_on_def)
  then have "(resume c i None ^^ (2 * length (m # ms))) s = (resume c i None ^^ (2 * length ms)) ?s"
    by (simp add: funpow_swap1 [symmetric] funpow_Suc_right del: funpow.simps)
  with Cons.IH [of ?s] Cons.prems show ?case by simp
qed

text \<open>A coroutine that meets no failure hands over its messages in order and ends; it starts the producer if nobody has.\<close>

theorem coroutine_delivers:
  assumes "i < length (kp_tasks s)" and "kp_tasks s ! i = Ensure # map SendAndWait ms"
  shows "(resume c i None ^^ ((if kp_event s then 1 else 2) + 2 * length ms)) s
     = s\<lparr>kp_event := True, kp_starts := kp_starts s @ (if kp_event s then [] else [i]),
         kp_handed := kp_handed s @ map (Pair i) ms, kp_tasks := (kp_tasks s)[i := []]\<rparr>"
proof (cases "kp_event s")
  case True
  let ?s = "s\<lparr>kp_tasks := (kp_tasks s)[i := map SendAndWait ms]\<rparr>"
  have "resume c i None s = ?s" using assms True by (simp add: resume_def go_on_def)
  then have "(resume c i None ^^ Suc (2 * length ms)) s = (resume c i None ^^ (2 * length ms)) ?s"
    by (simp add: funpow_Suc_right del: funpow.simps)
  with resume_sends [of i ?s ms c] assms True show ?thesis by simp
next
  case False
  let ?s = "s\<lparr>kp_event := True, kp_starts := kp_starts s @ [i], kp_tasks := (kp_tasks s)[i := map SendAndWait ms]\<rparr>"
  have "resume c i None (resume c i None s) = ?s" using assms False by (simp add: resume_def go_on_def)
  then have "(resume c i None ^^ Suc (Suc (2 * length ms))) s = (resume c i None ^^ (2 * length ms)) ?s"
    by (simp add: funpow_Suc_right del: funpow.simps)
  with resume_sends [of i ?s ms c] assms False show ?thesis by simp
qed

corollary segments_delivered:
  assumes "i = length (kp_tasks s)" and "\<not> kp_event s"
  shows "kp_handed ((resume c i None ^^ (2 + 2 * length segments)) (spawn (aio_segment_report c segments) s))
     = kp_handed s @ map (\<lambda>g. (i, kafka_topic_segment c, go_traceSegmentId g, SegmentOf g)) segments"
  using coroutine_delivers [of i "spawn (aio_segment_report c segments) s"
      "map (\<lambda>g. (kafka_topic_segment c, go_traceSegmentId g, SegmentOf g)) segments" c] assms
  by (simp add: spawn_def aio_segment_report_def comp_def)

text \<open>The check and the setting of the event are apart: the first heartbeat, when it runs while the coroutine of the
  constructor awaits \<open>start\<close>, calls \<open>start\<close> of the same producer a second time.\<close>

theorem heartbeat_starts_producer_again:
  assumes "s = spawn (aio_send_heart_beat c props) (KafkaServiceManagementClientAsync_init c props)"
  shows "kp_starts (resume c 1 out' (resume c 0 out s)) = [0, 1]
     \<and> kp_tasks (resume c 1 out' (resume c 0 out s)) ! 0 = [AwaitStart, SendAndWait (props_message c props)]"
  using assms by (simp add: spawn_def KafkaServiceManagementClientAsync_init_def KafkaService_init_def
      aio_send_instance_props_def aio_send_heart_beat_def resume_def go_on_def)

end
